(* ===== verification/Prelude.thy ===== *)
theory Prelude
  imports Main "HOL-Library.Word" "HOL-Library.Monad_Syntax"
begin

text \<open>
  Shared vocabulary of the development: the Windows scalar types the code is written in
  (\<open>HRESULT\<close>, \<open>ULONG\<close>, \<open>WCHAR\<close>), the status codes of \<open>include/cfixmsg.h\<close> and
  \<open>include/cdiagmsg.h\<close>, flag tests, the ASCII case folding of the C runtime, and the generic
  lemmas and fact collections that the component theories share.

  Conventions. A routine that may never hand control back to its caller (an unhandled
  exception, \<open>ExitThread\<close>) has a result in \<open>option\<close>, and \<open>None\<close> stands for that; state is
  passed explicitly. \<open>ASSERT\<close> and \<open>VERIFY\<close> are modelled as in a release build: the former
  is absent, the latter only evaluates its argument.
\<close>

unbundle bit_operations_syntax

section \<open>Scalar types\<close>

type_synonym hresult = "32 word"
type_synonym ulong = "32 word"
type_synonym dword = "32 word"
type_synonym ulong_ptr = "64 word"
type_synonym wchar = "16 word"
type_synonym wstring = "wchar list"

named_theorems cfix_simps \<open>evaluation rules for the operations of the components\<close>
named_theorems cfix_inv \<open>preservation of the component invariants\<close>

section \<open>HRESULT\<close>

definition FAILED :: "hresult \<Rightarrow> bool" where
  "FAILED hr \<longleftrightarrow> sint hr < 0"

abbreviation SUCCEEDED :: "hresult \<Rightarrow> bool" where
  "SUCCEEDED hr \<equiv> \<not> FAILED hr"

lemma FAILED_0 [simp]: "\<not> FAILED 0"
  by (simp add: FAILED_def)

lemma FAILED_1 [simp]: "\<not> FAILED 1"
  by (simp add: FAILED_def)

lemma FAILED_numeral [simp]: "FAILED (numeral n) \<longleftrightarrow> sint (numeral n :: hresult) < 0"
  by (simp add: FAILED_def)

abbreviation S_OK :: hresult where "S_OK \<equiv> 0"
abbreviation S_FALSE :: hresult where "S_FALSE \<equiv> 1"
abbreviation E_INVALIDARG :: hresult where "E_INVALIDARG \<equiv> 0x80070057"
abbreviation E_OUTOFMEMORY :: hresult where "E_OUTOFMEMORY \<equiv> 0x8007000E"
abbreviation E_UNEXPECTED :: hresult where "E_UNEXPECTED \<equiv> 0x8000FFFF"

abbreviation CFIX_E_MISBEHAVIOUD_GETTC_ROUTINE :: hresult
  where "CFIX_E_MISBEHAVIOUD_GETTC_ROUTINE \<equiv> 0x80048000"
abbreviation CFIX_E_UNSUPPORTED_VERSION :: hresult
  where "CFIX_E_UNSUPPORTED_VERSION \<equiv> 0x80048001"
abbreviation CFIX_E_DUP_SETUP_ROUTINE :: hresult
  where "CFIX_E_DUP_SETUP_ROUTINE \<equiv> 0x80048002"
abbreviation CFIX_E_DUP_TEARDOWN_ROUTINE :: hresult
  where "CFIX_E_DUP_TEARDOWN_ROUTINE \<equiv> 0x80048003"
abbreviation CFIX_E_UNKNOWN_ENTRY_TYPE :: hresult
  where "CFIX_E_UNKNOWN_ENTRY_TYPE \<equiv> 0x80048004"
abbreviation CFIX_E_FIXTURE_NAME_TOO_LONG :: hresult
  where "CFIX_E_FIXTURE_NAME_TOO_LONG \<equiv> 0x80048005"
abbreviation CFIX_E_TESTRUN_ABORTED :: hresult
  where "CFIX_E_TESTRUN_ABORTED \<equiv> 0x80048008"
abbreviation CFIX_E_UNKNOWN_THREAD :: hresult
  where "CFIX_E_UNKNOWN_THREAD \<equiv> 0x80048009"
abbreviation CFIX_E_SETUP_ROUTINE_FAILED :: hresult
  where "CFIX_E_SETUP_ROUTINE_FAILED \<equiv> 0x8004800B"
abbreviation CFIX_E_TEARDOWN_ROUTINE_FAILED :: hresult
  where "CFIX_E_TEARDOWN_ROUTINE_FAILED \<equiv> 0x8004800C"
abbreviation CFIX_E_TEST_ROUTINE_FAILED :: hresult
  where "CFIX_E_TEST_ROUTINE_FAILED \<equiv> 0x8004800E"
abbreviation CFIX_E_DUP_BEFORE_ROUTINE :: hresult
  where "CFIX_E_DUP_BEFORE_ROUTINE \<equiv> 0x8004800F"
abbreviation CFIX_E_DUP_AFTER_ROUTINE :: hresult
  where "CFIX_E_DUP_AFTER_ROUTINE \<equiv> 0x80048010"
abbreviation CFIX_E_BEFORE_ROUTINE_FAILED :: hresult
  where "CFIX_E_BEFORE_ROUTINE_FAILED \<equiv> 0x80048011"
abbreviation CFIX_E_AFTER_ROUTINE_FAILED :: hresult
  where "CFIX_E_AFTER_ROUTINE_FAILED \<equiv> 0x80048012"
abbreviation CFIX_E_TOO_MANY_CHILD_THREADS :: hresult
  where "CFIX_E_TOO_MANY_CHILD_THREADS \<equiv> 0x80048015"
abbreviation CFIX_E_FILAMENT_JOIN_TIMEOUT :: hresult
  where "CFIX_E_FILAMENT_JOIN_TIMEOUT \<equiv> 0x80048016"
abbreviation CFIX_E_DEFAULT_FILAMENT_CONFLICT :: hresult
  where "CFIX_E_DEFAULT_FILAMENT_CONFLICT \<equiv> 0x80048017"
abbreviation CFIX_E_INVALID_FIXTURE_FLAG :: hresult
  where "CFIX_E_INVALID_FIXTURE_FLAG \<equiv> 0x80048018"
abbreviation CFIX_E_UNSUPPORTED_FIXTURE_REVISION :: hresult
  where "CFIX_E_UNSUPPORTED_FIXTURE_REVISION \<equiv> 0x80048019"

abbreviation CDIAG_E_BUFFER_TOO_SMALL :: hresult
  where "CDIAG_E_BUFFER_TOO_SMALL \<equiv> 0x80048101"
abbreviation CDIAG_E_DLL_NOT_REGISTERED :: hresult
  where "CDIAG_E_DLL_NOT_REGISTERED \<equiv> 0x80048103"
abbreviation CDIAG_E_UNKNOWN_MESSAGE :: hresult
  where "CDIAG_E_UNKNOWN_MESSAGE \<equiv> 0x80048104"
abbreviation CDIAG_E_ALREADY_REGISTERED :: hresult
  where "CDIAG_E_ALREADY_REGISTERED \<equiv> 0x80048105"
abbreviation CDIAG_E_CHAINING_NOT_SUPPORTED :: hresult
  where "CDIAG_E_CHAINING_NOT_SUPPORTED \<equiv> 0x80048106"

text \<open>\<open>HRESULT_FROM_WIN32\<close>: positive Win32 codes get severity and facility bits.\<close>

definition HRESULT_FROM_WIN32 :: "dword \<Rightarrow> hresult" where
  "HRESULT_FROM_WIN32 x =
     (if sint x \<le> 0 then x else (x AND 0xFFFF) OR 0x80070000)"

lemma HRESULT_FROM_WIN32_0: "HRESULT_FROM_WIN32 x = 0 \<longleftrightarrow> x = 0"
  by (auto simp: HRESULT_FROM_WIN32_def or_eq_0_iff)

lemma FAILED_HRESULT_FROM_WIN32:
  assumes "x \<noteq> 0"
  shows "FAILED (HRESULT_FROM_WIN32 x)"
proof (cases "sint x \<le> 0")
  case True
  moreover have "sint x \<noteq> 0" using assms by (simp add: signed_eq_0_iff)
  ultimately show ?thesis by (simp add: HRESULT_FROM_WIN32_def FAILED_def)
next
  case False
  have "bit ((x AND 0xFFFF) OR 0x80070000 :: 32 word) 31" by (simp add: bit_simps)
  then have "sint ((x AND 0xFFFF) OR 0x80070000 :: 32 word) < 0"
    by (simp add: bit_last_iff [symmetric])
  with False show ?thesis by (simp add: HRESULT_FROM_WIN32_def FAILED_def)
qed

section \<open>Flags\<close>

definition CfixpFlagOn :: "ulong \<Rightarrow> ulong \<Rightarrow> bool" where
  "CfixpFlagOn Flags FlagToTest \<longleftrightarrow> Flags AND FlagToTest \<noteq> 0"

lemma CfixpFlagOn_0 [simp]: "\<not> CfixpFlagOn 0 f"
  by (simp add: CfixpFlagOn_def)

section \<open>Characters\<close>

text \<open>
  Wide literals are written \<open>wide ''abc''\<close>; a \<open>wstring\<close> holds the characters before the
  terminating NUL. \<open>towlower\<close> and \<open>_wcsicmp\<close> are those of the C locale, the locale of a
  process that never calls \<open>setlocale\<close>: they fold \<open>A\<close> to \<open>Z\<close> only.
\<close>

definition wide :: "string \<Rightarrow> wstring" where
  "wide cs = map (\<lambda>c. of_nat (of_char c)) cs"

definition towlower :: "wchar \<Rightarrow> wchar" where
  "towlower c = (if 0x41 \<le> c \<and> c \<le> 0x5A then c + 0x20 else c)"

definition wcsicmp_eq :: "wstring \<Rightarrow> wstring \<Rightarrow> bool" where
  "wcsicmp_eq a b \<longleftrightarrow> map towlower a = map towlower b"

lemma wcsicmp_eq_refl [simp]: "wcsicmp_eq a a"
  by (simp add: wcsicmp_eq_def)

lemma wcsicmp_eq_sym: "wcsicmp_eq a b \<longleftrightarrow> wcsicmp_eq b a"
  by (auto simp: wcsicmp_eq_def)

lemma wcsicmp_eq_trans: "wcsicmp_eq a b \<Longrightarrow> wcsicmp_eq b c \<Longrightarrow> wcsicmp_eq a c"
  by (simp add: wcsicmp_eq_def)

lemma wide_Nil [simp]: "wide [] = []"
  by (simp add: wide_def)

lemma wide_Cons [simp]: "wide (c # cs) = of_nat (of_char c) # wide cs"
  by (simp add: wide_def)

section \<open>Generic lemmas\<close>

lemma bind_Some_iff:
  "Option.bind m f = Some y \<longleftrightarrow> (\<exists>x. m = Some x \<and> f x = Some y)"
  by (cases m) auto

end
