(* ===== verification/ExecIface.thy ===== *)
theory ExecIface
  imports Prelude
begin

text \<open>
  The object interfaces of \<open>include/cfixapi.h\<close> and \<open>include/cfixaux.h\<close>: fixtures and test
  cases, execution events, the execution context (the observer that is told of every step of a
  run and decides how failures are handled) and the test module (the code that runs setup,
  teardown, before, after and test routines).

  A C interface with function pointers becomes a record of functions over a state \<open>'s\<close>; the
  state stands for everything the implementations behind the pointers keep. A routine of a
  test module runs user code and may never return, so its result is in \<open>option\<close>; the callbacks
  of a context always return. The NULL tests of \<open>CfixIsValidContext\<close> are collected in one
  field. A pointer to a test case is its fixture with its index in \<open>TestCases\<close>, which is what
  the back pointer \<open>Fixture\<close> of \<open>CFIX_TEST_CASE\<close> gives the code.
\<close>

datatype disposition = CfixContinue | CfixBreak | CfixBreakAlways | CfixAbort

datatype event_type =
    CfixEventFailedAssertion
  | CfixEventUncaughtException
  | CfixEventInconclusiveness
  | CfixEventLog

datatype event_info =
    UncaughtException dword
  | FailedAssertion "wstring option" "wstring option" ulong wstring dword
  | Inconclusiveness wstring
  | Log wstring

fun event_type_of :: "event_info \<Rightarrow> event_type" where
  "event_type_of (UncaughtException _) = CfixEventUncaughtException"
| "event_type_of (FailedAssertion _ _ _ _ _) = CfixEventFailedAssertion"
| "event_type_of (Inconclusiveness _) = CfixEventInconclusiveness"
| "event_type_of (Log _) = CfixEventLog"

record cfix_event =
  EventInfo :: event_info
  FrameCount :: nat

record thread_id =
  ThreadId :: ulong
  MainThreadId :: ulong

definition CfixpInitializeThreadId :: "ulong \<Rightarrow> ulong \<Rightarrow> thread_id" where
  "CfixpInitializeThreadId MainOsThreadId OsThreadId =
     \<lparr>ThreadId = OsThreadId, MainThreadId = MainOsThreadId\<rparr>"

record test_case =
  TestCaseName :: wstring
  TestCaseRoutine :: ulong_ptr

record fixture =
  FixtureName :: wstring
  SetupRoutine :: ulong_ptr
  TeardownRoutine :: ulong_ptr
  BeforeRoutine :: ulong_ptr
  AfterRoutine :: ulong_ptr
  FixtureReserved :: ulong_ptr
  ApiType :: ulong
  FixtureFlags :: ulong
  ModuleName :: wstring
  TestCases :: "test_case list"

abbreviation TestCaseCount :: "fixture \<Rightarrow> nat" where
  "TestCaseCount fx \<equiv> length (TestCases fx)"

type_synonym test_case_ptr = "fixture \<times> nat"

definition CFIX_TEST_CONTEXT_VERSION :: ulong where
  "CFIX_TEST_CONTEXT_VERSION = 0x00010001"

record 's exec_context =
  ContextVersion :: ulong
  ContextRoutinesPresent :: bool
  ReportEvent :: "thread_id \<Rightarrow> cfix_event \<Rightarrow> 's \<Rightarrow> disposition \<times> 's"
  QueryDefaultDisposition :: "event_type \<Rightarrow> 's \<Rightarrow> disposition \<times> 's"
  BeforeFixtureStart :: "thread_id \<Rightarrow> fixture \<Rightarrow> 's \<Rightarrow> hresult \<times> 's"
  AfterFixtureFinish :: "thread_id \<Rightarrow> fixture \<Rightarrow> bool \<Rightarrow> 's \<Rightarrow> 's"
  BeforeTestCaseStart :: "thread_id \<Rightarrow> test_case_ptr \<Rightarrow> 's \<Rightarrow> hresult \<times> 's"
  AfterTestCaseFinish :: "thread_id \<Rightarrow> test_case_ptr \<Rightarrow> bool \<Rightarrow> 's \<Rightarrow> 's"
  CreateChildThread :: "thread_id \<Rightarrow> 's \<Rightarrow> (hresult \<times> ulong_ptr) \<times> 's"
  BeforeChildThreadStart :: "thread_id \<Rightarrow> ulong_ptr \<Rightarrow> 's \<Rightarrow> 's"
  AfterChildThreadFinish :: "thread_id \<Rightarrow> ulong_ptr \<Rightarrow> 's \<Rightarrow> 's"
  OnUnhandledException :: "thread_id \<Rightarrow> dword \<Rightarrow> 's \<Rightarrow> 's"
  ContextReference :: "'s \<Rightarrow> 's"
  ContextDereference :: "'s \<Rightarrow> 's"

definition CfixIsValidContext :: "'s exec_context \<Rightarrow> bool" where
  "CfixIsValidContext Context \<longleftrightarrow>
     ContextVersion Context = CFIX_TEST_CONTEXT_VERSION \<and> ContextRoutinesPresent Context"

record 's test_module =
  RunTestCase ::
    "test_case_ptr \<Rightarrow> 's exec_context \<Rightarrow> ulong \<Rightarrow> 's \<Rightarrow> (hresult \<times> 's) option"
  Setup :: "fixture \<Rightarrow> 's exec_context \<Rightarrow> ulong \<Rightarrow> 's \<Rightarrow> (hresult \<times> 's) option"
  Teardown :: "fixture \<Rightarrow> 's exec_context \<Rightarrow> ulong \<Rightarrow> 's \<Rightarrow> (hresult \<times> 's) option"
  Before :: "fixture \<Rightarrow> 's exec_context \<Rightarrow> ulong \<Rightarrow> 's \<Rightarrow> (hresult \<times> 's) option"
  After :: "fixture \<Rightarrow> 's exec_context \<Rightarrow> ulong \<Rightarrow> 's \<Rightarrow> (hresult \<times> 's) option"
  ModuleReference :: "'s \<Rightarrow> 's"
  ModuleDereference :: "'s \<Rightarrow> 's"

section \<open>Flags of the interface\<close>

abbreviation CFIX_TEST_FLAG_CAPTURE_STACK_TRACES :: ulong
  where "CFIX_TEST_FLAG_CAPTURE_STACK_TRACES \<equiv> 1"
abbreviation CFIX_TEST_FLAG_PROVIDE_DEFAULT_FILAMENT :: ulong
  where "CFIX_TEST_FLAG_PROVIDE_DEFAULT_FILAMENT \<equiv> 2"
abbreviation CFIX_FIXTURE_USES_ANONYMOUS_THREADS :: ulong
  where "CFIX_FIXTURE_USES_ANONYMOUS_THREADS \<equiv> 1"

abbreviation CFIX_FIXTURE_EXECUTION_SHORTCIRCUIT_FIXTURE_ON_FAILURE :: ulong
  where "CFIX_FIXTURE_EXECUTION_SHORTCIRCUIT_FIXTURE_ON_FAILURE \<equiv> 1"
abbreviation CFIX_FIXTURE_EXECUTION_SHORTCIRCUIT_RUN_ON_SETUP_FAILURE :: ulong
  where "CFIX_FIXTURE_EXECUTION_SHORTCIRCUIT_RUN_ON_SETUP_FAILURE \<equiv> 2"
abbreviation CFIX_FIXTURE_EXECUTION_ESCALATE_FIXTURE_FAILUES :: ulong
  where "CFIX_FIXTURE_EXECUTION_ESCALATE_FIXTURE_FAILUES \<equiv> 4"
abbreviation CFIX_FIXTURE_EXECUTION_CAPTURE_STACK_TRACES :: ulong
  where "CFIX_FIXTURE_EXECUTION_CAPTURE_STACK_TRACES \<equiv> 256"

definition CFIX_FIXTURE_EXECUTION_SHORTCIRCUIT_RUN_ON_FAILURE :: ulong where
  "CFIX_FIXTURE_EXECUTION_SHORTCIRCUIT_RUN_ON_FAILURE =
     CFIX_FIXTURE_EXECUTION_SHORTCIRCUIT_FIXTURE_ON_FAILURE OR
     CFIX_FIXTURE_EXECUTION_SHORTCIRCUIT_RUN_ON_SETUP_FAILURE OR
     CFIX_FIXTURE_EXECUTION_ESCALATE_FIXTURE_FAILUES"

end
