(* ===== verification/TsExec.thy ===== *)
theory TsExec
  imports ExecIface
begin

text \<open>
  The fixture execution action (\<open>cfix/cfix/tsexecaction.c\<close>): runs the setup routine of a
  fixture, its test cases (each between the before and after routines) and its teardown
  routine, and tells the execution context about every step.

  The action is a record; \<open>IsDebuggerPresent\<close> is a predicate \<open>dbg\<close> on the state. The loop over
  the test cases walks the list of indices still to come. Its result is \<open>Inl hr\<close> when the code
  leaves the whole routine from inside the loop with \<open>return Hr\<close> (a fatal error), and
  \<open>Inr (hr, short_circuit)\<close> when the loop ends.
\<close>

section \<open>The action and its flags\<close>

record 's tsexec_action =
  ActionSignatureOk :: bool
  ActionReferenceCount :: int
  ActionFixture :: fixture
  ActionModule :: "'s test_module"
  ActionFlags :: ulong
  TestCaseIndex :: ulong

definition CfixsGetTestFlagsFixtureExecutionAction ::
    "('s \<Rightarrow> bool) \<Rightarrow> 's tsexec_action \<Rightarrow> 's \<Rightarrow> ulong" where
  "CfixsGetTestFlagsFixtureExecutionAction dbg Action s =
     (let Flags =
            (if dbg s then 0
             else if CfixpFlagOn (ActionFlags Action) CFIX_FIXTURE_EXECUTION_CAPTURE_STACK_TRACES
             then CFIX_TEST_FLAG_CAPTURE_STACK_TRACES else 0)
      in if CfixpFlagOn (FixtureFlags (ActionFixture Action)) CFIX_FIXTURE_USES_ANONYMOUS_THREADS
         then Flags OR CFIX_TEST_FLAG_PROVIDE_DEFAULT_FILAMENT else Flags)"

section \<open>Running one test case\<close>

definition CfixsRunTestCaseFixtureExecutionAction ::
    "('s \<Rightarrow> bool) \<Rightarrow> 's tsexec_action \<Rightarrow> test_case_ptr \<Rightarrow> 's exec_context \<Rightarrow> 's \<Rightarrow>
       (hresult \<times> 's) option" where
  "CfixsRunTestCaseFixtureExecutionAction dbg Action TestCase Context s =
     do {
       (Hr, s) \<leftarrow> Before (ActionModule Action) (ActionFixture Action) Context
                    (CfixsGetTestFlagsFixtureExecutionAction dbg Action s) s;
       if FAILED Hr then Some (Hr, s)
       else do {
         (HrTestCase, s) \<leftarrow> RunTestCase (ActionModule Action) TestCase Context
                              (CfixsGetTestFlagsFixtureExecutionAction dbg Action s) s;
         (Hr, s) \<leftarrow> After (ActionModule Action) (ActionFixture Action) Context
                      (CfixsGetTestFlagsFixtureExecutionAction dbg Action s) s;
         if FAILED Hr
         then (if FAILED HrTestCase then Some (HrTestCase, s) else Some (Hr, s))
         else Some (HrTestCase, s)
       }
     }"

section \<open>Running the fixture\<close>

text \<open>
  What the loop does with the result of a test case: \<open>None\<close> for a fatal error, otherwise the
  result to go on with and whether the fixture is short-circuited.
\<close>

definition test_case_verdict :: "ulong \<Rightarrow> hresult \<Rightarrow> (hresult \<times> bool) option" where
  "test_case_verdict Flags Hr =
     (if Hr = CFIX_E_BEFORE_ROUTINE_FAILED \<or> Hr = CFIX_E_AFTER_ROUTINE_FAILED \<or>
         Hr = CFIX_E_TEST_ROUTINE_FAILED
      then if CfixpFlagOn Flags CFIX_FIXTURE_EXECUTION_SHORTCIRCUIT_FIXTURE_ON_FAILURE
           then if CfixpFlagOn Flags CFIX_FIXTURE_EXECUTION_ESCALATE_FIXTURE_FAILUES
                then Some (Hr, True) else Some (S_OK, True)
           else Some (S_OK, False)
      else if Hr = CFIX_E_TESTRUN_ABORTED then Some (Hr, True)
      else if FAILED Hr then None
      else Some (Hr, False))"

fun run_test_cases ::
    "('s \<Rightarrow> bool) \<Rightarrow> 's tsexec_action \<Rightarrow> 's exec_context \<Rightarrow> thread_id \<Rightarrow> nat list \<Rightarrow>
       hresult \<Rightarrow> 's \<Rightarrow> ((hresult + hresult \<times> bool) \<times> 's) option" where
  "run_test_cases dbg Action Context Tid [] Hr s = Some (Inr (Hr, False), s)"
| "run_test_cases dbg Action Context Tid (Index # rest) Hr s =
     (if TestCaseIndex Action \<noteq> -1 \<and> TestCaseIndex Action \<noteq> of_nat Index
      then run_test_cases dbg Action Context Tid rest Hr s
      else
        let (Hr, s) = BeforeTestCaseStart Context Tid (ActionFixture Action, Index) s
        in if FAILED Hr then Some (Inr (Hr, True), s)
           else do {
             (Hr, s) \<leftarrow> CfixsRunTestCaseFixtureExecutionAction dbg Action
                          (ActionFixture Action, Index) Context s;
             (case test_case_verdict (ActionFlags Action) Hr of
                None \<Rightarrow> Some (Inl Hr, s)
              | Some (Hr', FixtureShortCircuit) \<Rightarrow>
                  let s = AfterTestCaseFinish Context Tid (ActionFixture Action, Index)
                            (SUCCEEDED Hr) s
                  in if FixtureShortCircuit then Some (Inr (Hr', True), s)
                     else run_test_cases dbg Action Context Tid rest Hr' s)
           })"

definition CfixsRunFixtureExecutionAction ::
    "('s \<Rightarrow> bool) \<Rightarrow> ulong \<Rightarrow> 's tsexec_action \<Rightarrow> 's exec_context \<Rightarrow> 's \<Rightarrow>
       (hresult \<times> 's) option" where
  "CfixsRunFixtureExecutionAction dbg CurrentThreadId Action Context s =
     (let Tid = CfixpInitializeThreadId CurrentThreadId CurrentThreadId;
          Fixture = ActionFixture Action;
          Flags = ActionFlags Action
      in if \<not> CfixIsValidContext Context \<or> \<not> ActionSignatureOk Action then Some (E_INVALIDARG, s)
      else
        let (Hr, s) = BeforeFixtureStart Context Tid Fixture s
        in if FAILED Hr then Some (Hr, s)
        else do {
          (Hr, s) \<leftarrow> Setup (ActionModule Action) Fixture Context
                       (CfixsGetTestFlagsFixtureExecutionAction dbg Action s) s;
          (if Hr = CFIX_E_SETUP_ROUTINE_FAILED \<or> Hr = CFIX_E_TESTRUN_ABORTED
           then
             let Hr = (if CfixpFlagOn Flags
                            CFIX_FIXTURE_EXECUTION_SHORTCIRCUIT_RUN_ON_SETUP_FAILURE
                       then Hr else S_OK)
             in Some (Hr, AfterFixtureFinish Context Tid Fixture False s)
           else if FAILED Hr then Some (Hr, s)
           else do {
             (r, s) \<leftarrow> run_test_cases dbg Action Context Tid [0..<TestCaseCount Fixture] Hr s;
             (case r of
                Inl Hr \<Rightarrow> Some (Hr, s)
              | Inr (Hr, FixtureShortCircuit) \<Rightarrow>
                  do {
                    (TeardownHr, s) \<leftarrow> Teardown (ActionModule Action) Fixture Context
                                (CfixsGetTestFlagsFixtureExecutionAction dbg Action s) s;
                    (if FAILED TeardownHr
                     then
                       let Hr = (if CfixpFlagOn Flags
                                      CFIX_FIXTURE_EXECUTION_ESCALATE_FIXTURE_FAILUES
                                 then TeardownHr else Hr)
                       in Some (Hr, AfterFixtureFinish Context Tid Fixture False s)
                     else
                       Some (Hr, AfterFixtureFinish Context Tid Fixture
                                   (\<not> FixtureShortCircuit) s))
                  })
           })
        })"

section \<open>Routines that return\<close>

text \<open>A module all of whose routines return; then so does the action.\<close>

definition routines_return :: "'s test_module \<Rightarrow> bool" where
  "routines_return m \<longleftrightarrow>
     (\<forall>tc ctx fl s. RunTestCase m tc ctx fl s \<noteq> None) \<and>
     (\<forall>fx ctx fl s. Setup m fx ctx fl s \<noteq> None \<and> Teardown m fx ctx fl s \<noteq> None \<and>
        Before m fx ctx fl s \<noteq> None \<and> After m fx ctx fl s \<noteq> None)"

lemma routines_returnD:
  assumes "routines_return m"
  shows "\<exists>hr s'. RunTestCase m tc ctx fl s = Some (hr, s')"
    "\<exists>hr s'. Setup m fx ctx fl s = Some (hr, s')"
    "\<exists>hr s'. Teardown m fx ctx fl s = Some (hr, s')"
    "\<exists>hr s'. Before m fx ctx fl s = Some (hr, s')"
    "\<exists>hr s'. After m fx ctx fl s = Some (hr, s')"
  using assms by (cases tc; simp add: routines_return_def)+

lemma run_case_returns:
  assumes "routines_return (ActionModule Action)"
  shows "\<exists>hr s'. CfixsRunTestCaseFixtureExecutionAction dbg Action tc ctx s = Some (hr, s')"
proof -
  let ?fl = "CfixsGetTestFlagsFixtureExecutionAction dbg Action"
  from routines_returnD(4) [OF assms] obtain hb s1 where
    b: "Before (ActionModule Action) (ActionFixture Action) ctx (?fl s) s = Some (hb, s1)" by blast
  from routines_returnD(1) [OF assms] obtain ht s2 where
    t: "RunTestCase (ActionModule Action) tc ctx (?fl s1) s1 = Some (ht, s2)" by blast
  from routines_returnD(5) [OF assms] obtain ha s3 where
    a: "After (ActionModule Action) (ActionFixture Action) ctx (?fl s2) s2 = Some (ha, s3)" by blast
  from b t a show ?thesis by (simp add: CfixsRunTestCaseFixtureExecutionAction_def)
qed

lemma run_test_cases_returns:
  assumes "routines_return (ActionModule Action)"
  shows "\<exists>r s'. run_test_cases dbg Action ctx tid idxs hr s = Some (r, s')"
proof (induction idxs arbitrary: hr s)
  case (Cons i idxs)
  obtain h1 s1 where b: "BeforeTestCaseStart ctx tid (ActionFixture Action, i) s = (h1, s1)"
    by (cases "BeforeTestCaseStart ctx tid (ActionFixture Action, i) s")
  from run_case_returns [OF assms] obtain h2 s2 where
    r: "CfixsRunTestCaseFixtureExecutionAction dbg Action (ActionFixture Action, i) ctx s1 =
          Some (h2, s2)" by blast
  show ?case
  proof (cases "test_case_verdict (ActionFlags Action) h2")
    case None
    with Cons b r show ?thesis by simp
  next
    case (Some v)
    with Cons b r show ?thesis by (cases v) (simp add: Let_def)
  qed
qed simp

lemma fixture_run_returns:
  assumes "routines_return (ActionModule Action)"
  shows "CfixsRunFixtureExecutionAction dbg tid Action ctx s \<noteq> None"
proof (cases "\<not> CfixIsValidContext ctx \<or> \<not> ActionSignatureOk Action")
  case False
  let ?t = "CfixpInitializeThreadId tid tid"
  let ?fx = "ActionFixture Action"
  let ?fl = "CfixsGetTestFlagsFixtureExecutionAction dbg Action"
  obtain h1 s1 where b: "BeforeFixtureStart ctx ?t ?fx s = (h1, s1)"
    by (cases "BeforeFixtureStart ctx ?t ?fx s")
  from routines_returnD(2) [OF assms] obtain h2 s2 where
    u: "Setup (ActionModule Action) ?fx ctx (?fl s1) s1 = Some (h2, s2)" by blast
  from run_test_cases_returns [OF assms] obtain r s3 where
    l: "run_test_cases dbg Action ctx ?t [0..<TestCaseCount ?fx] h2 s2 = Some (r, s3)" by blast
  from routines_returnD(3) [OF assms] obtain h4 s4 where
    d: "Teardown (ActionModule Action) ?fx ctx (?fl s3) s3 = Some (h4, s4)" by blast
  from False b u l d show ?thesis
    by (cases r) (auto simp: CfixsRunFixtureExecutionAction_def Let_def)
qed (simp add: CfixsRunFixtureExecutionAction_def)

section \<open>State that every callback keeps\<close>

definition keeps :: "('s \<Rightarrow> bool) \<Rightarrow> 's test_module \<Rightarrow> 's exec_context \<Rightarrow> bool" where
  "keeps I m ctx \<longleftrightarrow>
     (\<forall>s. I s \<longrightarrow>
        (\<forall>t fx. I (snd (BeforeFixtureStart ctx t fx s))) \<and>
        (\<forall>t tc. I (snd (BeforeTestCaseStart ctx t tc s))) \<and>
        (\<forall>t fx b. I (AfterFixtureFinish ctx t fx b s)) \<and>
        (\<forall>t tc b. I (AfterTestCaseFinish ctx t tc b s)) \<and>
        (\<forall>tc fl. pred_option (\<lambda>r. I (snd r)) (RunTestCase m tc ctx fl s)) \<and>
        (\<forall>fx fl. pred_option (\<lambda>r. I (snd r)) (Setup m fx ctx fl s) \<and>
           pred_option (\<lambda>r. I (snd r)) (Teardown m fx ctx fl s) \<and>
           pred_option (\<lambda>r. I (snd r)) (Before m fx ctx fl s) \<and>
           pred_option (\<lambda>r. I (snd r)) (After m fx ctx fl s)))"

lemma keepsD:
  assumes "keeps I m ctx" and "I s"
  shows "BeforeFixtureStart ctx t fx s = (hr, s') \<Longrightarrow> I s'"
    "BeforeTestCaseStart ctx t tc s = (hr, s') \<Longrightarrow> I s'"
    "I (AfterFixtureFinish ctx t fx b s)" "I (AfterTestCaseFinish ctx t tc b s)"
    "RunTestCase m tc ctx fl s = Some (hr, s') \<Longrightarrow> I s'"
    "Setup m fx ctx fl s = Some (hr, s') \<Longrightarrow> I s'"
    "Teardown m fx ctx fl s = Some (hr, s') \<Longrightarrow> I s'"
    "Before m fx ctx fl s = Some (hr, s') \<Longrightarrow> I s'"
    "After m fx ctx fl s = Some (hr, s') \<Longrightarrow> I s'"
  using assms unfolding keeps_def
  by (metis snd_conv, metis snd_conv, metis, metis, (metis snd_conv option.pred_inject(2))+)

text \<open>The part of it that a run of the test cases needs.\<close>

definition keeps_cases :: "('s \<Rightarrow> bool) \<Rightarrow> 's test_module \<Rightarrow> 's exec_context \<Rightarrow> bool" where
  "keeps_cases I m ctx \<longleftrightarrow>
     (\<forall>s. I s \<longrightarrow>
        (\<forall>t tc. I (snd (BeforeTestCaseStart ctx t tc s))) \<and>
        (\<forall>t tc b. I (AfterTestCaseFinish ctx t tc b s)) \<and>
        (\<forall>tc fl. pred_option (\<lambda>r. I (snd r)) (RunTestCase m tc ctx fl s)) \<and>
        (\<forall>fx fl. pred_option (\<lambda>r. I (snd r)) (Before m fx ctx fl s) \<and>
           pred_option (\<lambda>r. I (snd r)) (After m fx ctx fl s)))"

lemma keeps_casesD:
  assumes "keeps_cases I m ctx" and "I s"
  shows "BeforeTestCaseStart ctx t tc s = (hr, s') \<Longrightarrow> I s'"
    "I (AfterTestCaseFinish ctx t tc b s)"
    "RunTestCase m tc ctx fl s = Some (hr, s') \<Longrightarrow> I s'"
    "Before m fx ctx fl s = Some (hr, s') \<Longrightarrow> I s'"
    "After m fx ctx fl s = Some (hr, s') \<Longrightarrow> I s'"
  using assms unfolding keeps_cases_def
  by (metis snd_conv, metis, (metis snd_conv option.pred_inject(2))+)

lemma keeps_keeps_cases: "keeps I m ctx \<Longrightarrow> keeps_cases I m ctx"
  by (simp add: keeps_def keeps_cases_def)

lemma run_case_keeps:
  assumes "keeps_cases I (ActionModule act) ctx" and "I s"
    and "CfixsRunTestCaseFixtureExecutionAction dbg act tc ctx s = Some (hr, s')"
  shows "I s'"
proof -
  let ?m = "ActionModule act" and ?fl = "CfixsGetTestFlagsFixtureExecutionAction dbg act"
  from assms(3) obtain hb s1 where b: "Before ?m (ActionFixture act) ctx (?fl s) s = Some (hb, s1)"
    by (auto simp: CfixsRunTestCaseFixtureExecutionAction_def bind_Some_iff)
  note k1 = keeps_casesD(4) [OF assms(1,2) b]
  show ?thesis
  proof (cases "FAILED hb")
    case True
    with assms(3) b k1 show ?thesis by (simp add: CfixsRunTestCaseFixtureExecutionAction_def)
  next
    case False
    with assms(3) b obtain ht s2 ha where
      t: "RunTestCase ?m tc ctx (?fl s1) s1 = Some (ht, s2)"
      and a: "After ?m (ActionFixture act) ctx (?fl s2) s2 = Some (ha, s')"
      by (auto simp: CfixsRunTestCaseFixtureExecutionAction_def bind_Some_iff split: if_splits)
    show ?thesis by (rule keeps_casesD(5) [OF assms(1) keeps_casesD(3) [OF assms(1) k1 t] a])
  qed
qed

lemma run_test_cases_keeps:
  assumes "keeps_cases I (ActionModule act) ctx"
  shows "I s \<Longrightarrow> run_test_cases dbg act ctx tid idxs hr s = Some (r, s') \<Longrightarrow> I s'"
proof (induction idxs arbitrary: hr s)
  case (Cons i idxs)
  obtain hb s1 where b: "BeforeTestCaseStart ctx tid (ActionFixture act, i) s = (hb, s1)"
    by (cases "BeforeTestCaseStart ctx tid (ActionFixture act, i) s")
  note k1 = keeps_casesD(1) [OF assms Cons.prems(1) b]
  show ?case
  proof (cases "(TestCaseIndex act \<noteq> -1 \<and> TestCaseIndex act \<noteq> of_nat i) \<or> FAILED hb")
    case True
    with Cons b k1 show ?thesis by (auto split: if_splits)
  next
    case False
    with Cons.prems(2) b obtain h1 s2 where run:
      "CfixsRunTestCaseFixtureExecutionAction dbg act (ActionFixture act, i) ctx s1 = Some (h1, s2)"
      by (auto simp: bind_Some_iff split: if_splits)
    note k2 = run_case_keeps [OF assms k1 run]
    let ?s3 = "AfterTestCaseFinish ctx tid (ActionFixture act, i) (SUCCEEDED h1) s2"
    note k3 = keeps_casesD(2) [OF assms k2]
    show ?thesis
    proof (cases "test_case_verdict (ActionFlags act) h1")
      case None
      with Cons.prems(2) False b run k2 show ?thesis by auto
    next
      case (Some v)
      obtain h2 stop where v: "v = (h2, stop)" by (cases v)
      show ?thesis
      proof (cases stop)
        case True
        with Cons.prems(2) False b run Some v k3 show ?thesis by (auto simp: Let_def)
      next
        case goon: False
        with Cons.prems(2) False b run Some v have
          "run_test_cases dbg act ctx tid idxs h2 ?s3 = Some (r, s')"
          by (auto simp: Let_def split: if_splits)
        with Cons.IH k3 show ?thesis by blast
      qed
    qed
  qed
qed simp

lemma run_test_cases_fatal:
  "run_test_cases dbg act ctx tid idxs hr s = Some (Inl h, s') \<Longrightarrow> FAILED h"
proof (induction idxs arbitrary: hr s)
  case (Cons i idxs)
  obtain hb s1 where b: "BeforeTestCaseStart ctx tid (ActionFixture act, i) s = (hb, s1)"
    by (cases "BeforeTestCaseStart ctx tid (ActionFixture act, i) s")
  show ?case
  proof (cases "(TestCaseIndex act \<noteq> -1 \<and> TestCaseIndex act \<noteq> of_nat i) \<or> FAILED hb")
    case True
    with Cons b show ?thesis by (auto split: if_splits)
  next
    case False
    with Cons.prems b obtain h1 s2 where run:
      "CfixsRunTestCaseFixtureExecutionAction dbg act (ActionFixture act, i) ctx s1 = Some (h1, s2)"
      by (auto simp: bind_Some_iff split: if_splits)
    show ?thesis
    proof (cases "test_case_verdict (ActionFlags act) h1")
      case None
      with Cons.prems False b run have "h = h1" by auto
      with None show ?thesis by (auto simp: test_case_verdict_def split: if_splits)
    next
      case (Some v)
      with Cons.prems False b run Cons.IH show ?thesis
        by (cases v) (auto simp: Let_def split: if_splits)
    qed
  qed
qed simp

lemma fixture_run_keeps:
  assumes "keeps I (ActionModule act) ctx" and "I s"
    and "CfixsRunFixtureExecutionAction dbg tid act ctx s = Some (hr, s')"
  shows "I s'"
proof (cases "\<not> CfixIsValidContext ctx \<or> \<not> ActionSignatureOk act")
  case True
  with assms show ?thesis by (simp add: CfixsRunFixtureExecutionAction_def)
next
  case ok: False
  let ?t = "CfixpInitializeThreadId tid tid" and ?fx = "ActionFixture act"
  let ?m = "ActionModule act" and ?fl = "CfixsGetTestFlagsFixtureExecutionAction dbg act"
  obtain hb s1 where b: "BeforeFixtureStart ctx ?t ?fx s = (hb, s1)"
    by (cases "BeforeFixtureStart ctx ?t ?fx s")
  note k1 = keepsD(1) [OF assms(1,2) b]
  show ?thesis
  proof (cases "FAILED hb")
    case True
    with assms ok b k1 show ?thesis by (simp add: CfixsRunFixtureExecutionAction_def)
  next
    case False
    with assms ok b obtain hs s2 where su: "Setup ?m ?fx ctx (?fl s1) s1 = Some (hs, s2)"
      by (auto simp: CfixsRunFixtureExecutionAction_def bind_Some_iff Let_def)
    note k2 = keepsD(6) [OF assms(1) k1 su]
    show ?thesis
    proof (cases "FAILED hs")
      case True
      with assms ok b False su k2 keepsD(3) [OF assms(1) k2] show ?thesis
        by (auto simp: CfixsRunFixtureExecutionAction_def Let_def split: if_splits)
    next
      case goon: False
      with assms ok b False su obtain r s3 where
        l: "run_test_cases dbg act ctx ?t [0..<TestCaseCount ?fx] hs s2 = Some (r, s3)"
        by (auto simp: CfixsRunFixtureExecutionAction_def bind_Some_iff Let_def split: if_splits)
      note k3 = run_test_cases_keeps [OF keeps_keeps_cases [OF assms(1)] k2 l]
      show ?thesis
      proof (cases r)
        case (Inl h)
        with assms ok b False su goon l k3 show ?thesis
          by (auto simp: CfixsRunFixtureExecutionAction_def Let_def split: if_splits)
      next
        case (Inr p)
        from Inr assms ok b False su goon l obtain hd s4 where
          td: "Teardown ?m ?fx ctx (?fl s3) s3 = Some (hd, s4)"
          by (cases p)
            (auto simp: CfixsRunFixtureExecutionAction_def bind_Some_iff Let_def split: if_splits)
        note k4 = keepsD(7) [OF assms(1) k3 td]
        from Inr assms ok b False su goon l td keepsD(3) [OF assms(1) k4] show ?thesis
          by (cases p) (auto simp: CfixsRunFixtureExecutionAction_def Let_def split: if_splits)
      qed
    qed
  qed
qed

section \<open>Creating and releasing the action\<close>

text \<open>
  \<open>Fixture = None\<close> and \<open>ActionOut = False\<close> are the NULL arguments; \<open>malloc_ok\<close> says whether the
  allocation succeeds. The new action takes a reference on the module of the fixture, and
  releasing the last reference of the action gives it back: the released action is \<open>None\<close>.
\<close>

definition CfixCreateFixtureExecutionAction ::
    "bool \<Rightarrow> 's test_module \<Rightarrow> fixture option \<Rightarrow> ulong \<Rightarrow> ulong \<Rightarrow> bool \<Rightarrow> 's \<Rightarrow>
       (hresult \<times> 's tsexec_action option) \<times> 's" where
  "CfixCreateFixtureExecutionAction malloc_ok Module Fixture Flags TestCase ActionOut s =
     (case Fixture of
        None \<Rightarrow> ((E_INVALIDARG, None), s)
      | Some fx \<Rightarrow>
          if \<not> ActionOut \<or> (TestCase \<noteq> -1 \<and> of_nat (TestCaseCount fx) \<le> TestCase)
          then ((E_INVALIDARG, None), s)
          else if \<not> malloc_ok then ((E_OUTOFMEMORY, None), s)
          else ((S_OK, Some \<lparr>ActionSignatureOk = True, ActionReferenceCount = 1,
                             ActionFixture = fx, ActionModule = Module,
                             ActionFlags = Flags, TestCaseIndex = TestCase\<rparr>),
                ModuleReference Module s))"

definition CfixsDeleteFixtureExecutionAction :: "'s tsexec_action \<Rightarrow> 's \<Rightarrow> 's" where
  "CfixsDeleteFixtureExecutionAction Action s = ModuleDereference (ActionModule Action) s"

definition CfixsReferenceFixtureExecutionAction :: "'s tsexec_action \<Rightarrow> 's tsexec_action" where
  "CfixsReferenceFixtureExecutionAction Action =
     Action\<lparr>ActionReferenceCount := ActionReferenceCount Action + 1\<rparr>"

definition CfixsDereferenceFixtureExecutionAction ::
    "'s tsexec_action \<Rightarrow> 's \<Rightarrow> 's tsexec_action option \<times> 's" where
  "CfixsDereferenceFixtureExecutionAction Action s =
     (let Action = Action\<lparr>ActionReferenceCount := ActionReferenceCount Action - 1\<rparr>
      in if ActionReferenceCount Action = 0
         then (None, CfixsDeleteFixtureExecutionAction Action s)
         else (Some Action, s))"

end
