(* ===== verification/TsTrace.thy ===== *)
theory TsTrace
  imports TsExec
begin

text \<open>
  What the fixture execution action promises to the two objects it drives. A scripted context
  and module record every call and its result in a list and answer as an arbitrary function of
  the calls made so far, which covers every behaviour of user code and observers (a routine
  that never returns included). The callback protocol is an automaton over such traces; the
  action only produces traces the automaton accepts.
\<close>

section \<open>Recorded runs\<close>

datatype call =
    C_BeforeFixture hresult
  | C_Setup hresult
  | C_BeforeCase nat hresult
  | C_Before hresult
  | C_Test nat hresult
  | C_After hresult
  | C_AfterCase nat bool
  | C_Teardown hresult
  | C_AfterFixture bool

type_synonym trace = "call list"

definition script_context :: "(trace \<Rightarrow> hresult) \<Rightarrow> trace exec_context" where
  "script_context cs =
     \<lparr>ContextVersion = CFIX_TEST_CONTEXT_VERSION, ContextRoutinesPresent = True,
      ReportEvent = (\<lambda>_ _ s. (CfixContinue, s)),
      QueryDefaultDisposition = (\<lambda>_ s. (CfixContinue, s)),
      BeforeFixtureStart = (\<lambda>_ _ s. (cs s, s @ [C_BeforeFixture (cs s)])),
      AfterFixtureFinish = (\<lambda>_ _ b s. s @ [C_AfterFixture b]),
      BeforeTestCaseStart = (\<lambda>_ (_, i) s. (cs s, s @ [C_BeforeCase i (cs s)])),
      AfterTestCaseFinish = (\<lambda>_ (_, i) b s. s @ [C_AfterCase i b]),
      CreateChildThread = (\<lambda>_ s. ((S_OK, 0), s)),
      BeforeChildThreadStart = (\<lambda>_ _ s. s), AfterChildThreadFinish = (\<lambda>_ _ s. s),
      OnUnhandledException = (\<lambda>_ _ s. s),
      ContextReference = id, ContextDereference = id\<rparr>"

definition script_module :: "(trace \<Rightarrow> hresult option) \<Rightarrow> trace test_module" where
  "script_module ms =
     \<lparr>RunTestCase = (\<lambda>(_, i) _ _ s. map_option (\<lambda>h. (h, s @ [C_Test i h])) (ms s)),
      Setup = (\<lambda>_ _ _ s. map_option (\<lambda>h. (h, s @ [C_Setup h])) (ms s)),
      Teardown = (\<lambda>_ _ _ s. map_option (\<lambda>h. (h, s @ [C_Teardown h])) (ms s)),
      Before = (\<lambda>_ _ _ s. map_option (\<lambda>h. (h, s @ [C_Before h])) (ms s)),
      After = (\<lambda>_ _ _ s. map_option (\<lambda>h. (h, s @ [C_After h])) (ms s)),
      ModuleReference = id, ModuleDereference = id\<rparr>"

definition script_action ::
    "(trace \<Rightarrow> hresult option) \<Rightarrow> fixture \<Rightarrow> ulong \<Rightarrow> ulong \<Rightarrow> trace tsexec_action" where
  "script_action ms fx Flags TestCase =
     \<lparr>ActionSignatureOk = True, ActionReferenceCount = 1, ActionFixture = fx,
      ActionModule = script_module ms, ActionFlags = Flags, TestCaseIndex = TestCase\<rparr>"

definition run_recorded ::
    "(trace \<Rightarrow> hresult) \<Rightarrow> (trace \<Rightarrow> hresult option) \<Rightarrow> fixture \<Rightarrow> ulong \<Rightarrow> ulong \<Rightarrow>
       (hresult \<times> trace) option" where
  "run_recorded cs ms fx Flags TestCase =
     CfixsRunFixtureExecutionAction (\<lambda>_. False) 1 (script_action ms fx Flags TestCase)
       (script_context cs) []"

lemma script_context_sel [simp]:
  "CfixIsValidContext (script_context cs)"
  "BeforeFixtureStart (script_context cs) t fx s = (cs s, s @ [C_BeforeFixture (cs s)])"
  "AfterFixtureFinish (script_context cs) t fx b s = s @ [C_AfterFixture b]"
  "BeforeTestCaseStart (script_context cs) t (fx, i) s = (cs s, s @ [C_BeforeCase i (cs s)])"
  "AfterTestCaseFinish (script_context cs) t (fx, i) b s = s @ [C_AfterCase i b]"
  by (simp_all add: script_context_def CfixIsValidContext_def)

lemma script_action_sel [simp]:
  "ActionSignatureOk (script_action ms fx f i)"
  "ActionFixture (script_action ms fx f i) = fx"
  "ActionFlags (script_action ms fx f i) = f"
  "TestCaseIndex (script_action ms fx f i) = i"
  "RunTestCase (ActionModule (script_action ms fx f i)) (fx', j) ctx fl s =
     map_option (\<lambda>h. (h, s @ [C_Test j h])) (ms s)"
  "Setup (ActionModule (script_action ms fx f i)) fx' ctx fl s =
     map_option (\<lambda>h. (h, s @ [C_Setup h])) (ms s)"
  "Teardown (ActionModule (script_action ms fx f i)) fx' ctx fl s =
     map_option (\<lambda>h. (h, s @ [C_Teardown h])) (ms s)"
  "Before (ActionModule (script_action ms fx f i)) fx' ctx fl s =
     map_option (\<lambda>h. (h, s @ [C_Before h])) (ms s)"
  "After (ActionModule (script_action ms fx f i)) fx' ctx fl s =
     map_option (\<lambda>h. (h, s @ [C_After h])) (ms s)"
  by (simp_all add: script_action_def script_module_def)

section \<open>The callback protocol\<close>

datatype proto =
    P_Outside
  | P_Entered
  | P_SetupFailed hresult
  | P_Up
  | P_Case nat
  | P_Armed nat
  | P_Tested nat hresult
  | P_CaseOver nat hresult
  | P_Stopped
  | P_Closing bool

definition case_result :: "hresult \<Rightarrow> hresult \<Rightarrow> hresult" where
  "case_result HrTest HrAfter = (if FAILED HrAfter \<and> \<not> FAILED HrTest then HrAfter else HrTest)"

primrec proto_step :: "proto \<Rightarrow> call \<Rightarrow> proto option" where
  "proto_step P_Outside c = (case c of
     C_BeforeFixture h \<Rightarrow> Some (if FAILED h then P_Outside else P_Entered) | _ \<Rightarrow> None)"
| "proto_step P_Entered c = (case c of
     C_Setup h \<Rightarrow> Some (if FAILED h then P_SetupFailed h else P_Up) | _ \<Rightarrow> None)"
| "proto_step (P_SetupFailed h) c = (case c of
     C_AfterFixture b \<Rightarrow> (if b then None else Some P_Outside) | _ \<Rightarrow> None)"
| "proto_step P_Up c = (case c of
     C_BeforeCase i h \<Rightarrow> Some (if FAILED h then P_Stopped else P_Case i)
   | C_Teardown h \<Rightarrow> Some (P_Closing (SUCCEEDED h)) | _ \<Rightarrow> None)"
| "proto_step (P_Case i) c = (case c of
     C_Before h \<Rightarrow> Some (if FAILED h then P_CaseOver i h else P_Armed i) | _ \<Rightarrow> None)"
| "proto_step (P_Armed i) c = (case c of
     C_Test j h \<Rightarrow> (if i = j then Some (P_Tested i h) else None) | _ \<Rightarrow> None)"
| "proto_step (P_Tested i ht) c = (case c of
     C_After ha \<Rightarrow> Some (P_CaseOver i (case_result ht ha)) | _ \<Rightarrow> None)"
| "proto_step (P_CaseOver i h) c = (case c of
     C_AfterCase j b \<Rightarrow> (if i = j \<and> b = SUCCEEDED h then Some P_Up else None) | _ \<Rightarrow> None)"
| "proto_step P_Stopped c = (case c of
     C_Teardown h \<Rightarrow> Some (P_Closing (SUCCEEDED h)) | _ \<Rightarrow> None)"
| "proto_step (P_Closing ok) c = (case c of
     C_AfterFixture b \<Rightarrow> (if b \<longrightarrow> ok then Some P_Outside else None) | _ \<Rightarrow> None)"

fun proto_run :: "proto \<Rightarrow> trace \<Rightarrow> proto option" where
  "proto_run p [] = Some p"
| "proto_run p (c # cs) = (case proto_step p c of None \<Rightarrow> None | Some q \<Rightarrow> proto_run q cs)"

lemma proto_run_append:
  "proto_run p (cs @ ds) =
     (case proto_run p cs of None \<Rightarrow> None | Some q \<Rightarrow> proto_run q ds)"
  by (induction p cs rule: proto_run.induct) (auto split: option.splits)

definition routine_failure :: "hresult \<Rightarrow> bool" where
  "routine_failure h \<longleftrightarrow> h = CFIX_E_BEFORE_ROUTINE_FAILED \<or>
     h = CFIX_E_AFTER_ROUTINE_FAILED \<or> h = CFIX_E_TEST_ROUTINE_FAILED"

text \<open>A fatal result is a failure outside the expected ones, after which the code gives up.\<close>

definition fatal_case :: "hresult \<Rightarrow> bool" where
  "fatal_case h \<longleftrightarrow> FAILED h \<and> \<not> routine_failure h \<and> h \<noteq> CFIX_E_TESTRUN_ABORTED"

definition fatal_setup :: "hresult \<Rightarrow> bool" where
  "fatal_setup h \<longleftrightarrow> FAILED h \<and> h \<noteq> CFIX_E_SETUP_ROUTINE_FAILED \<and> h \<noteq> CFIX_E_TESTRUN_ABORTED"

lemma routine_failure_FAILED: "routine_failure h \<Longrightarrow> FAILED h"
  by (auto simp: routine_failure_def)

lemma test_case_verdict_None: "test_case_verdict fl h = None \<longleftrightarrow> fatal_case h"
  by (auto simp: test_case_verdict_def fatal_case_def routine_failure_def)

text \<open>One test case of a recorded run.\<close>

lemma run_case_proto:
  assumes "CfixsRunTestCaseFixtureExecutionAction dbg (script_action ms fx fl tc) (fx, i)
             (script_context cs) s = Some (h, s')"
    and "proto_run P_Outside s = Some (P_Case i)"
  shows "proto_run P_Outside s' = Some (P_CaseOver i h)"
  using assms
  by (auto simp: CfixsRunTestCaseFixtureExecutionAction_def bind_Some_iff proto_run_append
      case_result_def split: if_splits)

lemma run_test_cases_proto:
  assumes "run_test_cases dbg (script_action ms fx fl tc) (script_context cs) tid idxs h s =
             Some (r, s')"
    and "proto_run P_Outside s = Some P_Up"
  shows "case r of
           Inl hf \<Rightarrow> fatal_case hf \<and> (\<exists>i. proto_run P_Outside s' = Some (P_CaseOver i hf))
         | Inr (hr, sc) \<Rightarrow> proto_run P_Outside s' = Some P_Up \<or>
                            (sc \<and> proto_run P_Outside s' = Some P_Stopped)"
  using assms
proof (induction idxs arbitrary: h s)
  case Nil
  then show ?case by auto
next
  case (Cons i idxs)
  show ?case
  proof (cases "tc \<noteq> -1 \<and> tc \<noteq> of_nat i")
    case True
    with Cons show ?thesis by auto
  next
    case sel: False
    let ?s1 = "s @ [C_BeforeCase i (cs s)]"
    show ?thesis
    proof (cases "FAILED (cs s)")
      case True
      with Cons.prems sel show ?thesis by (auto simp: proto_run_append)
    next
      case False
      with Cons.prems(2) have case_i: "proto_run P_Outside ?s1 = Some (P_Case i)"
        by (simp add: proto_run_append)
      from Cons.prems(1) sel False obtain h1 s2 where
        run: "CfixsRunTestCaseFixtureExecutionAction dbg (script_action ms fx fl tc) (fx, i)
                (script_context cs) ?s1 = Some (h1, s2)"
        by (auto simp: bind_Some_iff)
      from run_case_proto [OF run case_i]
      have over: "proto_run P_Outside s2 = Some (P_CaseOver i h1)" .
      show ?thesis
      proof (cases "test_case_verdict fl h1")
        case None
        with Cons.prems(1) sel False run over show ?thesis
          by (auto simp: test_case_verdict_None)
      next
        case (Some v)
        obtain h2 sc where v: "v = (h2, sc)" by (cases v)
        from over have up: "proto_run P_Outside (s2 @ [C_AfterCase i (SUCCEEDED h1)]) = Some P_Up"
          by (simp add: proto_run_append)
        with Cons.prems(1) sel False run Some v Cons.IH show ?thesis
          by (auto simp: Let_def split: if_splits)
      qed
    qed
  qed
qed

text \<open>
  The ways a recorded run can end: the context vetoes the fixture, setup fails, setup or a test
  case ends fatally, or the loop ends and teardown runs.
\<close>

definition recorded_loop ::
    "(trace \<Rightarrow> hresult) \<Rightarrow> (trace \<Rightarrow> hresult option) \<Rightarrow> fixture \<Rightarrow> ulong \<Rightarrow> ulong \<Rightarrow>
       nat list \<Rightarrow> hresult \<Rightarrow> trace \<Rightarrow> ((hresult + hresult \<times> bool) \<times> trace) option" where
  "recorded_loop cs ms fx Flags TestCase =
     run_test_cases (\<lambda>_. False) (script_action ms fx Flags TestCase) (script_context cs)
       (CfixpInitializeThreadId 1 1)"

lemma run_recorded_cases:
  assumes "run_recorded cs ms fx Flags TestCase = Some (hr, tr)"
  obtains
    (veto) "FAILED (cs [])" "hr = cs []" "tr = [C_BeforeFixture (cs [])]"
  | (setup_failed) hs where "\<not> FAILED (cs [])" "ms [C_BeforeFixture (cs [])] = Some hs"
      "hs = CFIX_E_SETUP_ROUTINE_FAILED \<or> hs = CFIX_E_TESTRUN_ABORTED"
      "hr = (if CfixpFlagOn Flags
                  CFIX_FIXTURE_EXECUTION_SHORTCIRCUIT_RUN_ON_SETUP_FAILURE then hs else S_OK)"
      "tr = [C_BeforeFixture (cs []), C_Setup hs, C_AfterFixture False]"
  | (setup_fatal) "\<not> FAILED (cs [])" "ms [C_BeforeFixture (cs [])] = Some hr"
      "fatal_setup hr" "tr = [C_BeforeFixture (cs []), C_Setup hr]"
  | (case_fatal) hs where "\<not> FAILED (cs [])" "ms [C_BeforeFixture (cs [])] = Some hs"
      "\<not> FAILED hs"
      "recorded_loop cs ms fx Flags TestCase [0..<TestCaseCount fx] hs
         [C_BeforeFixture (cs []), C_Setup hs] = Some (Inl hr, tr)"
  | (finished) hs hl sc s ht where "\<not> FAILED (cs [])" "ms [C_BeforeFixture (cs [])] = Some hs"
      "\<not> FAILED hs"
      "recorded_loop cs ms fx Flags TestCase [0..<TestCaseCount fx] hs
         [C_BeforeFixture (cs []), C_Setup hs] = Some (Inr (hl, sc), s)"
      "ms s = Some ht"
      "hr = (if FAILED ht \<and> CfixpFlagOn Flags CFIX_FIXTURE_EXECUTION_ESCALATE_FIXTURE_FAILUES
             then ht else hl)"
      "tr = s @ [C_Teardown ht, C_AfterFixture (\<not> FAILED ht \<and> \<not> sc)]"
proof (cases "FAILED (cs [])")
  case True
  with assms show ?thesis
    by (intro veto) (auto simp add: run_recorded_def CfixsRunFixtureExecutionAction_def Let_def)
next
  case entered: False
  let ?s1 = "[C_BeforeFixture (cs [])]"
  from assms entered obtain hs where hs: "ms ?s1 = Some hs"
    by (auto simp: run_recorded_def CfixsRunFixtureExecutionAction_def Let_def bind_Some_iff)
  note run = assms [unfolded run_recorded_def CfixsRunFixtureExecutionAction_def Let_def]
  consider "hs = CFIX_E_SETUP_ROUTINE_FAILED \<or> hs = CFIX_E_TESTRUN_ABORTED"
    | "fatal_setup hs" | "\<not> FAILED hs"
    by (auto simp: fatal_setup_def)
  then show ?thesis
  proof cases
    case 1
    with run entered hs show ?thesis
      by (intro setup_failed [of hs]) (auto split: if_splits)
  next
    case 2
    with run entered hs show ?thesis
      by (intro setup_fatal) (auto simp add: fatal_setup_def)
  next
    case 3
    let ?s2 = "[C_BeforeFixture (cs []), C_Setup hs]"
    from 3 have ok: "hs \<noteq> CFIX_E_SETUP_ROUTINE_FAILED" "hs \<noteq> CFIX_E_TESTRUN_ABORTED"
      by auto
    from run entered hs 3 ok obtain r s where
      loop: "recorded_loop cs ms fx Flags TestCase [0..<TestCaseCount fx] hs ?s2 = Some (r, s)"
      by (simp add: recorded_loop_def bind_Some_iff split: prod.splits) blast
    show ?thesis
    proof (cases r)
      case (Inl hf)
      with run entered hs 3 ok loop have "hf = hr" "s = tr"
        by (simp_all add: recorded_loop_def)
      with entered hs 3 loop Inl show ?thesis
        by (intro case_fatal [of hs]) simp_all
    next
      case (Inr v)
      obtain hl sc where v: "v = (hl, sc)" by (cases v)
      from run entered hs 3 ok loop Inr v obtain ht where ht: "ms s = Some ht"
        by (auto simp: recorded_loop_def bind_Some_iff)
      from run entered hs 3 ok loop Inr v ht show ?thesis
        by (intro finished [of hs hl sc s ht])
          (auto simp add: recorded_loop_def split: if_splits)
    qed
  qed
qed

text \<open>
  C1: the callback protocol. Whatever the context and the routines of the fixture answer, the
  calls of a run form a trace of the protocol: the test case index is the same from
  \<open>BeforeTestCaseStart\<close> to \<open>AfterTestCaseFinish\<close>, the test routine runs only after a
  successful before routine and is always followed by the after routine,
  \<open>AfterTestCaseFinish\<close> is told the true verdict, and teardown runs once after every
  successful setup. The run ends outside the fixture, unless it stopped at a fatal result, which
  it then returns.
\<close>

theorem fixture_run_follows_protocol:
  assumes "run_recorded cs ms fx Flags TestCase = Some (hr, tr)"
  shows "proto_run P_Outside tr = Some P_Outside \<or>
         (fatal_setup hr \<and> proto_run P_Outside tr = Some (P_SetupFailed hr)) \<or>
         (\<exists>i. fatal_case hr \<and> proto_run P_Outside tr = Some (P_CaseOver i hr))"
  using assms
proof (cases rule: run_recorded_cases)
  case (case_fatal hs)
  then show ?thesis
    using run_test_cases_proto [OF case_fatal(4) [unfolded recorded_loop_def]] by auto
next
  case (finished hs hl sc s ht)
  then show ?thesis
    using run_test_cases_proto [OF finished(4) [unfolded recorded_loop_def]]
    by (auto simp: proto_run_append)
qed (auto simp: fatal_setup_def)

text \<open>A concrete fixture and run for the witnesses: two test cases, the first one failing.\<close>

definition demo_fixture :: fixture where
  "demo_fixture =
     \<lparr>FixtureName = wide ''Demo'', SetupRoutine = 1, TeardownRoutine = 2, BeforeRoutine = 3,
      AfterRoutine = 4, FixtureReserved = 0, ApiType = 1, FixtureFlags = 0, ModuleName = wide ''demo'',
      TestCases = [\<lparr>TestCaseName = wide ''A'', TestCaseRoutine = 5\<rparr>,
                   \<lparr>TestCaseName = wide ''B'', TestCaseRoutine = 6\<rparr>]\<rparr>"

definition demo_script :: "hresult \<Rightarrow> trace \<Rightarrow> hresult option" where
  "demo_script bad tr = Some (if length tr = 4 then bad else S_OK)"

lemmas run_eval = run_recorded_def CfixsRunFixtureExecutionAction_def
  CfixsRunTestCaseFixtureExecutionAction_def Let_def demo_fixture_def demo_script_def
  test_case_verdict_def CfixpFlagOn_def upt_rec

lemma demo_run_failing:
  "run_recorded (\<lambda>_. S_OK) (demo_script CFIX_E_TEST_ROUTINE_FAILED) demo_fixture 0 (-1) =
     Some (S_OK, [C_BeforeFixture 0, C_Setup 0,
       C_BeforeCase 0 0, C_Before 0, C_Test 0 CFIX_E_TEST_ROUTINE_FAILED, C_After 0,
       C_AfterCase 0 False,
       C_BeforeCase 1 0, C_Before 0, C_Test 1 0, C_After 0, C_AfterCase 1 True,
       C_Teardown 0, C_AfterFixture True])"
  by (simp add: run_eval)

lemma demo_run_aborting:
  "run_recorded (\<lambda>_. S_OK) (demo_script CFIX_E_TESTRUN_ABORTED) demo_fixture 0 (-1) =
     Some (CFIX_E_TESTRUN_ABORTED, [C_BeforeFixture 0, C_Setup 0,
       C_BeforeCase 0 0, C_Before 0, C_Test 0 CFIX_E_TESTRUN_ABORTED, C_After 0,
       C_AfterCase 0 False, C_Teardown 0, C_AfterFixture False])"
  by (simp add: run_eval)

theorem fixture_run_follows_protocol_witness:
  "run_recorded (\<lambda>_. S_OK) (demo_script CFIX_E_TEST_ROUTINE_FAILED) demo_fixture 0 (-1) \<noteq> None \<and>
   proto_run P_Outside
     (snd (the (run_recorded (\<lambda>_. S_OK) (demo_script CFIX_E_TEST_ROUTINE_FAILED)
                  demo_fixture 0 (-1)))) = Some P_Outside"
  using fixture_run_follows_protocol [OF demo_run_failing]
  by (simp add: demo_run_failing fatal_setup_def fatal_case_def)

section \<open>Which test cases start, and in which order\<close>

definition started :: "trace \<Rightarrow> nat list" where
  "started tr = List.map_filter (\<lambda>c. case c of C_BeforeCase i _ \<Rightarrow> Some i | _ \<Rightarrow> None) tr"

lemma started_simps [simp]:
  "started [] = []"
  "started (C_BeforeCase i h # tr) = i # started tr"
  "started (C_BeforeFixture h # tr) = started tr"
  "started (C_Setup h # tr) = started tr"
  "started (C_Before h # tr) = started tr"
  "started (C_Test i h # tr) = started tr"
  "started (C_After h # tr) = started tr"
  "started (C_AfterCase i b # tr) = started tr"
  "started (C_Teardown h # tr) = started tr"
  "started (C_AfterFixture b # tr) = started tr"
  by (simp_all add: started_def List.map_filter_simps)

lemma started_append [simp]: "started (a @ b) = started a @ started b"
  by (simp add: started_def List.map_filter_def)

definition selected :: "ulong \<Rightarrow> nat list \<Rightarrow> nat list" where
  "selected TestCase = filter (\<lambda>i. TestCase = -1 \<or> TestCase = of_nat i)"

text \<open>One test case appends its own calls and starts nothing else.\<close>

lemma run_case_started:
  "CfixsRunTestCaseFixtureExecutionAction dbg (script_action ms fx fl tc) (fx, i)
     (script_context cs) s = Some (h, s') \<Longrightarrow> started s' = started s"
  by (auto simp: CfixsRunTestCaseFixtureExecutionAction_def bind_Some_iff split: if_splits)

lemma loop_started:
  assumes "recorded_loop cs ms fx fl tc idxs h s = Some (r, s')"
  shows "\<exists>k. started s' = started s @ take k (selected tc idxs) \<and>
             (\<forall>h'. r = Inr (h', False) \<longrightarrow> k = length (selected tc idxs))"
  using assms unfolding recorded_loop_def
proof (induction idxs arbitrary: h s)
  case Nil
  then show ?case by (simp add: selected_def)
next
  case (Cons i idxs)
  show ?case
  proof (cases "tc \<noteq> -1 \<and> tc \<noteq> of_nat i")
    case True
    with Cons show ?thesis by (auto simp: selected_def)
  next
    case sel: False
    then have selected: "selected tc (i # idxs) = i # selected tc idxs"
      by (auto simp: selected_def)
    show ?thesis
    proof (cases "FAILED (cs s)")
      case True
      with Cons.prems sel selected show ?thesis
        by (auto intro!: exI [of _ 1])
    next
      case False
      with Cons.prems sel obtain h1 s2 where
        run: "CfixsRunTestCaseFixtureExecutionAction (\<lambda>_. False) (script_action ms fx fl tc)
                (fx, i) (script_context cs) (s @ [C_BeforeCase i (cs s)]) = Some (h1, s2)"
        by (auto simp: bind_Some_iff)
      note st = run_case_started [OF run]
      show ?thesis
      proof (cases "test_case_verdict fl h1")
        case None
        with Cons.prems sel False run st selected show ?thesis
          by (auto intro!: exI [of _ 1])
      next
        case (Some v)
        obtain h2 sc where v: "v = (h2, sc)" by (cases v)
        let ?s3 = "s2 @ [C_AfterCase i (SUCCEEDED h1)]"
        show ?thesis
        proof (cases sc)
          case True
          with Cons.prems sel False run st selected Some v show ?thesis
            by (auto simp: Let_def intro!: exI [of _ 1])
        next
          case goon: False
          with Cons.prems sel False run Some v have
            "run_test_cases (\<lambda>_. False) (script_action ms fx fl tc) (script_context cs)
               (CfixpInitializeThreadId 1 1) idxs h2 ?s3 = Some (r, s')"
            by (simp add: Let_def)
          from Cons.IH [OF this] obtain k where
            "started s' = started ?s3 @ take k (selected tc idxs)"
            "\<forall>h'. r = Inr (h', False) \<longrightarrow> k = length (selected tc idxs)" by auto
          with st selected show ?thesis by (intro exI [of _ "Suc k"]) simp
        qed
      qed
    qed
  qed
qed

text \<open>
  C2: selection and order. Test cases are started in the order of the fixture, none twice and
  none besides the selected one (all of them when the index is -1): what a run starts is a
  prefix of the selected indices.
\<close>

theorem fixture_run_starts_prefix:
  assumes "run_recorded cs ms fx Flags TestCase = Some (hr, tr)"
  shows "\<exists>k. started tr = take k (selected TestCase [0..<TestCaseCount fx])"
  using assms
proof (cases rule: run_recorded_cases)
  case (case_fatal hs)
  then show ?thesis using loop_started [OF case_fatal(4)] by auto
next
  case (finished hs hl sc s ht)
  then show ?thesis using loop_started [OF finished(4)] by auto
qed (auto intro: exI [of _ 0])

theorem fixture_run_starts_prefix_witness:
  "\<exists>k. started (snd (the (run_recorded (\<lambda>_. S_OK) (demo_script CFIX_E_TESTRUN_ABORTED)
                             demo_fixture 0 (-1)))) =
       take k (selected (-1) [0..<TestCaseCount demo_fixture])"
  using fixture_run_starts_prefix [OF demo_run_aborting] by (simp add: demo_run_aborting)

section \<open>Failures without short-circuit flags\<close>

definition ordinary :: "(trace \<Rightarrow> hresult option) \<Rightarrow> bool" where
  "ordinary ms \<longleftrightarrow> (\<forall>h. \<exists>r. ms h = Some r \<and> (r = S_OK \<or> routine_failure r))"

lemma run_case_ordinary:
  assumes "ordinary ms"
  shows "\<exists>h s'. CfixsRunTestCaseFixtureExecutionAction dbg (script_action ms fx fl tc) (fx, i)
                 (script_context cs) s = Some (h, s') \<and> (h = S_OK \<or> routine_failure h)"
proof -
  note ord = assms [unfolded ordinary_def, rule_format]
  obtain hb where hb: "ms s = Some hb" "hb = S_OK \<or> routine_failure hb" using ord by blast
  let ?s1 = "s @ [C_Before hb]"
  obtain ht where ht: "ms ?s1 = Some ht" "ht = S_OK \<or> routine_failure ht" using ord by blast
  let ?s2 = "s @ [C_Before hb, C_Test i ht]"
  obtain ha where ha: "ms ?s2 = Some ha" "ha = S_OK \<or> routine_failure ha" using ord by blast
  from hb ht ha show ?thesis
    by (auto simp: CfixsRunTestCaseFixtureExecutionAction_def dest: routine_failure_FAILED)
qed

lemma loop_ordinary:
  assumes "ordinary ms" and "\<forall>h. \<not> FAILED (cs h)"
    and "\<not> CfixpFlagOn fl CFIX_FIXTURE_EXECUTION_SHORTCIRCUIT_FIXTURE_ON_FAILURE"
  shows "\<exists>s'. recorded_loop cs ms fx fl tc idxs S_OK s = Some (Inr (S_OK, False), s')"
  unfolding recorded_loop_def
proof (induction idxs arbitrary: s)
  case Nil
  then show ?case by simp
next
  case (Cons i idxs)
  obtain h s2 where
    run: "CfixsRunTestCaseFixtureExecutionAction (\<lambda>_. False) (script_action ms fx fl tc) (fx, i)
            (script_context cs) (s @ [C_BeforeCase i (cs s)]) = Some (h, s2)"
    and h: "h = S_OK \<or> routine_failure h"
    using run_case_ordinary [OF assms(1)] by blast
  from h assms(3) have "test_case_verdict fl h = Some (S_OK, False)"
    by (auto simp: test_case_verdict_def routine_failure_def)
  with run Cons.IH assms(2) show ?case by (auto simp: Let_def)
qed

text \<open>
  C3: no failure of a test stops the fixture unless asked to. When the context accepts
  everything, setup succeeds and every other routine ends with success or an ordinary failure,
  then without the short-circuit flag the run returns, starts every selected test case, and
  (without the escalation flag) reports success.
\<close>

theorem fixture_run_is_complete:
  assumes "\<not> CfixpFlagOn Flags CFIX_FIXTURE_EXECUTION_SHORTCIRCUIT_FIXTURE_ON_FAILURE"
    and "\<forall>h. \<not> FAILED (cs h)" and "ordinary ms"
    and "ms [C_BeforeFixture (cs [])] = Some S_OK"
  shows "\<exists>hr tr. run_recorded cs ms fx Flags TestCase = Some (hr, tr) \<and>
           started tr = selected TestCase [0..<TestCaseCount fx] \<and>
           (\<not> CfixpFlagOn Flags CFIX_FIXTURE_EXECUTION_ESCALATE_FIXTURE_FAILUES \<longrightarrow> hr = S_OK)"
proof -
  let ?s2 = "[C_BeforeFixture (cs []), C_Setup S_OK]"
  obtain s where loop: "recorded_loop cs ms fx Flags TestCase [0..<TestCaseCount fx] S_OK ?s2 =
      Some (Inr (S_OK, False), s)"
    using loop_ordinary [OF assms(3,2,1)] by blast
  from loop_started [OF loop] have started:
    "started s = selected TestCase [0..<TestCaseCount fx]" by auto
  from assms(3) obtain ht where "ms s = Some ht" unfolding ordinary_def by blast
  with loop started assms(2,4) show ?thesis
    by (auto simp: run_recorded_def CfixsRunFixtureExecutionAction_def recorded_loop_def Let_def)
qed

lemma demo_ordinary: "ordinary (demo_script CFIX_E_TEST_ROUTINE_FAILED)"
  by (simp add: ordinary_def demo_script_def routine_failure_def)

theorem fixture_run_is_complete_witness:
  "\<exists>hr tr. run_recorded (\<lambda>_. S_OK) (demo_script CFIX_E_TEST_ROUTINE_FAILED) demo_fixture 0 1 =
             Some (hr, tr) \<and> started tr = [1] \<and> hr = S_OK"
  using fixture_run_is_complete [of 0 "\<lambda>_. S_OK", OF _ _ demo_ordinary, of demo_fixture 1]
  by (simp add: demo_script_def demo_fixture_def selected_def upt_rec)

section \<open>Results that stop the fixture\<close>

definition stops_fixture :: "ulong \<Rightarrow> hresult \<Rightarrow> bool" where
  "stops_fixture fl h \<longleftrightarrow> h = CFIX_E_TESTRUN_ABORTED \<or>
     (routine_failure h \<and>
      CfixpFlagOn fl CFIX_FIXTURE_EXECUTION_SHORTCIRCUIT_FIXTURE_ON_FAILURE)"

lemma run_case_test_result:
  assumes "CfixsRunTestCaseFixtureExecutionAction dbg (script_action ms fx fl tc) (fx, i)
             (script_context cs) s = Some (h, s')"
    and "C_Test j ht \<in> set s'" and "C_Test j ht \<notin> set s" and "FAILED ht"
  shows "j = i \<and> h = ht"
  using assms
  by (auto simp: CfixsRunTestCaseFixtureExecutionAction_def bind_Some_iff split: if_splits)

lemma stops_fixture_verdict:
  "stops_fixture fl h \<Longrightarrow> \<exists>h'. test_case_verdict fl h = Some (h', True) \<and>
     (h = CFIX_E_TESTRUN_ABORTED \<or>
      CfixpFlagOn fl CFIX_FIXTURE_EXECUTION_ESCALATE_FIXTURE_FAILUES \<longrightarrow> h' = h)"
  by (auto simp: stops_fixture_def test_case_verdict_def routine_failure_def)

lemma stops_fixture_FAILED: "stops_fixture fl h \<Longrightarrow> FAILED h"
  by (auto simp: stops_fixture_def dest: routine_failure_FAILED)

lemma loop_stops:
  assumes "recorded_loop cs ms fx fl tc idxs h s = Some (r, s')"
    and "stops_fixture fl ht" and "C_Test j ht \<in> set s'" and "C_Test j ht \<notin> set s"
  shows "last (started s') = j \<and> started s' \<noteq> [] \<and>
         (\<exists>h'. r = Inr (h', True) \<and> (ht = CFIX_E_TESTRUN_ABORTED \<or>
            CfixpFlagOn fl CFIX_FIXTURE_EXECUTION_ESCALATE_FIXTURE_FAILUES \<longrightarrow> h' = ht))"
  using assms(1,3,4) unfolding recorded_loop_def
proof (induction idxs arbitrary: h s)
  case Nil
  then show ?case by auto
next
  case (Cons i idxs)
  show ?case
  proof (cases "tc \<noteq> -1 \<and> tc \<noteq> of_nat i")
    case True
    with Cons show ?thesis by auto
  next
    case sel: False
    show ?thesis
    proof (cases "FAILED (cs s)")
      case True
      with Cons.prems sel show ?thesis by auto
    next
      case False
      with Cons.prems sel obtain h1 s2 where
        run: "CfixsRunTestCaseFixtureExecutionAction (\<lambda>_. False) (script_action ms fx fl tc)
                (fx, i) (script_context cs) (s @ [C_BeforeCase i (cs s)]) = Some (h1, s2)"
        by (auto simp: bind_Some_iff)
      note st = run_case_started [OF run]
      show ?thesis
      proof (cases "C_Test j ht \<in> set s2")
        case True
        with run_case_test_result [OF run] Cons.prems(3) stops_fixture_FAILED [OF assms(2)]
        have "j = i" "h1 = ht" by auto
        with stops_fixture_verdict [OF assms(2)] Cons.prems(1) sel False run st
        show ?thesis by (auto simp: Let_def)
      next
        case notyet: False
        with Cons.prems sel False run obtain h2 where
          v: "test_case_verdict fl h1 = Some (h2, False)"
          by (cases "test_case_verdict fl h1") (auto simp: Let_def split: if_splits)
        with Cons.prems sel False run have
          "run_test_cases (\<lambda>_. False) (script_action ms fx fl tc) (script_context cs)
             (CfixpInitializeThreadId 1 1) idxs h2 (s2 @ [C_AfterCase i (SUCCEEDED h1)]) =
             Some (r, s')"
          by (simp add: Let_def)
        with Cons.IH Cons.prems(2) notyet show ?thesis by auto
      qed
    qed
  qed
qed



section \<open>Why a run fails\<close>

definition routine_returned :: "hresult \<Rightarrow> trace \<Rightarrow> bool" where
  "routine_returned h tr \<longleftrightarrow> C_Before h \<in> set tr \<or> C_After h \<in> set tr \<or> (\<exists>i. C_Test i h \<in> set tr)"

lemma run_case_result:
  assumes "CfixsRunTestCaseFixtureExecutionAction dbg (script_action ms fx fl tc) (fx, i)
             (script_context cs) s = Some (h, s')" and "FAILED h"
  shows "routine_returned h s'"
  using assms
  by (auto simp: CfixsRunTestCaseFixtureExecutionAction_def bind_Some_iff routine_returned_def
      split: if_splits)

text \<open>Without escalation the loop fails only by a veto of the context or an abort.\<close>

definition loop_failure_cause :: "hresult \<Rightarrow> trace \<Rightarrow> bool" where
  "loop_failure_cause h tr \<longleftrightarrow> (\<exists>i. C_BeforeCase i h \<in> set tr) \<or>
     (h = CFIX_E_TESTRUN_ABORTED \<and> routine_returned h tr)"

lemma loop_failure:
  assumes "recorded_loop cs ms fx fl tc idxs h s = Some (r, s')" and "\<not> FAILED h"
    and "\<not> CfixpFlagOn fl CFIX_FIXTURE_EXECUTION_ESCALATE_FIXTURE_FAILUES"
  shows "case r of Inl hf \<Rightarrow> fatal_case hf
         | Inr (hl, sc) \<Rightarrow> FAILED hl \<longrightarrow> loop_failure_cause hl s'"
  using assms(1,2) unfolding recorded_loop_def
proof (induction idxs arbitrary: h s)
  case Nil
  then show ?case by auto
next
  case (Cons i idxs)
  show ?case
  proof (cases "tc \<noteq> -1 \<and> tc \<noteq> of_nat i")
    case True
    with Cons show ?thesis by auto
  next
    case sel: False
    show ?thesis
    proof (cases "FAILED (cs s)")
      case True
      with Cons.prems sel show ?thesis by (auto simp: loop_failure_cause_def)
    next
      case False
      with Cons.prems sel obtain h1 s2 where
        run: "CfixsRunTestCaseFixtureExecutionAction (\<lambda>_. False) (script_action ms fx fl tc)
                (fx, i) (script_context cs) (s @ [C_BeforeCase i (cs s)]) = Some (h1, s2)"
        by (auto simp: bind_Some_iff)
      let ?s3 = "s2 @ [C_AfterCase i (SUCCEEDED h1)]"
      show ?thesis
      proof (cases "test_case_verdict fl h1")
        case None
        with Cons.prems sel False run show ?thesis by (auto simp: test_case_verdict_None)
      next
        case (Some v)
        obtain h2 sc where v: "v = (h2, sc)" by (cases v)
        with Some assms(3) have h2: "\<not> FAILED h2 \<or> h1 = CFIX_E_TESTRUN_ABORTED \<and> h2 = h1 \<and> sc"
          by (auto simp: test_case_verdict_def split: if_splits)
        show ?thesis
        proof (cases sc)
          case True
          with Cons.prems sel False run Some v h2 run_case_result [OF run] show ?thesis
            by (auto simp: Let_def loop_failure_cause_def routine_returned_def)
        next
          case goon: False
          with Cons.prems sel False run Some v have
            "run_test_cases (\<lambda>_. False) (script_action ms fx fl tc) (script_context cs)
               (CfixpInitializeThreadId 1 1) idxs h2 ?s3 = Some (r, s')"
            by (simp add: Let_def)
          with Cons.IH h2 goon show ?thesis by blast
        qed
      qed
    qed
  qed
qed

text \<open>
  The causes of a failed run. Without the escalation and setup short-circuit flags, a run
  reports a failure only when the context refused the fixture or a test case, a routine ended
  fatally, or a before, test or after routine asked for the run to be aborted. In particular
  neither an ordinary failure nor anything the setup or teardown routine reports about the
  fixture fails the run, and an abort requested by them is dropped.
\<close>

lemma failed_run_has_cause:
  assumes "run_recorded cs ms fx Flags TestCase = Some (hr, tr)" and "FAILED hr"
    and "\<not> CfixpFlagOn Flags CFIX_FIXTURE_EXECUTION_ESCALATE_FIXTURE_FAILUES"
    and "\<not> CfixpFlagOn Flags CFIX_FIXTURE_EXECUTION_SHORTCIRCUIT_RUN_ON_SETUP_FAILURE"
  shows "C_BeforeFixture hr \<in> set tr \<or> fatal_setup hr \<or> fatal_case hr \<or>
         (\<exists>i. C_BeforeCase i hr \<in> set tr) \<or>
         (hr = CFIX_E_TESTRUN_ABORTED \<and> routine_returned hr tr)"
  using assms(1)
proof (cases rule: run_recorded_cases)
  case (case_fatal hs)
  then show ?thesis using loop_failure [OF case_fatal(4,3) assms(3)] by auto
next
  case (finished hs hl sc s htd)
  with loop_failure [OF finished(4,3) assms(3)] assms(2,3) show ?thesis
    by (auto simp: loop_failure_cause_def routine_returned_def)
qed (use assms(2,4) in auto)

text \<open>
  The interface promises that \<open>CFIX_E_TESTRUN_ABORTED\<close> from a setup or teardown routine aborts
  the run. By default it does not: here both test cases pass, teardown asks for the abort, and
  the run reports success, so that a sequence goes on with the next fixture.
\<close>

lemma teardown_abort_is_dropped:
  "run_recorded (\<lambda>_. S_OK)
     (\<lambda>tr. Some (if started tr = [0, 1] \<and> C_AfterCase 1 True \<in> set tr
                 then CFIX_E_TESTRUN_ABORTED else S_OK)) demo_fixture 0 (-1) =
     Some (S_OK, [C_BeforeFixture 0, C_Setup 0,
       C_BeforeCase 0 0, C_Before 0, C_Test 0 0, C_After 0, C_AfterCase 0 True,
       C_BeforeCase 1 0, C_Before 0, C_Test 1 0, C_After 0, C_AfterCase 1 True,
       C_Teardown CFIX_E_TESTRUN_ABORTED, C_AfterFixture False])"
  by (simp add: run_eval)

lemma setup_abort_is_dropped:
  "run_recorded (\<lambda>_. S_OK) (\<lambda>_. Some CFIX_E_TESTRUN_ABORTED) demo_fixture 0 (-1) =
     Some (S_OK, [C_BeforeFixture 0, C_Setup CFIX_E_TESTRUN_ABORTED, C_AfterFixture False])"
  by (simp add: run_eval)

end
