(* ===== verification/SequenceAction.thy ===== *)
theory SequenceAction
  imports Prelude "HOL-Library.Finite_Map"
begin

text \<open>
  Actions as reference counted objects and the sequence action
  (\<open>cfix/cfix/sequenceaction.c\<close>). Objects live in a heap from addresses to objects; an object
  is a sequence with its list of entries, or any other action, whose \<open>Run\<close> method is code
  behind a function pointer. A call through \<open>Action->Run\<close> is the parameter \<open>Run\<close>; it may change
  the whole world (add entries to sequences, create and release actions). \<open>None\<close> is a memory
  fault (an address that is not in the heap) or a call that never returns.

  \<open>Entries.Count\<close> is the length of the entry list, and the critical section of the list is
  held over pure list operations only. An object whose count drops to zero leaves the heap and
  its entries are released in order, depth first, as the recursive release does in the code.
\<close>

section \<open>Objects and reference counts\<close>

datatype action_body = OtherAction | Sequence "nat list"

record action_obj =
  VersionOk :: bool
  RefCount :: int
  Body :: action_body

type_synonym action_heap = "(nat, action_obj) fmap"

fun entries_of :: "action_body \<Rightarrow> nat list" where
  "entries_of OtherAction = []"
| "entries_of (Sequence es) = es"

definition held_by :: "action_heap \<Rightarrow> nat \<Rightarrow> nat list" where
  "held_by h a = (case fmlookup h a of None \<Rightarrow> [] | Some obj \<Rightarrow> entries_of (Body obj))"

definition action_reference :: "nat \<Rightarrow> action_heap \<Rightarrow> action_heap option" where
  "action_reference a h =
     (case fmlookup h a of
        None \<Rightarrow> None
      | Some obj \<Rightarrow> Some (fmupd a (obj\<lparr>RefCount := RefCount obj + 1\<rparr>) h))"

definition pending_size :: "nat list \<Rightarrow> action_heap \<Rightarrow> nat" where
  "pending_size todo h = length todo + (\<Sum>a\<in>fmdom' h. length (held_by h a))"

lemma finite_fmdom': "finite (fmdom' h)"
  by (simp add: fmdom'_alt_def)

lemma held_by_fmupd:
  "held_by (fmupd a obj h) b = (if a = b then entries_of (Body obj) else held_by h b)"
  by (simp add: held_by_def)

lemma held_by_fmdrop: "b \<noteq> a \<Longrightarrow> held_by (fmdrop a h) b = held_by h b"
  by (simp add: held_by_def)

text \<open>
  \<open>f\<close> summed over the heap, when one object is removed or replaced by one with the same entries.
\<close>

lemma sum_held_fmdrop:
  fixes f :: "nat list \<Rightarrow> nat"
  assumes "fmlookup h a = Some obj"
  shows "(\<Sum>x\<in>fmdom' h. f (held_by h x)) =
         f (entries_of (Body obj)) + (\<Sum>x\<in>fmdom' (fmdrop a h). f (held_by (fmdrop a h) x))"
proof -
  from assms have "a \<in> fmdom' h" by (rule fmdom'I)
  then have "(\<Sum>x\<in>fmdom' h. f (held_by h x)) =
      f (held_by h a) + (\<Sum>x\<in>fmdom' h - {a}. f (held_by h x))"
    by (intro sum.remove finite_fmdom')
  also have "(\<Sum>x\<in>fmdom' h - {a}. f (held_by h x)) =
      (\<Sum>x\<in>fmdom' (fmdrop a h). f (held_by (fmdrop a h) x))"
    by (intro sum.cong) (auto simp: held_by_fmdrop)
  finally show ?thesis using assms by (simp add: held_by_def)
qed

lemma sum_held_fmupd:
  fixes f :: "nat list \<Rightarrow> nat"
  assumes "fmlookup h a = Some obj" and "Body obj' = Body obj"
  shows "(\<Sum>x\<in>fmdom' (fmupd a obj' h). f (held_by (fmupd a obj' h) x)) =
         (\<Sum>x\<in>fmdom' h. f (held_by h x))"
proof -
  from assms(1) have "a \<in> fmdom' h" by (rule fmdom'I)
  then have "insert a (fmdom' h) = fmdom' h" by auto
  then show ?thesis
    using assms by (intro sum.cong) (auto simp: held_by_def)
qed

function action_release :: "nat list \<Rightarrow> action_heap \<Rightarrow> action_heap option" where
  "action_release [] h = Some h"
| "action_release (a # todo) h =
     (case fmlookup h a of
        None \<Rightarrow> None
      | Some obj \<Rightarrow>
          if RefCount obj - 1 = 0
          then action_release (entries_of (Body obj) @ todo) (fmdrop a h)
          else action_release todo (fmupd a (obj\<lparr>RefCount := RefCount obj - 1\<rparr>) h))"
  by pat_completeness auto
termination
proof (relation "measure (\<lambda>(todo, h). pending_size todo h)", goal_cases)
  case 1
  show ?case by simp
next
  case (2 a todo h obj)
  then show ?case using sum_held_fmdrop [of h a obj length] by (simp add: pending_size_def)
next
  case (3 a todo h obj)
  then show ?case using sum_held_fmupd [of h a obj _ length] by (simp add: pending_size_def)
qed

definition CfixsReferenceSequenceAction :: "nat \<Rightarrow> action_heap \<Rightarrow> action_heap option" where
  "CfixsReferenceSequenceAction This h = action_reference This h"

definition CfixsDereferenceSequenceAction :: "nat \<Rightarrow> action_heap \<Rightarrow> action_heap option" where
  "CfixsDereferenceSequenceAction This h = action_release [This] h"

section \<open>The sequence action\<close>

record 's aworld =
  Heap :: action_heap
  Ambient :: 's

fun reference_all :: "nat list \<Rightarrow> action_heap \<Rightarrow> action_heap option" where
  "reference_all [] h = Some h"
| "reference_all (a # as) h = do { h \<leftarrow> action_reference a h; reference_all as h }"

fun dereference_all :: "nat list \<Rightarrow> action_heap \<Rightarrow> action_heap option" where
  "dereference_all [] h = Some h"
| "dereference_all (a # as) h = do { h \<leftarrow> action_release [a] h; dereference_all as h }"

fun run_in_order ::
    "(nat \<Rightarrow> 's aworld \<Rightarrow> (hresult \<times> 's aworld) option) \<Rightarrow> nat list \<Rightarrow> hresult \<Rightarrow> 's aworld \<Rightarrow>
       (hresult \<times> 's aworld) option" where
  "run_in_order Run [] Hr w = Some (Hr, w)"
| "run_in_order Run (a # as) Hr w =
     do { (Hr, w) \<leftarrow> Run a w; if FAILED Hr then Some (Hr, w) else run_in_order Run as Hr w }"

definition CfixsRunSequenceAction ::
    "bool \<Rightarrow> bool \<Rightarrow> (nat \<Rightarrow> 's aworld \<Rightarrow> (hresult \<times> 's aworld) option) \<Rightarrow> nat \<Rightarrow> 's aworld \<Rightarrow>
       (hresult \<times> 's aworld) option" where
  "CfixsRunSequenceAction malloc_ok context_ok Run This w =
     (case fmlookup (Heap w) This of
        None \<Rightarrow> None
      | Some obj \<Rightarrow>
          if \<not> VersionOk obj \<or> \<not> context_ok then Some (E_INVALIDARG, w)
          else (case Body obj of
             OtherAction \<Rightarrow> Some (E_INVALIDARG, w)
           | Sequence es \<Rightarrow>
               if es = [] then Some (S_OK, w)
               else if \<not> malloc_ok then Some (E_OUTOFMEMORY, w)
               else do {
                 h \<leftarrow> reference_all es (Heap w);
                 (Hr, w) \<leftarrow> run_in_order Run es S_OK (w\<lparr>Heap := h\<rparr>);
                 h \<leftarrow> dereference_all es (Heap w);
                 Some (Hr, w\<lparr>Heap := h\<rparr>)
               }))"

text \<open>\<open>fresh\<close> is the address \<open>malloc\<close> returns, \<open>None\<close> when it fails.\<close>

definition CfixCreateSequenceAction ::
    "nat option \<Rightarrow> bool \<Rightarrow> action_heap \<Rightarrow> (hresult \<times> nat option) \<times> action_heap" where
  "CfixCreateSequenceAction fresh ActionOut h =
     (if \<not> ActionOut then ((E_INVALIDARG, None), h)
      else case fresh of
        None \<Rightarrow> ((E_OUTOFMEMORY, None), h)
      | Some a \<Rightarrow>
          ((S_OK, Some a), fmupd a \<lparr>VersionOk = True, RefCount = 1, Body = Sequence []\<rparr> h))"

definition CfixAddEntrySequenceAction ::
    "bool \<Rightarrow> nat \<Rightarrow> nat \<Rightarrow> action_heap \<Rightarrow> (hresult \<times> action_heap) option" where
  "CfixAddEntrySequenceAction malloc_ok SequenceAction ActionToAdd h =
     (case (fmlookup h SequenceAction, fmlookup h ActionToAdd) of
        (Some seq, Some act) \<Rightarrow>
          if \<not> VersionOk seq \<or> \<not> VersionOk act \<or> ActionToAdd = SequenceAction
          then Some (E_INVALIDARG, h)
          else (case Body seq of
             OtherAction \<Rightarrow> Some (E_INVALIDARG, h)
           | Sequence es \<Rightarrow>
               if \<not> malloc_ok then Some (E_OUTOFMEMORY, h)
               else do {
                 h \<leftarrow> action_reference ActionToAdd h;
                 Some (S_OK, fmupd SequenceAction (seq\<lparr>Body := Sequence (es @ [ActionToAdd])\<rparr>) h)
               })
      | _ \<Rightarrow> None)"

section \<open>Reference count accounting\<close>

text \<open>
  \<open>ext a\<close> counts the references to \<open>a\<close> held outside the heap (by local variables, callers,
  other components). A heap is balanced for \<open>ext\<close> when every count is positive and is the sum
  of the outside references and of the entries of sequences, and nothing refers to an address
  that is not in the heap.
\<close>

definition entry_refs :: "action_heap \<Rightarrow> nat \<Rightarrow> nat" where
  "entry_refs h a = (\<Sum>x\<in>fmdom' h. count_list (held_by h x) a)"

definition balanced :: "(nat \<Rightarrow> nat) \<Rightarrow> action_heap \<Rightarrow> bool" where
  "balanced ext h \<longleftrightarrow> (\<forall>a. case fmlookup h a of
       None \<Rightarrow> ext a + entry_refs h a = 0
     | Some obj \<Rightarrow> RefCount obj = int (ext a + entry_refs h a) \<and> 0 < RefCount obj)"

lemma balanced_None: "balanced ext h \<Longrightarrow> fmlookup h a = None \<Longrightarrow> ext a = 0 \<and> entry_refs h a = 0"
  unfolding balanced_def by (drule spec [of _ a]) simp

lemma balanced_Some:
  "balanced ext h \<Longrightarrow> fmlookup h a = Some obj \<Longrightarrow>
     RefCount obj = int (ext a + entry_refs h a) \<and> 0 < RefCount obj"
  unfolding balanced_def by (drule spec [of _ a]) simp

lemma balanced_live: "balanced ext h \<Longrightarrow> 0 < ext a \<Longrightarrow> \<exists>obj. fmlookup h a = Some obj"
  by (cases "fmlookup h a") (auto dest: balanced_None)

lemma entry_refs_ge:
  "fmlookup h a = Some obj \<Longrightarrow> count_list (entries_of (Body obj)) b \<le> entry_refs h b"
  using sum_held_fmdrop [of h a obj "\<lambda>l. count_list l b"] by (simp add: entry_refs_def)

lemma entry_refs_fmupd:
  "fmlookup h a = Some obj \<Longrightarrow> Body obj' = Body obj \<Longrightarrow>
     entry_refs (fmupd a obj' h) b = entry_refs h b"
  using sum_held_fmupd [of h a obj obj' "\<lambda>l. count_list l b"] by (simp add: entry_refs_def)

lemma entry_refs_fmdrop:
  "fmlookup h a = Some obj \<Longrightarrow>
     entry_refs h b = count_list (entries_of (Body obj)) b + entry_refs (fmdrop a h) b"
  using sum_held_fmdrop [of h a obj "\<lambda>l. count_list l b"] by (simp add: entry_refs_def)

lemma balanced_entries_live:
  assumes "balanced ext h" and "fmlookup h a = Some obj" and "b \<in> set (entries_of (Body obj))"
  shows "\<exists>obj'. fmlookup h b = Some obj'"
proof -
  from assms(3) have "0 < count_list (entries_of (Body obj)) b"
    using count_list_0_iff [of "entries_of (Body obj)" b] by linarith
  with entry_refs_ge [OF assms(2), of b] have "entry_refs h b \<noteq> 0" by linarith
  with assms(1) show ?thesis by (cases "fmlookup h b") (auto dest: balanced_None)
qed

lemma balancedI:
  assumes "\<And>b. fmlookup h b = None \<Longrightarrow> ext b + entry_refs h b = 0"
    and "\<And>b obj. fmlookup h b = Some obj \<Longrightarrow>
           RefCount obj = int (ext b + entry_refs h b) \<and> 0 < RefCount obj"
  shows "balanced ext h"
  unfolding balanced_def
proof
  fix a
  show "case fmlookup h a of None \<Rightarrow> ext a + entry_refs h a = 0
    | Some obj \<Rightarrow> RefCount obj = int (ext a + entry_refs h a) \<and> 0 < RefCount obj"
    using assms(1) [of a] assms(2) [of a] by (cases "fmlookup h a") simp_all
qed

text \<open>Changing the count of one object by \<open>d\<close> together with the outside references to it.\<close>

lemma balanced_adjust:
  assumes "balanced ext h" and "fmlookup h a = Some obj"
    and "int (ext' a) = int (ext a) + d" and "\<And>b. b \<noteq> a \<Longrightarrow> ext' b = ext b"
    and "0 < RefCount obj + d"
  shows "balanced ext' (fmupd a (obj\<lparr>RefCount := RefCount obj + d\<rparr>) h)"
proof -
  define h' where "h' = fmupd a (obj\<lparr>RefCount := RefCount obj + d\<rparr>) h"
  have er: "entry_refs h' b = entry_refs h b" for b
    unfolding h'_def by (rule entry_refs_fmupd [OF assms(2)]) simp
  have look: "fmlookup h' b = (if b = a then Some (obj\<lparr>RefCount := RefCount obj + d\<rparr>)
                               else fmlookup h b)" for b
    by (simp add: h'_def)
  have "balanced ext' h'"
  proof (rule balancedI)
    fix b assume "fmlookup h' b = None"
    with balanced_None [OF assms(1), of b] assms(4) [of b] show "ext' b + entry_refs h' b = 0"
      by (auto simp: look er split: if_splits)
  next
    fix b obj' assume "fmlookup h' b = Some obj'"
    with balanced_Some [OF assms(1,2)] balanced_Some [OF assms(1), of b] assms(3-5)
    show "RefCount obj' = int (ext' b + entry_refs h' b) \<and> 0 < RefCount obj'"
      by (cases "b = a") (auto simp: look er)
  qed
  then show ?thesis by (simp add: h'_def)
qed

lemma action_reference_balanced:
  assumes "balanced ext h" and "fmlookup h a = Some obj"
  shows "\<exists>h'. action_reference a h = Some h' \<and> balanced (ext(a := Suc (ext a))) h' \<and>
           fmdom' h' = fmdom' h"
proof -
  have "balanced (ext(a := Suc (ext a))) (fmupd a (obj\<lparr>RefCount := RefCount obj + 1\<rparr>) h)"
    using balanced_Some [OF assms] by (intro balanced_adjust [OF assms]) auto
  moreover have "insert a (fmdom' h) = fmdom' h"
    using fmdom'I [OF assms(2)] by auto
  ultimately show ?thesis using assms(2) by (simp add: action_reference_def)
qed

text \<open>Releasing a list of references that are accounted for never faults.\<close>

lemma action_release_balanced:
  "balanced (\<lambda>x. ext x + count_list todo x) h \<Longrightarrow>
     \<exists>h'. action_release todo h = Some h' \<and> balanced ext h'"
proof (induction todo h rule: action_release.induct)
  case (1 h)
  then show ?case by simp
next
  case (2 a todo h)
  let ?ext = "\<lambda>x. ext x + count_list (a # todo) x"
  have "0 < ?ext a" by simp
  from balanced_live [OF 2(3) this] obtain obj where obj: "fmlookup h a = Some obj" by blast
  note cnt = balanced_Some [OF 2(3) obj]
  show ?case
  proof (cases "RefCount obj - 1 = 0")
    case True
    have "balanced (\<lambda>x. ext x + count_list (entries_of (Body obj) @ todo) x) (fmdrop a h)"
    proof (rule balancedI)
      fix b assume "fmlookup (fmdrop a h) b = None"
      with cnt True entry_refs_fmdrop [OF obj, of b] balanced_None [OF 2(3), of b]
      show "ext b + count_list (entries_of (Body obj) @ todo) b + entry_refs (fmdrop a h) b = 0"
        by (cases "b = a") auto
    next
      fix b obj' assume "fmlookup (fmdrop a h) b = Some obj'"
      with entry_refs_fmdrop [OF obj, of b] balanced_Some [OF 2(3), of b]
      show "RefCount obj' =
          int (ext b + count_list (entries_of (Body obj) @ todo) b + entry_refs (fmdrop a h) b) \<and>
          0 < RefCount obj'"
        by (cases "b = a") auto
    qed
    from 2(1) [OF obj True this] obj True show ?thesis by simp
  next
    case False
    have "balanced (\<lambda>x. ext x + count_list todo x)
            (fmupd a (obj\<lparr>RefCount := RefCount obj + (- 1)\<rparr>) h)"
      using cnt False by (intro balanced_adjust [OF 2(3) obj]) auto
    with 2(2) [OF obj False] obj False show ?thesis by simp
  qed
qed

lemma reference_all_balanced:
  "balanced ext h \<Longrightarrow> set as \<subseteq> fmdom' h \<Longrightarrow>
     \<exists>h'. reference_all as h = Some h' \<and> balanced (\<lambda>x. ext x + count_list as x) h'"
proof (induction as arbitrary: ext h)
  case Nil
  then show ?case by simp
next
  case (Cons a as)
  then obtain obj where "fmlookup h a = Some obj" by (cases "fmlookup h a") (auto simp: fmdom'_notI)
  from action_reference_balanced [OF Cons.prems(1) this] obtain h1 where
    h1: "action_reference a h = Some h1" "balanced (ext(a := Suc (ext a))) h1"
    "fmdom' h1 = fmdom' h" by blast
  with Cons.IH [OF h1(2)] Cons.prems(2) obtain h2 where
    h2: "reference_all as h1 = Some h2"
    "balanced (\<lambda>x. (ext(a := Suc (ext a))) x + count_list as x) h2" by auto
  have "(\<lambda>x. (ext(a := Suc (ext a))) x + count_list as x) =
        (\<lambda>x. ext x + count_list (a # as) x)" by auto
  with h1 h2 show ?case by (metis bind.bind_lunit reference_all.simps(2))
qed

lemma dereference_all_balanced:
  "balanced (\<lambda>x. ext x + count_list as x) h \<Longrightarrow>
     \<exists>h'. dereference_all as h = Some h' \<and> balanced ext h'"
proof (induction as arbitrary: h)
  case Nil
  then show ?case by simp
next
  case (Cons a as)
  have "(\<lambda>x. ext x + count_list (a # as) x) =
        (\<lambda>x. (ext x + count_list as x) + count_list [a] x)" by auto
  with Cons.prems have "balanced (\<lambda>x. (ext x + count_list as x) + count_list [a] x) h"
    by simp
  from action_release_balanced [OF this] Cons.IH show ?case by auto
qed

text \<open>Adding an entry adds one reference, from the sequence to the entry.\<close>

lemma entry_refs_add_entry:
  assumes "fmlookup h q = Some seq" and "Body seq = Sequence es"
  shows "entry_refs (fmupd q (seq\<lparr>Body := Sequence (es @ [a])\<rparr>) h) b =
         entry_refs h b + (if b = a then 1 else 0)"
proof -
  let ?h' = "fmupd q (seq\<lparr>Body := Sequence (es @ [a])\<rparr>) h"
  have "fmdrop q ?h' = fmdrop q h" by (rule fmap_ext) simp
  then show ?thesis
    using entry_refs_fmdrop [OF assms(1), of b] assms(2)
      entry_refs_fmdrop [of ?h' q "seq\<lparr>Body := Sequence (es @ [a])\<rparr>" b]
    by simp
qed

lemma add_entry_balanced:
  assumes "balanced ext h"
    and "CfixAddEntrySequenceAction malloc_ok q a h = Some (hr, h')"
  shows "balanced ext h'"
proof (cases "h' = h")
  case False
  from assms(2) False obtain seq act es where
    seq: "fmlookup h q = Some seq" and act: "fmlookup h a = Some act" and aq: "a \<noteq> q"
    and es: "Body seq = Sequence es"
    and h': "h' = fmupd q (seq\<lparr>Body := Sequence (es @ [a])\<rparr>)
                    (fmupd a (act\<lparr>RefCount := RefCount act + 1\<rparr>) h)"
    by (cases "fmlookup h q"; cases "fmlookup h a"; cases "Body (the (fmlookup h q))")
      (auto simp: CfixAddEntrySequenceAction_def action_reference_def split: if_splits)
  let ?h1 = "fmupd a (act\<lparr>RefCount := RefCount act + 1\<rparr>) h"
  have b1: "balanced (ext(a := Suc (ext a))) ?h1"
    using balanced_Some [OF assms(1) act] by (intro balanced_adjust [OF assms(1) act]) auto
  have seq1: "fmlookup ?h1 q = Some seq" using seq aq by simp
  note er = entry_refs_add_entry [OF seq1 es, of a, folded h']
  show ?thesis
  proof (rule balancedI)
    fix b assume "fmlookup h' b = None"
    then have "b \<noteq> q" "b \<noteq> a" "fmlookup ?h1 b = None" by (auto simp: h' split: if_splits)
    with balanced_None [OF b1, of b] er [of b] show "ext b + entry_refs h' b = 0" by simp
  next
    fix b obj assume obj: "fmlookup h' b = Some obj"
    show "RefCount obj = int (ext b + entry_refs h' b) \<and> 0 < RefCount obj"
    proof (cases "b = q")
      case True
      with obj have "RefCount obj = RefCount seq" by (auto simp: h')
      with True aq balanced_Some [OF b1 seq1] er [of b] show ?thesis by simp
    next
      case False
      with obj have "fmlookup ?h1 b = Some obj" by (simp add: h')
      from balanced_Some [OF b1 this] er [of b] show ?thesis by (simp split: if_splits)
    qed
  qed
qed (use assms(1) in simp)

lemma create_balanced:
  assumes "balanced ext h" and "fmlookup h a = None"
  shows "balanced (ext(a := 1)) (snd (CfixCreateSequenceAction (Some a) True h))"
proof -
  let ?o = "\<lparr>VersionOk = True, RefCount = 1, Body = Sequence []\<rparr>"
  have "fmdrop a (fmupd a ?o h) = h" using assms(2) by (intro fmap_ext) auto
  with entry_refs_fmdrop [of "fmupd a ?o h" a ?o] have er: "entry_refs (fmupd a ?o h) b =
      entry_refs h b" for b by simp
  have "balanced (ext(a := 1)) (fmupd a ?o h)"
  proof (rule balancedI)
    fix b assume "fmlookup (fmupd a ?o h) b = None"
    with balanced_None [OF assms(1), of b]
    show "(ext(a := 1)) b + entry_refs (fmupd a ?o h) b = 0"
      by (auto simp: er split: if_splits)
  next
    fix b obj assume "fmlookup (fmupd a ?o h) b = Some obj"
    with balanced_Some [OF assms(1), of b] balanced_None [OF assms]
    show "RefCount obj = int ((ext(a := 1)) b + entry_refs (fmupd a ?o h) b) \<and> 0 < RefCount obj"
      by (auto simp: er split: if_splits)
  qed
  then show ?thesis by (simp add: CfixCreateSequenceAction_def)
qed

lemma dereference_balanced:
  assumes "balanced ext h" and "0 < ext a"
  shows "\<exists>h'. CfixsDereferenceSequenceAction a h = Some h' \<and>
           balanced (ext(a := ext a - 1)) h'"
proof -
  have "ext = (\<lambda>x. (ext(a := ext a - 1)) x + count_list [a] x)"
    using assms(2) by (auto intro!: HOL.ext)
  with assms(1) have "balanced (\<lambda>x. (ext(a := ext a - 1)) x + count_list [a] x) h" by metis
  from action_release_balanced [OF this] show ?thesis
    by (simp only: CfixsDereferenceSequenceAction_def)
qed

section \<open>The contract of Run, and the sequence as its client\<close>

text \<open>
  The interface \<open>CFIX_ACTION\<close> as the sequence uses it: an action that is alive may be run, and
  it leaves the references of everybody else alone. A sequence of such actions is again one.
\<close>

locale cfix_action =
  fixes Run :: "nat \<Rightarrow> 's aworld \<Rightarrow> (hresult \<times> 's aworld) option"
  assumes run_balanced:
    "balanced ext (Heap w) \<Longrightarrow> 0 < ext a \<Longrightarrow> Run a w = Some (hr, w') \<Longrightarrow> balanced ext (Heap w')"
begin

lemma run_in_order_balanced:
  "balanced ext (Heap w) \<Longrightarrow> \<forall>a\<in>set as. 0 < ext a \<Longrightarrow>
     run_in_order Run as hr w = Some (hr', w') \<Longrightarrow> balanced ext (Heap w')"
proof (induction as arbitrary: hr w)
  case (Cons a as)
  then obtain hr1 w1 where run: "Run a w = Some (hr1, w1)"
    by (auto simp: bind_Some_iff)
  from run_balanced [OF Cons.prems(1) _ run] Cons.prems(2) have "balanced ext (Heap w1)"
    by simp
  with Cons run show ?case by (auto split: if_splits)
qed simp

lemma sequence_balanced:
  assumes "balanced ext (Heap w)" and "0 < ext This"
    and "CfixsRunSequenceAction malloc_ok context_ok Run This w = Some (hr, w')"
  shows "balanced ext (Heap w')"
proof (cases "Heap w' = Heap w")
  case False
  from balanced_live [OF assms(1,2)] obtain obj where obj: "fmlookup (Heap w) This = Some obj"
    by blast
  with assms(3) False obtain es where es: "Body obj = Sequence es"
    by (cases "Body obj") (auto simp: CfixsRunSequenceAction_def split: if_splits)
  let ?ext = "\<lambda>x. ext x + count_list es x"
  have "set es \<subseteq> fmdom' (Heap w)"
    using balanced_entries_live [OF assms(1) obj] es by (auto intro: fmdom'I)
  from reference_all_balanced [OF assms(1) this] obtain h1 where
    h1: "reference_all es (Heap w) = Some h1" "balanced ?ext h1" by blast
  from assms(3) False obj es h1(1) obtain w1 h2 where
    run: "run_in_order Run es S_OK (w\<lparr>Heap := h1\<rparr>) = Some (hr, w1)"
    and h2: "dereference_all es (Heap w1) = Some h2" "w' = w1\<lparr>Heap := h2\<rparr>"
    by (auto simp: CfixsRunSequenceAction_def bind_Some_iff split: if_splits)
  have live: "\<forall>a\<in>set es. 0 < ?ext a"
    by (metis add_gr_0 count_list_0_iff not_gr_zero)
  from run_in_order_balanced [OF _ live run] h1(2) have "balanced ?ext (Heap w1)" by simp
  from dereference_all_balanced [OF this] h2 show ?thesis by auto
qed (use assms(1) in simp)

lemma run_in_order_returns:
  "balanced ext (Heap w) \<Longrightarrow> \<forall>a\<in>set as. 0 < ext a \<Longrightarrow>
   (\<And>a w. balanced ext (Heap w) \<Longrightarrow> a \<in> set as \<Longrightarrow> Run a w \<noteq> None) \<Longrightarrow>
     run_in_order Run as hr w \<noteq> None"
proof (induction as arbitrary: hr w)
  case (Cons a as)
  from Cons.prems(3) [OF Cons.prems(1), of a] obtain hr1 w1 where run: "Run a w = Some (hr1, w1)"
    by auto
  from run_balanced [OF Cons.prems(1) _ run] Cons.prems(2) have "balanced ext (Heap w1)"
    by simp
  with Cons run show ?case by (cases "FAILED hr1") auto
qed simp

lemma sequence_returns:
  assumes "balanced ext (Heap w)" and "0 < ext This"
    and runs: "\<And>ext a w. balanced ext (Heap w) \<Longrightarrow> 0 < ext a \<Longrightarrow> Run a w \<noteq> None"
  shows "CfixsRunSequenceAction malloc_ok context_ok Run This w \<noteq> None"
proof -
  from balanced_live [OF assms(1,2)] obtain obj where obj: "fmlookup (Heap w) This = Some obj"
    by blast
  show ?thesis
  proof (cases "Body obj")
    case OtherAction
    with obj show ?thesis by (simp add: CfixsRunSequenceAction_def)
  next
    case (Sequence es)
    let ?ext = "\<lambda>x. ext x + count_list es x"
    have "set es \<subseteq> fmdom' (Heap w)"
      using balanced_entries_live [OF assms(1) obj] Sequence by (auto intro: fmdom'I)
    from reference_all_balanced [OF assms(1) this] obtain h1 where
      h1: "reference_all es (Heap w) = Some h1" "balanced ?ext h1" by blast
    have live: "\<forall>a\<in>set es. 0 < ?ext a"
      by (metis add_gr_0 count_list_0_iff not_gr_zero)
    have bal: "balanced ?ext (Heap (w\<lparr>Heap := h1\<rparr>))" using h1(2) by simp
    have "run_in_order Run es S_OK (w\<lparr>Heap := h1\<rparr>) \<noteq> None"
    proof (rule run_in_order_returns [OF bal live])
      fix a and w :: "'s aworld"
      assume "balanced ?ext (Heap w)" and "a \<in> set es"
      with live runs [of ?ext w a] show "Run a w \<noteq> None" by simp
    qed
    then obtain hr w1 where run: "run_in_order Run es S_OK (w\<lparr>Heap := h1\<rparr>) = Some (hr, w1)"
      by auto
    from run_in_order_balanced [OF bal live run] have "balanced ?ext (Heap w1)" .
    from dereference_all_balanced [OF this] run h1 obj Sequence show ?thesis
      by (auto simp: CfixsRunSequenceAction_def)
  qed
qed

end

section \<open>Dispatch and nesting\<close>

text \<open>
  A call through \<open>Action->Run\<close>: a sequence runs its entries by the same dispatch, any other
  action is \<open>leaf\<close>. Sequences may be nested, so the dispatch takes fuel; \<open>None\<close> when it runs
  out. \<open>run_action_flattened\<close> below shows that the nesting depth is enough fuel.
\<close>

fun run_action ::
    "nat \<Rightarrow> (nat \<Rightarrow> 's aworld \<Rightarrow> (hresult \<times> 's aworld) option) \<Rightarrow> nat \<Rightarrow> 's aworld \<Rightarrow>
       (hresult \<times> 's aworld) option" where
  "run_action 0 leaf a w = None"
| "run_action (Suc n) leaf a w =
     (case fmlookup (Heap w) a of
        None \<Rightarrow> None
      | Some obj \<Rightarrow>
          (case Body obj of
             OtherAction \<Rightarrow> leaf a w
           | Sequence _ \<Rightarrow> CfixsRunSequenceAction True True (run_action n leaf) a w))"

lemma run_action_contract:
  assumes "cfix_action leaf"
  shows "cfix_action (run_action n leaf)"
proof (induction n)
  case 0
  show ?case by unfold_locales simp
next
  case (Suc n)
  show ?case
  proof
    fix ext a hr and w w' :: "'a aworld"
    assume bal: "balanced ext (Heap w)" "0 < ext a"
      and run: "run_action (Suc n) leaf a w = Some (hr, w')"
    from balanced_live [OF bal] obtain obj where obj: "fmlookup (Heap w) a = Some obj" by blast
    show "balanced ext (Heap w')"
    proof (cases "Body obj")
      case OtherAction
      with run obj have "leaf a w = Some (hr, w')" by simp
      from cfix_action.run_balanced [OF assms bal this] show ?thesis .
    next
      case (Sequence es)
      with run obj have "CfixsRunSequenceAction True True (run_action n leaf) a w = Some (hr, w')"
        by simp
      from cfix_action.sequence_balanced [OF Suc bal this] show ?thesis .
    qed
  qed
qed

section \<open>Nested sequences run their leaves in order\<close>

text \<open>Leaves that touch only the ambient state, as the fixture execution action does.\<close>

definition on_ambient ::
    "(nat \<Rightarrow> 's \<Rightarrow> (hresult \<times> 's) option) \<Rightarrow> nat \<Rightarrow> 's aworld \<Rightarrow> (hresult \<times> 's aworld) option" where
  "on_ambient lf a w =
     (case lf a (Ambient w) of None \<Rightarrow> None | Some (hr, s) \<Rightarrow> Some (hr, w\<lparr>Ambient := s\<rparr>))"

fun flatten :: "nat \<Rightarrow> action_heap \<Rightarrow> nat \<Rightarrow> nat list" where
  "flatten 0 h a = []"
| "flatten (Suc n) h a =
     (case fmlookup h a of
        None \<Rightarrow> []
      | Some obj \<Rightarrow> (case Body obj of
          OtherAction \<Rightarrow> [a] | Sequence es \<Rightarrow> concat (map (flatten n h) es)))"

fun run_leaves ::
    "(nat \<Rightarrow> 's \<Rightarrow> (hresult \<times> 's) option) \<Rightarrow> nat list \<Rightarrow> 's \<Rightarrow> (hresult \<times> 's) option" where
  "run_leaves lf [] s = Some (S_OK, s)"
| "run_leaves lf (a # as) s =
     do { (hr, s) \<leftarrow> lf a s; if FAILED hr then Some (hr, s) else run_leaves lf as s }"

lemma run_leaves_append:
  "run_leaves lf (as @ bs) s =
     do { (hr, s) \<leftarrow> run_leaves lf as s; if FAILED hr then Some (hr, s) else run_leaves lf bs s }"
  by (induction as arbitrary: s) (auto simp: Option.bind_assoc split: Option.bind_splits)

lemma run_leaves_returns:
  "\<forall>a s. lf a s \<noteq> None \<Longrightarrow> run_leaves lf as s \<noteq> None"
proof (induction as arbitrary: s)
  case (Cons a as)
  from Cons.prems obtain hr s1 where "lf a s = Some (hr, s1)" by fastforce
  with Cons show ?case by (cases "FAILED hr") auto
qed simp

definition well_nested :: "(nat \<Rightarrow> nat) \<Rightarrow> action_heap \<Rightarrow> bool" where
  "well_nested rank h \<longleftrightarrow> (\<forall>a obj. fmlookup h a = Some obj \<longrightarrow>
     VersionOk obj \<and> 0 < RefCount obj \<and>
     (\<forall>b\<in>set (entries_of (Body obj)). fmlookup h b \<noteq> None \<and> rank b < rank a))"

definition bump :: "(nat \<Rightarrow> nat) \<Rightarrow> action_heap \<Rightarrow> action_heap" where
  "bump f h = fmmap_keys (\<lambda>a obj. obj\<lparr>RefCount := RefCount obj + int (f a)\<rparr>) h"

lemma fmlookup_bump [simp]:
  "fmlookup (bump f h) a =
     map_option (\<lambda>obj. obj\<lparr>RefCount := RefCount obj + int (f a)\<rparr>) (fmlookup h a)"
  by (simp add: bump_def)

lemma bump_bump: "bump f (bump g h) = bump (\<lambda>a. g a + f a) h"
  by (rule fmap_ext) (simp add: option.map_comp comp_def algebra_simps)

lemma bump_0 [simp]: "bump (\<lambda>_. 0) h = h"
  by (rule fmap_ext) (simp add: option.map_ident)

lemma flatten_bump [simp]: "flatten n (bump f h) a = flatten n h a"
  by (induction n arbitrary: a) (auto split: option.splits action_body.splits cong: map_cong)

lemma well_nested_bump: "well_nested rank h \<Longrightarrow> well_nested rank (bump f h)"
  by (fastforce simp: well_nested_def)

lemma reference_all_bump:
  "set as \<subseteq> fmdom' h \<Longrightarrow> reference_all as h = Some (bump (count_list as) h)"
proof (induction as arbitrary: h)
  case Nil
  then show ?case by simp
next
  case (Cons a as)
  then obtain obj where obj: "fmlookup h a = Some obj"
    by (cases "fmlookup h a") (auto simp: fmdom'_notI)
  have "action_reference a h = Some (bump (\<lambda>x. if x = a then 1 else 0) h)"
    using obj by (auto simp: action_reference_def option.map_ident intro!: fmap_ext)
  moreover have "(\<lambda>x. (if x = a then 1 else 0) + count_list as x) = count_list (a # as)"
    by auto
  ultimately show ?case using Cons
    by (simp add: bump_bump fmlookup_dom'_iff subset_iff del: count_list.simps)
qed

lemma dereference_all_bump:
  "set as \<subseteq> fmdom' h \<Longrightarrow> (\<And>a obj. fmlookup h a = Some obj \<Longrightarrow> 0 < RefCount obj) \<Longrightarrow>
     dereference_all as (bump (count_list as) h) = Some h"
proof (induction as arbitrary: h)
  case Nil
  then show ?case by simp
next
  case (Cons a as)
  then obtain obj where obj: "fmlookup h a = Some obj"
    by (cases "fmlookup h a") (auto simp: fmdom'_notI)
  from Cons.prems(2) [OF obj] have "0 < RefCount obj" .
  with obj have "action_release [a] (bump f h) = Some (bump (count_list as) h)"
    if "f = (\<lambda>x. count_list as x + (if x = a then 1 else 0))" for f
    using that by (auto simp: option.map_ident intro!: fmap_ext)
  moreover have "count_list (a # as) = (\<lambda>x. count_list as x + (if x = a then 1 else 0))"
    by auto
  ultimately have "action_release [a] (bump (count_list (a # as)) h) =
      Some (bump (count_list as) h)" by blast
  with Cons show ?case by (simp del: action_release.simps count_list.simps)
qed

definition success_ok :: "hresult \<times> 's \<Rightarrow> hresult \<times> 's" where
  "success_ok r = (if FAILED (fst r) then r else (S_OK, snd r))"

lemma success_ok_simps [simp]:
  "success_ok (S_OK, s) = (S_OK, s)"
  "FAILED hr \<Longrightarrow> success_ok (hr, s) = (hr, s)"
  "\<not> FAILED hr \<Longrightarrow> success_ok (hr, s) = (S_OK, s)"
  by (simp_all add: success_ok_def)

definition in_world :: "'s aworld \<Rightarrow> hresult \<times> 's \<Rightarrow> hresult \<times> 's aworld" where
  "in_world w r = (fst r, w\<lparr>Ambient := snd r\<rparr>)"

lemma success_okD:
  "success_ok (hr, w1) = in_world w (hr', s') \<Longrightarrow> FAILED hr' \<or> hr' = S_OK \<Longrightarrow>
     w1 = w\<lparr>Ambient := s'\<rparr> \<and> FAILED hr = FAILED hr' \<and> (FAILED hr \<longrightarrow> hr = hr')"
  by (auto simp: success_ok_def in_world_def split: if_splits)

lemma run_leaves_result: "run_leaves lf as s = Some (hr, s') \<Longrightarrow> FAILED hr \<or> hr = S_OK"
  by (induction as arbitrary: s) (auto simp: bind_Some_iff split: if_splits)

text \<open>
  Entries each of which behaves as its own leaves behave together as the leaves of all of them.
\<close>

lemma run_in_order_leaves:
  assumes "\<forall>b\<in>set es. \<forall>s. map_option success_ok (Run b (w\<lparr>Ambient := s\<rparr>)) =
             map_option (in_world w) (run_leaves lf (fl b) s)"
    and "\<not> FAILED hr"
  shows "map_option success_ok (run_in_order Run es hr (w\<lparr>Ambient := s\<rparr>)) =
         map_option (in_world w) (run_leaves lf (concat (map fl es)) s)"
  using assms
proof (induction es arbitrary: hr s)
  case Nil
  then show ?case by (simp add: in_world_def)
next
  case (Cons b es)
  then have b: "map_option success_ok (Run b (w\<lparr>Ambient := s\<rparr>)) =
      map_option (in_world w) (run_leaves lf (fl b) s)" by simp
  show ?case
  proof (cases "run_leaves lf (fl b) s")
    case None
    with b show ?thesis by (simp add: run_leaves_append)
  next
    case (Some r)
    obtain hr' s' where r: "r = (hr', s')" by (cases r)
    from b Some r obtain hr1 w1 where run: "Run b (w\<lparr>Ambient := s\<rparr>) = Some (hr1, w1)"
      and eq: "success_ok (hr1, w1) = in_world w (hr', s')"
      by (cases "Run b (w\<lparr>Ambient := s\<rparr>)") auto
    from run_leaves_result [of lf "fl b" s hr' s'] Some r have "FAILED hr' \<or> hr' = S_OK" by simp
    from success_okD [OF eq this] have w1: "w1 = w\<lparr>Ambient := s'\<rparr>"
      and f: "FAILED hr1 = FAILED hr'" "FAILED hr1 \<longrightarrow> hr1 = hr'" by blast+
    show ?thesis
    proof (cases "FAILED hr1")
      case True
      with run w1 f Some r show ?thesis by (simp add: run_leaves_append in_world_def)
    next
      case False
      with Cons.IH [of hr1 s'] Cons.prems(1) run w1 f Some r show ?thesis
        by (simp add: run_leaves_append)
    qed
  qed
qed

lemma flatten_Sequence:
  "fmlookup h a = Some obj \<Longrightarrow> Body obj = Sequence es \<Longrightarrow>
     flatten (Suc n) h a = concat (map (flatten n h) es)"
  by simp

lemma run_action_leaves:
  "well_nested rank (Heap w) \<Longrightarrow> fmlookup (Heap w) a \<noteq> None \<Longrightarrow> rank a < n \<Longrightarrow>
   map_option success_ok (run_action n (on_ambient lf) a w) =
     map_option (in_world w) (run_leaves lf (flatten n (Heap w) a) (Ambient w))"
proof (induction n arbitrary: a w)
  case (Suc n)
  from Suc.prems(2) obtain obj where obj: "fmlookup (Heap w) a = Some obj" by auto
  with Suc.prems(1) have ok: "VersionOk obj" by (auto simp: well_nested_def)
  show ?case
  proof (cases "Body obj")
    case OtherAction
    show ?thesis
    proof (cases "lf a (Ambient w)")
      case None
      with OtherAction obj show ?thesis by (simp add: on_ambient_def)
    next
      case (Some r)
      with OtherAction obj show ?thesis
        by (cases r; cases "FAILED (fst r)") (simp_all add: on_ambient_def in_world_def)
    qed
  next
    case (Sequence es)
    have run: "run_action (Suc n) (on_ambient lf) a w =
        CfixsRunSequenceAction True True (run_action n (on_ambient lf)) a w"
      using obj Sequence by simp
    have nested: "\<forall>b\<in>set es. fmlookup (Heap w) b \<noteq> None \<and> rank b < rank a"
      using Suc.prems(1) obj Sequence by (force simp: well_nested_def)
    have dom: "set es \<subseteq> fmdom' (Heap w)"
      using nested by (auto simp: fmlookup_dom'_iff)
    have pos: "\<And>x obj. fmlookup (Heap w) x = Some obj \<Longrightarrow> 0 < RefCount obj"
      using Suc.prems(1) by (auto simp: well_nested_def)
    define w1 where "w1 = w\<lparr>Heap := bump (count_list es) (Heap w)\<rparr>"
    have "\<forall>b\<in>set es. \<forall>s. map_option success_ok
            (run_action n (on_ambient lf) b (w1\<lparr>Ambient := s\<rparr>)) =
          map_option (in_world w1) (run_leaves lf (flatten n (Heap w) b) s)"
    proof (intro ballI allI)
      fix b s assume "b \<in> set es"
      with nested Suc.prems(3) have "fmlookup (Heap w) b \<noteq> None" "rank b < n" by auto
      with Suc.IH [of "w1\<lparr>Ambient := s\<rparr>" b] well_nested_bump [OF Suc.prems(1)]
      show "map_option success_ok (run_action n (on_ambient lf) b (w1\<lparr>Ambient := s\<rparr>)) =
          map_option (in_world w1) (run_leaves lf (flatten n (Heap w) b) s)"
        by (simp add: w1_def in_world_def [abs_def])
    qed
    from run_in_order_leaves [OF this, of S_OK "Ambient w"]
    have all: "map_option success_ok (run_in_order (run_action n (on_ambient lf)) es S_OK w1) =
        map_option (in_world w1) (run_leaves lf (concat (map (flatten n (Heap w)) es)) (Ambient w))"
      by (simp add: w1_def)
    have flat: "flatten (Suc n) (Heap w) a = concat (map (flatten n (Heap w)) es)"
      using flatten_Sequence [OF obj Sequence] .
    show ?thesis
    proof (cases "es = []")
      case True
      have "run_action (Suc n) (on_ambient lf) a w = Some (S_OK, w)"
        unfolding run CfixsRunSequenceAction_def using obj Sequence ok True by simp
      with flat True show ?thesis by (simp add: in_world_def del: run_action.simps)
    next
      case False
      define rs where
        "rs = run_leaves lf (concat (map (flatten n (Heap w)) es)) (Ambient w)"
      define rr where "rr = run_in_order (run_action n (on_ambient lf)) es S_OK w1"
      have unf: "run_action (Suc n) (on_ambient lf) a w =
          do { (Hr, w) \<leftarrow> rr; h \<leftarrow> dereference_all es (Heap w); Some (Hr, w\<lparr>Heap := h\<rparr>) }"
        unfolding run CfixsRunSequenceAction_def rr_def
        using obj Sequence ok False reference_all_bump [OF dom] by (simp add: w1_def)
      note deref = dereference_all_bump [OF dom pos]
      show ?thesis
      proof (cases rs)
        case None
        with all have "rr = None" by (simp add: rs_def rr_def)
        with unf flat None show ?thesis by (simp add: rs_def del: run_action.simps)
      next
        case (Some r)
        obtain hr' s' where r: "r = (hr', s')" by (cases r)
        from all Some r obtain hr1 w2 where rr: "rr = Some (hr1, w2)"
          and eq: "success_ok (hr1, w2) = in_world w1 (hr', s')"
          by (cases rr) (auto simp: rs_def rr_def)
        have norm: "FAILED hr' \<or> hr' = S_OK"
          using Some r
            run_leaves_result [of lf "concat (map (flatten n (Heap w)) es)" "Ambient w" hr' s']
          by (simp add: rs_def)
        from success_okD [OF eq norm] have w2: "w2 = w1\<lparr>Ambient := s'\<rparr>"
          and f: "FAILED hr1 = FAILED hr'" "FAILED hr1 \<longrightarrow> hr1 = hr'" by blast+
        have "run_action (Suc n) (on_ambient lf) a w = Some (hr1, w\<lparr>Ambient := s'\<rparr>)"
          using unf rr w2 deref by (simp add: w1_def del: run_action.simps)
        with flat Some r f norm show ?thesis
          by (auto simp: rs_def success_ok_def in_world_def simp del: run_action.simps)
      qed
    qed
  qed
qed simp

end
