(* ===== verification/SequenceRun.thy ===== *)
theory SequenceRun
  imports SequenceAction TsTrace
begin

text \<open>
  Sequences of fixtures, as the runner builds them: the leaves of a sequence are fixture
  execution actions (\<open>TsExec\<close>), which touch the ambient state only. The contract \<open>cfix_action\<close>
  is discharged for them, and with it for sequences nested to any depth.
\<close>

definition fixture_run ::
    "('s \<Rightarrow> bool) \<Rightarrow> ulong \<Rightarrow> (nat \<Rightarrow> 's tsexec_action) \<Rightarrow> 's exec_context \<Rightarrow>
       nat \<Rightarrow> 's \<Rightarrow> (hresult \<times> 's) option" where
  "fixture_run dbg CurrentThreadId Actions Context a s =
     CfixsRunFixtureExecutionAction dbg CurrentThreadId (Actions a) Context s"

lemma on_ambient_heap: "on_ambient lf a w = Some (hr, w') \<Longrightarrow> Heap w' = Heap w"
  by (auto simp: on_ambient_def split: option.splits)

interpretation fixture_leaf: cfix_action "on_ambient (fixture_run dbg tid acts ctx)"
  for dbg :: "'s \<Rightarrow> bool" and tid acts ctx
  by unfold_locales (auto dest: on_ambient_heap)

interpretation fixtures: cfix_action "run_action n (on_ambient (fixture_run dbg tid acts ctx))"
  for n and dbg :: "'s \<Rightarrow> bool" and tid acts ctx
  by (rule run_action_contract) unfold_locales

text \<open>Two nested sequences over the scripted fixtures of \<open>TsTrace\<close>, for the witnesses.\<close>

definition demo_heap :: action_heap where
  "demo_heap = fmap_of_list
     [(0, \<lparr>VersionOk = True, RefCount = 2, Body = OtherAction\<rparr>),
      (1, \<lparr>VersionOk = True, RefCount = 1, Body = Sequence [0]\<rparr>),
      (2, \<lparr>VersionOk = True, RefCount = 1, Body = Sequence [1, 0]\<rparr>)]"

definition demo_acts :: "nat \<Rightarrow> trace tsexec_action" where
  "demo_acts a = script_action (demo_script CFIX_E_TEST_ROUTINE_FAILED) demo_fixture 0 (- 1)"

lemma demo_heap_well_nested: "well_nested id demo_heap"
  by (auto simp: well_nested_def demo_heap_def split: if_splits)

lemma demo_heap_entry_refs: "entry_refs demo_heap a =
    (if a = 0 then 2 else if a = 1 then 1 else 0)"
proof -
  have "fmdom' demo_heap = {0, 1, 2}"
    by (auto simp: demo_heap_def fmlookup_dom'_iff split: if_splits)
  then show ?thesis by (simp add: entry_refs_def held_by_def demo_heap_def)
qed

lemma demo_heap_balanced: "balanced (\<lambda>a. if a = 2 then 1 else 0) demo_heap"
  by (rule balancedI) (auto simp: demo_heap_entry_refs, auto simp: demo_heap_def split: if_splits)

text \<open>
  C6: a nested sequence is the flat list of its fixtures. For every heap in which sequences are
  nested without cycles, running a sequence runs the fixtures below it, left to right, until
  one fails; every reference the run takes is given back, so that the heap is as before. The
  depth of nesting is enough fuel. Successful results are compared up to the success code.
\<close>

theorem sequence_runs_fixtures_in_order:
  assumes "well_nested rank (Heap w)" and "fmlookup (Heap w) a \<noteq> None" and "rank a < n"
  shows "map_option success_ok
           (run_action n (on_ambient (fixture_run dbg tid acts ctx)) a w) =
         map_option (in_world w)
           (run_leaves (fixture_run dbg tid acts ctx) (flatten n (Heap w) a) (Ambient w))"
  using assms by (rule run_action_leaves)

theorem sequence_runs_fixtures_in_order_witness:
  "map_option success_ok
     (run_action 3 (on_ambient (fixture_run (\<lambda>_. False) 1 demo_acts (script_context (\<lambda>_. S_OK))))
        2 \<lparr>Heap = demo_heap, Ambient = []\<rparr>) =
   map_option (in_world \<lparr>Heap = demo_heap, Ambient = []\<rparr>)
     (run_leaves (fixture_run (\<lambda>_. False) 1 demo_acts (script_context (\<lambda>_. S_OK))) [0, 0] [])"
proof -
  have "flatten 3 demo_heap 2 = [0, 0]" by (simp add: demo_heap_def numeral_3_eq_3)
  with sequence_runs_fixtures_in_order [of id "\<lparr>Heap = demo_heap, Ambient = []\<rparr>" 2 3
      "\<lambda>_. False" 1 demo_acts "script_context (\<lambda>_. S_OK)"]
  show ?thesis by (simp add: demo_heap_well_nested) (simp add: demo_heap_def)
qed

text \<open>
  No leak and no use after free. In a heap whose counts are exact, with the caller holding
  a reference to the sequence, a run (nested to any depth, failing or not) leaves the counts
  exact for the same outside references: no object the caller can reach is freed, and nothing
  the run referenced stays alive.
\<close>

lemma sequence_run_keeps_references:
  assumes "balanced ext (Heap w)" and "0 < ext a"
    and "run_action n (on_ambient (fixture_run dbg tid acts ctx)) a w = Some (hr, w')"
  shows "balanced ext (Heap w')"
  using assms by (rule fixtures.run_balanced)

lemma demo_acts_return: "routines_return (ActionModule (demo_acts a))"
  by (simp add: routines_return_def demo_acts_def script_action_def script_module_def
      demo_script_def split: prod.split)

text \<open>
  C8: a sequence of returning fixtures returns. When every routine of every fixture returns, the
  run of a properly nested sequence returns within its nesting depth.
\<close>

theorem sequence_run_returns:
  assumes "well_nested rank (Heap w)" and "fmlookup (Heap w) a \<noteq> None" and "rank a < n"
    and "\<forall>b. routines_return (ActionModule (acts b))"
  shows "run_action n (on_ambient (fixture_run dbg tid acts ctx)) a w \<noteq> None"
proof -
  have "run_leaves (fixture_run dbg tid acts ctx) (flatten n (Heap w) a) (Ambient w) \<noteq> None"
    using assms(4) by (intro run_leaves_returns) (simp add: fixture_run_def fixture_run_returns)
  with run_action_leaves [OF assms(1-3), of "fixture_run dbg tid acts ctx"] show ?thesis by auto
qed

theorem sequence_run_returns_witness:
  "run_action 3 (on_ambient (fixture_run (\<lambda>_. False) 1 demo_acts (script_context (\<lambda>_. S_OK)))) 2
     \<lparr>Heap = demo_heap, Ambient = []\<rparr> \<noteq> None"
  by (rule sequence_run_returns [of id])
    (simp_all add: demo_heap_well_nested demo_acts_return, simp add: demo_heap_def)

text \<open>
  C9: the operations of a sequence keep the accounts. Creating a sequence hands one reference
  to the caller, adding an entry takes a reference on the entry for the sequence and none from
  the caller, referencing and dereferencing move one reference to and from the caller, and the
  recursive release of the last one never touches a freed object.
\<close>

theorem sequence_operations_keep_accounts:
  assumes "balanced ext h"
  shows "(fmlookup h a = None \<longrightarrow>
           balanced (ext(a := 1)) (snd (CfixCreateSequenceAction (Some a) True h))) \<and>
         (\<forall>hr h'. CfixAddEntrySequenceAction malloc_ok q a h = Some (hr, h') \<longrightarrow>
           balanced ext h') \<and>
         (fmlookup h a \<noteq> None \<longrightarrow> (\<exists>h'. CfixsReferenceSequenceAction a h = Some h' \<and>
           balanced (ext(a := Suc (ext a))) h')) \<and>
         (0 < ext a \<longrightarrow> (\<exists>h'. CfixsDereferenceSequenceAction a h = Some h' \<and>
           balanced (ext(a := ext a - 1)) h'))"
proof (intro conjI impI allI)
  show "balanced (ext(a := 1)) (snd (CfixCreateSequenceAction (Some a) True h))"
    if "fmlookup h a = None" using create_balanced [OF assms that] .
  show "balanced ext h'" if "CfixAddEntrySequenceAction malloc_ok q a h = Some (hr, h')" for hr h'
    using add_entry_balanced [OF assms that] .
  show "\<exists>h'. CfixsReferenceSequenceAction a h = Some h' \<and> balanced (ext(a := Suc (ext a))) h'"
    if "fmlookup h a \<noteq> None"
    using that action_reference_balanced [OF assms, of a]
    by (auto simp: CfixsReferenceSequenceAction_def)
  show "\<exists>h'. CfixsDereferenceSequenceAction a h = Some h' \<and> balanced (ext(a := ext a - 1)) h'"
    if "0 < ext a" using dereference_balanced [OF assms that] .
qed

theorem sequence_operations_keep_accounts_witness:
  "\<exists>h'. CfixsDereferenceSequenceAction 2 demo_heap = Some h' \<and> balanced (\<lambda>_. 0) h'"
proof -
  have eq: "(\<lambda>a :: nat. if a = 2 then 1 else 0 :: nat)(2 := 0) = (\<lambda>_. 0)" by auto
  show ?thesis
    using sequence_operations_keep_accounts [OF demo_heap_balanced, of 2] by (simp add: eq)
qed

text \<open>
  Only direct self-insertion is refused. Two sequences can be made entries of each other by
  two calls that succeed, and then running either never returns: whatever the fuel, the
  dispatch runs out of it, although every reference is valid.
\<close>

definition two_sequences :: action_heap where
  "two_sequences =
     snd (CfixCreateSequenceAction (Some 1) True
            (snd (CfixCreateSequenceAction (Some 0) True fmempty)))"

definition tied :: "action_heap \<Rightarrow> bool" where
  "tied h \<longleftrightarrow> (\<exists>p q. fmlookup h 0 = Some p \<and> fmlookup h 1 = Some q \<and>
     VersionOk p \<and> VersionOk q \<and> Body p = Sequence [1] \<and> Body q = Sequence [0])"

lemma tied_bump: "tied h \<Longrightarrow> tied (bump f h)"
  by (auto simp: tied_def)

lemma tied_diverges:
  "tied (Heap w) \<Longrightarrow> a = 0 \<or> a = 1 \<Longrightarrow> run_action n leaf a w = None"
proof (induction n arbitrary: w a)
  case (Suc n)
  from Suc.prems obtain obj where obj: "fmlookup (Heap w) a = Some obj" "VersionOk obj"
      "Body obj = Sequence [1 - a]"
    by (auto simp: tied_def)
  have "reference_all [1 - a] (Heap w) = Some (bump (count_list [1 - a]) (Heap w))"
    using Suc.prems by (intro reference_all_bump) (auto simp: tied_def intro: fmdom'I)
  moreover have "run_action n leaf (1 - a) (w\<lparr>Heap := bump (count_list [1 - a]) (Heap w)\<rparr>) = None"
    using Suc.prems by (intro Suc.IH) (auto simp: tied_bump)
  ultimately show ?case using obj by (simp add: CfixsRunSequenceAction_def)
qed simp

lemma mutual_sequences_never_return:
  "\<exists>h1 h2. CfixAddEntrySequenceAction True 0 1 two_sequences = Some (S_OK, h1) \<and>
     CfixAddEntrySequenceAction True 1 0 h1 = Some (S_OK, h2) \<and>
     balanced (\<lambda>a. if a < 2 then 1 else 0) h2 \<and>
     (\<forall>n leaf s. run_action n leaf 0 \<lparr>Heap = h2, Ambient = s\<rparr> = None)"
proof -
  have bal: "balanced (\<lambda>a. if a < 2 then 1 else 0) two_sequences"
  proof -
    have "balanced (\<lambda>_. 0) fmempty"
      by (rule balancedI) (simp_all add: entry_refs_def)
    from create_balanced [OF create_balanced [OF this, of 0], of 1]
    have "balanced ((\<lambda>_. 0)(0 := 1, 1 := 1)) two_sequences"
      by (simp add: two_sequences_def CfixCreateSequenceAction_def)
    moreover have "(\<lambda>_. 0)(0 := 1, 1 := 1) = (\<lambda>a :: nat. if a < 2 then 1 else (0 :: nat))"
      by auto
    ultimately show ?thesis by simp
  qed
  obtain h1 where h1: "CfixAddEntrySequenceAction True 0 1 two_sequences = Some (S_OK, h1)"
    and l1: "fmlookup h1 0 = Some \<lparr>VersionOk = True, RefCount = 1, Body = Sequence [1]\<rparr>"
      "fmlookup h1 1 = Some \<lparr>VersionOk = True, RefCount = 2, Body = Sequence []\<rparr>"
    by (simp add: CfixAddEntrySequenceAction_def two_sequences_def CfixCreateSequenceAction_def
        action_reference_def)
  obtain h2 where h2: "CfixAddEntrySequenceAction True 1 0 h1 = Some (S_OK, h2)" and "tied h2"
    using l1 by (simp add: CfixAddEntrySequenceAction_def action_reference_def tied_def)
  with h1 bal show ?thesis
    by (metis add_entry_balanced tied_diverges aworld.select_convs(1))
qed

end
