(* ===== verification/Filament.thy ===== *)
theory Filament
  imports Prelude
begin

text \<open>
  Filaments (\<open>cfix/cfix/filament.c\<close>, \<open>cfix/cfix/tls.c\<close>): the per-run object through which code
  under test finds the execution context it reports to. Every thread has a TLS slot with its
  current filament and a bit telling whether it was derived from the default filament; one
  process-wide default filament, guarded by a critical section, may serve anonymous threads;
  a filament keeps handles of its child threads and two storage slots.

  State. \<open>Filaments\<close> maps the address of a live filament to its contents, \<open>TlsFilament\<close> is the
  TLS slot with its low bit split off, \<open>DefaultStorageSlot\<close> and \<open>CcStorageSlot\<close> are the TLS
  slots that outlive filaments, \<open>DefaultLock\<close> is the owner of the critical section and how
  often it entered, \<open>CtxRefs\<close> counts the references taken on each execution context through
  its \<open>Reference\<close> and \<open>Dereference\<close> methods. \<open>me\<close> is \<open>GetCurrentThreadId()\<close>. Results are in
  \<open>option\<close>: \<open>None\<close> when the thread blocks on the lock of another thread, or touches a filament
  that is not alive. \<open>DuplicateHandle\<close> is an argument: \<open>Inl\<close> the error or \<open>Inr\<close> the new handle.
\<close>

section \<open>State\<close>

record filament =
  ExecutionContext :: nat
  FilMainThreadId :: ulong
  ChildThreads :: "nat list"
  FilFlags :: ulong
  DefaultSlot :: ulong_ptr
  CcSlot :: ulong_ptr

record fil_state =
  Filaments :: "nat \<Rightarrow> filament option"
  TlsFilament :: "ulong \<Rightarrow> (nat \<times> bool) option"
  DefaultStorageSlot :: "ulong \<Rightarrow> ulong_ptr"
  CcStorageSlot :: "ulong \<Rightarrow> ulong_ptr"
  DefaultFilament :: "nat option"
  DefaultLock :: "(ulong \<times> nat) option"
  CtxRefs :: "nat \<Rightarrow> int"
  OpenHandles :: "nat set"

abbreviation CFIX_MAX_THREADS :: nat where "CFIX_MAX_THREADS \<equiv> 64"
abbreviation CFIXP_FILAMENT_FLAG_CAPTURE_STACK_TRACES :: ulong
  where "CFIXP_FILAMENT_FLAG_CAPTURE_STACK_TRACES \<equiv> 1"
abbreviation CFIXP_FILAMENT_FLAG_DEFAULT_FILAMENT :: ulong
  where "CFIXP_FILAMENT_FLAG_DEFAULT_FILAMENT \<equiv> 2"

type_synonym thread_handle = "dword + nat"

definition CfixpSetupFilamentTls :: "fil_state \<Rightarrow> fil_state" where
  "CfixpSetupFilamentTls s =
     s\<lparr>TlsFilament := (\<lambda>_. None), DefaultStorageSlot := (\<lambda>_. 0), CcStorageSlot := (\<lambda>_. 0),
       DefaultLock := None\<rparr>"

section \<open>Locks, references and handles\<close>

definition enter_default :: "ulong \<Rightarrow> fil_state \<Rightarrow> fil_state option" where
  "enter_default me s =
     (case DefaultLock s of
        None \<Rightarrow> Some (s\<lparr>DefaultLock := Some (me, 1)\<rparr>)
      | Some (owner, n) \<Rightarrow>
          if owner = me then Some (s\<lparr>DefaultLock := Some (me, n + 1)\<rparr>) else None)"

definition leave_default :: "fil_state \<Rightarrow> fil_state" where
  "leave_default s =
     s\<lparr>DefaultLock := (case DefaultLock s of
        None \<Rightarrow> None
      | Some (owner, n) \<Rightarrow> if n \<le> 1 then None else Some (owner, n - 1))\<rparr>"

definition ctx_add :: "nat \<Rightarrow> int \<Rightarrow> fil_state \<Rightarrow> fil_state" where
  "ctx_add c d s = s\<lparr>CtxRefs := (CtxRefs s)(c := CtxRefs s c + d)\<rparr>"

definition CfixsGetCurrentThreadHandle ::
    "thread_handle \<Rightarrow> fil_state \<Rightarrow> (hresult + nat) \<times> fil_state" where
  "CfixsGetCurrentThreadHandle dup s =
     (case dup of
        Inl err \<Rightarrow> (Inl (HRESULT_FROM_WIN32 err), s)
      | Inr h \<Rightarrow> (Inr h, s\<lparr>OpenHandles := insert h (OpenHandles s)\<rparr>))"

definition CloseHandle :: "nat \<Rightarrow> fil_state \<Rightarrow> fil_state" where
  "CloseHandle h s = s\<lparr>OpenHandles := OpenHandles s - {h}\<rparr>"

section \<open>Current and default filament\<close>

definition CfixsRegisterChildThreadFilament ::
    "nat \<Rightarrow> nat \<Rightarrow> fil_state \<Rightarrow> (hresult \<times> fil_state) option" where
  "CfixsRegisterChildThreadFilament Filament Thread s =
     (case Filaments s Filament of
        None \<Rightarrow> None
      | Some f \<Rightarrow>
          if length (ChildThreads f) = CFIX_MAX_THREADS
          then Some (CFIX_E_TOO_MANY_CHILD_THREADS, s)
          else Some (S_OK, s\<lparr>Filaments := (Filaments s)(Filament \<mapsto>
                              f\<lparr>ChildThreads := ChildThreads f @ [Thread]\<rparr>)\<rparr>))"

definition CfixsSetDefaultFilament ::
    "ulong \<Rightarrow> nat option \<Rightarrow> fil_state \<Rightarrow> (hresult \<times> fil_state) option" where
  "CfixsSetDefaultFilament me Filament s =
     do {
       s \<leftarrow> enter_default me s;
       (if DefaultFilament s \<noteq> None \<and> Filament \<noteq> None
        then Some (CFIX_E_DEFAULT_FILAMENT_CONFLICT, s)
        else if DefaultFilament s = None \<and> Filament = None
        then Some (S_OK, leave_default s)
        else Some (S_OK, leave_default (s\<lparr>DefaultFilament := Filament\<rparr>)))
     }"

definition CfixsGetTlsFilament :: "ulong \<Rightarrow> fil_state \<Rightarrow> nat option \<times> bool" where
  "CfixsGetTlsFilament me s =
     (case TlsFilament s me of None \<Rightarrow> (None, False) | Some (f, d) \<Rightarrow> (Some f, d))"

definition CfixsSetTlsFilamant :: "ulong \<Rightarrow> nat option \<Rightarrow> bool \<Rightarrow> fil_state \<Rightarrow> fil_state" where
  "CfixsSetTlsFilamant me Filament Derived s =
     s\<lparr>TlsFilament := (TlsFilament s)(me := map_option (\<lambda>f. (f, Derived)) Filament)\<rparr>"

text \<open>\<open>ExecutionContext->Dereference\<close> and \<open>->Reference\<close> on the context of a filament.\<close>

definition context_of :: "nat \<Rightarrow> fil_state \<Rightarrow> nat option" where
  "context_of f s = map_option ExecutionContext (Filaments s f)"

definition main_thread_of :: "nat \<Rightarrow> fil_state \<Rightarrow> ulong option" where
  "main_thread_of f s = map_option FilMainThreadId (Filaments s f)"

definition default_flagged :: "nat \<Rightarrow> fil_state \<Rightarrow> bool option" where
  "default_flagged f s = map_option
     (\<lambda>f. CfixpFlagOn (FilFlags f) CFIXP_FILAMENT_FLAG_DEFAULT_FILAMENT) (Filaments s f)"

text \<open>
  \<open>CfixsSetCurrentFilament\<close> in the three steps of its body: release the old filament, register
  a child thread, adjust references and the default filament. A step that leaves the routine
  early returns \<open>Inl hr\<close>.
\<close>

definition set_current_release ::
    "ulong \<Rightarrow> fil_state \<Rightarrow> (nat option \<times> fil_state) option" where
  "set_current_release me s =
     (case fst (CfixsGetTlsFilament me s) of
        None \<Rightarrow> Some (None, s)
      | Some OldFilament \<Rightarrow>
          do { c \<leftarrow> context_of OldFilament s; Some (Some OldFilament, ctx_add c (- 1) s) })"

definition set_current_register ::
    "thread_handle \<Rightarrow> ulong \<Rightarrow> nat option \<Rightarrow> fil_state \<Rightarrow> ((hresult + unit) \<times> fil_state) option"
  where
  "set_current_register dup me NewFilament s =
     (case NewFilament of
        None \<Rightarrow> Some (Inr (), s)
      | Some f \<Rightarrow>
          do {
            main \<leftarrow> main_thread_of f s;
            (if me = main then Some (Inr (), s)
             else case CfixsGetCurrentThreadHandle dup s of
               (Inl Hr, s) \<Rightarrow> Some (Inl Hr, s)
             | (Inr CurrentThread, s) \<Rightarrow>
                 do {
                   (Hr, s) \<leftarrow> CfixsRegisterChildThreadFilament f CurrentThread s;
                   (if FAILED Hr
                    then Some (Inl Hr, CloseHandle CurrentThread (CfixsSetTlsFilamant me None False s))
                    else Some (Inr (), s))
                 })
          })"

definition set_current_default ::
    "ulong \<Rightarrow> nat option \<Rightarrow> nat option \<Rightarrow> fil_state \<Rightarrow> ((hresult + unit) \<times> fil_state) option"
  where
  "set_current_default me OldFilament NewFilament s =
     (case NewFilament of
        Some f \<Rightarrow>
          do {
            c \<leftarrow> context_of f s;
            flagged \<leftarrow> default_flagged f s;
            main \<leftarrow> main_thread_of f s;
            (let s = ctx_add c 1 s
             in if \<not> flagged
                then do { (Hr, s) \<leftarrow> CfixsSetDefaultFilament me None s; Some (Inr (), s) }
                else if me = main
                then do {
                  (Hr, s) \<leftarrow> CfixsSetDefaultFilament me (Some f) s;
                  Some (if FAILED Hr then Inl Hr else Inr (), s) }
                else Some (Inr (), s))
          }
      | None \<Rightarrow>
          (case OldFilament of
             None \<Rightarrow> Some (Inr (), s)
           | Some old \<Rightarrow>
               do {
                 flagged \<leftarrow> default_flagged old s;
                 main \<leftarrow> main_thread_of old s;
                 (if me = main \<and> flagged
                  then do { (Hr, s) \<leftarrow> CfixsSetDefaultFilament me None s; Some (Inr (), s) }
                  else Some (Inr (), s))
               }))"

definition CfixsSetCurrentFilament ::
    "thread_handle \<Rightarrow> ulong \<Rightarrow> nat option \<Rightarrow> bool \<Rightarrow> fil_state \<Rightarrow>
       ((hresult \<times> nat option) \<times> fil_state) option" where
  "CfixsSetCurrentFilament dup me NewFilament DerivedFromDefault s =
     do {
       (OldFilament, s) \<leftarrow> set_current_release me s;
       (r, s) \<leftarrow> set_current_register dup me NewFilament s;
       (case r of
          Inl Hr \<Rightarrow> Some ((Hr, None), s)
        | Inr _ \<Rightarrow>
            do {
              (r, s) \<leftarrow> set_current_default me OldFilament NewFilament s;
              Some (case r of
                 Inl Hr \<Rightarrow> ((Hr, None), s)
               | Inr _ \<Rightarrow> ((S_OK, OldFilament),
                           CfixsSetTlsFilamant me NewFilament DerivedFromDefault s))
            })
     }"

definition CfixsGetCurrentFilament ::
    "thread_handle \<Rightarrow> ulong \<Rightarrow> bool \<Rightarrow> fil_state \<Rightarrow>
       ((hresult \<times> nat option \<times> bool) \<times> fil_state) option" where
  "CfixsGetCurrentFilament dup me DeriveDefaultIfUnavailable s =
     (case CfixsGetTlsFilament me s of
        (Some f, d) \<Rightarrow> Some ((S_OK, Some f, d), s)
      | (None, _) \<Rightarrow>
          if DeriveDefaultIfUnavailable \<and> DefaultFilament s \<noteq> None
          then do {
            s \<leftarrow> enter_default me s;
            (case DefaultFilament s of
               None \<Rightarrow> Some ((CFIX_E_UNKNOWN_THREAD, None, False), leave_default s)
             | Some def \<Rightarrow>
                 do {
                   ((Hr, _), s) \<leftarrow> CfixsSetCurrentFilament dup me (Some def) True s;
                   Some (if FAILED Hr then ((Hr, None, False), leave_default s)
                         else (case CfixsGetTlsFilament me s of
                            (Some f, d) \<Rightarrow> ((S_OK, Some f, d), leave_default s)
                          | (None, _) \<Rightarrow> ((CFIX_E_UNKNOWN_THREAD, None, False), leave_default s)))
                 })
          }
          else Some ((CFIX_E_UNKNOWN_THREAD, None, False), s))"

definition CfixpSetCurrentFilament ::
    "thread_handle \<Rightarrow> ulong \<Rightarrow> nat option \<Rightarrow> fil_state \<Rightarrow>
       ((hresult \<times> nat option) \<times> fil_state) option" where
  "CfixpSetCurrentFilament dup me NewFilament s = CfixsSetCurrentFilament dup me NewFilament False s"

definition CfixpGetCurrentFilament ::
    "thread_handle \<Rightarrow> ulong \<Rightarrow> fil_state \<Rightarrow> ((hresult \<times> nat option \<times> bool) \<times> fil_state) option"
  where
  "CfixpGetCurrentFilament dup me s = CfixsGetCurrentFilament dup me True s"

section \<open>Life cycle\<close>

definition CfixpInitializeFilament ::
    "ulong \<Rightarrow> nat \<Rightarrow> ulong \<Rightarrow> ulong \<Rightarrow> bool \<Rightarrow> nat \<Rightarrow> fil_state \<Rightarrow> fil_state" where
  "CfixpInitializeFilament me Context MainThreadId Flags RestoreStorage Filament s =
     (let restore = RestoreStorage \<and> me = MainThreadId
      in s\<lparr>Filaments := (Filaments s)(Filament \<mapsto>
             \<lparr>ExecutionContext = Context, FilMainThreadId = MainThreadId, ChildThreads = [],
              FilFlags = Flags,
              DefaultSlot = (if restore then DefaultStorageSlot s me else 0),
              CcSlot = (if restore then CcStorageSlot s me else 0)\<rparr>)\<rparr>)"

definition CfixpDestroyFilament :: "ulong \<Rightarrow> nat \<Rightarrow> fil_state \<Rightarrow> fil_state option" where
  "CfixpDestroyFilament me Filament s =
     (case Filaments s Filament of
        None \<Rightarrow> None
      | Some f \<Rightarrow>
          let s = fold CloseHandle (ChildThreads f) s;
              s = (if me = FilMainThreadId f
                   then s\<lparr>DefaultStorageSlot := (DefaultStorageSlot s)(me := DefaultSlot f),
                          CcStorageSlot := (CcStorageSlot s)(me := CcSlot f)\<rparr>
                   else s)
          in Some (s\<lparr>Filaments := (Filaments s)(Filament := None)\<rparr>))"

text \<open>\<open>wait\<close> is the result of \<open>WaitForMultipleObjects\<close>: \<open>None\<close> never returns, else whether it timed out.\<close>

definition CfixpJoinChildThreadsFilament ::
    "(nat list \<Rightarrow> ulong \<Rightarrow> bool option) \<Rightarrow> nat \<Rightarrow> ulong \<Rightarrow> fil_state \<Rightarrow> hresult option" where
  "CfixpJoinChildThreadsFilament wait Filament Timeout s =
     (case Filaments s Filament of
        None \<Rightarrow> None
      | Some f \<Rightarrow>
          if ChildThreads f = [] then Some S_OK
          else map_option (\<lambda>timeout. if timeout then CFIX_E_FILAMENT_JOIN_TIMEOUT else S_OK)
                 (wait (ChildThreads f) Timeout))"

definition CfixpCleanupLeakedFilamentForDetachingThread ::
    "thread_handle \<Rightarrow> ulong \<Rightarrow> fil_state \<Rightarrow> fil_state option" where
  "CfixpCleanupLeakedFilamentForDetachingThread dup me s =
     do {
       ((Hr, f, d), s) \<leftarrow> CfixsGetCurrentFilament dup me False s;
       (if Hr = S_OK \<and> f \<noteq> None
        then map_option snd (CfixsSetCurrentFilament dup me None False s)
        else Some s)
     }"

definition CfixRegisterThread ::
    "thread_handle \<Rightarrow> ulong \<Rightarrow> bool \<Rightarrow> fil_state \<Rightarrow> (hresult \<times> fil_state) option" where
  "CfixRegisterThread dup me Reserved s =
     (if Reserved then Some (E_INVALIDARG, s)
      else do {
        ((Hr, f, DerivedFromDefault), s) \<leftarrow> CfixpGetCurrentFilament dup me s;
        Some (if Hr = CFIX_E_UNKNOWN_THREAD then (E_UNEXPECTED, s)
              else if SUCCEEDED Hr \<and> \<not> DerivedFromDefault then (E_UNEXPECTED, s)
              else (Hr, s))
      })"

section \<open>Filament storage\<close>

definition CFIX_TAG_RESERVED_FOR_CC :: ulong where
  "CFIX_TAG_RESERVED_FOR_CC = 0xFFFFFFFF"

definition CfixPeSetValue ::
    "thread_handle \<Rightarrow> ulong \<Rightarrow> ulong \<Rightarrow> ulong_ptr \<Rightarrow> fil_state \<Rightarrow> fil_state option" where
  "CfixPeSetValue dup me Tag Value s =
     do {
       ((Hr, f, _), s) \<leftarrow> CfixpGetCurrentFilament dup me s;
       (if SUCCEEDED Hr
        then do {
          f \<leftarrow> f;
          fil \<leftarrow> Filaments s f;
          Some (if Tag = CFIX_TAG_RESERVED_FOR_CC
                then s\<lparr>Filaments := (Filaments s)(f \<mapsto> fil\<lparr>CcSlot := Value\<rparr>)\<rparr>
                else if Tag = 0
                then s\<lparr>Filaments := (Filaments s)(f \<mapsto> fil\<lparr>DefaultSlot := Value\<rparr>)\<rparr>
                else s)
        }
        else Some s)
     }"

definition CfixPeGetValue ::
    "thread_handle \<Rightarrow> ulong \<Rightarrow> ulong \<Rightarrow> fil_state \<Rightarrow> (ulong_ptr \<times> fil_state) option" where
  "CfixPeGetValue dup me Tag s =
     do {
       ((Hr, f, _), s) \<leftarrow> CfixpGetCurrentFilament dup me s;
       (if SUCCEEDED Hr
        then do {
          f \<leftarrow> f;
          fil \<leftarrow> Filaments s f;
          Some (if Tag = CFIX_TAG_RESERVED_FOR_CC then CcSlot fil
                else if Tag = 0 then DefaultSlot fil else 0, s)
        }
        else Some (0, s))
     }"

end
