(* ===== verification/FilamentInv.thy ===== *)
theory FilamentInv
  imports Filament
begin

text \<open>
  What filaments promise. The invariant \<open>fil_inv\<close>: the TLS slots and the default filament only
  name live filaments, the references on an execution context are exactly those of the threads
  whose current filament reports to it, and the table of child threads never overflows. Then
  the behaviour of anonymous threads, the conflict of default filaments, and storage.
\<close>

section \<open>The invariant\<close>

definition holds_ctx :: "fil_state \<Rightarrow> nat \<Rightarrow> ulong \<Rightarrow> int" where
  "holds_ctx s c t =
     (if \<exists>f d. TlsFilament s t = Some (f, d) \<and> context_of f s = Some c then 1 else 0)"

definition tls_refs :: "fil_state \<Rightarrow> nat \<Rightarrow> int" where
  "tls_refs s c = (\<Sum>t\<in>UNIV. holds_ctx s c t)"

definition fil_inv :: "(nat \<Rightarrow> int) \<Rightarrow> fil_state \<Rightarrow> bool" where
  "fil_inv base s \<longleftrightarrow>
     (\<forall>t f d. TlsFilament s t = Some (f, d) \<longrightarrow> Filaments s f \<noteq> None) \<and>
     (\<forall>f. DefaultFilament s = Some f \<longrightarrow> Filaments s f \<noteq> None) \<and>
     (\<forall>c. CtxRefs s c = base c + tls_refs s c) \<and>
     (\<forall>f fil. Filaments s f = Some fil \<longrightarrow> length (ChildThreads fil) \<le> CFIX_MAX_THREADS)"

lemma tls_refs_change:
  assumes "\<And>t. t \<noteq> me \<Longrightarrow> holds_ctx s' c t = holds_ctx s c t"
  shows "tls_refs s' c = tls_refs s c - holds_ctx s c me + holds_ctx s' c me"
proof -
  have "tls_refs s' c = holds_ctx s' c me + (\<Sum>t\<in>UNIV - {me}. holds_ctx s' c t)"
    unfolding tls_refs_def by (rule sum.remove) simp_all
  also have "(\<Sum>t\<in>UNIV - {me}. holds_ctx s' c t) = (\<Sum>t\<in>UNIV - {me}. holds_ctx s c t)"
    by (rule sum.cong) (auto simp: assms)
  finally have 1: "tls_refs s' c = holds_ctx s' c me + (\<Sum>t\<in>UNIV - {me}. holds_ctx s c t)" .
  have "tls_refs s c = holds_ctx s c me + (\<Sum>t\<in>UNIV - {me}. holds_ctx s c t)"
    unfolding tls_refs_def by (rule sum.remove) simp_all
  with 1 show ?thesis by simp
qed

text \<open>What the steps of \<open>CfixsSetCurrentFilament\<close> leave alone.\<close>

definition same_shape :: "fil_state \<Rightarrow> fil_state \<Rightarrow> bool" where
  "same_shape s s' \<longleftrightarrow>
     (\<forall>f. context_of f s' = context_of f s \<and> main_thread_of f s' = main_thread_of f s \<and>
        default_flagged f s' = default_flagged f s)"

lemma same_shape_refl [simp]: "same_shape s s"
  by (simp add: same_shape_def)

lemma same_shape_trans: "same_shape s s' \<Longrightarrow> same_shape s' s'' \<Longrightarrow> same_shape s s''"
  by (simp add: same_shape_def)

lemma same_shape_live: "same_shape s s' \<Longrightarrow> (Filaments s' f = None) = (Filaments s f = None)"
  unfolding same_shape_def context_of_def by (metis map_option_is_None)

lemma shape_simps [simp]:
  "context_of f (s\<lparr>TlsFilament := a\<rparr>) = context_of f s"
  "context_of f (s\<lparr>CtxRefs := b\<rparr>) = context_of f s"
  "context_of f (s\<lparr>DefaultLock := c\<rparr>) = context_of f s"
  "context_of f (s\<lparr>DefaultFilament := d\<rparr>) = context_of f s"
  "context_of f (s\<lparr>OpenHandles := e\<rparr>) = context_of f s"
  by (simp_all add: context_of_def)

lemma enter_default_sel:
  "enter_default me s = Some s' \<Longrightarrow> \<exists>l. s' = s\<lparr>DefaultLock := l\<rparr>"
  by (auto simp: enter_default_def split: option.splits if_splits)

lemma set_default_sel:
  assumes "CfixsSetDefaultFilament me f s = Some (hr, s')"
  shows "s' = s\<lparr>DefaultLock := DefaultLock s',
               DefaultFilament := (if hr = S_OK then f else DefaultFilament s)\<rparr>"
proof -
  from assms obtain s1 where "enter_default me s = Some s1"
    by (auto simp: CfixsSetDefaultFilament_def bind_Some_iff)
  with enter_default_sel [OF this] obtain l where "enter_default me s = Some (s\<lparr>DefaultLock := l\<rparr>)"
    by blast
  with assms show ?thesis
    by (auto simp: CfixsSetDefaultFilament_def leave_default_def split: if_splits
        intro!: fil_state.equality)
qed

lemma fil_inv_lock [simp]: "fil_inv base (s\<lparr>DefaultLock := l\<rparr>) = fil_inv base s"
  by (simp add: fil_inv_def tls_refs_def holds_ctx_def)

text \<open>
  The invariant for the middle of a switch: \<open>me\<close> has given up the reference for its slot, and
  \<open>new\<close> of its next filament is already counted.
\<close>

definition switching :: "(nat \<Rightarrow> int) \<Rightarrow> ulong \<Rightarrow> nat option \<Rightarrow> fil_state \<Rightarrow> bool" where
  "switching base me new s \<longleftrightarrow>
     (\<forall>t f d. TlsFilament s t = Some (f, d) \<longrightarrow> Filaments s f \<noteq> None) \<and>
     (\<forall>f. DefaultFilament s = Some f \<longrightarrow> Filaments s f \<noteq> None) \<and>
     (\<forall>c. CtxRefs s c = base c + tls_refs s c - holds_ctx s c me +
        (if new = Some c then 1 else 0)) \<and>
     (\<forall>f fil. Filaments s f = Some fil \<longrightarrow> length (ChildThreads fil) \<le> CFIX_MAX_THREADS)"

lemma switching_lock [simp]:
  "switching base me new (s\<lparr>DefaultLock := l\<rparr>) = switching base me new s"
  by (simp add: switching_def tls_refs_def holds_ctx_def)

lemma switching_default:
  "switching base me new s \<Longrightarrow> f = None \<or> Filaments s (the f) \<noteq> None \<Longrightarrow>
     switching base me new (s\<lparr>DefaultLock := l, DefaultFilament := f\<rparr>)"
  by (auto simp: switching_def tls_refs_def holds_ctx_def)

lemma switching_finish:
  assumes "switching base me new s" and "case f of None \<Rightarrow> new = None
      | Some f' \<Rightarrow> new = context_of f' s \<and> new \<noteq> None"
  shows "fil_inv base (CfixsSetTlsFilamant me f d s)"
proof -
  let ?s' = "CfixsSetTlsFilamant me f d s"
  have refs: "tls_refs ?s' c = tls_refs s c - holds_ctx s c me + holds_ctx ?s' c me" for c
    by (rule tls_refs_change) (simp add: holds_ctx_def CfixsSetTlsFilamant_def)
  have mine: "holds_ctx ?s' c me = (if new = Some c then 1 else 0)" for c
    using assms(2) by (auto simp: holds_ctx_def CfixsSetTlsFilamant_def split: option.splits)
  have live: "Filaments s f' \<noteq> None" if "f = Some f'" for f'
    using assms(2) that by (auto simp: context_of_def)
  show ?thesis
    unfolding fil_inv_def
  proof (intro conjI allI impI)
    fix t g e assume "TlsFilament ?s' t = Some (g, e)"
    with assms(1) live show "Filaments ?s' g \<noteq> None"
      by (auto simp: CfixsSetTlsFilamant_def switching_def split: if_splits)
  next
    fix c
    have "CtxRefs ?s' c = CtxRefs s c" by (simp add: CfixsSetTlsFilamant_def)
    with assms(1) refs [of c] mine [of c] show "CtxRefs ?s' c = base c + tls_refs ?s' c"
      by (simp add: switching_def)
  qed (use assms(1) in \<open>auto simp: CfixsSetTlsFilamant_def switching_def\<close>)
qed

lemma set_current_release_switching:
  assumes "fil_inv base s" and "set_current_release me s = Some (old, s')"
  shows "switching base me None s' \<and> same_shape s s' \<and> TlsFilament s' = TlsFilament s \<and>
         old = fst (CfixsGetTlsFilament me s) \<and> DefaultFilament s' = DefaultFilament s \<and>
         DefaultLock s' = DefaultLock s"
proof (cases "TlsFilament s me")
  case None
  with assms show ?thesis
    by (auto simp: set_current_release_def CfixsGetTlsFilament_def fil_inv_def switching_def
        holds_ctx_def)
next
  case (Some p)
  obtain f d where p: "p = (f, d)" by (cases p)
  with assms Some obtain c where c: "context_of f s = Some c" "s' = ctx_add c (- 1) s" "old = Some f"
    by (auto simp: set_current_release_def CfixsGetTlsFilament_def bind_Some_iff)
  have "tls_refs s' x = tls_refs s x" "holds_ctx s' x t = holds_ctx s x t" for x t
    by (simp_all add: c(2) tls_refs_def holds_ctx_def ctx_add_def)
  moreover have "holds_ctx s x me = (if x = c then 1 else 0)" for x
    using Some p c by (simp add: holds_ctx_def)
  ultimately have "switching base me None s'"
    using assms(1) by (auto simp: switching_def fil_inv_def c(2) ctx_add_def)
  with Some p c show ?thesis
    by (simp add: CfixsGetTlsFilament_def ctx_add_def same_shape_def main_thread_of_def
        default_flagged_def)
qed

lemma register_child_switching:
  assumes "switching base me new s"
    and "CfixsRegisterChildThreadFilament f h s = Some (hr, s')"
  shows "switching base me new s' \<and> same_shape s s'"
proof -
  from assms(2) obtain fil where fil: "Filaments s f = Some fil"
    by (auto simp: CfixsRegisterChildThreadFilament_def split: option.splits)
  show ?thesis
  proof (cases "s' = s")
    case False
    with assms(2) fil have s': "s' = s\<lparr>Filaments := (Filaments s)(f \<mapsto>
        fil\<lparr>ChildThreads := ChildThreads fil @ [h]\<rparr>)\<rparr>"
      and n: "length (ChildThreads fil) \<noteq> CFIX_MAX_THREADS"
      by (auto simp: CfixsRegisterChildThreadFilament_def split: if_splits)
    have shape: "same_shape s s'"
      using fil by (simp add: same_shape_def s' context_of_def main_thread_of_def
          default_flagged_def)
    have "holds_ctx s' c t = holds_ctx s c t" for c t
      using fil by (auto simp: s' holds_ctx_def context_of_def split: option.splits)
    then have "tls_refs s' c = tls_refs s c" "holds_ctx s' c t = holds_ctx s c t" for c t
      by (simp_all add: tls_refs_def)
    moreover have "length (ChildThreads fil) < CFIX_MAX_THREADS"
      using n assms(1) fil by (auto simp: switching_def le_less)
    ultimately show ?thesis using assms(1) shape
      by (auto simp: switching_def s')
  qed (use assms in simp)
qed

lemma switching_handles [simp]:
  "switching base me new (s\<lparr>OpenHandles := hs\<rparr>) = switching base me new s"
  by (simp add: switching_def tls_refs_def holds_ctx_def)

lemma same_shape_handles [simp]: "same_shape s (s'\<lparr>OpenHandles := hs\<rparr>) = same_shape s s'"
  by (simp add: same_shape_def main_thread_of_def default_flagged_def)

text \<open>Registering: either it goes on with the switch, or it ended early with no filament set.\<close>

lemma set_current_register_switching:
  assumes "switching base me None s" and "set_current_register (Inr h) me new s = Some (r, s')"
  shows "(\<exists>u. r = Inr u \<and> switching base me None s' \<and> same_shape s s' \<and>
            TlsFilament s' = TlsFilament s) \<or>
         (r = Inl CFIX_E_TOO_MANY_CHILD_THREADS \<and> fil_inv base s')"
proof (cases "new = None \<or> main_thread_of (the new) s = Some me")
  case True
  with assms show ?thesis
    by (auto simp: set_current_register_def bind_Some_iff split: option.splits)
next
  case False
  then obtain f where f: "new = Some f" by auto
  let ?s1 = "s\<lparr>OpenHandles := insert h (OpenHandles s)\<rparr>"
  from assms(2) f False obtain hr s2 where
    reg: "CfixsRegisterChildThreadFilament f h ?s1 = Some (hr, s2)"
    and res: "(r, s') = (if FAILED hr
        then (Inl hr, CloseHandle h (CfixsSetTlsFilamant me None False s2)) else (Inr (), s2))"
    by (auto simp: set_current_register_def CfixsGetCurrentThreadHandle_def bind_Some_iff
        split: if_splits)
  have sw: "switching base me None s2 \<and> same_shape ?s1 s2"
    using assms(1) by (intro register_child_switching [OF _ reg]) simp
  have tls: "TlsFilament s2 = TlsFilament s"
    using reg by (auto simp: CfixsRegisterChildThreadFilament_def split: option.splits if_splits)
  have hr: "hr = S_OK \<or> hr = CFIX_E_TOO_MANY_CHILD_THREADS"
    using reg by (auto simp: CfixsRegisterChildThreadFilament_def split: option.splits if_splits)
  show ?thesis
  proof (cases "FAILED hr")
    case True
    have "fil_inv base (CfixsSetTlsFilamant me None False s2)"
      using sw by (intro switching_finish) auto
    then have "fil_inv base (CloseHandle h (CfixsSetTlsFilamant me None False s2))"
      by (simp add: fil_inv_def CloseHandle_def tls_refs_def holds_ctx_def)
    with True res hr show ?thesis by auto
  next
    case False
    with res sw tls show ?thesis
      by (auto simp: same_shape_def main_thread_of_def default_flagged_def)
  qed
qed

lemma switching_count:
  "switching base me None s \<Longrightarrow> switching base me (Some c) (ctx_add c 1 s)"
  by (auto simp: switching_def ctx_add_def tls_refs_def holds_ctx_def)

lemma same_shape_ctx_add [simp]: "same_shape s (ctx_add c d s)"
  by (simp add: same_shape_def ctx_add_def main_thread_of_def default_flagged_def)

lemma set_default_switching:
  assumes "switching base me new s" and "CfixsSetDefaultFilament me f s = Some (hr, s')"
    and "f = None \<or> Filaments s (the f) \<noteq> None"
  shows "switching base me new s' \<and> same_shape s s' \<and>
         (hr = S_OK \<or> hr = CFIX_E_DEFAULT_FILAMENT_CONFLICT \<and> f \<noteq> None)"
proof -
  have "hr = S_OK \<or> hr = CFIX_E_DEFAULT_FILAMENT_CONFLICT \<and> f \<noteq> None"
    using assms(2) by (auto simp: CfixsSetDefaultFilament_def bind_Some_iff split: if_splits)
  moreover define g where "g = (if hr = S_OK then f else DefaultFilament s)"
  define l where "l = DefaultLock s'"
  have s': "s' = s\<lparr>DefaultLock := l, DefaultFilament := g\<rparr>"
    unfolding g_def l_def by (rule set_default_sel [OF assms(2)])
  have g: "g = None \<or> Filaments s (the g) \<noteq> None"
    using assms(1,3) by (cases "DefaultFilament s") (auto simp: g_def switching_def)
  have "switching base me new s'"
    unfolding s' using assms(1) g by (rule switching_default)
  moreover have "same_shape s s'"
    by (simp add: s' same_shape_def main_thread_of_def default_flagged_def)
  ultimately show ?thesis by blast
qed

lemma set_current_default_switching:
  assumes "switching base me None s" and "set_current_default me old new s = Some (r, s')"
  shows "same_shape s s' \<and>
    (r = Inl CFIX_E_DEFAULT_FILAMENT_CONFLICT \<or>
     (\<exists>u. r = Inr u \<and> switching base me (case new of None \<Rightarrow> None | Some f \<Rightarrow> context_of f s) s' \<and>
          (new \<noteq> None \<longrightarrow> context_of (the new) s \<noteq> None)))"
proof (cases new)
  case None
  with assms show ?thesis
    by (auto simp: set_current_default_def bind_Some_iff
        dest!: set_default_switching [OF assms(1)] split: option.splits if_splits)
next
  case (Some f)
  with assms(2) obtain c flagged main where
    c: "context_of f s = Some c" "default_flagged f s = Some flagged"
       "main_thread_of f s = Some main"
    and run: "(if \<not> flagged
        then do { (Hr, s) \<leftarrow> CfixsSetDefaultFilament me None (ctx_add c 1 s); Some (Inr (), s) }
        else if me = main
        then do {
          (Hr, s) \<leftarrow> CfixsSetDefaultFilament me (Some f) (ctx_add c 1 s);
          Some (if FAILED Hr then Inl Hr else Inr (), s) }
        else Some (Inr (), ctx_add c 1 s)) = Some (r, s')"
    by (auto simp: set_current_default_def bind_Some_iff Let_def)
  note sw = switching_count [OF assms(1), of c]
  have live: "Filaments (ctx_add c 1 s) f \<noteq> None"
    using c(1) by (auto simp: context_of_def ctx_add_def)
  have shape: "same_shape (ctx_add c 1 s) s' \<Longrightarrow> same_shape s s'"
    by (rule same_shape_trans [OF same_shape_ctx_add])
  consider "\<not> flagged" | "flagged" "me = main" | "flagged" "me \<noteq> main" by blast
  then show ?thesis
  proof cases
    case 1
    with run obtain hr where "CfixsSetDefaultFilament me None (ctx_add c 1 s) = Some (hr, s')" "r = Inr ()"
      by (auto simp: bind_Some_iff)
    with set_default_switching [OF sw this(1)] shape Some c show ?thesis by simp
  next
    case 2
    with run obtain hr where
      "CfixsSetDefaultFilament me (Some f) (ctx_add c 1 s) = Some (hr, s')"
      "r = (if FAILED hr then Inl hr else Inr ())"
      by (auto simp: bind_Some_iff)
    with set_default_switching [OF sw this(1)] live shape Some c show ?thesis by auto
  next
    case 3
    with run have "s' = ctx_add c 1 s" "r = Inr ()" by simp_all
    with sw Some c show ?thesis by simp
  qed
qed

lemma set_current_inv:
  assumes "fil_inv base s" and "CfixsSetCurrentFilament (Inr h) me new d s = Some ((hr, prev), s')"
    and "hr \<noteq> CFIX_E_DEFAULT_FILAMENT_CONFLICT"
  shows "fil_inv base s'"
proof -
  from assms(2) obtain old s1 r s2 where
    rel: "set_current_release me s = Some (old, s1)"
    and reg: "set_current_register (Inr h) me new s1 = Some (r, s2)"
    by (auto simp: CfixsSetCurrentFilament_def bind_Some_iff)
  note sw1 = set_current_release_switching [OF assms(1) rel]
  have sw1': "switching base me None s1" using sw1 by blast
  show ?thesis
  proof (cases r)
    case (Inl hr1)
    with assms(2) rel reg have "s' = s2" by (simp add: CfixsSetCurrentFilament_def)
    with set_current_register_switching [OF sw1' reg] Inl show ?thesis by simp
  next
    case (Inr u)
    with set_current_register_switching [OF sw1' reg] have sw2: "switching base me None s2"
      by auto
    from assms(2) rel reg Inr obtain r2 s3 where
      def: "set_current_default me old new s2 = Some (r2, s3)"
      by (auto simp: CfixsSetCurrentFilament_def bind_Some_iff)
    note sw3 = set_current_default_switching [OF sw2 def]
    show ?thesis
    proof (cases r2)
      case (Inl hr2)
      with assms(2,3) rel reg Inr def sw3 show ?thesis
        by (auto simp: CfixsSetCurrentFilament_def)
    next
      case inr2: (Inr v)
      with assms(2) rel reg Inr def have s': "s' = CfixsSetTlsFilamant me new d s3"
        by (simp add: CfixsSetCurrentFilament_def)
      have "context_of f s3 = context_of f s2" for f
        using sw3 by (simp add: same_shape_def)
      with sw3 inr2 have
        "switching base me (case new of None \<Rightarrow> None | Some f \<Rightarrow> context_of f s3) s3"
        "new \<noteq> None \<longrightarrow> context_of (the new) s3 \<noteq> None"
        by (auto split: option.splits)
      with switching_finish [OF this(1), of new d] show ?thesis
        unfolding s' by (cases new) auto
    qed
  qed
qed

lemma enter_default_inv:
  "fil_inv base s \<Longrightarrow> enter_default me s = Some s' \<Longrightarrow> fil_inv base s'"
  by (auto dest!: enter_default_sel)

lemma leave_default_inv [simp]: "fil_inv base (leave_default s) = fil_inv base s"
  by (simp add: leave_default_def)

lemma get_current_inv:
  assumes "fil_inv base s"
    and "CfixsGetCurrentFilament (Inr h) me derive s = Some ((hr, f, d), s')"
    and "hr \<noteq> CFIX_E_DEFAULT_FILAMENT_CONFLICT"
  shows "fil_inv base s'"
proof (cases "TlsFilament s me = None \<and> derive \<and> DefaultFilament s \<noteq> None")
  case False
  with assms show ?thesis
    by (auto simp: CfixsGetCurrentFilament_def CfixsGetTlsFilament_def split: option.splits)
next
  case True
  with assms(2) obtain s1 where s1: "enter_default me s = Some s1"
    by (auto simp: CfixsGetCurrentFilament_def CfixsGetTlsFilament_def bind_Some_iff)
  then have inv1: "fil_inv base s1" and def: "DefaultFilament s1 = DefaultFilament s"
    using assms(1) by (auto dest!: enter_default_sel)
  from True def obtain g where g: "DefaultFilament s1 = Some g" by auto
  with assms(2) True s1 obtain hr1 prev s2 where
    set: "CfixsSetCurrentFilament (Inr h) me (Some g) True s1 = Some ((hr1, prev), s2)"
    by (auto simp: CfixsGetCurrentFilament_def CfixsGetTlsFilament_def bind_Some_iff)
  have "s' = leave_default s2 \<and> (FAILED hr1 \<longrightarrow> hr = hr1)"
    using assms(2) True s1 g set
    by (auto simp: CfixsGetCurrentFilament_def CfixsGetTlsFilament_def split: option.splits if_splits)
  moreover from this assms(3) have "hr1 \<noteq> CFIX_E_DEFAULT_FILAMENT_CONFLICT" by auto
  ultimately show ?thesis using set_current_inv [OF inv1 set] by simp
qed

lemma initialize_inv:
  assumes "fil_inv base s" and "Filaments s f = None"
  shows "fil_inv base (CfixpInitializeFilament me c main fl restore f s)"
proof -
  let ?s' = "CfixpInitializeFilament me c main fl restore f s"
  have tls: "TlsFilament s t \<noteq> Some (f, d)" for t d
    using assms unfolding fil_inv_def by blast
  have "holds_ctx ?s' x t = holds_ctx s x t" for x t
    using tls by (auto simp: holds_ctx_def CfixpInitializeFilament_def context_of_def Let_def)
  then have "tls_refs ?s' x = tls_refs s x" for x by (simp add: tls_refs_def)
  with assms show ?thesis
    by (auto simp: fil_inv_def CfixpInitializeFilament_def Let_def)
qed

lemma close_handles_sel:
  "fold CloseHandle hs s = s\<lparr>OpenHandles := OpenHandles s - set hs\<rparr>"
  by (induction hs arbitrary: s) (auto simp: CloseHandle_def intro!: fil_state.equality)

lemma destroy_inv:
  assumes "fil_inv base s" and "CfixpDestroyFilament me f s = Some s'"
    and "\<forall>t d. TlsFilament s t \<noteq> Some (f, d)" and "DefaultFilament s \<noteq> Some f"
  shows "fil_inv base s'"
proof -
  from assms(2) obtain fil where fil: "Filaments s f = Some fil"
    by (auto simp: CfixpDestroyFilament_def split: option.splits)
  have s': "Filaments s' = (Filaments s)(f := None)" "TlsFilament s' = TlsFilament s"
    "DefaultFilament s' = DefaultFilament s" "CtxRefs s' = CtxRefs s"
    using assms(2) fil by (auto simp: CfixpDestroyFilament_def close_handles_sel Let_def)
  have "holds_ctx s' x t = holds_ctx s x t" for x t
    using assms(3) by (auto simp: holds_ctx_def s' context_of_def)
  then have "tls_refs s' x = tls_refs s x" for x by (simp add: tls_refs_def)
  with assms s' show ?thesis by (auto simp: fil_inv_def split: if_splits)
qed

section \<open>Reachable states\<close>

text \<open>
  Everything threads do with filaments, in any interleaving of whole operations: create one at
  a free address, make one current, look the current one up, register an anonymous thread,
  store a value, detach, and destroy one that no thread and no default uses. Duplicating the
  thread handle succeeds, and no default filament conflict arises; \<open>default_conflict\<close> below
  shows what the code does otherwise.
\<close>

definition fil_start :: "(nat \<Rightarrow> int) \<Rightarrow> fil_state" where
  "fil_start base =
     \<lparr>Filaments = (\<lambda>_. None), TlsFilament = (\<lambda>_. None), DefaultStorageSlot = (\<lambda>_. 0),
      CcStorageSlot = (\<lambda>_. 0), DefaultFilament = None, DefaultLock = None, CtxRefs = base,
      OpenHandles = {}\<rparr>"

inductive fil_reachable :: "(nat \<Rightarrow> int) \<Rightarrow> fil_state \<Rightarrow> bool" for base where
  start: "fil_reachable base (fil_start base)"
| create: "fil_reachable base s \<Longrightarrow> Filaments s f = None \<Longrightarrow>
    fil_reachable base (CfixpInitializeFilament me c me fl restore f s)"
| set_current: "fil_reachable base s \<Longrightarrow>
    CfixpSetCurrentFilament (Inr h) me new s = Some ((hr, prev), s') \<Longrightarrow>
    hr \<noteq> CFIX_E_DEFAULT_FILAMENT_CONFLICT \<Longrightarrow> fil_reachable base s'"
| look_up: "fil_reachable base s \<Longrightarrow>
    CfixpGetCurrentFilament (Inr h) me s = Some ((hr, f, d), s') \<Longrightarrow>
    hr \<noteq> CFIX_E_DEFAULT_FILAMENT_CONFLICT \<Longrightarrow> fil_reachable base s'"
| detach: "fil_reachable base s \<Longrightarrow>
    CfixpCleanupLeakedFilamentForDetachingThread (Inr h) me s = Some s' \<Longrightarrow>
    fil_reachable base s'"
| destroy: "fil_reachable base s \<Longrightarrow> CfixpDestroyFilament me f s = Some s' \<Longrightarrow>
    \<forall>t d. TlsFilament s t \<noteq> Some (f, d) \<Longrightarrow> DefaultFilament s \<noteq> Some f \<Longrightarrow>
    fil_reachable base s'"

lemma set_none_no_conflict:
  assumes "CfixsSetCurrentFilament dup me None d s = Some ((hr, prev), s')"
  shows "hr = S_OK"
  using assms
  by (auto simp: CfixsSetCurrentFilament_def bind_Some_iff set_current_register_def
      set_current_default_def split: option.splits if_splits sum.splits)
    (metis sumE old.unit.exhaust)

lemma detach_inv:
  assumes "fil_inv base s"
    and "CfixpCleanupLeakedFilamentForDetachingThread (Inr h) me s = Some s'"
  shows "fil_inv base s'"
proof -
  from assms(2) obtain hr f d s1 where
    get: "CfixsGetCurrentFilament (Inr h) me False s = Some ((hr, f, d), s1)"
    by (auto simp: CfixpCleanupLeakedFilamentForDetachingThread_def bind_Some_iff)
  then have "s1 = s"
    by (auto simp: CfixsGetCurrentFilament_def split: prod.splits option.splits)
  show ?thesis
  proof (cases "hr = S_OK \<and> f \<noteq> None")
    case False
    with assms get \<open>s1 = s\<close> show ?thesis
      by (simp add: CfixpCleanupLeakedFilamentForDetachingThread_def split: if_splits)
  next
    case True
    with assms(2) get \<open>s1 = s\<close> obtain hr' prev where
      set: "CfixsSetCurrentFilament (Inr h) me None False s = Some ((hr', prev), s')"
      by (auto simp: CfixpCleanupLeakedFilamentForDetachingThread_def)
    with set_none_no_conflict [OF set] show ?thesis
      by (intro set_current_inv [OF assms(1) set]) simp
  qed
qed

lemma reachable_inv: "fil_reachable base s \<Longrightarrow> fil_inv base s"
proof (induction rule: fil_reachable.induct)
  case start
  show ?case by (simp add: fil_inv_def fil_start_def tls_refs_def holds_ctx_def)
next
  case (create s f me c fl restore)
  then show ?case by (simp add: initialize_inv)
next
  case (set_current s h me new hr prev s')
  then show ?case unfolding CfixpSetCurrentFilament_def by (blast intro: set_current_inv)
next
  case (look_up s h me hr f d s')
  then show ?case unfolding CfixpGetCurrentFilament_def by (blast intro: get_current_inv)
next
  case (detach s h me s')
  then show ?case by (blast intro: detach_inv)
next
  case (destroy s me f s')
  then show ?case by (blast intro: destroy_inv)
qed

section \<open>Properties\<close>

text \<open>A run of two threads, for the witnesses: thread 1 owns filament 7, thread 2 is anonymous.\<close>

definition demo_fil :: fil_state where
  "demo_fil = the (map_option snd (CfixpSetCurrentFilament (Inr 0) 1 (Some 7)
     (CfixpInitializeFilament 1 3 1 CFIXP_FILAMENT_FLAG_DEFAULT_FILAMENT True 7
        (fil_start (\<lambda>_. 1)))))"

lemmas fil_eval = CfixpSetCurrentFilament_def CfixsSetCurrentFilament_def
  set_current_release_def set_current_register_def set_current_default_def
  CfixsGetTlsFilament_def CfixsSetTlsFilamant_def CfixsSetDefaultFilament_def
  enter_default_def leave_default_def context_of_def main_thread_of_def default_flagged_def
  ctx_add_def CfixsRegisterChildThreadFilament_def CfixsGetCurrentThreadHandle_def CloseHandle_def

lemma demo_fil_eq:
  "CfixpSetCurrentFilament (Inr 0) 1 (Some 7)
     (CfixpInitializeFilament 1 3 1 CFIXP_FILAMENT_FLAG_DEFAULT_FILAMENT True 7
        (fil_start (\<lambda>_. 1))) = Some ((S_OK, None), demo_fil) \<and>
   demo_fil = \<lparr>Filaments = [7 \<mapsto> \<lparr>ExecutionContext = 3, FilMainThreadId = 1, ChildThreads = [],
        FilFlags = 2, DefaultSlot = 0, CcSlot = 0\<rparr>],
      TlsFilament = [1 \<mapsto> (7, False)], DefaultStorageSlot = (\<lambda>_. 0), CcStorageSlot = (\<lambda>_. 0),
      DefaultFilament = Some 7, DefaultLock = None, CtxRefs = (\<lambda>_. 1)(3 := 2),
      OpenHandles = {}\<rparr>"
  by (simp add: demo_fil_def fil_start_def CfixpInitializeFilament_def fil_eval CfixpFlagOn_def)

lemma demo_fil_reachable: "fil_reachable (\<lambda>_. 1) demo_fil"
proof -
  have "fil_reachable (\<lambda>_. 1)
      (CfixpInitializeFilament 1 3 1 CFIXP_FILAMENT_FLAG_DEFAULT_FILAMENT True 7
        (fil_start (\<lambda>_. 1)))"
    by (intro fil_reachable.create fil_reachable.start) (simp add: fil_start_def)
  then show ?thesis
    by (rule fil_reachable.set_current [OF _ conjunct1 [OF demo_fil_eq]]) simp
qed



text \<open>
  C12: anonymous threads. A thread without a filament that looks one up while a default
  filament is set becomes its child: the lookup succeeds and marks the filament as derived,
  the thread's handle is kept for the final join, the context is referenced once, and the lock
  is free again. Later lookups change nothing, and when the thread detaches the reference is
  returned while the handle stays for the join.
\<close>

theorem anonymous_thread_adopts_default:
  assumes "TlsFilament s t = None" and "DefaultFilament s = Some f"
    and "Filaments s f = Some fil" and "DefaultLock s = None"
    and "CfixpFlagOn (FilFlags fil) CFIXP_FILAMENT_FLAG_DEFAULT_FILAMENT"
    and "t \<noteq> FilMainThreadId fil" and "length (ChildThreads fil) < CFIX_MAX_THREADS"
  shows "\<exists>s'. CfixpGetCurrentFilament (Inr h) t s = Some ((S_OK, Some f, True), s') \<and>
           Filaments s' f = Some (fil\<lparr>ChildThreads := ChildThreads fil @ [h]\<rparr>) \<and>
           CtxRefs s' (ExecutionContext fil) = CtxRefs s (ExecutionContext fil) + 1 \<and>
           DefaultLock s' = None \<and> DefaultFilament s' = Some f \<and>
           CfixpGetCurrentFilament (Inr h') t s' = Some ((S_OK, Some f, True), s') \<and>
           (\<exists>s''. CfixpCleanupLeakedFilamentForDetachingThread (Inr h') t s' = Some s'' \<and>
              TlsFilament s'' t = None \<and> CtxRefs s'' = CtxRefs s \<and>
              Filaments s'' = Filaments s' \<and> DefaultFilament s'' = Some f)"
proof -
  define s' where "s' = s\<lparr>OpenHandles := insert h (OpenHandles s),
      Filaments := (Filaments s)(f \<mapsto> fil\<lparr>ChildThreads := ChildThreads fil @ [h]\<rparr>),
      CtxRefs := (CtxRefs s)(ExecutionContext fil := CtxRefs s (ExecutionContext fil) + 1),
      TlsFilament := (TlsFilament s)(t \<mapsto> (f, True)), DefaultLock := None\<rparr>"
  have "CfixpGetCurrentFilament (Inr h) t s = Some ((S_OK, Some f, True), s')"
    using assms by (simp add: CfixpGetCurrentFilament_def CfixsGetCurrentFilament_def fil_eval s'_def)
  moreover have "CfixpGetCurrentFilament (Inr h') t s' = Some ((S_OK, Some f, True), s')"
    by (simp add: CfixpGetCurrentFilament_def CfixsGetCurrentFilament_def CfixsGetTlsFilament_def
        s'_def)
  moreover have "CfixpCleanupLeakedFilamentForDetachingThread (Inr h') t s' =
      Some (s'\<lparr>CtxRefs := CtxRefs s, TlsFilament := (TlsFilament s)(t := None)\<rparr>)"
    using assms by (simp add: CfixpCleanupLeakedFilamentForDetachingThread_def
        CfixsGetCurrentFilament_def fil_eval s'_def)
  ultimately show ?thesis using assms by (simp add: s'_def)
qed

theorem anonymous_thread_adopts_default_witness:
  "\<exists>s'. CfixpGetCurrentFilament (Inr 5) 2 demo_fil = Some ((S_OK, Some 7, True), s') \<and>
     CtxRefs s' 3 = 3"
  using anonymous_thread_adopts_default [of demo_fil 2 7
      "\<lparr>ExecutionContext = 3, FilMainThreadId = 1, ChildThreads = [], FilFlags = 2,
        DefaultSlot = 0, CcSlot = 0\<rparr>" 5 0]
  by (auto simp: demo_fil_eq CfixpFlagOn_def)

text \<open>
  What a default filament conflict costs. When the main thread of a filament that wants to
  be the default makes it current while another default is set, the call fails as it should,
  but the critical section stays entered: from then on every other thread that has no filament
  yet blocks for good in its first report. The slot of the caller still names the old
  filament, whose reference on its context has been given up, while the context of the new
  one is referenced by nobody's slot.
\<close>

definition ctx_one :: "(nat \<Rightarrow> int) \<Rightarrow> nat \<Rightarrow> int \<Rightarrow> nat \<Rightarrow> int" where
  "ctx_one refs c d = refs(c := refs c + d)"

lemma default_conflict_keeps_lock:
  assumes "TlsFilament s me = Some (g, d)" and "Filaments s g = Some old"
    and "Filaments s f = Some fil" and "FilMainThreadId fil = me"
    and "CfixpFlagOn (FilFlags fil) CFIXP_FILAMENT_FLAG_DEFAULT_FILAMENT"
    and "DefaultFilament s = Some def" and "DefaultLock s = None"
  shows "\<exists>s'. CfixpSetCurrentFilament dup me (Some f) s =
             Some ((CFIX_E_DEFAULT_FILAMENT_CONFLICT, None), s') \<and>
           DefaultLock s' = Some (me, 1) \<and> TlsFilament s' = TlsFilament s \<and>
           CtxRefs s' = ctx_one (ctx_one (CtxRefs s) (ExecutionContext old) (- 1))
                          (ExecutionContext fil) 1 \<and>
           (\<forall>t dup'. t \<noteq> me \<longrightarrow> TlsFilament s t = None \<longrightarrow>
              CfixpGetCurrentFilament dup' t s' = None)"
proof -
  define s' where "s' = s\<lparr>DefaultLock := Some (me, 1), CtxRefs :=
      ctx_one (ctx_one (CtxRefs s) (ExecutionContext old) (- 1)) (ExecutionContext fil) 1\<rparr>"
  have "CfixpSetCurrentFilament dup me (Some f) s =
      Some ((CFIX_E_DEFAULT_FILAMENT_CONFLICT, None), s')"
    using assms by (simp add: fil_eval s'_def ctx_one_def)
  moreover have "CfixpGetCurrentFilament dup' t s' = None"
    if "t \<noteq> me" "TlsFilament s t = None" for t dup'
    using that assms by (simp add: CfixpGetCurrentFilament_def CfixsGetCurrentFilament_def
        CfixsGetTlsFilament_def enter_default_def s'_def)
  ultimately show ?thesis by (simp add: s'_def)
qed

text \<open>
  C14: storage outlives the filament. A value stored under a tag by the main thread of its
  current filament is what reading the tag returns, the other tag is unaffected, and after the
  filament is destroyed a new filament of the same thread sees it exactly when it is created
  with \<open>RestoreStorage\<close>, and zero otherwise.
\<close>

definition storage_tag :: "ulong \<Rightarrow> bool" where
  "storage_tag Tag \<longleftrightarrow> Tag = 0 \<or> Tag = CFIX_TAG_RESERVED_FOR_CC"

theorem storage_outlives_filament:
  assumes "TlsFilament s me = Some (f, d)" and "Filaments s f = Some fil"
    and "FilMainThreadId fil = me" and "storage_tag Tag" and "storage_tag Other" "Other \<noteq> Tag"
  shows "\<exists>s1 s2. CfixPeSetValue dup me Tag v s = Some s1 \<and>
           CfixPeGetValue dup me Tag s1 = Some (v, s1) \<and>
           map_option fst (CfixPeGetValue dup me Other s1) =
             map_option fst (CfixPeGetValue dup me Other s) \<and>
           CfixpDestroyFilament me f s1 = Some s2 \<and>
           map_option fst (CfixPeGetValue dup me Tag (CfixsSetTlsFilamant me (Some f') False
             (CfixpInitializeFilament me c me fl restore f' s2))) =
             Some (if restore then v else 0)"
  using assms
  by (auto simp: CfixPeSetValue_def CfixPeGetValue_def CfixpGetCurrentFilament_def
      CfixsGetCurrentFilament_def CfixsGetTlsFilament_def CfixsSetTlsFilamant_def
      CfixpDestroyFilament_def CfixpInitializeFilament_def close_handles_sel storage_tag_def
      CFIX_TAG_RESERVED_FOR_CC_def Let_def)

theorem storage_outlives_filament_witness:
  "\<exists>s1. CfixPeSetValue (Inr 0) 1 0 99 demo_fil = Some s1 \<and>
     CfixPeGetValue (Inr 0) 1 0 s1 = Some (99, s1)"
  using storage_outlives_filament [of demo_fil 1 7 False
      "\<lparr>ExecutionContext = 3, FilMainThreadId = 1, ChildThreads = [],
        FilFlags = 2, DefaultSlot = 0, CcSlot = 0\<rparr>" 0 CFIX_TAG_RESERVED_FOR_CC "Inr 0" 99 8 3 0 True]
  by (auto simp: demo_fil_eq storage_tag_def CFIX_TAG_RESERVED_FOR_CC_def)

end
