(* ===== verification/RptStubs.thy ===== *)
theory RptStubs
  imports Filament ExecIface
begin

text \<open>
  The reporting stubs that test code calls (\<open>cfix/cfix/rptstubs.c\<close>): failed assertions,
  inconclusiveness, logs, and the exception filter around test routines. A stub finds the
  current filament, reports an event to its execution context and then lets the routine go on,
  raises an exception towards the filter, or ends the thread; these are the outcomes.

  \<open>env\<close> holds what the stubs take from their surroundings: the contexts behind the context
  addresses stored in filaments, the debugger test, stack capture (\<open>None\<close> when it fails),
  handle duplication, waiting for threads (\<open>None\<close> when it never ends, else whether it timed out),
  the address of a local filament, and the code behind a routine address, run by a thread
  together with the child threads it starts. A formatted message is the argument \<open>Rendered\<close>, the text that
  \<open>printf\<close> produces; \<open>cch\<close> cuts it to the buffer as the \<open>StringCch\<close> routines do. \<open>OutputDebugString\<close>
  only feeds the debugger and is left out.
\<close>

section \<open>Run-time state and outcomes\<close>

record 'u runtime =
  Fil :: fil_state
  Obs :: 'u

datatype 'a outcome = Returned 'a | RaiseException dword | ExitThread dword

record 'u env =
  Contexts :: "nat \<Rightarrow> 'u exec_context"
  DebuggerPresent :: bool
  CaptureStackTrace :: "'u \<Rightarrow> nat option"
  DupHandle :: "fil_state \<Rightarrow> thread_handle"
  WaitThreads :: "'u runtime \<Rightarrow> nat list \<Rightarrow> ulong \<Rightarrow> bool option"
  StackAddress :: "fil_state \<Rightarrow> nat"
  Code :: "ulong_ptr \<Rightarrow> ulong \<Rightarrow> 'u runtime \<Rightarrow> (unit outcome \<times> 'u runtime) option"

abbreviation EXCEPTION_TESTCASE_FAILED_ABORT :: dword
  where "EXCEPTION_TESTCASE_FAILED_ABORT \<equiv> 0x8004AFFD"
abbreviation EXCEPTION_TESTCASE_INCONCLUSIVE :: dword
  where "EXCEPTION_TESTCASE_INCONCLUSIVE \<equiv> 0x8004AFFE"
abbreviation EXCEPTION_TESTCASE_FAILED :: dword
  where "EXCEPTION_TESTCASE_FAILED \<equiv> 0x8004AFFF"
abbreviation EXCEPTION_BREAKPOINT :: dword where "EXCEPTION_BREAKPOINT \<equiv> 0x80000003"
abbreviation EXCEPTION_STACK_OVERFLOW :: dword where "EXCEPTION_STACK_OVERFLOW \<equiv> 0xC00000FD"
abbreviation CFIX_EXIT_THREAD_ABORTED :: dword where "CFIX_EXIT_THREAD_ABORTED \<equiv> 0xFFFFFFFF"

definition cch :: "nat \<Rightarrow> 'a list \<Rightarrow> 'a list" where
  "cch n text = take (n - 1) text"

definition frame_count :: "'u env \<Rightarrow> filament \<Rightarrow> 'u \<Rightarrow> nat" where
  "frame_count env f u =
     (if CfixpFlagOn (FilFlags f) CFIXP_FILAMENT_FLAG_CAPTURE_STACK_TRACES
      then (case CaptureStackTrace env u of None \<Rightarrow> 0 | Some n \<Rightarrow> n) else 0)"

definition current_filament ::
    "'u env \<Rightarrow> ulong \<Rightarrow> 'u runtime \<Rightarrow> ((hresult \<times> nat option \<times> bool) \<times> 'u runtime) option" where
  "current_filament env me s =
     map_option (\<lambda>(r, fs). (r, s\<lparr>Fil := fs\<rparr>))
       (CfixpGetCurrentFilament (DupHandle env (Fil s)) me (Fil s))"

text \<open>\<open>Filament->ExecutionContext->ReportEvent\<close> for the thread \<open>me\<close>.\<close>

definition report_event ::
    "'u env \<Rightarrow> ulong \<Rightarrow> filament \<Rightarrow> cfix_event \<Rightarrow> 'u runtime \<Rightarrow> disposition \<times> 'u runtime" where
  "report_event env me f ev s =
     (let (Disp, u) = ReportEvent (Contexts env (ExecutionContext f))
            (CfixpInitializeThreadId (FilMainThreadId f) me) ev (Obs s)
      in (Disp, s\<lparr>Obs := u\<rparr>))"

section \<open>The exception filter\<close>

text \<open>
  The result is whether the handler is executed (otherwise the search for a handler goes on)
  and \<open>AbortRun\<close>, which keeps its value when the filter does not set it.
\<close>

definition CfixpExceptionFilter ::
    "'u env \<Rightarrow> ulong \<Rightarrow> dword \<Rightarrow> filament \<Rightarrow> bool \<Rightarrow> 'u runtime \<Rightarrow> (bool \<times> bool) \<times> 'u runtime" where
  "CfixpExceptionFilter env me ExcpCode Filament AbortRun s =
     (if ExcpCode = EXCEPTION_TESTCASE_INCONCLUSIVE \<or> ExcpCode = EXCEPTION_TESTCASE_FAILED
      then ((True, False), s)
      else if ExcpCode = EXCEPTION_TESTCASE_FAILED_ABORT then ((True, True), s)
      else if ExcpCode = EXCEPTION_BREAKPOINT then ((False, AbortRun), s)
      else if ExcpCode = EXCEPTION_STACK_OVERFLOW then ((False, AbortRun), s)
      else
        let ctx = Contexts env (ExecutionContext Filament);
            Tid = CfixpInitializeThreadId (FilMainThreadId Filament) me;
            s = s\<lparr>Obs := OnUnhandledException ctx Tid ExcpCode (Obs s)\<rparr>;
            (Disp, s) = report_event env me Filament
                \<lparr>EventInfo = UncaughtException ExcpCode,
                 FrameCount = frame_count env Filament (Obs s)\<rparr> s
        in ((Disp \<noteq> CfixBreak, Disp = CfixAbort), s))"

section \<open>Stubs\<close>

definition CfixPeFail :: "'u env \<Rightarrow> ulong \<Rightarrow> 'u runtime \<Rightarrow> ('a outcome \<times> 'u runtime) option" where
  "CfixPeFail env me s =
     do {
       ((Hr, f, Derived), s) \<leftarrow> current_filament env me s;
       Some (if SUCCEEDED Hr \<and> \<not> Derived then RaiseException EXCEPTION_TESTCASE_FAILED
             else ExitThread CFIX_EXIT_THREAD_ABORTED, s)
     }"

definition CfixPeReportFailedAssertion ::
    "'u env \<Rightarrow> ulong \<Rightarrow> dword \<Rightarrow> wstring option \<Rightarrow> wstring option \<Rightarrow> ulong \<Rightarrow> wstring \<Rightarrow>
       'u runtime \<Rightarrow> (disposition outcome \<times> 'u runtime) option" where
  "CfixPeReportFailedAssertion env me LastError File Routine Line Expression s =
     do {
       ((Hr, f, Derived), s) \<leftarrow> current_filament env me s;
       (if FAILED Hr then Some (ExitThread CFIX_EXIT_THREAD_ABORTED, s)
        else do {
          f \<leftarrow> f;
          Filament \<leftarrow> Filaments (Fil s) f;
          (let (Disp, s) = report_event env me Filament
                 \<lparr>EventInfo = FailedAssertion File Routine Line Expression LastError,
                  FrameCount = frame_count env Filament (Obs s)\<rparr> s
           in case Disp of
                CfixBreakAlways \<Rightarrow> Some (Returned CfixBreak, s)
              | CfixAbort \<Rightarrow>
                  Some (if \<not> Derived then RaiseException EXCEPTION_TESTCASE_FAILED_ABORT
                        else ExitThread CFIX_EXIT_THREAD_ABORTED, s)
              | CfixContinue \<Rightarrow> Some (Returned CfixContinue, s)
              | CfixBreak \<Rightarrow>
                  if DebuggerPresent env then Some (Returned CfixBreak, s)
                  else CfixPeFail env me s)
        })
     }"

text \<open>\<open>Rendered\<close> is \<open>None\<close> for a NULL format. \<open>AnsiRendered\<close> is a byte string; \<open>mb2wc\<close> is
  \<open>MultiByteToWideChar\<close> into a buffer of the given size, \<open>None\<close> when it fails.\<close>

definition CfixPeReportFailedAssertionFormatW ::
    "'u env \<Rightarrow> ulong \<Rightarrow> dword \<Rightarrow> wstring option \<Rightarrow> wstring option \<Rightarrow> ulong \<Rightarrow> wstring option \<Rightarrow>
       'u runtime \<Rightarrow> (disposition outcome \<times> 'u runtime) option" where
  "CfixPeReportFailedAssertionFormatW env me LastError File Routine Line Rendered s =
     CfixPeReportFailedAssertion env me LastError File Routine Line
       (case Rendered of None \<Rightarrow> [] | Some text \<Rightarrow> cch 256 text) s"

type_synonym mb2wc = "8 word list \<Rightarrow> nat \<Rightarrow> wstring option"

definition ansi_to_wide :: "mb2wc \<Rightarrow> nat \<Rightarrow> 8 word list \<Rightarrow> wstring" where
  "ansi_to_wide mb2wc n text =
     (case mb2wc text n of None \<Rightarrow> cch n (wide ''(Invalid string)'') | Some w \<Rightarrow> w)"

definition CfixPeReportFailedAssertionFormatA ::
    "mb2wc \<Rightarrow> 'u env \<Rightarrow> ulong \<Rightarrow> dword \<Rightarrow> wstring option \<Rightarrow> wstring option \<Rightarrow> ulong \<Rightarrow>
       8 word list option \<Rightarrow> 'u runtime \<Rightarrow> (disposition outcome \<times> 'u runtime) option" where
  "CfixPeReportFailedAssertionFormatA mb2wc env me LastError File Routine Line AnsiRendered s =
     CfixPeReportFailedAssertion env me LastError File Routine Line
       (case AnsiRendered of
          None \<Rightarrow> [] | Some text \<Rightarrow> ansi_to_wide mb2wc 256 (cch 256 text)) s"

definition hex_digit :: "nat \<Rightarrow> wchar" where
  "hex_digit d = (if d < 10 then of_nat (0x30 + d) else of_nat (0x41 + d - 10))"

definition hex8 :: "ulong \<Rightarrow> wstring" where
  "hex8 x = map (\<lambda>i. hex_digit (unat x div 16 ^ i mod 16)) [7, 6, 5, 4, 3, 2, 1, 0]"

definition CfixPeAssertEqualsUlong ::
    "'u env \<Rightarrow> ulong \<Rightarrow> dword \<Rightarrow> ulong \<Rightarrow> ulong \<Rightarrow> wstring option \<Rightarrow> wstring option \<Rightarrow> ulong \<Rightarrow>
       wstring \<Rightarrow> 'u runtime \<Rightarrow> (disposition outcome \<times> 'u runtime) option" where
  "CfixPeAssertEqualsUlong env me LastError Expected Actual File Routine Line Expression s =
     (if Expected = Actual then Some (Returned CfixContinue, s)
      else CfixPeReportFailedAssertion env me LastError File Routine Line
             (cch 200 (wide ''Comparison failed. Expected: 0x'' @ hex8 Expected @
                       wide '', Actual: 0x'' @ hex8 Actual @ wide '' (Expression: '' @
                       Expression @ wide '')'')) s)"

definition CfixPeReportInconclusiveness ::
    "'u env \<Rightarrow> ulong \<Rightarrow> wstring \<Rightarrow> 'u runtime \<Rightarrow> (unit outcome \<times> 'u runtime) option" where
  "CfixPeReportInconclusiveness env me Message s =
     do {
       ((Hr, f, Derived), s) \<leftarrow> current_filament env me s;
       (if FAILED Hr then Some (ExitThread CFIX_EXIT_THREAD_ABORTED, s)
        else do {
          f \<leftarrow> f;
          Filament \<leftarrow> Filaments (Fil s) f;
          (let (Disp, s) = report_event env me Filament
                 \<lparr>EventInfo = Inconclusiveness Message,
                  FrameCount = frame_count env Filament (Obs s)\<rparr> s
           in Some (if \<not> Derived then RaiseException EXCEPTION_TESTCASE_INCONCLUSIVE
                    else ExitThread CFIX_EXIT_THREAD_ABORTED, s))
        })
     }"

definition CfixPeReportInconclusivenessA ::
    "mb2wc \<Rightarrow> 'u env \<Rightarrow> ulong \<Rightarrow> 8 word list option \<Rightarrow> 'u runtime \<Rightarrow>
       (unit outcome \<times> 'u runtime) option" where
  "CfixPeReportInconclusivenessA mb2wc env me Message s =
     CfixPeReportInconclusiveness env me
       (case Message of None \<Rightarrow> [] | Some text \<Rightarrow> ansi_to_wide mb2wc 256 text) s"

definition CfixsPeReportLog ::
    "'u env \<Rightarrow> ulong \<Rightarrow> wstring \<Rightarrow> 'u runtime \<Rightarrow> (unit outcome \<times> 'u runtime) option" where
  "CfixsPeReportLog env me Message s =
     do {
       ((Hr, f, _), s) \<leftarrow> current_filament env me s;
       (if FAILED Hr then Some (ExitThread CFIX_EXIT_THREAD_ABORTED, s)
        else do {
          f \<leftarrow> f;
          Filament \<leftarrow> Filaments (Fil s) f;
          (let (Disp, s) = report_event env me Filament
                 \<lparr>EventInfo = Log Message, FrameCount = 0\<rparr> s
           in Some (Returned (), s))
        })
     }"

definition CfixPeReportLog ::
    "'u env \<Rightarrow> ulong \<Rightarrow> wstring option \<Rightarrow> 'u runtime \<Rightarrow> (unit outcome \<times> 'u runtime) option" where
  "CfixPeReportLog env me Rendered s =
     CfixsPeReportLog env me (case Rendered of None \<Rightarrow> [] | Some text \<Rightarrow> cch 512 text) s"

definition CfixPeReportLogA ::
    "mb2wc \<Rightarrow> 'u env \<Rightarrow> ulong \<Rightarrow> 8 word list option \<Rightarrow> 'u runtime \<Rightarrow>
       (unit outcome \<times> 'u runtime) option" where
  "CfixPeReportLogA mb2wc env me AnsiRendered s =
     CfixsPeReportLog env me
       (case AnsiRendered of
          None \<Rightarrow> [] | Some text \<Rightarrow> ansi_to_wide mb2wc 512 (cch 512 text)) s"

section \<open>How a stub ends\<close>

text \<open>Looking up a filament a thread already has changes nothing.\<close>

lemma current_filament_set:
  "TlsFilament (Fil s) me = Some (f, d) \<Longrightarrow>
     current_filament env me s = Some ((S_OK, Some f, d), s)"
  by (simp add: current_filament_def CfixpGetCurrentFilament_def CfixsGetCurrentFilament_def
      CfixsGetTlsFilament_def)

lemma report_event_fil:
  "report_event env me f ev s = (d, s') \<Longrightarrow> Fil s' = Fil s"
  by (auto simp: report_event_def split: prod.splits)

end
