(* ===== verification/PeRun.thy ===== *)
theory PeRun
  imports RptStubs FilamentInv TsExec
begin

text \<open>
  Running the routines of a DLL fixture (\<open>cfix/cfix/pe.c\<close>, \<open>CfixsRunTestRoutine\<close> and the five
  module methods). A routine runs under a filament on the stack of the runner and inside the
  exception filter; afterwards its child threads are joined and the filament is taken down.

  The context argument is the address \<open>Context\<close> of an execution context, which \<open>Contexts\<close> of the
  environment resolves; an exception for which the filter says to keep searching ends the
  process, so the result is \<open>None\<close>, as for a routine that never returns.
\<close>

section \<open>Running one routine\<close>

definition run_protected ::
    "'u env \<Rightarrow> ulong \<Rightarrow> ulong_ptr \<Rightarrow> nat \<Rightarrow> 'u runtime \<Rightarrow> ((bool \<times> bool) \<times> 'u runtime) option" where
  "run_protected env me Routine Filament s =
     do {
       (r, s) \<leftarrow> Code env Routine me s;
       (case r of
          Returned _ \<Rightarrow> Some ((True, False), s)
        | ExitThread _ \<Rightarrow> None
        | RaiseException ExcpCode \<Rightarrow>
            do {
              f \<leftarrow> Filaments (Fil s) Filament;
              (case CfixpExceptionFilter env me ExcpCode f False s of
                 ((ExecuteHandler, AbortRun), s) \<Rightarrow>
                   if ExecuteHandler then Some ((False, AbortRun), s) else None)
            })
     }"

definition CfixsRunTestRoutine ::
    "'u env \<Rightarrow> ulong \<Rightarrow> ulong_ptr \<Rightarrow> nat \<Rightarrow> ulong \<Rightarrow> bool \<Rightarrow> 'u runtime \<Rightarrow>
       (hresult \<times> 'u runtime) option" where
  "CfixsRunTestRoutine env me Routine Context Flags RestoreFilamentStorage s =
     (if Routine = 0 then Some (E_UNEXPECTED, s)
      else
        let Filament = StackAddress env (Fil s);
            FilamentFlags =
              (if CfixpFlagOn Flags CFIX_TEST_FLAG_CAPTURE_STACK_TRACES
               then CFIXP_FILAMENT_FLAG_CAPTURE_STACK_TRACES else 0) OR
              (if CfixpFlagOn Flags CFIX_TEST_FLAG_PROVIDE_DEFAULT_FILAMENT
               then CFIXP_FILAMENT_FLAG_DEFAULT_FILAMENT else 0);
            fs = CfixpInitializeFilament me Context me FilamentFlags RestoreFilamentStorage
                   Filament (Fil s)
        in do {
          ((Hr, PrevFilament), fs) \<leftarrow>
            CfixpSetCurrentFilament (DupHandle env fs) me (Some Filament) fs;
          (if FAILED Hr
           then do { fs \<leftarrow> CfixpDestroyFilament me Filament fs; Some (Hr, s\<lparr>Fil := fs\<rparr>) }
           else do {
             ((RanToCompletion, AbortRun), s) \<leftarrow>
               run_protected env me Routine Filament (s\<lparr>Fil := fs\<rparr>);
             _ \<leftarrow> CfixpJoinChildThreadsFilament (WaitThreads env s) Filament (- 1) (Fil s);
             (_, fs) \<leftarrow> CfixpSetCurrentFilament (DupHandle env (Fil s)) me PrevFilament (Fil s);
             fs \<leftarrow> CfixpDestroyFilament me Filament fs;
             Some (if AbortRun then CFIX_E_TESTRUN_ABORTED
                   else if \<not> RanToCompletion then CFIX_E_TEST_ROUTINE_FAILED
                   else S_OK, s\<lparr>Fil := fs\<rparr>)
           })
        })"

section \<open>The module methods\<close>

definition valid_args :: "'u env \<Rightarrow> 'a option \<Rightarrow> nat \<Rightarrow> bool" where
  "valid_args env TestCase Context \<longleftrightarrow> TestCase \<noteq> None \<and> Context \<noteq> 0 \<and>
     ContextVersion (Contexts env Context) = CFIX_TEST_CONTEXT_VERSION"

definition map_failure :: "hresult \<Rightarrow> hresult \<Rightarrow> hresult" where
  "map_failure Status Hr = (if Hr = CFIX_E_TEST_ROUTINE_FAILED then Status else Hr)"

definition CfixsRunTestCaseTestModule ::
    "'u env \<Rightarrow> ulong \<Rightarrow> test_case option \<Rightarrow> nat \<Rightarrow> ulong \<Rightarrow> 'u runtime \<Rightarrow>
       (hresult \<times> 'u runtime) option" where
  "CfixsRunTestCaseTestModule env me TestCase Context Flags s =
     (if \<not> valid_args env TestCase Context then Some (E_INVALIDARG, s)
      else CfixsRunTestRoutine env me (TestCaseRoutine (the TestCase)) Context Flags True s)"

definition CfixsRunSetupTestModule ::
    "'u env \<Rightarrow> ulong \<Rightarrow> fixture option \<Rightarrow> nat \<Rightarrow> ulong \<Rightarrow> 'u runtime \<Rightarrow>
       (hresult \<times> 'u runtime) option" where
  "CfixsRunSetupTestModule env me Fixture Context Flags s =
     (if \<not> valid_args env Fixture Context then Some (E_INVALIDARG, s)
      else if SetupRoutine (the Fixture) \<noteq> 0
      then do {
        (Hr, s) \<leftarrow> CfixsRunTestRoutine env me (SetupRoutine (the Fixture)) Context Flags False s;
        Some (map_failure CFIX_E_SETUP_ROUTINE_FAILED Hr, s) }
      else Some (S_OK, s))"

definition CfixsRunTeardownTestModule ::
    "'u env \<Rightarrow> ulong \<Rightarrow> fixture option \<Rightarrow> nat \<Rightarrow> ulong \<Rightarrow> 'u runtime \<Rightarrow>
       (hresult \<times> 'u runtime) option" where
  "CfixsRunTeardownTestModule env me Fixture Context Flags s =
     (if \<not> valid_args env Fixture Context then Some (E_INVALIDARG, s)
      else if TeardownRoutine (the Fixture) \<noteq> 0
      then do {
        (Hr, s) \<leftarrow> CfixsRunTestRoutine env me (TeardownRoutine (the Fixture)) Context Flags False s;
        Some (map_failure CFIX_E_TEARDOWN_ROUTINE_FAILED Hr, s) }
      else Some (S_OK, s))"

definition CfixsRunBeforeTestModule ::
    "'u env \<Rightarrow> ulong \<Rightarrow> fixture option \<Rightarrow> nat \<Rightarrow> ulong \<Rightarrow> 'u runtime \<Rightarrow>
       (hresult \<times> 'u runtime) option" where
  "CfixsRunBeforeTestModule env me Fixture Context Flags s =
     (if \<not> valid_args env Fixture Context then Some (E_INVALIDARG, s)
      else if BeforeRoutine (the Fixture) \<noteq> 0
      then do {
        (Hr, s) \<leftarrow> CfixsRunTestRoutine env me (BeforeRoutine (the Fixture)) Context Flags False s;
        Some (map_failure CFIX_E_BEFORE_ROUTINE_FAILED Hr, s) }
      else Some (S_OK, s))"

definition CfixsRunAfterTestModule ::
    "'u env \<Rightarrow> ulong \<Rightarrow> fixture option \<Rightarrow> nat \<Rightarrow> ulong \<Rightarrow> 'u runtime \<Rightarrow>
       (hresult \<times> 'u runtime) option" where
  "CfixsRunAfterTestModule env me Fixture Context Flags s =
     (if \<not> valid_args env Fixture Context then Some (E_INVALIDARG, s)
      else if AfterRoutine (the Fixture) \<noteq> 0
      then do {
        (Hr, s) \<leftarrow> CfixsRunTestRoutine env me (AfterRoutine (the Fixture)) Context Flags True s;
        Some (map_failure CFIX_E_AFTER_ROUTINE_FAILED Hr, s) }
      else Some (S_OK, s))"

text \<open>
  The module as the fixture execution action sees it. The context handed to a method is the one
  at the address \<open>Context\<close>; the record of its methods over the run-time state is \<open>lift_context\<close>.
\<close>

definition lift_context :: "'u exec_context \<Rightarrow> 'u runtime exec_context" where
  "lift_context c =
     \<lparr>ContextVersion = ContextVersion c, ContextRoutinesPresent = ContextRoutinesPresent c,
      ReportEvent = (\<lambda>t ev s. apsnd (\<lambda>u. s\<lparr>Obs := u\<rparr>) (ReportEvent c t ev (Obs s))),
      QueryDefaultDisposition =
        (\<lambda>t s. apsnd (\<lambda>u. s\<lparr>Obs := u\<rparr>) (QueryDefaultDisposition c t (Obs s))),
      BeforeFixtureStart = (\<lambda>t fx s. apsnd (\<lambda>u. s\<lparr>Obs := u\<rparr>) (BeforeFixtureStart c t fx (Obs s))),
      AfterFixtureFinish = (\<lambda>t fx b s. s\<lparr>Obs := AfterFixtureFinish c t fx b (Obs s)\<rparr>),
      BeforeTestCaseStart =
        (\<lambda>t tc s. apsnd (\<lambda>u. s\<lparr>Obs := u\<rparr>) (BeforeTestCaseStart c t tc (Obs s))),
      AfterTestCaseFinish = (\<lambda>t tc b s. s\<lparr>Obs := AfterTestCaseFinish c t tc b (Obs s)\<rparr>),
      CreateChildThread = (\<lambda>t s. apsnd (\<lambda>u. s\<lparr>Obs := u\<rparr>) (CreateChildThread c t (Obs s))),
      BeforeChildThreadStart = (\<lambda>t p s. s\<lparr>Obs := BeforeChildThreadStart c t p (Obs s)\<rparr>),
      AfterChildThreadFinish = (\<lambda>t p s. s\<lparr>Obs := AfterChildThreadFinish c t p (Obs s)\<rparr>),
      OnUnhandledException = (\<lambda>t e s. s\<lparr>Obs := OnUnhandledException c t e (Obs s)\<rparr>),
      ContextReference = (\<lambda>s. s\<lparr>Obs := ContextReference c (Obs s)\<rparr>),
      ContextDereference = (\<lambda>s. s\<lparr>Obs := ContextDereference c (Obs s)\<rparr>)\<rparr>"

definition pe_module :: "'u env \<Rightarrow> ulong \<Rightarrow> nat \<Rightarrow> 'u runtime test_module" where
  "pe_module env me Context =
     \<lparr>RunTestCase = (\<lambda>(fx, i) _ Flags s.
        CfixsRunTestCaseTestModule env me
          (if i < TestCaseCount fx then Some (TestCases fx ! i) else None) Context Flags s),
      Setup = (\<lambda>fx _ Flags s. CfixsRunSetupTestModule env me (Some fx) Context Flags s),
      Teardown = (\<lambda>fx _ Flags s. CfixsRunTeardownTestModule env me (Some fx) Context Flags s),
      Before = (\<lambda>fx _ Flags s. CfixsRunBeforeTestModule env me (Some fx) Context Flags s),
      After = (\<lambda>fx _ Flags s. CfixsRunAfterTestModule env me (Some fx) Context Flags s),
      ModuleReference = id, ModuleDereference = id\<rparr>"

section \<open>Result codes\<close>

text \<open>
  The contract between a test module and the fixture execution action: which codes a method
  may return besides those that tell that nothing could be run at all.
\<close>

definition infra_error :: "hresult \<Rightarrow> bool" where
  "infra_error hr \<longleftrightarrow> hr = E_INVALIDARG \<or> hr = E_UNEXPECTED \<or> hr = CFIX_E_DEFAULT_FILAMENT_CONFLICT"

definition routine_code :: "hresult \<Rightarrow> hresult \<Rightarrow> bool" where
  "routine_code failure hr \<longleftrightarrow>
     hr = S_OK \<or> hr = failure \<or> hr = CFIX_E_TESTRUN_ABORTED \<or> infra_error hr"

definition case_code :: "hresult \<Rightarrow> bool" where
  "case_code hr \<longleftrightarrow> routine_code CFIX_E_BEFORE_ROUTINE_FAILED hr \<or>
     routine_code CFIX_E_AFTER_ROUTINE_FAILED hr \<or> routine_code CFIX_E_TEST_ROUTINE_FAILED hr"

text \<open>Codes the context answers to \<open>BeforeTestCaseStart\<close> and \<open>BeforeFixtureStart\<close>.\<close>

definition context_code :: "'s exec_context \<Rightarrow> hresult \<Rightarrow> bool" where
  "context_code ctx hr \<longleftrightarrow> (\<exists>t fx s. hr = fst (BeforeFixtureStart ctx t fx s)) \<or>
     (\<exists>t tc s. hr = fst (BeforeTestCaseStart ctx t tc s))"

locale module_codes =
  fixes m :: "'s test_module" and ctx :: "'s exec_context"
  assumes setup_code:
      "Setup m fx ctx fl s = Some (hr, s') \<Longrightarrow> routine_code CFIX_E_SETUP_ROUTINE_FAILED hr"
    and teardown_code:
      "Teardown m fx ctx fl s = Some (hr, s') \<Longrightarrow> routine_code CFIX_E_TEARDOWN_ROUTINE_FAILED hr"
    and before_code:
      "Before m fx ctx fl s = Some (hr, s') \<Longrightarrow> routine_code CFIX_E_BEFORE_ROUTINE_FAILED hr"
    and after_code:
      "After m fx ctx fl s = Some (hr, s') \<Longrightarrow> routine_code CFIX_E_AFTER_ROUTINE_FAILED hr"
    and test_code:
      "RunTestCase m tc ctx fl s = Some (hr, s') \<Longrightarrow> routine_code CFIX_E_TEST_ROUTINE_FAILED hr"
begin

lemma run_case_code:
  assumes "ActionModule act = m"
    and "CfixsRunTestCaseFixtureExecutionAction dbg act tc ctx s = Some (hr, s')"
  shows "case_code hr"
proof -
  from assms obtain hb s1 where b: "Before m (ActionFixture act) ctx
      (CfixsGetTestFlagsFixtureExecutionAction dbg act s) s = Some (hb, s1)"
    by (auto simp: CfixsRunTestCaseFixtureExecutionAction_def bind_Some_iff)
  show ?thesis
  proof (cases "FAILED hb")
    case True
    with assms b before_code [OF b] show ?thesis
      by (simp add: CfixsRunTestCaseFixtureExecutionAction_def case_code_def)
  next
    case False
    with assms b obtain ht s2 ha s3 where
      t: "RunTestCase m tc ctx (CfixsGetTestFlagsFixtureExecutionAction dbg act s1) s1 = Some (ht, s2)"
      and a: "After m (ActionFixture act) ctx
               (CfixsGetTestFlagsFixtureExecutionAction dbg act s2) s2 = Some (ha, s3)"
      and "hr = ht \<or> hr = ha"
      by (auto simp: CfixsRunTestCaseFixtureExecutionAction_def bind_Some_iff split: if_splits)
    with test_code [OF t] after_code [OF a] show ?thesis by (auto simp: case_code_def)
  qed
qed

lemma loop_code:
  assumes "ActionModule act = m"
  shows "run_test_cases dbg act ctx tid idxs hr s = Some (r, s') \<Longrightarrow>
           \<not> FAILED hr \<Longrightarrow> FAILED (case r of Inl h \<Rightarrow> h | Inr (h, _) \<Rightarrow> h) \<Longrightarrow>
           context_code ctx (case r of Inl h \<Rightarrow> h | Inr (h, _) \<Rightarrow> h) \<or>
           case_code (case r of Inl h \<Rightarrow> h | Inr (h, _) \<Rightarrow> h)"
proof (induction idxs arbitrary: hr s)
  case (Cons i idxs)
  show ?case
  proof (cases "TestCaseIndex act \<noteq> -1 \<and> TestCaseIndex act \<noteq> of_nat i")
    case True
    with Cons show ?thesis by auto
  next
    case sel: False
    obtain hb s1 where b: "BeforeTestCaseStart ctx tid (ActionFixture act, i) s = (hb, s1)"
      by (cases "BeforeTestCaseStart ctx tid (ActionFixture act, i) s")
    show ?thesis
    proof (cases "FAILED hb")
      case True
      have "hb = fst (BeforeTestCaseStart ctx tid (ActionFixture act, i) s)" by (simp add: b)
      then have "context_code ctx hb" unfolding context_code_def by blast
      with Cons.prems(1) sel b True show ?thesis by auto
    next
      case False
      with Cons.prems(1) sel b obtain h1 s2 where run:
        "CfixsRunTestCaseFixtureExecutionAction dbg act (ActionFixture act, i) ctx s1 = Some (h1, s2)"
        by (auto simp: bind_Some_iff split: if_splits)
      note code = run_case_code [OF assms run]
      show ?thesis
      proof (cases "test_case_verdict (ActionFlags act) h1")
        case None
        with Cons.prems(1) sel b False run code show ?thesis by auto
      next
        case (Some v)
        obtain h2 stop where v: "v = (h2, stop)" by (cases v)
        with Some have h2: "FAILED h2 \<longrightarrow> h2 = h1 \<and> stop"
          by (auto simp: test_case_verdict_def split: if_splits)
        let ?s3 = "AfterTestCaseFinish ctx tid (ActionFixture act, i) (SUCCEEDED h1) s2"
        show ?thesis
        proof (cases stop)
          case True
          with Cons.prems(1,3) sel b False run Some v h2 code show ?thesis by (auto simp: Let_def)
        next
          case goon: False
          with Cons.prems(1) sel b False run Some v have
            "run_test_cases dbg act ctx tid idxs h2 ?s3 = Some (r, s')" by (simp add: Let_def)
          from Cons.IH [OF this _ Cons.prems(3)] h2 goon show ?thesis by blast
        qed
      qed
    qed
  qed
qed auto

lemma fixture_run_code:
  assumes "ActionModule act = m"
    and "CfixsRunFixtureExecutionAction dbg tid act ctx s = Some (hr, s')" and "FAILED hr"
  shows "context_code ctx hr \<or> case_code hr \<or> routine_code CFIX_E_SETUP_ROUTINE_FAILED hr \<or>
         routine_code CFIX_E_TEARDOWN_ROUTINE_FAILED hr"
proof (cases "\<not> CfixIsValidContext ctx \<or> \<not> ActionSignatureOk act")
  case True
  with assms show ?thesis
    by (auto simp: CfixsRunFixtureExecutionAction_def routine_code_def infra_error_def)
next
  case ok: False
  let ?t = "CfixpInitializeThreadId tid tid"
  let ?fx = "ActionFixture act"
  obtain hb s1 where b: "BeforeFixtureStart ctx ?t ?fx s = (hb, s1)"
    by (cases "BeforeFixtureStart ctx ?t ?fx s")
  show ?thesis
  proof (cases "FAILED hb")
    case True
    with assms ok b have "hr = fst (BeforeFixtureStart ctx ?t ?fx s)"
      by (simp add: CfixsRunFixtureExecutionAction_def)
    then show ?thesis unfolding context_code_def by blast
  next
    case False
    with assms ok b obtain hs s2 where su: "Setup m ?fx ctx
        (CfixsGetTestFlagsFixtureExecutionAction dbg act s1) s1 = Some (hs, s2)"
      by (auto simp: CfixsRunFixtureExecutionAction_def bind_Some_iff Let_def)
    note suc = setup_code [OF su]
    show ?thesis
    proof (cases "FAILED hs")
      case True
      with assms ok b False su suc show ?thesis
        by (auto simp: CfixsRunFixtureExecutionAction_def Let_def split: if_splits)
    next
      case goon: False
      with assms ok b False su obtain r s3 where
        l: "run_test_cases dbg act ctx ?t [0..<TestCaseCount ?fx] hs s2 = Some (r, s3)"
        by (auto simp: CfixsRunFixtureExecutionAction_def bind_Some_iff Let_def split: if_splits)
      note lc = loop_code [OF assms(1) l goon]
      show ?thesis
      proof (cases r)
        case (Inl h)
        with assms ok b False su goon l lc show ?thesis
          by (auto simp: CfixsRunFixtureExecutionAction_def Let_def split: if_splits)
      next
        case (Inr p)
        obtain h stop where p: "p = (h, stop)" by (cases p)
        from Inr p assms ok b False su goon l obtain hd s4 where td: "Teardown m ?fx ctx
            (CfixsGetTestFlagsFixtureExecutionAction dbg act s3) s3 = Some (hd, s4)"
          by (auto simp: CfixsRunFixtureExecutionAction_def bind_Some_iff Let_def split: if_splits)
        from Inr p assms ok b False su goon l td have "hr = h \<or> hr = hd"
          by (auto simp: CfixsRunFixtureExecutionAction_def Let_def split: if_splits)
        with lc Inr p assms(3) teardown_code [OF td] show ?thesis by auto
      qed
    qed
  qed
qed

end

section \<open>The PE module keeps the contract\<close>

text \<open>On the main thread of a filament, only a default filament conflict can refuse it.\<close>

lemma set_current_main:
  assumes "CfixpSetCurrentFilament dup me (Some f) fs = Some ((hr, prev), fs')"
    and "main_thread_of f fs = Some me"
  shows "hr = S_OK \<or> hr = CFIX_E_DEFAULT_FILAMENT_CONFLICT"
proof -
  from assms(1) obtain old fs1 where rel: "set_current_release me fs = Some (old, fs1)"
    by (auto simp: CfixpSetCurrentFilament_def CfixsSetCurrentFilament_def bind_Some_iff)
  then have "Filaments fs1 = Filaments fs"
    by (auto simp: set_current_release_def bind_Some_iff ctx_add_def split: option.splits)
  with assms(2) have reg: "set_current_register dup me (Some f) fs1 = Some (Inr (), fs1)"
    by (auto simp: set_current_register_def main_thread_of_def)
  with assms(1) rel obtain r fs2 where
    def: "set_current_default me old (Some f) fs1 = Some (r, fs2)"
    by (auto simp: CfixpSetCurrentFilament_def CfixsSetCurrentFilament_def bind_Some_iff)
  with assms(1) rel reg have hr: "hr = (case r of Inl h \<Rightarrow> h | Inr _ \<Rightarrow> S_OK)"
    by (cases r) (auto simp: CfixpSetCurrentFilament_def CfixsSetCurrentFilament_def)
  from def have "r = Inr () \<or> (\<exists>g fs3 fs4 h. CfixsSetDefaultFilament me g fs3 = Some (h, fs4) \<and> r = Inl h)"
    by (auto simp: set_current_default_def bind_Some_iff Let_def split: if_splits)
  then have "r = Inr () \<or> r = Inl S_OK \<or> r = Inl CFIX_E_DEFAULT_FILAMENT_CONFLICT"
    by (auto simp: CfixsSetDefaultFilament_def bind_Some_iff split: if_splits)
  with hr show ?thesis by auto
qed

lemma initialized_main:
  "main_thread_of f (CfixpInitializeFilament me c main fl rs f fs) = Some main"
  by (simp add: main_thread_of_def CfixpInitializeFilament_def Let_def)

lemma run_test_routine_code:
  assumes "CfixsRunTestRoutine env me r c fl rs s = Some (hr, s')"
  shows "routine_code CFIX_E_TEST_ROUTINE_FAILED hr"
proof (cases "r = 0")
  case True
  with assms show ?thesis by (simp add: CfixsRunTestRoutine_def routine_code_def infra_error_def)
next
  case False
  let ?f = "StackAddress env (Fil s)"
  let ?ff = "(if CfixpFlagOn fl CFIX_TEST_FLAG_CAPTURE_STACK_TRACES
       then CFIXP_FILAMENT_FLAG_CAPTURE_STACK_TRACES else 0) OR
      (if CfixpFlagOn fl CFIX_TEST_FLAG_PROVIDE_DEFAULT_FILAMENT
       then CFIXP_FILAMENT_FLAG_DEFAULT_FILAMENT else 0)"
  define fs where "fs = CfixpInitializeFilament me c me ?ff rs ?f (Fil s)"
  from assms False obtain h prev fs1 where
    set: "CfixpSetCurrentFilament (DupHandle env fs) me (Some ?f) fs = Some ((h, prev), fs1)"
    by (auto simp: CfixsRunTestRoutine_def bind_Some_iff Let_def fs_def)
  have h: "h = S_OK \<or> h = CFIX_E_DEFAULT_FILAMENT_CONFLICT"
    by (rule set_current_main [OF set]) (simp add: fs_def initialized_main)
  show ?thesis
  proof (cases "FAILED h")
    case True
    with assms False set h have "hr = h"
      by (auto simp: CfixsRunTestRoutine_def bind_Some_iff Let_def fs_def)
    with h show ?thesis by (auto simp: routine_code_def infra_error_def)
  next
    case ok: False
    with assms False set h show ?thesis
      by (auto simp: CfixsRunTestRoutine_def bind_Some_iff Let_def fs_def routine_code_def
          split: if_splits)
  qed
qed

lemma map_failure_code:
  "routine_code CFIX_E_TEST_ROUTINE_FAILED hr \<Longrightarrow> routine_code status (map_failure status hr)"
  by (auto simp: routine_code_def map_failure_def infra_error_def)

lemma routine_code_intros [simp]:
  "routine_code status S_OK" "routine_code status E_INVALIDARG"
  by (simp_all add: routine_code_def infra_error_def)

interpretation pe: module_codes "pe_module env me c" "lift_context (Contexts env c)" for env me c
proof
  fix fx i fl hr s s'
  let ?m = "pe_module env me c" and ?ctx = "lift_context (Contexts env c)"
  note d = pe_module_def bind_Some_iff
  show "Setup ?m fx ?ctx fl s = Some (hr, s') \<Longrightarrow> routine_code CFIX_E_SETUP_ROUTINE_FAILED hr"
    by (auto simp: d CfixsRunSetupTestModule_def split: if_splits
        intro: map_failure_code dest: run_test_routine_code)
  show "Teardown ?m fx ?ctx fl s = Some (hr, s') \<Longrightarrow> routine_code CFIX_E_TEARDOWN_ROUTINE_FAILED hr"
    by (auto simp: d CfixsRunTeardownTestModule_def split: if_splits
        intro: map_failure_code dest: run_test_routine_code)
  show "Before ?m fx ?ctx fl s = Some (hr, s') \<Longrightarrow> routine_code CFIX_E_BEFORE_ROUTINE_FAILED hr"
    by (auto simp: d CfixsRunBeforeTestModule_def split: if_splits
        intro: map_failure_code dest: run_test_routine_code)
  show "After ?m fx ?ctx fl s = Some (hr, s') \<Longrightarrow> routine_code CFIX_E_AFTER_ROUTINE_FAILED hr"
    by (auto simp: d CfixsRunAfterTestModule_def split: if_splits
        intro: map_failure_code dest: run_test_routine_code)
next
  fix tc fl hr s s'
  show "RunTestCase (pe_module env me c) tc (lift_context (Contexts env c)) fl s = Some (hr, s') \<Longrightarrow>
      routine_code CFIX_E_TEST_ROUTINE_FAILED hr"
    by (cases tc) (auto simp: pe_module_def CfixsRunTestCaseTestModule_def split: if_splits
        dest: run_test_routine_code)
qed

end
