(* ===== verification/PeRunInv.thy ===== *)
theory PeRunInv
  imports PeRun SequenceRun
begin

text \<open>
  What running routines of a DLL fixture guarantees: the codes a run can end with, the state of
  the filaments after it, and what becomes of a failed assertion.
\<close>

section \<open>Entering and leaving the filament of a routine\<close>

definition at_rest :: "ulong \<Rightarrow> fil_state \<Rightarrow> bool" where
  "at_rest me fs \<longleftrightarrow> TlsFilament fs me = None \<and> DefaultFilament fs = None \<and> DefaultLock fs = None"

lemma enter_filament:
  assumes "at_rest me fs" and "Filaments fs f = Some fil" and "FilMainThreadId fil = me"
  shows "CfixpSetCurrentFilament dup me (Some f) fs = Some ((S_OK, None),
           fs\<lparr>CtxRefs := (CtxRefs fs)(ExecutionContext fil := CtxRefs fs (ExecutionContext fil) + 1),
              DefaultFilament := (if CfixpFlagOn (FilFlags fil) CFIXP_FILAMENT_FLAG_DEFAULT_FILAMENT
                                  then Some f else None),
              TlsFilament := (TlsFilament fs)(me \<mapsto> (f, False))\<rparr>)"
  using assms
  by (auto simp: fil_eval at_rest_def intro!: fil_state.equality)

lemma leave_filament:
  assumes "TlsFilament fs me = Some (f, d)" and "Filaments fs f = Some fil"
    and "FilMainThreadId fil = me" and "DefaultLock fs = None"
    and "DefaultFilament fs = (if CfixpFlagOn (FilFlags fil) CFIXP_FILAMENT_FLAG_DEFAULT_FILAMENT
                               then Some f else None)"
  shows "CfixpSetCurrentFilament dup me None fs = Some ((S_OK, Some f),
           fs\<lparr>CtxRefs := (CtxRefs fs)(ExecutionContext fil := CtxRefs fs (ExecutionContext fil) - 1),
              DefaultFilament := None,
              TlsFilament := (TlsFilament fs)(me := None)\<rparr>)"
  using assms
  by (auto simp: fil_eval intro!: fil_state.equality)

text \<open>
  Code that, together with its children, leaves the filament it runs under in place: it may
  store values, start threads and run further routines, as long as it is back where it was.
\<close>

definition in_place :: "ulong \<Rightarrow> nat \<Rightarrow> fil_state \<Rightarrow> fil_state \<Rightarrow> bool" where
  "in_place me f a b \<longleftrightarrow>
     TlsFilament b me = TlsFilament a me \<and> DefaultFilament b = DefaultFilament a \<and>
     DefaultLock b = DefaultLock a \<and> CtxRefs b = CtxRefs a \<and>
     context_of f b = context_of f a \<and> main_thread_of f b = main_thread_of f a \<and>
     default_flagged f b = default_flagged f a"

definition tidy_code :: "'u env \<Rightarrow> ulong \<Rightarrow> bool" where
  "tidy_code env me \<longleftrightarrow>
     (\<forall>r s f. TlsFilament (Fil s) me = Some (f, False) \<longrightarrow>
        pred_option (\<lambda>(out, s'). in_place me f (Fil s) (Fil s')) (Code env r me s))"

definition stack_is_fresh :: "'u env \<Rightarrow> bool" where
  "stack_is_fresh env \<longleftrightarrow> (\<forall>fs. Filaments fs (StackAddress env fs) = None)"

lemma report_event_sel:
  "Fil (snd (report_event env me f ev s)) = Fil s"
  by (simp add: report_event_def split: prod.split)

lemma exception_filter_fil:
  assumes "CfixpExceptionFilter env me code f ab s = (r, s')"
  shows "Fil s' = Fil s"
proof -
  have "Fil (snd (CfixpExceptionFilter env me code f ab s)) = Fil s"
    unfolding CfixpExceptionFilter_def Let_def
    by (simp only: split_beta if_distrib [of snd] if_distrib [of Fil] snd_conv report_event_sel
        runtime.select_convs runtime.update_convs runtime.simps if_cancel) simp
  with assms show ?thesis by simp
qed

lemma run_protected_fil:
  assumes "run_protected env me r f s = Some (x, s')"
  shows "\<exists>out s1. Code env r me s = Some (out, s1) \<and> Fil s' = Fil s1"
proof -
  from assms obtain out s1 where code: "Code env r me s = Some (out, s1)"
    by (auto simp: run_protected_def bind_Some_iff)
  show ?thesis
  proof (cases out)
    case (RaiseException e)
    with assms code obtain fil where
      "(case CfixpExceptionFilter env me e fil False s1 of
          ((h, ab), s) \<Rightarrow> if h then Some ((False, ab), s) else None) = Some (x, s')"
      by (auto simp: run_protected_def bind_Some_iff)
    with exception_filter_fil [of env me e fil False s1] code show ?thesis
      by (cases "CfixpExceptionFilter env me e fil False s1") (auto split: if_splits)
  qed (use assms code in \<open>auto simp: run_protected_def\<close>)
qed

lemma routine_run_restores:
  assumes "at_rest me (Fil s)" and "tidy_code env me" and "r \<noteq> 0"
    and "CfixsRunTestRoutine env me r c fl rs s = Some (hr, s')"
  shows "at_rest me (Fil s') \<and> CtxRefs (Fil s') = CtxRefs (Fil s) \<and>
         Filaments (Fil s') (StackAddress env (Fil s)) = None \<and>
         (hr = S_OK \<or> hr = CFIX_E_TEST_ROUTINE_FAILED \<or> hr = CFIX_E_TESTRUN_ABORTED)"
proof -
  let ?f = "StackAddress env (Fil s)"
  let ?ff = "(if CfixpFlagOn fl CFIX_TEST_FLAG_CAPTURE_STACK_TRACES
       then CFIXP_FILAMENT_FLAG_CAPTURE_STACK_TRACES else 0) OR
      (if CfixpFlagOn fl CFIX_TEST_FLAG_PROVIDE_DEFAULT_FILAMENT
       then CFIXP_FILAMENT_FLAG_DEFAULT_FILAMENT else 0)"
  define fs where "fs = CfixpInitializeFilament me c me ?ff rs ?f (Fil s)"
  have rest: "at_rest me fs" using assms(1)
    by (simp add: fs_def CfixpInitializeFilament_def at_rest_def Let_def)
  obtain fil where fil: "Filaments fs ?f = Some fil" "FilMainThreadId fil = me"
      "ExecutionContext fil = c" "FilFlags fil = ?ff"
    by (simp add: fs_def CfixpInitializeFilament_def Let_def)
  let ?def = "if CfixpFlagOn (FilFlags fil) CFIXP_FILAMENT_FLAG_DEFAULT_FILAMENT
              then Some ?f else None"
  define fs1 where "fs1 = fs\<lparr>CtxRefs := (CtxRefs fs)(c := CtxRefs fs c + 1),
      DefaultFilament := ?def, TlsFilament := (TlsFilament fs)(me \<mapsto> (?f, False))\<rparr>"
  have enter: "CfixpSetCurrentFilament (DupHandle env fs) me (Some ?f) fs = Some ((S_OK, None), fs1)"
    using enter_filament [OF rest fil(1,2)] by (simp add: fs1_def fil(3))
  from assms(3,4) enter obtain completed abort s2 fs3 fs4 p where
    run: "run_protected env me r ?f (s\<lparr>Fil := fs1\<rparr>) = Some ((completed, abort), s2)"
    and ret: "CfixpSetCurrentFilament (DupHandle env (Fil s2)) me None (Fil s2) = Some (p, fs3)"
    and destroy: "CfixpDestroyFilament me ?f fs3 = Some fs4"
    and res: "s' = s2\<lparr>Fil := fs4\<rparr>" "hr = (if abort then CFIX_E_TESTRUN_ABORTED
        else if \<not> completed then CFIX_E_TEST_ROUTINE_FAILED else S_OK)"
    by (auto simp: CfixsRunTestRoutine_def bind_Some_iff Let_def fs_def)
  from run_protected_fil [OF run] obtain out s1 where
    code: "Code env r me (s\<lparr>Fil := fs1\<rparr>) = Some (out, s1)" "Fil s2 = Fil s1" by blast
  have "TlsFilament (Fil (s\<lparr>Fil := fs1\<rparr>)) me = Some (?f, False)" by (simp add: fs1_def)
  with assms(2) have "pred_option (\<lambda>(out, s'). in_place me ?f (Fil (s\<lparr>Fil := fs1\<rparr>)) (Fil s'))
      (Code env r me (s\<lparr>Fil := fs1\<rparr>))" unfolding tidy_code_def by blast
  with code have ip: "in_place me ?f fs1 (Fil s2)" by simp
  then have shape: "context_of ?f (Fil s2) = Some c" "main_thread_of ?f (Fil s2) = Some me"
    "default_flagged ?f (Fil s2) =
       Some (CfixpFlagOn (FilFlags fil) CFIXP_FILAMENT_FLAG_DEFAULT_FILAMENT)"
    using fil by (simp_all add: in_place_def fs1_def context_of_def main_thread_of_def
        default_flagged_def)
  then obtain fil2 where fil2: "Filaments (Fil s2) ?f = Some fil2" "ExecutionContext fil2 = c"
      "FilMainThreadId fil2 = me" "CfixpFlagOn (FilFlags fil2) CFIXP_FILAMENT_FLAG_DEFAULT_FILAMENT =
         CfixpFlagOn (FilFlags fil) CFIXP_FILAMENT_FLAG_DEFAULT_FILAMENT"
    by (auto simp: context_of_def main_thread_of_def default_flagged_def)
  have st: "TlsFilament (Fil s2) me = Some (?f, False)" "DefaultLock (Fil s2) = None"
    "DefaultFilament (Fil s2) = ?def" "CtxRefs (Fil s2) = (CtxRefs fs)(c := CtxRefs fs c + 1)"
    using ip rest by (simp_all add: in_place_def fs1_def at_rest_def)
  have "fs3 = (Fil s2)\<lparr>CtxRefs := (CtxRefs (Fil s2))(c := CtxRefs (Fil s2) c - 1),
      DefaultFilament := None, TlsFilament := (TlsFilament (Fil s2))(me := None)\<rparr>"
    using leave_filament [OF st(1) fil2(1,3) st(2)] st(3) ret fil2(2,4) by simp
  moreover have "Filaments fs4 ?f = None" "TlsFilament fs4 = TlsFilament fs3"
      "DefaultFilament fs4 = DefaultFilament fs3" "DefaultLock fs4 = DefaultLock fs3"
      "CtxRefs fs4 = CtxRefs fs3"
    using destroy by (auto simp: CfixpDestroyFilament_def close_handles_sel Let_def
        split: option.splits)
  moreover have "CtxRefs fs = CtxRefs (Fil s)"
    by (simp add: fs_def CfixpInitializeFilament_def Let_def)
  ultimately show ?thesis using res st by (simp add: at_rest_def)
qed

text \<open>The same for the methods of the module, and so for the run of a whole fixture.\<close>

definition settled :: "ulong \<Rightarrow> (nat \<Rightarrow> int) \<Rightarrow> 'u runtime \<Rightarrow> bool" where
  "settled me refs s \<longleftrightarrow> at_rest me (Fil s) \<and> CtxRefs (Fil s) = refs"

lemma routine_run_settled:
  assumes "settled me refs s" and "tidy_code env me"
    and "CfixsRunTestRoutine env me r c fl rs s = Some (hr, s')"
  shows "settled me refs s'"
proof (cases "r = 0")
  case True
  with assms show ?thesis by (simp add: CfixsRunTestRoutine_def)
next
  case False
  with routine_run_restores [OF _ assms(2) False assms(3)] assms(1) show ?thesis
    by (simp add: settled_def)
qed

lemma methods_settled:
  assumes "settled me refs s" and "tidy_code env me"
  shows "CfixsRunTestCaseTestModule env me tc c fl s = Some (hr, s') \<Longrightarrow> settled me refs s'"
    "CfixsRunSetupTestModule env me fx c fl s = Some (hr, s') \<Longrightarrow> settled me refs s'"
    "CfixsRunTeardownTestModule env me fx c fl s = Some (hr, s') \<Longrightarrow> settled me refs s'"
    "CfixsRunBeforeTestModule env me fx c fl s = Some (hr, s') \<Longrightarrow> settled me refs s'"
    "CfixsRunAfterTestModule env me fx c fl s = Some (hr, s') \<Longrightarrow> settled me refs s'"
  using assms(1) routine_run_settled [OF assms]
  by (auto simp: CfixsRunTestCaseTestModule_def CfixsRunSetupTestModule_def
      CfixsRunTeardownTestModule_def CfixsRunBeforeTestModule_def CfixsRunAfterTestModule_def
      bind_Some_iff split: if_splits)

lemma pred_optionI: "(\<And>hr s'. m = Some (hr, s') \<Longrightarrow> I s') \<Longrightarrow> pred_option (\<lambda>r. I (snd r)) m"
  by (cases m) auto

lemma pe_module_keeps:
  fixes env :: "'a env"
  assumes "tidy_code env me"
  shows "keeps (settled me refs) (pe_module env me c) (lift_context (Contexts env c))"
proof -
  have obs [simp]: "settled me refs (s\<lparr>Obs := u\<rparr>) = settled me refs s" for s :: "'a runtime" and u
    by (simp add: settled_def)
  show ?thesis
    unfolding keeps_def
  proof (intro allI impI conjI)
    fix s :: "'a runtime" and tc :: test_case_ptr and fl
    assume s: "settled me refs s"
    note ms = methods_settled [OF s assms]
    show "pred_option (\<lambda>r. settled me refs (snd r))
        (RunTestCase (pe_module env me c) tc (lift_context (Contexts env c)) fl s)"
      by (rule pred_optionI, cases tc) (auto simp: pe_module_def dest: ms(1))
  next
    fix s :: "'a runtime" and fx fl
    assume s: "settled me refs s"
    note ms = methods_settled [OF s assms]
    let ?m = "pe_module env me c" and ?ctx = "lift_context (Contexts env c)"
    show "pred_option (\<lambda>r. settled me refs (snd r)) (Setup ?m fx ?ctx fl s)"
      by (rule pred_optionI) (auto simp: pe_module_def dest: ms(2))
    show "pred_option (\<lambda>r. settled me refs (snd r)) (Teardown ?m fx ?ctx fl s)"
      by (rule pred_optionI) (auto simp: pe_module_def dest: ms(3))
    show "pred_option (\<lambda>r. settled me refs (snd r)) (Before ?m fx ?ctx fl s)"
      by (rule pred_optionI) (auto simp: pe_module_def dest: ms(4))
    show "pred_option (\<lambda>r. settled me refs (snd r)) (After ?m fx ?ctx fl s)"
      by (rule pred_optionI) (auto simp: pe_module_def dest: ms(5))
  qed (simp_all add: lift_context_def)
qed

section \<open>Evaluating a routine\<close>

definition routine_flags :: "ulong \<Rightarrow> ulong" where
  "routine_flags fl =
     (if CfixpFlagOn fl CFIX_TEST_FLAG_CAPTURE_STACK_TRACES
      then CFIXP_FILAMENT_FLAG_CAPTURE_STACK_TRACES else 0) OR
     (if CfixpFlagOn fl CFIX_TEST_FLAG_PROVIDE_DEFAULT_FILAMENT
      then CFIXP_FILAMENT_FLAG_DEFAULT_FILAMENT else 0)"

definition entered :: "'u env \<Rightarrow> ulong \<Rightarrow> nat \<Rightarrow> ulong \<Rightarrow> bool \<Rightarrow> 'u runtime \<Rightarrow> fil_state" where
  "entered env me c fl rs s =
     snd (the (CfixpSetCurrentFilament
       (DupHandle env (CfixpInitializeFilament me c me (routine_flags fl) rs
          (StackAddress env (Fil s)) (Fil s))) me (Some (StackAddress env (Fil s)))
       (CfixpInitializeFilament me c me (routine_flags fl) rs (StackAddress env (Fil s)) (Fil s))))"

lemma entered_props:
  assumes "at_rest me (Fil s)"
  shows "CfixpSetCurrentFilament
       (DupHandle env (CfixpInitializeFilament me c me (routine_flags fl) rs
          (StackAddress env (Fil s)) (Fil s))) me (Some (StackAddress env (Fil s)))
       (CfixpInitializeFilament me c me (routine_flags fl) rs (StackAddress env (Fil s)) (Fil s)) =
       Some ((S_OK, None), entered env me c fl rs s)"
    and "\<exists>fil. Filaments (entered env me c fl rs s) (StackAddress env (Fil s)) = Some fil \<and>
           ExecutionContext fil = c \<and> FilMainThreadId fil = me \<and>
           FilFlags fil = routine_flags fl \<and> ChildThreads fil = [] \<and>
           DefaultFilament (entered env me c fl rs s) =
             (if CfixpFlagOn (FilFlags fil) CFIXP_FILAMENT_FLAG_DEFAULT_FILAMENT
              then Some (StackAddress env (Fil s)) else None)"
    and "TlsFilament (entered env me c fl rs s) me = Some (StackAddress env (Fil s), False)"
    and "DefaultLock (entered env me c fl rs s) = None"
proof -
  let ?f = "StackAddress env (Fil s)"
  let ?fs = "CfixpInitializeFilament me c me (routine_flags fl) rs ?f (Fil s)"
  have rest: "at_rest me ?fs" using assms
    by (simp add: CfixpInitializeFilament_def at_rest_def Let_def)
  obtain fil where fil: "Filaments ?fs ?f = Some fil" "FilMainThreadId fil = me"
      "ExecutionContext fil = c" "FilFlags fil = routine_flags fl" "ChildThreads fil = []"
    by (simp add: CfixpInitializeFilament_def Let_def)
  note e = enter_filament [OF rest fil(1,2)]
  show "CfixpSetCurrentFilament (DupHandle env ?fs) me (Some ?f) ?fs =
      Some ((S_OK, None), entered env me c fl rs s)"
    by (simp add: entered_def e)
  have ent: "entered env me c fl rs s =
      ?fs\<lparr>CtxRefs := (CtxRefs ?fs)(c := CtxRefs ?fs c + 1),
          DefaultFilament := (if CfixpFlagOn (FilFlags fil) CFIXP_FILAMENT_FLAG_DEFAULT_FILAMENT
                              then Some ?f else None),
          TlsFilament := (TlsFilament ?fs)(me \<mapsto> (?f, False))\<rparr>"
    by (simp add: entered_def e fil(3))
  then show "\<exists>fil. Filaments (entered env me c fl rs s) ?f = Some fil \<and>
           ExecutionContext fil = c \<and> FilMainThreadId fil = me \<and>
           FilFlags fil = routine_flags fl \<and> ChildThreads fil = [] \<and>
           DefaultFilament (entered env me c fl rs s) =
             (if CfixpFlagOn (FilFlags fil) CFIXP_FILAMENT_FLAG_DEFAULT_FILAMENT
              then Some ?f else None)"
    using fil by simp
  show "TlsFilament (entered env me c fl rs s) me = Some (?f, False)"
    "DefaultLock (entered env me c fl rs s) = None"
    using ent rest by (simp_all add: at_rest_def)
qed

lemma routine_run_eval:
  assumes "at_rest me (Fil s)" and "r \<noteq> 0"
    and "run_protected env me r (StackAddress env (Fil s))
           (s\<lparr>Fil := entered env me c fl rs s\<rparr>) = Some ((completed, abort), s2)"
    and "Fil s2 = entered env me c fl rs s"
  shows "\<exists>F. CfixsRunTestRoutine env me r c fl rs s =
             Some (if abort then CFIX_E_TESTRUN_ABORTED
                   else if \<not> completed then CFIX_E_TEST_ROUTINE_FAILED else S_OK,
                   s2\<lparr>Fil := F\<rparr>) \<and> at_rest me F"
proof -
  let ?f = "StackAddress env (Fil s)"
  let ?e = "entered env me c fl rs s"
  note p = entered_props [OF assms(1), where env = env and c = c and fl = fl and rs = rs]
  from p(2) obtain fil where fil: "Filaments ?e ?f = Some fil" "FilMainThreadId fil = me"
      "ChildThreads fil = []" "DefaultFilament ?e =
         (if CfixpFlagOn (FilFlags fil) CFIXP_FILAMENT_FLAG_DEFAULT_FILAMENT
          then Some ?f else None)" by blast
  note l = leave_filament [OF p(3) fil(1,2) p(4) fil(4)]
  show ?thesis
    using assms(2-4) p(1) l fil(1,2,3) p(4)
    by (simp add: CfixsRunTestRoutine_def Let_def routine_flags_def [symmetric]
        CfixpJoinChildThreadsFilament_def CfixpDestroyFilament_def at_rest_def)
      (rule exI, rule conjI [OF refl], simp)
qed

lemma routine_run_never:
  assumes "at_rest me (Fil s)" and "r \<noteq> 0"
    and "run_protected env me r (StackAddress env (Fil s))
           (s\<lparr>Fil := entered env me c fl rs s\<rparr>) = None"
  shows "CfixsRunTestRoutine env me r c fl rs s = None"
  using assms(2,3) entered_props(1) [OF assms(1), where env = env and c = c and fl = fl and rs = rs]
  by (simp add: CfixsRunTestRoutine_def Let_def routine_flags_def [symmetric])

section \<open>Properties\<close>

text \<open>
  An environment for the witnesses: the observer logs its calls and answers with a fixed
  disposition, routine 5 fails an assertion, routine 6 raises an access violation, routine 7
  just returns.
\<close>

datatype observed = Seen_event thread_id cfix_event | Seen_exception thread_id dword

definition watch :: "disposition \<Rightarrow> observed list exec_context" where
  "watch disp =
     \<lparr>ContextVersion = CFIX_TEST_CONTEXT_VERSION, ContextRoutinesPresent = True,
      ReportEvent = (\<lambda>t ev u. (disp, u @ [Seen_event t ev])),
      QueryDefaultDisposition = (\<lambda>_ u. (disp, u)),
      BeforeFixtureStart = (\<lambda>_ _ u. (S_OK, u)), AfterFixtureFinish = (\<lambda>_ _ _ u. u),
      BeforeTestCaseStart = (\<lambda>_ _ u. (S_OK, u)), AfterTestCaseFinish = (\<lambda>_ _ _ u. u),
      CreateChildThread = (\<lambda>_ u. ((S_OK, 0), u)),
      BeforeChildThreadStart = (\<lambda>_ _ u. u), AfterChildThreadFinish = (\<lambda>_ _ u. u),
      OnUnhandledException = (\<lambda>t e u. u @ [Seen_exception t e]),
      ContextReference = id, ContextDereference = id\<rparr>"

definition asserting ::
    "'u env \<Rightarrow> dword \<Rightarrow> wstring option \<Rightarrow> wstring option \<Rightarrow> ulong \<Rightarrow> wstring \<Rightarrow> ulong \<Rightarrow>
       'u runtime \<Rightarrow> (unit outcome \<times> 'u runtime) option" where
  "asserting env err File Routine Line Expression me s =
     map_option (\<lambda>(out, s). (map_outcome (\<lambda>_. ()) out, s))
       (CfixPeReportFailedAssertion env me err File Routine Line Expression s)"

definition demo_env0 :: "disposition \<Rightarrow> observed list env" where
  "demo_env0 disp =
     \<lparr>Contexts = (\<lambda>_. watch disp), DebuggerPresent = False, CaptureStackTrace = (\<lambda>_. None),
      DupHandle = (\<lambda>_. Inr 0), WaitThreads = (\<lambda>_ _ _. Some False), StackAddress = (\<lambda>_. 9),
      Code = (\<lambda>_ _ _. None)\<rparr>"

definition demo_env :: "disposition \<Rightarrow> observed list env" where
  "demo_env disp = demo_env0 disp\<lparr>Code := (\<lambda>r me s.
     if r = 5 then asserting (demo_env0 disp) 0 None None 3 (wide ''x == 1'') me s
     else if r = 6 then Some (RaiseException 0xC0000005, s)
     else Some (Returned (), s))\<rparr>"

definition demo_runtime :: "observed list runtime" where
  "demo_runtime = \<lparr>Fil = fil_start (\<lambda>_. 1), Obs = []\<rparr>"

lemma demo_at_rest: "at_rest me (Fil demo_runtime)"
  by (simp add: demo_runtime_def fil_start_def at_rest_def)

lemma code_env_indep:
  "CfixPeReportFailedAssertion (env\<lparr>Code := x\<rparr>) = CfixPeReportFailedAssertion env"
proof -
  have 1: "current_filament (env\<lparr>Code := x\<rparr>) = current_filament env"
    "report_event (env\<lparr>Code := x\<rparr>) = report_event env"
    "frame_count (env\<lparr>Code := x\<rparr>) = frame_count env"
    by (intro ext; simp add: current_filament_def report_event_def frame_count_def)+
  have 2: "CfixPeFail (env\<lparr>Code := x\<rparr>) = CfixPeFail env"
    by (intro ext) (simp add: CfixPeFail_def 1)
  have 3: "DebuggerPresent (env\<lparr>Code := x\<rparr>) = DebuggerPresent env" by simp
  show ?thesis
    by (intro ext) (unfold CfixPeReportFailedAssertion_def 1 2 3, rule refl)
qed

definition verdict :: "disposition \<Rightarrow> bool \<Rightarrow> hresult" where
  "verdict disp debugger =
     (case disp of
        CfixContinue \<Rightarrow> S_OK
      | CfixBreakAlways \<Rightarrow> S_OK
      | CfixBreak \<Rightarrow> (if debugger then S_OK else CFIX_E_TEST_ROUTINE_FAILED)
      | CfixAbort \<Rightarrow> CFIX_E_TESTRUN_ABORTED)"



definition exception_verdict :: "dword \<Rightarrow> disposition \<Rightarrow> hresult option" where
  "exception_verdict ExcpCode disp =
     (if ExcpCode = EXCEPTION_TESTCASE_FAILED \<or> ExcpCode = EXCEPTION_TESTCASE_INCONCLUSIVE
      then Some CFIX_E_TEST_ROUTINE_FAILED
      else if ExcpCode = EXCEPTION_TESTCASE_FAILED_ABORT then Some CFIX_E_TESTRUN_ABORTED
      else if ExcpCode = EXCEPTION_BREAKPOINT \<or> ExcpCode = EXCEPTION_STACK_OVERFLOW then None
      else case disp of CfixBreak \<Rightarrow> None | CfixAbort \<Rightarrow> Some CFIX_E_TESTRUN_ABORTED
           | _ \<Rightarrow> Some CFIX_E_TEST_ROUTINE_FAILED)"

definition silent :: "dword \<Rightarrow> bool" where
  "silent ExcpCode \<longleftrightarrow> ExcpCode = EXCEPTION_TESTCASE_FAILED \<or>
     ExcpCode = EXCEPTION_TESTCASE_INCONCLUSIVE \<or> ExcpCode = EXCEPTION_TESTCASE_FAILED_ABORT"

lemma routine_exception_run:
  assumes "at_rest me (Fil s)" and "r \<noteq> 0"
    and "\<And>s'. Code env r me s' = Some (RaiseException e, s')"
    and "OnUnhandledException (Contexts env c) (CfixpInitializeThreadId me me) e (Obs s) = u1"
    and "ReportEvent (Contexts env c) (CfixpInitializeThreadId me me)
           \<lparr>EventInfo = UncaughtException e,
            FrameCount = (if CfixpFlagOn (routine_flags fl) CFIXP_FILAMENT_FLAG_CAPTURE_STACK_TRACES
              then (case CaptureStackTrace env u1 of None \<Rightarrow> 0 | Some n \<Rightarrow> n) else 0)\<rparr>
           u1 = (disp, u2)"
  shows "case exception_verdict e disp of
           None \<Rightarrow> CfixsRunTestRoutine env me r c fl rs s = None
         | Some hr \<Rightarrow> \<exists>F. CfixsRunTestRoutine env me r c fl rs s =
             Some (hr, \<lparr>Fil = F, Obs = if silent e then Obs s else u2\<rparr>) \<and> at_rest me F"
proof -
  let ?f = "StackAddress env (Fil s)"
  let ?e = "entered env me c fl rs s"
  let ?s1 = "s\<lparr>Fil := ?e\<rparr>"
  note p = entered_props [OF assms(1), where env = env and c = c and fl = fl and rs = rs]
  from p(2) obtain fil where fil: "Filaments ?e ?f = Some fil" "ExecutionContext fil = c"
      "FilMainThreadId fil = me" "FilFlags fil = routine_flags fl" by blast
  have prot: "run_protected env me r ?f ?s1 =
      (case CfixpExceptionFilter env me e fil False ?s1 of
         ((h, ab), s) \<Rightarrow> if h then Some ((False, ab), s) else None)"
    using fil(1) by (simp add: run_protected_def assms(3))
  have stop: "CfixsRunTestRoutine env me r c fl rs s = None" if "run_protected env me r ?f ?s1 = None"
    using routine_run_never [OF assms(1,2) that] .
  have go: "\<exists>F. CfixsRunTestRoutine env me r c fl rs s =
      Some (if ab then CFIX_E_TESTRUN_ABORTED else CFIX_E_TEST_ROUTINE_FAILED, \<lparr>Fil = F, Obs = u\<rparr>) \<and>
      at_rest me F" if "run_protected env me r ?f ?s1 = Some ((False, ab), \<lparr>Fil = ?e, Obs = u\<rparr>)"
    for ab u
    using routine_run_eval [OF assms(1,2) that] by (cases ab) simp_all
  show ?thesis
  proof (cases "silent e \<or> e = EXCEPTION_BREAKPOINT \<or> e = EXCEPTION_STACK_OVERFLOW")
    case True
    have "?s1 = \<lparr>Fil = ?e, Obs = Obs s\<rparr>" by simp
    with True prot go [of False "Obs s"] go [of True "Obs s"] stop show ?thesis
      by (elim disjE) (auto simp: CfixpExceptionFilter_def exception_verdict_def silent_def)
  next
    case False
    have ev: "report_event env me fil \<lparr>EventInfo = UncaughtException e,
        FrameCount = frame_count env fil u1\<rparr> (?s1\<lparr>Obs := u1\<rparr>) = (disp, \<lparr>Fil = ?e, Obs = u2\<rparr>)"
      using assms(5) fil by (simp add: report_event_def frame_count_def)
    have "CfixpExceptionFilter env me e fil False ?s1 =
        ((disp \<noteq> CfixBreak, disp = CfixAbort), \<lparr>Fil = ?e, Obs = u2\<rparr>)"
      using False assms(4) ev fil by (simp add: CfixpExceptionFilter_def silent_def Let_def)
    with prot go [of _ u2] stop False show ?thesis
      by (cases disp) (auto simp: exception_verdict_def silent_def)
  qed
qed

text \<open>
  C16: exceptions of a routine. A failed or inconclusive test case fails its routine without a
  report, an aborted one aborts the run; a breakpoint or a stack overflow is left to the
  debugger or the system, so nothing is returned; every other exception is reported to the
  context, first as such and then as an event, and the answer decides.
\<close>

theorem routine_exception_verdict:
  assumes "at_rest me (Fil s)" and "r \<noteq> 0"
    and "\<And>s'. Code env r me s' = Some (RaiseException e, s')"
    and "OnUnhandledException (Contexts env c) (CfixpInitializeThreadId me me) e (Obs s) = u1"
    and "ReportEvent (Contexts env c) (CfixpInitializeThreadId me me)
           \<lparr>EventInfo = UncaughtException e,
            FrameCount = (if CfixpFlagOn (routine_flags fl) CFIXP_FILAMENT_FLAG_CAPTURE_STACK_TRACES
              then (case CaptureStackTrace env u1 of None \<Rightarrow> 0 | Some n \<Rightarrow> n) else 0)\<rparr>
           u1 = (disp, u2)"
  shows "case exception_verdict e disp of
           None \<Rightarrow> CfixsRunTestRoutine env me r c fl rs s = None
         | Some hr \<Rightarrow> \<exists>F. CfixsRunTestRoutine env me r c fl rs s =
             Some (hr, \<lparr>Fil = F, Obs = if silent e then Obs s else u2\<rparr>) \<and> at_rest me F"
  using assms by (rule routine_exception_run)

theorem routine_exception_verdict_witness:
  "\<exists>F. CfixsRunTestRoutine (demo_env CfixAbort) 1 6 3 0 True demo_runtime =
     Some (CFIX_E_TESTRUN_ABORTED, \<lparr>Fil = F, Obs = [Seen_exception \<lparr>ThreadId = 1, MainThreadId = 1\<rparr> 0xC0000005,
       Seen_event \<lparr>ThreadId = 1, MainThreadId = 1\<rparr>
         \<lparr>EventInfo = UncaughtException 0xC0000005, FrameCount = 0\<rparr>]\<rparr>)"
proof -
  have "Code (demo_env CfixAbort) 6 1 s' = Some (RaiseException 0xC0000005, s')" for s'
    by (simp add: demo_env_def)
  from routine_exception_verdict [OF demo_at_rest [of 1] _ this refl, of 3 0 CfixAbort _ True]
  show ?thesis
    by (auto simp: demo_env_def demo_env0_def watch_def demo_runtime_def
        CfixpInitializeThreadId_def routine_flags_def exception_verdict_def silent_def)
qed

text \<open>
  C17: the result codes of a run. When the run of a DLL fixture fails, the code is one the
  context answered to a start notification, one of the five routine failures, an abort, or one
  of the codes that tell that nothing could be run (invalid arguments, no routine, a conflict
  of default filaments); no other failure can come out of it.
\<close>

theorem fixture_run_result_codes:
  assumes "CfixsRunFixtureExecutionAction dbg tid act (lift_context (Contexts env c)) s = Some (hr, s')"
    and "ActionModule act = pe_module env me c" and "FAILED hr"
  shows "context_code (lift_context (Contexts env c)) hr \<or> hr = CFIX_E_TESTRUN_ABORTED \<or>
         infra_error hr \<or>
         hr \<in> {CFIX_E_SETUP_ROUTINE_FAILED, CFIX_E_TEARDOWN_ROUTINE_FAILED,
           CFIX_E_BEFORE_ROUTINE_FAILED, CFIX_E_AFTER_ROUTINE_FAILED, CFIX_E_TEST_ROUTINE_FAILED}"
  using pe.fixture_run_code [OF assms(2,1,3)] assms(3)
  by (auto simp: case_code_def routine_code_def)

definition demo_pe_action :: "disposition \<Rightarrow> ulong \<Rightarrow> observed list runtime tsexec_action" where
  "demo_pe_action disp fl =
     \<lparr>ActionSignatureOk = True, ActionReferenceCount = 1,
      ActionFixture = \<lparr>FixtureName = wide ''demo'', SetupRoutine = 0, TeardownRoutine = 0,
        BeforeRoutine = 0, AfterRoutine = 0, FixtureReserved = 0, ApiType = 1, FixtureFlags = 0, ModuleName = wide ''m'',
        TestCases = [\<lparr>TestCaseName = wide ''t'', TestCaseRoutine = 6\<rparr>]\<rparr>,
      ActionModule = pe_module (demo_env disp) 1 3, ActionFlags = fl, TestCaseIndex = - 1\<rparr>"

lemma demo_pe_run:
  "\<exists>F. CfixsRunFixtureExecutionAction (\<lambda>_. False) 1 (demo_pe_action CfixAbort 0)
      (lift_context (Contexts (demo_env CfixAbort) 3)) demo_runtime =
    Some (CFIX_E_TESTRUN_ABORTED, \<lparr>Fil = F, Obs = [Seen_exception \<lparr>ThreadId = 1, MainThreadId = 1\<rparr> 0xC0000005,
       Seen_event \<lparr>ThreadId = 1, MainThreadId = 1\<rparr>
         \<lparr>EventInfo = UncaughtException 0xC0000005, FrameCount = 0\<rparr>]\<rparr>) \<and> at_rest 1 F"
proof -
  let ?obs = "[Seen_exception \<lparr>ThreadId = 1, MainThreadId = 1\<rparr> 0xC0000005,
       Seen_event \<lparr>ThreadId = 1, MainThreadId = 1\<rparr>
         \<lparr>EventInfo = UncaughtException 0xC0000005, FrameCount = 0\<rparr>]"
  have "Code (demo_env CfixAbort) 6 1 s' = Some (RaiseException 0xC0000005, s')" for s'
    by (simp add: demo_env_def)
  from routine_exception_run [OF demo_at_rest [of 1] _ this refl, of 3 0 CfixAbort _ True]
  obtain F where F: "at_rest 1 F"
    "CfixsRunTestRoutine (demo_env CfixAbort) 1 6 3 0 True demo_runtime =
       Some (CFIX_E_TESTRUN_ABORTED, \<lparr>Fil = F, Obs = ?obs\<rparr>)"
    by (auto simp: demo_env_def demo_env0_def watch_def demo_runtime_def
        CfixpInitializeThreadId_def routine_flags_def exception_verdict_def silent_def)
  have ctx: "Contexts (demo_env CfixAbort) 3 = watch CfixAbort"
    by (simp add: demo_env_def demo_env0_def)
  have "CfixsRunFixtureExecutionAction (\<lambda>_. False) 1 (demo_pe_action CfixAbort 0)
      (lift_context (Contexts (demo_env CfixAbort) 3)) demo_runtime =
      Some (CFIX_E_TESTRUN_ABORTED, \<lparr>Fil = F, Obs = ?obs\<rparr>)"
    using F(2)
    by (simp add: CfixsRunFixtureExecutionAction_def CfixsRunTestCaseFixtureExecutionAction_def
        CfixsGetTestFlagsFixtureExecutionAction_def demo_pe_action_def pe_module_def ctx
        lift_context_def watch_def CfixIsValidContext_def Let_def valid_args_def
        CfixsRunSetupTestModule_def CfixsRunTeardownTestModule_def CfixsRunBeforeTestModule_def
        CfixsRunAfterTestModule_def CfixsRunTestCaseTestModule_def test_case_verdict_def)
  with F(1) show ?thesis by blast
qed

theorem fixture_run_result_codes_witness:
  "\<exists>hr s'. CfixsRunFixtureExecutionAction (\<lambda>_. False) 1 (demo_pe_action CfixAbort 0)
      (lift_context (Contexts (demo_env CfixAbort) 3)) demo_runtime = Some (hr, s') \<and>
    FAILED hr \<and> (context_code (lift_context (Contexts (demo_env CfixAbort) 3)) hr \<or>
      hr = CFIX_E_TESTRUN_ABORTED \<or> infra_error hr \<or>
      hr \<in> {CFIX_E_SETUP_ROUTINE_FAILED, CFIX_E_TEARDOWN_ROUTINE_FAILED,
           CFIX_E_BEFORE_ROUTINE_FAILED, CFIX_E_AFTER_ROUTINE_FAILED, CFIX_E_TEST_ROUTINE_FAILED})"
proof -
  from demo_pe_run obtain F where F: "CfixsRunFixtureExecutionAction (\<lambda>_. False) 1
      (demo_pe_action CfixAbort 0) (lift_context (Contexts (demo_env CfixAbort) 3)) demo_runtime =
      Some (CFIX_E_TESTRUN_ABORTED, F)" by blast
  have "ActionModule (demo_pe_action CfixAbort 0) = pe_module (demo_env CfixAbort) 1 3"
    by (simp add: demo_pe_action_def)
  from fixture_run_result_codes [OF F this] F show ?thesis by simp
qed

text \<open>
  C18: a run leaves no trace in the filaments. When user code, with its child threads, leaves
  the filament it runs under in place, then after the run of a whole DLL fixture, failed or
  not, the main thread has no filament, no default filament is left, its lock is free, and
  every execution context has exactly the references it had before.
\<close>

theorem fixture_run_restores_filaments:
  assumes "CfixsRunFixtureExecutionAction dbg tid act (lift_context (Contexts env c)) s = Some (hr, s')"
    and "ActionModule act = pe_module env me c" and "tidy_code env me" and "at_rest me (Fil s)"
  shows "at_rest me (Fil s') \<and> CtxRefs (Fil s') = CtxRefs (Fil s)"
proof -
  have "settled me (CtxRefs (Fil s)) s" using assms(4) by (simp add: settled_def)
  moreover have "keeps (settled me (CtxRefs (Fil s))) (ActionModule act)
      (lift_context (Contexts env c))"
    unfolding assms(2) using assms(3) by (rule pe_module_keeps)
  ultimately have "settled me (CtxRefs (Fil s)) s'"
    by (rule fixture_run_keeps [OF _ _ assms(1), rotated])
  then show ?thesis by (simp add: settled_def)
qed

lemma asserting_in_place:
  assumes "TlsFilament (Fil s) me = Some (f, False)"
    and "asserting env err File Routine Line Expression me s = Some (out, s')"
  shows "Fil s' = Fil s"
proof -
  note cur = current_filament_set [OF assms(1)]
  from assms cur obtain fil x where fil: "Filaments (Fil s) f = Some fil"
    and r: "CfixPeReportFailedAssertion env me err File Routine Line Expression s = Some (x, s')"
    by (auto simp: asserting_def CfixPeReportFailedAssertion_def bind_Some_iff)
  obtain d s1 where ev: "report_event env me fil \<lparr>EventInfo =
      FailedAssertion File Routine Line Expression err, FrameCount = frame_count env fil (Obs s)\<rparr> s =
      (d, s1)" by force
  have s1: "Fil s1 = Fil s" by (rule report_event_fil [OF ev])
  with assms(1) have cur1: "current_filament env me s1 = Some ((S_OK, Some f, False), s1)"
    by (intro current_filament_set) simp
  from r cur fil ev cur1 have "s' = s1"
    by (cases d) (auto simp: CfixPeReportFailedAssertion_def CfixPeFail_def split: if_splits)
  with s1 show ?thesis by simp
qed

lemma demo_tidy: "tidy_code (demo_env disp) me"
  unfolding tidy_code_def
proof (intro allI impI)
  fix r and s :: "observed list runtime" and f
  assume tls: "TlsFilament (Fil s) me = Some (f, False)"
  have "Fil s' = Fil s" if "Code (demo_env disp) r me s = Some (out, s')" for out s'
    using that asserting_in_place [OF tls]
    by (auto simp: demo_env_def split: if_splits)
  then show "pred_option (\<lambda>(out, s'). in_place me f (Fil s) (Fil s')) (Code (demo_env disp) r me s)"
    by (cases "Code (demo_env disp) r me s") (auto simp: in_place_def)
qed

theorem fixture_run_restores_filaments_witness:
  "\<exists>hr s'. CfixsRunFixtureExecutionAction (\<lambda>_. False) 1 (demo_pe_action CfixAbort 0)
      (lift_context (Contexts (demo_env CfixAbort) 3)) demo_runtime = Some (hr, s') \<and>
    at_rest 1 (Fil s') \<and> CtxRefs (Fil s') = CtxRefs (Fil demo_runtime)"
proof -
  from demo_pe_run obtain F where F: "CfixsRunFixtureExecutionAction (\<lambda>_. False) 1
      (demo_pe_action CfixAbort 0) (lift_context (Contexts (demo_env CfixAbort) 3)) demo_runtime =
      Some (CFIX_E_TESTRUN_ABORTED, F)" by blast
  have "ActionModule (demo_pe_action CfixAbort 0) = pe_module (demo_env CfixAbort) 1 3"
    by (simp add: demo_pe_action_def)
  from fixture_run_restores_filaments [OF F this demo_tidy demo_at_rest] F show ?thesis by blast
qed

end
