(* ===== verification/ExecCtx.thy ===== *)
theory ExecCtx
  imports ExecIface
begin

text \<open>
  The two execution contexts of the product: the runner's own one, which decides how events are
  handled and keeps the statistics behind the exit code (\<open>cfix/cfixrun/execctx.c\<close>, the worker of
  \<open>cfix/cfixrun/main.c\<close>), and the proxy that tells an event sink about everything before it
  passes the call on (\<open>cfix/cfix/eventemitter.c\<close>).

  Both are values of \<open>exec_context\<close>. The runner's thread states live in a heap addressed by
  \<open>ulong_ptr\<close>, zero being NULL; the TLS slot of a thread is found by the \<open>ThreadId\<close> of the thread
  that makes the call, which is the current thread in every call of the library. \<open>alloc\<close> is
  \<open>malloc\<close>: the address of a new thread state, or zero. Console messages are left out.
\<close>

section \<open>The context of the runner\<close>

record thread_state =
  FailureCount :: "32 word"
  InconclusiveCount :: "32 word"
  StateReferenceCount :: int

record statistics =
  StatFixtures :: "32 word"
  StatTestCases :: "32 word"
  StatSucceededTestCases :: "32 word"
  StatFailedTestCases :: "32 word"
  StatInconclusiveTestCases :: "32 word"

record rc_options =
  AbortOnFirstFailure :: bool
  AlwaysBreakOnFailure :: bool
  DoNotCatchUnhandledExceptions :: bool

record rc_state =
  ThreadStates :: "ulong_ptr \<Rightarrow> thread_state option"
  TlsState :: "ulong \<Rightarrow> ulong_ptr"
  RcReferenceCount :: int
  Statistics :: statistics

definition CfixrunsGetCurrentExecutionState ::
    "(rc_state \<Rightarrow> ulong_ptr) \<Rightarrow> bool \<Rightarrow> ulong \<Rightarrow> rc_state \<Rightarrow> ulong_ptr \<times> rc_state" where
  "CfixrunsGetCurrentExecutionState alloc Create me s =
     (if TlsState s me = 0 \<and> Create
      then let a = alloc s
           in if a \<noteq> 0
              then (a, s\<lparr>ThreadStates := (ThreadStates s)(a \<mapsto>
                          \<lparr>FailureCount = 0, InconclusiveCount = 0, StateReferenceCount = 1\<rparr>),
                        TlsState := (TlsState s)(me := a)\<rparr>)
              else (0, s)
      else (TlsState s me, s))"

definition CfixrunsDereferenceCurrentExecutionState :: "ulong \<Rightarrow> rc_state \<Rightarrow> rc_state" where
  "CfixrunsDereferenceCurrentExecutionState me s =
     (case ThreadStates s (TlsState s me) of
        None \<Rightarrow> s
      | Some ts \<Rightarrow>
          if TlsState s me = 0 then s
          else if StateReferenceCount ts - 1 = 0
          then s\<lparr>TlsState := (TlsState s)(me := 0),
                 ThreadStates := (ThreadStates s)(TlsState s me := None)\<rparr>
          else s\<lparr>ThreadStates := (ThreadStates s)(TlsState s me \<mapsto>
                   ts\<lparr>StateReferenceCount := StateReferenceCount ts - 1\<rparr>)\<rparr>)"

definition CfixrunsReferenceExecutionState :: "ulong_ptr \<Rightarrow> rc_state \<Rightarrow> rc_state" where
  "CfixrunsReferenceExecutionState a s =
     (case ThreadStates s a of
        None \<Rightarrow> s
      | Some ts \<Rightarrow> s\<lparr>ThreadStates := (ThreadStates s)(a \<mapsto>
                     ts\<lparr>StateReferenceCount := StateReferenceCount ts + 1\<rparr>)\<rparr>)"

definition CfixrunsSetCurrentExecutionState :: "ulong \<Rightarrow> ulong_ptr \<Rightarrow> rc_state \<Rightarrow> rc_state" where
  "CfixrunsSetCurrentExecutionState me a s = s\<lparr>TlsState := (TlsState s)(me := a)\<rparr>"

fun CfixrunsExecCtxQueryDefaultDisposition :: "rc_options \<Rightarrow> event_type \<Rightarrow> disposition" where
  "CfixrunsExecCtxQueryDefaultDisposition opts CfixEventFailedAssertion =
     (if AbortOnFirstFailure opts then CfixAbort
      else if AlwaysBreakOnFailure opts then CfixBreakAlways
      else CfixBreak)"
| "CfixrunsExecCtxQueryDefaultDisposition opts CfixEventUncaughtException =
     (if DoNotCatchUnhandledExceptions opts then CfixBreak
      else if AbortOnFirstFailure opts then CfixAbort else CfixContinue)"
| "CfixrunsExecCtxQueryDefaultDisposition opts CfixEventInconclusiveness = CfixContinue"
| "CfixrunsExecCtxQueryDefaultDisposition opts CfixEventLog = CfixContinue"

definition CfixrunsExecCtxReportEvent ::
    "rc_options \<Rightarrow> thread_id \<Rightarrow> cfix_event \<Rightarrow> rc_state \<Rightarrow> disposition \<times> rc_state" where
  "CfixrunsExecCtxReportEvent opts Thread Event s =
     (if TlsState s (ThreadId Thread) = 0 then (CfixAbort, s)
      else (CfixrunsExecCtxQueryDefaultDisposition opts (event_type_of (EventInfo Event)), s))"

definition CfixrunsExecCtxBeforeFixtureStart ::
    "(rc_state \<Rightarrow> ulong_ptr) \<Rightarrow> thread_id \<Rightarrow> fixture \<Rightarrow> rc_state \<Rightarrow> hresult \<times> rc_state" where
  "CfixrunsExecCtxBeforeFixtureStart alloc Thread Fixture s =
     (let (CurrentState, s) = CfixrunsGetCurrentExecutionState alloc True (ThreadId Thread) s
      in (if CurrentState = 0 then E_UNEXPECTED else S_OK, s))"

definition CfixrunsExecCtxBeforeTestCaseStart ::
    "thread_id \<Rightarrow> test_case_ptr \<Rightarrow> rc_state \<Rightarrow> hresult \<times> rc_state" where
  "CfixrunsExecCtxBeforeTestCaseStart Thread TestCase s =
     (if TlsState s (ThreadId Thread) = 0 then E_UNEXPECTED else S_OK, s)"

definition CfixrunsExecCtxAfterFixtureFinish ::
    "thread_id \<Rightarrow> fixture \<Rightarrow> bool \<Rightarrow> rc_state \<Rightarrow> rc_state" where
  "CfixrunsExecCtxAfterFixtureFinish Thread Fixture RanToCompletion s =
     (if TlsState s (ThreadId Thread) = 0 then s
      else CfixrunsDereferenceCurrentExecutionState (ThreadId Thread)
             (s\<lparr>Statistics := (Statistics s)\<lparr>StatFixtures := StatFixtures (Statistics s) + 1\<rparr>\<rparr>))"

definition count_test_case :: "thread_state \<Rightarrow> statistics \<Rightarrow> statistics" where
  "count_test_case ts st =
     (let st = (if FailureCount ts = 0 \<and> InconclusiveCount ts = 0
                then st\<lparr>StatSucceededTestCases := StatSucceededTestCases st + 1\<rparr>
                else if 0 <s FailureCount ts
                then st\<lparr>StatFailedTestCases := StatFailedTestCases st + 1\<rparr>
                else if 0 <s InconclusiveCount ts
                then st\<lparr>StatInconclusiveTestCases := StatInconclusiveTestCases st + 1\<rparr>
                else st)
      in st\<lparr>StatTestCases := StatTestCases st + 1\<rparr>)"

definition CfixrunsExecCtxAfterTestCaseFinish ::
    "thread_id \<Rightarrow> test_case_ptr \<Rightarrow> bool \<Rightarrow> rc_state \<Rightarrow> rc_state" where
  "CfixrunsExecCtxAfterTestCaseFinish Thread TestCase RanToCompletion s =
     (let a = TlsState s (ThreadId Thread)
      in case (if a = 0 then None else ThreadStates s a) of
           None \<Rightarrow> s
         | Some ts \<Rightarrow>
             s\<lparr>Statistics := count_test_case ts (Statistics s),
               ThreadStates := (ThreadStates s)(a \<mapsto>
                 ts\<lparr>InconclusiveCount := 0, FailureCount := 0\<rparr>)\<rparr>)"

definition CfixrunsExecCtxBeforeChildThreadStart ::
    "thread_id \<Rightarrow> ulong_ptr \<Rightarrow> rc_state \<Rightarrow> rc_state" where
  "CfixrunsExecCtxBeforeChildThreadStart Thread ParentState s =
     CfixrunsSetCurrentExecutionState (ThreadId Thread) ParentState
       (CfixrunsReferenceExecutionState ParentState s)"

definition CfixrunsExecCtxAfterChildThreadFinish ::
    "thread_id \<Rightarrow> ulong_ptr \<Rightarrow> rc_state \<Rightarrow> rc_state" where
  "CfixrunsExecCtxAfterChildThreadFinish Thread ParentState s =
     CfixrunsDereferenceCurrentExecutionState (ThreadId Thread) s"

definition CfixrunsExecCtxCreateChildThread ::
    "thread_id \<Rightarrow> rc_state \<Rightarrow> (hresult \<times> ulong_ptr) \<times> rc_state" where
  "CfixrunsExecCtxCreateChildThread Thread s =
     (if TlsState s (ThreadId Thread) = 0 then ((CFIX_E_UNKNOWN_THREAD, 0), s)
      else ((S_OK, TlsState s (ThreadId Thread)), s))"

definition CfixrunsExecCtxReference :: "rc_state \<Rightarrow> rc_state" where
  "CfixrunsExecCtxReference s = s\<lparr>RcReferenceCount := RcReferenceCount s + 1\<rparr>"

definition CfixrunsExecCtxDereference :: "rc_state \<Rightarrow> rc_state" where
  "CfixrunsExecCtxDereference s = s\<lparr>RcReferenceCount := RcReferenceCount s - 1\<rparr>"

definition rc_context :: "rc_options \<Rightarrow> (rc_state \<Rightarrow> ulong_ptr) \<Rightarrow> rc_state exec_context" where
  "rc_context opts alloc =
     \<lparr>ContextVersion = CFIX_TEST_CONTEXT_VERSION, ContextRoutinesPresent = True,
      ReportEvent = CfixrunsExecCtxReportEvent opts,
      QueryDefaultDisposition =
        (\<lambda>t s. (CfixrunsExecCtxQueryDefaultDisposition opts t, s)),
      BeforeFixtureStart = CfixrunsExecCtxBeforeFixtureStart alloc,
      AfterFixtureFinish = CfixrunsExecCtxAfterFixtureFinish,
      BeforeTestCaseStart = CfixrunsExecCtxBeforeTestCaseStart,
      AfterTestCaseFinish = CfixrunsExecCtxAfterTestCaseFinish,
      CreateChildThread = CfixrunsExecCtxCreateChildThread,
      BeforeChildThreadStart = CfixrunsExecCtxBeforeChildThreadStart,
      AfterChildThreadFinish = CfixrunsExecCtxAfterChildThreadFinish,
      OnUnhandledException = (\<lambda>_ _ s. s),
      ContextReference = CfixrunsExecCtxReference,
      ContextDereference = CfixrunsExecCtxDereference\<rparr>"

text \<open>
  \<open>tls_ok\<close> and \<open>malloc_ok\<close> say whether \<open>TlsAlloc\<close> (only called for the first context) and
  \<open>malloc\<close> succeed; \<open>TLS_OUT_OF_INDEXES\<close> is what the code turns into the error.
\<close>

definition CfixrunpCreateExecutionContext ::
    "bool \<Rightarrow> bool \<Rightarrow> bool \<Rightarrow> hresult \<times> rc_state option" where
  "CfixrunpCreateExecutionContext args_ok tls_ok malloc_ok =
     (if \<not> args_ok then (E_INVALIDARG, None)
      else if \<not> tls_ok then (HRESULT_FROM_WIN32 0xFFFFFFFF, None)
      else if \<not> malloc_ok then (E_OUTOFMEMORY, None)
      else (S_OK, Some \<lparr>ThreadStates = (\<lambda>_. None), TlsState = (\<lambda>_. 0), RcReferenceCount = 1,
              Statistics = \<lparr>StatFixtures = 0, StatTestCases = 0, StatSucceededTestCases = 0,
                StatFailedTestCases = 0, StatInconclusiveTestCases = 0\<rparr>\<rparr>))"

section \<open>The worker of the runner\<close>

abbreviation CFIXRUN_EXIT_ALL_SUCCEEDED :: dword where "CFIXRUN_EXIT_ALL_SUCCEEDED \<equiv> 0"
abbreviation CFIXRUN_EXIT_NONE_EXECUTED :: dword where "CFIXRUN_EXIT_NONE_EXECUTED \<equiv> 1"
abbreviation CFIXRUN_EXIT_SOME_FAILED :: dword where "CFIXRUN_EXIT_SOME_FAILED \<equiv> 2"
abbreviation CFIXRUN_EXIT_USAGE_FAILURE :: dword where "CFIXRUN_EXIT_USAGE_FAILURE \<equiv> 3"
abbreviation CFIXRUN_EXIT_FAILURE :: dword where "CFIXRUN_EXIT_FAILURE \<equiv> 4"

text \<open>
  \<open>assemble\<close> is the result of building the action with the number of fixtures found, \<open>create\<close> the
  result of creating the contexts and the sink, \<open>run\<close> runs the action and yields its result
  with the statistics afterwards (\<open>None\<close> when it never returns). The exit code stays
  \<open>CFIXRUN_EXIT_FAILURE\<close>, its initial value in the caller, where the worker does not set it.
\<close>

definition CfixrunsMainWorker ::
    "wstring option \<Rightarrow> hresult \<times> nat \<Rightarrow> hresult \<Rightarrow> (hresult \<times> statistics) option \<Rightarrow>
       (hresult \<times> dword) option" where
  "CfixrunsMainWorker InputFile assemble create run =
     (if InputFile = None \<or> InputFile = Some []
      then Some (HRESULT_FROM_WIN32 2, CFIXRUN_EXIT_USAGE_FAILURE)
      else case assemble of (Hr, FixtureCount) \<Rightarrow>
        if FAILED Hr then Some (Hr, CFIXRUN_EXIT_FAILURE)
        else if FixtureCount = 0 then Some (Hr, CFIXRUN_EXIT_NONE_EXECUTED)
        else if FAILED create then Some (create, CFIXRUN_EXIT_FAILURE)
        else map_option (\<lambda>(Hr, st).
               (Hr, if StatTestCases st = 0 then CFIXRUN_EXIT_NONE_EXECUTED
                    else if StatFailedTestCases st = 0 then CFIXRUN_EXIT_ALL_SUCCEEDED
                    else CFIXRUN_EXIT_SOME_FAILED)) run)"

end
