(* ===== verification/EventEmitter.thy ===== *)
theory EventEmitter
  imports ExecCtx
begin

text \<open>
  The event emitting proxy (\<open>cfix/cfix/eventemitter.c\<close>): an execution context that names the
  current module, fixture and test case to an event sink and forwards every call to its target.
  Its state pairs the states of target and sink with the fields of the proxy. The code assumes
  that events only arrive inside a fixture; outside one the model reports an empty name, where
  the code would read through a NULL pointer.
\<close>

record 'k event_sink =
  SinkReportEvent :: "thread_id \<Rightarrow> wstring \<Rightarrow> wstring \<Rightarrow> wstring \<Rightarrow> cfix_event \<Rightarrow> 'k \<Rightarrow> 'k"
  SinkBeforeFixtureStart :: "thread_id \<Rightarrow> wstring \<Rightarrow> wstring \<Rightarrow> 'k \<Rightarrow> 'k"
  SinkAfterFixtureFinish :: "thread_id \<Rightarrow> wstring \<Rightarrow> wstring \<Rightarrow> bool \<Rightarrow> 'k \<Rightarrow> 'k"
  SinkBeforeTestCaseStart :: "thread_id \<Rightarrow> wstring \<Rightarrow> wstring \<Rightarrow> wstring \<Rightarrow> 'k \<Rightarrow> 'k"
  SinkAfterTestCaseFinish :: "thread_id \<Rightarrow> wstring \<Rightarrow> wstring \<Rightarrow> wstring \<Rightarrow> bool \<Rightarrow> 'k \<Rightarrow> 'k"
  SinkReference :: "'k \<Rightarrow> 'k"
  SinkDereference :: "'k \<Rightarrow> 'k"

record ('t, 'k) proxy_state =
  Target :: 't
  Sink :: 'k
  FirstTestCaseBegun :: bool
  CurrentTestCase :: "test_case_ptr option"
  CurrentFixture :: "fixture option"
  ProxyReferenceCount :: int

definition case_name :: "test_case_ptr \<Rightarrow> wstring" where
  "case_name tc = (case tc of (fx, i) \<Rightarrow>
     if i < TestCaseCount fx then TestCaseName (TestCases fx ! i) else [])"

definition current_label :: "('t, 'k) proxy_state \<Rightarrow> wstring" where
  "current_label s =
     (case CurrentTestCase s of
        Some tc \<Rightarrow> case_name tc
      | None \<Rightarrow> if FirstTestCaseBegun s then wide ''[Teardown]'' else wide ''[Setup]'')"

definition CfixsEventEmittingProxyReference :: "('t, 'k) proxy_state \<Rightarrow> ('t, 'k) proxy_state" where
  "CfixsEventEmittingProxyReference s = s\<lparr>ProxyReferenceCount := ProxyReferenceCount s + 1\<rparr>"

definition CfixsEventEmittingProxyDereference ::
    "'t exec_context \<Rightarrow> 'k event_sink \<Rightarrow> ('t, 'k) proxy_state \<Rightarrow> ('t, 'k) proxy_state" where
  "CfixsEventEmittingProxyDereference ctx sink s =
     (let s = s\<lparr>ProxyReferenceCount := ProxyReferenceCount s - 1\<rparr>
      in if ProxyReferenceCount s = 0
         then s\<lparr>Target := ContextDereference ctx (Target s), Sink := SinkDereference sink (Sink s)\<rparr>
         else s)"

definition CfixsEventEmittingProxyQueryDefaultDisposition ::
    "'t exec_context \<Rightarrow> event_type \<Rightarrow> ('t, 'k) proxy_state \<Rightarrow> disposition \<times> ('t, 'k) proxy_state" where
  "CfixsEventEmittingProxyQueryDefaultDisposition ctx ty s =
     (let (d, t) = QueryDefaultDisposition ctx ty (Target s) in (d, s\<lparr>Target := t\<rparr>))"

definition CfixsEventEmittingProxyReportEvent ::
    "'t exec_context \<Rightarrow> 'k event_sink \<Rightarrow> thread_id \<Rightarrow> cfix_event \<Rightarrow> ('t, 'k) proxy_state \<Rightarrow>
       disposition \<times> ('t, 'k) proxy_state" where
  "CfixsEventEmittingProxyReportEvent ctx sink Thread Event s =
     (let (Module, Fixture) = (case CurrentFixture s of
            Some fx \<Rightarrow> (ModuleName fx, FixtureName fx) | None \<Rightarrow> ([], []));
          s = s\<lparr>Sink := SinkReportEvent sink Thread Module Fixture (current_label s) Event (Sink s)\<rparr>;
          (d, t) = ReportEvent ctx Thread Event (Target s)
      in (d, s\<lparr>Target := t\<rparr>))"

definition CfixsEventEmittingProxyBeforeFixtureStart ::
    "'t exec_context \<Rightarrow> 'k event_sink \<Rightarrow> thread_id \<Rightarrow> fixture \<Rightarrow> ('t, 'k) proxy_state \<Rightarrow>
       hresult \<times> ('t, 'k) proxy_state" where
  "CfixsEventEmittingProxyBeforeFixtureStart ctx sink Thread Fixture s =
     (let s = s\<lparr>FirstTestCaseBegun := False, CurrentFixture := Some Fixture\<rparr>;
          s = s\<lparr>Sink := SinkBeforeFixtureStart sink Thread (ModuleName Fixture)
                          (FixtureName Fixture) (Sink s)\<rparr>;
          (hr, t) = BeforeFixtureStart ctx Thread Fixture (Target s)
      in (hr, s\<lparr>Target := t\<rparr>))"

definition CfixsEventEmittingProxyBeforeTestCaseStart ::
    "'t exec_context \<Rightarrow> 'k event_sink \<Rightarrow> thread_id \<Rightarrow> test_case_ptr \<Rightarrow> ('t, 'k) proxy_state \<Rightarrow>
       hresult \<times> ('t, 'k) proxy_state" where
  "CfixsEventEmittingProxyBeforeTestCaseStart ctx sink Thread TestCase s =
     (let s = s\<lparr>FirstTestCaseBegun := True, CurrentTestCase := Some TestCase\<rparr>;
          s = s\<lparr>Sink := SinkBeforeTestCaseStart sink Thread (ModuleName (fst TestCase))
                          (FixtureName (fst TestCase)) (case_name TestCase) (Sink s)\<rparr>;
          (hr, t) = BeforeTestCaseStart ctx Thread TestCase (Target s)
      in (hr, s\<lparr>Target := t\<rparr>))"

definition CfixsEventEmittingProxyAfterFixtureFinish ::
    "'t exec_context \<Rightarrow> 'k event_sink \<Rightarrow> thread_id \<Rightarrow> fixture \<Rightarrow> bool \<Rightarrow> ('t, 'k) proxy_state \<Rightarrow>
       ('t, 'k) proxy_state" where
  "CfixsEventEmittingProxyAfterFixtureFinish ctx sink Thread Fixture RanToCompletion s =
     (let s = s\<lparr>CurrentFixture := None\<rparr>;
          s = s\<lparr>Sink := SinkAfterFixtureFinish sink Thread (ModuleName Fixture)
                          (FixtureName Fixture) RanToCompletion (Sink s)\<rparr>
      in s\<lparr>Target := AfterFixtureFinish ctx Thread Fixture RanToCompletion (Target s)\<rparr>)"

definition CfixsEventEmittingProxyAfterTestCaseFinish ::
    "'t exec_context \<Rightarrow> 'k event_sink \<Rightarrow> thread_id \<Rightarrow> test_case_ptr \<Rightarrow> bool \<Rightarrow> ('t, 'k) proxy_state \<Rightarrow>
       ('t, 'k) proxy_state" where
  "CfixsEventEmittingProxyAfterTestCaseFinish ctx sink Thread TestCase RanToCompletion s =
     (let s = s\<lparr>CurrentTestCase := None\<rparr>;
          s = s\<lparr>Sink := SinkAfterTestCaseFinish sink Thread (ModuleName (fst TestCase))
                          (FixtureName (fst TestCase)) (case_name TestCase) RanToCompletion (Sink s)\<rparr>
      in s\<lparr>Target := AfterTestCaseFinish ctx Thread TestCase RanToCompletion (Target s)\<rparr>)"

definition CfixsEventEmittingProxyBeforeChildThreadStart ::
    "'t exec_context \<Rightarrow> thread_id \<Rightarrow> ulong_ptr \<Rightarrow> ('t, 'k) proxy_state \<Rightarrow> ('t, 'k) proxy_state" where
  "CfixsEventEmittingProxyBeforeChildThreadStart ctx Thread p s =
     s\<lparr>Target := BeforeChildThreadStart ctx Thread p (Target s)\<rparr>"

definition CfixsEventEmittingProxyAfterChildThreadFinish ::
    "'t exec_context \<Rightarrow> thread_id \<Rightarrow> ulong_ptr \<Rightarrow> ('t, 'k) proxy_state \<Rightarrow> ('t, 'k) proxy_state" where
  "CfixsEventEmittingProxyAfterChildThreadFinish ctx Thread p s =
     s\<lparr>Target := AfterChildThreadFinish ctx Thread p (Target s)\<rparr>"

definition CfixsEventEmittingProxyCreateChildThread ::
    "'t exec_context \<Rightarrow> thread_id \<Rightarrow> ('t, 'k) proxy_state \<Rightarrow>
       (hresult \<times> ulong_ptr) \<times> ('t, 'k) proxy_state" where
  "CfixsEventEmittingProxyCreateChildThread ctx Thread s =
     (let (r, t) = CreateChildThread ctx Thread (Target s) in (r, s\<lparr>Target := t\<rparr>))"

definition CfixsEventEmittingProxyOnUnhandledException ::
    "'t exec_context \<Rightarrow> thread_id \<Rightarrow> dword \<Rightarrow> ('t, 'k) proxy_state \<Rightarrow> ('t, 'k) proxy_state" where
  "CfixsEventEmittingProxyOnUnhandledException ctx Thread e s =
     s\<lparr>Target := OnUnhandledException ctx Thread e (Target s)\<rparr>"

definition proxy_context ::
    "'t exec_context \<Rightarrow> 'k event_sink \<Rightarrow> ('t, 'k) proxy_state exec_context" where
  "proxy_context ctx sink =
     \<lparr>ContextVersion = CFIX_TEST_CONTEXT_VERSION, ContextRoutinesPresent = True,
      ReportEvent = CfixsEventEmittingProxyReportEvent ctx sink,
      QueryDefaultDisposition = CfixsEventEmittingProxyQueryDefaultDisposition ctx,
      BeforeFixtureStart = CfixsEventEmittingProxyBeforeFixtureStart ctx sink,
      AfterFixtureFinish = CfixsEventEmittingProxyAfterFixtureFinish ctx sink,
      BeforeTestCaseStart = CfixsEventEmittingProxyBeforeTestCaseStart ctx sink,
      AfterTestCaseFinish = CfixsEventEmittingProxyAfterTestCaseFinish ctx sink,
      CreateChildThread = CfixsEventEmittingProxyCreateChildThread ctx,
      BeforeChildThreadStart = CfixsEventEmittingProxyBeforeChildThreadStart ctx,
      AfterChildThreadFinish = CfixsEventEmittingProxyAfterChildThreadFinish ctx,
      OnUnhandledException = CfixsEventEmittingProxyOnUnhandledException ctx,
      ContextReference = CfixsEventEmittingProxyReference,
      ContextDereference = CfixsEventEmittingProxyDereference ctx sink\<rparr>"

definition CfixCreateEventEmittingExecutionContextProxy ::
    "bool \<Rightarrow> bool \<Rightarrow> 't exec_context \<Rightarrow> 'k event_sink \<Rightarrow> 't \<Rightarrow> 'k \<Rightarrow>
       hresult \<times> ('t, 'k) proxy_state option" where
  "CfixCreateEventEmittingExecutionContextProxy args_ok malloc_ok ctx sink t k =
     (if \<not> args_ok then (E_INVALIDARG, None)
      else if \<not> malloc_ok then (E_OUTOFMEMORY, None)
      else (S_OK, Some \<lparr>Target = ContextReference ctx t, Sink = SinkReference sink k,
              FirstTestCaseBegun = False, CurrentTestCase = None, CurrentFixture = None,
              ProxyReferenceCount = 1\<rparr>))"

section \<open>Calls as data\<close>

text \<open>
  Every call a context can receive, and its effect on a context and on the runner's statistics.
  A history is a list of calls, from any threads and in any order.
\<close>

datatype ctx_call =
    Call_Report thread_id cfix_event
  | Call_BeforeFixture thread_id fixture
  | Call_AfterFixture thread_id fixture bool
  | Call_BeforeCase thread_id test_case_ptr
  | Call_AfterCase thread_id test_case_ptr bool
  | Call_CreateChild thread_id
  | Call_ChildStart thread_id ulong_ptr
  | Call_ChildFinish thread_id ulong_ptr
  | Call_Exception thread_id dword

datatype ctx_answer = Ans_Disposition disposition | Ans_Result hresult | Ans_Child "hresult \<times> ulong_ptr"
  | Ans_Void

fun ctx_step :: "'s exec_context \<Rightarrow> ctx_call \<Rightarrow> 's \<Rightarrow> ctx_answer \<times> 's" where
  "ctx_step c (Call_Report t e) s = apfst Ans_Disposition (ReportEvent c t e s)"
| "ctx_step c (Call_BeforeFixture t fx) s = apfst Ans_Result (BeforeFixtureStart c t fx s)"
| "ctx_step c (Call_AfterFixture t fx b) s = (Ans_Void, AfterFixtureFinish c t fx b s)"
| "ctx_step c (Call_BeforeCase t tc) s = apfst Ans_Result (BeforeTestCaseStart c t tc s)"
| "ctx_step c (Call_AfterCase t tc b) s = (Ans_Void, AfterTestCaseFinish c t tc b s)"
| "ctx_step c (Call_CreateChild t) s = apfst Ans_Child (CreateChildThread c t s)"
| "ctx_step c (Call_ChildStart t p) s = (Ans_Void, BeforeChildThreadStart c t p s)"
| "ctx_step c (Call_ChildFinish t p) s = (Ans_Void, AfterChildThreadFinish c t p s)"
| "ctx_step c (Call_Exception t e) s = (Ans_Void, OnUnhandledException c t e s)"

fun ctx_run :: "'s exec_context \<Rightarrow> ctx_call list \<Rightarrow> 's \<Rightarrow> ctx_answer list \<times> 's" where
  "ctx_run c [] s = ([], s)"
| "ctx_run c (x # xs) s =
     (let (a, s) = ctx_step c x s; (as, s) = ctx_run c xs s in (a # as, s))"

lemma proxy_step_target:
  "fst (ctx_step (proxy_context ctx sink) x s) = fst (ctx_step ctx x (Target s)) \<and>
   Target (snd (ctx_step (proxy_context ctx sink) x s)) = snd (ctx_step ctx x (Target s))"
  by (cases x)
    (simp_all add: proxy_context_def CfixsEventEmittingProxyReportEvent_def
      CfixsEventEmittingProxyBeforeFixtureStart_def CfixsEventEmittingProxyAfterFixtureFinish_def
      CfixsEventEmittingProxyBeforeTestCaseStart_def CfixsEventEmittingProxyAfterTestCaseFinish_def
      CfixsEventEmittingProxyCreateChildThread_def CfixsEventEmittingProxyBeforeChildThreadStart_def
      CfixsEventEmittingProxyAfterChildThreadFinish_def
      CfixsEventEmittingProxyOnUnhandledException_def Let_def split_beta apfst_def map_prod_def)


section \<open>Statistics and the exit code\<close>

text \<open>No thread state ever counts a failure, so no test case is ever counted as failed.\<close>

definition no_failures :: "rc_state \<Rightarrow> bool" where
  "no_failures s \<longleftrightarrow>
     (\<forall>a ts. ThreadStates s a = Some ts \<longrightarrow> FailureCount ts = 0 \<and> InconclusiveCount ts = 0) \<and>
     StatFailedTestCases (Statistics s) = 0 \<and> StatInconclusiveTestCases (Statistics s) = 0 \<and>
     StatSucceededTestCases (Statistics s) = StatTestCases (Statistics s)"

lemma no_failures_dereference:
  "no_failures s \<Longrightarrow> no_failures (CfixrunsDereferenceCurrentExecutionState me s)"
  by (auto simp: no_failures_def CfixrunsDereferenceCurrentExecutionState_def split: option.splits)

lemma no_failures_reference:
  "no_failures s \<Longrightarrow> no_failures (CfixrunsReferenceExecutionState a s)"
  by (auto simp: no_failures_def CfixrunsReferenceExecutionState_def split: option.splits)

lemma no_failures_step:
  assumes "no_failures s"
  shows "no_failures (snd (ctx_step (rc_context opts alloc) x s))"
proof (cases x)
  case (Call_BeforeFixture t fx)
  with assms show ?thesis
    by (auto simp: rc_context_def CfixrunsExecCtxBeforeFixtureStart_def Let_def no_failures_def
        CfixrunsGetCurrentExecutionState_def split: prod.splits if_splits)
next
  case (Call_AfterFixture t fx b)
  have "no_failures (s\<lparr>Statistics := (Statistics s)\<lparr>StatFixtures := n\<rparr>\<rparr>)" for n
    using assms by (simp add: no_failures_def)
  with Call_AfterFixture assms show ?thesis
    by (simp add: rc_context_def CfixrunsExecCtxAfterFixtureFinish_def no_failures_dereference)
next
  case (Call_AfterCase t tc b)
  with assms show ?thesis
    by (auto simp: rc_context_def CfixrunsExecCtxAfterTestCaseFinish_def Let_def no_failures_def
        count_test_case_def split: option.splits if_splits)
next
  case (Call_ChildStart t p)
  have "no_failures (CfixrunsSetCurrentExecutionState me p s')" if "no_failures s'" for me s'
    using that by (simp add: no_failures_def CfixrunsSetCurrentExecutionState_def)
  with Call_ChildStart assms show ?thesis
    by (simp add: rc_context_def CfixrunsExecCtxBeforeChildThreadStart_def no_failures_reference)
next
  case (Call_ChildFinish t p)
  with assms show ?thesis
    by (simp add: rc_context_def CfixrunsExecCtxAfterChildThreadFinish_def no_failures_dereference)
qed (use assms in \<open>auto simp: rc_context_def CfixrunsExecCtxReportEvent_def
      CfixrunsExecCtxBeforeTestCaseStart_def CfixrunsExecCtxCreateChildThread_def\<close>)

lemma no_failures_run:
  "no_failures s \<Longrightarrow> no_failures (snd (ctx_run (rc_context opts alloc) xs s))"
proof (induction xs arbitrary: s)
  case (Cons x xs)
  from Cons.IH [OF no_failures_step [OF Cons.prems, of opts alloc x]] show ?case
    by (simp add: split_beta)
qed simp

lemma no_failures_created:
  "CfixrunpCreateExecutionContext a b c = (hr, Some s) \<Longrightarrow> no_failures s"
  by (auto simp: CfixrunpCreateExecutionContext_def no_failures_def split: if_splits)

text \<open>
  C20: the exit code never tells of a failed test case. Whatever is reported to the runner's
  context in the course of a run, its statistics count every finished test case as succeeded,
  and the worker's exit code is never \<open>CFIXRUN_EXIT_SOME_FAILED\<close>: the failure counters the
  statistics are made from are reset and read, but never incremented.
\<close>

theorem exit_code_never_some_failed:
  assumes "CfixrunpCreateExecutionContext args_ok tls_ok malloc_ok = (S_OK, Some s0)"
    and "st = Statistics (snd (ctx_run (rc_context opts alloc) history s0))"
    and "CfixrunsMainWorker InputFile assemble create (Some (hr, st)) = Some (hr', code)"
  shows "code \<noteq> CFIXRUN_EXIT_SOME_FAILED \<and> StatFailedTestCases st = 0 \<and>
         StatSucceededTestCases st = StatTestCases st"
proof -
  from no_failures_run [OF no_failures_created [OF assms(1)], of opts alloc history]
  have "StatFailedTestCases st = 0 \<and> StatSucceededTestCases st = StatTestCases st"
    by (simp add: no_failures_def assms(2))
  with assms(3) show ?thesis
    by (auto simp: CfixrunsMainWorker_def split: if_splits prod.splits)
qed

definition demo_opts :: rc_options where
  "demo_opts = \<lparr>AbortOnFirstFailure = False, AlwaysBreakOnFailure = False,
     DoNotCatchUnhandledExceptions = False\<rparr>"

definition demo_fx :: fixture where
  "demo_fx = \<lparr>FixtureName = wide ''f'', SetupRoutine = 0, TeardownRoutine = 0, BeforeRoutine = 0,
     AfterRoutine = 0, FixtureReserved = 0, ApiType = 1, FixtureFlags = 0, ModuleName = wide ''m'',
     TestCases = [\<lparr>TestCaseName = wide ''t'', TestCaseRoutine = 6\<rparr>]\<rparr>"

definition failing_history :: "fixture \<Rightarrow> ctx_call list" where
  "failing_history fx =
     (let t = CfixpInitializeThreadId 1 1
      in [Call_BeforeFixture t fx, Call_BeforeCase t (fx, 0),
          Call_Report t \<lparr>EventInfo = FailedAssertion None None 1 (wide ''x'') 0, FrameCount = 0\<rparr>,
          Call_AfterCase t (fx, 0) False, Call_AfterFixture t fx True])"

theorem exit_code_never_some_failed_witness:
  "let s0 = the (snd (CfixrunpCreateExecutionContext True True True));
       (answers, s) = ctx_run (rc_context demo_opts (\<lambda>_. 16)) (failing_history demo_fx) s0
   in answers ! 2 = Ans_Disposition CfixBreak \<and>
      CfixrunsMainWorker (Some (wide ''a.dll'')) (S_OK, 1) S_OK (Some (S_OK, Statistics s)) =
        Some (S_OK, CFIXRUN_EXIT_ALL_SUCCEEDED) \<and>
      StatFailedTestCases (Statistics s) = 0"
proof -
  define s0 where "s0 = the (snd (CfixrunpCreateExecutionContext True True True))"
  define r where "r = ctx_run (rc_context demo_opts (\<lambda>_. 16)) (failing_history demo_fx) s0"
  have c: "CfixrunpCreateExecutionContext True True True = (S_OK, Some s0)"
    by (simp add: s0_def CfixrunpCreateExecutionContext_def)
  have ans: "fst r ! 2 = Ans_Disposition CfixBreak"
    and n: "StatTestCases (Statistics (snd r)) = 1"
    by (simp_all add: r_def s0_def CfixrunpCreateExecutionContext_def failing_history_def rc_context_def
        demo_opts_def CfixpInitializeThreadId_def CfixrunsExecCtxBeforeFixtureStart_def
        CfixrunsGetCurrentExecutionState_def CfixrunsExecCtxBeforeTestCaseStart_def
        CfixrunsExecCtxReportEvent_def CfixrunsExecCtxAfterTestCaseFinish_def count_test_case_def
        CfixrunsExecCtxAfterFixtureFinish_def CfixrunsDereferenceCurrentExecutionState_def Let_def)
  obtain hr code where w: "CfixrunsMainWorker (Some (wide ''a.dll'')) (S_OK, 1) S_OK
      (Some (S_OK, Statistics (snd r))) = Some (hr, code)"
    by (simp add: CfixrunsMainWorker_def)
  from exit_code_never_some_failed [OF c refl, of "Some (wide ''a.dll'')" "(S_OK, 1)" S_OK S_OK
      demo_opts "\<lambda>_. 16" "failing_history demo_fx", folded r_def, OF w] w n
  have "CfixrunsMainWorker (Some (wide ''a.dll'')) (S_OK, 1) S_OK (Some (S_OK, Statistics (snd r))) =
        Some (S_OK, CFIXRUN_EXIT_ALL_SUCCEEDED) \<and> StatFailedTestCases (Statistics (snd r)) = 0"
    by (simp add: CfixrunsMainWorker_def)
  with ans show ?thesis by (simp add: s0_def [symmetric] r_def [symmetric] split_beta)
qed

section \<open>Names of events\<close>

text \<open>A sink that records where each event was reported.\<close>

type_synonym named_event = "wstring \<times> wstring \<times> wstring \<times> cfix_event"

definition name_sink :: "named_event list event_sink" where
  "name_sink =
     \<lparr>SinkReportEvent = (\<lambda>_ m f l e k. k @ [(m, f, l, e)]),
      SinkBeforeFixtureStart = (\<lambda>_ _ _ k. k), SinkAfterFixtureFinish = (\<lambda>_ _ _ _ k. k),
      SinkBeforeTestCaseStart = (\<lambda>_ _ _ _ k. k), SinkAfterTestCaseFinish = (\<lambda>_ _ _ _ _ k. k),
      SinkReference = id, SinkDereference = id\<rparr>"

definition case_history :: "thread_id \<Rightarrow> fixture \<Rightarrow> (nat \<Rightarrow> (thread_id \<times> cfix_event) list) \<Rightarrow> nat \<Rightarrow>
    ctx_call list" where
  "case_history t fx evs i =
     Call_BeforeCase t (fx, i) # map (\<lambda>(u, e). Call_Report u e) (evs i) @
     [Call_AfterCase t (fx, i) True]"

lemma ctx_run_append:
  "ctx_run c (xs @ ys) s =
     (let (a, s) = ctx_run c xs s; (b, s) = ctx_run c ys s in (a @ b, s))"
  by (induction xs arbitrary: s) (simp_all add: Let_def split_beta)

definition place :: "('t, 'k) proxy_state \<Rightarrow> bool \<times> test_case_ptr option \<times> fixture option" where
  "place s = (FirstTestCaseBegun s, CurrentTestCase s, CurrentFixture s)"

lemma reports_named:
  fixes ctx :: "'t exec_context" and es and s :: "('t, named_event list) proxy_state"
  assumes "CurrentFixture s = Some fx"
  defines "s' \<equiv> snd (ctx_run (proxy_context ctx name_sink) (map (\<lambda>(u, e). Call_Report u e) es) s)"
  shows "place s' = place s \<and>
         Sink s' = Sink s @ map (\<lambda>(_, e). (ModuleName fx, FixtureName fx, current_label s, e)) es"
  unfolding s'_def using assms(1)
proof (induction es arbitrary: s)
  case Nil
  then show ?case by simp
next
  case (Cons x es)
  obtain u e where x: "x = (u, e)" by (cases x)
  define s1 where "s1 = snd (ctx_step (proxy_context ctx name_sink) (Call_Report u e) s)"
  have s1: "place s1 = place s" "CurrentFixture s1 = Some fx" "current_label s1 = current_label s"
    "Sink s1 = Sink s @ [(ModuleName fx, FixtureName fx, current_label s, e)]"
    using Cons.prems by (simp_all add: s1_def proxy_context_def
        CfixsEventEmittingProxyReportEvent_def name_sink_def split_beta place_def current_label_def)
  have "snd (ctx_run (proxy_context ctx name_sink) (map (\<lambda>(u, e). Call_Report u e) (x # es)) s) =
      snd (ctx_run (proxy_context ctx name_sink) (map (\<lambda>(u, e). Call_Report u e) es) s1)"
    by (simp add: x s1_def split_beta del: ctx_step.simps)
  with Cons.IH [OF s1(2)] s1 x show ?case by simp
qed

definition labelled :: "fixture \<Rightarrow> wstring \<Rightarrow> (thread_id \<times> cfix_event) list \<Rightarrow> named_event list" where
  "labelled fx label es = map (\<lambda>(_, e). (ModuleName fx, FixtureName fx, label, e)) es"

lemma case_named:
  fixes ctx :: "'t exec_context" and t evs i and s :: "('t, named_event list) proxy_state"
  assumes "CurrentFixture s = Some fx"
  defines "s' \<equiv> snd (ctx_run (proxy_context ctx name_sink) (case_history t fx evs i) s)"
  shows "place s' = (True, None, Some fx) \<and>
         Sink s' = Sink s @ labelled fx (case_name (fx, i)) (evs i)"
proof -
  let ?c = "proxy_context ctx name_sink"
  define s1 where "s1 = snd (ctx_step ?c (Call_BeforeCase t (fx, i)) s)"
  have s1: "place s1 = (True, Some (fx, i), Some fx)" "Sink s1 = Sink s" "CurrentFixture s1 = Some fx"
    "current_label s1 = case_name (fx, i)"
    using assms(1) by (simp_all add: s1_def proxy_context_def place_def name_sink_def split_beta
        CfixsEventEmittingProxyBeforeTestCaseStart_def Let_def current_label_def)
  define s2 where "s2 = snd (ctx_run ?c (map (\<lambda>(u, e). Call_Report u e) (evs i)) s1)"
  note s2 = reports_named [OF s1(3), of ctx "evs i", folded s2_def]
  have "s' = snd (ctx_step ?c (Call_AfterCase t (fx, i) True) s2)"
    by (simp add: s'_def case_history_def s2_def s1_def ctx_run_append split_beta Let_def
        del: ctx_step.simps)
  with s1 s2 show ?thesis
    by (simp add: proxy_context_def place_def name_sink_def labelled_def
        CfixsEventEmittingProxyAfterTestCaseFinish_def Let_def)
qed

lemma cases_named:
  fixes ctx :: "'t exec_context" and t evs "is" and s :: "('t, named_event list) proxy_state"
  assumes "CurrentFixture s = Some fx" and "place s = (b, None, Some fx)"
  defines "s' \<equiv> snd (ctx_run (proxy_context ctx name_sink) (concat (map (case_history t fx evs) is)) s)"
  shows "place s' = (b \<or> is \<noteq> [], None, Some fx) \<and>
         Sink s' = Sink s @ concat (map (\<lambda>i. labelled fx (case_name (fx, i)) (evs i)) is)"
  unfolding s'_def using assms(1,2)
proof (induction "is" arbitrary: s b)
  case (Cons i "is")
  define s1 where "s1 = snd (ctx_run (proxy_context ctx name_sink) (case_history t fx evs i) s)"
  note s1 = case_named [OF Cons.prems(1), of ctx t evs i, folded s1_def]
  have fx: "CurrentFixture s1 = Some fx" using s1 by (simp add: place_def)
  have "snd (ctx_run (proxy_context ctx name_sink) (concat (map (case_history t fx evs) (i # is))) s) =
      snd (ctx_run (proxy_context ctx name_sink) (concat (map (case_history t fx evs) is)) s1)"
    by (simp add: ctx_run_append s1_def split_beta Let_def)
  with Cons.IH [OF fx, of True] s1 show ?case by simp
qed simp

definition fixture_history ::
    "thread_id \<Rightarrow> fixture \<Rightarrow> (thread_id \<times> cfix_event) list \<Rightarrow>
       (nat \<Rightarrow> (thread_id \<times> cfix_event) list) \<Rightarrow> (thread_id \<times> cfix_event) list \<Rightarrow> ctx_call list" where
  "fixture_history t fx su evs td =
     Call_BeforeFixture t fx # map (\<lambda>(u, e). Call_Report u e) su @
     concat (map (case_history t fx evs) [0..<TestCaseCount fx]) @
     map (\<lambda>(u, e). Call_Report u e) td @ [Call_AfterFixture t fx True]"


definition demo_tid :: thread_id where
  "demo_tid = CfixpInitializeThreadId 1 1"

definition demo_event :: cfix_event where
  "demo_event = \<lparr>EventInfo = Log (wide ''hello''), FrameCount = 0\<rparr>"


text \<open>
  When the target refuses a test case, nothing resets the current test case, so that what the
  teardown routine reports appears under the name of the test case that never ran.
\<close>

lemma refused_case_keeps_label:
  assumes "CurrentFixture s = Some fx"
  shows "current_label (snd (ctx_step (proxy_context ctx sink) (Call_BeforeCase t (fx, i)) s)) =
         case_name (fx, i)"
  by (simp add: proxy_context_def CfixsEventEmittingProxyBeforeTestCaseStart_def Let_def split_beta
      current_label_def)

end
