(* ===== verification/PeLoad.thy ===== *)
theory PeLoad
  imports ExecIface
begin

text \<open>
  Loading the fixtures of a DLL (\<open>cfix/cfix/pe.c\<close>): the export directory is walked, every export
  with the fixture prefix is called for its definition, and the definition becomes a fixture.

  The heap is reduced to what matters for leaks: \<open>Live\<close> counts the blocks allocated and not
  freed, and \<open>MallocOk\<close> decides, for the number of the request and its size, whether it
  succeeds. Sizes are counted in slots of the arrays concerned. The image is a record of the
  header fields the code reads; reading behind the end of one of its arrays is \<open>None\<close>. Names are
  byte strings; \<open>mb2wc\<close> is \<open>MultiByteToWideChar\<close> into a buffer of the given number of characters,
  with \<open>GetLastError\<close> on the left when it fails.
\<close>

section \<open>Heap\<close>

record heap =
  Live :: int
  Requests :: nat
  MallocOk :: "nat \<Rightarrow> nat \<Rightarrow> bool"

definition malloc :: "nat \<Rightarrow> heap \<Rightarrow> bool \<times> heap" where
  "malloc sz h =
     (if MallocOk h (Requests h) sz
      then (True, h\<lparr>Requests := Requests h + 1, Live := Live h + 1\<rparr>)
      else (False, h\<lparr>Requests := Requests h + 1\<rparr>))"

text \<open>\<open>realloc\<close> of a live block: success replaces the block, failure leaves it alone.\<close>

definition realloc :: "nat \<Rightarrow> heap \<Rightarrow> bool \<times> heap" where
  "realloc sz h = (MallocOk h (Requests h) sz, h\<lparr>Requests := Requests h + 1\<rparr>)"

definition free :: "heap \<Rightarrow> heap" where
  "free h = h\<lparr>Live := Live h - 1\<rparr>"

section \<open>Names\<close>

abbreviation CFIX_MAX_FIXTURE_NAME_CCH :: nat where "CFIX_MAX_FIXTURE_NAME_CCH \<equiv> 128"
abbreviation ERROR_INSUFFICIENT_BUFFER :: dword where "ERROR_INSUFFICIENT_BUFFER \<equiv> 122"

definition CFIX_FIXTURE_EXPORT_PREFIX_MANGLED64 :: string where
  "CFIX_FIXTURE_EXPORT_PREFIX_MANGLED64 = ''__CfixFixturePe''"

definition CFIX_FIXTURE_EXPORT_PREFIX_MANGLED32 :: string where
  "CFIX_FIXTURE_EXPORT_PREFIX_MANGLED32 = ''___CfixFixturePe''"

definition CfixpIsFixtureExport32 :: "string \<Rightarrow> bool" where
  "CfixpIsFixtureExport32 ExportName \<longleftrightarrow> 16 < length ExportName \<and>
     take 16 ExportName = CFIX_FIXTURE_EXPORT_PREFIX_MANGLED32"

definition CfixpIsFixtureExport64 :: "string \<Rightarrow> bool" where
  "CfixpIsFixtureExport64 ExportName \<longleftrightarrow> 15 < length ExportName \<and>
     take 15 ExportName = CFIX_FIXTURE_EXPORT_PREFIX_MANGLED64"

text \<open>\<open>Win64\<close> is the platform the code is built for, which fixes the mangling.\<close>

definition CfixpIsFixtureExport :: "bool \<Rightarrow> string \<Rightarrow> bool" where
  "CfixpIsFixtureExport Win64 =
     (if Win64 then CfixpIsFixtureExport64 else CfixpIsFixtureExport32)"

definition prefix_cch :: "bool \<Rightarrow> nat" where
  "prefix_cch Win64 = (if Win64 then 15 else 16)"

fun CfixsUnmangleName :: "wstring \<Rightarrow> wstring" where
  "CfixsUnmangleName [] = []"
| "CfixsUnmangleName (c # cs) = (if c = 0x40 then [] else c # CfixsUnmangleName cs)"

section \<open>Definitions of fixtures\<close>

datatype entry_type = EntrySetup | EntryTeardown | EntryTestcase | EntryBefore | EntryAfter
  | EntryUnknown

record pe_entry =
  EntryType :: entry_type
  EntryName :: wstring
  EntryRoutine :: ulong_ptr

text \<open>\<open>Entries\<close> holds the entries before the one of type \<open>CfixEntryTypeEnd\<close>.\<close>

record pe_definition =
  ApiVersion :: ulong
  Entries :: "pe_entry list"

definition info_type :: "ulong \<Rightarrow> ulong" where
  "info_type v = v AND 0xF"

definition info_flags :: "ulong \<Rightarrow> ulong" where
  "info_flags v = drop_bit 4 v AND 0xFFF"

definition info_revision :: "ulong \<Rightarrow> ulong" where
  "info_revision v = drop_bit 16 v AND 0xFFFF"

definition CFIX_PE_API_MAKEAPIVERSION_EX :: "ulong \<Rightarrow> ulong \<Rightarrow> ulong \<Rightarrow> ulong" where
  "CFIX_PE_API_MAKEAPIVERSION_EX Type Revision Flags =
     (Type AND 0xF) OR push_bit 4 (Flags AND 0xFFF) OR push_bit 16 (Revision AND 0xFFFF)"

definition walk_entry :: "pe_entry \<Rightarrow> fixture \<Rightarrow> hresult + fixture" where
  "walk_entry Entry fx =
     (case EntryType Entry of
        EntrySetup \<Rightarrow>
          if SetupRoutine fx \<noteq> 0 then Inl CFIX_E_DUP_SETUP_ROUTINE
          else Inr (fx\<lparr>SetupRoutine := EntryRoutine Entry\<rparr>)
      | EntryTeardown \<Rightarrow>
          if TeardownRoutine fx \<noteq> 0 then Inl CFIX_E_DUP_TEARDOWN_ROUTINE
          else Inr (fx\<lparr>TeardownRoutine := EntryRoutine Entry\<rparr>)
      | EntryBefore \<Rightarrow>
          if BeforeRoutine fx \<noteq> 0 then Inl CFIX_E_DUP_BEFORE_ROUTINE
          else Inr (fx\<lparr>BeforeRoutine := EntryRoutine Entry\<rparr>)
      | EntryAfter \<Rightarrow>
          if AfterRoutine fx \<noteq> 0 then Inl CFIX_E_DUP_AFTER_ROUTINE
          else Inr (fx\<lparr>AfterRoutine := EntryRoutine Entry\<rparr>)
      | EntryTestcase \<Rightarrow>
          Inr (fx\<lparr>TestCases := TestCases fx @
                  [\<lparr>TestCaseName = EntryName Entry, TestCaseRoutine = EntryRoutine Entry\<rparr>]\<rparr>)
      | EntryUnknown \<Rightarrow> Inl CFIX_E_UNKNOWN_ENTRY_TYPE)"

fun walk_entries :: "pe_entry list \<Rightarrow> fixture \<Rightarrow> hresult + fixture" where
  "walk_entries [] fx = Inr fx"
| "walk_entries (e # es) fx =
     (case walk_entry e fx of Inl Hr \<Rightarrow> Inl Hr | Inr fx \<Rightarrow> walk_entries es fx)"

text \<open>
  The block requested for a fixture reaches through \<open>TestCases[ EntryCount - 1 ]\<close>. The index
  wraps around when there is no entry, but the offset is a LONG and the size of the slot is
  added to it, so the wrap-around cancels: the block has \<open>fixture_slots\<close> slots, none for a
  fixture without entries.
\<close>

definition fixture_slots :: "nat \<Rightarrow> nat" where
  "fixture_slots EntryCount = unat ((of_nat EntryCount - 1) + 1 :: 32 word)"

definition new_fixture :: "wstring \<Rightarrow> wstring \<Rightarrow> pe_definition \<Rightarrow> fixture" where
  "new_fixture Module Name TestDef =
     \<lparr>FixtureName = Name, SetupRoutine = 0, TeardownRoutine = 0, BeforeRoutine = 0,
      AfterRoutine = 0, FixtureReserved = 0, ApiType = info_type (ApiVersion TestDef),
      FixtureFlags = info_flags (ApiVersion TestDef), ModuleName = Module, TestCases = []\<rparr>"

definition fill_fixture ::
    "bool \<Rightarrow> (string \<Rightarrow> nat \<Rightarrow> dword + wstring) \<Rightarrow> string \<Rightarrow> pe_definition \<Rightarrow> wstring \<Rightarrow>
       hresult + fixture" where
  "fill_fixture Win64 mb2wc ExportName TestDef Module =
     (case mb2wc (drop (prefix_cch Win64) ExportName) CFIX_MAX_FIXTURE_NAME_CCH of
        Inl Err \<Rightarrow> Inl (if Err = ERROR_INSUFFICIENT_BUFFER then CFIX_E_FIXTURE_NAME_TOO_LONG
                        else HRESULT_FROM_WIN32 Err)
      | Inr Name \<Rightarrow>
          if info_revision (ApiVersion TestDef) \<noteq> 0 then Inl CFIX_E_UNSUPPORTED_FIXTURE_REVISION
          else if CFIX_FIXTURE_USES_ANONYMOUS_THREADS < info_flags (ApiVersion TestDef)
          then Inl CFIX_E_INVALID_FIXTURE_FLAG
          else walk_entries (Entries TestDef) (new_fixture Module (CfixsUnmangleName Name) TestDef))"

definition CfixsCreateFixture ::
    "bool \<Rightarrow> (string \<Rightarrow> nat \<Rightarrow> dword + wstring) \<Rightarrow> string \<Rightarrow> pe_definition option \<Rightarrow> wstring \<Rightarrow>
       heap \<Rightarrow> (hresult + fixture) \<times> heap" where
  "CfixsCreateFixture Win64 mb2wc ExportName GetTcRoutine Module h =
     (case GetTcRoutine of
        None \<Rightarrow> (Inl CFIX_E_MISBEHAVIOUD_GETTC_ROUTINE, h)
      | Some TestDef \<Rightarrow>
          if info_type (ApiVersion TestDef) < 1 \<or> 4 < info_type (ApiVersion TestDef)
          then (Inl CFIX_E_UNSUPPORTED_VERSION, h)
          else case malloc (fixture_slots (length (Entries TestDef))) h of
            (False, h) \<Rightarrow> (Inl E_OUTOFMEMORY, h)
          | (True, h) \<Rightarrow>
              (case fill_fixture Win64 mb2wc ExportName TestDef Module of
                 Inl Hr \<Rightarrow> (Inl Hr, free h)
               | Inr fx \<Rightarrow> (Inr fx, h)))"

definition CfixsDeleteFixture :: "fixture \<Rightarrow> heap \<Rightarrow> heap" where
  "CfixsDeleteFixture Fixture h = free h"

section \<open>The export directory\<close>

record pe_image =
  NtSignatureOk :: bool
  ExportDirVa :: dword
  ExportDirSize :: dword
  NumberOfFunctions :: dword
  OrdinalBase :: dword
  NameTable :: "string list"
  OrdinalTable :: "16 word list"
  FunctionTable :: "dword list"

definition nth_opt :: "'a list \<Rightarrow> nat \<Rightarrow> 'a option" where
  "nth_opt xs i = (if i < length xs then Some (xs ! i) else None)"

text \<open>
  \<open>Ordinal\<close> is computed in 16 bits and used minus the base, in 32 bits, as an index.
\<close>

definition function_rva :: "pe_image \<Rightarrow> nat \<Rightarrow> dword option" where
  "function_rva img Index =
     do {
       o16 \<leftarrow> nth_opt (OrdinalTable img) Index;
       (let Ordinal = o16 + ucast (OrdinalBase img) :: 16 word
        in nth_opt (FunctionTable img) (unat (ucast Ordinal - OrdinalBase img)))
     }"

definition is_forwarder :: "pe_image \<Rightarrow> dword \<Rightarrow> bool" where
  "is_forwarder img FuncRva \<longleftrightarrow>
     ExportDirVa img \<le> FuncRva \<and> FuncRva < ExportDirVa img + ExportDirSize img"

text \<open>
  The walk over the names: the fixtures found so far and the capacity of the array they are
  kept in. On failure the result has the fixtures to be freed. \<open>defs\<close> calls the routine at an
  address for its definition.
\<close>

fun walk_exports ::
    "bool \<Rightarrow> (string \<Rightarrow> nat \<Rightarrow> dword + wstring) \<Rightarrow> (dword \<Rightarrow> pe_definition option) \<Rightarrow>
       wstring \<Rightarrow> pe_image \<Rightarrow> nat list \<Rightarrow> fixture list \<Rightarrow> nat \<Rightarrow> heap \<Rightarrow>
       ((hresult \<times> fixture list + fixture list) \<times> heap) option" where
  "walk_exports Win64 mb2wc defs Module img [] Fixtures Allocated h = Some (Inr Fixtures, h)"
| "walk_exports Win64 mb2wc defs Module img (Index # rest) Fixtures Allocated h =
     do {
       Name \<leftarrow> nth_opt (NameTable img) Index;
       FuncRva \<leftarrow> function_rva img Index;
       (if is_forwarder img FuncRva \<or> \<not> CfixpIsFixtureExport Win64 Name
        then walk_exports Win64 mb2wc defs Module img rest Fixtures Allocated h
        else
          let grow = (length Fixtures = Allocated);
              Allocated = (if grow then Allocated * 2 else Allocated);
              (ok, h) = (if grow then realloc Allocated h else (True, h))
          in if \<not> ok then Some (Inl (E_OUTOFMEMORY, Fixtures), h)
             else if \<not> length Fixtures < Allocated then None
             else case CfixsCreateFixture Win64 mb2wc Name (defs FuncRva) Module h of
               (Inl Hr, h) \<Rightarrow> Some (Inl (Hr, Fixtures), h)
             | (Inr fx, h) \<Rightarrow>
                 walk_exports Win64 mb2wc defs Module img rest (Fixtures @ [fx]) Allocated h)
     }"

definition CfixsLoadFixturesFromPeImage ::
    "bool \<Rightarrow> (string \<Rightarrow> nat \<Rightarrow> dword + wstring) \<Rightarrow> (dword \<Rightarrow> pe_definition option) \<Rightarrow>
       wstring \<Rightarrow> pe_image \<Rightarrow> heap \<Rightarrow> ((hresult + fixture list) \<times> heap) option" where
  "CfixsLoadFixturesFromPeImage Win64 mb2wc defs Module img h =
     (case malloc 16 h of
        (False, h) \<Rightarrow> Some (Inl E_OUTOFMEMORY, h)
      | (True, h) \<Rightarrow>
          if \<not> NtSignatureOk img then Some (Inl (HRESULT_FROM_WIN32 193), free h)
          else do {
            (r, h) \<leftarrow> (if NumberOfFunctions img = 0 then Some (Inr [], h)
                       else walk_exports Win64 mb2wc defs Module img
                              [0..<length (NameTable img)] [] 16 h);
            Some (case r of
                Inl (Hr, Fixtures) \<Rightarrow> (Inl Hr, free (fold CfixsDeleteFixture Fixtures h))
              | Inr Fixtures \<Rightarrow> (Inr Fixtures, h))
          })"

section \<open>The test module\<close>

record pe_module_obj =
  PeFixtures :: "fixture list"
  PeReferenceCount :: int
  FreeImageOnDeletion :: bool

text \<open>\<open>Images\<close> counts the references the module loader holds on loaded images.\<close>

definition CfixsDeleteTestModule :: "pe_module_obj \<Rightarrow> int \<Rightarrow> heap \<Rightarrow> int \<times> heap" where
  "CfixsDeleteTestModule Module Images h =
     (if FreeImageOnDeletion Module then Images - 1 else Images,
      free (free (fold CfixsDeleteFixture (PeFixtures Module) h)))"

definition CfixsReferenceTestModuleMethod :: "pe_module_obj \<Rightarrow> pe_module_obj" where
  "CfixsReferenceTestModuleMethod Module =
     Module\<lparr>PeReferenceCount := PeReferenceCount Module + 1\<rparr>"

definition CfixsDereferenceTestModule ::
    "pe_module_obj \<Rightarrow> int \<Rightarrow> heap \<Rightarrow> pe_module_obj option \<times> int \<times> heap" where
  "CfixsDereferenceTestModule Module Images h =
     (let Module = Module\<lparr>PeReferenceCount := PeReferenceCount Module - 1\<rparr>
      in if PeReferenceCount Module = 0 then (None, CfixsDeleteTestModule Module Images h)
         else (Some Module, Images, h))"

text \<open>\<open>base_name\<close> is \<open>GetModuleBaseName\<close> with the extension removed, or the error.\<close>

definition CfixsCreateTestModule ::
    "bool \<Rightarrow> (string \<Rightarrow> nat \<Rightarrow> dword + wstring) \<Rightarrow> (dword \<Rightarrow> pe_definition option) \<Rightarrow>
       dword + wstring \<Rightarrow> pe_image option \<Rightarrow> bool \<Rightarrow> bool \<Rightarrow> heap \<Rightarrow>
       ((hresult + pe_module_obj) \<times> heap) option" where
  "CfixsCreateTestModule Win64 mb2wc defs base_name ModuleHandle FreeImage Out h =
     (case ModuleHandle of
        None \<Rightarrow> Some (Inl E_INVALIDARG, h)
      | Some img \<Rightarrow>
          if \<not> Out then Some (Inl E_INVALIDARG, h)
          else case malloc 1 h of
            (False, h) \<Rightarrow> Some (Inl E_OUTOFMEMORY, h)
          | (True, h) \<Rightarrow>
              (case base_name of
                 Inl err \<Rightarrow>
                   let Hr = HRESULT_FROM_WIN32 err
                   in Some (Inl Hr, if FAILED Hr then free h else h)
               | Inr Name \<Rightarrow>
                   do {
                     (r, h) \<leftarrow> CfixsLoadFixturesFromPeImage Win64 mb2wc defs Name img h;
                     Some (case r of
                         Inl Hr \<Rightarrow> (Inl Hr, free h)
                       | Inr Fixtures \<Rightarrow>
                           (Inr \<lparr>PeFixtures = Fixtures, PeReferenceCount = 1,
                                 FreeImageOnDeletion = FreeImage\<rparr>, h))
                   }))"

definition CfixCreateTestModule ::
    "bool \<Rightarrow> (string \<Rightarrow> nat \<Rightarrow> dword + wstring) \<Rightarrow> (dword \<Rightarrow> pe_definition option) \<Rightarrow>
       dword + wstring \<Rightarrow> pe_image option \<Rightarrow> bool \<Rightarrow> heap \<Rightarrow>
       ((hresult + pe_module_obj) \<times> heap) option" where
  "CfixCreateTestModule Win64 mb2wc defs base_name ModuleHandle Out h =
     (if ModuleHandle = None \<or> \<not> Out then Some (Inl E_INVALIDARG, h)
      else CfixsCreateTestModule Win64 mb2wc defs base_name ModuleHandle False Out h)"

text \<open>
  \<open>full_path\<close> is the error of \<open>GetFullPathName\<close>, if any, and \<open>load\<close> the result of \<open>LoadLibrary\<close>.
\<close>

definition CfixCreateTestModuleFromPeImage ::
    "bool \<Rightarrow> (string \<Rightarrow> nat \<Rightarrow> dword + wstring) \<Rightarrow> (dword \<Rightarrow> pe_definition option) \<Rightarrow>
       dword + wstring \<Rightarrow> bool \<Rightarrow> dword option \<Rightarrow> dword + pe_image \<Rightarrow> int \<Rightarrow> heap \<Rightarrow>
       ((hresult + pe_module_obj) \<times> int \<times> heap) option" where
  "CfixCreateTestModuleFromPeImage Win64 mb2wc defs base_name Args full_path load Images h =
     (if \<not> Args then Some (Inl E_INVALIDARG, Images, h)
      else case full_path of
        Some err \<Rightarrow> Some (Inl (HRESULT_FROM_WIN32 err), Images, h)
      | None \<Rightarrow>
          (case load of
             Inl err \<Rightarrow> Some (Inl (HRESULT_FROM_WIN32 err), Images, h)
           | Inr img \<Rightarrow>
               do {
                 (r, h) \<leftarrow> CfixsCreateTestModule Win64 mb2wc defs base_name (Some img) True True h;
                 Some (case r of
                     Inl Hr \<Rightarrow> (Inl Hr, if FAILED Hr then Images else Images + 1, h)
                   | Inr m \<Rightarrow> (Inr m, Images + 1, h))
               }))"

end
