(* ===== verification/PeLoadProps.thy ===== *)
theory PeLoadProps
  imports PeLoad
begin

text \<open>
  What loading a DLL guarantees: definitions become the fixtures they describe, export names are
  recognised and unmangled, loading leaks nothing, and the ordinal arithmetic stays in bounds.
\<close>

section \<open>Definitions and fixtures\<close>

definition routines_of :: "entry_type \<Rightarrow> pe_entry list \<Rightarrow> ulong_ptr list" where
  "routines_of ty es = map EntryRoutine (filter (\<lambda>e. EntryType e = ty) es)"

text \<open>At most the last routine of a kind is given; the others are NULL.\<close>

definition single :: "ulong_ptr list \<Rightarrow> bool" where
  "single rs \<longleftrightarrow> (\<forall>r\<in>set (butlast rs). r = 0)"

definition cases_of :: "pe_entry list \<Rightarrow> test_case list" where
  "cases_of es = map (\<lambda>e. \<lparr>TestCaseName = EntryName e, TestCaseRoutine = EntryRoutine e\<rparr>)
     (filter (\<lambda>e. EntryType e = EntryTestcase) es)"

lemma single_Cons [simp]: "single (r # x # rs) \<longleftrightarrow> r = 0 \<and> single (x # rs)"
  by (simp add: single_def)

lemma single_one [simp]: "single [r]" "single []"
  by (simp_all add: single_def)

lemma routines_of_simps [simp]:
  "routines_of ty [] = []"
  "routines_of ty (e # es) =
     (if EntryType e = ty then EntryRoutine e # routines_of ty es else routines_of ty es)"
  by (simp_all add: routines_of_def)

lemma cases_of_simps [simp]:
  "cases_of [] = []"
  "cases_of (e # es) =
     (if EntryType e = EntryTestcase
      then \<lparr>TestCaseName = EntryName e, TestCaseRoutine = EntryRoutine e\<rparr> # cases_of es
      else cases_of es)"
  by (simp_all add: cases_of_def)

lemma walk_entries_iff:
  "walk_entries es fx = Inr fx' \<longleftrightarrow>
     (\<forall>e\<in>set es. EntryType e \<noteq> EntryUnknown) \<and>
     single (SetupRoutine fx # routines_of EntrySetup es) \<and>
     single (TeardownRoutine fx # routines_of EntryTeardown es) \<and>
     single (BeforeRoutine fx # routines_of EntryBefore es) \<and>
     single (AfterRoutine fx # routines_of EntryAfter es) \<and>
     fx' = fx\<lparr>SetupRoutine := last (SetupRoutine fx # routines_of EntrySetup es),
              TeardownRoutine := last (TeardownRoutine fx # routines_of EntryTeardown es),
              BeforeRoutine := last (BeforeRoutine fx # routines_of EntryBefore es),
              AfterRoutine := last (AfterRoutine fx # routines_of EntryAfter es),
              TestCases := TestCases fx @ cases_of es\<rparr>"
proof (induction es arbitrary: fx)
  case Nil
  then show ?case by auto
next
  case (Cons e es)
  show ?case
    by (cases "EntryType e") (auto simp: walk_entry_def Cons.IH)
qed

lemma single_zero: "single (0 # rs) = single rs"
  by (cases rs) simp_all

definition last_or_null :: "ulong_ptr list \<Rightarrow> ulong_ptr" where
  "last_or_null rs = (if rs = [] then 0 else last rs)"


definition demo_def :: pe_definition where
  "demo_def = \<lparr>ApiVersion = 0x11, Entries =
     [\<lparr>EntryType = EntrySetup, EntryName = [], EntryRoutine = 8\<rparr>,
      \<lparr>EntryType = EntryTestcase, EntryName = wide ''t'', EntryRoutine = 16\<rparr>]\<rparr>"

definition ascii_mb2wc :: "string \<Rightarrow> nat \<Rightarrow> dword + wstring" where
  "ascii_mb2wc n cch =
     (if length n < cch then Inr (wide n) else Inl ERROR_INSUFFICIENT_BUFFER)"


section \<open>Names and versions\<close>

lemma unmangle_append:
  "0x40 \<notin> set a \<Longrightarrow> CfixsUnmangleName (a @ b) = a @ CfixsUnmangleName b"
  by (induction a) auto

lemma take_append_prefix: "length p = n \<Longrightarrow> take n (p @ xs) = p"
  by simp

text \<open>
  Export names. The export the test map macros produce for a fixture is recognised on its
  platform and on no other, and the fixture gets back the name it was declared with.
\<close>

definition export_name :: "bool \<Rightarrow> string \<Rightarrow> string" where
  "export_name Win64 n =
     (if Win64 then CFIX_FIXTURE_EXPORT_PREFIX_MANGLED64 @ n
      else CFIX_FIXTURE_EXPORT_PREFIX_MANGLED32 @ n @ ''@0'')"

lemma export_name_roundtrip:
  assumes "n \<noteq> []" and "CHR ''@'' \<notin> set n"
  shows "CfixpIsFixtureExport Win64 (export_name Win64 n) \<and>
         \<not> CfixpIsFixtureExport (\<not> Win64) (export_name Win64 n) \<and>
         CfixsUnmangleName (wide (drop (prefix_cch Win64) (export_name Win64 n))) = wide n"
proof -
  have at: "0x40 \<notin> set (wide n)"
  proof
    assume "0x40 \<in> set (wide n)"
    then obtain c where c: "c \<in> set n" "(of_nat (of_char c) :: wchar) = 0x40"
      by (auto simp: wide_def)
    have "(of_char c :: nat) < 256" by simp
    then have "(of_char c :: nat) < 65536" by linarith
    then have "(of_char c :: nat) mod 65536 = of_char c" by (rule mod_less)
    then have "unat (of_nat (of_char c) :: wchar) = of_char c" by (simp add: unat_of_nat)
    with c(2) have "(of_char c :: nat) = 64" by simp
    then have "(of_char c :: nat) = of_char (CHR ''@'')" by simp
    then have "c = CHR ''@''" by (simp only: of_char_eq_iff)
    with c(1) assms(2) show False by simp
  qed
  have wa: "wide (a @ b) = wide a @ wide b" for a b by (simp add: wide_def)
  show ?thesis
    using assms(1) unmangle_append [OF at, of "[]"] unmangle_append [OF at, of "wide ''@0''"]
    by (cases n; cases Win64)
      (auto simp: export_name_def CfixpIsFixtureExport_def CfixpIsFixtureExport64_def
        CfixpIsFixtureExport32_def CFIX_FIXTURE_EXPORT_PREFIX_MANGLED64_def
        CFIX_FIXTURE_EXPORT_PREFIX_MANGLED32_def prefix_cch_def wa)
qed

text \<open>
  Version words. The fields of a version word are those it was made of, cut to their
  widths, so that a revision or an unknown flag always reaches the checks of the loader.
\<close>

lemma api_version_roundtrip:
  "info_type (CFIX_PE_API_MAKEAPIVERSION_EX t r f) = t AND 0xF \<and>
   info_flags (CFIX_PE_API_MAKEAPIVERSION_EX t r f) = f AND 0xFFF \<and>
   info_revision (CFIX_PE_API_MAKEAPIVERSION_EX t r f) = r AND 0xFFFF"
proof -
  have masks: "0xF = (mask 4 :: ulong)" "0xFFF = (mask 12 :: ulong)" "0xFFFF = (mask 16 :: ulong)"
    by (simp_all add: mask_eq_exp_minus_1)
  show ?thesis
    unfolding info_type_def info_flags_def info_revision_def CFIX_PE_API_MAKEAPIVERSION_EX_def masks
    by (intro conjI bit_word_eqI)
      (auto simp: bit_and_iff bit_or_iff bit_mask_iff bit_push_bit_iff bit_drop_bit_eq)
qed

section \<open>Leaks\<close>

lemma malloc_live: "malloc n h = (ok, h') \<Longrightarrow> Live h' = Live h + (if ok then 1 else 0)"
  by (auto simp: malloc_def split: if_splits)

lemma realloc_live: "realloc n h = (ok, h') \<Longrightarrow> Live h' = Live h"
  by (auto simp: realloc_def)

lemma free_live [simp]: "Live (free h) = Live h - 1"
  by (simp add: free_def)

lemma delete_fixtures_live [simp]:
  "Live (fold CfixsDeleteFixture fxs h) = Live h - int (length fxs)"
  by (induction fxs arbitrary: h) (simp_all add: CfixsDeleteFixture_def)

lemma create_fixture_live:
  "CfixsCreateFixture w mb n d m h = (r, h') \<Longrightarrow>
     Live h' = Live h + (case r of Inl _ \<Rightarrow> 0 | Inr _ \<Rightarrow> 1)"
  by (auto simp: CfixsCreateFixture_def dest!: malloc_live
      split: option.splits if_splits prod.splits bool.splits sum.splits)

lemma walk_exports_live:
  assumes "walk_exports w mb defs m img idxs fxs alloc h = Some (r, h')"
  shows "Live h' = Live h + int (length (case r of Inl (_, f) \<Rightarrow> f | Inr f \<Rightarrow> f)) - int (length fxs)"
  using assms
proof (induction idxs arbitrary: fxs alloc h)
  case (Cons i idxs)
  then obtain n rva where n: "nth_opt (NameTable img) i = Some n" "function_rva img i = Some rva"
    by (auto simp: bind_Some_iff)
  show ?case
  proof (cases "is_forwarder img rva \<or> \<not> CfixpIsFixtureExport w n")
    case True
    with Cons n show ?thesis by auto
  next
    case False
    define alloc' where "alloc' = (if length fxs = alloc then alloc * 2 else alloc)"
    obtain ok h1 where ok: "(if length fxs = alloc then realloc alloc' h else (True, h)) = (ok, h1)"
      by force
    then have l1: "Live h1 = Live h" by (auto dest: realloc_live split: if_splits)
    show ?thesis
    proof (cases "\<not> ok \<or> \<not> length fxs < alloc'")
      case True
      with Cons.prems n False ok l1 show ?thesis
        by (auto simp: alloc'_def Let_def split: if_splits)
    next
      case go: False
      obtain rf h2 where cf: "CfixsCreateFixture w mb n (defs rva) m h1 = (rf, h2)" by force
      note l2 = create_fixture_live [OF cf]
      have unf: "walk_exports w mb defs m img (i # idxs) fxs alloc h =
          (case rf of Inl Hr \<Rightarrow> Some (Inl (Hr, fxs), h2)
           | Inr fx \<Rightarrow> walk_exports w mb defs m img idxs (fxs @ [fx]) alloc' h2)"
        using n False ok go cf
        by (cases "length fxs = alloc"; cases rf) (simp_all add: alloc'_def Let_def)
      show ?thesis
      proof (cases rf)
        case (Inl hr)
        with Cons.prems unf l1 l2 show ?thesis by auto
      next
        case (Inr fx)
        with Cons.prems unf have "walk_exports w mb defs m img idxs (fxs @ [fx]) alloc' h2 = Some (r, h')"
          by simp
        from Cons.IH [OF this] l1 l2 Inr show ?thesis by simp
      qed
    qed
  qed
qed auto

lemma load_fixtures_live:
  assumes "CfixsLoadFixturesFromPeImage w mb defs m img h = Some (r, h')"
  shows "Live h' = Live h + (case r of Inl _ \<Rightarrow> 0 | Inr fxs \<Rightarrow> 1 + int (length fxs))"
proof -
  obtain ok h1 where m: "malloc 16 h = (ok, h1)" by force
  note l1 = malloc_live [OF m]
  show ?thesis
  proof (cases "ok \<and> NtSignatureOk img")
    case False
    with assms m l1 show ?thesis by (cases ok) (auto simp: CfixsLoadFixturesFromPeImage_def)
  next
    case True
    with assms m obtain rw h2 where
      w: "(if NumberOfFunctions img = 0 then Some (Inr [], h1)
           else walk_exports w mb defs m img [0..<length (NameTable img)] [] 16 h1) = Some (rw, h2)"
      and r: "(r, h') = (case rw of
                Inl (Hr, Fixtures) \<Rightarrow> (Inl Hr, free (fold CfixsDeleteFixture Fixtures h2))
              | Inr Fixtures \<Rightarrow> (Inr Fixtures, h2))"
      by (auto simp: CfixsLoadFixturesFromPeImage_def bind_Some_iff)
    have "Live h2 = Live h1 + int (length (case rw of Inl (_, f) \<Rightarrow> f | Inr f \<Rightarrow> f))"
      using w by (auto dest: walk_exports_live split: if_splits)
    with l1 True r show ?thesis by (cases rw) (auto split: prod.splits)
  qed
qed

text \<open>
  C25: loading leaks nothing. Whatever allocation or export fails, a load that fails leaves as
  many blocks allocated as before, and one that succeeds leaves the module, its fixture array
  and one block per fixture, which are all freed, together with the reference on the image if
  the module owns it, when the last reference to the module is released.
\<close>

theorem load_leaks_nothing:
  assumes "CfixsCreateTestModule w mb defs base_name hmod FreeImage Out h = Some (r, h')"
    and "\<forall>err. base_name = Inl err \<longrightarrow> FAILED (HRESULT_FROM_WIN32 err)"
  shows "case r of
           Inl _ \<Rightarrow> Live h' = Live h
         | Inr m \<Rightarrow> Live h' = Live h + 2 + int (length (PeFixtures m)) \<and>
             CfixsDereferenceTestModule m images h' =
               (None, if FreeImage then images - 1 else images,
                snd (CfixsDeleteTestModule m images h')) \<and>
             Live (snd (CfixsDeleteTestModule m images h')) = Live h"
proof (cases "hmod = None \<or> \<not> Out")
  case True
  with assms show ?thesis by (cases hmod) (auto simp: CfixsCreateTestModule_def)
next
  case False
  then obtain img where img: "hmod = Some img" and Out by auto
  obtain ok h1 where m: "malloc 1 h = (ok, h1)" by force
  note l1 = malloc_live [OF m]
  show ?thesis
  proof (cases "\<not> ok \<or> (\<exists>err. base_name = Inl err)")
    case True
    with assms img \<open>Out\<close> m l1 show ?thesis
      by (cases ok) (auto simp: CfixsCreateTestModule_def Let_def)
  next
    case go: False
    then obtain n where n: "base_name = Inr n" by (cases base_name) auto
    from assms(1) img \<open>Out\<close> m go n obtain rl h2 where
      l: "CfixsLoadFixturesFromPeImage w mb defs n img h1 = Some (rl, h2)"
      and r: "(r, h') = (case rl of Inl Hr \<Rightarrow> (Inl Hr, free h2)
         | Inr Fixtures \<Rightarrow> (Inr \<lparr>PeFixtures = Fixtures, PeReferenceCount = 1,
                                 FreeImageOnDeletion = FreeImage\<rparr>, h2))"
      by (auto simp: CfixsCreateTestModule_def bind_Some_iff)
    from load_fixtures_live [OF l] l1 go r show ?thesis
      by (cases rl) (auto simp: CfixsDereferenceTestModule_def CfixsDeleteTestModule_def)
  qed
qed

definition demo_image :: pe_image where
  "demo_image = \<lparr>NtSignatureOk = True, ExportDirVa = 0x1000, ExportDirSize = 0x100,
     NumberOfFunctions = 2, OrdinalBase = 1,
     NameTable = [''__CfixFixturePeDemo'', ''Other''], OrdinalTable = [1, 0],
     FunctionTable = [0x2000, 0x3000]\<rparr>"

definition demo_heap0 :: heap where
  "demo_heap0 = \<lparr>Live = 5, Requests = 0, MallocOk = (\<lambda>_ n. n < 1000)\<rparr>"

lemma demo_load:
  "\<exists>m h'. CfixsCreateTestModule True ascii_mb2wc (\<lambda>_. Some demo_def) (Inr (wide ''m''))
     (Some demo_image) True True demo_heap0 = Some (Inr m, h') \<and> length (PeFixtures m) = 1"
  by (simp add: CfixsCreateTestModule_def malloc_def demo_heap0_def demo_image_def
      CfixsLoadFixturesFromPeImage_def upt_rec nth_opt_def function_rva_def is_forwarder_def
      CfixpIsFixtureExport_def CfixpIsFixtureExport64_def CFIX_FIXTURE_EXPORT_PREFIX_MANGLED64_def
      CfixsCreateFixture_def demo_def_def fill_fixture_def ascii_mb2wc_def prefix_cch_def
      info_type_def info_flags_def info_revision_def fixture_slots_def walk_entry_def
      new_fixture_def Let_def)

theorem load_leaks_nothing_witness:
  "\<exists>m h'. CfixsCreateTestModule True ascii_mb2wc (\<lambda>_. Some demo_def) (Inr (wide ''m''))
     (Some demo_image) True True demo_heap0 = Some (Inr m, h') \<and> Live h' = 8 \<and>
     Live (snd (CfixsDeleteTestModule m 1 h')) = 5"
proof -
  from demo_load obtain m h' where r: "CfixsCreateTestModule True ascii_mb2wc (\<lambda>_. Some demo_def)
      (Inr (wide ''m'')) (Some demo_image) True True demo_heap0 = Some (Inr m, h')"
    "length (PeFixtures m) = 1" by blast
  from load_leaks_nothing [OF r(1), of 1] r show ?thesis by (simp add: demo_heap0_def)
qed

text \<open>
  Ordinals. When no ordinal of the table exceeds 16 bits after adding the base, the index
  into the function table is the table's entry, whatever the base: the detour through the
  ordinal neither loses nor gains.
\<close>

lemma ordinal_index:
  assumes "i < length (OrdinalTable img)"
    and "unat (OrdinalTable img ! i) + unat (OrdinalBase img) < 2 ^ 16"
  shows "function_rva img i = nth_opt (FunctionTable img) (unat (OrdinalTable img ! i))"
proof -
  let ?o = "OrdinalTable img ! i" and ?b = "OrdinalBase img"
  have "unat (ucast ?b :: 16 word) = unat ?b" using assms(2) by (simp add: unsigned_ucast_eq take_bit_eq_mod)
  then have "unat (?o + ucast ?b) = unat ?o + unat ?b"
    using assms(2) by (simp add: unat_word_ariths)
  then have u: "unat (ucast (?o + ucast ?b) :: 32 word) = unat ?o + unat ?b"
    using assms(2) by (simp add: unsigned_ucast_eq take_bit_eq_mod)
  then have "unat (ucast (?o + ucast ?b) - ?b :: 32 word) = unat ?o"
    by (subst unat_sub) (simp_all add: word_le_nat_alt)
  then show ?thesis using assms(1) by (simp add: function_rva_def nth_opt_def Let_def)
qed

end
