(* ===== verification/Hashtable.thy ===== *)
theory Hashtable
  imports Prelude
begin

text \<open>
  The hash table with intrusive entries that the other libraries use (\<open>jpht/jpht/hashtable.c\<close>,
  \<open>jpht/include/hashtable.h\<close>), and the interface of a map it offers.

  A bucket is the list of its entries from \<open>Flink\<close> of the list head on; an entry is its key with
  the structure around it as payload. Hash and equality routine belong to the client. \<open>alloc\<close> is
  the client's allocation routine on a size in bytes. A callback of the enumeration may remove
  the entry it is called for, which its result says, and nothing else. \<open>EntryCount\<close> and
  \<open>BucketCount\<close> are 32 bit numbers. A table without buckets, which the code excludes by an
  assertion, is outside the invariant.
\<close>

section \<open>The table\<close>

record 'e ht_entry =
  Key :: ulong_ptr
  Payload :: 'e

record 'e hashtable =
  EntryCount :: ulong
  BucketCount :: ulong
  Buckets :: "'e ht_entry list list"

type_synonym hash_routine = "ulong_ptr \<Rightarrow> ulong"
type_synonym equals_routine = "ulong_ptr \<Rightarrow> ulong_ptr \<Rightarrow> bool"

definition JphtGetEntryCountHashtable :: "'e hashtable \<Rightarrow> ulong" where
  "JphtGetEntryCountHashtable ht = EntryCount ht"

definition JphtGetBucketCountHashtable :: "'e hashtable \<Rightarrow> ulong" where
  "JphtGetBucketCountHashtable ht = BucketCount ht"

text \<open>
  The size of the bucket array: a bucket is two pointers, the product is computed in \<open>SIZE_T\<close>.
\<close>

definition table_size :: "bool \<Rightarrow> ulong \<Rightarrow> nat" where
  "table_size Win64 n =
     (if Win64 then unat (ucast n * 16 :: 64 word) else unat (n * 8 :: 32 word))"

definition JphtInitializeHashtable ::
    "bool \<Rightarrow> (nat \<Rightarrow> bool) \<Rightarrow> ulong \<Rightarrow> 'e hashtable option" where
  "JphtInitializeHashtable Win64 alloc InitialBucketCount =
     (if \<not> alloc (table_size Win64 InitialBucketCount) then None
      else Some \<lparr>EntryCount = 0, BucketCount = InitialBucketCount,
                Buckets = replicate (unat InitialBucketCount) []\<rparr>)"

definition bucket_index :: "hash_routine \<Rightarrow> 'e hashtable \<Rightarrow> ulong_ptr \<Rightarrow> nat" where
  "bucket_index Hash ht k = unat (Hash k mod BucketCount ht)"

text \<open>
  The loop of the put operation over a bucket: the entries that stay, the last one removed, and
  how many were removed.
\<close>

fun remove_equal ::
    "equals_routine \<Rightarrow> ulong_ptr \<Rightarrow> 'e ht_entry list \<Rightarrow> 'e ht_entry list \<times> 'e ht_entry option \<times> ulong"
  where
  "remove_equal Equals k [] = ([], None, 0)"
| "remove_equal Equals k (x # xs) =
     (let (stay, old, n) = remove_equal Equals k xs
      in if Equals k (Key x)
         then (stay, if old = None then Some x else old, n + 1)
         else (x # stay, old, n))"

definition JphtPutEntryHashtable ::
    "hash_routine \<Rightarrow> equals_routine \<Rightarrow> 'e ht_entry \<Rightarrow> 'e hashtable \<Rightarrow>
       'e ht_entry option \<times> 'e hashtable" where
  "JphtPutEntryHashtable Hash Equals Entry ht =
     (let i = bucket_index Hash ht (Key Entry);
          (stay, old, n) = remove_equal Equals (Key Entry) (Buckets ht ! i)
      in (old, ht\<lparr>Buckets := (Buckets ht)[i := Entry # stay],
                  EntryCount := EntryCount ht - n + 1\<rparr>))"

fun find_entry :: "equals_routine \<Rightarrow> ulong_ptr \<Rightarrow> 'e ht_entry list \<Rightarrow> 'e ht_entry option" where
  "find_entry Equals k [] = None"
| "find_entry Equals k (x # xs) =
     (if Equals (Key x) k then Some x else find_entry Equals k xs)"

definition JphtGetEntryHashtable ::
    "hash_routine \<Rightarrow> equals_routine \<Rightarrow> ulong_ptr \<Rightarrow> 'e hashtable \<Rightarrow> 'e ht_entry option" where
  "JphtGetEntryHashtable Hash Equals k ht =
     find_entry Equals k (Buckets ht ! bucket_index Hash ht k)"

fun remove_first ::
    "equals_routine \<Rightarrow> ulong_ptr \<Rightarrow> 'e ht_entry list \<Rightarrow> 'e ht_entry list \<times> 'e ht_entry option" where
  "remove_first Equals k [] = ([], None)"
| "remove_first Equals k (x # xs) =
     (if Equals (Key x) k then (xs, Some x)
      else let (stay, old) = remove_first Equals k xs in (x # stay, old))"

definition JphtRemoveEntryHashtable ::
    "hash_routine \<Rightarrow> equals_routine \<Rightarrow> ulong_ptr \<Rightarrow> 'e hashtable \<Rightarrow>
       'e ht_entry option \<times> 'e hashtable" where
  "JphtRemoveEntryHashtable Hash Equals k ht =
     (let i = bucket_index Hash ht k;
          (stay, old) = remove_first Equals k (Buckets ht ! i)
      in case old of
           None \<Rightarrow> (None, ht)
         | Some x \<Rightarrow> (Some x, ht\<lparr>Buckets := (Buckets ht)[i := stay],
                                EntryCount := EntryCount ht - 1\<rparr>))"

fun enumerate_bucket ::
    "('e ht_entry \<Rightarrow> 's \<Rightarrow> bool \<times> 's) \<Rightarrow> 'e ht_entry list \<Rightarrow> 's \<Rightarrow>
       'e ht_entry list \<times> ulong \<times> 's" where
  "enumerate_bucket Callback [] s = ([], 0, s)"
| "enumerate_bucket Callback (x # xs) s =
     (let (remove, s) = Callback x s;
          (stay, n, s) = enumerate_bucket Callback xs s
      in if remove then (stay, n + 1, s) else (x # stay, n, s))"

fun enumerate_buckets ::
    "('e ht_entry \<Rightarrow> 's \<Rightarrow> bool \<times> 's) \<Rightarrow> 'e ht_entry list list \<Rightarrow> 's \<Rightarrow>
       'e ht_entry list list \<times> ulong \<times> 's" where
  "enumerate_buckets Callback [] s = ([], 0, s)"
| "enumerate_buckets Callback (b # bs) s =
     (let (b, n, s) = enumerate_bucket Callback b s;
          (bs, m, s) = enumerate_buckets Callback bs s
      in (b # bs, n + m, s))"

definition JphtEnumerateEntries ::
    "('e ht_entry \<Rightarrow> 's \<Rightarrow> bool \<times> 's) \<Rightarrow> 'e hashtable \<Rightarrow> 's \<Rightarrow> 'e hashtable \<times> 's" where
  "JphtEnumerateEntries Callback ht s =
     (let (bs, n, s) = enumerate_buckets Callback (Buckets ht) s
      in (ht\<lparr>Buckets := bs, EntryCount := EntryCount ht - n\<rparr>, s))"

definition JphtResize ::
    "bool \<Rightarrow> (nat \<Rightarrow> bool) \<Rightarrow> hash_routine \<Rightarrow> equals_routine \<Rightarrow> ulong \<Rightarrow> 'e hashtable \<Rightarrow>
       bool \<times> 'e hashtable" where
  "JphtResize Win64 alloc Hash Equals NewBucketCount ht =
     (if \<not> alloc (table_size Win64 NewBucketCount) then (False, ht)
      else (True, fold (\<lambda>e ht. snd (JphtPutEntryHashtable Hash Equals e ht)) (concat (Buckets ht))
              \<lparr>EntryCount = 0, BucketCount = NewBucketCount,
               Buckets = replicate (unat NewBucketCount) []\<rparr>))"

section \<open>The interface of a map\<close>

text \<open>
  What a client relies on: a table is a map from classes of equivalent keys to entries. The
  laws are about lookups only; everything a client needs follows from them.
\<close>

locale map_interface =
  fixes lookup :: "'k \<Rightarrow> 't \<Rightarrow> 'e option"
    and put :: "'e \<Rightarrow> 't \<Rightarrow> 'e option \<times> 't"
    and remove :: "'k \<Rightarrow> 't \<Rightarrow> 'e option \<times> 't"
    and key_of :: "'e \<Rightarrow> 'k"
    and same :: "'k \<Rightarrow> 'k \<Rightarrow> bool"
    and inv :: "'t \<Rightarrow> bool"
  assumes same_equivp: "equivp same"
    and put_inv: "inv t \<Longrightarrow> inv (snd (put e t))"
    and put_old: "inv t \<Longrightarrow> fst (put e t) = lookup (key_of e) t"
    and put_lookup: "inv t \<Longrightarrow>
          lookup k (snd (put e t)) = (if same (key_of e) k then Some e else lookup k t)"
    and remove_inv: "inv t \<Longrightarrow> inv (snd (remove k t))"
    and remove_old: "inv t \<Longrightarrow> fst (remove k t) = lookup k t"
    and remove_lookup: "inv t \<Longrightarrow>
          lookup k' (snd (remove k t)) = (if same k k' then None else lookup k' t)"
    and lookup_same: "inv t \<Longrightarrow> same k k' \<Longrightarrow> lookup k t = lookup k' t"
begin

lemma put_put:
  assumes "inv t" and "same (key_of e) (key_of e')"
  shows "lookup k (snd (put e' (snd (put e t)))) = lookup k (snd (put e' t))"
proof -
  from same_equivp assms(2) have "same (key_of e) k = same (key_of e') k"
    by (metis equivp_def)
  with assms(1) show ?thesis by (simp add: put_lookup put_inv)
qed

lemma remove_put:
  "inv t \<Longrightarrow> same (key_of e) k \<Longrightarrow>
     lookup k' (snd (remove k (snd (put e t)))) = lookup k' (snd (remove k t))"
  using same_equivp by (simp add: put_lookup put_inv remove_lookup) (metis equivp_def)

definition put_all :: "'e list \<Rightarrow> 't \<Rightarrow> 't" where
  "put_all es t = fold (\<lambda>e t. snd (put e t)) es t"

lemma put_all_inv: "inv t \<Longrightarrow> inv (put_all es t)"
  unfolding put_all_def by (induction es arbitrary: t) (simp_all add: put_inv)

lemma put_all_lookup:
  "inv t \<Longrightarrow> lookup k (put_all es t) =
     (case find (\<lambda>e. same (key_of e) k) (rev es) of None \<Rightarrow> lookup k t | Some e \<Rightarrow> Some e)"
proof (induction es arbitrary: t)
  case (Cons e es)
  have "find P (xs @ [x]) = (case find P xs of None \<Rightarrow> if P x then Some x else None | Some y \<Rightarrow> Some y)"
    for P :: "'e \<Rightarrow> bool" and xs x by (induction xs) simp_all
  with Cons.IH [OF put_inv [OF Cons.prems]] put_lookup [OF Cons.prems] show ?case
    by (auto simp: put_all_def split: option.splits)
qed (simp add: put_all_def)

end

end
