(* ===== verification/HashtableMap.thy ===== *)
theory HashtableMap
  imports Hashtable "HOL-Library.Multiset"
begin

text \<open>
  The hash table is a map: its invariant, what each operation does to the multiset of entries,
  and the proof that every table whose hash routine respects its equality routine offers the
  interface \<open>map_interface\<close>. The clients' routines are those of \<open>cdiag/cdiag/session.c\<close> and
  \<open>cfixkern/cfixkr/filament.c\<close>.
\<close>

section \<open>Lists updated in one place\<close>

lemma in_concat_nth: "x \<in> set (concat bs) \<longleftrightarrow> (\<exists>j < length bs. x \<in> set (bs ! j))"
  using in_set_conv_nth [of _ bs] by auto

lemma mset_concat_update:
  "i < length bs \<Longrightarrow>
     mset (concat (bs[i := b])) + mset (bs ! i) = mset (concat bs) + mset b"
proof (induction bs arbitrary: i)
  case (Cons a bs)
  then show ?case by (cases i) (auto simp: ac_simps)
qed simp

lemma length_concat_update:
  assumes "i < length bs"
  shows "length (concat (bs[i := b])) + length (bs ! i) = length (concat bs) + length b"
  using arg_cong [OF mset_concat_update [OF assms, of b], of size] by simp

lemma nth_split_filter:
  assumes "i < length bs" and "\<And>j x. j < length bs \<Longrightarrow> j \<noteq> i \<Longrightarrow> x \<in> set (bs ! j) \<Longrightarrow> P x"
  shows "mset (concat (bs[i := filter P (bs ! i)])) = filter_mset P (mset (concat bs))"
  using assms
proof (induction bs arbitrary: i)
  case (Cons a bs)
  show ?case
  proof (cases i)
    case 0
    have "\<forall>x \<in> set (concat bs). P x"
    proof
      fix x assume "x \<in> set (concat bs)"
      then obtain j where "j < length bs" "x \<in> set (bs ! j)"
        unfolding in_concat_nth by blast
      with Cons.prems(2) [of "Suc j" x] 0 show "P x" by simp
    qed
    then have "filter P (concat bs) = concat bs" by (simp add: filter_id_conv)
    then have "mset (concat bs) = filter_mset P (mset (concat bs))" by (metis mset_filter)
    with 0 show ?thesis by simp
  next
    case (Suc n)
    from Cons.prems(2) [of 0] Suc have "filter P a = a" by (simp add: filter_id_conv)
    then have "filter_mset P (mset a) = mset a" by (metis mset_filter)
    moreover have "mset (concat (bs[n := filter P (bs ! n)])) = filter_mset P (mset (concat bs))"
      using Cons.prems(1) Suc Cons.prems(2) [of "Suc _"] by (intro Cons.IH) auto
    ultimately show ?thesis using Suc by simp
  qed
qed simp

section \<open>The invariant\<close>

abbreviation entries :: "'e hashtable \<Rightarrow> 'e ht_entry list" where
  "entries ht \<equiv> concat (Buckets ht)"

definition distinct_keys :: "equals_routine \<Rightarrow> 'e ht_entry list \<Rightarrow> bool" where
  "distinct_keys Equals xs = sorted_wrt (\<lambda>x y. \<not> Equals (Key x) (Key y)) xs"

definition ht_inv :: "hash_routine \<Rightarrow> equals_routine \<Rightarrow> 'e hashtable \<Rightarrow> bool" where
  "ht_inv Hash Equals ht \<longleftrightarrow>
     0 < BucketCount ht \<and> length (Buckets ht) = unat (BucketCount ht)
   \<and> (\<forall>i < length (Buckets ht). \<forall>x \<in> set (Buckets ht ! i). bucket_index Hash ht (Key x) = i)
   \<and> (\<forall>b \<in> set (Buckets ht). distinct_keys Equals b)
   \<and> EntryCount ht = of_nat (length (entries ht))"

lemma distinct_keys_simps [simp]:
  "distinct_keys Equals []"
  "distinct_keys Equals (x # xs) \<longleftrightarrow>
     (\<forall>y \<in> set xs. \<not> Equals (Key x) (Key y)) \<and> distinct_keys Equals xs"
  by (simp_all add: distinct_keys_def)

lemma distinct_keys_filter: "distinct_keys Equals xs \<Longrightarrow> distinct_keys Equals (filter P xs)"
  by (simp add: distinct_keys_def sorted_wrt_filter)

lemma bucket_index_less:
  "ht_inv Hash Equals ht \<Longrightarrow> bucket_index Hash ht k < length (Buckets ht)"
  by (simp add: ht_inv_def bucket_index_def unat_mod word_less_nat_alt)

lemma bucket_index_update [simp]:
  "bucket_index Hash (ht\<lparr>Buckets := bs\<rparr>) = bucket_index Hash ht"
  "bucket_index Hash (ht\<lparr>EntryCount := n\<rparr>) = bucket_index Hash ht"
  "bucket_index Hash (ht\<lparr>Buckets := bs, EntryCount := n\<rparr>) = bucket_index Hash ht"
  by (simp_all add: fun_eq_iff bucket_index_def)

text \<open>Any entry of the table stands in the bucket of its key.\<close>

lemma entry_bucket:
  assumes "ht_inv Hash Equals ht" and "x \<in> set (entries ht)"
  shows "x \<in> set (Buckets ht ! bucket_index Hash ht (Key x))"
proof -
  from assms(2) obtain j where "j < length (Buckets ht)" "x \<in> set (Buckets ht ! j)"
    unfolding in_concat_nth by blast
  with assms(1) show ?thesis by (auto simp: ht_inv_def)
qed

section \<open>Loops over a bucket\<close>

lemma remove_equal_stay:
  "fst (remove_equal Equals k xs) = filter (\<lambda>x. \<not> Equals k (Key x)) xs"
  by (induction xs) (simp_all add: case_prod_beta Let_def)

lemma remove_equal_count:
  "snd (snd (remove_equal Equals k xs)) + of_nat (length (fst (remove_equal Equals k xs)))
     = of_nat (length xs)"
  by (induction xs) (simp_all add: case_prod_beta Let_def algebra_simps)

lemma remove_equal_old:
  assumes "equivp Equals"
  shows "distinct_keys Equals xs \<Longrightarrow> fst (snd (remove_equal Equals k xs)) = find_entry Equals k xs"
proof (induction xs)
  case (Cons x xs)
  have sym: "Equals k (Key x) = Equals (Key x) k" using assms by (metis equivp_def)
  have none: "find_entry Equals k xs = None" if "Equals (Key x) k"
  proof -
    from that Cons.prems have "\<forall>y \<in> set xs. \<not> Equals (Key y) k"
      using assms by simp (metis equivp_def)
    then show ?thesis by (induction xs) simp_all
  qed
  show ?case using Cons sym none by (simp add: case_prod_beta Let_def)
qed simp

lemma remove_equal_eq:
  assumes "equivp Equals" and "distinct_keys Equals xs"
  shows "remove_equal Equals k xs =
           (filter (\<lambda>x. \<not> Equals k (Key x)) xs, find_entry Equals k xs,
            of_nat (length xs) - of_nat (length (filter (\<lambda>x. \<not> Equals k (Key x)) xs)))"
  using remove_equal_stay [of Equals k xs] remove_equal_old [OF assms, of k]
    remove_equal_count [of Equals k xs]
  by (cases "remove_equal Equals k xs") (auto simp: algebra_simps)

lemma find_entry_Some:
  "find_entry Equals k xs = Some x \<Longrightarrow> x \<in> set xs \<and> Equals (Key x) k"
  by (induction xs) (auto split: if_splits)

lemma find_entry_None: "find_entry Equals k xs = None \<longleftrightarrow> (\<forall>x \<in> set xs. \<not> Equals (Key x) k)"
  by (induction xs) auto

lemma find_entry_iff:
  assumes "equivp Equals" and "distinct_keys Equals xs"
  shows "find_entry Equals k xs = Some x \<longleftrightarrow> x \<in> set xs \<and> Equals (Key x) k"
  using assms(2)
proof (induction xs)
  case (Cons y ys)
  have "Equals (Key y) (Key x)" if "Equals (Key y) k" "Equals (Key x) k"
    using that assms(1) by (metis equivp_def)
  with Cons show ?case by auto
qed simp

lemma remove_first_eq:
  assumes "equivp Equals"
  shows "distinct_keys Equals xs \<Longrightarrow>
     remove_first Equals k xs = (filter (\<lambda>x. \<not> Equals k (Key x)) xs, find_entry Equals k xs)"
proof (induction xs)
  case (Cons x xs)
  have sym: "Equals k (Key y) = Equals (Key y) k" for y :: "'a ht_entry"
    using assms by (metis equivp_def)
  have all: "filter (\<lambda>y. \<not> Equals k (Key y)) xs = xs" if "Equals (Key x) k"
  proof -
    from that Cons.prems have "\<forall>y \<in> set xs. \<not> Equals k (Key y)"
      using assms by simp (metis equivp_def)
    then show ?thesis by (simp add: filter_id_conv)
  qed
  show ?case using Cons sym all by (simp add: sym)
qed simp

section \<open>A table with proper routines\<close>

text \<open>
  What the table asks of its client: equality is an equivalence, and equal keys have the same
  hash.
\<close>

locale hash_routines =
  fixes Hash :: hash_routine and Equals :: equals_routine
  assumes equals_equivp: "equivp Equals"
    and hash_equal: "Equals k k' \<Longrightarrow> Hash k = Hash k'"
begin

lemma equals_sym: "Equals a b = Equals b a"
  using equals_equivp by (metis equivp_def)

lemma equals_trans: "Equals a b \<Longrightarrow> Equals b c \<Longrightarrow> Equals a c"
  using equals_equivp by (metis equivp_def)

lemma equals_refl: "Equals a a"
  using equals_equivp by (metis equivp_def)

lemma bucket_equal: "Equals k k' \<Longrightarrow> bucket_index Hash ht k = bucket_index Hash ht k'"
  by (simp add: bucket_index_def hash_equal)

lemma bucket_distinct:
  "ht_inv Hash Equals ht \<Longrightarrow> distinct_keys Equals (Buckets ht ! bucket_index Hash ht k)"
  using bucket_index_less [of Hash Equals ht k] by (auto simp: ht_inv_def)

text \<open>A lookup finds exactly the entry with an equal key.\<close>

lemma get_iff:
  assumes "ht_inv Hash Equals ht"
  shows "JphtGetEntryHashtable Hash Equals k ht = Some x \<longleftrightarrow>
           x \<in> set (entries ht) \<and> Equals (Key x) k"
proof -
  have "x \<in> set (Buckets ht ! bucket_index Hash ht k) \<longleftrightarrow> x \<in> set (entries ht)"
    if "Equals (Key x) k"
    using entry_bucket [OF assms, of x] bucket_index_less [OF assms, of k] bucket_equal [OF that]
    unfolding in_concat_nth by metis
  then show ?thesis
    unfolding JphtGetEntryHashtable_def
    using find_entry_iff [OF equals_equivp bucket_distinct [OF assms]] by blast
qed

lemma get_None:
  assumes "ht_inv Hash Equals ht"
  shows "JphtGetEntryHashtable Hash Equals k ht = None \<longleftrightarrow>
           (\<forall>x \<in> set (entries ht). \<not> Equals (Key x) k)"
  using get_iff [OF assms, of k] by (metis not_Some_eq)

lemma get_eqI:
  assumes "ht_inv Hash Equals ht" "ht_inv Hash Equals ht'"
    and "\<And>x. Equals (Key x) k \<Longrightarrow> Equals (Key x) k' \<Longrightarrow> x \<in> set (entries ht) \<longleftrightarrow> x \<in> set (entries ht')"
    and "Equals k k'"
  shows "JphtGetEntryHashtable Hash Equals k ht = JphtGetEntryHashtable Hash Equals k' ht'"
proof -
  have "JphtGetEntryHashtable Hash Equals k ht = Some x \<longleftrightarrow>
        JphtGetEntryHashtable Hash Equals k' ht' = Some x" for x
    using assms(3) [of x] equals_trans assms(4) equals_sym
    unfolding get_iff [OF assms(1)] get_iff [OF assms(2)] by blast
  then show ?thesis by (metis not_Some_eq)
qed

lemma drop_equal_bucket:
  assumes "ht_inv Hash Equals ht"
  shows "mset (concat ((Buckets ht)[bucket_index Hash ht k :=
             filter (\<lambda>x. \<not> Equals k (Key x)) (Buckets ht ! bucket_index Hash ht k)]))
         = filter_mset (\<lambda>x. \<not> Equals k (Key x)) (mset (entries ht))"
proof (rule nth_split_filter [OF bucket_index_less [OF assms]])
  fix j x assume j: "j < length (Buckets ht)" "j \<noteq> bucket_index Hash ht k" "x \<in> set (Buckets ht ! j)"
  with assms have "bucket_index Hash ht (Key x) = j" by (auto simp: ht_inv_def)
  with j(2) bucket_equal show "\<not> Equals k (Key x)" by metis
qed

lemma put_entries:
  assumes "ht_inv Hash Equals ht"
  shows "mset (entries (snd (JphtPutEntryHashtable Hash Equals e ht))) =
           add_mset e (filter_mset (\<lambda>x. \<not> Equals (Key e) (Key x)) (mset (entries ht)))"
proof -
  let ?i = "bucket_index Hash ht (Key e)"
  let ?f = "filter (\<lambda>x. \<not> Equals (Key e) (Key x)) (Buckets ht ! ?i)"
  have i: "?i < length (Buckets ht)" by (rule bucket_index_less [OF assms])
  have "mset (concat ((Buckets ht)[?i := e # ?f])) + mset (Buckets ht ! ?i) =
        add_mset e (mset (concat ((Buckets ht)[?i := ?f]))) + mset (Buckets ht ! ?i)"
    using mset_concat_update [OF i, of "e # ?f"] mset_concat_update [OF i, of ?f] by simp
  then show ?thesis
    using drop_equal_bucket [OF assms, of "Key e"]
      remove_equal_eq [OF equals_equivp bucket_distinct [OF assms, of "Key e"], of "Key e"]
    by (simp add: JphtPutEntryHashtable_def Let_def)
qed

lemma remove_entries:
  assumes "ht_inv Hash Equals ht"
  shows "mset (entries (snd (JphtRemoveEntryHashtable Hash Equals k ht))) =
           filter_mset (\<lambda>x. \<not> Equals k (Key x)) (mset (entries ht))"
proof -
  let ?i = "bucket_index Hash ht k"
  note rm = remove_first_eq [OF equals_equivp bucket_distinct [OF assms, of k], of k]
  show ?thesis
  proof (cases "find_entry Equals k (Buckets ht ! ?i)")
    case None
    then have "\<forall>x \<in> set (entries ht). \<not> Equals k (Key x)"
      using get_None [OF assms, of k] equals_sym by (auto simp: JphtGetEntryHashtable_def)
    then have "filter (\<lambda>x. \<not> Equals k (Key x)) (entries ht) = entries ht"
      by (simp add: filter_id_conv)
    then have "filter_mset (\<lambda>x. \<not> Equals k (Key x)) (mset (entries ht)) = mset (entries ht)"
      by (metis mset_filter)
    with None rm show ?thesis by (simp add: JphtRemoveEntryHashtable_def Let_def)
  next
    case (Some x)
    with rm drop_equal_bucket [OF assms, of k] show ?thesis
      by (simp add: JphtRemoveEntryHashtable_def Let_def)
  qed
qed

lemma update_inv:
  assumes "ht_inv Hash Equals ht" and "i = bucket_index Hash ht k"
    and "\<forall>x \<in> set b. bucket_index Hash ht (Key x) = i" and "distinct_keys Equals b"
    and "n = of_nat (length (concat ((Buckets ht)[i := b])))"
  shows "ht_inv Hash Equals (ht\<lparr>Buckets := (Buckets ht)[i := b], EntryCount := n\<rparr>)"
proof -
  have "distinct_keys Equals c" if "c \<in> set ((Buckets ht)[i := b])" for c
    using that assms(1,4) set_update_subset_insert [of "Buckets ht" i b] by (auto simp: ht_inv_def)
  moreover have "bucket_index Hash ht (Key x) = j"
    if "j < length (Buckets ht)" "x \<in> set ((Buckets ht)[i := b] ! j)" for j x
    using that assms(1,3) by (cases "j = i") (auto simp: ht_inv_def)
  ultimately show ?thesis using assms(1,5) by (simp add: ht_inv_def)
qed

lemma bucket_keys:
  "ht_inv Hash Equals ht \<Longrightarrow> x \<in> set (Buckets ht ! bucket_index Hash ht k) \<Longrightarrow>
     bucket_index Hash ht (Key x) = bucket_index Hash ht k"
  using bucket_index_less [of Hash Equals ht k] by (auto simp: ht_inv_def)

lemma count_update:
  assumes "ht_inv Hash Equals ht" and "i = bucket_index Hash ht k"
  shows "of_nat (length (concat ((Buckets ht)[i := b]))) =
           EntryCount ht - of_nat (length (Buckets ht ! i)) + of_nat (length b)"
proof -
  have "length (concat ((Buckets ht)[i := b])) + length (Buckets ht ! i) =
        length (entries ht) + length b"
    using length_concat_update bucket_index_less [OF assms(1)] assms(2) by blast
  then have "(of_nat (length (concat ((Buckets ht)[i := b]))) :: ulong)
               + of_nat (length (Buckets ht ! i)) = of_nat (length (entries ht)) + of_nat (length b)"
    by (metis of_nat_add)
  then show ?thesis using assms(1) by (simp add: ht_inv_def algebra_simps)
qed

lemma put_inv:
  assumes "ht_inv Hash Equals ht"
  shows "ht_inv Hash Equals (snd (JphtPutEntryHashtable Hash Equals e ht))"
proof -
  let ?k = "Key e" and ?b = "Buckets ht ! bucket_index Hash ht (Key e)"
  let ?f = "filter (\<lambda>x. \<not> Equals ?k (Key x)) ?b"
  have "ht_inv Hash Equals (ht\<lparr>Buckets := (Buckets ht)[bucket_index Hash ht ?k := e # ?f],
          EntryCount := EntryCount ht - (of_nat (length ?b) - of_nat (length ?f)) + 1\<rparr>)"
  proof (rule update_inv [OF assms refl])
    show "\<forall>x \<in> set (e # ?f). bucket_index Hash ht (Key x) = bucket_index Hash ht ?k"
      using bucket_keys [OF assms] by auto
    show "distinct_keys Equals (e # ?f)"
      using distinct_keys_filter [OF bucket_distinct [OF assms]] by simp
    show "EntryCount ht - (of_nat (length ?b) - of_nat (length ?f)) + 1 =
        of_nat (length (concat ((Buckets ht)[bucket_index Hash ht ?k := e # ?f])))"
      unfolding count_update [OF assms refl] by (simp add: algebra_simps)
  qed
  then show ?thesis
    using remove_equal_eq [OF equals_equivp bucket_distinct [OF assms, of ?k], of ?k]
    by (simp add: JphtPutEntryHashtable_def Let_def)
qed

lemma put_old:
  "ht_inv Hash Equals ht \<Longrightarrow>
     fst (JphtPutEntryHashtable Hash Equals e ht) = JphtGetEntryHashtable Hash Equals (Key e) ht"
  using remove_equal_eq [OF equals_equivp bucket_distinct, of ht "Key e" "Key e"]
  by (simp add: JphtPutEntryHashtable_def JphtGetEntryHashtable_def Let_def)

lemma filter_one:
  assumes "distinct_keys Equals xs" and "find_entry Equals k xs = Some x"
  shows "length (filter (\<lambda>x. \<not> Equals k (Key x)) xs) + 1 = length xs"
  using assms
proof (induction xs)
  case (Cons y ys)
  show ?case
  proof (cases "Equals (Key y) k")
    case True
    with Cons.prems(1) have "\<forall>z \<in> set ys. \<not> Equals k (Key z)"
      using equals_trans by auto
    with True equals_sym [of k "Key y"] show ?thesis by (simp add: filter_id_conv)
  qed (use Cons equals_sym [of k "Key y"] in simp)
qed simp

lemma remove_inv:
  assumes "ht_inv Hash Equals ht"
  shows "ht_inv Hash Equals (snd (JphtRemoveEntryHashtable Hash Equals k ht))"
proof -
  let ?b = "Buckets ht ! bucket_index Hash ht k"
  let ?f = "filter (\<lambda>x. \<not> Equals k (Key x)) ?b"
  note rm = remove_first_eq [OF equals_equivp bucket_distinct [OF assms, of k], of k]
  show ?thesis
  proof (cases "find_entry Equals k ?b")
    case None
    with rm assms show ?thesis by (simp add: JphtRemoveEntryHashtable_def Let_def)
  next
    case (Some x)
    from filter_one [OF bucket_distinct [OF assms] Some]
    have one: "(of_nat (length ?f) :: ulong) + 1 = of_nat (length ?b)" by (metis of_nat_Suc Suc_eq_plus1 add.commute)
    have "ht_inv Hash Equals (ht\<lparr>Buckets := (Buckets ht)[bucket_index Hash ht k := ?f],
            EntryCount := EntryCount ht - 1\<rparr>)"
    proof (rule update_inv [OF assms refl])
      show "\<forall>x \<in> set ?f. bucket_index Hash ht (Key x) = bucket_index Hash ht k"
        using bucket_keys [OF assms] by auto
      show "distinct_keys Equals ?f"
        using distinct_keys_filter [OF bucket_distinct [OF assms]] by simp
      show "EntryCount ht - 1 = of_nat (length (concat ((Buckets ht)[bucket_index Hash ht k := ?f])))"
        unfolding count_update [OF assms refl] using one by (simp add: algebra_simps)
    qed
    with rm Some show ?thesis by (simp add: JphtRemoveEntryHashtable_def Let_def)
  qed
qed

lemma remove_old:
  "ht_inv Hash Equals ht \<Longrightarrow>
     fst (JphtRemoveEntryHashtable Hash Equals k ht) = JphtGetEntryHashtable Hash Equals k ht"
  using remove_first_eq [OF equals_equivp bucket_distinct, of ht k k]
  by (simp add: JphtRemoveEntryHashtable_def JphtGetEntryHashtable_def Let_def split: option.split)

lemma put_lookup:
  assumes inv: "ht_inv Hash Equals ht"
  shows "JphtGetEntryHashtable Hash Equals k (snd (JphtPutEntryHashtable Hash Equals e ht)) =
           (if Equals (Key e) k then Some e else JphtGetEntryHashtable Hash Equals k ht)"
proof -
  let ?t = "snd (JphtPutEntryHashtable Hash Equals e ht)"
  have "set (entries ?t) = insert e {x \<in> set (entries ht). \<not> Equals (Key e) (Key x)}"
    using arg_cong [OF put_entries [OF inv, of e], of set_mset]
    by (simp only: set_mset_mset set_mset_add_mset_insert set_mset_filter)
  then have set: "x \<in> set (entries ?t) \<longleftrightarrow>
      x = e \<or> x \<in> set (entries ht) \<and> \<not> Equals (Key e) (Key x)" for x
    by (simp only:) blast
  show ?thesis
  proof (cases "Equals (Key e) k")
    case True
    then show ?thesis using get_iff [OF put_inv [OF inv], of k e e] set by simp
  next
    case False
    have "JphtGetEntryHashtable Hash Equals k ?t = JphtGetEntryHashtable Hash Equals k ht"
    proof (rule get_eqI [OF put_inv [OF inv] inv _ equals_refl])
      fix x :: "'a ht_entry" assume "Equals (Key x) k"
      with False equals_trans [of "Key e" "Key x" k] show
        "x \<in> set (entries ?t) \<longleftrightarrow> x \<in> set (entries ht)" unfolding set by auto
    qed
    with False show ?thesis by simp
  qed
qed

lemma remove_lookup:
  assumes inv: "ht_inv Hash Equals ht"
  shows "JphtGetEntryHashtable Hash Equals k' (snd (JphtRemoveEntryHashtable Hash Equals k ht)) =
           (if Equals k k' then None else JphtGetEntryHashtable Hash Equals k' ht)"
proof -
  let ?t = "snd (JphtRemoveEntryHashtable Hash Equals k ht)"
  have "set (entries ?t) = {x \<in> set (entries ht). \<not> Equals k (Key x)}"
    using arg_cong [OF remove_entries [OF inv, of k], of set_mset]
    by (simp only: set_mset_mset set_mset_filter)
  then have set: "x \<in> set (entries ?t) \<longleftrightarrow> x \<in> set (entries ht) \<and> \<not> Equals k (Key x)" for x
    by (simp only:) blast
  show ?thesis
  proof (cases "Equals k k'")
    case True
    have "\<not> Equals (Key x) k'" if "x \<in> set (entries ?t)" for x
      using that True equals_trans [of k k' "Key x"] equals_sym unfolding set by blast
    with True get_None [OF remove_inv [OF inv], of k' k] show ?thesis by simp
  next
    case False
    have "JphtGetEntryHashtable Hash Equals k' ?t = JphtGetEntryHashtable Hash Equals k' ht"
    proof (rule get_eqI [OF remove_inv [OF inv] inv _ equals_refl])
      fix x :: "'a ht_entry" assume "Equals (Key x) k'"
      with False equals_trans [of k "Key x" k'] show
        "x \<in> set (entries ?t) \<longleftrightarrow> x \<in> set (entries ht)" unfolding set by auto
    qed
    with False show ?thesis by simp
  qed
qed

text \<open>The entries of a table have pairwise different keys.\<close>

lemma entries_distinct:
  assumes "ht_inv Hash Equals ht"
  shows "distinct_keys Equals (entries ht)"
proof -
  have "distinct_keys Equals (concat bs)"
    if "\<forall>b \<in> set bs. distinct_keys Equals b"
      and "\<forall>i < length bs. \<forall>x \<in> set (bs ! i). idx (Key x) = m + i"
      and "\<And>k k'. Equals k k' \<Longrightarrow> idx k = idx k'" for bs :: "'a ht_entry list list" and m :: nat and idx
    using that
  proof (induction bs arbitrary: m)
    case (Cons b bs)
    have tl: "\<forall>i < length bs. \<forall>x \<in> set (bs ! i). idx (Key x) = Suc m + i"
    proof (intro allI impI ballI)
      fix i x assume "i < length bs" "x \<in> set (bs ! i)"
      with Cons.prems(2) have "idx (Key x) = m + Suc i"
        by (metis Suc_less_eq length_Cons nth_Cons_Suc)
      then show "idx (Key x) = Suc m + i" by simp
    qed
    have "idx (Key x) = m" if "x \<in> set b" for x
      using Cons.prems(2) that by (metis add_0_right length_greater_0_conv list.discI nth_Cons_0)
    moreover have "idx (Key y) \<noteq> m" if "y \<in> set (concat bs)" for y
    proof -
      from that obtain j where "j < length bs" "y \<in> set (bs ! j)" unfolding in_concat_nth by blast
      with tl have "idx (Key y) = Suc m + j" by blast
      then show ?thesis by simp
    qed
    ultimately have "\<forall>x \<in> set b. \<forall>y \<in> set (concat bs). \<not> Equals (Key x) (Key y)"
      using Cons.prems(3) by metis
    moreover have "distinct_keys Equals (concat bs)"
      using Cons.prems(1,3) tl by (intro Cons.IH [of "Suc m"]) auto
    ultimately show ?case
      using Cons.prems(1) by (auto simp: distinct_keys_def sorted_wrt_append)
  qed simp
  from this [of "Buckets ht" "bucket_index Hash ht" 0] assms bucket_equal show ?thesis
    by (auto simp: ht_inv_def)
qed

lemma filter_equal:
  assumes "distinct_keys Equals xs"
  shows "filter (\<lambda>x. Equals k (Key x)) xs = (case find_entry Equals k xs of None \<Rightarrow> [] | Some x \<Rightarrow> [x])"
  using assms
proof (induction xs)
  case (Cons y ys)
  show ?case
  proof (cases "Equals (Key y) k")
    case True
    with Cons.prems have "\<forall>z \<in> set ys. \<not> Equals k (Key z)" using equals_trans by auto
    with True equals_sym [of k "Key y"] show ?thesis by (simp add: filter_empty_conv)
  qed (use Cons equals_sym [of k "Key y"] in simp)
qed simp

lemma get_find:
  assumes "ht_inv Hash Equals ht"
  shows "JphtGetEntryHashtable Hash Equals k ht = find_entry Equals k (entries ht)"
  using get_iff [OF assms, of k] find_entry_iff [OF equals_equivp entries_distinct [OF assms], of k]
  by (metis not_Some_eq)

text \<open>Nothing is lost: what the put operation drops from the table it hands out.\<close>

lemma put_balance:
  assumes "ht_inv Hash Equals ht"
  shows "mset (entries (snd (JphtPutEntryHashtable Hash Equals e ht)))
           + mset (case fst (JphtPutEntryHashtable Hash Equals e ht) of None \<Rightarrow> [] | Some x \<Rightarrow> [x])
         = add_mset e (mset (entries ht))"
proof -
  have "mset (filter (\<lambda>x. Equals (Key e) (Key x)) (entries ht)) =
      mset (case fst (JphtPutEntryHashtable Hash Equals e ht) of None \<Rightarrow> [] | Some x \<Rightarrow> [x])"
    using filter_equal [OF entries_distinct [OF assms]] put_old [OF assms, of e]
      get_find [OF assms] by simp
  then have "mset (case fst (JphtPutEntryHashtable Hash Equals e ht) of None \<Rightarrow> [] | Some x \<Rightarrow> [x])
      = filter_mset (\<lambda>x. Equals (Key e) (Key x)) (mset (entries ht))" by (metis mset_filter)
  then show ?thesis
    using put_entries [OF assms, of e] multiset_partition
      [of "mset (entries ht)" "\<lambda>x. Equals (Key e) (Key x)"] by (simp add: ac_simps)
qed

end

text \<open>The interface holds for every such table.\<close>

sublocale hash_routines \<subseteq> table: map_interface
  "JphtGetEntryHashtable Hash Equals" "JphtPutEntryHashtable Hash Equals"
  "JphtRemoveEntryHashtable Hash Equals" Key Equals "ht_inv Hash Equals"
proof unfold_locales
  show "equivp Equals" by (rule equals_equivp)
  show "JphtGetEntryHashtable Hash Equals k t = JphtGetEntryHashtable Hash Equals k' t"
    if "ht_inv Hash Equals t" "Equals k k'" for t :: "'a hashtable" and k k'
    using that by (intro get_eqI) auto
qed (simp_all add: put_inv put_old put_lookup remove_inv remove_old remove_lookup)

end
