(* ===== verification/HashtableProps.thy ===== *)
theory HashtableProps
  imports HashtableMap
begin

text \<open>
  Resizing and enumeration of the hash table, the tables a client can reach, the routines of the
  two clients, and the properties of the table.
\<close>

section \<open>Resizing\<close>

context hash_routines begin

definition put_each :: "'e ht_entry list \<Rightarrow> 'e hashtable \<Rightarrow> 'e hashtable" where
  "put_each xs ht = fold (\<lambda>e ht. snd (JphtPutEntryHashtable Hash Equals e ht)) xs ht"

lemma put_each_inv: "ht_inv Hash Equals ht \<Longrightarrow> ht_inv Hash Equals (put_each xs ht)"
  unfolding put_each_def by (induction xs arbitrary: ht) (simp_all add: put_inv)

lemma put_each_entries:
  assumes "ht_inv Hash Equals ht" and "distinct_keys Equals xs"
    and "\<forall>x \<in> set xs. \<forall>y \<in> set (entries ht). \<not> Equals (Key x) (Key y)"
  shows "mset (entries (put_each xs ht)) = mset xs + mset (entries ht)"
  using assms
proof (induction xs arbitrary: ht)
  case (Cons x xs)
  let ?t = "snd (JphtPutEntryHashtable Hash Equals x ht)"
  have "filter (\<lambda>y. \<not> Equals (Key x) (Key y)) (entries ht) = entries ht"
    using Cons.prems(3) by (simp add: filter_id_conv)
  then have "filter_mset (\<lambda>y. \<not> Equals (Key x) (Key y)) (mset (entries ht)) = mset (entries ht)"
    by (metis mset_filter)
  then have t: "mset (entries ?t) = add_mset x (mset (entries ht))"
    using put_entries [OF Cons.prems(1), of x] by simp
  have "set (entries ?t) = insert x (set (entries ht))"
    using arg_cong [OF t, of set_mset] by (simp only: set_mset_mset set_mset_add_mset_insert)
  moreover have "\<not> Equals (Key z) (Key x)" if "z \<in> set xs" for z
    using that Cons.prems(2) equals_sym by auto
  ultimately have "\<forall>z \<in> set xs. \<forall>y \<in> set (entries ?t). \<not> Equals (Key z) (Key y)"
    using Cons.prems(3) by simp
  with Cons.IH [OF put_inv [OF Cons.prems(1)]] Cons.prems(2) t show ?case
    by (simp add: put_each_def)
qed (simp add: put_each_def)

lemma empty_inv:
  "0 < n \<Longrightarrow> ht_inv Hash Equals
     \<lparr>EntryCount = 0, BucketCount = n, Buckets = replicate (unat n) []\<rparr>"
  by (simp add: ht_inv_def)

lemma resize_cases:
  assumes "ht_inv Hash Equals ht" and "0 < n" and "JphtResize Win64 alloc Hash Equals n ht = (ok, ht')"
  shows "ht_inv Hash Equals ht' \<and> mset (entries ht') = mset (entries ht)
       \<and> (ok \<longrightarrow> BucketCount ht' = n) \<and> (\<not> ok \<longrightarrow> ht' = ht)"
proof (cases ok)
  case True
  let ?e = "\<lparr>EntryCount = 0, BucketCount = n, Buckets = replicate (unat n) []\<rparr> :: 'a hashtable"
  from True assms(3) have ht': "ht' = put_each (entries ht) ?e"
    by (auto simp: JphtResize_def put_each_def split: if_splits)
  have "entries ?e = []" by simp
  then have "mset (entries ht') = mset (entries ht)"
    using put_each_entries [OF empty_inv [OF assms(2)] entries_distinct [OF assms(1)]] ht' by simp
  moreover have "BucketCount (put_each xs t) = BucketCount t" for xs and t :: "'a hashtable"
    unfolding put_each_def
    by (induction xs arbitrary: t) (simp_all add: JphtPutEntryHashtable_def Let_def case_prod_beta)
  ultimately show ?thesis using True ht' put_each_inv [OF empty_inv [OF assms(2)]] by simp
next
  case False
  with assms(1,3) show ?thesis by (auto simp: JphtResize_def split: if_splits)
qed

lemma same_entries_same_lookup:
  assumes "ht_inv Hash Equals ht" "ht_inv Hash Equals ht'" "mset (entries ht') = mset (entries ht)"
  shows "JphtGetEntryHashtable Hash Equals k ht' = JphtGetEntryHashtable Hash Equals k ht"
  using arg_cong [OF assms(3), of set_mset] equals_refl
  by (intro get_eqI assms) (simp_all only: set_mset_mset)

end

section \<open>Enumeration\<close>

lemma enumerate_bucket_eq:
  "enumerate_bucket (\<lambda>e s. (rm e, f e s)) xs s =
     (filter (\<lambda>e. \<not> rm e) xs, of_nat (length (filter rm xs)), fold f xs s)"
  by (induction xs arbitrary: s) (simp_all add: add.commute)

lemma enumerate_buckets_eq:
  "enumerate_buckets (\<lambda>e s. (rm e, f e s)) bs s =
     (map (filter (\<lambda>e. \<not> rm e)) bs, of_nat (length (filter rm (concat bs))), fold f (concat bs) s)"
  by (induction bs arbitrary: s) (simp_all add: enumerate_bucket_eq)

lemma enumerate_eq:
  "JphtEnumerateEntries (\<lambda>e s. (rm e, f e s)) ht s =
     (ht\<lparr>Buckets := map (filter (\<lambda>e. \<not> rm e)) (Buckets ht),
         EntryCount := EntryCount ht - of_nat (length (filter rm (entries ht)))\<rparr>,
      fold f (entries ht) s)"
  by (simp add: JphtEnumerateEntries_def enumerate_buckets_eq)

lemma concat_map_filter: "concat (map (filter P) bs) = filter P (concat bs)"
  by (induction bs) simp_all

lemma enumerate_bucket_keeps:
  assumes "enumerate_bucket Callback xs s = (stay, n, s')"
  shows "set stay \<subseteq> set xs \<and> n + of_nat (length stay) = of_nat (length xs)
       \<and> (distinct_keys Equals xs \<longrightarrow> distinct_keys Equals stay)"
  using assms
proof (induction xs arbitrary: s stay n s')
  case (Cons x xs)
  obtain r t where r: "Callback x s = (r, t)" by (cases "Callback x s") auto
  obtain stay' n' t' where e: "enumerate_bucket Callback xs t = (stay', n', t')"
    by (cases "enumerate_bucket Callback xs t") auto
  note H = Cons.IH [OF e]
  then have "n' + 1 + of_nat (length stay') = 1 + of_nat (length xs)" by (simp add: algebra_simps)
  moreover have "distinct_keys Equals (x # stay')" if "distinct_keys Equals (x # xs)"
    using that H by (metis distinct_keys_simps(2) subsetD)
  ultimately show ?case using H Cons.prems r e by (cases r) (auto simp: algebra_simps)
qed simp

lemma enumerate_buckets_keeps:
  assumes "enumerate_buckets Callback bs s = (bs', n, s')"
  shows "length bs' = length bs \<and> n + of_nat (length (concat bs')) = of_nat (length (concat bs))
       \<and> (\<forall>i < length bs. set (bs' ! i) \<subseteq> set (bs ! i))
       \<and> ((\<forall>b \<in> set bs. distinct_keys Equals b) \<longrightarrow> (\<forall>b \<in> set bs'. distinct_keys Equals b))"
  using assms
proof (induction bs arbitrary: s bs' n s')
  case (Cons b bs)
  obtain c m t where b: "enumerate_bucket Callback b s = (c, m, t)"
    by (cases "enumerate_bucket Callback b s") auto
  obtain cs k t' where e: "enumerate_buckets Callback bs t = (cs, k, t')"
    by (cases "enumerate_buckets Callback bs t") auto
  from Cons.prems b e have r: "bs' = c # cs" "n = m + k" by auto
  note H = Cons.IH [OF e] and B = enumerate_bucket_keeps [OF b, of Equals]
  have "set ((c # cs) ! i) \<subseteq> set ((b # bs) ! i)" if "i < length (b # bs)" for i
    using that H B by (cases i) auto
  moreover have "n + of_nat (length (concat bs')) =
      (m + of_nat (length c)) + (k + of_nat (length (concat cs)))"
    using r by (simp add: algebra_simps)
  then have "n + of_nat (length (concat bs')) = of_nat (length (concat (b # bs)))"
    using H B by simp
  ultimately show ?case using H B r(1) by simp
qed simp

lemma enumerate_inv:
  assumes "ht_inv Hash Equals ht"
  shows "ht_inv Hash Equals (fst (JphtEnumerateEntries Callback ht s))"
proof -
  obtain bs n s' where e: "enumerate_buckets Callback (Buckets ht) s = (bs, n, s')"
    by (cases "enumerate_buckets Callback (Buckets ht) s") auto
  note k = enumerate_buckets_keeps [OF e, of Equals]
  have "bucket_index Hash ht (Key x) = i" if "i < length (Buckets ht)" "x \<in> set (bs ! i)" for i x
    using that k assms unfolding ht_inv_def by blast
  moreover have "EntryCount ht - n = of_nat (length (concat bs))"
    using assms k by (simp add: ht_inv_def algebra_simps)
  ultimately show ?thesis
    using assms k by (simp add: ht_inv_def JphtEnumerateEntries_def e)
qed

section \<open>The tables a client can reach\<close>

text \<open>
  The requested size is the size of the buckets. On 32 bit systems the product of the code wraps
  around for large counts, which its test cannot see.
\<close>

definition size_fits :: "bool \<Rightarrow> ulong \<Rightarrow> bool" where
  "size_fits Win64 n \<longleftrightarrow> table_size Win64 n = unat n * (if Win64 then 16 else 8)"

inductive ht_reachable ::
    "hash_routine \<Rightarrow> equals_routine \<Rightarrow> 'e hashtable \<Rightarrow> bool"
  for Hash Equals where
  initialized: "0 < n \<Longrightarrow> size_fits Win64 n \<Longrightarrow>
     JphtInitializeHashtable Win64 alloc n = Some ht \<Longrightarrow> ht_reachable Hash Equals ht"
| put: "ht_reachable Hash Equals ht \<Longrightarrow>
     JphtPutEntryHashtable Hash Equals e ht = (old, ht') \<Longrightarrow> ht_reachable Hash Equals ht'"
| remove: "ht_reachable Hash Equals ht \<Longrightarrow>
     JphtRemoveEntryHashtable Hash Equals k ht = (old, ht') \<Longrightarrow> ht_reachable Hash Equals ht'"
| enumerate: "ht_reachable Hash Equals ht \<Longrightarrow>
     JphtEnumerateEntries Callback ht (s :: nat) = (ht', s') \<Longrightarrow> ht_reachable Hash Equals ht'"
| resize: "ht_reachable Hash Equals ht \<Longrightarrow> 0 < n \<Longrightarrow> size_fits Win64 n \<Longrightarrow>
     JphtResize Win64 alloc Hash Equals n ht = (ok, ht') \<Longrightarrow> ht_reachable Hash Equals ht'"

lemma ht_reachable_inv:
  assumes "ht_reachable Hash Equals ht" and "hash_routines Hash Equals"
  shows "ht_inv Hash Equals ht"
  using assms(1)
proof induction
  case (initialized n Win64 alloc ht)
  then show ?case
    using hash_routines.empty_inv [OF assms(2)]
    by (auto simp: JphtInitializeHashtable_def split: if_splits)
next
  case (put ht e old ht')
  then show ?case using hash_routines.put_inv [OF assms(2)] by (metis snd_conv)
next
  case (remove ht k old ht')
  then show ?case using hash_routines.remove_inv [OF assms(2)] by (metis snd_conv)
next
  case (enumerate ht Callback s ht' s')
  then show ?case by (metis enumerate_inv fst_conv)
next
  case (resize ht n Win64 alloc ok ht')
  then show ?case using hash_routines.resize_cases [OF assms(2)] by blast
qed

lemma size_always_fits_64: "size_fits True n"
proof -
  have "unat n < 2 ^ LENGTH(32)" by (rule unsigned_less)
  then show ?thesis
    by (simp add: size_fits_def table_size_def unat_word_ariths unsigned_ucast_eq take_bit_eq_mod)
qed

lemma size_wraps_32: "table_size False 0x20000000 = 0"
  by (simp add: table_size_def)

section \<open>The routines of the clients\<close>

definition CdiagsHashEventType :: hash_routine where
  "CdiagsHashEventType k = ucast k"

definition CdiagsEqualsEventType :: equals_routine where
  "CdiagsEqualsEventType KeyLhs KeyRhs \<longleftrightarrow> (ucast KeyLhs :: dword) = ucast KeyRhs"

definition CfixkrsHashFilamentEntry :: hash_routine where
  "CfixkrsHashFilamentEntry k = ucast k"

definition CfixkrsEqualsFilamentEntry :: equals_routine where
  "CfixkrsEqualsFilamentEntry KeyLhs KeyRhs \<longleftrightarrow> KeyLhs = KeyRhs"

interpretation handler_table: hash_routines CdiagsHashEventType CdiagsEqualsEventType
  by unfold_locales
    (auto simp: CdiagsHashEventType_def CdiagsEqualsEventType_def
      intro!: equivpI reflpI sympI transpI)

interpretation filament_table: hash_routines CfixkrsHashFilamentEntry CfixkrsEqualsFilamentEntry
  by unfold_locales
    (auto simp: CfixkrsHashFilamentEntry_def CfixkrsEqualsFilamentEntry_def
      intro!: equivpI reflpI sympI transpI)

section \<open>Properties\<close>

definition demo_table :: "nat hashtable" where
  "demo_table = snd (JphtPutEntryHashtable CdiagsHashEventType CdiagsEqualsEventType
     \<lparr>Key = 0x100000002, Payload = 7\<rparr>
     (snd (JphtPutEntryHashtable CdiagsHashEventType CdiagsEqualsEventType
        \<lparr>Key = 25, Payload = 5\<rparr> (the (JphtInitializeHashtable True (\<lambda>_. True) 23)))))"

lemma handler_routines_ok:
  "equivp CdiagsEqualsEventType"
  "\<forall>k k'. CdiagsEqualsEventType k k' \<longrightarrow> CdiagsHashEventType k = CdiagsHashEventType k'"
  by (simp_all add: handler_table.equals_equivp handler_table.hash_equal)

lemma demo_reachable: "ht_reachable CdiagsHashEventType CdiagsEqualsEventType demo_table"
proof -
  have "ht_reachable CdiagsHashEventType CdiagsEqualsEventType
      (the (JphtInitializeHashtable True (\<lambda>_. True) 23) :: nat hashtable)"
    by (rule ht_reachable.initialized [of 23 True "\<lambda>_. True"])
      (simp_all add: size_always_fits_64 JphtInitializeHashtable_def)
  then show ?thesis unfolding demo_table_def
    by (metis ht_reachable.put prod.collapse)
qed

text \<open>
  C28: the table is a map. In every table a client can reach, the put operation binds the key of
  its entry and hands out the entry bound before, the remove operation unbinds a key and hands
  out its entry, and every other key keeps its binding; equal keys have one binding.
\<close>

theorem hashtable_is_map:
  assumes "equivp Equals" and "\<forall>k k'. Equals k k' \<longrightarrow> Hash k = Hash k'"
    and "ht_reachable Hash Equals ht"
  shows "fst (JphtPutEntryHashtable Hash Equals e ht) = JphtGetEntryHashtable Hash Equals (Key e) ht
       \<and> JphtGetEntryHashtable Hash Equals k' (snd (JphtPutEntryHashtable Hash Equals e ht)) =
           (if Equals (Key e) k' then Some e else JphtGetEntryHashtable Hash Equals k' ht)
       \<and> fst (JphtRemoveEntryHashtable Hash Equals k ht) = JphtGetEntryHashtable Hash Equals k ht
       \<and> JphtGetEntryHashtable Hash Equals k' (snd (JphtRemoveEntryHashtable Hash Equals k ht)) =
           (if Equals k k' then None else JphtGetEntryHashtable Hash Equals k' ht)"
proof -
  from assms(1,2) have h: "hash_routines Hash Equals" by unfold_locales auto
  note inv = ht_reachable_inv [OF assms(3) h]
  show ?thesis
    by (simp add: hash_routines.put_old [OF h inv] hash_routines.put_lookup [OF h inv]
        hash_routines.remove_old [OF h inv] hash_routines.remove_lookup [OF h inv])
qed

theorem hashtable_is_map_witness:
  "map_option Payload (JphtGetEntryHashtable CdiagsHashEventType CdiagsEqualsEventType 2 demo_table)
     = Some 7 \<and>
   map_option Payload (fst (JphtPutEntryHashtable CdiagsHashEventType CdiagsEqualsEventType
     \<lparr>Key = 2, Payload = 9\<rparr> demo_table)) = Some 7 \<and>
   fst (JphtRemoveEntryHashtable CdiagsHashEventType CdiagsEqualsEventType 3 demo_table) = None"
proof -
  let ?get = "JphtGetEntryHashtable CdiagsHashEventType CdiagsEqualsEventType"
  have g: "?get 2 demo_table = Some \<lparr>Key = 0x100000002, Payload = 7\<rparr>" "?get 3 demo_table = None"
    by code_simp+
  show ?thesis
    using hashtable_is_map [OF handler_routines_ok demo_reachable, of "\<lparr>Key = 2, Payload = 9\<rparr>" 2 3] g by simp
qed

text \<open>
  Resizing. Whether it succeeds or not, the table keeps its entries, each once, its count and
  every lookup; the new buckets are in use exactly if it succeeds.
\<close>

lemma resize_keeps_map:
  assumes "equivp Equals" and "\<forall>k k'. Equals k k' \<longrightarrow> Hash k = Hash k'"
    and "ht_reachable Hash Equals ht" and "0 < n"
    and "JphtResize Win64 alloc Hash Equals n ht = (ok, ht')"
  shows "JphtGetEntryHashtable Hash Equals k ht' = JphtGetEntryHashtable Hash Equals k ht
       \<and> mset (entries ht') = mset (entries ht)
       \<and> JphtGetEntryCountHashtable ht' = JphtGetEntryCountHashtable ht
       \<and> JphtGetBucketCountHashtable ht' = (if ok then n else JphtGetBucketCountHashtable ht)"
proof -
  from assms(1,2) have h: "hash_routines Hash Equals" by unfold_locales auto
  note inv = ht_reachable_inv [OF assms(3) h]
  note r = hash_routines.resize_cases [OF h inv assms(4,5)]
  then have "length (entries ht') = length (entries ht)" by (metis size_mset)
  with r inv have "EntryCount ht' = EntryCount ht" by (simp add: ht_inv_def)
  with r hash_routines.same_entries_same_lookup [OF h inv] show ?thesis
    by (auto simp: JphtGetEntryCountHashtable_def JphtGetBucketCountHashtable_def)
qed

text \<open>
  Enumeration. The callback is called for each entry once, in the order of the buckets,
  although it may remove the entry it is called for; the entries it does not remove stay, in
  their order, and the count is again exact.
\<close>

lemma enumeration_visits_each:
  assumes "equivp Equals" and "\<forall>k k'. Equals k k' \<longrightarrow> Hash k = Hash k'"
    and "ht_reachable Hash Equals ht"
    and "JphtEnumerateEntries (\<lambda>e visited. (rm e, visited @ [e])) ht [] = (ht', visited)"
  shows "visited = entries ht \<and> distinct_keys Equals visited
       \<and> entries ht' = filter (\<lambda>e. \<not> rm e) (entries ht)
       \<and> JphtGetEntryCountHashtable ht' = of_nat (length (entries ht'))"
proof -
  from assms(1,2) have h: "hash_routines Hash Equals" by unfold_locales auto
  note inv = ht_reachable_inv [OF assms(3) h]
  have "fold (\<lambda>e visited. visited @ [e]) xs ys = ys @ xs" for xs ys :: "'a ht_entry list"
    by (induction xs arbitrary: ys) simp_all
  then have collect: "fold (\<lambda>e visited. visited @ [e]) (entries ht) [] = entries ht" by simp
  have "visited = entries ht" "Buckets ht' = map (filter (\<lambda>e. \<not> rm e)) (Buckets ht)"
    using assms(4) unfolding enumerate_eq [of rm "\<lambda>e v. v @ [e]" ht "[]"] collect by auto
  then have "visited = entries ht" "entries ht' = filter (\<lambda>e. \<not> rm e) (entries ht)"
    by (simp_all only: concat_map_filter)
  moreover have "ht_inv Hash Equals ht'"
    using enumerate_inv [OF inv, of "\<lambda>e v. (rm e, v @ [e])" "[]"]
    unfolding assms(4) fst_conv .
  ultimately show ?thesis
    using hash_routines.entries_distinct [OF h inv]
    by (simp add: ht_inv_def JphtGetEntryCountHashtable_def)
qed

end
