(* ===== verification/Session.thy ===== *)
theory Session
  imports HashtableProps
begin

text \<open>
  The diagnostic session (\<open>cdiag/cdiag/session.c\<close>): a reference counted object that routes event
  packets to the handler registered for their type, or to a default handler.

  Handlers, resolver and formatter are reference counted objects of other components; the world
  keeps their counts, an object whose last reference is given back is gone, and using a gone
  object or a gone session has no defined result (\<open>None\<close>). What such an object gives back when it
  goes, and the work of its \<open>Handle\<close> routine, belong to the other component: \<open>Handle\<close> is an
  argument. The critical section makes each operation one step. An event type is the number of
  the enumeration, which converts to a key of the table by sign extension; a registration keeps
  it in the low half of a zeroed key.
\<close>

section \<open>State\<close>

type_synonym objref = nat

record handler_registration =
  RegHandler :: "objref option"
  RegSeverityFilter :: dword

record cdiag_session =
  SessReferenceCount :: "32 word"
  Formatter :: objref
  Resolver :: objref
  DefaultHandler :: handler_registration
  Handlers :: "handler_registration hashtable"

record event_packet =
  PacketType :: dword
  PacketSeverity :: "8 word"

record world =
  ObjRefs :: "objref \<Rightarrow> nat option"
  IsHandler :: "objref \<Rightarrow> bool"
  Sess :: "cdiag_session option"

text \<open>The methods \<open>Reference\<close> and \<open>Dereference\<close> of an object.\<close>

definition Reference :: "objref \<Rightarrow> world \<Rightarrow> world option" where
  "Reference ob w =
     (case ObjRefs w ob of
        None \<Rightarrow> None
      | Some n \<Rightarrow> Some (w\<lparr>ObjRefs := (ObjRefs w)(ob := Some (n + 1))\<rparr>))"

definition Dereference :: "objref \<Rightarrow> world \<Rightarrow> world option" where
  "Dereference ob w =
     (case ObjRefs w ob of
        None \<Rightarrow> None
      | Some n \<Rightarrow> Some (w\<lparr>ObjRefs := (ObjRefs w)(ob := if n \<le> 1 then None else Some (n - 1))\<rparr>))"

definition Dereference_opt :: "objref option \<Rightarrow> world \<Rightarrow> world option" where
  "Dereference_opt p w = (case p of None \<Rightarrow> Some w | Some ob \<Rightarrow> Dereference ob w)"

definition Reference_opt :: "objref option \<Rightarrow> world \<Rightarrow> world option" where
  "Reference_opt p w = (case p of None \<Rightarrow> Some w | Some ob \<Rightarrow> Reference ob w)"

definition put_session :: "cdiag_session \<Rightarrow> world \<Rightarrow> world" where
  "put_session s w = w\<lparr>Sess := Some s\<rparr>"

section \<open>Creation and deletion\<close>

definition CdiagsDeleteHandlerRegistration :: "handler_registration \<Rightarrow> world \<Rightarrow> world option" where
  "CdiagsDeleteHandlerRegistration r w = Dereference_opt (RegHandler r) w"

definition CdiagsTearDownHandlerFromHashtableCallback ::
    "handler_registration ht_entry \<Rightarrow> world option \<Rightarrow> bool \<times> world option" where
  "CdiagsTearDownHandlerFromHashtableCallback e w =
     (True, w \<bind> CdiagsDeleteHandlerRegistration (Payload e))"

definition CdiagsDeleteSession :: "world \<Rightarrow> world option" where
  "CdiagsDeleteSession w = do {
     s \<leftarrow> Sess w;
     let (_, w) = JphtEnumerateEntries CdiagsTearDownHandlerFromHashtableCallback (Handlers s) (Some w);
     w \<leftarrow> w;
     w \<leftarrow> Dereference_opt (RegHandler (DefaultHandler s)) w;
     w \<leftarrow> Dereference (Formatter s) w;
     w \<leftarrow> Dereference (Resolver s) w;
     Some (w\<lparr>Sess := None\<rparr>)
   }"

text \<open>
  \<open>Some ob\<close> for an argument is the object passed, \<open>None\<close> is \<open>NULL\<close>. The default resolver and
  formatter come from routines of the other components, which answer a code or a new object.
\<close>

definition CdiagCreateSession ::
    "bool \<Rightarrow> (nat \<Rightarrow> bool) \<Rightarrow> (world \<Rightarrow> (hresult + objref) \<times> world) \<Rightarrow>
       (objref \<Rightarrow> world \<Rightarrow> (hresult + objref) \<times> world) \<Rightarrow>
       objref option \<Rightarrow> objref option \<Rightarrow> world \<Rightarrow> (hresult \<times> world) option" where
  "CdiagCreateSession SessionMem alloc CdiagCreateMessageResolver CdiagCreateFormatter fmt res w =
     (if \<not> SessionMem then Some (E_OUTOFMEMORY, w)
      else case JphtInitializeHashtable True alloc 23 of
        None \<Rightarrow> Some (E_OUTOFMEMORY, w)
      | Some table \<Rightarrow> do {
          (r, w) \<leftarrow> (case res of
                      Some ob \<Rightarrow> map_option (Pair (Inr ob)) (Reference ob w)
                    | None \<Rightarrow> Some (CdiagCreateMessageResolver w));
          case r of
            Inl Hr \<Rightarrow> Some (Hr, w)
          | Inr ResolverObj \<Rightarrow> do {
              (f, w) \<leftarrow> (case fmt of
                          Some ob \<Rightarrow> map_option (Pair (Inr ob)) (Reference ob w)
                        | None \<Rightarrow> Some (CdiagCreateFormatter ResolverObj w));
              case f of
                Inl Hr \<Rightarrow> map_option (Pair Hr) (Dereference ResolverObj w)
              | Inr FormatterObj \<Rightarrow>
                  Some (S_OK, put_session
                    \<lparr>SessReferenceCount = 1, Formatter = FormatterObj, Resolver = ResolverObj,
                     DefaultHandler = \<lparr>RegHandler = None, RegSeverityFilter = 0xFFFFFFFF\<rparr>,
                     Handlers = table\<rparr> w)
            }
        })"

definition CdiagReferenceSession :: "bool \<Rightarrow> world \<Rightarrow> (hresult \<times> world) option" where
  "CdiagReferenceSession valid w =
     (if \<not> valid then Some (E_INVALIDARG, w)
      else do {
        s \<leftarrow> Sess w;
        Some (S_OK, put_session (s\<lparr>SessReferenceCount := SessReferenceCount s + 1\<rparr>) w)
      })"

definition CdiagDereferenceSession :: "bool \<Rightarrow> world \<Rightarrow> (hresult \<times> world) option" where
  "CdiagDereferenceSession valid w =
     (if \<not> valid then Some (E_INVALIDARG, w)
      else do {
        s \<leftarrow> Sess w;
        let n = SessReferenceCount s - 1;
        let w = put_session (s\<lparr>SessReferenceCount := n\<rparr>) w;
        w \<leftarrow> (if n = 0 then CdiagsDeleteSession w else Some w);
        Some (S_OK, w)
      })"

section \<open>Handlers and filters\<close>

definition lookup_key :: "dword \<Rightarrow> ulong_ptr" where
  "lookup_key Type = scast Type"

definition stored_key :: "dword \<Rightarrow> ulong_ptr" where
  "stored_key Type = ucast Type"

definition get_registration :: "dword \<Rightarrow> cdiag_session \<Rightarrow> handler_registration ht_entry option" where
  "get_registration Type s =
     JphtGetEntryHashtable CdiagsHashEventType CdiagsEqualsEventType (lookup_key Type) (Handlers s)"

definition CdiagsSetDefaultHandler :: "objref \<Rightarrow> world \<Rightarrow> (hresult \<times> world) option" where
  "CdiagsSetDefaultHandler Handler w = do {
     s \<leftarrow> Sess w;
     if \<not> IsHandler w Handler then Some (E_INVALIDARG, w)
     else do {
       w \<leftarrow> Dereference_opt (RegHandler (DefaultHandler s)) w;
       w \<leftarrow> Reference Handler w;
       Some (S_OK, put_session
         (s\<lparr>DefaultHandler := (DefaultHandler s)\<lparr>RegHandler := Some Handler\<rparr>\<rparr>) w)
     }
   }"

definition CdiagsSetHandler :: "bool \<Rightarrow> dword \<Rightarrow> objref \<Rightarrow> world \<Rightarrow> (hresult \<times> world) option" where
  "CdiagsSetHandler RegMem Type Handler w =
     (if \<not> RegMem then None
      else do {
        s \<leftarrow> Sess w;
        w \<leftarrow> Reference Handler w;
        let (OldEntry, table) = JphtPutEntryHashtable CdiagsHashEventType CdiagsEqualsEventType
              \<lparr>Key = stored_key Type,
               Payload = \<lparr>RegHandler = Some Handler, RegSeverityFilter = 0xFFFFFFFF\<rparr>\<rparr>
              (Handlers s);
        let w = put_session (s\<lparr>Handlers := table\<rparr>) w;
        w \<leftarrow> (case OldEntry of
                None \<Rightarrow> Some w
              | Some e \<Rightarrow> CdiagsDeleteHandlerRegistration (Payload e) w);
        Some (S_OK, w)
      })"

text \<open>Writing to the entry found: the other entries of its bucket stay as they are.\<close>

definition update_entry ::
    "ulong_ptr \<Rightarrow> ('e \<Rightarrow> 'e) \<Rightarrow> 'e hashtable \<Rightarrow> 'e hashtable" where
  "update_entry k f ht =
     ht\<lparr>Buckets := map (map (\<lambda>e. if CdiagsEqualsEventType (Key e) k
                                  then e\<lparr>Payload := f (Payload e)\<rparr> else e)) (Buckets ht)\<rparr>"

definition CdiagsSetSeverityFilter :: "dword \<Rightarrow> dword \<Rightarrow> world \<Rightarrow> (hresult \<times> world) option" where
  "CdiagsSetSeverityFilter Type Filter w = do {
     s \<leftarrow> Sess w;
     case get_registration Type s of
       None \<Rightarrow> Some (S_FALSE, w)
     | Some _ \<Rightarrow> Some (S_OK, put_session
         (s\<lparr>Handlers := update_entry (lookup_key Type) (\<lambda>r. r\<lparr>RegSeverityFilter := Filter\<rparr>)
              (Handlers s)\<rparr>) w)
   }"

datatype session_value = NullValue | ObjectValue objref | DwordValue dword

definition CdiagsQueryDefaultHandler :: "world \<Rightarrow> (hresult \<times> session_value \<times> world) option" where
  "CdiagsQueryDefaultHandler w = do {
     s \<leftarrow> Sess w;
     case RegHandler (DefaultHandler s) of
       None \<Rightarrow> Some (S_OK, NullValue, w)
     | Some ob \<Rightarrow> map_option (\<lambda>w. (S_OK, ObjectValue ob, w)) (Reference ob w)
   }"

definition CdiagsQueryHandler :: "dword \<Rightarrow> world \<Rightarrow> (hresult \<times> session_value \<times> world) option" where
  "CdiagsQueryHandler Type w = do {
     s \<leftarrow> Sess w;
     case get_registration Type s of
       None \<Rightarrow> Some (S_FALSE, NullValue, w)
     | Some e \<Rightarrow> do {
         ob \<leftarrow> RegHandler (Payload e);
         map_option (\<lambda>w. (S_OK, ObjectValue ob, w)) (Reference ob w)
       }
   }"

definition CdiagsQuerySeverityFilter :: "dword \<Rightarrow> world \<Rightarrow> (hresult \<times> session_value \<times> world) option" where
  "CdiagsQuerySeverityFilter Type w = do {
     s \<leftarrow> Sess w;
     case get_registration Type s of
       None \<Rightarrow> Some (S_FALSE, DwordValue 0, w)
     | Some e \<Rightarrow> Some (S_OK, DwordValue (RegSeverityFilter (Payload e)), w)
   }"

section \<open>The exported operations\<close>

text \<open>A value of the wrong kind for the class has no defined result.\<close>

definition object_value :: "session_value \<Rightarrow> objref option" where
  "object_value v = (case v of ObjectValue ob \<Rightarrow> Some ob | _ \<Rightarrow> None)"

definition dword_value :: "session_value \<Rightarrow> dword option" where
  "dword_value v = (case v of DwordValue d \<Rightarrow> Some d | _ \<Rightarrow> None)"

definition CdiagSetInformationSession ::
    "bool \<Rightarrow> bool \<Rightarrow> dword \<Rightarrow> dword \<Rightarrow> session_value \<Rightarrow> world \<Rightarrow> (hresult \<times> world) option" where
  "CdiagSetInformationSession RegMem valid Class EventType Value w =
     (if \<not> valid \<or> 4 < Class \<or> Value = NullValue then Some (E_INVALIDARG, w)
      else if Class = 0 then object_value Value \<bind> (\<lambda>ob. CdiagsSetDefaultHandler ob w)
      else if Class = 1 then object_value Value \<bind> (\<lambda>ob. CdiagsSetHandler RegMem EventType ob w)
      else if Class = 2 then dword_value Value \<bind> (\<lambda>d. CdiagsSetSeverityFilter EventType d w)
      else if Class = 3 then do {
        s \<leftarrow> Sess w;
        ob \<leftarrow> object_value Value;
        w \<leftarrow> Dereference (Resolver s) w;
        w \<leftarrow> Reference ob w;
        Some (S_OK, put_session (s\<lparr>Resolver := ob\<rparr>) w)
      }
      else do {
        s \<leftarrow> Sess w;
        ob \<leftarrow> object_value Value;
        w \<leftarrow> Dereference (Formatter s) w;
        w \<leftarrow> Reference ob w;
        Some (S_OK, put_session (s\<lparr>Formatter := ob\<rparr>) w)
      })"

definition CdiagQueryInformationSession ::
    "bool \<Rightarrow> bool \<Rightarrow> dword \<Rightarrow> dword \<Rightarrow> world \<Rightarrow> (hresult \<times> session_value \<times> world) option" where
  "CdiagQueryInformationSession HasValue valid Class EventType w =
     (if \<not> valid \<or> 4 < Class \<or> \<not> HasValue then Some (E_INVALIDARG, NullValue, w)
      else if Class = 0 then CdiagsQueryDefaultHandler w
      else if Class = 1 then CdiagsQueryHandler EventType w
      else if Class = 2 then CdiagsQuerySeverityFilter EventType w
      else if Class = 3 then do {
        s \<leftarrow> Sess w;
        w \<leftarrow> Reference (Resolver s) w;
        Some (S_OK, ObjectValue (Resolver s), w)
      }
      else do {
        s \<leftarrow> Sess w;
        w \<leftarrow> Reference (Formatter s) w;
        Some (S_OK, ObjectValue (Formatter s), w)
      })"

text \<open>
  \<open>1 << Packet->Type\<close> is a shift of a 32 bit number, whose count the processor takes modulo 32.
\<close>

definition passes_filter :: "dword \<Rightarrow> dword \<Rightarrow> bool" where
  "passes_filter Type Filter \<longleftrightarrow> push_bit (unat (Type AND 31)) 1 AND Filter \<noteq> 0"

definition effective_registration :: "dword \<Rightarrow> cdiag_session \<Rightarrow> handler_registration" where
  "effective_registration Type s =
     (case get_registration Type s of None \<Rightarrow> DefaultHandler s | Some e \<Rightarrow> Payload e)"

definition CdiagHandleEvent ::
    "(objref \<Rightarrow> event_packet \<Rightarrow> world \<Rightarrow> hresult \<times> world) \<Rightarrow> bool \<Rightarrow> event_packet option \<Rightarrow>
       world \<Rightarrow> (hresult \<times> world) option" where
  "CdiagHandleEvent Handle valid Packet w =
     (case Packet of
        None \<Rightarrow> Some (E_INVALIDARG, w)
      | Some p \<Rightarrow>
          if \<not> valid then Some (E_INVALIDARG, w)
          else do {
            s \<leftarrow> Sess w;
            let r = effective_registration (PacketType p) s;
            case RegHandler r of
              None \<Rightarrow> Some (S_FALSE, w)
            | Some Handler \<Rightarrow> do {
                w \<leftarrow> Reference Handler w;
                let (Hr, w) = (if passes_filter (PacketType p) (RegSeverityFilter r)
                               then Handle Handler p w else (S_FALSE, w));
                w \<leftarrow> Dereference Handler w;
                Some (Hr, w)
              }
          })"

end
