(* ===== verification/SessionProps.thy ===== *)
theory SessionProps
  imports Session
begin

text \<open>
  The properties of the session: the reference counts of handlers, resolver and formatter are
  exact under every operation, and events reach the handler registered for their type.
\<close>

section \<open>Reference counts\<close>

definition live :: "world \<Rightarrow> objref \<Rightarrow> nat" where
  "live w ob = (case ObjRefs w ob of None \<Rightarrow> 0 | Some n \<Rightarrow> n)"

definition counted :: "world \<Rightarrow> bool" where
  "counted w \<longleftrightarrow> (\<forall>ob. ObjRefs w ob \<noteq> Some 0)"

text \<open>\<open>moves w w' f\<close>: only counts differ between the two worlds, and \<open>f\<close> relates them.\<close>

definition moves :: "world \<Rightarrow> world \<Rightarrow> (objref \<Rightarrow> nat \<Rightarrow> nat) \<Rightarrow> bool" where
  "moves w w' f \<longleftrightarrow> counted w' \<and> Sess w' = Sess w \<and> IsHandler w' = IsHandler w
     \<and> (\<forall>x. live w' x = f x (live w x))"

lemma live_update [simp]:
  "live (w\<lparr>Sess := x\<rparr>) = live w" "live (put_session s w) = live w"
  by (simp_all add: fun_eq_iff live_def put_session_def)

lemma counted_update [simp]:
  "counted (w\<lparr>Sess := x\<rparr>) = counted w" "counted (put_session s w) = counted w"
  by (simp_all add: counted_def put_session_def)

lemma put_session_fields [simp]:
  "Sess (put_session s w) = Some s" "IsHandler (put_session s w) = IsHandler w"
  by (simp_all add: put_session_def)

lemma live_pos: "0 < live w ob \<Longrightarrow> ObjRefs w ob = Some (live w ob)"
  by (simp add: live_def split: option.splits)

lemma Reference_moves:
  assumes "counted w" "0 < live w ob"
  obtains w' where "Reference ob w = Some w'"
    "moves w w' (\<lambda>x n. n + (if x = ob then 1 else 0))"
proof
  show "Reference ob w = Some (w\<lparr>ObjRefs := (ObjRefs w)(ob := Some (live w ob + 1))\<rparr>)"
    using live_pos [OF assms(2)] by (simp add: Reference_def)
  show "moves w (w\<lparr>ObjRefs := (ObjRefs w)(ob := Some (live w ob + 1))\<rparr>)
      (\<lambda>x n. n + (if x = ob then 1 else 0))"
    using assms by (simp add: moves_def counted_def live_def)
qed

lemma Dereference_moves:
  assumes "counted w" "0 < live w ob"
  obtains w' where "Dereference ob w = Some w'"
    "moves w w' (\<lambda>x n. n - (if x = ob then 1 else 0))"
proof
  let ?w = "w\<lparr>ObjRefs := (ObjRefs w)(ob := if live w ob \<le> 1 then None else Some (live w ob - 1))\<rparr>"
  show "Dereference ob w = Some ?w"
    using live_pos [OF assms(2)] by (simp add: Dereference_def)
  show "moves w ?w (\<lambda>x n. n - (if x = ob then 1 else 0))"
    using assms by (simp add: moves_def counted_def live_def)
qed

lemma Dereference_opt_moves:
  assumes "counted w" "\<And>ob. p = Some ob \<Longrightarrow> 0 < live w ob"
  obtains w' where "Dereference_opt p w = Some w'"
    "moves w w' (\<lambda>x n. n - (if p = Some x then 1 else 0))"
proof (cases p)
  case None
  with assms(1) that show ?thesis by (simp add: Dereference_opt_def moves_def)
next
  case (Some ob)
  from Dereference_moves [OF assms(1) assms(2) [OF Some]] obtain w'
    where "Dereference ob w = Some w'" "moves w w' (\<lambda>x n. n - (if x = ob then 1 else 0))" .
  moreover have "(\<lambda>x n. n - (if x = ob then 1 else 0)) =
      (\<lambda>x n. n - (if p = Some x then 1 else 0 :: nat))" using Some by (auto simp: fun_eq_iff)
  ultimately show ?thesis using Some that by (simp add: Dereference_opt_def)
qed

lemma moves_counted: "moves w w' f \<Longrightarrow> counted w'"
  by (simp add: moves_def)

section \<open>The accounts of a session\<close>

definition reg_holds :: "objref \<Rightarrow> handler_registration \<Rightarrow> nat" where
  "reg_holds x r = (if RegHandler r = Some x then 1 else 0)"

definition regs_hold :: "objref \<Rightarrow> handler_registration ht_entry multiset \<Rightarrow> nat" where
  "regs_hold x es = (\<Sum>e \<in># es. reg_holds x (Payload e))"

definition session_holds :: "cdiag_session \<Rightarrow> objref \<Rightarrow> nat" where
  "session_holds s x =
     (if Formatter s = x then 1 else 0) + (if Resolver s = x then 1 else 0)
   + reg_holds x (DefaultHandler s) + regs_hold x (mset (entries (Handlers s)))"

definition session_wf :: "cdiag_session \<Rightarrow> bool" where
  "session_wf s \<longleftrightarrow> ht_inv CdiagsHashEventType CdiagsEqualsEventType (Handlers s)
     \<and> (\<forall>e \<in># mset (entries (Handlers s)). RegHandler (Payload e) \<noteq> None)"

text \<open>
  The accounts: the count of each object is what the world outside holds plus what the session
  holds.
\<close>

definition accounts :: "(objref \<Rightarrow> nat) \<Rightarrow> world \<Rightarrow> bool" where
  "accounts ext w \<longleftrightarrow> counted w
     \<and> (\<forall>x. live w x = ext x + (case Sess w of None \<Rightarrow> 0 | Some s \<Rightarrow> session_holds s x))
     \<and> (\<forall>s. Sess w = Some s \<longrightarrow> session_wf s)"

lemma accountsD:
  assumes "accounts ext w" and "Sess w = Some s"
  shows "counted w" "live w x = ext x + session_holds s x" "session_wf s"
  using assms by (auto simp: accounts_def)

lemma accountsI:
  assumes "counted w" "Sess w = Some s" "session_wf s" "\<And>x. live w x = ext x + session_holds s x"
  shows "accounts ext w"
  using assms by (auto simp: accounts_def)

lemma regs_hold_simps [simp]:
  "regs_hold x {#} = 0" "regs_hold x (add_mset e es) = reg_holds x (Payload e) + regs_hold x es"
  "regs_hold x (es + es') = regs_hold x es + regs_hold x es'"
  by (simp_all add: regs_hold_def)

lemma holds_registered:
  assumes "get_registration Type s = Some e" and "session_wf s" and "RegHandler (Payload e) = Some ob"
  shows "0 < session_holds s ob"
proof -
  from assms(1,2) have "e \<in># mset (entries (Handlers s))"
    using handler_table.get_iff [of "Handlers s" "lookup_key Type" e]
    by (simp add: get_registration_def session_wf_def)
  then obtain es where "mset (entries (Handlers s)) = add_mset e es" by (metis mset_add)
  with assms(3) show ?thesis by (simp add: session_holds_def reg_holds_def)
qed

section \<open>Keys\<close>

lemma equal_keys [simp]:
  "CdiagsEqualsEventType (stored_key T) (lookup_key T') \<longleftrightarrow> T = T'"
proof -
  have "(ucast (ucast T :: ulong_ptr) :: dword) = T"
    by (rule bit_word_eqI) (simp add: bit_ucast_iff)
  moreover have "(ucast (scast T' :: ulong_ptr) :: dword) = T'"
  proof (rule bit_word_eqI)
    fix n assume "n < LENGTH(32)"
    then show "bit (ucast (scast T' :: ulong_ptr) :: dword) n = bit T' n"
      by (cases "n = 31") (auto simp: bit_ucast_iff bit_signed_iff min_def)
  qed
  ultimately show ?thesis by (simp add: CdiagsEqualsEventType_def stored_key_def lookup_key_def)
qed

section \<open>Operations keep the accounts\<close>

text \<open>A step that swaps one held object for another; \<open>old\<close> is dereferenced, \<open>new\<close> referenced.\<close>

lemma swap_moves:
  assumes "counted w" "\<And>ob. old = Some ob \<Longrightarrow> 0 < live w ob"
    and "(if old = Some new then 1 else 0) < live w new"
  obtains w1 w2 where "Dereference_opt old w = Some w1" "Reference new w1 = Some w2"
    "moves w w2 (\<lambda>x n. n - (if old = Some x then 1 else 0) + (if x = new then 1 else 0))"
proof -
  from Dereference_opt_moves [OF assms(1,2)] obtain w1 where w1: "Dereference_opt old w = Some w1"
    "moves w w1 (\<lambda>x n. n - (if old = Some x then 1 else 0))" by blast
  then have "counted w1" "0 < live w1 new" using assms(3) by (auto simp: moves_def split: if_splits)
  from Reference_moves [OF this] obtain w2 where w2: "Reference new w1 = Some w2"
    "moves w1 w2 (\<lambda>x n. n + (if x = new then 1 else 0))" by blast
  have "moves w w2 (\<lambda>x n. n - (if old = Some x then 1 else 0) + (if x = new then 1 else 0))"
    using w1(2) w2(2) by (simp add: moves_def)
  with w1(1) w2(1) show ?thesis by (rule that)
qed

lemma default_handler_accounts:
  assumes "accounts ext w" "Sess w = Some s" "0 < ext ob" "IsHandler w ob"
  obtains w' where "CdiagsSetDefaultHandler ob w = Some (S_OK, w')" "accounts ext w'"
    "Sess w' = Some (s\<lparr>DefaultHandler := (DefaultHandler s)\<lparr>RegHandler := Some ob\<rparr>\<rparr>)"
proof -
  let ?old = "RegHandler (DefaultHandler s)"
  note A = accountsD [OF assms(1,2)]
  have "0 < live w o'" if "?old = Some o'" for o'
    using A(2) [of o'] that by (simp add: session_holds_def reg_holds_def)
  moreover have "(if ?old = Some ob then 1 else 0) < live w ob"
    using A(2) [of ob] assms(3) by (simp add: session_holds_def reg_holds_def)
  ultimately obtain w1 w2 where w: "Dereference_opt ?old w = Some w1" "Reference ob w1 = Some w2"
    "moves w w2 (\<lambda>x n. n - (if ?old = Some x then 1 else 0) + (if x = ob then 1 else 0))"
    using swap_moves [OF A(1), of ?old ob] by blast
  let ?s = "s\<lparr>DefaultHandler := (DefaultHandler s)\<lparr>RegHandler := Some ob\<rparr>\<rparr>"
  have "accounts ext (put_session ?s w2)"
  proof (rule accountsI)
    fix x
    show "live (put_session ?s w2) x = ext x + session_holds ?s x"
      using w(3) A(2) [of x] by (auto simp: moves_def session_holds_def reg_holds_def)
  qed (use w(3) A(3) in \<open>simp_all add: moves_def session_wf_def\<close>)
  with w assms(2,4) that [of "put_session ?s w2"] show ?thesis
    by (simp add: CdiagsSetDefaultHandler_def)
qed

lemma put_registration:
  assumes "session_wf s" and "RegHandler r \<noteq> None"
    and "JphtPutEntryHashtable CdiagsHashEventType CdiagsEqualsEventType
           \<lparr>Key = stored_key T, Payload = r\<rparr> (Handlers s) = (old, table)"
  shows "session_wf (s\<lparr>Handlers := table\<rparr>)"
    and "regs_hold x (mset (entries table))
           + (case old of None \<Rightarrow> 0 | Some e \<Rightarrow> reg_holds x (Payload e))
         = reg_holds x r + regs_hold x (mset (entries (Handlers s)))"
    and "old = Some e \<Longrightarrow> e \<in># mset (entries (Handlers s))"
    and "effective_registration T' (s\<lparr>Handlers := table\<rparr>) =
           (if T' = T then r else effective_registration T' s)"
proof -
  let ?e = "\<lparr>Key = stored_key T, Payload = r\<rparr>"
  have inv: "ht_inv CdiagsHashEventType CdiagsEqualsEventType (Handlers s)"
    using assms(1) by (simp add: session_wf_def)
  have fs: "fst (JphtPutEntryHashtable CdiagsHashEventType CdiagsEqualsEventType ?e (Handlers s)) = old"
    "snd (JphtPutEntryHashtable CdiagsHashEventType CdiagsEqualsEventType ?e (Handlers s)) = table"
    using assms(3) by simp_all
  note bal = handler_table.put_balance [OF inv, of ?e, unfolded fs]
  have "e \<in># add_mset ?e (mset (entries (Handlers s)))" if "e \<in># mset (entries table)" for e
    using that bal by (metis union_iff)
  then have "\<forall>e \<in># mset (entries table). RegHandler (Payload e) \<noteq> None"
    using assms(1,2) unfolding session_wf_def by force
  with handler_table.put_inv [OF inv, of ?e, unfolded fs] show "session_wf (s\<lparr>Handlers := table\<rparr>)"
    by (simp add: session_wf_def)
  show "regs_hold x (mset (entries table))
           + (case old of None \<Rightarrow> 0 | Some e \<Rightarrow> reg_holds x (Payload e))
         = reg_holds x r + regs_hold x (mset (entries (Handlers s)))"
    using arg_cong [OF bal, of "regs_hold x"] by (simp split: option.splits)
  show "e \<in># mset (entries (Handlers s))" if "old = Some e"
    using that handler_table.put_old [OF inv, of ?e, unfolded fs]
      handler_table.get_iff [OF inv, of "Key ?e" e] by simp
  show "effective_registration T' (s\<lparr>Handlers := table\<rparr>) =
           (if T' = T then r else effective_registration T' s)"
    using handler_table.put_lookup [OF inv, of "lookup_key T'" ?e, unfolded fs]
    by (simp add: effective_registration_def get_registration_def split: option.split)
qed

lemma set_handler_accounts:
  assumes "accounts ext w" "Sess w = Some s" "0 < ext ob"
  obtains w' s' where "CdiagsSetHandler True T ob w = Some (S_OK, w')" "accounts ext w'"
    "Sess w' = Some s'" "DefaultHandler s' = DefaultHandler s"
    "\<And>T'. effective_registration T' s' =
       (if T' = T then \<lparr>RegHandler = Some ob, RegSeverityFilter = 0xFFFFFFFF\<rparr>
        else effective_registration T' s)"
proof -
  let ?r = "\<lparr>RegHandler = Some ob, RegSeverityFilter = 0xFFFFFFFF\<rparr>"
  note A = accountsD [OF assms(1,2)]
  have "0 < live w ob" using A(2) assms(3) by simp
  from Reference_moves [OF A(1) this] obtain w1 where w1: "Reference ob w = Some w1"
    "moves w w1 (\<lambda>x n. n + (if x = ob then 1 else 0))" .
  obtain old table where put: "JphtPutEntryHashtable CdiagsHashEventType CdiagsEqualsEventType
      \<lparr>Key = stored_key T, Payload = ?r\<rparr> (Handlers s) = (old, table)"
    by (cases "JphtPutEntryHashtable CdiagsHashEventType CdiagsEqualsEventType
      \<lparr>Key = stored_key T, Payload = ?r\<rparr> (Handlers s)")
  note P = put_registration [OF A(3) _ put]
  let ?s = "s\<lparr>Handlers := table\<rparr>" and ?p = "old \<bind> (\<lambda>e. RegHandler (Payload e))"
  let ?w = "put_session ?s w1"
  have holds: "(case old of None \<Rightarrow> 0 | Some e \<Rightarrow> reg_holds x (Payload e)) =
      (if ?p = Some x then 1 else 0)" for x
    by (simp add: reg_holds_def split: option.splits)
  have le: "(if ?p = Some x then 1 else 0) \<le> reg_holds x ?r + regs_hold x (mset (entries (Handlers s)))" for x
    using P(2) [of x] unfolding holds by simp
  have "0 < live ?w x" if "?p = Some x" for x
    using le [of x] w1(2) A(2) [of x] that
    by (auto simp: moves_def session_holds_def reg_holds_def split: if_splits)
  then obtain w2 where w2: "Dereference_opt ?p ?w = Some w2"
    "moves ?w w2 (\<lambda>x n. n - (if ?p = Some x then 1 else 0))"
    using Dereference_opt_moves [of ?w ?p] w1(2) by (auto simp: moves_def)
  have acc: "accounts ext w2"
  proof (rule accountsI [of _ ?s])
    fix x
    show "live w2 x = ext x + session_holds ?s x"
      using w2(2) w1(2) A(2) [of x] P(2) [of x] unfolding holds
      by (cases "x = ob"; cases "?p = Some x")
        (simp_all add: moves_def session_holds_def reg_holds_def)
  qed (use w2(2) w1(2) P(1) in \<open>simp_all add: moves_def\<close>)
  have "CdiagsSetHandler True T ob w = Some (S_OK, w2)"
    using w2(1) w1(1) put assms(2)
    by (cases old) (simp_all add: CdiagsSetHandler_def CdiagsDeleteHandlerRegistration_def Dereference_opt_def)
  with acc w2(2) P(4) that [of w2 ?s] show ?thesis by (simp add: moves_def)
qed

text \<open>Writing to a registration.\<close>

definition touch :: "ulong_ptr \<Rightarrow> ('e \<Rightarrow> 'e) \<Rightarrow> 'e ht_entry \<Rightarrow> 'e ht_entry" where
  "touch k f e = (if CdiagsEqualsEventType (Key e) k then e\<lparr>Payload := f (Payload e)\<rparr> else e)"

lemma touch_key [simp]: "Key (touch k f e) = Key e"
  by (simp add: touch_def)

lemma update_entry_touch: "update_entry k f ht = ht\<lparr>Buckets := map (map (touch k f)) (Buckets ht)\<rparr>"
  by (simp add: update_entry_def touch_def)

lemma entries_update_entry: "entries (update_entry k f ht) = map (touch k f) (entries ht)"
  by (simp add: update_entry_touch map_concat)

lemma find_entry_touch:
  "find_entry Equals k' (map (touch k f) xs) = map_option (touch k f) (find_entry Equals k' xs)"
  by (induction xs) simp_all

lemma distinct_keys_touch [simp]:
  "distinct_keys Equals (map (touch k f) xs) = distinct_keys Equals xs"
  by (induction xs) simp_all

lemma update_entry_inv:
  "ht_inv Hash Equals ht \<Longrightarrow> ht_inv Hash Equals (update_entry k f ht)"
  by (auto simp: ht_inv_def update_entry_touch simp flip: map_concat)

lemma get_update_entry:
  assumes "ht_inv CdiagsHashEventType CdiagsEqualsEventType ht"
  shows "JphtGetEntryHashtable CdiagsHashEventType CdiagsEqualsEventType k' (update_entry k f ht) =
           map_option (touch k f) (JphtGetEntryHashtable CdiagsHashEventType CdiagsEqualsEventType k' ht)"
  using handler_table.get_find [OF update_entry_inv [OF assms]] handler_table.get_find [OF assms]
  by (simp add: entries_update_entry find_entry_touch del: set_concat)

lemma regs_hold_touch:
  assumes "\<And>r. RegHandler (f r) = RegHandler r"
  shows "regs_hold x (mset (map (touch k f) es)) = regs_hold x (mset es)"
  using assms by (induction es) (simp_all add: reg_holds_def touch_def)

lemma severity_filter_accounts:
  assumes "accounts ext w" "Sess w = Some s"
  obtains w' s' where
    "CdiagsSetSeverityFilter T F w =
       Some (if get_registration T s = None then S_FALSE else S_OK, w')"
    "accounts ext w'" "Sess w' = Some s'" "DefaultHandler s' = DefaultHandler s"
    "\<And>T'. effective_registration T' s' =
       (if T' = T \<and> get_registration T s \<noteq> None
        then (effective_registration T s)\<lparr>RegSeverityFilter := F\<rparr>
        else effective_registration T' s)"
proof (cases "get_registration T s")
  case None
  with assms that [of w s] show ?thesis by (simp add: CdiagsSetSeverityFilter_def)
next
  case (Some e)
  let ?f = "\<lambda>r. r\<lparr>RegSeverityFilter := F\<rparr>"
  let ?s = "s\<lparr>Handlers := update_entry (lookup_key T) ?f (Handlers s)\<rparr>"
  note A = accountsD [OF assms]
  have inv: "ht_inv CdiagsHashEventType CdiagsEqualsEventType (Handlers s)"
    using A(3) by (simp add: session_wf_def)
  have wf: "session_wf ?s"
    using A(3) update_entry_inv [OF inv]
    by (auto simp: session_wf_def entries_update_entry touch_def simp del: set_concat)
  have "accounts ext (put_session ?s w)"
  proof (rule accountsI [of _ ?s])
    fix x
    show "live (put_session ?s w) x = ext x + session_holds ?s x"
      using A(2) [of x] regs_hold_touch [of ?f x "lookup_key T" "entries (Handlers s)"]
      by (simp add: session_holds_def entries_update_entry)
  qed (use A(1) wf in simp_all)
  moreover have "effective_registration T' ?s =
      (if T' = T then ?f (effective_registration T s) else effective_registration T' s)" for T'
  proof -
    have reg: "get_registration T' ?s = map_option (touch (lookup_key T) ?f) (get_registration T' s)" for T'
      by (simp add: get_registration_def get_update_entry [OF inv])
    have "CdiagsEqualsEventType (Key e') (lookup_key T')" if "get_registration T' s = Some e'" for e' T'
      using that handler_table.get_iff [OF inv, of "lookup_key T'" e'] by (simp add: get_registration_def)
    moreover have "CdiagsEqualsEventType (lookup_key T') (lookup_key T) \<longleftrightarrow> T' = T"
      using equal_keys handler_table.equals_trans handler_table.equals_sym
      by (metis CdiagsEqualsEventType_def equal_keys)
    ultimately have "CdiagsEqualsEventType (Key e') (lookup_key T) \<longleftrightarrow> T' = T"
      if "get_registration T' s = Some e'" for e'
      using that handler_table.equals_trans handler_table.equals_sym by metis
    with Some show ?thesis
      by (auto simp: effective_registration_def reg touch_def split: option.splits)
  qed
  ultimately show ?thesis
    using that [of "put_session ?s w" ?s] Some assms(2) by (simp add: CdiagsSetSeverityFilter_def)
qed

lemma swap_slot_accounts:
  assumes "accounts ext w" "Sess w = Some s" "0 < ext ob" "0 < session_holds s old"
    and "session_wf s'"
    and "\<And>x. session_holds s' x + (if x = old then 1 else 0) = session_holds s x + (if x = ob then 1 else 0)"
  obtains w1 w2 where "Dereference old w = Some w1" "Reference ob w1 = Some w2"
    "accounts ext (put_session s' w2)"
proof -
  note A = accountsD [OF assms(1,2)]
  have "0 < live w old" using A(2) assms(4) by simp
  then have "0 < live w o'" if "Some old = Some o'" for o' using that by simp
  moreover have "(if Some old = Some ob then 1 else 0) < live w ob"
    using A(2) [of ob] assms(3,4) by auto
  ultimately obtain w1 w2 where w: "Dereference_opt (Some old) w = Some w1" "Reference ob w1 = Some w2"
    "moves w w2 (\<lambda>x n. n - (if Some old = Some x then 1 else 0) + (if x = ob then 1 else 0))"
    using swap_moves [OF A(1), of "Some old" ob] by blast
  have "accounts ext (put_session s' w2)"
  proof (rule accountsI [of _ s'])
    fix x
    show "live (put_session s' w2) x = ext x + session_holds s' x"
      using w(3) A(2) [of x] assms(4) assms(6) [of x]
      by (cases "x = old"; cases "x = ob") (auto simp: moves_def)
  qed (use w(3) assms(5) in \<open>simp_all add: moves_def\<close>)
  with w that show ?thesis by (simp add: Dereference_opt_def)
qed

lemma resolver_accounts:
  assumes "accounts ext w" "Sess w = Some s" "0 < ext ob"
  obtains w1 w2 where "Dereference (Resolver s) w = Some w1" "Reference ob w1 = Some w2"
    "accounts ext (put_session (s\<lparr>Resolver := ob\<rparr>) w2)"
proof (rule swap_slot_accounts [OF assms, of "Resolver s" "s\<lparr>Resolver := ob\<rparr>"])
  show "session_wf (s\<lparr>Resolver := ob\<rparr>)" using accountsD(3) [OF assms(1,2)] by (simp add: session_wf_def)
qed (auto simp: session_holds_def intro: that)

lemma formatter_accounts:
  assumes "accounts ext w" "Sess w = Some s" "0 < ext ob"
  obtains w1 w2 where "Dereference (Formatter s) w = Some w1" "Reference ob w1 = Some w2"
    "accounts ext (put_session (s\<lparr>Formatter := ob\<rparr>) w2)"
proof (rule swap_slot_accounts [OF assms, of "Formatter s" "s\<lparr>Formatter := ob\<rparr>"])
  show "session_wf (s\<lparr>Formatter := ob\<rparr>)" using accountsD(3) [OF assms(1,2)] by (simp add: session_wf_def)
qed (auto simp: session_holds_def intro: that)

text \<open>Every object of the session is alive, and so is every object a registration names.\<close>

lemma registration_alive:
  assumes "accounts ext w" "Sess w = Some s" "RegHandler (effective_registration T s) = Some ob"
  shows "0 < live w ob"
proof -
  have "0 < session_holds s ob"
    using holds_registered [of T s _ ob] accountsD(3) [OF assms(1,2)] assms(3)
    by (cases "get_registration T s")
      (auto simp: effective_registration_def session_holds_def reg_holds_def)
  then show ?thesis using accountsD(2) [OF assms(1,2)] by simp
qed

section \<open>Deletion\<close>

lemma delete_registrations:
  assumes "counted w" and "\<And>x. regs_hold x (mset es) \<le> live w x"
  shows "\<exists>w'. fold (\<lambda>e w. w \<bind> CdiagsDeleteHandlerRegistration (Payload e)) es (Some w) = Some w'
            \<and> moves w w' (\<lambda>x n. n - regs_hold x (mset es))"
  using assms
proof (induction es arbitrary: w)
  case (Cons e es)
  let ?p = "RegHandler (Payload e)"
  have "0 < live w ob" if "?p = Some ob" for ob
    using Cons.prems(2) [of ob] that by (simp add: reg_holds_def)
  from Dereference_opt_moves [OF Cons.prems(1) this] obtain w1 where w1:
    "Dereference_opt ?p w = Some w1" "moves w w1 (\<lambda>x n. n - (if ?p = Some x then 1 else 0))" by blast
  have "regs_hold x (mset es) \<le> live w1 x" for x
    using Cons.prems(2) [of x] w1(2) by (simp add: moves_def reg_holds_def split: if_splits)
  from Cons.IH [OF moves_counted [OF w1(2)] this] obtain w' where w':
    "fold (\<lambda>e w. w \<bind> CdiagsDeleteHandlerRegistration (Payload e)) es (Some w1) = Some w'"
    "moves w1 w' (\<lambda>x n. n - regs_hold x (mset es))" by blast
  have "moves w w' (\<lambda>x n. n - regs_hold x (mset (e # es)))"
    using w1(2) w'(2) by (simp add: moves_def reg_holds_def)
  moreover have "CdiagsDeleteHandlerRegistration (Payload e) w = Some w1"
    using w1(1) by (simp add: CdiagsDeleteHandlerRegistration_def)
  ultimately show ?case using w'(1) by simp
qed (simp add: moves_def)

lemma delete_enumeration:
  "snd (JphtEnumerateEntries CdiagsTearDownHandlerFromHashtableCallback ht w) =
     fold (\<lambda>e w. w \<bind> CdiagsDeleteHandlerRegistration (Payload e)) (entries ht) w"
proof -
  have "CdiagsTearDownHandlerFromHashtableCallback =
      (\<lambda>e w. (True, w \<bind> CdiagsDeleteHandlerRegistration (Payload e)))"
    by (simp add: fun_eq_iff CdiagsTearDownHandlerFromHashtableCallback_def)
  then show ?thesis
    using enumerate_eq [of "\<lambda>_. True" "\<lambda>e w. w \<bind> CdiagsDeleteHandlerRegistration (Payload e)" ht w]
    by (simp only: snd_conv)
qed

lemma delete_session_accounts:
  assumes "accounts ext w" "Sess w = Some s"
  obtains w' where "CdiagsDeleteSession w = Some w'" "accounts ext w'" "Sess w' = None"
proof -
  note A = accountsD [OF assms]
  let ?d = "RegHandler (DefaultHandler s)"
  have "regs_hold x (mset (entries (Handlers s))) \<le> live w x" for x
    using A(2) [of x] by (simp add: session_holds_def)
  from delete_registrations [OF A(1) this] obtain w1 where w1:
    "fold (\<lambda>e w. w \<bind> CdiagsDeleteHandlerRegistration (Payload e)) (entries (Handlers s)) (Some w) = Some w1"
    "moves w w1 (\<lambda>x n. n - regs_hold x (mset (entries (Handlers s))))" by blast
  have l1: "live w1 x = ext x + (if Formatter s = x then 1 else 0) + (if Resolver s = x then 1 else 0)
      + (if ?d = Some x then 1 else 0)" for x
    using w1(2) A(2) [of x] by (simp add: moves_def session_holds_def reg_holds_def)
  then have "0 < live w1 ob" if "?d = Some ob" for ob using that by simp
  from Dereference_opt_moves [OF moves_counted [OF w1(2)] this] obtain w2 where w2:
    "Dereference_opt ?d w1 = Some w2" "moves w1 w2 (\<lambda>x n. n - (if ?d = Some x then 1 else 0))" by blast
  have l2: "live w2 x = ext x + (if Formatter s = x then 1 else 0) + (if Resolver s = x then 1 else 0)" for x
    using w2(2) l1 [of x] by (simp add: moves_def)
  then have "0 < live w2 (Formatter s)" by simp
  from Dereference_moves [OF moves_counted [OF w2(2)] this] obtain w3 where w3:
    "Dereference (Formatter s) w2 = Some w3" "moves w2 w3 (\<lambda>x n. n - (if x = Formatter s then 1 else 0))" .
  have l3: "live w3 x = ext x + (if Resolver s = x then 1 else 0)" for x
    using w3(2) l2 [of x] by (simp add: moves_def)
  then have "0 < live w3 (Resolver s)" by simp
  from Dereference_moves [OF moves_counted [OF w3(2)] this] obtain w4 where w4:
    "Dereference (Resolver s) w3 = Some w4" "moves w3 w4 (\<lambda>x n. n - (if x = Resolver s then 1 else 0))" .
  have l4: "live w4 x = ext x" for x using w4(2) l3 [of x] by (simp add: moves_def)
  have "CdiagsDeleteSession w = Some (w4\<lparr>Sess := None\<rparr>)"
    using assms(2) w1(1) w2(1) w3(1) w4(1)
      delete_enumeration [of "Handlers s" "Some w"]
    by (simp add: CdiagsDeleteSession_def case_prod_beta del: enumerate_buckets.simps)
  moreover have "accounts ext (w4\<lparr>Sess := None\<rparr>)"
    using l4 moves_counted [OF w4(2)] by (simp add: accounts_def)
  ultimately show ?thesis by (rule that) simp
qed

section \<open>Creation\<close>

lemma create_accounts:
  assumes "accounts ext w" "Sess w = None" "0 < ext f" "0 < ext r" "alloc (table_size True 23)"
  obtains w' s where
    "CdiagCreateSession True alloc CreateResolver CreateFormatter (Some f) (Some r) w = Some (S_OK, w')"
    "accounts ext w'" "Sess w' = Some s" "SessReferenceCount s = 1"
    "\<And>T. effective_registration T s = \<lparr>RegHandler = None, RegSeverityFilter = 0xFFFFFFFF\<rparr>"
proof -
  have A: "counted w" "\<And>x. live w x = ext x" using assms(1,2) by (auto simp: accounts_def)
  from A(2) assms(4) have "0 < live w r" by simp
  from Reference_moves [OF A(1) this] obtain w1 where w1: "Reference r w = Some w1"
    "moves w w1 (\<lambda>x n. n + (if x = r then 1 else 0))" .
  have "0 < live w1 f" using w1(2) A(2) assms(3) by (simp add: moves_def)
  from Reference_moves [OF moves_counted [OF w1(2)] this] obtain w2 where w2:
    "Reference f w1 = Some w2" "moves w1 w2 (\<lambda>x n. n + (if x = f then 1 else 0))" .
  obtain t :: "handler_registration hashtable" where t: "JphtInitializeHashtable True alloc 23 = Some t"
    "t = \<lparr>EntryCount = 0, BucketCount = 23, Buckets = replicate 23 []\<rparr>"
    using assms(5) by (simp add: JphtInitializeHashtable_def)
  let ?d = "\<lparr>RegHandler = None, RegSeverityFilter = 0xFFFFFFFF\<rparr>"
  let ?s = "\<lparr>SessReferenceCount = 1, Formatter = f, Resolver = r, DefaultHandler = ?d, Handlers = t\<rparr>"
  have inv: "ht_inv CdiagsHashEventType CdiagsEqualsEventType t"
    using handler_table.empty_inv [of 23] t(2) by simp
  have empty: "entries t = []" using t(2) by simp
  have none: "regs_hold x (mset (entries t)) = 0" for x unfolding empty by simp
  have acc: "accounts ext (put_session ?s w2)"
  proof (rule accountsI [of _ ?s])
    fix x
    show "live (put_session ?s w2) x = ext x + session_holds ?s x"
      using w1(2) w2(2) A(2) [of x] none [of x]
      by (simp add: moves_def session_holds_def reg_holds_def)
  qed (use w2(2) inv empty in \<open>auto simp: moves_def session_wf_def\<close>)
  have "get_registration T ?s = None" for T
    using handler_table.get_find [OF inv] empty by (simp add: get_registration_def del: set_concat)
  then have eff: "effective_registration T ?s = ?d" for T by (simp add: effective_registration_def)
  show ?thesis
  proof (rule that [of "put_session ?s w2" ?s])
    show "CdiagCreateSession True alloc CreateResolver CreateFormatter (Some f) (Some r) w =
        Some (S_OK, put_session ?s w2)"
      using t(1) w1(1) w2(1) by (simp add: CdiagCreateSession_def)
  qed (use acc eff in simp_all)
qed

definition demo_ext :: "objref \<Rightarrow> nat" where
  "demo_ext x = (if x \<in> {1, 2, 3, 4} then 1 else 0)"

definition demo_world :: world where
  "demo_world = \<lparr>ObjRefs = (\<lambda>x. if x \<in> {1, 2, 3, 4} then Some 1 else None),
                 IsHandler = (\<lambda>x. x = 3 \<or> x = 4), Sess = None\<rparr>"

definition demo_session_world :: world where
  "demo_session_world = snd (the (CdiagCreateSession True (\<lambda>_. True) (Pair (Inl 1)) (\<lambda>_. Pair (Inl 1))
     (Some 1) (Some 2) demo_world))"

lemma demo_session:
  obtains s where "accounts demo_ext demo_session_world" "Sess demo_session_world = Some s"
    "SessReferenceCount s = 1"
    "\<And>T. effective_registration T s = \<lparr>RegHandler = None, RegSeverityFilter = 0xFFFFFFFF\<rparr>"
proof -
  have "accounts demo_ext demo_world"
    by (auto simp: accounts_def counted_def live_def demo_world_def demo_ext_def)
  moreover have "Sess demo_world = None" "0 < demo_ext 1" "0 < demo_ext 2"
    by (simp_all add: demo_world_def demo_ext_def)
  ultimately obtain w' s where w':
    "CdiagCreateSession True (\<lambda>_. True) (Pair (Inl 1)) (\<lambda>_. Pair (Inl 1)) (Some 1) (Some 2) demo_world
       = Some (S_OK, w')"
    "accounts demo_ext w'" "Sess w' = Some s" "SessReferenceCount s = 1"
    "\<And>T. effective_registration T s = \<lparr>RegHandler = None, RegSeverityFilter = 0xFFFFFFFF\<rparr>"
    using create_accounts [of demo_ext demo_world 1 2 "\<lambda>_. True" "Pair (Inl 1)" "\<lambda>_. Pair (Inl 1)"] by blast
  then have "demo_session_world = w'" by (simp add: demo_session_world_def)
  with w' that show ?thesis by blast
qed

section \<open>Queries\<close>

text \<open>\<open>handed ext w v w'\<close>: the caller has been given a reference to the object \<open>v\<close>, if it is one.\<close>

definition handed :: "(objref \<Rightarrow> nat) \<Rightarrow> world \<Rightarrow> session_value \<Rightarrow> world \<Rightarrow> bool" where
  "handed ext w v w' \<longleftrightarrow>
     Sess w' = Sess w \<and> accounts (\<lambda>x. ext x + (if v = ObjectValue x then 1 else 0)) w'"

lemma handed_nothing: "accounts ext w \<Longrightarrow> (\<And>x. v \<noteq> ObjectValue x) \<Longrightarrow> handed ext w v w"
  by (simp add: handed_def)

lemma reference_held:
  assumes "accounts ext w" "Sess w = Some s" "0 < session_holds s ob"
  shows "\<exists>w'. Reference ob w = Some w' \<and> handed ext w (ObjectValue ob) w'"
proof -
  note A = accountsD [OF assms(1,2)]
  have "0 < live w ob" using A(2) assms(3) by simp
  from Reference_moves [OF A(1) this] obtain w' where w': "Reference ob w = Some w'"
    "moves w w' (\<lambda>x n. n + (if x = ob then 1 else 0))" .
  have "accounts (\<lambda>x. ext x + (if ObjectValue ob = ObjectValue x then 1 else 0)) w'"
    using w'(2) A assms(2) by (intro accountsI [of _ s]) (auto simp: moves_def)
  with w' show ?thesis by (simp add: moves_def handed_def)
qed

lemma registration_held:
  assumes "session_wf s" "get_registration T s = Some e"
  obtains ob where "RegHandler (Payload e) = Some ob" "0 < session_holds s ob"
proof -
  from assms have "e \<in># mset (entries (Handlers s))"
    using handler_table.get_iff [of "Handlers s" "lookup_key T" e]
    by (simp add: get_registration_def session_wf_def)
  with assms(1) obtain ob where "RegHandler (Payload e) = Some ob" by (auto simp: session_wf_def)
  with holds_registered [OF assms(2,1)] that show ?thesis by blast
qed

lemma query_default_hands:
  assumes "accounts ext w" "Sess w = Some s"
  shows "\<exists>Hr v w'. CdiagsQueryDefaultHandler w = Some (Hr, v, w')
       \<and> Sess w' = Sess w \<and> accounts (\<lambda>x. ext x + (if v = ObjectValue x then 1 else 0)) w'"
proof (cases "RegHandler (DefaultHandler s)")
  case None
  with assms(2) handed_nothing [OF assms(1), of NullValue] show ?thesis
    by (simp add: CdiagsQueryDefaultHandler_def handed_def)
next
  case (Some ob)
  then have "0 < session_holds s ob" by (simp add: session_holds_def reg_holds_def)
  from reference_held [OF assms this] Some assms(2) show ?thesis
    by (auto simp: CdiagsQueryDefaultHandler_def handed_def)
qed

lemma query_handler_hands:
  assumes "accounts ext w" "Sess w = Some s"
  shows "\<exists>Hr v w'. CdiagsQueryHandler T w = Some (Hr, v, w')
       \<and> Sess w' = Sess w \<and> accounts (\<lambda>x. ext x + (if v = ObjectValue x then 1 else 0)) w'
       \<and> v = (case get_registration T s of None \<Rightarrow> NullValue
              | Some e \<Rightarrow> ObjectValue (the (RegHandler (Payload e))))
       \<and> Hr = (if get_registration T s = None then S_FALSE else S_OK)"
proof (cases "get_registration T s")
  case None
  with assms(2) handed_nothing [OF assms(1), of NullValue] show ?thesis
    by (simp add: CdiagsQueryHandler_def handed_def)
next
  case (Some e)
  from registration_held [OF accountsD(3) [OF assms] Some] obtain ob
    where ob: "RegHandler (Payload e) = Some ob" "0 < session_holds s ob" .
  from reference_held [OF assms ob(2)] Some ob(1) assms(2) show ?thesis
    by (auto simp: CdiagsQueryHandler_def handed_def)
qed

lemma query_filter_hands:
  assumes "accounts ext w" "Sess w = Some s"
  shows "\<exists>Hr v. CdiagsQuerySeverityFilter T w = Some (Hr, v, w)
       \<and> accounts (\<lambda>x. ext x + (if v = ObjectValue x then 1 else 0)) w"
  using assms by (cases "get_registration T s") (simp_all add: CdiagsQuerySeverityFilter_def)

section \<open>Setting an object\<close>

text \<open>What setting an object of any class does, given the caller's reference to it.\<close>

lemma set_object_accounts:
  assumes "accounts ext w" "Sess w = Some s" "0 < ext ob" "c = 0 \<Longrightarrow> IsHandler w ob"
    and "\<not> 4 < c" "c \<noteq> 1" "c \<noteq> 2"
  shows "\<exists>w' s'. CdiagSetInformationSession True True c T (ObjectValue ob) w = Some (S_OK, w')
       \<and> accounts ext w' \<and> Sess w' = Some s'"
proof -
  note S = CdiagSetInformationSession_def object_value_def
  consider "c = 0" | "c = 3" | "c \<noteq> 0" "c \<noteq> 3" by blast
  then show ?thesis
  proof cases
    case 1
    from default_handler_accounts [OF assms(1-3) assms(4) [OF 1]]
    obtain w' s' where "CdiagsSetDefaultHandler ob w = Some (S_OK, w')" "accounts ext w'"
      "Sess w' = Some s'" by blast
    with 1 show ?thesis by (auto simp: S)
  next
    case 2
    from resolver_accounts [OF assms(1-3)] obtain w1 w2 where
      "Dereference (Resolver s) w = Some w1" "Reference ob w1 = Some w2"
      "accounts ext (put_session (s\<lparr>Resolver := ob\<rparr>) w2)" by blast
    with 2 assms(2) show ?thesis by (auto simp: S)
  next
    case 3
    from formatter_accounts [OF assms(1-3)] obtain w1 w2 where
      "Dereference (Formatter s) w = Some w1" "Reference ob w1 = Some w2"
      "accounts ext (put_session (s\<lparr>Formatter := ob\<rparr>) w2)" by blast
    with 3 assms(2,5-7) show ?thesis by (auto simp: S)
  qed
qed

section \<open>Properties\<close>

text \<open>
  Setting session information. Whatever class and event type are set, with an object the
  caller holds a reference to (or a filter), the call returns, touches no object that is gone,
  and afterwards the count of every object is exactly what the outside and the session hold:
  the replaced object has lost one reference and the new one gained one. A handler set for a
  type is in effect for that type only, with every severity enabled.
\<close>

lemma set_information_keeps_accounts:
  assumes "accounts ext w" and "Sess w = Some s"
    and "(case v of NullValue \<Rightarrow> True
          | ObjectValue ob \<Rightarrow> c \<noteq> 2 \<and> 0 < ext ob \<and> (c = 0 \<longrightarrow> IsHandler w ob)
          | DwordValue _ \<Rightarrow> c = 2)"
  shows "\<exists>Hr w' s'. CdiagSetInformationSession True True c T v w = Some (Hr, w')
       \<and> accounts ext w' \<and> Sess w' = Some s'
       \<and> (c > 4 \<or> v = NullValue \<longrightarrow> Hr = E_INVALIDARG \<and> w' = w)
       \<and> (c = 1 \<and> v \<noteq> NullValue \<longrightarrow> Hr = S_OK \<and> (\<forall>T'. effective_registration T' s' =
            (if T' = T then \<lparr>RegHandler = object_value v, RegSeverityFilter = 0xFFFFFFFF\<rparr>
             else effective_registration T' s)))"
proof (cases "c > 4 \<or> v = NullValue")
  case True
  with assms show ?thesis by (auto simp: CdiagSetInformationSession_def)
next
  case False
  then have c: "\<not> 4 < c" and v: "v \<noteq> NullValue" by auto
  note S = CdiagSetInformationSession_def object_value_def dword_value_def
  show ?thesis
  proof (cases v)
    case (ObjectValue ob)
    with assms(3) have ob: "c \<noteq> 2" "0 < ext ob" "c = 0 \<Longrightarrow> IsHandler w ob" by auto
    show ?thesis
    proof (cases "c = 1")
      case True
      from set_handler_accounts [OF assms(1,2) ob(2), of T] obtain w' s' where
        "CdiagsSetHandler True T ob w = Some (S_OK, w')" "accounts ext w'" "Sess w' = Some s'"
        "\<And>T'. effective_registration T' s' =
           (if T' = T then \<lparr>RegHandler = Some ob, RegSeverityFilter = 0xFFFFFFFF\<rparr>
            else effective_registration T' s)" by blast
      with True ObjectValue show ?thesis by (auto simp: S)
    next
      case False
      with set_object_accounts [OF assms(1,2) ob(2,3) c, of T] ob(1) ObjectValue c v
      show ?thesis by auto
    qed
  next
    case (DwordValue d)
    with assms(3) have "c = 2" by simp
    from severity_filter_accounts [OF assms(1,2), of T d] obtain Hr w' s' where
      "CdiagsSetSeverityFilter T d w = Some (Hr, w')" "accounts ext w'" "Sess w' = Some s'" by metis
    with \<open>c = 2\<close> DwordValue show ?thesis by (auto simp: S)
  qed (use v in simp)
qed

text \<open>
  Querying a session. A query returns, hands the caller a reference of its own to the
  object it answers and changes nothing else; without a handler for the type it says so, and
  does not answer the default handler.
\<close>

lemma query_hands_out_reference:
  assumes "accounts ext w" and "Sess w = Some s"
  shows "\<exists>Hr v w'. CdiagQueryInformationSession True True c T w = Some (Hr, v, w')
       \<and> Sess w' = Sess w
       \<and> accounts (\<lambda>x. ext x + (if v = ObjectValue x then 1 else 0)) w'
       \<and> (c = 1 \<longrightarrow> v = (case get_registration T s of None \<Rightarrow> NullValue
                        | Some e \<Rightarrow> ObjectValue (the (RegHandler (Payload e))))
                 \<and> Hr = (if get_registration T s = None then S_FALSE else S_OK))"
proof -
  note Q = CdiagQueryInformationSession_def
  consider "4 < c" | "c = 0" | "c = 1" | "c = 2" | "c = 3"
    | "\<not> 4 < c" "c \<noteq> 0" "c \<noteq> 1" "c \<noteq> 2" "c \<noteq> 3" by blast
  then show ?thesis
  proof cases
    case 1
    then have "c \<noteq> 1" by auto
    with 1 assms(1) show ?thesis by (simp add: Q)
  next
    case 2
    with query_default_hands [OF assms] show ?thesis by (auto simp: Q)
  next
    case 3
    with query_handler_hands [OF assms, of T] show ?thesis by (auto simp: Q)
  next
    case 4
    with query_filter_hands [OF assms, of T] show ?thesis by (auto simp: Q)
  next
    case 5
    with reference_held [OF assms, of "Resolver s"] assms(2) show ?thesis
      by (auto simp: Q handed_def session_holds_def)
  next
    case 6
    with reference_held [OF assms, of "Formatter s"] assms(2) show ?thesis
      by (auto simp: Q handed_def session_holds_def)
  qed
qed

lemma passes_filter_bit: "passes_filter T F \<longleftrightarrow> bit F (unat T mod 32)"
proof -
  have "T AND 31 = take_bit 5 T" by (simp add: take_bit_eq_mask mask_eq_exp_minus_1)
  then have "unat (T AND 31) = take_bit 5 (unat T)" by (simp only: unsigned_take_bit_eq)
  then have "unat (T AND 31) = unat T mod 32" by (simp add: take_bit_eq_mod)
  then have "passes_filter T F \<longleftrightarrow> push_bit (unat T mod 32) 1 AND F \<noteq> 0"
    by (simp add: passes_filter_def)
  also have "\<dots> \<longleftrightarrow> bit F (unat T mod 32)"
    by (simp add: push_bit_of_1 and_exp_eq_0_iff_not_bit and.commute)
  finally show ?thesis .
qed

text \<open>The severity of a packet plays no role in the filter.\<close>

lemma filter_ignores_severity:
  "CdiagHandleEvent (\<lambda>ob q. Handle ob (PacketType q)) valid (Some (p\<lparr>PacketSeverity := x\<rparr>)) w =
     CdiagHandleEvent (\<lambda>ob q. Handle ob (PacketType q)) valid (Some p) w"
proof -
  have "PacketType (p\<lparr>PacketSeverity := x\<rparr>) = PacketType p" by simp
  then show ?thesis by (simp only: CdiagHandleEvent_def option.case)
qed

text \<open>
  C33: dispatch. A packet goes to the handler in effect for its type when the bit of the type is
  set in the filter of the registration, and to nobody otherwise; the handler is called once,
  with a reference of its own so that it may even replace itself, and that reference is taken
  back after the call. The packet's severity plays no role.
\<close>

theorem event_dispatch:
  assumes "accounts ext w" and "Sess w = Some s"
    and "r = effective_registration (PacketType p) s"
    and "\<And>ob w1. counted w1 \<Longrightarrow> 1 < live w1 ob \<Longrightarrow>
           counted (snd (Handle ob p w1)) \<and> 0 < live (snd (Handle ob p w1)) ob"
  shows "\<exists>Hr w'. CdiagHandleEvent Handle True (Some p) w = Some (Hr, w')
       \<and> (if RegHandler r = None \<or> \<not> bit (RegSeverityFilter r) (unat (PacketType p) mod 32)
          then Hr = S_FALSE \<and> live w' = live w \<and> Sess w' = Sess w
          else \<exists>ob w1 w2. RegHandler r = Some ob \<and> moves w w1 (\<lambda>x n. n + (if x = ob then 1 else 0))
             \<and> Handle ob p w1 = (Hr, w2) \<and> moves w2 w' (\<lambda>x n. n - (if x = ob then 1 else 0)))"
proof (cases "RegHandler r")
  case None
  then show ?thesis using assms(2,3) by (simp add: CdiagHandleEvent_def)
next
  case (Some ob)
  note A = accountsD [OF assms(1,2)]
  from Some assms(3) have "0 < live w ob" using registration_alive [OF assms(1,2)] by simp
  then obtain w1 where w1: "Reference ob w = Some w1"
    "moves w w1 (\<lambda>x n. n + (if x = ob then 1 else 0))" using Reference_moves [OF A(1)] by blast
  have l1: "1 < live w1 ob" using w1(2) \<open>0 < live w ob\<close> by (simp add: moves_def)
  show ?thesis
  proof (cases "bit (RegSeverityFilter r) (unat (PacketType p) mod 32)")
    case True
    obtain Hr w2 where h: "Handle ob p w1 = (Hr, w2)" by (cases "Handle ob p w1")
    with assms(4) [OF moves_counted [OF w1(2)] l1] have "counted w2" "0 < live w2 ob" by simp_all
    then obtain w' where "Dereference ob w2 = Some w'"
      "moves w2 w' (\<lambda>x n. n - (if x = ob then 1 else 0))" using Dereference_moves by blast
    with True Some w1 h assms(2,3) show ?thesis
      by (auto simp: CdiagHandleEvent_def passes_filter_bit)
  next
    case False
    from l1 have "0 < live w1 ob" by simp
    then obtain w' where w': "Dereference ob w1 = Some w'"
      "moves w1 w' (\<lambda>x n. n - (if x = ob then 1 else 0))"
      using Dereference_moves [OF moves_counted [OF w1(2)]] by blast
    have "live w' = live w" "Sess w' = Sess w" using w' w1(2) by (auto simp: moves_def)
    with False Some w1 w'(1) assms(2,3) show ?thesis
      by (auto simp: CdiagHandleEvent_def passes_filter_bit)
  qed
qed

theorem event_dispatch_witness:
  "\<exists>w w'. CdiagHandleEvent (\<lambda>ob p w. (of_nat ob, w)) True
       (Some \<lparr>PacketType = 0, PacketSeverity = 0\<rparr>) w = Some (3, w') \<and> live w' 3 = live w 3"
proof -
  from demo_session obtain s0 where s0: "accounts demo_ext demo_session_world"
    "Sess demo_session_world = Some s0" by blast
  have "0 < demo_ext 3" by (simp add: demo_ext_def)
  from set_handler_accounts [OF s0 this, of 0] obtain w s where w: "accounts demo_ext w" "Sess w = Some s"
    "effective_registration 0 s = \<lparr>RegHandler = Some 3, RegSeverityFilter = 0xFFFFFFFF\<rparr>" by metis
  have "bit (0xFFFFFFFF :: dword) 0" by simp
  then have "\<exists>Hr w'. CdiagHandleEvent (\<lambda>ob p w. (of_nat ob, w)) True
       (Some \<lparr>PacketType = 0, PacketSeverity = 0\<rparr>) w = Some (Hr, w')
     \<and> (\<exists>ob w1 w2. Some 3 = Some ob \<and> moves w w1 (\<lambda>x n. n + (if x = ob then 1 else 0))
             \<and> (of_nat ob, w1) = (Hr, w2) \<and> moves w2 w' (\<lambda>x n. n - (if x = ob then 1 else 0)))"
    using event_dispatch [where p = "\<lparr>PacketType = 0, PacketSeverity = 0\<rparr>"
        and Handle = "\<lambda>ob p w. (of_nat ob, w)", OF w(1,2) refl] w(3) by simp
  then obtain w' where "CdiagHandleEvent (\<lambda>ob p w. (of_nat ob, w)) True
       (Some \<lparr>PacketType = 0, PacketSeverity = 0\<rparr>) w = Some (3, w')" "live w' 3 = live w 3"
    by (auto simp: moves_def)
  then show ?thesis by blast
qed

text \<open>
  The last release. Giving back the last reference to a session deletes it and gives back
  every reference the session held, to the formatter, the resolver and every handler, whatever
  was registered; an earlier release only counts down.
\<close>

lemma last_release_returns_everything:
  assumes "accounts ext w" and "Sess w = Some s"
  shows "\<exists>w'. CdiagDereferenceSession True w = Some (S_OK, w') \<and> accounts ext w'
       \<and> (if SessReferenceCount s = 1 then Sess w' = None \<and> (\<forall>x. live w' x = ext x)
          else Sess w' = Some (s\<lparr>SessReferenceCount := SessReferenceCount s - 1\<rparr>) \<and> live w' = live w)"
proof -
  note A = accountsD [OF assms]
  let ?s = "s\<lparr>SessReferenceCount := SessReferenceCount s - 1\<rparr>"
  have acc: "accounts ext (put_session ?s w)"
    using A by (intro accountsI [of _ ?s]) (simp_all add: session_wf_def session_holds_def)
  show ?thesis
  proof (cases "SessReferenceCount s = 1")
    case True
    from delete_session_accounts [OF acc, of ?s] obtain w' where
      w': "CdiagsDeleteSession (put_session ?s w) = Some w'" "accounts ext w'" "Sess w' = None" by auto
    then have "\<forall>x. live w' x = ext x" by (simp add: accounts_def)
    with True w' assms(2) show ?thesis by (simp add: CdiagDereferenceSession_def)
  next
    case False
    then have "SessReferenceCount s - 1 \<noteq> 0" by simp
    with False acc assms(2) show ?thesis by (simp add: CdiagDereferenceSession_def)
  qed
qed

end
