(* ===== verification/KernelFilament.thy ===== *)
theory KernelFilament
  imports HashtableProps
begin

text \<open>
  Filaments in kernel mode (\<open>cfixkern/cfixkr/filament.c\<close>), the start of a child thread
  (\<open>cfixkern/cfixkr/thread.c\<close>) and the call of a test routine (\<open>cfixkern/cfixkr/drvconn.c\<close>).

  There is no thread local storage; a table maps thread objects to filaments. A filament lives
  on the stack of the routine that calls the test routine and is named by a number. A thread is
  its object, which is the key of the table, and its id. \<open>PoolBlocks\<close> counts the blocks of the
  pool that hold table entries. The spin lock and the mutex make each operation one step.
  Using a filament that is gone has no defined result (\<open>None\<close>).
\<close>

section \<open>State\<close>

type_synonym ntstatus = "32 word"

definition NT_SUCCESS :: "ntstatus \<Rightarrow> bool" where
  "NT_SUCCESS st \<longleftrightarrow> 0 \<le> sint st"

abbreviation STATUS_SUCCESS :: ntstatus where "STATUS_SUCCESS \<equiv> 0"
abbreviation STATUS_NO_MEMORY :: ntstatus where "STATUS_NO_MEMORY \<equiv> 0xC0000017"
abbreviation STATUS_ALLOTTED_SPACE_EXCEEDED :: ntstatus
  where "STATUS_ALLOTTED_SPACE_EXCEEDED \<equiv> 0xC0000099"
abbreviation STATUS_DRIVER_UNABLE_TO_LOAD :: ntstatus
  where "STATUS_DRIVER_UNABLE_TO_LOAD \<equiv> 0xC000026C"
abbreviation STATUS_BUFFER_OVERFLOW :: ntstatus where "STATUS_BUFFER_OVERFLOW \<equiv> 0x80000005"
abbreviation STATUS_NOT_FOUND :: ntstatus where "STATUS_NOT_FOUND \<equiv> 0xC0000225"

abbreviation KERNEL_MAX_THREADS :: nat where "KERNEL_MAX_THREADS \<equiv> 64"

record kthread =
  ThreadObject :: ulong_ptr
  KThreadId :: ulong

record kfilament =
  Channel :: nat
  KMainThreadId :: ulong
  Threads :: "ulong_ptr list"

record kstate =
  Table :: "nat hashtable"
  KFilaments :: "nat \<Rightarrow> kfilament option"
  PoolBlocks :: nat
  ClosedHandles :: "ulong_ptr list"

section \<open>Registry\<close>

definition CfixkrpInitializeFilamentRegistry :: "bool \<Rightarrow> (nat \<Rightarrow> bool) \<Rightarrow> (ntstatus \<times> kstate option)" where
  "CfixkrpInitializeFilamentRegistry Win64 alloc =
     (case JphtInitializeHashtable Win64 alloc 31 of
        None \<Rightarrow> (STATUS_NO_MEMORY, None)
      | Some t \<Rightarrow> (STATUS_SUCCESS,
          Some \<lparr>Table = t, KFilaments = Map.empty, PoolBlocks = 0, ClosedHandles = []\<rparr>))"

section \<open>Filaments\<close>

definition CfixkrpInitializeFilament :: "nat \<Rightarrow> ulong \<Rightarrow> nat \<Rightarrow> kstate \<Rightarrow> kstate" where
  "CfixkrpInitializeFilament Chan MainThreadId Filament s =
     s\<lparr>KFilaments := (KFilaments s)(Filament \<mapsto>
         \<lparr>Channel = Chan, KMainThreadId = MainThreadId, Threads = []\<rparr>)\<rparr>"

text \<open>Every entry of the thread list is passed to \<open>ZwClose\<close>.\<close>

definition CfixkrpDeleteFilament :: "nat \<Rightarrow> kstate \<Rightarrow> kstate option" where
  "CfixkrpDeleteFilament Filament s =
     (case KFilaments s Filament of
        None \<Rightarrow> None
      | Some f \<Rightarrow> Some (s\<lparr>ClosedHandles := ClosedHandles s @ Threads f\<rparr>))"

definition CfixkrsRegisterChildThreadFilament ::
    "nat \<Rightarrow> ulong_ptr \<Rightarrow> kstate \<Rightarrow> (ntstatus \<times> kstate) option" where
  "CfixkrsRegisterChildThreadFilament Filament Thread s =
     (case KFilaments s Filament of
        None \<Rightarrow> None
      | Some f \<Rightarrow>
          if length (Threads f) = KERNEL_MAX_THREADS
          then Some (STATUS_ALLOTTED_SPACE_EXCEEDED, s)
          else Some (STATUS_SUCCESS, s\<lparr>KFilaments := (KFilaments s)(Filament \<mapsto>
                                         f\<lparr>Threads := Threads f @ [Thread]\<rparr>)\<rparr>))"

definition table_put :: "ulong_ptr \<Rightarrow> nat \<Rightarrow> kstate \<Rightarrow> kstate" where
  "table_put k Filament s =
     s\<lparr>Table := snd (JphtPutEntryHashtable CfixkrsHashFilamentEntry CfixkrsEqualsFilamentEntry
                       \<lparr>Key = k, Payload = Filament\<rparr> (Table s))\<rparr>"

definition CfixkrpSetCurrentFilament ::
    "bool \<Rightarrow> kthread \<Rightarrow> nat \<Rightarrow> kstate \<Rightarrow> (ntstatus \<times> kstate) option" where
  "CfixkrpSetCurrentFilament pool_ok me Filament s =
     (if \<not> pool_ok then Some (STATUS_NO_MEMORY, s)
      else do {
        f \<leftarrow> KFilaments s Filament;
        let s = s\<lparr>PoolBlocks := PoolBlocks s + 1\<rparr>;
        (Status, s) \<leftarrow> (if KThreadId me \<noteq> KMainThreadId f
                       then CfixkrsRegisterChildThreadFilament Filament (ThreadObject me) s
                       else Some (STATUS_SUCCESS, s));
        Some (if \<not> NT_SUCCESS Status then (Status, s\<lparr>PoolBlocks := PoolBlocks s - 1\<rparr>)
              else (STATUS_SUCCESS, table_put (ThreadObject me) Filament s))
      })"

definition CfixkrpResetCurrentFilament :: "kthread \<Rightarrow> kstate \<Rightarrow> kstate option" where
  "CfixkrpResetCurrentFilament me s =
     (let (Entry, t) = JphtRemoveEntryHashtable CfixkrsHashFilamentEntry CfixkrsEqualsFilamentEntry
                         (ThreadObject me) (Table s)
      in case Entry of
           None \<Rightarrow> None
         | Some _ \<Rightarrow> Some (s\<lparr>Table := t, PoolBlocks := PoolBlocks s - 1\<rparr>))"

definition CfixkrpGetCurrentFilament :: "ulong_ptr \<Rightarrow> kstate \<Rightarrow> nat option" where
  "CfixkrpGetCurrentFilament thread s =
     map_option Payload (JphtGetEntryHashtable CfixkrsHashFilamentEntry CfixkrsEqualsFilamentEntry
                           thread (Table s))"

text \<open>\<open>Wait\<close> is \<open>KeWaitForMultipleObjects\<close> on the objects.\<close>

definition CfixkrpJoinChildThreadsFilament ::
    "(ulong_ptr list \<Rightarrow> ntstatus) \<Rightarrow> nat \<Rightarrow> kstate \<Rightarrow> ntstatus option" where
  "CfixkrpJoinChildThreadsFilament Wait Filament s =
     (case KFilaments s Filament of
        None \<Rightarrow> None
      | Some f \<Rightarrow> Some (if Threads f \<noteq> [] then Wait (Threads f) else STATUS_SUCCESS))"

section \<open>Threads\<close>

text \<open>
  The body of a child thread: \<open>run\<close> is the start routine under the exception filter. The status
  is what the creator of the thread gets to see.
\<close>

definition CfixkrsThreadStart ::
    "(kstate \<Rightarrow> kstate) \<Rightarrow> bool \<Rightarrow> kthread \<Rightarrow> nat \<Rightarrow> kstate \<Rightarrow> (ntstatus \<times> kstate) option" where
  "CfixkrsThreadStart run pool_ok me Filament s =
     do {
       (Status, s) \<leftarrow> CfixkrpSetCurrentFilament pool_ok me Filament s;
       (if NT_SUCCESS Status
        then map_option (Pair Status) (CfixkrpResetCurrentFilament me (run s))
        else Some (Status, s))
     }"

text \<open>
  The call of a test routine. The new filament is number \<open>Filament\<close> of the stack; it is gone when
  the call returns. \<open>GetRoutine\<close> is the lookup of the test adapter, \<open>Loaded\<close> whether the driver
  still holds its reference, and \<open>run\<close> the routine under the exception filter, with what it
  leaves behind: \<open>RoutineRanToCompletion\<close>, \<open>AbortRun\<close> and the channel.
\<close>

definition drop_filament :: "nat \<Rightarrow> kstate \<Rightarrow> kstate" where
  "drop_filament Filament s = s\<lparr>KFilaments := (KFilaments s)(Filament := None)\<rparr>"

definition CfixkrpCallRoutineDriverConnection ::
    "bool \<Rightarrow> (ulong_ptr list \<Rightarrow> ntstatus) \<Rightarrow> ntstatus \<Rightarrow> bool \<Rightarrow>
       (kstate \<Rightarrow> 'o \<times> kstate) \<Rightarrow> kthread \<Rightarrow> nat \<Rightarrow> nat \<Rightarrow> kstate \<Rightarrow>
       (ntstatus \<times> 'o option \<times> kstate) option" where
  "CfixkrpCallRoutineDriverConnection pool_ok Wait GetRoutine Loaded run me Chan Filament s =
     (let s = CfixkrpInitializeFilament Chan (KThreadId me) Filament s
      in if \<not> NT_SUCCESS GetRoutine then Some (GetRoutine, None, drop_filament Filament s)
      else do {
        (Status, s) \<leftarrow> CfixkrpSetCurrentFilament pool_ok me Filament s;
        (if \<not> NT_SUCCESS Status then Some (Status, None, drop_filament Filament s)
         else if \<not> Loaded then Some (STATUS_DRIVER_UNABLE_TO_LOAD, None, drop_filament Filament s)
         else do {
           let (outcome, s) = run s;
           _ \<leftarrow> CfixkrpJoinChildThreadsFilament Wait Filament s;
           s \<leftarrow> CfixkrpResetCurrentFilament me s;
           Some (STATUS_SUCCESS, Some outcome, drop_filament Filament s)
         })
      })"

section \<open>Invariant\<close>

text \<open>
  One block of the pool per entry of the table; every thread of the table has a filament that is
  alive, and is its main thread or one of its child threads; no filament has more child threads
  than a wait can take. \<open>ids\<close> maps thread objects to thread ids.
\<close>

definition k_inv :: "(ulong_ptr \<Rightarrow> ulong) \<Rightarrow> kstate \<Rightarrow> bool" where
  "k_inv ids s \<longleftrightarrow> ht_inv CfixkrsHashFilamentEntry CfixkrsEqualsFilamentEntry (Table s)
     \<and> PoolBlocks s = length (entries (Table s))
     \<and> (\<forall>k Filament. CfixkrpGetCurrentFilament k s = Some Filament \<longrightarrow>
          (\<exists>f. KFilaments s Filament = Some f \<and> (ids k = KMainThreadId f \<or> k \<in> set (Threads f))))
     \<and> (\<forall>Filament f. KFilaments s Filament = Some f \<longrightarrow> length (Threads f) \<le> KERNEL_MAX_THREADS)"

inductive k_reachable :: "(ulong_ptr \<Rightarrow> ulong) \<Rightarrow> kstate \<Rightarrow> bool" for ids where
  created: "size_fits Win64 31 \<Longrightarrow>
     CfixkrpInitializeFilamentRegistry Win64 alloc = (STATUS_SUCCESS, Some s) \<Longrightarrow> k_reachable ids s"
| filament: "k_reachable ids s \<Longrightarrow> KFilaments s n = None \<Longrightarrow>
     k_reachable ids (CfixkrpInitializeFilament ch tid n s)"
| set: "k_reachable ids s \<Longrightarrow> CfixkrpGetCurrentFilament (ThreadObject me) s = None \<Longrightarrow>
     KThreadId me = ids (ThreadObject me) \<Longrightarrow>
     CfixkrpSetCurrentFilament pool_ok me n s = Some (st, s') \<Longrightarrow> k_reachable ids s'"
| reset: "k_reachable ids s \<Longrightarrow> CfixkrpResetCurrentFilament me s = Some s' \<Longrightarrow> k_reachable ids s'"
| dropped: "k_reachable ids s \<Longrightarrow>
     (\<And>k. CfixkrpGetCurrentFilament k s \<noteq> Some n) \<Longrightarrow> k_reachable ids (drop_filament n s)"

inductive_cases k_reachable_cases: "k_reachable ids s"

end
