(* ===== verification/KernelFilamentInv.thy ===== *)
theory KernelFilamentInv
  imports KernelFilament
begin

text \<open>
  The invariant of the kernel mode registry of filaments, and what a thread sees of it.
\<close>

section \<open>The registry as a map\<close>

lemma NT_SUCCESS_simps [simp]:
  "NT_SUCCESS 0" "\<not> NT_SUCCESS 0xC0000017" "\<not> NT_SUCCESS 0xC0000099" "\<not> NT_SUCCESS 0xC000026C"
  by (simp_all add: NT_SUCCESS_def)

lemma filament_equals [simp]: "CfixkrsEqualsFilamentEntry a b \<longleftrightarrow> a = b"
  by (simp add: CfixkrsEqualsFilamentEntry_def)

abbreviation registry_ok :: "kstate \<Rightarrow> bool" where
  "registry_ok s \<equiv> ht_inv CfixkrsHashFilamentEntry CfixkrsEqualsFilamentEntry (Table s)"

lemma get_update [simp]:
  "CfixkrpGetCurrentFilament k (s\<lparr>PoolBlocks := p\<rparr>) = CfixkrpGetCurrentFilament k s"
  "CfixkrpGetCurrentFilament k (s\<lparr>KFilaments := f\<rparr>) = CfixkrpGetCurrentFilament k s"
  "CfixkrpGetCurrentFilament k (CfixkrpInitializeFilament c i n s) = CfixkrpGetCurrentFilament k s"
  "CfixkrpGetCurrentFilament k (drop_filament n s) = CfixkrpGetCurrentFilament k s"
  by (simp_all add: CfixkrpGetCurrentFilament_def CfixkrpInitializeFilament_def drop_filament_def)

lemma get_table_put:
  "registry_ok s \<Longrightarrow> CfixkrpGetCurrentFilament k (table_put t n s) =
     (if k = t then Some n else CfixkrpGetCurrentFilament k s)"
  by (simp add: CfixkrpGetCurrentFilament_def table_put_def filament_table.put_lookup eq_commute)

lemma table_put_sel [simp]:
  "KFilaments (table_put t n s) = KFilaments s" "PoolBlocks (table_put t n s) = PoolBlocks s"
  by (simp_all add: table_put_def)

lemma table_put_ok: "registry_ok s \<Longrightarrow> registry_ok (table_put t n s)"
  by (simp add: table_put_def filament_table.put_inv)

lemma length_table_put:
  assumes "registry_ok s" "CfixkrpGetCurrentFilament t s = None"
  shows "length (entries (Table (table_put t n s))) = length (entries (Table s)) + 1"
proof -
  let ?e = "\<lparr>Key = t, Payload = n\<rparr>"
  have "fst (JphtPutEntryHashtable CfixkrsHashFilamentEntry CfixkrsEqualsFilamentEntry ?e (Table s)) = None"
    using assms by (simp add: filament_table.put_old CfixkrpGetCurrentFilament_def)
  with filament_table.put_balance [OF assms(1), of ?e]
  have "mset (entries (Table (table_put t n s))) = add_mset ?e (mset (entries (Table s)))"
    by (simp add: table_put_def)
  from arg_cong [OF this, of size] show ?thesis by simp
qed

lemma reset_cases:
  assumes "registry_ok s" "CfixkrpResetCurrentFilament me s = Some s'"
  shows "registry_ok s'" "KFilaments s' = KFilaments s" "PoolBlocks s' = PoolBlocks s - 1"
    "CfixkrpGetCurrentFilament k s' =
       (if k = ThreadObject me then None else CfixkrpGetCurrentFilament k s)"
    "CfixkrpGetCurrentFilament (ThreadObject me) s \<noteq> None"
    "length (entries (Table s')) + 1 = length (entries (Table s))"
proof -
  let ?t = "ThreadObject me"
  let ?rm = "JphtRemoveEntryHashtable CfixkrsHashFilamentEntry CfixkrsEqualsFilamentEntry ?t (Table s)"
  obtain e where e: "fst ?rm = Some e" and s': "s' = s\<lparr>Table := snd ?rm, PoolBlocks := PoolBlocks s - 1\<rparr>"
    using assms(2) by (auto simp: CfixkrpResetCurrentFilament_def case_prod_beta split: option.splits)
  show "registry_ok s'" using assms(1) by (simp add: s' filament_table.remove_inv)
  show "KFilaments s' = KFilaments s" "PoolBlocks s' = PoolBlocks s - 1" by (simp_all add: s')
  show "CfixkrpGetCurrentFilament k s' =
       (if k = ?t then None else CfixkrpGetCurrentFilament k s)"
    using assms(1) by (simp add: s' CfixkrpGetCurrentFilament_def filament_table.remove_lookup eq_commute)
  have get: "JphtGetEntryHashtable CfixkrsHashFilamentEntry CfixkrsEqualsFilamentEntry ?t (Table s) = Some e"
    using e filament_table.remove_old [OF assms(1), of ?t] by simp
  then show "CfixkrpGetCurrentFilament ?t s \<noteq> None" by (simp add: CfixkrpGetCurrentFilament_def)
  have "length (filter (\<lambda>x. \<not> CfixkrsEqualsFilamentEntry ?t (Key x)) (entries (Table s))) + 1
      = length (entries (Table s))"
    using filament_table.filter_one [OF filament_table.entries_distinct [OF assms(1)]]
      get filament_table.get_find [OF assms(1), of ?t] by simp
  moreover have "length (entries (Table s')) =
      length (filter (\<lambda>x. \<not> CfixkrsEqualsFilamentEntry ?t (Key x)) (entries (Table s)))"
    using arg_cong [OF filament_table.remove_entries [OF assms(1), of ?t], of size]
    by (metis kstate.ext_inject kstate.surjective kstate.update_convs(1,3) mset_filter s' size_mset)
  ultimately show "length (entries (Table s')) + 1 = length (entries (Table s))" by simp
qed

section \<open>Operations keep the invariant\<close>

lemma set_cases:
  assumes "CfixkrpSetCurrentFilament pool_ok me n s = Some (st, s')"
  shows "st = STATUS_NO_MEMORY \<and> s' = s
       \<or> st = STATUS_ALLOTTED_SPACE_EXCEEDED \<and> s' = s
       \<or> st = STATUS_SUCCESS \<and> (\<exists>f g. KFilaments s n = Some f
            \<and> (KThreadId me = KMainThreadId f \<and> g = f
               \<or> length (Threads f) \<noteq> KERNEL_MAX_THREADS \<and> g = f\<lparr>Threads := Threads f @ [ThreadObject me]\<rparr>)
            \<and> s' = table_put (ThreadObject me) n
                     (s\<lparr>PoolBlocks := PoolBlocks s + 1, KFilaments := (KFilaments s)(n \<mapsto> g)\<rparr>))"
proof (cases "pool_ok \<and> (\<exists>f. KFilaments s n = Some f)")
  case True
  then obtain f where f: "KFilaments s n = Some f" "pool_ok" by blast
  show ?thesis
  proof (cases "KThreadId me = KMainThreadId f")
    case True
    then have "(KFilaments s)(n \<mapsto> f) = KFilaments s" using f by (simp add: fun_upd_idem)
    then have "s\<lparr>PoolBlocks := PoolBlocks s + 1, KFilaments := (KFilaments s)(n \<mapsto> f)\<rparr> =
        s\<lparr>PoolBlocks := PoolBlocks s + 1\<rparr>" by simp
    moreover have "st = STATUS_SUCCESS"
      "s' = table_put (ThreadObject me) n (s\<lparr>PoolBlocks := PoolBlocks s + 1\<rparr>)"
      using True f assms by (auto simp: CfixkrpSetCurrentFilament_def)
    ultimately show ?thesis using True f by metis
  next
    case False
    with f assms show ?thesis
      by (cases "length (Threads f) = KERNEL_MAX_THREADS")
        (auto simp: CfixkrpSetCurrentFilament_def CfixkrsRegisterChildThreadFilament_def Let_def)
  qed
qed (use assms in \<open>auto simp: CfixkrpSetCurrentFilament_def split: if_splits\<close>)

lemma k_invD:
  assumes "k_inv ids s"
  shows "registry_ok s" "PoolBlocks s = length (entries (Table s))"
    "CfixkrpGetCurrentFilament k s = Some n \<Longrightarrow>
       \<exists>f. KFilaments s n = Some f \<and> (ids k = KMainThreadId f \<or> k \<in> set (Threads f))"
    "KFilaments s n = Some f \<Longrightarrow> length (Threads f) \<le> KERNEL_MAX_THREADS"
  using assms by (auto simp: k_inv_def)

lemma set_inv:
  assumes "k_inv ids s" "CfixkrpGetCurrentFilament (ThreadObject me) s = None"
    and "KThreadId me = ids (ThreadObject me)"
    and "CfixkrpSetCurrentFilament pool_ok me n s = Some (st, s')"
  shows "k_inv ids s'"
proof (cases "st = STATUS_SUCCESS")
  case True
  with set_cases [OF assms(4)] obtain f g where f: "KFilaments s n = Some f" and s': "s' = table_put (ThreadObject me) n
      (s\<lparr>PoolBlocks := PoolBlocks s + 1, KFilaments := (KFilaments s)(n \<mapsto> g)\<rparr>)"
    and g: "KThreadId me = KMainThreadId f \<and> g = f
       \<or> length (Threads f) \<noteq> KERNEL_MAX_THREADS \<and> g = f\<lparr>Threads := Threads f @ [ThreadObject me]\<rparr>"
    by auto
  let ?s = "s\<lparr>PoolBlocks := PoolBlocks s + 1, KFilaments := (KFilaments s)(n \<mapsto> g)\<rparr>"
  note I = k_invD [OF assms(1)]
  have ok: "registry_ok ?s" using I(1) by simp
  have none: "CfixkrpGetCurrentFilament (ThreadObject me) ?s = None" using assms(2) by simp
  have get: "CfixkrpGetCurrentFilament k s' =
      (if k = ThreadObject me then Some n else CfixkrpGetCurrentFilament k s)" for k
    unfolding s' get_table_put [OF ok] by simp
  have len: "length (Threads g) \<le> KERNEL_MAX_THREADS" using g I(4) [OF f] by auto
  have mine: "ids (ThreadObject me) = KMainThreadId g \<or> ThreadObject me \<in> set (Threads g)"
    using g assms(3) by auto
  have mono: "KMainThreadId g = KMainThreadId f" "set (Threads f) \<subseteq> set (Threads g)"
    using g by auto
  have "\<exists>h. KFilaments s' m = Some h \<and> (ids k = KMainThreadId h \<or> k \<in> set (Threads h))"
    if "CfixkrpGetCurrentFilament k s' = Some m" for k m
  proof (cases "k = ThreadObject me")
    case True
    with that mine get [of k] show ?thesis by (simp add: s')
  next
    case False
    with that have "CfixkrpGetCurrentFilament k s = Some m" by (simp add: get)
    with I(3) mono f show ?thesis by (cases "m = n") (fastforce simp: s')+
  qed
  moreover have "length (Threads h) \<le> KERNEL_MAX_THREADS" if "KFilaments s' m = Some h" for m h
    using that len I(4) by (auto simp: s' split: if_splits)
  ultimately show ?thesis
    using table_put_ok [OF ok] length_table_put [OF ok none] I(2) by (simp add: k_inv_def s')
next
  case False
  with set_cases [OF assms(4)] assms(1) show ?thesis by auto
qed

lemma reset_inv:
  assumes "k_inv ids s" "CfixkrpResetCurrentFilament me s = Some s'"
  shows "k_inv ids s'"
proof -
  note I = k_invD [OF assms(1)] and R = reset_cases [OF k_invD(1) [OF assms(1)] assms(2)]
  have "PoolBlocks s' = length (entries (Table s'))" using R(3,6) I(2) by simp
  with I R show ?thesis by (auto simp: k_inv_def split: if_splits)
qed

lemma k_reachable_inv: "k_reachable ids s \<Longrightarrow> k_inv ids s"
proof (induction rule: k_reachable.induct)
  case (created Win64 alloc s)
  then obtain t where t: "JphtInitializeHashtable Win64 alloc 31 = Some t"
    "s = \<lparr>Table = t, KFilaments = Map.empty, PoolBlocks = 0, ClosedHandles = []\<rparr>"
    by (auto simp: CfixkrpInitializeFilamentRegistry_def split: option.splits)
  then have "t = \<lparr>EntryCount = 0, BucketCount = 31, Buckets = replicate (unat (31 :: ulong)) []\<rparr>"
    by (auto simp: JphtInitializeHashtable_def split: if_splits)
  then have ok: "ht_inv CfixkrsHashFilamentEntry CfixkrsEqualsFilamentEntry t" and e: "entries t = []"
    using filament_table.empty_inv [of 31] by simp_all
  have "CfixkrpGetCurrentFilament k s = None" for k
    using filament_table.get_find [OF ok] e by (simp add: CfixkrpGetCurrentFilament_def t(2) del: set_concat)
  with t(2) ok e show ?case by (simp add: k_inv_def)
next
  case (filament s n ch tid)
  let ?s = "CfixkrpInitializeFilament ch tid n s"
  note I = k_invD [OF filament.IH]
  have "\<exists>f. KFilaments ?s m = Some f \<and> (ids k = KMainThreadId f \<or> k \<in> set (Threads f))"
    if "CfixkrpGetCurrentFilament k ?s = Some m" for k m
  proof -
    from that I(3) obtain f where "KFilaments s m = Some f"
      "ids k = KMainThreadId f \<or> k \<in> set (Threads f)" by auto
    with filament.hyps(2) show ?thesis by (auto simp: CfixkrpInitializeFilament_def)
  qed
  moreover have "length (Threads f) \<le> KERNEL_MAX_THREADS" if "KFilaments ?s m = Some f" for m f
    using that I(4) by (auto simp: CfixkrpInitializeFilament_def split: if_splits)
  ultimately show ?case using I(1,2) by (simp add: k_inv_def CfixkrpInitializeFilament_def)
next
  case (set s me pool_ok n st s')
  then show ?case by (metis set_inv)
next
  case (reset s me s')
  then show ?case by (metis reset_inv)
next
  case (dropped s n)
  note I = k_invD [OF dropped.IH]
  have "\<exists>f. KFilaments (drop_filament n s) m = Some f \<and> (ids k = KMainThreadId f \<or> k \<in> set (Threads f))"
    if "CfixkrpGetCurrentFilament k (drop_filament n s) = Some m" for k m
    using that I(3) [of k m] dropped.hyps(2) [of k] by (auto simp: drop_filament_def)
  moreover have "length (Threads f) \<le> KERNEL_MAX_THREADS"
    if "KFilaments (drop_filament n s) m = Some f" for m f
    using that I(4) by (auto simp: drop_filament_def split: if_splits)
  ultimately show ?case using I(1,2) by (simp add: k_inv_def drop_filament_def)
qed

section \<open>A call of a test routine\<close>

lemma set_main:
  assumes "registry_ok s" "KFilaments s n = Some f" "KThreadId me = KMainThreadId f"
  obtains s' where "CfixkrpSetCurrentFilament True me n s = Some (STATUS_SUCCESS, s')"
    "registry_ok s'" "KFilaments s' = KFilaments s" "PoolBlocks s' = PoolBlocks s + 1"
    "\<And>k. CfixkrpGetCurrentFilament k s' =
       (if k = ThreadObject me then Some n else CfixkrpGetCurrentFilament k s)"
proof
  let ?s = "table_put (ThreadObject me) n (s\<lparr>PoolBlocks := PoolBlocks s + 1\<rparr>)"
  show "CfixkrpSetCurrentFilament True me n s = Some (STATUS_SUCCESS, ?s)"
    using assms by (simp add: CfixkrpSetCurrentFilament_def)
  have ok: "registry_ok (s\<lparr>PoolBlocks := PoolBlocks s + 1\<rparr>)" using assms(1) by simp
  show "registry_ok ?s" by (rule table_put_ok [OF ok])
  show "CfixkrpGetCurrentFilament k ?s =
       (if k = ThreadObject me then Some n else CfixkrpGetCurrentFilament k s)" for k
    unfolding get_table_put [OF ok] by simp
qed simp_all

lemma reset_total:
  assumes "registry_ok s" "CfixkrpGetCurrentFilament (ThreadObject me) s = Some n"
  obtains s' where "CfixkrpResetCurrentFilament me s = Some s'"
proof -
  from assms(2) obtain e where "JphtGetEntryHashtable CfixkrsHashFilamentEntry CfixkrsEqualsFilamentEntry
      (ThreadObject me) (Table s) = Some e" by (auto simp: CfixkrpGetCurrentFilament_def)
  then have "fst (JphtRemoveEntryHashtable CfixkrsHashFilamentEntry CfixkrsEqualsFilamentEntry
      (ThreadObject me) (Table s)) = Some e"
    using filament_table.remove_old [OF assms(1)] by simp
  with that show ?thesis by (simp add: CfixkrpResetCurrentFilament_def case_prod_beta)
qed

section \<open>Properties\<close>

definition demo_thread :: kthread where
  "demo_thread = \<lparr>ThreadObject = 0x8000, KThreadId = 11\<rparr>"

definition demo_child :: kthread where
  "demo_child = \<lparr>ThreadObject = 0x9000, KThreadId = 12\<rparr>"

definition demo_ids :: "ulong_ptr \<Rightarrow> ulong" where
  "demo_ids k = (if k = 0x8000 then 11 else 12)"

definition demo_registry :: kstate where
  "demo_registry = the (snd (CfixkrpInitializeFilamentRegistry True (\<lambda>_. True)))"

definition demo_kstate :: kstate where
  "demo_kstate = snd (the (CfixkrpSetCurrentFilament True demo_child 1
     (snd (the (CfixkrpSetCurrentFilament True demo_thread 1
        (CfixkrpInitializeFilament 0 11 1 demo_registry))))))"

lemma demo_registry_reachable: "k_reachable demo_ids demo_registry"
  by (rule k_reachable.created [of True "\<lambda>_. True"])
    (simp_all add: size_always_fits_64 demo_registry_def CfixkrpInitializeFilamentRegistry_def
      JphtInitializeHashtable_def)

lemma some_status: "map_option fst r = Some st \<Longrightarrow> r = Some (st, snd (the r))"
  by auto

lemma demo_kstate_reachable: "k_reachable demo_ids demo_kstate"
proof -
  let ?s1 = "CfixkrpInitializeFilament 0 11 1 demo_registry"
  let ?r2 = "CfixkrpSetCurrentFilament True demo_thread 1 ?s1"
  let ?r3 = "CfixkrpSetCurrentFilament True demo_child 1 (snd (the ?r2))"
  have "KFilaments demo_registry 1 = None" by code_simp
  then have "k_reachable demo_ids ?s1"
    by (rule k_reachable.filament [OF demo_registry_reachable])
  moreover have "CfixkrpGetCurrentFilament (ThreadObject demo_thread) ?s1 = None" by code_simp
  moreover have "KThreadId demo_thread = demo_ids (ThreadObject demo_thread)" by code_simp
  moreover have "map_option fst ?r2 = Some STATUS_SUCCESS" by code_simp
  then have "?r2 = Some (STATUS_SUCCESS, snd (the ?r2))" by (rule some_status)
  ultimately have "k_reachable demo_ids (snd (the ?r2))" by (metis k_reachable.set)
  moreover have "CfixkrpGetCurrentFilament (ThreadObject demo_child) (snd (the ?r2)) = None" by code_simp
  moreover have "KThreadId demo_child = demo_ids (ThreadObject demo_child)" by code_simp
  moreover have "map_option fst ?r3 = Some STATUS_SUCCESS" by code_simp
  then have "?r3 = Some (STATUS_SUCCESS, snd (the ?r3))" by (rule some_status)
  ultimately show ?thesis unfolding demo_kstate_def by (metis k_reachable.set)
qed



lemma call_routine_cases:
  assumes "k_reachable ids s" and "CfixkrpGetCurrentFilament (ThreadObject me) s = None"
    and "\<And>t. registry_ok t \<Longrightarrow> CfixkrpGetCurrentFilament (ThreadObject me) t = Some n \<Longrightarrow>
           KFilaments t n \<noteq> None \<Longrightarrow> registry_ok (snd (run t))
           \<and> CfixkrpGetCurrentFilament (ThreadObject me) (snd (run t)) = Some n
           \<and> KFilaments (snd (run t)) n \<noteq> None"
  shows "\<exists>st out s'.
       CfixkrpCallRoutineDriverConnection pool_ok Wait GetRoutine Loaded run me ch n s = Some (st, out, s')
     \<and> KFilaments s' n = None
     \<and> CfixkrpGetCurrentFilament (ThreadObject me) s' =
         (if NT_SUCCESS GetRoutine \<and> pool_ok \<and> \<not> Loaded then Some n else None)
     \<and> (out \<noteq> None \<longleftrightarrow> NT_SUCCESS GetRoutine \<and> pool_ok \<and> Loaded)"
proof -
  let ?s = "CfixkrpInitializeFilament ch (KThreadId me) n s"
  note D = CfixkrpCallRoutineDriverConnection_def
  have ok: "registry_ok ?s"
    using k_invD(1) [OF k_reachable_inv [OF assms(1)]] by (simp add: CfixkrpInitializeFilament_def)
  have drop: "KFilaments (drop_filament n t) n = None" for t by (simp add: drop_filament_def)
  consider "\<not> NT_SUCCESS GetRoutine" | "NT_SUCCESS GetRoutine" "\<not> pool_ok"
    | "NT_SUCCESS GetRoutine" "pool_ok" by blast
  then show ?thesis
  proof cases
    case 3
    let ?f = "\<lparr>Channel = ch, KMainThreadId = KThreadId me, Threads = []\<rparr>"
    have f: "KFilaments ?s n = Some ?f" by (simp add: CfixkrpInitializeFilament_def)
    have "KThreadId me = KMainThreadId ?f" by simp
    from set_main [OF ok f this] obtain s1 where
      r1: "CfixkrpSetCurrentFilament True me n ?s = Some (STATUS_SUCCESS, s1)" "registry_ok s1"
        "KFilaments s1 = KFilaments ?s"
        "CfixkrpGetCurrentFilament (ThreadObject me) s1 = Some n" by metis
    from r1(3) f have "KFilaments s1 n \<noteq> None" by simp
    note s1 = r1(1,2) this r1(4)
    show ?thesis
    proof (cases Loaded)
      case True
      obtain o2 s2 where run: "run s1 = (o2, s2)" by (cases "run s1")
      with assms(3) [OF s1(2,4,3)] have s2: "registry_ok s2"
        "CfixkrpGetCurrentFilament (ThreadObject me) s2 = Some n" "KFilaments s2 n \<noteq> None" by simp_all
      then obtain w where w: "CfixkrpJoinChildThreadsFilament Wait n s2 = Some w"
        by (auto simp: CfixkrpJoinChildThreadsFilament_def)
      from reset_total [OF s2(1,2)] obtain s3 where s3: "CfixkrpResetCurrentFilament me s2 = Some s3" .
      with reset_cases(4) [OF s2(1) s3] 3 True s1(1) run w drop show ?thesis by (simp add: D Let_def)
    next
      case False
      with 3 s1 drop show ?thesis by (simp add: D Let_def)
    qed
  qed (use assms(2) drop in \<open>simp_all add: D Let_def CfixkrpSetCurrentFilament_def\<close>)
qed

text \<open>
  The call of a test routine. Whatever the routine does, as long as it leaves the filament
  of its own thread in place, the calling thread is without a filament afterwards, on every path
  but one: when the driver has already given up its reference the call returns with the filament
  still registered, although the filament is gone with the stack frame it lives in.
\<close>

lemma call_routine_filament:
  assumes "k_reachable ids s" and "CfixkrpGetCurrentFilament (ThreadObject me) s = None"
    and "\<And>t. registry_ok t \<Longrightarrow> CfixkrpGetCurrentFilament (ThreadObject me) t = Some n \<Longrightarrow>
           KFilaments t n \<noteq> None \<Longrightarrow> registry_ok (snd (run t))
           \<and> CfixkrpGetCurrentFilament (ThreadObject me) (snd (run t)) = Some n
           \<and> KFilaments (snd (run t)) n \<noteq> None"
  shows "\<exists>st out s'.
       CfixkrpCallRoutineDriverConnection pool_ok Wait GetRoutine Loaded run me ch n s = Some (st, out, s')
     \<and> KFilaments s' n = None
     \<and> CfixkrpGetCurrentFilament (ThreadObject me) s' =
         (if NT_SUCCESS GetRoutine \<and> pool_ok \<and> \<not> Loaded then Some n else None)
     \<and> (out \<noteq> None \<longleftrightarrow> NT_SUCCESS GetRoutine \<and> pool_ok \<and> Loaded)"
  by (rule call_routine_cases [OF assms])

end
