(* ===== verification/KernelThread.thy ===== *)
theory KernelThread
  imports KernelFilamentInv
begin

text \<open>
  Creating threads in kernel mode (\<open>cfixkern/cfixkr/thread.c\<close>): a system thread that inherits the
  filament of its creator, started in the context of the caller or, by a work item, of the system.

  The creator waits until the new thread has registered itself, so that creation and registration
  are one step; the routine of the thread and the removal of its entry are another, \<open>thread_finish\<close>.
  \<open>PsCreate\<close> is \<open>PsCreateSystemThread\<close> in the given context: the status, or the handle and the
  thread. \<open>OpenThreadHandles\<close> counts the handles to be closed.
\<close>

abbreviation STATUS_UNSUCCESSFUL :: ntstatus where "STATUS_UNSUCCESSFUL \<equiv> 0xC0000001"
abbreviation STATUS_INVALID_PARAMETER' :: ntstatus where "STATUS_INVALID_PARAMETER' \<equiv> 0xC000000D"
abbreviation CFIX_SYSTEM_THREAD_FLAG_SYSTEM_CONTEXT :: ulong
  where "CFIX_SYSTEM_THREAD_FLAG_SYSTEM_CONTEXT \<equiv> 1"

datatype creation_context = CallerContext | SystemContext

type_synonym ps_create = "creation_context \<Rightarrow> ntstatus + ulong_ptr \<times> kthread"

record kthread_world =
  Registry :: kstate
  OpenThreadHandles :: int

text \<open>The handle that the caller finds in its variable, and the thread that runs now.\<close>

record creation_result =
  CreationStatus :: ntstatus
  ThreadHandle :: "ulong_ptr option"
  Spawned :: "kthread option"

definition CfixkrsCreateSystemThreadWorkItemRoutine ::
    "ps_create \<Rightarrow> ntstatus \<times> (ulong_ptr \<times> kthread) option" where
  "CfixkrsCreateSystemThreadWorkItemRoutine PsCreate =
     (case PsCreate SystemContext of Inl Status \<Rightarrow> (Status, None) | Inr t \<Rightarrow> (STATUS_SUCCESS, Some t))"

text \<open>The work item has run when the wait ends.\<close>

definition CfixkrsCreateSystemThreadInSystemContext ::
    "ps_create \<Rightarrow> ntstatus \<times> (ulong_ptr \<times> kthread) option" where
  "CfixkrsCreateSystemThreadInSystemContext PsCreate = CfixkrsCreateSystemThreadWorkItemRoutine PsCreate"

definition creation_flags :: "nat \<times> nat \<Rightarrow> ulong \<Rightarrow> ulong" where
  "creation_flags OsVersion Flags =
     (if \<not> CfixpFlagOn Flags CFIX_SYSTEM_THREAD_FLAG_SYSTEM_CONTEXT
         \<and> (fst OsVersion < 5 \<or> fst OsVersion = 5 \<and> snd OsVersion = 0)
      then Flags OR CFIX_SYSTEM_THREAD_FLAG_SYSTEM_CONTEXT else Flags)"

definition spawn_thread :: "ps_create \<Rightarrow> ulong \<Rightarrow> ntstatus \<times> (ulong_ptr \<times> kthread) option" where
  "spawn_thread PsCreate Flags =
     (if CfixpFlagOn Flags CFIX_SYSTEM_THREAD_FLAG_SYSTEM_CONTEXT
      then CfixkrsCreateSystemThreadInSystemContext PsCreate
      else case PsCreate CallerContext of
        Inl Status \<Rightarrow> (Status, None) | Inr t \<Rightarrow> (STATUS_SUCCESS, Some t))"

definition no_thread :: "ntstatus \<Rightarrow> creation_result" where
  "no_thread Status = \<lparr>CreationStatus = Status, ThreadHandle = None, Spawned = None\<rparr>"

text \<open>
  When the new thread cannot register itself its handle is closed; the variable of the caller
  keeps the closed handle, since only the pointer to it is cleared.
\<close>

definition CfixkrpCreateSystemThread ::
    "ps_create \<Rightarrow> nat \<times> nat \<Rightarrow> bool \<Rightarrow> kthread \<Rightarrow> ulong \<Rightarrow> kthread_world \<Rightarrow>
       (creation_result \<times> kthread_world) option" where
  "CfixkrpCreateSystemThread PsCreate OsVersion pool_ok me Flags w =
     (if CFIX_SYSTEM_THREAD_FLAG_SYSTEM_CONTEXT < Flags then Some (no_thread STATUS_INVALID_PARAMETER', w)
      else case CfixkrpGetCurrentFilament (ThreadObject me) (Registry w) of
        None \<Rightarrow> Some (no_thread STATUS_UNSUCCESSFUL, w)
      | Some Filament \<Rightarrow>
          (case spawn_thread PsCreate (creation_flags OsVersion Flags) of
             (Status, None) \<Rightarrow> Some (no_thread Status, w)
           | (_, Some (Handle, child)) \<Rightarrow>
               do {
                 (InitializationStatus, s) \<leftarrow>
                   CfixkrpSetCurrentFilament pool_ok child Filament (Registry w);
                 (let w = w\<lparr>Registry := s, OpenThreadHandles := OpenThreadHandles w + 1\<rparr>
                  in if \<not> NT_SUCCESS InitializationStatus
                     then Some (\<lparr>CreationStatus = InitializationStatus, ThreadHandle = Some Handle,
                                 Spawned = None\<rparr>,
                                w\<lparr>OpenThreadHandles := OpenThreadHandles w - 1\<rparr>)
                     else Some (\<lparr>CreationStatus = STATUS_SUCCESS, ThreadHandle = Some Handle,
                                 Spawned = Some child\<rparr>, w))
               }))"

text \<open>The rest of \<open>CfixkrsThreadStart\<close>: \<open>run\<close> is the start routine under the exception filter.\<close>

definition thread_finish :: "(kstate \<Rightarrow> kstate) \<Rightarrow> kthread \<Rightarrow> kstate \<Rightarrow> kstate option" where
  "thread_finish run me s = CfixkrpResetCurrentFilament me (run s)"

section \<open>Properties\<close>

text \<open>Started at once, the two steps are the whole thread.\<close>

lemma thread_start_steps:
  "CfixkrsThreadStart run pool_ok t Filament s =
     do {
       (Status, s) \<leftarrow> CfixkrpSetCurrentFilament pool_ok t Filament s;
       (if NT_SUCCESS Status then map_option (Pair Status) (thread_finish run t s) else Some (Status, s))
     }"
  unfolding CfixkrsThreadStart_def thread_finish_def ..

lemma spawn_none_fails:
  assumes "spawn_thread PsCreate Flags = (Status, None)" and "\<And>c st. PsCreate c = Inl st \<Longrightarrow> \<not> NT_SUCCESS st"
  shows "\<not> NT_SUCCESS Status"
  using assms by (auto simp: spawn_thread_def CfixkrsCreateSystemThreadInSystemContext_def
      CfixkrsCreateSystemThreadWorkItemRoutine_def split: if_splits sum.splits)

text \<open>
  Creating a thread keeps the registry reachable. It adds an open handle exactly when it succeeds,
  and then the thread has the filament of its creator; when it fails, the registry is as before.
\<close>

lemma system_thread_registered:
  assumes "k_reachable ids (Registry w)" and "CfixkrpGetCurrentFilament (ThreadObject me) (Registry w) = Some n"
    and "\<And>c st. PsCreate c = Inl st \<Longrightarrow> \<not> NT_SUCCESS st"
    and "\<And>c h t. PsCreate c = Inr (h, t) \<Longrightarrow> KThreadId t = ids (ThreadObject t)
           \<and> CfixkrpGetCurrentFilament (ThreadObject t) (Registry w) = None"
    and "Flags \<le> CFIX_SYSTEM_THREAD_FLAG_SYSTEM_CONTEXT"
    and "CfixkrpCreateSystemThread PsCreate OsVersion pool_ok me Flags w = Some (r, w')"
  shows "k_reachable ids (Registry w')"
    and "if NT_SUCCESS (CreationStatus r)
         then OpenThreadHandles w' = OpenThreadHandles w + 1 \<and> (\<exists>t. Spawned r = Some t
           \<and> CfixkrpGetCurrentFilament (ThreadObject t) (Registry w') = Some n)
         else w' = w"
proof -
  obtain st sp where p: "spawn_thread PsCreate (creation_flags OsVersion Flags) = (st, sp)" by fastforce
  have fl: "(CFIX_SYSTEM_THREAD_FLAG_SYSTEM_CONTEXT < Flags) = False" using assms(5) by simp
  have "k_reachable ids (Registry w') \<and> (if NT_SUCCESS (CreationStatus r)
         then OpenThreadHandles w' = OpenThreadHandles w + 1 \<and> (\<exists>t. Spawned r = Some t
           \<and> CfixkrpGetCurrentFilament (ThreadObject t) (Registry w') = Some n)
         else w' = w)"
  proof (cases sp)
    case None
    with assms(1,2,6) p fl spawn_none_fails [OF p [unfolded None] assms(3)] show ?thesis
      by (auto simp: CfixkrpCreateSystemThread_def no_thread_def)
  next
    case (Some ht)
    obtain h t where ht: "ht = (h, t)" by (cases ht)
    from p Some ht obtain c where c: "PsCreate c = Inr (h, t)"
      by (auto simp: spawn_thread_def CfixkrsCreateSystemThreadInSystemContext_def
          CfixkrsCreateSystemThreadWorkItemRoutine_def split: if_splits sum.splits)
    note fresh = assms(4) [OF c]
    from assms(2,6) p Some ht fl obtain ist s where set:
      "CfixkrpSetCurrentFilament pool_ok t n (Registry w) = Some (ist, s)"
      by (auto simp: CfixkrpCreateSystemThread_def bind_Some_iff)
    have reach: "k_reachable ids s"
      by (rule k_reachable.set [OF assms(1) _ _ set]) (use fresh in auto)
    have ok: "registry_ok (Registry w)" by (rule k_invD(1) [OF k_reachable_inv [OF assms(1)]])
    have got: "CfixkrpGetCurrentFilament (ThreadObject t) s = Some n" if "NT_SUCCESS ist"
    proof -
      from set_cases [OF set] that obtain g where s: "s = table_put (ThreadObject t) n
          (Registry w\<lparr>PoolBlocks := PoolBlocks (Registry w) + 1,
             KFilaments := (KFilaments (Registry w))(n \<mapsto> g)\<rparr>)" by auto
      show ?thesis unfolding s by (subst get_table_put) (simp_all add: ok)
    qed
    have same: "s = Registry w" if "\<not> NT_SUCCESS ist"
      using set_cases [OF set] that by auto
    show ?thesis using assms(2,6) p Some ht fl set reach got same
      by (cases "NT_SUCCESS ist") (auto simp: CfixkrpCreateSystemThread_def)
  qed
  then show "k_reachable ids (Registry w')" and "if NT_SUCCESS (CreationStatus r)
      then OpenThreadHandles w' = OpenThreadHandles w + 1 \<and> (\<exists>t. Spawned r = Some t
        \<and> CfixkrpGetCurrentFilament (ThreadObject t) (Registry w') = Some n)
      else w' = w" by blast+
qed

end
