(* ===== verification/Connection.thy ===== *)
theory Connection
  imports KernelFilament
begin

text \<open>
  Connections to test drivers: the registry of connections (\<open>cfixkern/cfixkr/drvconnreg.c\<close>) and
  the life of a connection under concurrent use (\<open>cfixkern/cfixkr/drvconn.c\<close>).

  The operations of the registry run under its lock and are functions on its state. The life of
  a connection is a step relation: any number of callers look the connection up, call into the
  driver and give their reference back, while the driver gives up its reference and unloads. A
  step is what the code does under one lock or with one interlocked operation; the test of the
  external reference count and the acquisition of the unload lock, which the code does one after
  the other, are two steps, and so are the last release, the removal from the registry and the
  release of the memory.
\<close>

section \<open>Registry\<close>

record conn_registry =
  Connections :: "nat hashtable"
  TornDown :: bool
  RegistrationBlocks :: nat

definition CfixkrsHashRegistration :: hash_routine where
  "CfixkrsHashRegistration k = ucast k"

definition CfixkrsEqualsRegistration :: equals_routine where
  "CfixkrsEqualsRegistration KeyLhs KeyRhs \<longleftrightarrow> KeyLhs = KeyRhs"

interpretation registration_table: hash_routines CfixkrsHashRegistration CfixkrsEqualsRegistration
  by unfold_locales
    (auto simp: CfixkrsHashRegistration_def CfixkrsEqualsRegistration_def
      intro!: equivpI reflpI sympI transpI)

definition CfixkrpInitializeDriverConnectionRegistry ::
    "bool \<Rightarrow> ntstatus \<Rightarrow> (nat \<Rightarrow> bool) \<Rightarrow> ntstatus \<times> conn_registry option" where
  "CfixkrpInitializeDriverConnectionRegistry Win64 InitLock alloc =
     (if \<not> NT_SUCCESS InitLock then (InitLock, None)
      else case JphtInitializeHashtable Win64 alloc 31 of
        None \<Rightarrow> (STATUS_NO_MEMORY, None)
      | Some t \<Rightarrow> (STATUS_SUCCESS,
          Some \<lparr>Connections = t, TornDown = False, RegistrationBlocks = 0\<rparr>))"

definition CfixkrsDeleteRegistrationHashtableCallback :: "nat ht_entry \<Rightarrow> nat \<Rightarrow> bool \<times> nat" where
  "CfixkrsDeleteRegistrationHashtableCallback e blocks = (True, blocks - 1)"

definition CfixkrpTeardownDriverConnectionRegistry :: "conn_registry \<Rightarrow> conn_registry" where
  "CfixkrpTeardownDriverConnectionRegistry r =
     (let (t, blocks) = JphtEnumerateEntries CfixkrsDeleteRegistrationHashtableCallback
                          (Connections r) (RegistrationBlocks r)
      in \<lparr>Connections = t, TornDown = True, RegistrationBlocks = blocks\<rparr>)"

definition CfixkrpRegisterDriverConnection ::
    "bool \<Rightarrow> ulong_ptr \<Rightarrow> nat \<Rightarrow> conn_registry \<Rightarrow> ntstatus \<times> conn_registry" where
  "CfixkrpRegisterDriverConnection pool_ok LoadAddress Connection r =
     (if \<not> pool_ok then (STATUS_NO_MEMORY, r)
      else (STATUS_SUCCESS,
        r\<lparr>Connections := snd (JphtPutEntryHashtable CfixkrsHashRegistration CfixkrsEqualsRegistration
                                \<lparr>Key = LoadAddress, Payload = Connection\<rparr> (Connections r)),
          RegistrationBlocks := RegistrationBlocks r + 1\<rparr>))"

definition CfixkrpUnregisterDriverConnection ::
    "ulong_ptr \<Rightarrow> conn_registry \<Rightarrow> ntstatus \<times> conn_registry" where
  "CfixkrpUnregisterDriverConnection LoadAddress r =
     (if TornDown r then (STATUS_SUCCESS, r)
      else
        let (Entry, t) = JphtRemoveEntryHashtable CfixkrsHashRegistration CfixkrsEqualsRegistration
                           LoadAddress (Connections r)
        in (STATUS_SUCCESS,
            r\<lparr>Connections := t,
              RegistrationBlocks := (if Entry = None then RegistrationBlocks r
                                     else RegistrationBlocks r - 1)\<rparr>))"

text \<open>The result is the connection found; the caller is given a reference to it.\<close>

definition CfixkrpLookupDriverConnection :: "ulong_ptr \<Rightarrow> conn_registry \<Rightarrow> ntstatus \<times> nat option" where
  "CfixkrpLookupDriverConnection DriverLoadAddress r =
     (case JphtGetEntryHashtable CfixkrsHashRegistration CfixkrsEqualsRegistration
             DriverLoadAddress (Connections r) of
        None \<Rightarrow> (STATUS_NOT_FOUND, None)
      | Some e \<Rightarrow> (STATUS_SUCCESS, Some (Payload e)))"

text \<open>\<open>DriverLoadAddresses\<close> holds the elements written, the first \<open>Count\<close> of the caller's array.\<close>

record get_connections_context =
  Capacity :: ulong
  Count :: ulong
  TotalAvailable :: ulong
  DriverLoadAddresses :: "ulong_ptr list"
  Overflow :: bool

definition CfixkrsEnlistConnectionHashtableCallback ::
    "nat ht_entry \<Rightarrow> get_connections_context \<Rightarrow> bool \<times> get_connections_context" where
  "CfixkrsEnlistConnectionHashtableCallback Entry c =
     (let c = c\<lparr>TotalAvailable := TotalAvailable c + 1\<rparr>
      in (False,
          if Count c < Capacity c
          then c\<lparr>DriverLoadAddresses := DriverLoadAddresses c @ [Key Entry], Count := Count c + 1\<rparr>
          else c\<lparr>Overflow := True\<rparr>))"

text \<open>Status, addresses written, \<open>ElementsWritten\<close> and \<open>ElementsAvailable\<close>.\<close>

definition CfixkrpGetDriverConnections ::
    "ulong \<Rightarrow> conn_registry \<Rightarrow> ntstatus \<times> ulong_ptr list \<times> ulong \<times> ulong" where
  "CfixkrpGetDriverConnections LoadAddressesCapacity r =
     (let c = snd (JphtEnumerateEntries CfixkrsEnlistConnectionHashtableCallback (Connections r)
                     \<lparr>Capacity = LoadAddressesCapacity, Count = 0, TotalAvailable = 0,
                      DriverLoadAddresses = [], Overflow = False\<rparr>)
      in (if Overflow c then STATUS_BUFFER_OVERFLOW else STATUS_SUCCESS,
          DriverLoadAddresses c, Count c, TotalAvailable c))"

section \<open>Life of a connection\<close>

datatype caller_pc = Outside | Holding | Checked | Calling | Refused

datatype driver_pc = DriverRunning | DriverLocked | DriverReleased | DriverGone

text \<open>
  \<open>Unregistering\<close> and \<open>Freeing\<close> count the threads that gave back a last reference and now have to
  remove the connection from the registry and then to release it; \<open>Freed\<close> counts the releases.
\<close>

record connection =
  ReferenceCount :: int
  ExternalReferenceCount :: int
  Registered :: bool
  Freed :: nat
  LockExclusive :: bool
  LockShared :: "nat set"
  Callers :: "nat \<Rightarrow> caller_pc"
  Driver :: driver_pc
  Unregistering :: nat
  Freeing :: nat

text \<open>
  A connection that has just been created: the driver holds the one reference, and the registry
  knows the connection.
\<close>

definition fresh_connection :: connection where
  "fresh_connection =
     \<lparr>ReferenceCount = 1, ExternalReferenceCount = 1, Registered = True, Freed = 0,
      LockExclusive = False, LockShared = {}, Callers = (\<lambda>_. Outside), Driver = DriverRunning,
      Unregistering = 0, Freeing = 0\<rparr>"

definition CfixkrpReferenceConnection :: "connection \<Rightarrow> connection" where
  "CfixkrpReferenceConnection s = s\<lparr>ReferenceCount := ReferenceCount s + 1\<rparr>"

definition CfixkrpDereferenceConnection :: "connection \<Rightarrow> connection" where
  "CfixkrpDereferenceConnection s =
     (let n = ReferenceCount s - 1
      in s\<lparr>ReferenceCount := n,
           Unregistering := (if n = 0 then Unregistering s + 1 else Unregistering s)\<rparr>)"

definition set_caller :: "nat \<Rightarrow> caller_pc \<Rightarrow> connection \<Rightarrow> connection" where
  "set_caller c pc s = s\<lparr>Callers := (Callers s)(c := pc)\<rparr>"

datatype conn_action =
    LookUp nat | Check nat | AcquireShared nat | ReleaseShared nat | GiveBack nat
  | DriverAcquire | DriverRelease | DriverDereference | Unregister | FreeConnection

text \<open>
  One step; \<open>None\<close> when the step is not possible in the state, because its actor is elsewhere or
  the lock is taken.
\<close>

fun conn_step :: "conn_action \<Rightarrow> connection \<Rightarrow> connection option" where
  "conn_step (LookUp c) s =
     (if Callers s c = Outside \<and> Registered s
      then Some (set_caller c Holding (CfixkrpReferenceConnection s)) else None)"
| "conn_step (Check c) s =
     (if Callers s c = Holding
      then Some (set_caller c (if ExternalReferenceCount s = 0 then Refused else Checked) s)
      else None)"
| "conn_step (AcquireShared c) s =
     (if Callers s c = Checked \<and> \<not> LockExclusive s
      then Some (set_caller c Calling (s\<lparr>LockShared := insert c (LockShared s)\<rparr>)) else None)"
| "conn_step (ReleaseShared c) s =
     (if Callers s c = Calling
      then Some (set_caller c Holding (s\<lparr>LockShared := LockShared s - {c}\<rparr>)) else None)"
| "conn_step (GiveBack c) s =
     (if Callers s c = Holding \<or> Callers s c = Refused
      then Some (set_caller c Outside (CfixkrpDereferenceConnection s)) else None)"
| "conn_step DriverAcquire s =
     (if Driver s = DriverRunning \<and> \<not> LockExclusive s \<and> LockShared s = {}
      then Some (s\<lparr>LockExclusive := True, Driver := DriverLocked\<rparr>) else None)"
| "conn_step DriverRelease s =
     (if Driver s = DriverLocked
      then Some (s\<lparr>ExternalReferenceCount := ExternalReferenceCount s - 1, LockExclusive := False,
                   Driver := DriverReleased\<rparr>) else None)"
| "conn_step DriverDereference s =
     (if Driver s = DriverReleased
      then Some ((CfixkrpDereferenceConnection s)\<lparr>Driver := DriverGone\<rparr>) else None)"
| "conn_step Unregister s =
     (if 0 < Unregistering s
      then Some (s\<lparr>Registered := False, Unregistering := Unregistering s - 1,
                   Freeing := Freeing s + 1\<rparr>) else None)"
| "conn_step FreeConnection s =
     (if 0 < Freeing s
      then Some (s\<lparr>Freed := Freed s + 1, Freeing := Freeing s - 1\<rparr>) else None)"

inductive conn_reachable :: "connection \<Rightarrow> bool" where
  created: "conn_reachable fresh_connection"
| step: "conn_reachable s \<Longrightarrow> conn_step a s = Some s' \<Longrightarrow> conn_reachable s'"

fun_cases conn_step_SomeE: "conn_step a s = Some s'"

fun conn_run :: "conn_action list \<Rightarrow> connection \<Rightarrow> connection option" where
  "conn_run [] s = Some s"
| "conn_run (a # as) s = (case conn_step a s of None \<Rightarrow> None | Some s \<Rightarrow> conn_run as s)"

lemma conn_run_reachable: "conn_reachable s \<Longrightarrow> conn_run as s = Some s' \<Longrightarrow> conn_reachable s'"
  by (induction as arbitrary: s) (auto split: option.splits intro: conn_reachable.step)

end
