(* ===== verification/ConnectionInv.thy ===== *)
theory ConnectionInv
  imports Connection KernelFilamentInv
begin

text \<open>
  What holds of connections: the enumeration of the registry respects the caller's capacity, the
  counts of a connection are exact under every interleaving, and two windows of the protocol in
  which a gone driver or a freed connection is used.
\<close>

section \<open>Enumeration of the registry\<close>

abbreviation enlist_start :: "ulong \<Rightarrow> get_connections_context" where
  "enlist_start cap \<equiv> \<lparr>Capacity = cap, Count = 0, TotalAvailable = 0, DriverLoadAddresses = [],
                       Overflow = False\<rparr>"

definition enlisted :: "ulong \<Rightarrow> nat ht_entry list \<Rightarrow> get_connections_context" where
  "enlisted cap xs =
     \<lparr>Capacity = cap, Count = of_nat (min (unat cap) (length xs)),
      TotalAvailable = of_nat (length xs),
      DriverLoadAddresses = take (unat cap) (map Key xs), Overflow = (unat cap < length xs)\<rparr>"

lemma enlist_step:
  assumes "length xs + 1 < 2 ^ 32"
  shows "snd (CfixkrsEnlistConnectionHashtableCallback e (enlisted cap xs)) = enlisted cap (xs @ [e])"
proof (cases "length xs < unat cap")
  case True
  then have "min (unat cap) (length xs) = length xs" by simp
  moreover have "(of_nat (length xs) :: ulong) < cap"
    using True assms by (simp add: word_less_nat_alt unat_of_nat)
  ultimately show ?thesis using True
    by (simp add: CfixkrsEnlistConnectionHashtableCallback_def enlisted_def Let_def add.commute)
next
  case False
  then have "min (unat cap) (length xs) = unat cap" by simp
  with False show ?thesis
    by (simp add: CfixkrsEnlistConnectionHashtableCallback_def enlisted_def Let_def add.commute)
qed

lemma enlist_fold:
  assumes "length xs + length ys < 2 ^ 32"
  shows "fold (\<lambda>e c. snd (CfixkrsEnlistConnectionHashtableCallback e c)) ys (enlisted cap xs)
           = enlisted cap (xs @ ys)"
  using assms
proof (induction ys arbitrary: xs)
  case (Cons y ys)
  then have "length xs + 1 < 2 ^ 32" "length (xs @ [y]) + length ys < 2 ^ 32" by simp_all
  with enlist_step [of xs y cap] Cons.IH [of "xs @ [y]"] show ?case by simp
qed simp

lemma enlist_enumeration:
  "snd (JphtEnumerateEntries CfixkrsEnlistConnectionHashtableCallback ht c) =
     fold (\<lambda>e c. snd (CfixkrsEnlistConnectionHashtableCallback e c)) (entries ht) c"
proof -
  have "CfixkrsEnlistConnectionHashtableCallback =
      (\<lambda>e c. (False, snd (CfixkrsEnlistConnectionHashtableCallback e c)))"
    by (simp add: fun_eq_iff CfixkrsEnlistConnectionHashtableCallback_def Let_def)
  then show ?thesis
    using enumerate_eq [of "\<lambda>_. False" "\<lambda>e c. snd (CfixkrsEnlistConnectionHashtableCallback e c)" ht c]
    by (metis snd_conv)
qed

section \<open>Counts under interleaving\<close>

definition inside :: "connection \<Rightarrow> nat set" where
  "inside s = {c. Callers s c \<noteq> Outside}"

definition conn_inv :: "connection \<Rightarrow> bool" where
  "conn_inv s \<longleftrightarrow>
     ExternalReferenceCount s = (if Driver s = DriverRunning \<or> Driver s = DriverLocked then 1 else 0)
   \<and> LockExclusive s = (Driver s = DriverLocked)
   \<and> (LockExclusive s \<longrightarrow> LockShared s = {})
   \<and> (\<forall>c. c \<in> LockShared s \<longleftrightarrow> Callers s c = Calling)
   \<and> finite (inside s)
   \<and> ReferenceCount s = (if Driver s = DriverGone then 0 else 1) + int (card (inside s))"

lemma set_caller_sel [simp]:
  "ReferenceCount (set_caller c pc s) = ReferenceCount s"
  "ExternalReferenceCount (set_caller c pc s) = ExternalReferenceCount s"
  "Registered (set_caller c pc s) = Registered s" "Freed (set_caller c pc s) = Freed s"
  "LockExclusive (set_caller c pc s) = LockExclusive s" "LockShared (set_caller c pc s) = LockShared s"
  "Driver (set_caller c pc s) = Driver s"
  "Unregistering (set_caller c pc s) = Unregistering s" "Freeing (set_caller c pc s) = Freeing s"
  "Callers (set_caller c pc s) = (Callers s)(c := pc)"
  by (simp_all add: set_caller_def)

lemma reference_sel [simp]:
  "Registered (CfixkrpReferenceConnection s) = Registered s"
  "Registered (CfixkrpDereferenceConnection s) = Registered s"
  "ExternalReferenceCount (CfixkrpReferenceConnection s) = ExternalReferenceCount s"
  "LockExclusive (CfixkrpReferenceConnection s) = LockExclusive s"
  "LockShared (CfixkrpReferenceConnection s) = LockShared s"
  "Driver (CfixkrpReferenceConnection s) = Driver s" "Callers (CfixkrpReferenceConnection s) = Callers s"
  "ReferenceCount (CfixkrpReferenceConnection s) = ReferenceCount s + 1"
  "ExternalReferenceCount (CfixkrpDereferenceConnection s) = ExternalReferenceCount s"
  "LockExclusive (CfixkrpDereferenceConnection s) = LockExclusive s"
  "LockShared (CfixkrpDereferenceConnection s) = LockShared s"
  "Driver (CfixkrpDereferenceConnection s) = Driver s"
  "Callers (CfixkrpDereferenceConnection s) = Callers s"
  "ReferenceCount (CfixkrpDereferenceConnection s) = ReferenceCount s - 1"
  by (simp_all add: CfixkrpReferenceConnection_def CfixkrpDereferenceConnection_def Let_def)

lemma inside_set_caller:
  "inside (set_caller c pc s) = (if pc = Outside then inside s - {c} else insert c (inside s))"
  by (auto simp: inside_def)

lemma inside_update [simp]:
  "inside (CfixkrpReferenceConnection s) = inside s" "inside (CfixkrpDereferenceConnection s) = inside s"
  "inside (s\<lparr>LockShared := x\<rparr>) = inside s" "inside (s\<lparr>Driver := d\<rparr>) = inside s"
  "inside (s\<lparr>LockExclusive := l\<rparr>) = inside s" "inside (s\<lparr>Registered := b\<rparr>) = inside s"
  "inside (s\<lparr>ExternalReferenceCount := n\<rparr>) = inside s" "inside (s\<lparr>Freed := m\<rparr>) = inside s"
  "inside (s\<lparr>Unregistering := m\<rparr>) = inside s" "inside (s\<lparr>Freeing := m\<rparr>) = inside s"
  by (simp_all add: inside_def)

lemma stay_inside:
  "c \<in> inside s \<Longrightarrow> pc \<noteq> Outside \<Longrightarrow> inside (set_caller c pc s) = inside s"
  by (auto simp: inside_set_caller)

lemma conn_step_inv:
  assumes "conn_inv s" and "conn_step a s = Some s'"
  shows "conn_inv s'"
proof (cases a)
  case (LookUp c)
  with assms(2) have c: "c \<notin> inside s" "s' = set_caller c Holding (CfixkrpReferenceConnection s)"
    by (auto simp: inside_def split: if_splits)
  then have "Callers s c = Outside" by (simp add: inside_def)
  with c assms(1) show ?thesis by (simp add: conn_inv_def inside_set_caller)
next
  case (Check c)
  with assms(2) obtain pc where c: "Callers s c = Holding" "s' = set_caller c pc s"
    "pc = Refused \<or> pc = Checked" by (auto split: if_splits)
  then have "c \<in> inside s" "pc \<noteq> Outside" "pc \<noteq> Calling" by (auto simp: inside_def)
  with c assms(1) show ?thesis by (simp add: conn_inv_def stay_inside)
next
  case (AcquireShared c)
  with assms(2) have c: "Callers s c = Checked" "\<not> LockExclusive s"
    "s' = set_caller c Calling (s\<lparr>LockShared := insert c (LockShared s)\<rparr>)"
    by (auto split: if_splits)
  then have "c \<in> inside (s\<lparr>LockShared := insert c (LockShared s)\<rparr>)" by (simp add: inside_def)
  with c assms(1) show ?thesis by (simp add: conn_inv_def stay_inside)
next
  case (ReleaseShared c)
  with assms(2) have c: "Callers s c = Calling"
    "s' = set_caller c Holding (s\<lparr>LockShared := LockShared s - {c}\<rparr>)"
    by (auto split: if_splits)
  then have "c \<in> inside (s\<lparr>LockShared := LockShared s - {c}\<rparr>)" by (simp add: inside_def)
  with c assms(1) show ?thesis by (auto simp: conn_inv_def stay_inside)
next
  case (GiveBack c)
  with assms(2) have c: "c \<in> inside s" "s' = set_caller c Outside (CfixkrpDereferenceConnection s)"
    "Callers s c \<noteq> Calling" by (auto simp: inside_def split: if_splits)
  moreover have "int (card (inside s - {c})) = int (card (inside s)) - 1"
    using card.remove [of "inside s" c] c(1) assms(1) by (simp add: conn_inv_def)
  ultimately show ?thesis using assms(1) by (simp add: conn_inv_def inside_set_caller)
next
  case DriverAcquire
  with assms(2) have "Driver s = DriverRunning" "LockShared s = {}"
    "s' = s\<lparr>LockExclusive := True, Driver := DriverLocked\<rparr>" by (simp_all split: if_splits)
  with assms(1) show ?thesis by (simp add: conn_inv_def)
next
  case DriverRelease
  with assms(2) have "Driver s = DriverLocked" "s' = s\<lparr>ExternalReferenceCount :=
      ExternalReferenceCount s - 1, LockExclusive := False, Driver := DriverReleased\<rparr>"
    by (simp_all split: if_splits)
  with assms(1) show ?thesis by (auto simp: conn_inv_def)
next
  case DriverDereference
  with assms(2) have "Driver s = DriverReleased"
    "s' = (CfixkrpDereferenceConnection s)\<lparr>Driver := DriverGone\<rparr>" by (simp_all split: if_splits)
  with assms(1) show ?thesis by (simp add: conn_inv_def)
next
  case Unregister
  with assms(2) have "s' = s\<lparr>Registered := False,
      Unregistering := Unregistering s - 1, Freeing := Freeing s + 1\<rparr>" by (simp split: if_splits)
  with assms(1) show ?thesis by (simp add: conn_inv_def)
next
  case FreeConnection
  with assms(2) have "s' = s\<lparr>Freed := Freed s + 1, Freeing := Freeing s - 1\<rparr>" by (simp split: if_splits)
  with assms(1) show ?thesis by (simp add: conn_inv_def)
qed

lemma conn_reachable_inv: "conn_reachable s \<Longrightarrow> conn_inv s"
proof (induction rule: conn_reachable.induct)
  case created
  show ?case by (simp add: conn_inv_def inside_def fresh_connection_def)
qed (rule conn_step_inv)

lemma get_connections_eq:
  assumes "length (entries (Connections r)) < 2 ^ 32"
  shows "CfixkrpGetDriverConnections cap r =
           (if unat cap < length (entries (Connections r)) then STATUS_BUFFER_OVERFLOW else STATUS_SUCCESS,
            take (unat cap) (map Key (entries (Connections r))),
            of_nat (min (unat cap) (length (entries (Connections r)))),
            of_nat (length (entries (Connections r))))"
proof -
  let ?xs = "entries (Connections r)"
  have "enlist_start cap = enlisted cap []" by (simp add: enlisted_def)
  with enlist_fold [of "[]" ?xs cap] assms
  have "fold (\<lambda>e c. snd (CfixkrsEnlistConnectionHashtableCallback e c)) ?xs (enlist_start cap)
      = enlisted cap ?xs" by (metis add_0 append_Nil list.size(3))
  then have "snd (JphtEnumerateEntries CfixkrsEnlistConnectionHashtableCallback (Connections r)
      (enlist_start cap)) = enlisted cap ?xs" by (simp only: enlist_enumeration)
  then have "CfixkrpGetDriverConnections cap r =
      (if unat cap < length ?xs then STATUS_BUFFER_OVERFLOW else STATUS_SUCCESS,
       take (unat cap) (map Key ?xs), of_nat (min (unat cap) (length ?xs)), of_nat (length ?xs))"
    unfolding CfixkrpGetDriverConnections_def Let_def by (simp add: enlisted_def)
  then show ?thesis by simp
qed

section \<open>Properties\<close>

text \<open>
  C37: the load addresses of the connections. Whatever the capacity of the caller's array, no
  more addresses are written than it holds, they are the first ones of the registry, each
  connection is listed once, both counts are exact, and the overflow status is answered exactly
  if some address did not fit.
\<close>

theorem get_connections_within_capacity:
  assumes "length (entries (Connections r)) < 2 ^ 32"
  shows "CfixkrpGetDriverConnections cap r =
           (if unat cap < length (entries (Connections r)) then STATUS_BUFFER_OVERFLOW else STATUS_SUCCESS,
            take (unat cap) (map Key (entries (Connections r))),
            of_nat (min (unat cap) (length (entries (Connections r)))),
            of_nat (length (entries (Connections r))))
       \<and> length (fst (snd (CfixkrpGetDriverConnections cap r))) \<le> unat cap"
  using get_connections_eq [OF assms, of cap] by simp

definition demo_conn_registry :: conn_registry where
  "demo_conn_registry =
     snd (CfixkrpRegisterDriverConnection True 0xA000 2
       (snd (CfixkrpRegisterDriverConnection True 0xB000 1
         (the (snd (CfixkrpInitializeDriverConnectionRegistry True 0 (\<lambda>_. True)))))))"

theorem get_connections_within_capacity_witness:
  "fst (CfixkrpGetDriverConnections 1 demo_conn_registry) = STATUS_BUFFER_OVERFLOW
     \<and> length (fst (snd (CfixkrpGetDriverConnections 1 demo_conn_registry))) \<le> 1"
proof -
  have "length (entries (Connections demo_conn_registry)) = 2" by code_simp
  with get_connections_within_capacity [of demo_conn_registry 1] show ?thesis by simp
qed

text \<open>
  The life of a connection. In every interleaving of any number of callers with the driver
  that unloads, the reference count is one for the driver plus one for each caller inside, so
  that it is never negative; the external count is one until the driver releases it; the unload
  lock is held by those who are calling; and a driver never releases its reference while a
  routine of it is being called.
\<close>

lemma connection_counts_are_exact:
  assumes "conn_reachable s"
  shows "ReferenceCount s = (if Driver s = DriverGone then 0 else 1) + int (card (inside s))
       \<and> ExternalReferenceCount s = (if Driver s = DriverRunning \<or> Driver s = DriverLocked then 1 else 0)
       \<and> (\<forall>c. c \<in> LockShared s \<longleftrightarrow> Callers s c = Calling)
       \<and> (conn_step DriverRelease s \<noteq> None \<longrightarrow> (\<forall>c. Callers s c \<noteq> Calling))"
  using conn_reachable_inv [OF assms] by (auto simp: conn_inv_def)

definition demo_connection :: connection where
  "demo_connection = the (conn_run [LookUp 4, Check 4, AcquireShared 4, LookUp 7]
     fresh_connection)"

lemma demo_connection_reachable: "conn_reachable demo_connection"
  unfolding demo_connection_def
  by (rule conn_run_reachable [OF conn_reachable.created, of "[LookUp 4, Check 4, AcquireShared 4, LookUp 7]"])
    (simp add: fresh_connection_def)

text \<open>
  Three windows. Since the external count is tested before the lock is acquired, a caller
  can end up calling into a driver that has released its reference and is gone. Since the
  registry still knows a connection whose last reference has been given back, a caller can look
  up a connection that is then freed while the caller holds a reference to it; and when that
  caller has given the reference back, the connection is freed a second time.
\<close>

definition late_call :: "conn_action list" where
  "late_call = [LookUp 0, Check 0, DriverAcquire, DriverRelease, DriverDereference, AcquireShared 0]"

definition late_lookup :: "conn_action list" where
  "late_lookup = [DriverAcquire, DriverRelease, DriverDereference, LookUp 0, Unregister, FreeConnection]"

lemma run_gives_reachable:
  assumes "case conn_run as fresh_connection of None \<Rightarrow> False | Some s \<Rightarrow> P s"
  shows "\<exists>s. conn_reachable s \<and> P s"
  using assms conn_run_reachable [OF conn_reachable.created, of as] by (auto split: option.splits)

lemma connection_windows:
  "(\<exists>s. conn_reachable s \<and> Driver s = DriverGone \<and> ExternalReferenceCount s = 0 \<and> Callers s 0 = Calling)
 \<and> (\<exists>s. conn_reachable s \<and> Freed s = 1 \<and> Callers s 0 = Holding \<and> ReferenceCount s = 1)
 \<and> (\<exists>s. conn_reachable s \<and> Freed s = 2)"
proof (intro conjI)
  show "\<exists>s. conn_reachable s \<and> Driver s = DriverGone \<and> ExternalReferenceCount s = 0
      \<and> Callers s 0 = Calling"
    by (rule run_gives_reachable [where as = late_call]) code_simp
  show "\<exists>s. conn_reachable s \<and> Freed s = 1 \<and> Callers s 0 = Holding \<and> ReferenceCount s = 1"
    by (rule run_gives_reachable [where as = late_lookup]) code_simp
  show "\<exists>s. conn_reachable s \<and> Freed s = 2"
    by (rule run_gives_reachable [where as = "late_lookup @ [GiveBack 0, Unregister, FreeConnection]"]) code_simp
qed

end
