(* ===== verification/KernelReport.thy ===== *)
theory KernelReport
  imports KernelFilamentInv RptStubs
begin

text \<open>
  Reporting in kernel mode (\<open>cfixkern/cfixkr/rptstubs.c\<close>): the channel buffers the events of a
  test routine until the caller of the driver reads them.

  An event is a header and, behind the stack trace, the characters of its strings, which the
  header refers to by offset and length in bytes. \<open>FramesOffset\<close> is the offset of the stack
  frames in the structure, which depends on the platform, and \<open>frames\<close> the number of frames that
  the stack walk yields. A report routine returns a disposition or raises a status; nothing
  happens on a thread without filament.
\<close>

section \<open>The event buffer\<close>

record string_ref =
  StrOffset :: "16 word"
  StrLength :: "16 word"

datatype kinfo =
    KFailedAssertion string_ref string_ref ulong string_ref
  | KUncaughtException "dword option"
  | KMessage string_ref

record kevent =
  KType :: event_type
  KSize :: "16 word"
  KThread :: thread_id
  KFrames :: nat
  KInfo :: kinfo
  KBase :: nat
  KStrings :: wstring

record event_buffer =
  BufferSize :: ulong
  BufferLength :: ulong
  EventCount :: ulong
  BufferTruncated :: bool
  Events :: "kevent list"

abbreviation CFIXKRP_MAX_STACKFRAMES :: nat where "CFIXKRP_MAX_STACKFRAMES \<equiv> 32"
abbreviation MAX_USHORT :: nat where "MAX_USHORT \<equiv> 0xFFFF"

text \<open>\<open>RtlStringCbLength\<close> with a limit of 65535 bytes, that is of 32767 characters.\<close>

definition cb_length :: "wstring option \<Rightarrow> nat option" where
  "cb_length p =
     (case p of None \<Rightarrow> Some 0
      | Some str \<Rightarrow> if length str < 32767 then Some (2 * length str) else None)"

definition structure_base_size :: "nat \<Rightarrow> nat \<Rightarrow> nat" where
  "structure_base_size FramesOffset frames =
     FramesOffset + 8 * (if 0 < frames then frames else 1)"

text \<open>Copying a string behind the ones already there.\<close>

definition put_string ::
    "wstring option \<Rightarrow> nat \<times> wstring \<Rightarrow> string_ref \<times> nat \<times> wstring" where
  "put_string p at =
     (let text = (case p of None \<Rightarrow> [] | Some str \<Rightarrow> str); (Offset, area) = at
      in if text = [] then (\<lparr>StrOffset = 0, StrLength = 0\<rparr>, Offset, area)
         else (\<lparr>StrOffset = of_nat Offset, StrLength = of_nat (2 * length text)\<rparr>,
               Offset + 2 * length text, area @ text))"

definition write_info ::
    "nat \<Rightarrow> event_type \<Rightarrow> dword option \<Rightarrow> wstring option \<Rightarrow> wstring option \<Rightarrow> ulong \<Rightarrow>
       wstring option \<Rightarrow> wstring option \<Rightarrow> kinfo \<times> wstring" where
  "write_info Base Type ExceptionRecord File Routine Line Expression Message =
     (case Type of
        CfixEventFailedAssertion \<Rightarrow>
          let (f, at) = put_string File (Base, []);
              (r, at) = put_string Routine at;
              (e, at) = put_string Expression at
          in (KFailedAssertion f r Line e, snd at)
      | CfixEventUncaughtException \<Rightarrow> (KUncaughtException ExceptionRecord, [])
      | _ \<Rightarrow> let (m, at) = put_string Message (Base, []) in (KMessage m, snd at))"

definition total_size :: "nat \<Rightarrow> nat \<Rightarrow> nat" where
  "total_size Base strings = (Base + strings + 7) div 8 * 8"

definition CfixkrsQueueEvent ::
    "nat \<Rightarrow> nat \<Rightarrow> thread_id \<Rightarrow> event_type \<Rightarrow> dword option \<Rightarrow> wstring option \<Rightarrow> wstring option \<Rightarrow>
       ulong \<Rightarrow> wstring option \<Rightarrow> wstring option \<Rightarrow> event_buffer \<Rightarrow> event_buffer" where
  "CfixkrsQueueEvent FramesOffset frames Tid Type ExceptionRecord File Routine Line Expression
       Message b =
     (let room = unat (BufferSize b - BufferLength b)
      in if room < FramesOffset + 8 * (CFIXKRP_MAX_STACKFRAMES + 1) then b\<lparr>BufferTruncated := True\<rparr>
         else case (cb_length File, cb_length Routine, cb_length Message, cb_length Expression) of
           (Some FileCb, Some RoutineCb, Some MessageCb, Some ExpressionCb) \<Rightarrow>
             let Base = structure_base_size FramesOffset frames;
                 Total = total_size Base (ExpressionCb + FileCb + MessageCb + RoutineCb)
             in if room < Total then b\<lparr>BufferTruncated := True\<rparr>
                else if MAX_USHORT < Total then b
                else
                  let (Info, area) = write_info Base Type ExceptionRecord File Routine Line
                                       Expression Message
                  in b\<lparr>Events := Events b @
                         [\<lparr>KType = Type, KSize = of_nat Total, KThread = Tid, KFrames = frames,
                           KInfo = Info, KBase = Base, KStrings = area\<rparr>],
                       BufferLength := BufferLength b + of_nat Total,
                       EventCount := EventCount b + 1\<rparr>
         | _ \<Rightarrow> b)"

text \<open>What the reader of the buffer finds at an offset of an event.\<close>

definition read_string :: "kevent \<Rightarrow> string_ref \<Rightarrow> wstring" where
  "read_string e r =
     take (unat (StrLength r) div 2) (drop ((unat (StrOffset r) - KBase e) div 2) (KStrings e))"

section \<open>Channels and stubs\<close>

record channel =
  DispFailedAssertion :: disposition
  DispUnhandledException :: disposition
  EventBuffer :: event_buffer
  TlsValue :: ulong_ptr

record report_state =
  Reg :: kstate
  Chans :: "nat \<Rightarrow> channel"
  Irql :: nat

text \<open>\<open>KD_DEBUGGER_ENABLED\<close> and \<open>KD_DEBUGGER_NOT_PRESENT\<close>, and what the stack walk finds.\<close>

record kernel_env =
  KdEnabled :: bool
  KdNotPresent :: bool
  FramesOff :: nat
  StackWalk :: nat

definition current_channel :: "kthread \<Rightarrow> report_state \<Rightarrow> (nat \<times> kfilament) option" where
  "current_channel me s =
     do { n \<leftarrow> CfixkrpGetCurrentFilament (ThreadObject me) (Reg s);
          f \<leftarrow> KFilaments (Reg s) n;
          Some (Channel f, f) }"

definition queue ::
    "kernel_env \<Rightarrow> nat \<Rightarrow> kthread \<Rightarrow> nat \<times> kfilament \<Rightarrow> event_type \<Rightarrow> dword option \<Rightarrow> wstring option \<Rightarrow>
       wstring option \<Rightarrow> ulong \<Rightarrow> wstring option \<Rightarrow> wstring option \<Rightarrow> report_state \<Rightarrow> report_state" where
  "queue env frames me cf Type ExceptionRecord File Routine Line Expression Message s =
     (let (ch, f) = cf;
          Tid = CfixpInitializeThreadId (KMainThreadId f) (KThreadId me)
      in s\<lparr>Chans := (Chans s)(ch := (Chans s ch)\<lparr>EventBuffer :=
             CfixkrsQueueEvent (FramesOff env) frames Tid Type ExceptionRecord File
               Routine Line Expression Message (EventBuffer (Chans s ch))\<rparr>)\<rparr>)"

definition elevated_irql_message :: wstring where
  "elevated_irql_message = wide
     ''Testcase aborted at elevated IRQL. IRQL  will be forced back to PASSIVE_LEVEL. Machine state might become corrupted''"

definition CfixkrsAbortCurrentTestCase ::
    "kernel_env \<Rightarrow> kthread \<Rightarrow> nat \<times> kfilament \<Rightarrow> dword \<Rightarrow> report_state \<Rightarrow>
       'a outcome \<times> report_state" where
  "CfixkrsAbortCurrentTestCase env me cf Status s =
     (let s = (if 0 < Irql s
               then (queue env (StackWalk env) me cf CfixEventLog None None None 0 None
                       (Some elevated_irql_message) s)\<lparr>Irql := 0\<rparr>
               else s)
      in (RaiseException Status, s))"

definition CfixkrsFailStub ::
    "kernel_env \<Rightarrow> kthread \<Rightarrow> report_state \<Rightarrow> unit outcome \<times> report_state" where
  "CfixkrsFailStub env me s =
     (case current_channel me s of
        None \<Rightarrow> (Returned (), s)
      | Some cf \<Rightarrow> CfixkrsAbortCurrentTestCase env me cf EXCEPTION_TESTCASE_FAILED s)"

definition CfixkrsReportFailedAssertionStub ::
    "kernel_env \<Rightarrow> kthread \<Rightarrow> wstring option \<Rightarrow> wstring option \<Rightarrow> ulong \<Rightarrow> wstring option \<Rightarrow>
       report_state \<Rightarrow> disposition outcome \<times> report_state" where
  "CfixkrsReportFailedAssertionStub env me File Routine Line Expression s =
     (case current_channel me s of
        None \<Rightarrow> (Returned CfixContinue, s)
      | Some (ch, f) \<Rightarrow>
          let s = queue env (StackWalk env) me (ch, f) CfixEventFailedAssertion None File Routine Line
                    Expression None s
          in case DispFailedAssertion (Chans s ch) of
               CfixBreakAlways \<Rightarrow> (Returned CfixBreak, s)
             | CfixAbort \<Rightarrow>
                 CfixkrsAbortCurrentTestCase env me (ch, f) EXCEPTION_TESTCASE_FAILED_ABORT s
             | CfixContinue \<Rightarrow> (Returned CfixContinue, s)
             | CfixBreak \<Rightarrow>
                 if KdEnabled env \<and> \<not> KdNotPresent env then (Returned CfixBreak, s)
                 else CfixkrsAbortCurrentTestCase env me (ch, f) EXCEPTION_TESTCASE_FAILED s)"

text \<open>
  \<open>format n\<close> is the formatted message in a buffer of \<open>n\<close> characters, its terminator included.
\<close>

definition CfixkrsReportFailedAssertionFormatStub ::
    "kernel_env \<Rightarrow> kthread \<Rightarrow> wstring option \<Rightarrow> wstring option \<Rightarrow> ulong \<Rightarrow> wstring option \<Rightarrow>
       (wstring \<Rightarrow> nat \<Rightarrow> wstring) \<Rightarrow> report_state \<Rightarrow> disposition outcome \<times> report_state" where
  "CfixkrsReportFailedAssertionFormatStub env me File Routine Line Format format s =
     CfixkrsReportFailedAssertionStub env me File Routine Line
       (case Format of
          None \<Rightarrow> None
        | Some f \<Rightarrow> Some (if Irql s = 0 then format f 200 else f)) s"

definition CfixkrsAssertEqualsUlongStub ::
    "kernel_env \<Rightarrow> kthread \<Rightarrow> ulong \<Rightarrow> ulong \<Rightarrow> wstring option \<Rightarrow> wstring option \<Rightarrow> ulong \<Rightarrow>
       wstring option \<Rightarrow> (nat \<Rightarrow> wstring) \<Rightarrow> report_state \<Rightarrow> disposition outcome \<times> report_state" where
  "CfixkrsAssertEqualsUlongStub env me Expected Actual File Routine Line Expression format s =
     (if Expected = Actual then (Returned CfixContinue, s)
      else CfixkrsReportFailedAssertionStub env me File Routine Line
             (if Irql s = 0 then Some (format 200) else Expression) s)"

definition CfixkrsReportInconclusivenessStub ::
    "kernel_env \<Rightarrow> kthread \<Rightarrow> wstring option \<Rightarrow> report_state \<Rightarrow> unit outcome \<times> report_state" where
  "CfixkrsReportInconclusivenessStub env me Message s =
     (case current_channel me s of
        None \<Rightarrow> (Returned (), s)
      | Some cf \<Rightarrow>
          let s = queue env (StackWalk env) me cf CfixEventInconclusiveness None None None 0 None
                    (Some (case Message of None \<Rightarrow> [] | Some m \<Rightarrow> m)) s
          in CfixkrsAbortCurrentTestCase env me cf EXCEPTION_TESTCASE_INCONCLUSIVE s)"

definition CfixkrsReportLogStub ::
    "kernel_env \<Rightarrow> kthread \<Rightarrow> wstring option \<Rightarrow> (wstring \<Rightarrow> nat \<Rightarrow> wstring) \<Rightarrow> report_state \<Rightarrow>
       unit outcome \<times> report_state" where
  "CfixkrsReportLogStub env me Format format s =
     (case current_channel me s of
        None \<Rightarrow> (Returned (), s)
      | Some cf \<Rightarrow>
          (Returned (), queue env (StackWalk env) me cf CfixEventLog None None None 0 None
             (Some (case Format of None \<Rightarrow> []
                    | Some f \<Rightarrow> if Irql s = 0 then format f 200 else f)) s))"

text \<open>With a context, as for an exception, no stack is captured.\<close>

definition CfixkrpReportUnhandledException ::
    "kernel_env \<Rightarrow> kthread \<Rightarrow> kfilament \<Rightarrow> dword \<Rightarrow> report_state \<Rightarrow> disposition \<times> report_state" where
  "CfixkrpReportUnhandledException env me f ExcpCode s =
     (let s = queue env 0 me (Channel f, f) CfixEventUncaughtException (Some ExcpCode) None None 0
                None None s
      in (DispUnhandledException (Chans s (Channel f)), s))"

text \<open>Whether the handler is executed, and \<open>AbortRun\<close>.\<close>

definition CfixkrpExceptionFilter ::
    "kernel_env \<Rightarrow> kthread \<Rightarrow> dword \<Rightarrow> kfilament \<Rightarrow> report_state \<Rightarrow> (bool \<times> bool) \<times> report_state" where
  "CfixkrpExceptionFilter env me ExcpCode f s =
     (if ExcpCode = EXCEPTION_TESTCASE_INCONCLUSIVE \<or> ExcpCode = EXCEPTION_TESTCASE_FAILED
      then ((True, False), s)
      else if ExcpCode = EXCEPTION_TESTCASE_FAILED_ABORT then ((True, True), s)
      else
        let (Disp, s) = CfixkrpReportUnhandledException env me f ExcpCode s
        in ((Disp \<noteq> CfixBreak, Disp = CfixAbort), s))"

definition CfixkrsGetValueStub :: "kthread \<Rightarrow> ulong \<Rightarrow> report_state \<Rightarrow> ulong_ptr" where
  "CfixkrsGetValueStub me Tag s =
     (if Tag \<noteq> 0 then 0
      else case current_channel me s of None \<Rightarrow> 0 | Some (ch, _) \<Rightarrow> TlsValue (Chans s ch))"

definition CfixkrsSetValueStub :: "kthread \<Rightarrow> ulong \<Rightarrow> ulong_ptr \<Rightarrow> report_state \<Rightarrow> report_state" where
  "CfixkrsSetValueStub me Tag Value s =
     (if Tag \<noteq> 0 then s
      else case current_channel me s of
        None \<Rightarrow> s
      | Some (ch, _) \<Rightarrow> s\<lparr>Chans := (Chans s)(ch := (Chans s ch)\<lparr>TlsValue := Value\<rparr>)\<rparr>)"

end
