(* ===== verification/KernelReportInv.thy ===== *)
theory KernelReportInv
  imports KernelReport
begin

text \<open>
  The event buffer of a channel never overflows, and what is read back from an event is what was
  reported.
\<close>

section \<open>Strings of an event\<close>

definition text_of :: "wstring option \<Rightarrow> wstring" where
  "text_of p = (case p of None \<Rightarrow> [] | Some str \<Rightarrow> str)"

definition read_at :: "nat \<Rightarrow> wstring \<Rightarrow> string_ref \<Rightarrow> wstring" where
  "read_at Base area r = take (unat (StrLength r) div 2) (drop ((unat (StrOffset r) - Base) div 2) area)"

definition ref_within :: "nat \<Rightarrow> nat \<Rightarrow> string_ref \<Rightarrow> bool" where
  "ref_within Base limit r \<longleftrightarrow>
     StrLength r = 0 \<or> Base \<le> unat (StrOffset r) \<and> unat (StrOffset r) + unat (StrLength r) \<le> limit"

lemma put_string_cases:
  assumes "put_string p (Base + 2 * length area, area) = (r, off, area')"
    and "Base + 2 * length area + 2 * length (text_of p) \<le> MAX_USHORT"
  shows "off = Base + 2 * length area'" "area' = area @ text_of p"
    "read_at Base (area' @ tail) r = text_of p"
    "ref_within Base (Base + 2 * length area') r"
proof -
  show "off = Base + 2 * length area'" "area' = area @ text_of p"
    using assms(1) by (auto simp: put_string_def text_of_def split: option.splits if_splits)
  show "read_at Base (area' @ tail) r = text_of p" "ref_within Base (Base + 2 * length area') r"
  proof -
    have "unat (of_nat (Base + 2 * length area) :: 16 word) = Base + 2 * length area"
      "unat (of_nat (2 * length (text_of p)) :: 16 word) = 2 * length (text_of p)"
      using assms(2) by (simp_all only: unat_of_nat) simp_all
    then show "read_at Base (area' @ tail) r = text_of p" "ref_within Base (Base + 2 * length area') r"
      using assms(1)
      by (auto simp: put_string_def text_of_def read_at_def ref_within_def Let_def
          split: option.splits if_splits)
  qed
qed

fun info_refs :: "kinfo \<Rightarrow> string_ref list" where
  "info_refs (KFailedAssertion f r _ e) = [f, r, e]"
| "info_refs (KUncaughtException _) = []"
| "info_refs (KMessage m) = [m]"

fun info_texts :: "event_type \<Rightarrow> wstring option \<Rightarrow> wstring option \<Rightarrow> wstring option \<Rightarrow> wstring option \<Rightarrow>
    wstring list" where
  "info_texts CfixEventFailedAssertion File Routine Expression Message =
     [text_of File, text_of Routine, text_of Expression]"
| "info_texts CfixEventUncaughtException File Routine Expression Message = []"
| "info_texts _ File Routine Expression Message = [text_of Message]"

lemma ref_within_mono: "ref_within Base l r \<Longrightarrow> l \<le> l' \<Longrightarrow> ref_within Base l' r"
  by (auto simp: ref_within_def)

lemma write_message_reads:
  assumes "(case put_string Message (Base, []) of (m, at) \<Rightarrow> (KMessage m, snd at)) = (Info, area)"
    and "Base + 2 * (length (text_of File) + length (text_of Routine) + length (text_of Expression)
           + length (text_of Message)) \<le> limit" and "limit \<le> MAX_USHORT"
  shows "map (read_at Base area) (info_refs Info) = [text_of Message]
       \<and> (\<forall>r \<in> set (info_refs Info). ref_within Base limit r)"
proof -
  obtain m off a where p: "put_string Message (Base + 2 * length ([] :: wstring), []) = (m, off, a)"
    by (cases "put_string Message (Base + 2 * length ([] :: wstring), [])")
  have b: "Base + 2 * length ([] :: wstring) + 2 * length (text_of Message) \<le> MAX_USHORT"
    using assms(2,3) by simp
  note P = put_string_cases [OF p b]
  have "Info = KMessage m" "area = a" using assms(1) p by simp_all
  moreover have "ref_within Base limit m"
    using ref_within_mono [OF P(4)] P(2) assms(2) by simp
  ultimately show ?thesis using P(3) [of "[]"] by simp
qed

lemma write_info_reads:
  assumes "write_info Base Type Excp File Routine Line Expression Message = (Info, area)"
    and "Base + 2 * (length (text_of File) + length (text_of Routine) + length (text_of Expression)
           + length (text_of Message)) \<le> limit" and "limit \<le> MAX_USHORT"
  shows "map (read_at Base area) (info_refs Info) = info_texts Type File Routine Expression Message
       \<and> (\<forall>r \<in> set (info_refs Info). ref_within Base limit r)"
proof (cases Type)
  case CfixEventFailedAssertion
  obtain f off1 a1 where p1: "put_string File (Base + 2 * length ([] :: wstring), []) = (f, off1, a1)"
    by (cases "put_string File (Base + 2 * length ([] :: wstring), [])")
  note P1 = put_string_cases [OF p1]
  have b1: "Base + 2 * length ([] :: wstring) + 2 * length (text_of File) \<le> MAX_USHORT"
    using assms(2,3) by simp
  obtain r off2 a2 where p2: "put_string Routine (Base + 2 * length a1, a1) = (r, off2, a2)"
    by (cases "put_string Routine (Base + 2 * length a1, a1)")
  note P2 = put_string_cases [OF p2]
  have b2: "Base + 2 * length a1 + 2 * length (text_of Routine) \<le> MAX_USHORT"
    using assms(2,3) P1(2) [OF b1] by simp
  obtain e off3 a3 where p3: "put_string Expression (Base + 2 * length a2, a2) = (e, off3, a3)"
    by (cases "put_string Expression (Base + 2 * length a2, a2)")
  note P3 = put_string_cases [OF p3]
  have b3: "Base + 2 * length a2 + 2 * length (text_of Expression) \<le> MAX_USHORT"
    using assms(2,3) P1(2) [OF b1] P2(2) [OF b2] by simp
  have a: "a1 = text_of File" "a2 = a1 @ text_of Routine" "a3 = a2 @ text_of Expression"
    using P1(2) [OF b1] P2(2) [OF b2] P3(2) [OF b3] by simp_all
  have I: "Info = KFailedAssertion f r Line e" "area = a3"
    using assms(1) p1 p2 p3 P1(1) [OF b1] P2(1) [OF b2] CfixEventFailedAssertion
    by (simp_all add: write_info_def)
  have le: "Base + 2 * length a3 \<le> limit" using assms(2) a by simp
  have "read_at Base a3 f = text_of File"
    using P1(3) [OF b1, of "text_of Routine @ text_of Expression"] a by simp
  moreover have "read_at Base a3 r = text_of Routine"
    using P2(3) [OF b2, of "text_of Expression"] a by simp
  moreover have "read_at Base a3 e = text_of Expression" using P3(3) [OF b3, of "[]"] a by simp
  moreover have "ref_within Base limit f" "ref_within Base limit r" "ref_within Base limit e"
    using ref_within_mono [OF P1(4) [OF b1], of limit] ref_within_mono [OF P2(4) [OF b2], of limit]
      ref_within_mono [OF P3(4) [OF b3], of limit] le a by simp_all
  ultimately show ?thesis using I CfixEventFailedAssertion by simp
next
  case CfixEventUncaughtException
  with assms(1) show ?thesis by (auto simp: write_info_def)
next
  case CfixEventInconclusiveness
  with assms(1) write_message_reads [OF _ assms(2,3)] show ?thesis by (simp add: write_info_def)
next
  case CfixEventLog
  with assms(1) write_message_reads [OF _ assms(2,3)] show ?thesis by (simp add: write_info_def)
qed

section \<open>The buffer\<close>

definition event_ok :: "kevent \<Rightarrow> bool" where
  "event_ok e \<longleftrightarrow> 8 dvd unat (KSize e)
     \<and> (\<forall>r \<in> set (info_refs (KInfo e)). ref_within (KBase e) (unat (KSize e)) r)"

definition buffer_ok :: "event_buffer \<Rightarrow> bool" where
  "buffer_ok b \<longleftrightarrow> unat (BufferLength b) = (\<Sum>e \<leftarrow> Events b. unat (KSize e))
     \<and> BufferLength b \<le> BufferSize b
     \<and> EventCount b = of_nat (length (Events b))
     \<and> (\<forall>e \<in> set (Events b). event_ok e)"

lemma cb_length_text: "cb_length p = Some n \<Longrightarrow> n = 2 * length (text_of p)"
  by (auto simp: cb_length_def text_of_def split: option.splits if_splits)

lemma cb_length_None: "cb_length p = None \<longleftrightarrow> 32767 \<le> length (text_of p)"
  by (auto simp: cb_length_def text_of_def split: option.splits)

lemma total_size_le: "Base + n \<le> total_size Base n" "8 dvd total_size Base n"
  unfolding total_size_def by presburger simp

definition texts_cb :: "wstring option list \<Rightarrow> nat" where
  "texts_cb ps = (\<Sum>p \<leftarrow> ps. 2 * length (text_of p))"

text \<open>The three outcomes of queuing an event.\<close>

lemma queue_cases:
  assumes "b' = CfixkrsQueueEvent FO frames Tid Type Excp File Routine Line Expression Message b"
  obtains (truncated) "b' = b\<lparr>BufferTruncated := True\<rparr>"
    | (dropped) "b' = b"
        "(\<exists>p \<in> {File, Routine, Message, Expression}. 32767 \<le> length (text_of p))
         \<or> MAX_USHORT < total_size (structure_base_size FO frames)
                            (texts_cb [Expression, File, Message, Routine])"
    | (queued) e where "b' = b\<lparr>Events := Events b @ [e], BufferLength := BufferLength b + of_nat (unat (KSize e)),
                       EventCount := EventCount b + 1\<rparr>"
        "unat (KSize e) \<le> unat (BufferSize b - BufferLength b)" "event_ok e"
        "KType e = Type" "KThread e = Tid"
        "map (read_string e) (info_refs (KInfo e)) = info_texts Type File Routine Expression Message"
        "KFrames e = frames" "8 \<le> unat (KSize e)"
        "\<exists>Base. write_info Base Type Excp File Routine Line Expression Message = (KInfo e, KStrings e)"
proof (cases "\<exists>p \<in> {File, Routine, Message, Expression}. cb_length p = None")
  case True
  then have "b' = b \<or> b' = b\<lparr>BufferTruncated := True\<rparr>"
    using assms by (auto simp: CfixkrsQueueEvent_def Let_def split: option.splits)
  with True truncated dropped show ?thesis by (auto simp: cb_length_None)
next
  case False
  then obtain fl rl ml el where c: "cb_length File = Some fl" "cb_length Routine = Some rl"
    "cb_length Message = Some ml" "cb_length Expression = Some el" by auto
  note t = c [THEN cb_length_text]
  let ?base = "structure_base_size FO frames"
  let ?total = "total_size ?base (el + fl + ml + rl)"
  obtain Info area where w: "write_info ?base Type Excp File Routine Line Expression Message = (Info, area)"
    by (cases "write_info ?base Type Excp File Routine Line Expression Message")
  let ?e = "\<lparr>KType = Type, KSize = of_nat ?total, KThread = Tid, KFrames = frames, KInfo = Info,
             KBase = ?base, KStrings = area\<rparr>"
  have sum: "el + fl + ml + rl = texts_cb [Expression, File, Message, Routine]"
    using t by (simp add: texts_cb_def)
  show ?thesis
  proof (cases "MAX_USHORT < ?total")
    case True
    then have "b' = b \<or> b' = b\<lparr>BufferTruncated := True\<rparr>"
      using assms c by (auto simp: CfixkrsQueueEvent_def Let_def)
    with True truncated dropped sum show ?thesis by auto
  next
    case False
    then have u: "unat (of_nat ?total :: 16 word) = ?total" by (simp add: unat_of_nat)
    have lim: "?base + 2 * (length (text_of File) + length (text_of Routine) + length (text_of Expression)
           + length (text_of Message)) \<le> ?total"
      using total_size_le(1) [of ?base "el + fl + ml + rl"] t by simp
    from write_info_reads [OF w lim] False have reads:
      "map (read_at ?base area) (info_refs Info) = info_texts Type File Routine Expression Message"
      "\<forall>r \<in> set (info_refs Info). ref_within ?base ?total r" by simp_all
    have "8 \<le> ?base" by (simp add: structure_base_size_def)
    then have big: "8 \<le> unat (KSize ?e)" using lim u by simp
    have ok: "event_ok ?e" using reads(2) total_size_le(2) by (simp add: event_ok_def u)
    have rd: "map (read_string ?e) (info_refs (KInfo ?e)) = info_texts Type File Routine Expression Message"
      using reads(1) by (simp add: read_string_def [abs_def] read_at_def [abs_def])
    show ?thesis
    proof (cases "unat (BufferSize b - BufferLength b) < ?total
        \<or> unat (BufferSize b - BufferLength b) < FO + 8 * (CFIXKRP_MAX_STACKFRAMES + 1)")
      case True
      then have "b' = b\<lparr>BufferTruncated := True\<rparr>"
        using assms c by (auto simp: CfixkrsQueueEvent_def Let_def)
      then show ?thesis by (rule truncated)
    next
      case room: False
      have "b' = b\<lparr>Events := Events b @ [?e], BufferLength := BufferLength b + of_nat ?total,
          EventCount := EventCount b + 1\<rparr>"
        using assms c w False room by (simp add: CfixkrsQueueEvent_def Let_def)
      then have "b' = b\<lparr>Events := Events b @ [?e],
          BufferLength := BufferLength b + of_nat (unat (KSize ?e)), EventCount := EventCount b + 1\<rparr>"
        using u by simp
      then show ?thesis by (rule queued) (use room u ok rd w big in auto)
    qed
  qed
qed

lemma buffer_ok_append:
  assumes "buffer_ok b" "event_ok e" "unat (KSize e) \<le> unat (BufferSize b - BufferLength b)"
  shows "buffer_ok (b\<lparr>Events := Events b @ [e],
      BufferLength := BufferLength b + of_nat (unat (KSize e)), EventCount := EventCount b + 1\<rparr>)"
proof -
  have le: "BufferLength b \<le> BufferSize b" using assms(1) by (simp add: buffer_ok_def)
  have "unat (BufferSize b - BufferLength b) = unat (BufferSize b) - unat (BufferLength b)"
    using le by (simp add: unat_sub)
  with assms(3) le have room: "unat (BufferLength b) + unat (KSize e) \<le> unat (BufferSize b)"
    by (simp add: word_le_nat_alt)
  have "unat (BufferSize b) < 2 ^ LENGTH(32)" by (rule unsigned_less)
  with room have "unat (KSize e) < 2 ^ 32" by simp
  then have u: "unat (ucast (KSize e) :: ulong) = unat (KSize e)"
    by (simp add: unsigned_ucast_eq take_bit_eq_mod)
  have "unat (BufferLength b + ucast (KSize e)) = unat (BufferLength b) + unat (KSize e)"
    using room \<open>unat (BufferSize b) < _\<close> u by (simp add: unat_word_ariths)
  with assms(1,2) room show ?thesis
    by (auto simp: buffer_ok_def word_le_nat_alt)
qed

section \<open>Properties\<close>

text \<open>
  The event buffer. Queuing an event never writes behind the end of the buffer and never
  changes an event that is already there; the length and the count stay exact, sizes are
  multiples of eight, and every string of an event lies within it. The new event is either
  queued, and then its type, its thread and every string read back through the header are those
  reported, or it is not; then the truncation is flagged, unless a string or the event is too
  long for the format, which goes unnoticed.
\<close>

lemma queued_events_read_back:
  assumes "buffer_ok b"
    and "b' = CfixkrsQueueEvent FO frames Tid Type Excp File Routine Line Expression Message b"
  shows "buffer_ok b' \<and> BufferSize b' = BufferSize b
       \<and> (Events b' = Events b
          \<and> (BufferTruncated b'
             \<or> (\<exists>p \<in> {File, Routine, Message, Expression}. 32767 \<le> length (text_of p))
             \<or> 0xFFFF < total_size (structure_base_size FO frames)
                          (texts_cb [Expression, File, Message, Routine]))
        \<or> (\<exists>e. Events b' = Events b @ [e] \<and> KType e = Type \<and> KThread e = Tid
             \<and> map (read_string e) (info_refs (KInfo e)) = info_texts Type File Routine Expression Message))"
  using assms(2)
proof (cases rule: queue_cases)
  case truncated
  with assms(1) show ?thesis by (simp add: buffer_ok_def)
next
  case dropped
  with assms(1) show ?thesis by simp
next
  case (queued e)
  with buffer_ok_append [OF assms(1) queued(3,2)] show ?thesis by auto
qed

definition demo_buffer :: event_buffer where
  "demo_buffer = \<lparr>BufferSize = 4096, BufferLength = 0, EventCount = 0, BufferTruncated = False, Events = []\<rparr>"

end
