(* ===== verification/FormatStr.thy ===== *)
theory FormatStr
  imports Prelude
begin

text \<open>
  String validation (\<open>cdiag/cdiag/helper.c\<close>) and the template formatter
  (\<open>cdiag/cdiag/formatstr.c\<close>).

  A string is the list of its characters before the terminator, and a pointer into a string is
  the suffix that starts there; two pointers into one string are equal when their suffixes have
  the same length. \<open>iswalnum\<close>, whose answer outside ASCII depends on the system, is the argument
  \<open>alnum\<close>. A \<open>DWORD_PTR\<close> that is passed to \<open>_snwprintf\<close> is a number or a pointer to a string;
  formatting is \<open>None\<close> when a conversion does not match its argument, which is undefined in C.
\<close>

section \<open>Validation\<close>

fun CdiagpIsWhitespaceOnly :: "wstring \<Rightarrow> bool" where
  "CdiagpIsWhitespaceOnly [] = True"
| "CdiagpIsWhitespaceOnly (ch # str) =
     (if ch = 0x20 \<or> ch = 0x09 \<or> ch = 0x0A \<or> ch = 0x0D then CdiagpIsWhitespaceOnly str else False)"

definition CdiagpIsStringValid :: "wstring option \<Rightarrow> nat \<Rightarrow> nat \<Rightarrow> bool \<Rightarrow> bool" where
  "CdiagpIsStringValid String MinLengthInclusive MaxLengthInclusive AllowWhitespaceOnly =
     (case String of
        None \<Rightarrow> False
      | Some str \<Rightarrow>
          (AllowWhitespaceOnly \<or> \<not> CdiagpIsWhitespaceOnly str)
          \<and> length str \<le> MaxLengthInclusive \<and> MinLengthInclusive \<le> length str)"

abbreviation MAXWORD :: nat where "MAXWORD \<equiv> 0xFFFF"

section \<open>Conversions of the C runtime\<close>

datatype binding = Number ulong_ptr | Text wstring

definition digit :: "nat \<Rightarrow> wchar" where
  "digit d = (if d < 10 then 0x30 + of_nat d else 0x37 + of_nat d)"

fun print_nat :: "nat \<Rightarrow> nat \<Rightarrow> wstring" where
  "print_nat base n =
     (if base < 2 \<or> n < base then [digit n] else print_nat base (n div base) @ [digit (n mod base)])"

declare print_nat.simps [simp del]

definition pad_zero :: "nat \<Rightarrow> wstring \<Rightarrow> wstring" where
  "pad_zero width str = replicate (width - length str) 0x30 @ str"

text \<open>The conversions the tables of the program use: \<open>%s\<close>, \<open>%u\<close> and \<open>%0nX\<close>.\<close>

fun convert :: "bool \<Rightarrow> nat \<Rightarrow> wstring \<Rightarrow> binding \<Rightarrow> (wstring \<times> wstring) option" where
  "convert zero width [] b = None"
| "convert zero width (c # f) b =
     (if c = 0x30 \<and> width = 0 then convert True 0 f b
      else if 0x30 \<le> c \<and> c \<le> 0x39 then convert zero (10 * width + (unat c - 0x30)) f b
      else let pad = (\<lambda>str. if zero then pad_zero width str else str) in
      case b of
        Text str \<Rightarrow> if c = 0x73 then Some (str, f) else None
      | Number n \<Rightarrow>
          if c = 0x75 then Some (pad (print_nat 10 (unat (ucast n :: ulong))), f)
          else if c = 0x58 then Some (pad (print_nat 16 (unat (ucast n :: ulong))), f)
          else if c = 0x73 \<and> n = 0 then Some (wide ''(null)'', f)
          else None)"

fun wprintf :: "wstring \<Rightarrow> binding \<Rightarrow> wstring option" where
  "wprintf [] b = Some []"
| "wprintf (c # f) b =
     (if c = 0x25
      then (case convert False 0 f b of
              None \<Rightarrow> None
            | Some (str, rest) \<Rightarrow> if 0x25 \<in> set rest then None else Some (str @ rest))
      else map_option (Cons c) (wprintf f b))"

text \<open>
  \<open>_snwprintf\<close> into \<open>n\<close> characters: what it stores, and the number of characters, which is
  negative when they do not fit. No terminator is stored when they fit exactly; the caller does
  not rely on one.
\<close>

definition snwprintf :: "nat \<Rightarrow> wstring \<Rightarrow> binding \<Rightarrow> (wstring \<times> int) option" where
  "snwprintf n Format b =
     map_option (\<lambda>str. if length str \<le> n then (str, int (length str)) else (take n str, -1))
       (wprintf Format b)"

section \<open>Variables\<close>

record format_variable =
  VarName :: wstring
  VarFormat :: wstring

definition char_at :: "wstring \<Rightarrow> wchar" where
  "char_at p = (case p of [] \<Rightarrow> 0 | c # _ \<Rightarrow> c)"

fun CdiagsCompareString :: "wstring \<Rightarrow> wstring \<Rightarrow> ulong_ptr \<Rightarrow> int" where
  "CdiagsCompareString [] Src MaxCch = - uint (towlower (char_at Src))"
| "CdiagsCompareString (d # Dst) Src MaxCch =
     (let DstChar = towlower d; SrcChar = towlower (char_at Src)
      in if 0 < MaxCch - 1 \<and> DstChar \<noteq> 0 \<and> DstChar = SrcChar
         then CdiagsCompareString Dst (tl Src) (MaxCch - 1)
         else uint DstChar - uint SrcChar)"

fun CdiagsGetVariableBindingIndex ::
    "nat \<Rightarrow> format_variable list \<Rightarrow> wstring \<Rightarrow> ulong_ptr \<Rightarrow> nat option" where
  "CdiagsGetVariableBindingIndex Index [] VariableName VariableNameCch = None"
| "CdiagsGetVariableBindingIndex Index (v # Variables) VariableName VariableNameCch =
     (if CdiagsCompareString (VarName v) VariableName VariableNameCch = 0 then Some Index
      else CdiagsGetVariableBindingIndex (Index + 1) Variables VariableName VariableNameCch)"

text \<open>
  \<open>out\<close> is what has been stored in the buffer so far, up to \<open>BufferPtr\<close>; it is returned together
  with the status.
\<close>

definition CdiagsHandleVariable ::
    "format_variable list \<Rightarrow> binding list \<Rightarrow> wstring \<Rightarrow> wstring \<Rightarrow> nat \<Rightarrow> wstring \<Rightarrow>
       (hresult \<times> wstring) option" where
  "CdiagsHandleVariable Variables Bindings VariableNameBegin VariableNameEndExcl
       BufferSizeInChars out =
     (case CdiagsGetVariableBindingIndex 0 Variables VariableNameBegin
             (of_nat (length VariableNameBegin - length VariableNameEndExcl)) of
        None \<Rightarrow> Some (S_OK, out)
      | Some BindingIndex \<Rightarrow> do {
          (str, CharsWritten) \<leftarrow> snwprintf BufferSizeInChars (VarFormat (Variables ! BindingIndex))
                                  (Bindings ! BindingIndex);
          Some (if 0 \<le> CharsWritten then S_OK else CDIAG_E_BUFFER_TOO_SMALL, out @ str)
        })"

section \<open>Templates\<close>

text \<open>
  The loop over the template: \<open>Cur\<close> is the rest of the template, \<open>BufferEnd\<close> the index of
  the last character of the buffer.
\<close>

fun format_loop ::
    "(wchar \<Rightarrow> bool) \<Rightarrow> format_variable list \<Rightarrow> binding list \<Rightarrow> nat \<Rightarrow> wstring \<Rightarrow> wstring option \<Rightarrow>
       bool \<Rightarrow> wstring \<Rightarrow> (hresult \<times> wstring) option" where
  "format_loop alnum Variables Bindings BufferEnd [] VariableName InVariable out =
     (if length out \<le> BufferEnd
      then do {
        (Hr, out) \<leftarrow> (case (InVariable, VariableName) of
            (True, Some Name) \<Rightarrow>
              CdiagsHandleVariable Variables Bindings Name [] (BufferEnd - length out) out
          | _ \<Rightarrow> Some (S_OK, out));
        Some (if FAILED Hr then (Hr, out) else (S_OK, out @ [0]))
      }
      else Some (CDIAG_E_BUFFER_TOO_SMALL, out))"
| "format_loop alnum Variables Bindings BufferEnd (c # Cur) VariableName InVariable out =
     (if BufferEnd \<le> length out then Some (CDIAG_E_BUFFER_TOO_SMALL, out)
      else if c = 0x25
      then
        (case VariableName of
           None \<Rightarrow> format_loop alnum Variables Bindings BufferEnd Cur (Some Cur) True out
         | Some Name \<Rightarrow>
             if length Name = length (c # Cur)
             then format_loop alnum Variables Bindings BufferEnd Cur VariableName False (out @ [c])
             else do {
               (Hr, out) \<leftarrow> CdiagsHandleVariable Variables Bindings Name (c # Cur)
                              (BufferEnd - length out) out;
               (if FAILED Hr then Some (Hr, out)
                else format_loop alnum Variables Bindings BufferEnd Cur (Some Cur) True out)
             })
      else if InVariable \<and> \<not> alnum c
      then (case VariableName of
              None \<Rightarrow> None
            | Some Name \<Rightarrow> do {
                (Hr, out) \<leftarrow> CdiagsHandleVariable Variables Bindings Name (c # Cur)
                               (BufferEnd - length out) out;
                (if FAILED Hr then Some (Hr, out)
                 else format_loop alnum Variables Bindings BufferEnd Cur None False (out @ [c]))
              })
      else format_loop alnum Variables Bindings BufferEnd Cur VariableName InVariable
             (if InVariable then out else out @ [c]))"

text \<open>The status and the characters stored in the buffer, the terminator included.\<close>

definition CdiagpFormatString ::
    "(wchar \<Rightarrow> bool) \<Rightarrow> format_variable list \<Rightarrow> binding list \<Rightarrow> wstring option \<Rightarrow> nat \<Rightarrow>
       (hresult \<times> wstring) option" where
  "CdiagpFormatString alnum Variables Bindings FormatStringTemplate BufferSizeInChars =
     (if Variables = [] \<or> \<not> CdiagpIsStringValid FormatStringTemplate 1 MAXWORD False
         \<or> BufferSizeInChars = 0
      then Some (E_INVALIDARG, [])
      else format_loop alnum Variables Bindings (BufferSizeInChars - 1)
             (case FormatStringTemplate of None \<Rightarrow> [] | Some t \<Rightarrow> t) None False [])"

end
