(* ===== verification/FormatStrInv.thy ===== *)
theory FormatStrInv
  imports FormatStr
begin

text \<open>
  The template formatter against a reference definition that expands a template from left to
  right and knows nothing of buffers and pointers.
\<close>

section \<open>Reference\<close>

definition ascii_alnum :: "wchar \<Rightarrow> bool" where
  "ascii_alnum c \<longleftrightarrow> 0x30 \<le> c \<and> c \<le> 0x39 \<or> 0x41 \<le> c \<and> c \<le> 0x5A \<or> 0x61 \<le> c \<and> c \<le> 0x7A"

definition abbreviates :: "wstring \<Rightarrow> format_variable \<Rightarrow> bool" where
  "abbreviates name v \<longleftrightarrow> name \<noteq> [] \<and> length name \<le> length (VarName v)
     \<and> map towlower (take (length name) (VarName v)) = map towlower name"

fun variable_value :: "format_variable list \<Rightarrow> binding list \<Rightarrow> wstring \<Rightarrow> wstring" where
  "variable_value (v # vs) (b # bs) name =
     (if abbreviates name v then (case wprintf (VarFormat v) b of None \<Rightarrow> [] | Some str \<Rightarrow> str)
      else variable_value vs bs name)"
| "variable_value _ _ name = []"

function expand :: "(wchar \<Rightarrow> bool) \<Rightarrow> (wstring \<Rightarrow> wstring) \<Rightarrow> wstring \<Rightarrow> wstring" where
  "expand alnum val [] = []"
| "expand alnum val (c # t) =
     (if c \<noteq> 0x25 then c # expand alnum val t
      else if t \<noteq> [] \<and> hd t = 0x25 then 0x25 # expand alnum val (tl t)
      else val (takeWhile alnum t) @ expand alnum val (dropWhile alnum t))"
  by pat_completeness auto
termination
  by (relation "measure (\<lambda>(_, _, t). length t)")
    (auto simp: less_Suc_eq_le intro: length_dropWhile_le)

text \<open>Names are ASCII letters and digits, and every conversion matches its binding.\<close>

definition variables_ok :: "format_variable list \<Rightarrow> binding list \<Rightarrow> bool" where
  "variables_ok Variables Bindings \<longleftrightarrow>
     list_all2 (\<lambda>v b. VarName v \<noteq> [] \<and> (\<forall>c \<in> set (VarName v). ascii_alnum c)
                    \<and> (\<exists>str. wprintf (VarFormat v) b = Some str)) Variables Bindings"

locale alnum_class =
  fixes alnum :: "wchar \<Rightarrow> bool"
  assumes ascii: "c < 0x80 \<Longrightarrow> alnum c \<longleftrightarrow> ascii_alnum c"
begin

lemma percent: "\<not> alnum 0x25"
  by (simp add: ascii ascii_alnum_def)

lemma folded_differs:
  assumes "ascii_alnum d" "\<not> alnum c"
  shows "towlower d \<noteq> towlower c"
proof (cases "c < 0x80")
  case True
  with assms(2) have "\<not> ascii_alnum c" by (simp add: ascii)
  with assms(1) show ?thesis
    unfolding ascii_alnum_def towlower_def word_le_nat_alt
    by (auto simp: word_unat_eq_iff unat_word_ariths split: if_splits)
next
  case False
  with assms(1) show ?thesis
    unfolding ascii_alnum_def towlower_def word_le_nat_alt word_less_nat_alt
    by (auto simp: word_unat_eq_iff unat_word_ariths split: if_splits)
qed

end

interpretation c_locale: alnum_class ascii_alnum
  by unfold_locales simp

section \<open>Comparison of names\<close>

lemma towlower_0_iff: "towlower c = 0 \<longleftrightarrow> c = 0"
  unfolding towlower_def word_le_nat_alt
  by (auto simp: word_unat_eq_iff unat_word_ariths split: if_splits)

lemma ascii_alnum_nonzero: "ascii_alnum c \<Longrightarrow> c \<noteq> 0"
  by (auto simp: ascii_alnum_def)

lemma uint_eq_wchar [simp]: "uint (a :: wchar) = uint b \<longleftrightarrow> a = b"
  by (simp add: word_uint_eq_iff)

lemma uint_0_wchar [simp]: "uint (a :: wchar) = 0 \<longleftrightarrow> a = 0"
  by (simp add: word_uint_eq_iff)

lemma CdiagsCompareString_prefix:
  assumes "name \<noteq> []" "0 \<notin> set name" "length name < 2 ^ 64" "0 \<notin> set d"
  shows "CdiagsCompareString d (name @ rest) (of_nat (length name)) = 0 \<longleftrightarrow>
           length name \<le> length d \<and> map towlower (take (length name) d) = map towlower name"
  using assms
proof (induction d arbitrary: name)
  case Nil
  then show ?case by (cases name) (auto simp: char_at_def towlower_0_iff)
next
  case (Cons x d)
  obtain y name' where n: "name = y # name'" using Cons.prems(1) by (cases name) auto
  have dec: "of_nat (length name) - 1 = (of_nat (length name') :: ulong_ptr)" by (simp add: n)
  have "unat (of_nat (length name') :: ulong_ptr) = length name'"
    using Cons.prems(3) by (simp add: n unat_of_nat)
  then have pos: "0 < (of_nat (length name') :: ulong_ptr) \<longleftrightarrow> name' \<noteq> []"
    by (simp add: word_less_nat_alt)
  show ?case
  proof (cases "name' = []")
    case True
    with dec pos show ?thesis by (auto simp: n char_at_def)
  next
    case False
    have "CdiagsCompareString d (name' @ rest) (of_nat (length name')) = 0 \<longleftrightarrow>
        length name' \<le> length d \<and> map towlower (take (length name') d) = map towlower name'"
      using Cons.prems False by (intro Cons.IH) (auto simp: n)
    moreover have "CdiagsCompareString (x # d) (name @ rest) (of_nat (length name)) =
        (if towlower x = towlower y then CdiagsCompareString d (name' @ rest) (of_nat (length name'))
         else uint (towlower x) - uint (towlower y))"
      using False pos Cons.prems(4)
      by (simp only: CdiagsCompareString.simps dec Let_def) (simp add: n char_at_def towlower_0_iff)
    ultimately show ?thesis by (auto simp: n)
  qed
qed

lemma CdiagsCompareString_differs:
  assumes "towlower x \<noteq> towlower (char_at src)"
  shows "CdiagsCompareString (x # d) src n \<noteq> 0"
  using assms by (simp add: Let_def)

section \<open>Lookup of a variable\<close>

lemma lookup_value:
  assumes "variables_ok vs bs"
    and "\<forall>v \<in> set vs. CdiagsCompareString (VarName v) p n = 0 \<longleftrightarrow> abbreviates name v"
  shows "case CdiagsGetVariableBindingIndex i vs p n of
           None \<Rightarrow> variable_value vs bs name = []
         | Some k \<Rightarrow> i \<le> k \<and> wprintf (VarFormat (vs ! (k - i))) (bs ! (k - i)) = Some (variable_value vs bs name)"
  using assms unfolding variables_ok_def
proof (induction vs bs arbitrary: i rule: list_all2_induct)
  case Nil
  then show ?case by simp
next
  case (Cons v vs b bs)
  show ?case
  proof (cases "abbreviates name v")
    case True
    with Cons show ?thesis by auto
  next
    case False
    have s: "i < k \<Longrightarrow> k - i = Suc (k - Suc i)" for k by simp
    from False Cons.IH [of "i + 1"] Cons.prems show ?thesis
      by (auto split: option.splits simp: s)
  qed
qed

lemma handle_variable:
  assumes "variables_ok vs bs"
    and "\<forall>v \<in> set vs. CdiagsCompareString (VarName v) (name @ rest) (of_nat (length name)) = 0
                     \<longleftrightarrow> abbreviates name v"
  shows "CdiagsHandleVariable vs bs (name @ rest) rest n out =
           (let str = variable_value vs bs name
            in Some (if length str \<le> n then (S_OK, out @ str) else (CDIAG_E_BUFFER_TOO_SMALL, out @ take n str)))"
  using lookup_value [OF assms, of 0]
  by (auto simp: CdiagsHandleVariable_def snwprintf_def Let_def split: option.splits)

lemma variables_ok_names:
  assumes "variables_ok vs bs" "v \<in> set vs"
  shows "VarName v \<noteq> []" "\<forall>c \<in> set (VarName v). ascii_alnum c"
  using assms unfolding variables_ok_def by (induction vs bs rule: list_all2_induct) auto

context alnum_class
begin

lemma compare_alnum:
  assumes "variables_ok vs bs" "\<forall>c \<in> set name. alnum c" "0 \<notin> set name" "length name < 2 ^ 64"
    and "rest = [] \<or> \<not> alnum (hd rest)"
  shows "\<forall>v \<in> set vs. CdiagsCompareString (VarName v) (name @ rest) (of_nat (length name)) = 0
                     \<longleftrightarrow> abbreviates name v"
proof
  fix v assume "v \<in> set vs"
  note v = variables_ok_names [OF assms(1) this]
  show "CdiagsCompareString (VarName v) (name @ rest) (of_nat (length name)) = 0 \<longleftrightarrow> abbreviates name v"
  proof (cases "name = []")
    case True
    obtain x d where x: "VarName v = x # d" "ascii_alnum x" using v by (cases "VarName v") auto
    have "\<not> alnum (char_at rest)"
      using assms(5) by (cases rest) (auto simp: char_at_def ascii ascii_alnum_def)
    with folded_differs [OF x(2)] have "CdiagsCompareString (x # d) rest 0 \<noteq> 0"
      by (intro CdiagsCompareString_differs)
    with True x show ?thesis by (simp add: abbreviates_def)
  next
    case False
    have "0 \<notin> set (VarName v)" using v(2) ascii_alnum_nonzero by blast
    with False CdiagsCompareString_prefix [OF False assms(3,4)] show ?thesis
      by (simp add: abbreviates_def)
  qed
qed

lemma compare_percent:
  assumes "variables_ok vs bs"
  shows "\<forall>v \<in> set vs. CdiagsCompareString (VarName v) ((0x25 # name) @ rest) n \<noteq> 0
             \<and> \<not> abbreviates (0x25 # name) v"
proof
  fix v assume "v \<in> set vs"
  note v = variables_ok_names [OF assms this]
  then obtain x d where x: "VarName v = x # d" "ascii_alnum x" by (cases "VarName v") auto
  with folded_differs [OF x(2) percent] show
    "CdiagsCompareString (VarName v) ((0x25 # name) @ rest) n \<noteq> 0 \<and> \<not> abbreviates (0x25 # name) v"
    by (simp add: abbreviates_def CdiagsCompareString_differs char_at_def)
qed

lemma value_percent: "variables_ok vs bs \<Longrightarrow> variable_value vs bs (0x25 # name) = []"
proof -
  assume ok: "variables_ok vs bs"
  have "\<forall>v \<in> set vs. \<not> abbreviates (0x25 # name) v" using compare_percent [OF ok] by blast
  then show ?thesis by (induction vs bs "0x25 # name" rule: variable_value.induct) auto
qed

end

section \<open>The loop\<close>

text \<open>
  The text \<open>txt\<close> is stored with its terminator when it fits, otherwise the buffer is too small;
  at most \<open>BufferEnd + 1\<close> characters are stored in any case. \<open>name_text\<close> is what remains to be
  written when the characters \<open>nm\<close> of a name have been read.
\<close>

definition outcome :: "nat \<Rightarrow> wstring \<Rightarrow> (hresult \<times> wstring) option \<Rightarrow> bool" where
  "outcome BufferEnd txt R \<longleftrightarrow> (\<exists>Hr buf. R = Some (Hr, buf)
     \<and> (Hr = S_OK \<and> buf = txt @ [0] \<and> length txt \<le> BufferEnd
      \<or> Hr = CDIAG_E_BUFFER_TOO_SMALL \<and> BufferEnd \<le> length txt \<and> length buf \<le> BufferEnd + 1))"

definition name_text :: "(wchar \<Rightarrow> bool) \<Rightarrow> (wstring \<Rightarrow> wstring) \<Rightarrow> wstring \<Rightarrow> wstring \<Rightarrow> wstring" where
  "name_text alnum val nm cur =
     (if nm = [] \<and> cur \<noteq> [] \<and> hd cur = 0x25 then 0x25 # expand alnum val (tl cur)
      else val (nm @ takeWhile alnum cur) @ expand alnum val (dropWhile alnum cur))"

definition loop_plain :: "(wchar \<Rightarrow> bool) \<Rightarrow> format_variable list \<Rightarrow> binding list \<Rightarrow> nat \<Rightarrow> wstring \<Rightarrow> bool" where
  "loop_plain alnum vs bs BufferEnd cur \<longleftrightarrow> (\<forall>out nm. length out \<le> BufferEnd + 1 \<longrightarrow>
     outcome BufferEnd (out @ expand alnum (variable_value vs bs) cur)
       (format_loop alnum vs bs BufferEnd cur None False out)
     \<and> outcome BufferEnd (out @ expand alnum (variable_value vs bs) cur)
       (format_loop alnum vs bs BufferEnd cur (Some (0x25 # nm @ cur)) False out))"

definition loop_name :: "(wchar \<Rightarrow> bool) \<Rightarrow> format_variable list \<Rightarrow> binding list \<Rightarrow> nat \<Rightarrow> wstring \<Rightarrow> bool" where
  "loop_name alnum vs bs BufferEnd cur \<longleftrightarrow> (\<forall>out nm. length out \<le> BufferEnd + 1 \<and>
       (\<forall>c \<in> set nm. alnum c) \<and> 0 \<notin> set nm \<and> length (nm @ cur) < 2 ^ 64 \<longrightarrow>
     outcome BufferEnd (out @ name_text alnum (variable_value vs bs) nm cur)
       (format_loop alnum vs bs BufferEnd cur (Some (nm @ cur)) True out))"

lemma loop_plainD:
  assumes "loop_plain alnum vs bs BufferEnd cur" "length out \<le> BufferEnd + 1"
  shows "outcome BufferEnd (out @ expand alnum (variable_value vs bs) cur)
           (format_loop alnum vs bs BufferEnd cur None False out)"
    "outcome BufferEnd (out @ expand alnum (variable_value vs bs) cur)
           (format_loop alnum vs bs BufferEnd cur (Some (0x25 # nm @ cur)) False out)"
  using assms by (simp_all add: loop_plain_def)

lemma loop_nameD:
  assumes "loop_name alnum vs bs BufferEnd cur" "length out \<le> BufferEnd + 1"
    and "\<forall>c \<in> set nm. alnum c" "0 \<notin> set nm" "length (nm @ cur) < 2 ^ 64"
  shows "outcome BufferEnd (out @ name_text alnum (variable_value vs bs) nm cur)
           (format_loop alnum vs bs BufferEnd cur (Some (nm @ cur)) True out)"
  using assms by (simp add: loop_name_def)

lemma plain_expand: "c \<noteq> 0x25 \<Longrightarrow> expand alnum val (c # t) = c # expand alnum val t"
  by simp

lemma outcome_full:
  "BufferEnd \<le> length out \<Longrightarrow> length out \<le> BufferEnd + 1 \<Longrightarrow>
     outcome BufferEnd (out @ txt) (Some (CDIAG_E_BUFFER_TOO_SMALL, out))"
  by (simp add: outcome_def)

lemma outcome_value:
  assumes "length out \<le> BufferEnd" "length (out @ str) \<le> BufferEnd \<Longrightarrow> outcome BufferEnd (out @ str @ txt) (f (out @ str))"
  shows "outcome BufferEnd (out @ str @ txt)
           (do { (Hr, out) \<leftarrow> (let s = str in Some (if length s \<le> BufferEnd - length out then (S_OK, out @ s)
                                 else (CDIAG_E_BUFFER_TOO_SMALL, out @ take (BufferEnd - length out) s)));
                 if FAILED Hr then Some (Hr, out) else f out })"
  using assms by (auto simp: outcome_def)

context alnum_class
begin

lemma loop_plain_Cons:
  assumes "variables_ok vs bs" "loop_plain alnum vs bs BufferEnd cur" "loop_name alnum vs bs BufferEnd cur"
    and "length cur < 2 ^ 64"
  shows "loop_plain alnum vs bs BufferEnd (c # cur)"
  unfolding loop_plain_def
proof (intro allI impI)
  fix out nm :: wstring
  let ?E = "expand alnum (variable_value vs bs)"
  assume len: "length out \<le> BufferEnd + 1"
  have plain: "outcome BufferEnd (out @ c # ?E cur) (format_loop alnum vs bs BufferEnd cur None False (out @ [c]))"
    "outcome BufferEnd (out @ c # ?E cur)
       (format_loop alnum vs bs BufferEnd cur (Some (0x25 # nm @ c # cur)) False (out @ [c]))"
    if "length out < BufferEnd"
    using loop_plainD(1) [OF assms(2), of "out @ [c]"] loop_plainD(2) [OF assms(2), of "out @ [c]" "nm @ [c]"]
      that by simp_all
  have "name_text alnum (variable_value vs bs) [] cur = ?E (c # cur)" if "c = 0x25"
    using that by (simp add: name_text_def)
  with loop_nameD [OF assms(3) len, of "[]"] assms(4)
  have name: "outcome BufferEnd (out @ ?E (c # cur)) (format_loop alnum vs bs BufferEnd cur (Some cur) True out)"
    if "c = 0x25" using that by simp
  have none: "CdiagsHandleVariable vs bs (0x25 # nm @ c # cur) (c # cur) n out = Some (S_OK, out)" for n
    using handle_variable [OF assms(1), of "0x25 # nm" "c # cur"] compare_percent [OF assms(1), of nm "c # cur"]
      value_percent [OF assms(1)] by (simp add: Let_def)
  show "outcome BufferEnd (out @ ?E (c # cur)) (format_loop alnum vs bs BufferEnd (c # cur) None False out)
      \<and> outcome BufferEnd (out @ ?E (c # cur))
          (format_loop alnum vs bs BufferEnd (c # cur) (Some (0x25 # nm @ c # cur)) False out)"
    using plain name none outcome_full [OF _ len]
    by (cases "BufferEnd \<le> length out"; cases "c = 0x25") (simp_all del: expand.simps(2) add: plain_expand)
qed

lemma loop_Nil:
  assumes "variables_ok vs bs"
  shows "loop_plain alnum vs bs BufferEnd []" "loop_name alnum vs bs BufferEnd []"
proof -
  show "loop_plain alnum vs bs BufferEnd []"
    by (auto simp: loop_plain_def outcome_def)
  show "loop_name alnum vs bs BufferEnd []"
    unfolding loop_name_def
  proof (intro allI impI, elim conjE)
    fix out nm :: wstring
    assume A: "length out \<le> BufferEnd + 1" "\<forall>c \<in> set nm. alnum c" "0 \<notin> set nm" "length (nm @ []) < 2 ^ 64"
    have "CdiagsHandleVariable vs bs nm [] n out =
           (let str = variable_value vs bs nm
            in Some (if length str \<le> n then (S_OK, out @ str) else (CDIAG_E_BUFFER_TOO_SMALL, out @ take n str)))" for n
      using handle_variable [OF assms compare_alnum [OF assms A(2,3), of "[]"], of n out] A(4) by simp
    then show "outcome BufferEnd (out @ name_text alnum (variable_value vs bs) nm [])
        (format_loop alnum vs bs BufferEnd [] (Some (nm @ [])) True out)"
      using A(1) by (auto simp: outcome_def name_text_def Let_def)
  qed
qed

lemma loop_name_Cons:
  assumes "variables_ok vs bs" "loop_plain alnum vs bs BufferEnd cur" "loop_name alnum vs bs BufferEnd cur"
    and "length cur < 2 ^ 64" "c \<noteq> 0"
  shows "loop_name alnum vs bs BufferEnd (c # cur)"
  unfolding loop_name_def
proof (intro allI impI, elim conjE)
  fix out nm :: wstring
  let ?E = "expand alnum (variable_value vs bs)" and ?V = "name_text alnum (variable_value vs bs)"
  let ?loop = "\<lambda>cur. format_loop alnum vs bs BufferEnd cur"
  assume A: "length out \<le> BufferEnd + 1" "\<forall>c \<in> set nm. alnum c" "0 \<notin> set nm"
    "length (nm @ c # cur) < 2 ^ 64"
  show "outcome BufferEnd (out @ ?V nm (c # cur)) (?loop (c # cur) (Some (nm @ c # cur)) True out)"
  proof (cases "BufferEnd \<le> length out")
    case True
    with outcome_full [OF True A(1)] show ?thesis by simp
  next
    case room: False
    consider (escape) "c = 0x25" "nm = []" | (next_name) "c = 0x25" "nm \<noteq> []"
      | (stop) "c \<noteq> 0x25" "\<not> alnum c" | (more) "c \<noteq> 0x25" "alnum c" by blast
    then show ?thesis
    proof cases
      case escape
      with room loop_plainD(2) [OF assms(2), of "out @ [c]" "[]"] show ?thesis
        by (simp add: name_text_def)
    next
      case more
      have "?V nm (c # cur) = ?V (nm @ [c]) cur" using more by (simp add: name_text_def)
      with more room loop_nameD [OF assms(3), of out "nm @ [c]"] A assms(5) show ?thesis by simp
    next
      case next_name
      then have "\<not> alnum (hd (c # cur))" using percent by simp
      note h = handle_variable [OF assms(1) compare_alnum [OF assms(1) A(2,3), of "c # cur"],
          of "BufferEnd - length out" out]
      have V: "?V nm (c # cur) = variable_value vs bs nm @ ?E (c # cur)" "?V [] cur = ?E (c # cur)"
        using next_name percent by (simp_all add: name_text_def)
      have "outcome BufferEnd (out @ variable_value vs bs nm @ ?E (c # cur))
          (?loop cur (Some cur) True (out @ variable_value vs bs nm))"
        if "length (out @ variable_value vs bs nm) \<le> BufferEnd"
        using loop_nameD [OF assms(3), of "out @ variable_value vs bs nm" "[]"] that assms(4) V(2) by simp
      then show ?thesis
        unfolding V(1) using next_name room h A(4) \<open>\<not> alnum (hd (c # cur))\<close>
        by (auto simp del: expand.simps intro!: outcome_value)
    next
      case stop
      note h = handle_variable [OF assms(1) compare_alnum [OF assms(1) A(2,3), of "c # cur"],
          of "BufferEnd - length out" out]
      have V: "?V nm (c # cur) = variable_value vs bs nm @ c # ?E cur"
        using stop by (simp add: name_text_def)
      show ?thesis
        unfolding V using stop room h A(4) loop_plainD(1) [OF assms(2), of "(out @ _) @ [c]"]
        by (auto intro!: outcome_value)
    qed
  qed
qed

lemma format_loop_outcome:
  assumes "variables_ok vs bs" "0 \<notin> set cur" "length cur < 2 ^ 64"
  shows "loop_plain alnum vs bs BufferEnd cur \<and> loop_name alnum vs bs BufferEnd cur"
  using assms(2,3)
proof (induction cur)
  case Nil
  then show ?case using loop_Nil [OF assms(1)] by blast
next
  case (Cons c cur)
  then show ?case using loop_plain_Cons [OF assms(1)] loop_name_Cons [OF assms(1)] by auto
qed

end

lemma format_string_expands:
  assumes "\<And>c. c < 0x80 \<Longrightarrow> alnum c \<longleftrightarrow> ascii_alnum c"
    and "variables_ok Variables Bindings" "Variables \<noteq> []"
    and "CdiagpIsStringValid (Some t) 1 MAXWORD False" "0 \<notin> set t" "0 < BufferSizeInChars"
  shows "\<exists>Hr buf. CdiagpFormatString alnum Variables Bindings (Some t) BufferSizeInChars = Some (Hr, buf)
     \<and> length buf \<le> BufferSizeInChars
     \<and> (Hr = S_OK \<and> buf = expand alnum (variable_value Variables Bindings) t @ [0]
      \<or> Hr = CDIAG_E_BUFFER_TOO_SMALL
        \<and> BufferSizeInChars \<le> length (expand alnum (variable_value Variables Bindings) t) + 1)"
proof -
  have "alnum_class alnum" using assms(1) by (rule alnum_class.intro)
  moreover have "length t < 2 ^ 64" using assms(4) by (simp add: CdiagpIsStringValid_def)
  ultimately have "loop_plain alnum Variables Bindings (BufferSizeInChars - 1) t"
    using alnum_class.format_loop_outcome assms(2,5) by blast
  from loop_plainD(1) [OF this, of "[]"] show ?thesis
    using assms(3,4,6) unfolding CdiagpFormatString_def outcome_def by fastforce
qed

section \<open>Properties\<close>

text \<open>
  C24: formatting is expansion. For any template, any table of variables and any size of the
  buffer, formatting either stores the expansion of the template with its terminator, or finds
  the buffer too small, which it does only when the expansion leaves no more than the last
  character free; it never stores more than the buffer holds. Variables may be abbreviated, and
  case does not matter.
\<close>

theorem template_expansion:
  assumes "\<And>c. c < 0x80 \<Longrightarrow> alnum c \<longleftrightarrow> ascii_alnum c"
    and "variables_ok Variables Bindings" "Variables \<noteq> []"
    and "CdiagpIsStringValid (Some t) 1 MAXWORD False" "0 \<notin> set t" "0 < BufferSizeInChars"
  shows "\<exists>Hr buf. CdiagpFormatString alnum Variables Bindings (Some t) BufferSizeInChars = Some (Hr, buf)
     \<and> length buf \<le> BufferSizeInChars
     \<and> (Hr = S_OK \<and> buf = expand alnum (variable_value Variables Bindings) t @ [0]
      \<or> Hr = CDIAG_E_BUFFER_TOO_SMALL
        \<and> BufferSizeInChars \<le> length (expand alnum (variable_value Variables Bindings) t) + 1)"
  using assms by (rule format_string_expands)

definition demo_variables :: "format_variable list" where
  "demo_variables =
     [\<lparr>VarName = wide ''Message'', VarFormat = wide ''%s''\<rparr>,
      \<lparr>VarName = wide ''Code'', VarFormat = wide ''0x%04X''\<rparr>]"

theorem template_expansion_witness:
  "\<exists>Hr buf. CdiagpFormatString ascii_alnum demo_variables [Text (wide ''ok''), Number 42]
       (Some (wide ''%CODE %Mess%%'')) 20 = Some (Hr, buf)
     \<and> Hr = S_OK \<and> buf = wide ''0x002A ok%'' @ [0]"
proof -
  have E: "expand ascii_alnum (variable_value demo_variables [Text (wide ''ok''), Number 42])
      (wide ''%CODE %Mess%%'') = wide ''0x002A ok%''" by code_simp
  have ok: "variables_ok demo_variables [Text (wide ''ok''), Number 42]"
    unfolding variables_ok_def demo_variables_def
    by (simp add: ascii_alnum_def wide_def pad_zero_def print_nat.simps)
  have "demo_variables \<noteq> []" "CdiagpIsStringValid (Some (wide ''%CODE %Mess%%'')) 1 MAXWORD False"
    "0 \<notin> set (wide ''%CODE %Mess%%'')"
    by (simp_all add: demo_variables_def CdiagpIsStringValid_def)
  from template_expansion [of ascii_alnum, OF refl ok this, of 20]
  show ?thesis unfolding E by auto
qed

end
