(* ===== verification/Formatter.thy ===== *)
theory Formatter
  imports FormatStr
begin

text \<open>
  The formatter of event packets (\<open>cdiag/cdiag/formatter.c\<close>).

  A packet is the block of its bytes, with the layout of \<open>CDIAG_EVENT_PACKET\<close> and
  \<open>CDIAG_DEBUG_INFO\<close>; an access outside of the block is undefined, and so is a conversion that
  does not match its argument: the result is \<open>None\<close> then. A pointer into the packet is an offset
  from its start, and \<open>None\<close> the null pointer. The string table of the module, the conversion of
  times and the resolver are arguments.
\<close>

section \<open>Memory of a packet\<close>

type_synonym packet_bytes = "8 word list"

definition byte_at :: "packet_bytes \<Rightarrow> nat \<Rightarrow> 8 word option" where
  "byte_at pkt p = (if p < length pkt then Some (pkt ! p) else None)"

definition word_at :: "packet_bytes \<Rightarrow> nat \<Rightarrow> 16 word option" where
  "word_at pkt p =
     do { a \<leftarrow> byte_at pkt p; b \<leftarrow> byte_at pkt (p + 1);
          Some (ucast a OR push_bit 8 (ucast b)) }"

definition dword_at :: "packet_bytes \<Rightarrow> nat \<Rightarrow> dword option" where
  "dword_at pkt p =
     do { a \<leftarrow> word_at pkt p; b \<leftarrow> word_at pkt (p + 2);
          Some (ucast a OR push_bit 16 (ucast b)) }"

text \<open>The characters before the terminator; no terminator within the packet is undefined.\<close>

fun terminated :: "8 word list \<Rightarrow> wstring option" where
  "terminated (a # b # bytes) =
     (let c = ucast a OR push_bit 8 (ucast b)
      in if c = 0 then Some [] else map_option (Cons c) (terminated bytes))"
| "terminated _ = None"

definition string_at :: "packet_bytes \<Rightarrow> nat \<Rightarrow> wstring option" where
  "string_at pkt p = terminated (drop p pkt)"

text \<open>Offsets of the fields.\<close>

abbreviation "PKT_Size \<equiv> (0 :: nat)"
abbreviation "PKT_TotalSize \<equiv> (2 :: nat)"
abbreviation "PKT_Type \<equiv> (4 :: nat)"
abbreviation "PKT_Flags \<equiv> (12 :: nat)"
abbreviation "PKT_Severity \<equiv> (14 :: nat)"
abbreviation "PKT_ProcessorMode \<equiv> (15 :: nat)"
abbreviation "PKT_MachineOffset \<equiv> (16 :: nat)"
abbreviation "PKT_ProcessId \<equiv> (20 :: nat)"
abbreviation "PKT_ThreadId \<equiv> (24 :: nat)"
abbreviation "PKT_Timestamp \<equiv> (28 :: nat)"
abbreviation "PKT_Code \<equiv> (36 :: nat)"
abbreviation "PKT_MessageOffset \<equiv> (40 :: nat)"
abbreviation "PKT_DebugInfoOffset \<equiv> (44 :: nat)"
abbreviation "PKT_InsertionCount \<equiv> (56 :: nat)"
abbreviation "PKT_InsertionOffset \<equiv> (60 :: nat)"
abbreviation "SIZEOF_EVENT_PACKET \<equiv> (64 :: 16 word)"
abbreviation "DBG_ModuleOffset \<equiv> (4 :: nat)"
abbreviation "DBG_FunctionNameOffset \<equiv> (8 :: nat)"
abbreviation "DBG_SourceFileOffset \<equiv> (12 :: nat)"
abbreviation "DBG_SourceLine \<equiv> (16 :: nat)"

definition CdiagsIsValidEventPacket :: "packet_bytes \<Rightarrow> bool option" where
  "CdiagsIsValidEventPacket pkt =
     do { Sz \<leftarrow> word_at pkt PKT_Size; Total \<leftarrow> word_at pkt PKT_TotalSize;
          Some (Sz = SIZEOF_EVENT_PACKET \<and> Sz \<le> Total) }"

section \<open>Captions\<close>

abbreviation "CdiagMaxEvent \<equiv> (5 :: nat)"
abbreviation "CdiagMaxSeverity \<equiv> (5 :: nat)"
abbreviation "CdiagMaxMode \<equiv> (1 :: nat)"
abbreviation "MAX_CAPTION_CCH \<equiv> (64 :: nat)"
abbreviation "IDS_FORMATTER_SEV_BASE \<equiv> (100 :: nat)"
abbreviation "IDS_FORMATTER_TYPE_BASE \<equiv> (200 :: nat)"
abbreviation "IDS_FORMATTER_PROC_BASE \<equiv> (300 :: nat)"

record captions =
  CdiagsEventTypeCaptions :: "wstring list"
  CdiagsSeverityCaptions :: "wstring list"
  CdiagsProcModeCaptions :: "wstring list"

text \<open>
  \<open>LoadString\<close> is the string table. When the caption of a processor mode is missing, it is the
  caption of a severity that the code replaces.
\<close>

definition load_caption :: "(nat \<Rightarrow> wstring option) \<Rightarrow> nat \<Rightarrow> wstring \<Rightarrow> nat \<Rightarrow> wstring" where
  "load_caption LoadString base what Index =
     (case LoadString (base + Index) of
        Some str \<Rightarrow> take (MAX_CAPTION_CCH - 1) str
      | None \<Rightarrow> what @ print_nat 10 Index)"

definition CdiagpInitializeFormatter :: "(nat \<Rightarrow> wstring option) \<Rightarrow> captions" where
  "CdiagpInitializeFormatter LoadString =
     (let types = map (load_caption LoadString IDS_FORMATTER_TYPE_BASE (wide ''Type ''))
                    [0 ..< CdiagMaxEvent + 1];
          sevs = map (load_caption LoadString IDS_FORMATTER_SEV_BASE (wide ''Severity ''))
                   [0 ..< CdiagMaxSeverity + 1]
      in fold (\<lambda>Index cs.
             case LoadString (IDS_FORMATTER_PROC_BASE + Index) of
               Some str \<Rightarrow> cs\<lparr>CdiagsProcModeCaptions :=
                               (CdiagsProcModeCaptions cs)[Index := take (MAX_CAPTION_CCH - 1) str]\<rparr>
             | None \<Rightarrow> cs\<lparr>CdiagsSeverityCaptions :=
                           (CdiagsSeverityCaptions cs)[Index := wide ''Mode '' @ print_nat 10 Index]\<rparr>)
           [0 ..< CdiagMaxMode + 1]
           \<lparr>CdiagsEventTypeCaptions = types, CdiagsSeverityCaptions = sevs,
            CdiagsProcModeCaptions = replicate (CdiagMaxMode + 1) []\<rparr>)"

section \<open>Translation\<close>

text \<open>
  \<open>FileTimeToLocalFileTime\<close>, \<open>FileTimeToSystemTime\<close> and \<open>GetTimeFormat\<close>; a \<open>FILETIME\<close> is its
  two halves, and \<open>JunkTime\<close> and \<open>JunkSystemTime\<close> are what uninitialised variables hold.
\<close>

type_synonym filetime = "dword \<times> dword"
type_synonym systemtime = "16 word list"

record time_env =
  ToLocalTime :: "filetime \<Rightarrow> filetime option"
  ToSystemTime :: "filetime \<Rightarrow> systemtime option"
  TimeFormat :: "systemtime \<Rightarrow> wstring option"
  JunkTime :: filetime
  JunkSystemTime :: systemtime

datatype translate_routine =
    CdiagsTranslateEventType | CdiagsTranslateSeverity | CdiagsTranslateProcessorMode
  | CdiagsTranslateTimestamp

definition caption :: "wstring list \<Rightarrow> nat \<Rightarrow> nat \<Rightarrow> binding" where
  "caption captions maximum n = (if n \<le> maximum then Text (captions ! n) else Number 0)"

text \<open>
  The buffer of 100 bytes holds 49 characters and the terminator; \<open>GetTimeFormat\<close>, which is
  told 100 characters, overruns it when the text is longer.
\<close>

definition translate_timestamp ::
    "bool \<Rightarrow> time_env \<Rightarrow> filetime \<Rightarrow> (binding \<times> bool) option" where
  "translate_timestamp alloc env UtcTime =
     (let LocalTime = (case ToLocalTime env UtcTime of None \<Rightarrow> JunkTime env | Some t \<Rightarrow> t);
          LocalSystemTime = (case ToSystemTime env LocalTime of
                               None \<Rightarrow> JunkSystemTime env | Some t \<Rightarrow> t)
      in case (if alloc then TimeFormat env LocalSystemTime else None) of
           None \<Rightarrow> Some (Number 0, False)
         | Some str \<Rightarrow> if 2 * (length str + 1) \<le> 100 then Some (Text str, True) else None)"

definition translate ::
    "captions \<Rightarrow> bool \<Rightarrow> time_env \<Rightarrow> translate_routine \<Rightarrow> packet_bytes \<Rightarrow> nat \<Rightarrow>
       (binding \<times> bool) option" where
  "translate cs alloc env r pkt ValuePtr =
     (case r of
        CdiagsTranslateEventType \<Rightarrow> do {
          Type \<leftarrow> dword_at pkt ValuePtr;
          Some (caption (CdiagsEventTypeCaptions cs) CdiagMaxEvent (unat Type), False) }
      | CdiagsTranslateSeverity \<Rightarrow> do {
          Sev \<leftarrow> byte_at pkt ValuePtr;
          Some (caption (CdiagsSeverityCaptions cs) CdiagMaxSeverity (unat Sev), False) }
      | CdiagsTranslateProcessorMode \<Rightarrow> do {
          Mode \<leftarrow> byte_at pkt ValuePtr;
          Some (caption (CdiagsProcModeCaptions cs) CdiagMaxMode (unat Mode), False) }
      | CdiagsTranslateTimestamp \<Rightarrow> do {
          low \<leftarrow> dword_at pkt ValuePtr; high \<leftarrow> dword_at pkt (ValuePtr + 4);
          translate_timestamp alloc env (low, high) })"

section \<open>Bindings\<close>

datatype binding_field_type = PwstrType | WordType | DwordType | SpecialType

record binding_definition =
  StructOffset :: nat
  FieldType :: binding_field_type
  IsOffset :: bool
  OffsetWithinStruct :: nat
  OffsetWithinStructIsOffset :: bool
  TranslateRoutine :: "translate_routine option"

definition CdiagsEventPacketVariables :: "format_variable list" where
  "CdiagsEventPacketVariables = map (\<lambda>(n, f). \<lparr>VarName = wide n, VarFormat = wide f\<rparr>)
     [(''Message'', ''%s''), (''Type'', ''%s''), (''Flags'', ''0x%04X''), (''Severity'', ''%s''),
      (''ProcessorMode'', ''%s''), (''Machine'', ''%s''), (''ProcessId'', ''%u''),
      (''ThreadId'', ''%u''), (''Timestamp'', ''%s''), (''Code'', ''0x%08X''), (''Module'', ''%s''),
      (''Function'', ''%s''), (''File'', ''%s''), (''Line'', ''%u'')]"

definition CdiagsEventPacketBindings :: "binding_definition list" where
  "CdiagsEventPacketBindings =
     map (\<lambda>(p, t, i, w, wo, r). \<lparr>StructOffset = p, FieldType = t, IsOffset = i,
            OffsetWithinStruct = w, OffsetWithinStructIsOffset = wo, TranslateRoutine = r\<rparr>)
     [(PKT_MessageOffset, PwstrType, True, 0, False, None),
      (PKT_Type, SpecialType, False, 0, False, Some CdiagsTranslateEventType),
      (PKT_Flags, WordType, False, 0, False, None),
      (PKT_Severity, SpecialType, False, 0, False, Some CdiagsTranslateSeverity),
      (PKT_ProcessorMode, SpecialType, False, 0, False, Some CdiagsTranslateProcessorMode),
      (PKT_MachineOffset, PwstrType, True, 0, False, None),
      (PKT_ProcessId, DwordType, False, 0, False, None),
      (PKT_ThreadId, DwordType, False, 0, False, None),
      (PKT_Timestamp, SpecialType, False, 0, False, Some CdiagsTranslateTimestamp),
      (PKT_Code, DwordType, False, 0, False, None),
      (PKT_DebugInfoOffset, PwstrType, True, DBG_ModuleOffset, True, None),
      (PKT_DebugInfoOffset, PwstrType, True, DBG_FunctionNameOffset, True, None),
      (PKT_DebugInfoOffset, PwstrType, True, DBG_SourceFileOffset, True, None),
      (PKT_DebugInfoOffset, DwordType, True, DBG_SourceLine, False, None)]"

text \<open>The pointer to the field; the outer option is an access outside of the packet.\<close>

definition field_pointer :: "packet_bytes \<Rightarrow> binding_definition \<Rightarrow> nat option option" where
  "field_pointer pkt d =
     (if \<not> IsOffset d then Some (Some (StructOffset d))
      else do {
        off \<leftarrow> dword_at pkt (StructOffset d);
        (if off = 0 then Some None
         else if OffsetWithinStruct d = 0 then Some (Some (unat off))
         else
           let StructPtr = unat off; FieldPtr = StructPtr + OffsetWithinStruct d
           in if \<not> OffsetWithinStructIsOffset d then Some (Some FieldPtr)
              else do {
                inner \<leftarrow> dword_at pkt FieldPtr;
                Some (if inner = 0 then None else Some (StructPtr + unat inner)) })
      })"

text \<open>A binding, and whether it is a block that must be freed.\<close>

definition bind_field ::
    "captions \<Rightarrow> bool \<Rightarrow> time_env \<Rightarrow> packet_bytes \<Rightarrow> binding_definition \<Rightarrow>
       (binding \<times> bool) option" where
  "bind_field cs alloc env pkt d =
     do {
       FieldPtr \<leftarrow> field_pointer pkt d;
       (case TranslateRoutine d of
          Some r \<Rightarrow> (case FieldPtr of None \<Rightarrow> None | Some p \<Rightarrow> translate cs alloc env r pkt p)
        | None \<Rightarrow>
            (case FieldPtr of
               None \<Rightarrow> Some (Number 0, False)
             | Some p \<Rightarrow>
                 (case FieldType d of
                    DwordType \<Rightarrow> map_option (\<lambda>v. (Number (ucast v), False)) (dword_at pkt p)
                  | WordType \<Rightarrow> map_option (\<lambda>v. (Number (ucast v), False)) (word_at pkt p)
                  | PwstrType \<Rightarrow> map_option (\<lambda>str. (Text str, False)) (string_at pkt p)
                  | SpecialType \<Rightarrow> None)))
     }"

fun bind_fields ::
    "captions \<Rightarrow> bool \<Rightarrow> time_env \<Rightarrow> packet_bytes \<Rightarrow> binding_definition list \<Rightarrow>
       (binding \<times> bool) list option" where
  "bind_fields cs alloc env pkt [] = Some []"
| "bind_fields cs alloc env pkt (d # ds) =
     do { b \<leftarrow> bind_field cs alloc env pkt d;
          bs \<leftarrow> bind_fields cs alloc env pkt ds;
          Some (b # bs) }"

section \<open>The formatter object\<close>

text \<open>
  A resolver is the number of its object; \<open>Resolve\<close> is the method \<open>ResolveMessage\<close>, and
  \<open>formatter_heap\<close> counts the references of the resolvers. \<open>Some None\<close> is a formatter that has
  been deleted.
\<close>

record formatter =
  FormatterReferenceCount :: int
  FormatTemplate :: wstring
  FormatterResolver :: "nat option"
  ResolvingFlags :: dword

type_synonym resolve_method = "nat \<Rightarrow> dword \<Rightarrow> dword \<Rightarrow> wstring list option \<Rightarrow> nat \<Rightarrow> hresult \<times> wstring"

abbreviation CDIAG_EVENT_PACKET_MAX_INSERTION_STRINGS :: nat
  where "CDIAG_EVENT_PACKET_MAX_INSERTION_STRINGS \<equiv> 16"

text \<open>More insertion strings than the array holds overrun it.\<close>

fun insertion_strings :: "packet_bytes \<Rightarrow> nat \<Rightarrow> nat \<Rightarrow> wstring list option" where
  "insertion_strings pkt Index 0 = Some []"
| "insertion_strings pkt Index (Suc n) =
     (if CDIAG_EVENT_PACKET_MAX_INSERTION_STRINGS \<le> Index then None
      else do { off \<leftarrow> dword_at pkt (PKT_InsertionOffset + 4 * Index);
                str \<leftarrow> string_at pkt (unat off);
                strs \<leftarrow> insertion_strings pkt (Index + 1) n;
                Some (str # strs) })"

definition resolve_message ::
    "resolve_method \<Rightarrow> formatter \<Rightarrow> packet_bytes \<Rightarrow> binding list \<Rightarrow> binding list option" where
  "resolve_message Resolve Formatter pkt Bindings =
     do {
       MessageOffset \<leftarrow> dword_at pkt PKT_MessageOffset;
       (case FormatterResolver Formatter of
          Some Resolver \<Rightarrow>
            if MessageOffset = 0
            then do {
              Count \<leftarrow> dword_at pkt PKT_InsertionCount;
              strs \<leftarrow> insertion_strings pkt 0 (unat Count);
              Code \<leftarrow> dword_at pkt PKT_Code;
              let (Hr, Buffer) = Resolve Resolver Code (ResolvingFlags Formatter)
                                   (if 0 < Count then Some strs else None) 1024;
              Some (if SUCCEEDED Hr then Bindings[0 := Text Buffer] else Bindings)
            }
            else Some Bindings
        | None \<Rightarrow> Some Bindings)
     }"

text \<open>
  The status and what is stored in the buffer. The blocks that were allocated for bindings are
  freed at the end; a block is freed by its binding, which must not have been replaced.
\<close>

definition CdiagsFormat ::
    "(wchar \<Rightarrow> bool) \<Rightarrow> captions \<Rightarrow> bool \<Rightarrow> time_env \<Rightarrow> resolve_method \<Rightarrow> formatter option \<Rightarrow>
       packet_bytes option \<Rightarrow> nat \<Rightarrow> (hresult \<times> wstring) option" where
  "CdiagsFormat alnum cs alloc env Resolve This EventPkt BufferSizeInChars =
     (case (This, EventPkt) of
        (Some Formatter, Some pkt) \<Rightarrow> do {
          valid \<leftarrow> CdiagsIsValidEventPacket pkt;
          (if \<not> valid \<or> BufferSizeInChars = 0 then Some (E_INVALIDARG, [])
           else do {
             bs \<leftarrow> bind_fields cs alloc env pkt CdiagsEventPacketBindings;
             Bindings \<leftarrow> resolve_message Resolve Formatter pkt (map fst bs);
             R \<leftarrow> CdiagpFormatString alnum CdiagsEventPacketVariables Bindings
                    (Some (FormatTemplate Formatter)) BufferSizeInChars;
             (if list_all2 (\<lambda>(b, MustFree) b'. MustFree \<longrightarrow> b' = b) bs Bindings then Some R else None)
           })
        }
      | _ \<Rightarrow> Some (E_INVALIDARG, []))"

type_synonym formatter_heap = "formatter option \<times> (nat \<Rightarrow> int)"

definition CdiagsDeleteFormatter :: "formatter \<Rightarrow> (nat \<Rightarrow> int) \<Rightarrow> formatter_heap" where
  "CdiagsDeleteFormatter Formatter refs =
     (None, case FormatterResolver Formatter of
              None \<Rightarrow> refs
            | Some r \<Rightarrow> refs(r := refs r - 1))"

definition CdiagsReferenceFormatter :: "formatter_heap \<Rightarrow> formatter_heap option" where
  "CdiagsReferenceFormatter h =
     (case h of
        (Some Formatter, refs) \<Rightarrow>
          Some (Some (Formatter\<lparr>FormatterReferenceCount := FormatterReferenceCount Formatter + 1\<rparr>), refs)
      | _ \<Rightarrow> None)"

definition CdiagsDereferenceFormatter :: "formatter_heap \<Rightarrow> formatter_heap option" where
  "CdiagsDereferenceFormatter h =
     (case h of
        (Some Formatter, refs) \<Rightarrow>
          let n = FormatterReferenceCount Formatter - 1;
              Formatter = Formatter\<lparr>FormatterReferenceCount := n\<rparr>
          in Some (if n = 0 then CdiagsDeleteFormatter Formatter refs else (Some Formatter, refs))
      | _ \<Rightarrow> None)"

definition CdiagCreateFormatter ::
    "bool \<Rightarrow> wstring option \<Rightarrow> nat option \<Rightarrow> dword \<Rightarrow> bool \<Rightarrow> (nat \<Rightarrow> int) \<Rightarrow>
       hresult \<times> formatter_heap" where
  "CdiagCreateFormatter alloc Template Resolver Flags Result refs =
     (case Template of
        None \<Rightarrow> (E_INVALIDARG, None, refs)
      | Some t \<Rightarrow>
          if \<not> CdiagpIsStringValid Template 1 MAXWORD False \<or> \<not> Result \<or> (Flags \<noteq> 0 \<and> Resolver = None)
          then (E_INVALIDARG, None, refs)
          else if \<not> alloc then (E_OUTOFMEMORY, None, refs)
          else (S_OK,
                Some \<lparr>FormatterReferenceCount = 1, FormatTemplate = t, FormatterResolver = Resolver,
                      ResolvingFlags = (if Resolver = None then 0 else Flags)\<rparr>,
                case Resolver of None \<Rightarrow> refs | Some r \<Rightarrow> refs(r := refs r + 1)))"

end
