(* ===== verification/FormatterInv.thy ===== *)
theory FormatterInv
  imports Formatter FormatStrInv
begin

text \<open>
  The table of bindings is well typed: for every well formed packet the field that is read for a
  variable suits the format of the variable, so that formatting is defined and is the expansion
  of the template.
\<close>

section \<open>Types of bindings\<close>

fun has_type :: "binding \<Rightarrow> binding_field_type \<Rightarrow> bool" where
  "has_type (Text str) t \<longleftrightarrow> t = PwstrType \<or> t = SpecialType"
| "has_type (Number n) t \<longleftrightarrow> t = WordType \<or> t = DwordType \<or> n = 0"

fun format_suits :: "wstring \<Rightarrow> binding_field_type \<Rightarrow> bool" where
  "format_suits f DwordType \<longleftrightarrow> f = wide ''%u'' \<or> f = wide ''0x%08X''"
| "format_suits f WordType \<longleftrightarrow> f = wide ''0x%04X''"
| "format_suits f PwstrType \<longleftrightarrow> f = wide ''%s''"
| "format_suits f SpecialType \<longleftrightarrow> f = wide ''%s''"

lemma format_suits_defined:
  assumes "format_suits f t" "has_type b t"
  shows "\<exists>str. wprintf f b = Some str"
  using assms by (cases t; cases b) (auto simp: Let_def)

lemma tables_suit:
  "list_all2 (\<lambda>v d. VarName v \<noteq> [] \<and> (\<forall>c \<in> set (VarName v). ascii_alnum c)
                  \<and> format_suits (VarFormat v) (FieldType d))
     CdiagsEventPacketVariables CdiagsEventPacketBindings"
  unfolding CdiagsEventPacketVariables_def CdiagsEventPacketBindings_def
  by (simp add: ascii_alnum_def)

lemma typed_variables_ok:
  assumes "list_all2 has_type Bindings (map FieldType ds)"
    and "list_all2 (\<lambda>v d. VarName v \<noteq> [] \<and> (\<forall>c \<in> set (VarName v). ascii_alnum c)
                  \<and> format_suits (VarFormat v) (FieldType d)) vs ds"
  shows "variables_ok vs Bindings"
  using assms(2,1) unfolding variables_ok_def
proof (induction vs ds arbitrary: Bindings rule: list_all2_induct)
  case Nil
  then show ?case by simp
next
  case (Cons v vs d ds)
  then obtain b bs where "Bindings = b # bs" "has_type b (FieldType d)"
    "list_all2 has_type bs (map FieldType ds)" by (auto simp: list_all2_Cons2)
  with Cons format_suits_defined show ?case by auto
qed

section \<open>Well formed packets\<close>

definition string_ok :: "packet_bytes \<Rightarrow> nat \<Rightarrow> dword \<Rightarrow> bool" where
  "string_ok pkt p off \<longleftrightarrow> off = 0 \<or> (\<exists>str. string_at pkt (p + unat off) = Some str)"

definition offset_ok :: "(dword \<Rightarrow> bool) \<Rightarrow> packet_bytes \<Rightarrow> nat \<Rightarrow> bool" where
  "offset_ok P pkt p \<longleftrightarrow> (\<exists>off. dword_at pkt p = Some off \<and> P off)"

definition debug_ok :: "packet_bytes \<Rightarrow> dword \<Rightarrow> bool" where
  "debug_ok pkt off \<longleftrightarrow> off = 0
     \<or> offset_ok (string_ok pkt (unat off)) pkt (unat off + DBG_ModuleOffset)
     \<and> offset_ok (string_ok pkt (unat off)) pkt (unat off + DBG_FunctionNameOffset)
     \<and> offset_ok (string_ok pkt (unat off)) pkt (unat off + DBG_SourceFileOffset)
     \<and> offset_ok (\<lambda>_. True) pkt (unat off + DBG_SourceLine)"

definition insertions_ok :: "packet_bytes \<Rightarrow> dword \<Rightarrow> bool" where
  "insertions_ok pkt n \<longleftrightarrow> unat n \<le> CDIAG_EVENT_PACKET_MAX_INSERTION_STRINGS
     \<and> (\<forall>i \<in> {..< unat n}. offset_ok (\<lambda>off. \<exists>str. string_at pkt (unat off) = Some str) pkt
                            (PKT_InsertionOffset + 4 * i))"

definition packet_ok :: "packet_bytes \<Rightarrow> bool" where
  "packet_ok pkt \<longleftrightarrow> CdiagsIsValidEventPacket pkt = Some True \<and> 64 \<le> length pkt
     \<and> offset_ok (string_ok pkt 0) pkt PKT_MessageOffset
     \<and> offset_ok (string_ok pkt 0) pkt PKT_MachineOffset
     \<and> offset_ok (debug_ok pkt) pkt PKT_DebugInfoOffset
     \<and> offset_ok (insertions_ok pkt) pkt PKT_InsertionCount"

definition time_ok :: "time_env \<Rightarrow> bool" where
  "time_ok env \<longleftrightarrow> (\<forall>t str. TimeFormat env t = Some str \<longrightarrow> length str \<le> 49)"

lemma word_at_within: "p + 2 \<le> length pkt \<Longrightarrow> \<exists>v. word_at pkt p = Some v"
  by (simp add: word_at_def byte_at_def)

lemma dword_at_within: "p + 4 \<le> length pkt \<Longrightarrow> \<exists>v. dword_at pkt p = Some v"
  using word_at_within [of p pkt] word_at_within [of "p + 2" pkt] by (auto simp: dword_at_def)

lemma caption_typed: "has_type (caption cs m n) SpecialType"
  by (simp add: caption_def)

text \<open>A typed binding that may be freed only when it is a time.\<close>

definition binding_ok :: "binding_definition \<Rightarrow> (binding \<times> bool) option \<Rightarrow> bool" where
  "binding_ok d R \<longleftrightarrow> (\<exists>b MustFree. R = Some (b, MustFree) \<and> has_type b (FieldType d)
     \<and> (MustFree \<longrightarrow> TranslateRoutine d = Some CdiagsTranslateTimestamp))"

lemma binding_ok_time:
  assumes "time_ok env" "p + 8 \<le> length pkt"
  shows "\<exists>b MustFree. translate cs alloc env CdiagsTranslateTimestamp pkt p = Some (b, MustFree)
           \<and> has_type b SpecialType"
proof -
  obtain low high where "dword_at pkt p = Some low" "dword_at pkt (p + 4) = Some high"
    using dword_at_within [of p pkt] dword_at_within [of "p + 4" pkt] assms(2) by auto
  moreover have "\<exists>b MustFree. translate_timestamp alloc env t = Some (b, MustFree) \<and> has_type b SpecialType" for t
    using assms(1) by (auto simp: translate_timestamp_def time_ok_def Let_def split: option.splits)
  ultimately show ?thesis by (simp add: translate_def)
qed

text \<open>The entries of the table, by the shape they have.\<close>

abbreviation entry ::
    "nat \<Rightarrow> binding_field_type \<Rightarrow> bool \<Rightarrow> nat \<Rightarrow> bool \<Rightarrow> translate_routine option \<Rightarrow> binding_definition" where
  "entry p t i w wo r \<equiv> \<lparr>StructOffset = p, FieldType = t, IsOffset = i, OffsetWithinStruct = w,
     OffsetWithinStructIsOffset = wo, TranslateRoutine = r\<rparr>"

lemma binding_ok_direct:
  "p + 4 \<le> length pkt \<Longrightarrow> binding_ok (entry p DwordType False w wo None)
     (bind_field cs alloc env pkt (entry p DwordType False w wo None))"
  "p + 2 \<le> length pkt \<Longrightarrow> binding_ok (entry p WordType False w wo None)
     (bind_field cs alloc env pkt (entry p WordType False w wo None))"
  using dword_at_within [of p pkt] word_at_within [of p pkt]
  by (auto simp: binding_ok_def bind_field_def field_pointer_def)

lemma binding_ok_translated:
  assumes "\<exists>b MustFree. translate cs alloc env r pkt p = Some (b, MustFree) \<and> has_type b SpecialType
             \<and> (MustFree \<longrightarrow> r = CdiagsTranslateTimestamp)"
  shows "binding_ok (entry p SpecialType False w wo (Some r))
           (bind_field cs alloc env pkt (entry p SpecialType False w wo (Some r)))"
  using assms by (auto simp: binding_ok_def bind_field_def field_pointer_def)

lemma binding_ok_string:
  assumes "offset_ok (string_ok pkt 0) pkt p"
  shows "binding_ok (entry p PwstrType True 0 wo None)
           (bind_field cs alloc env pkt (entry p PwstrType True 0 wo None))"
  using assms by (auto simp: binding_ok_def bind_field_def field_pointer_def offset_ok_def string_ok_def)

lemma binding_ok_debug:
  assumes "offset_ok (debug_ok pkt) pkt PKT_DebugInfoOffset"
  shows "w \<in> {DBG_ModuleOffset, DBG_FunctionNameOffset, DBG_SourceFileOffset} \<Longrightarrow>
         binding_ok (entry PKT_DebugInfoOffset PwstrType True w True None)
           (bind_field cs alloc env pkt (entry PKT_DebugInfoOffset PwstrType True w True None))"
    "binding_ok (entry PKT_DebugInfoOffset DwordType True DBG_SourceLine False None)
       (bind_field cs alloc env pkt (entry PKT_DebugInfoOffset DwordType True DBG_SourceLine False None))"
proof -
  from assms obtain off where off: "dword_at pkt PKT_DebugInfoOffset = Some off" "debug_ok pkt off"
    by (auto simp: offset_ok_def)
  show "binding_ok (entry PKT_DebugInfoOffset PwstrType True w True None)
           (bind_field cs alloc env pkt (entry PKT_DebugInfoOffset PwstrType True w True None))"
    if w: "w \<in> {DBG_ModuleOffset, DBG_FunctionNameOffset, DBG_SourceFileOffset}"
  proof (cases "off = 0")
    case False
    with off(2) w have "offset_ok (string_ok pkt (unat off)) pkt (unat off + w)"
      unfolding debug_ok_def by blast
    moreover have "w \<noteq> 0" using w by auto
    ultimately show ?thesis using off(1) False
      by (auto simp: binding_ok_def bind_field_def field_pointer_def offset_ok_def string_ok_def Let_def)
  qed (use off in \<open>auto simp: binding_ok_def bind_field_def field_pointer_def\<close>)
  show "binding_ok (entry PKT_DebugInfoOffset DwordType True DBG_SourceLine False None)
       (bind_field cs alloc env pkt (entry PKT_DebugInfoOffset DwordType True DBG_SourceLine False None))"
  proof (cases "off = 0")
    case False
    with off(2) have "offset_ok (\<lambda>_. True) pkt (unat off + DBG_SourceLine)"
      unfolding debug_ok_def by blast
    then show ?thesis using off(1) False
      by (auto simp: binding_ok_def bind_field_def field_pointer_def offset_ok_def Let_def)
  qed (use off in \<open>auto simp: binding_ok_def bind_field_def field_pointer_def\<close>)
qed

lemma translate_caption:
  assumes "64 \<le> length pkt"
  shows "\<exists>b MustFree. translate cs alloc env CdiagsTranslateEventType pkt PKT_Type = Some (b, MustFree)
           \<and> has_type b SpecialType \<and> (MustFree \<longrightarrow> CdiagsTranslateEventType = CdiagsTranslateTimestamp)"
    "\<exists>b MustFree. translate cs alloc env CdiagsTranslateSeverity pkt PKT_Severity = Some (b, MustFree)
           \<and> has_type b SpecialType \<and> (MustFree \<longrightarrow> CdiagsTranslateSeverity = CdiagsTranslateTimestamp)"
    "\<exists>b MustFree. translate cs alloc env CdiagsTranslateProcessorMode pkt PKT_ProcessorMode = Some (b, MustFree)
           \<and> has_type b SpecialType \<and> (MustFree \<longrightarrow> CdiagsTranslateProcessorMode = CdiagsTranslateTimestamp)"
  using assms dword_at_within [of PKT_Type pkt]
  by (auto simp: translate_def byte_at_def caption_typed)

lemma bindings_ok:
  assumes "packet_ok pkt" "time_ok env"
  shows "\<forall>d \<in> set CdiagsEventPacketBindings. binding_ok d (bind_field cs alloc env pkt d)"
proof -
  have len: "64 \<le> length pkt" and off: "offset_ok (string_ok pkt 0) pkt PKT_MessageOffset"
    "offset_ok (string_ok pkt 0) pkt PKT_MachineOffset" "offset_ok (debug_ok pkt) pkt PKT_DebugInfoOffset"
    using assms(1) by (simp_all add: packet_ok_def)
  have "\<exists>b MustFree. translate cs alloc env CdiagsTranslateTimestamp pkt PKT_Timestamp = Some (b, MustFree)
       \<and> has_type b SpecialType \<and> (MustFree \<longrightarrow> CdiagsTranslateTimestamp = CdiagsTranslateTimestamp)"
    using binding_ok_time [OF assms(2), of PKT_Timestamp pkt cs alloc] len by auto
  note rules = translate_caption [OF len, THEN binding_ok_translated] this [THEN binding_ok_translated]
    off(1,2) [THEN binding_ok_string] binding_ok_debug [OF off(3)] binding_ok_direct
  show ?thesis
    unfolding CdiagsEventPacketBindings_def list.map prod.case list.set ball_simps
    using len by (intro conjI rules ballI TrueI) simp_all
qed

section \<open>Formatting a packet\<close>

lemma bind_fields_ok:
  assumes "\<forall>d \<in> set ds. binding_ok d (bind_field cs alloc env pkt d)"
  shows "\<exists>bs. bind_fields cs alloc env pkt ds = Some bs
     \<and> list_all2 (\<lambda>b d. has_type (fst b) (FieldType d)
                    \<and> (snd b \<longrightarrow> TranslateRoutine d = Some CdiagsTranslateTimestamp)) bs ds"
  using assms
proof (induction ds)
  case (Cons d ds)
  from Cons obtain bs where "bind_fields cs alloc env pkt ds = Some bs"
    "list_all2 (\<lambda>b d. has_type (fst b) (FieldType d)
        \<and> (snd b \<longrightarrow> TranslateRoutine d = Some CdiagsTranslateTimestamp)) bs ds" by auto
  moreover from Cons.prems obtain b MustFree where "bind_field cs alloc env pkt d = Some (b, MustFree)"
    "has_type b (FieldType d)" "MustFree \<longrightarrow> TranslateRoutine d = Some CdiagsTranslateTimestamp"
    by (auto simp: binding_ok_def)
  ultimately show ?case by simp
qed simp

lemma insertion_strings_ok:
  assumes "i + n \<le> CDIAG_EVENT_PACKET_MAX_INSERTION_STRINGS"
    and "\<forall>k \<in> {..< i + n}. offset_ok (\<lambda>off. \<exists>str. string_at pkt (unat off) = Some str) pkt
                            (PKT_InsertionOffset + 4 * k)"
  shows "\<exists>strs. insertion_strings pkt i n = Some strs \<and> length strs = n"
  using assms
proof (induction n arbitrary: i)
  case (Suc n)
  have "i \<in> {..< i + Suc n}" by simp
  with Suc.prems(2) obtain off str where "dword_at pkt (PKT_InsertionOffset + 4 * i) = Some off"
    "string_at pkt (unat off) = Some str" unfolding offset_ok_def by blast
  with Suc.IH [of "i + 1"] Suc.prems show ?case by (auto simp: add.commute)
qed simp

lemma resolve_message_ok:
  assumes "packet_ok pkt"
  shows "\<exists>Bindings'. resolve_message Resolve Formatter pkt Bindings = Some Bindings'
           \<and> (Bindings' = Bindings \<or> (\<exists>Buffer. Bindings' = Bindings[0 := Text Buffer]))"
proof -
  from assms obtain m n c where "dword_at pkt PKT_MessageOffset = Some m"
    and n: "dword_at pkt PKT_InsertionCount = Some n" "insertions_ok pkt n"
    and "dword_at pkt PKT_Code = Some c"
    using dword_at_within [of PKT_Code pkt] unfolding packet_ok_def offset_ok_def by auto
  moreover obtain strs where "insertion_strings pkt 0 (unat n) = Some strs"
    using insertion_strings_ok [of 0 "unat n" pkt] n(2) unfolding insertions_ok_def by auto
  ultimately show ?thesis
    by (auto simp: resolve_message_def split_beta Let_def split: option.split)
qed

lemma message_update_typed:
  assumes "list_all2 (\<lambda>b d. has_type (fst b) (FieldType d)
             \<and> (snd b \<longrightarrow> TranslateRoutine d = Some CdiagsTranslateTimestamp))
             bs CdiagsEventPacketBindings"
    and "Bindings = map fst bs \<or> (\<exists>Buffer. Bindings = (map fst bs)[0 := Text Buffer])"
  shows "list_all2 has_type Bindings (map FieldType CdiagsEventPacketBindings)"
    and "list_all2 (\<lambda>(b, MustFree) b'. MustFree \<longrightarrow> b' = b) bs Bindings"
proof -
  have h: "hd CdiagsEventPacketBindings = entry PKT_MessageOffset PwstrType True 0 False None"
    "CdiagsEventPacketBindings \<noteq> []"
    by (simp_all add: CdiagsEventPacketBindings_def)
  then obtain ds where ds: "CdiagsEventPacketBindings = entry PKT_MessageOffset PwstrType True 0 False None # ds"
    by (metis list.collapse)
  from assms(1) [unfolded ds] obtain b bs' where bs: "bs = b # bs'" "has_type (fst b) PwstrType" "\<not> snd b"
    and rest: "list_all2 (\<lambda>b d. has_type (fst b) (FieldType d)
             \<and> (snd b \<longrightarrow> TranslateRoutine d = Some CdiagsTranslateTimestamp)) bs' ds"
    by (cases bs) auto
  have "list_all2 has_type (map fst bs') (map FieldType ds)"
    using rest by (auto simp: list_all2_map1 list_all2_map2 elim: list_all2_mono)
  with bs assms(2) show "list_all2 has_type Bindings (map FieldType CdiagsEventPacketBindings)"
    unfolding ds by auto
  have "list_all2 (\<lambda>(b, MustFree) b'. MustFree \<longrightarrow> b' = b) bs' (map fst bs')"
    by (auto simp: list_all2_map2 list_all2_same)
  with bs assms(2) show "list_all2 (\<lambda>(b, MustFree) b'. MustFree \<longrightarrow> b' = b) bs Bindings"
    by (auto simp: split_beta)
qed


definition demo_packet :: packet_bytes where
  "demo_packet = [64, 0, 70, 0] @ replicate 36 0 @ [64, 0, 0, 0] @ replicate 20 0 @ [0x68, 0, 0x69, 0, 0, 0]"

definition demo_time :: time_env where
  "demo_time = \<lparr>ToLocalTime = Some, ToSystemTime = \<lambda>_. None, TimeFormat = \<lambda>_. None, JunkTime = (0, 0),
     JunkSystemTime = []\<rparr>"

definition demo_formatter :: formatter where
  "demo_formatter = \<lparr>FormatterReferenceCount = 1, FormatTemplate = wide ''%Message'',
     FormatterResolver = None, ResolvingFlags = 0\<rparr>"

lemma demo_packet_ok: "packet_ok demo_packet"
proof -
  have "CdiagsIsValidEventPacket demo_packet = Some True" "64 \<le> length demo_packet"
    "dword_at demo_packet PKT_MessageOffset = Some 64" "string_at demo_packet 64 = Some (wide ''hi'')"
    "dword_at demo_packet PKT_MachineOffset = Some 0" "dword_at demo_packet PKT_DebugInfoOffset = Some 0"
    "dword_at demo_packet PKT_InsertionCount = Some 0"
    by code_simp+
  then show ?thesis
    by (simp add: packet_ok_def offset_ok_def string_ok_def debug_ok_def insertions_ok_def)
qed


end
