(* ===== verification/RegConfigStore.thy ===== *)
theory RegConfigStore
  imports FormatStr
begin

text \<open>
  The configuration store in the registry (\<open>cdiag/cdiag/regconfigstore.c\<close>).

  The registry functions of the system are the fields of \<open>registry_api\<close>, over a state of the
  system of any type; what the store relies on of their documentation is \<open>registry_laws\<close>. A key
  handle is a number, and \<open>None\<close> is the null handle. Data are bytes, as in the registry.
\<close>

section \<open>Registry functions\<close>

abbreviation ERROR_SUCCESS :: dword where "ERROR_SUCCESS \<equiv> 0"
abbreviation ERROR_FILE_NOT_FOUND :: dword where "ERROR_FILE_NOT_FOUND \<equiv> 2"
abbreviation ERROR_MORE_DATA :: dword where "ERROR_MORE_DATA \<equiv> 234"
abbreviation REG_SZ :: dword where "REG_SZ \<equiv> 1"
abbreviation REG_DWORD :: dword where "REG_DWORD \<equiv> 4"
abbreviation REG_MULTI_SZ :: dword where "REG_MULTI_SZ \<equiv> 7"
abbreviation KEY_QUERY_VALUE :: dword where "KEY_QUERY_VALUE \<equiv> 1"
abbreviation KEY_SET_VALUE :: dword where "KEY_SET_VALUE \<equiv> 2"
abbreviation KEY_NOTIFY :: dword where "KEY_NOTIFY \<equiv> 0x10"
abbreviation KEY_READ :: dword where "KEY_READ \<equiv> 0x20019"
abbreviation KEY_WRITE :: dword where "KEY_WRITE \<equiv> 0x20006"
abbreviation E_ACCESSDENIED :: hresult where "E_ACCESSDENIED \<equiv> 0x80070005"
abbreviation CDIAG_E_SETTING_NOT_FOUND :: hresult where "CDIAG_E_SETTING_NOT_FOUND \<equiv> 0x80048100"
abbreviation CDIAG_E_SETTING_MISMATCH :: hresult where "CDIAG_E_SETTING_MISMATCH \<equiv> 0x80048102"

type_synonym hkey = nat
type_synonym bytes = "8 word list"

text \<open>
  \<open>RegQueryValueEx\<close> with a buffer of the given size answers the result, the type, the bytes it
  stored and the size of the value.
\<close>

record 's registry_api =
  RegOpenKeyEx :: "hkey \<Rightarrow> wstring \<Rightarrow> dword \<Rightarrow> 's \<Rightarrow> (dword \<times> hkey) \<times> 's"
  RegCreateKeyEx :: "hkey \<Rightarrow> wstring \<Rightarrow> dword \<Rightarrow> 's \<Rightarrow> (dword \<times> hkey) \<times> 's"
  RegSetValueEx :: "hkey \<Rightarrow> wstring \<Rightarrow> dword \<Rightarrow> bytes \<Rightarrow> 's \<Rightarrow> dword \<times> 's"
  RegQueryValueEx :: "hkey \<Rightarrow> wstring \<Rightarrow> nat \<Rightarrow> 's \<Rightarrow> dword \<times> dword \<times> bytes \<times> nat"
  RegDeleteValue :: "hkey \<Rightarrow> wstring \<Rightarrow> 's \<Rightarrow> dword \<times> 's"
  RegCloseKey :: "hkey \<Rightarrow> 's \<Rightarrow> 's"

section \<open>Store\<close>

abbreviation CdiagGlobalScope :: dword where "CdiagGlobalScope \<equiv> 1"
abbreviation CdiagUserScope :: dword where "CdiagUserScope \<equiv> 2"
abbreviation MAX_SETTINGGROUPNAME_CCH :: nat where "MAX_SETTINGGROUPNAME_CCH \<equiv> 32"
abbreviation MAX_SETTINGNAME_CCH :: nat where "MAX_SETTINGNAME_CCH \<equiv> 32"
abbreviation MAX_REG_NAME_CCH :: nat where "MAX_REG_NAME_CCH \<equiv> 100"
abbreviation MAX_REG_VALUE_CCH :: nat where "MAX_REG_VALUE_CCH \<equiv> 524288"
abbreviation MAX_KEY_INDEX :: nat where "MAX_KEY_INDEX \<equiv> 1"

text \<open>
  \<open>Watched\<close> collects the keys whose changes signal the event, and \<open>ClosedEvents\<close> the events
  that have been closed.
\<close>

record reg_store =
  StoreKey :: "hkey option list"
  KeyAccessMask :: "dword list"
  NotifyEvent :: "nat option"
  NotifyWaitHandle :: "nat option"
  NotifyCallback :: "nat option"
  Watched :: "hkey set"
  ClosedEvents :: "nat set"

definition KEY_INDEX_FOR_SCOPE :: "dword \<Rightarrow> nat" where
  "KEY_INDEX_FOR_SCOPE scope = unat ((scope - 1) mod 2)"

definition CdiagsIsValidScope :: "dword \<Rightarrow> bool" where
  "CdiagsIsValidScope scope \<longleftrightarrow> 1 \<le> scope \<and> scope \<le> 3"

definition CdiagsIsValidRegistryName :: "wstring option \<Rightarrow> nat \<Rightarrow> bool" where
  "CdiagsIsValidRegistryName Name MaxLen \<longleftrightarrow>
     (case Name of None \<Rightarrow> False | Some n \<Rightarrow> 0x5C \<notin> set n \<and> CdiagpIsStringValid Name 1 MaxLen False)"

definition CdiagsDeleteSettingInSingleScope ::
    "'s registry_api \<Rightarrow> reg_store \<Rightarrow> wstring \<Rightarrow> wstring \<Rightarrow> dword \<Rightarrow> 's \<Rightarrow> hresult \<times> 's" where
  "CdiagsDeleteSettingInSingleScope api Store GroupName Name Scope s =
     (let i = KEY_INDEX_FOR_SCOPE Scope
      in case StoreKey Store ! i of
           None \<Rightarrow> (E_ACCESSDENIED, s)
         | Some Base \<Rightarrow>
             let ((Res, k), s) = RegOpenKeyEx api Base GroupName (KeyAccessMask Store ! i AND KEY_SET_VALUE) s
             in if Res = ERROR_FILE_NOT_FOUND then (CDIAG_E_SETTING_NOT_FOUND, s)
                else if Res \<noteq> ERROR_SUCCESS then (HRESULT_FROM_WIN32 Res, s)
                else
                  let (Res, s) = RegDeleteValue api k Name s;
                      Hr = (if Res = ERROR_FILE_NOT_FOUND then CDIAG_E_SETTING_NOT_FOUND
                            else if Res \<noteq> ERROR_SUCCESS then HRESULT_FROM_WIN32 Res else S_OK)
                  in (Hr, RegCloseKey api k s))"

definition CdiagsWriteSettingInSingleScope ::
    "'s registry_api \<Rightarrow> reg_store \<Rightarrow> wstring \<Rightarrow> wstring \<Rightarrow> dword \<Rightarrow> dword \<Rightarrow> bytes \<Rightarrow> 's \<Rightarrow>
       hresult \<times> 's" where
  "CdiagsWriteSettingInSingleScope api Store GroupName Name Scope DataType Data s =
     (let i = KEY_INDEX_FOR_SCOPE Scope
      in case StoreKey Store ! i of
           None \<Rightarrow> (E_ACCESSDENIED, s)
         | Some Base \<Rightarrow>
             let ((Res, k), s) = RegCreateKeyEx api Base GroupName (KeyAccessMask Store ! i AND KEY_WRITE) s
             in if Res \<noteq> ERROR_SUCCESS then (HRESULT_FROM_WIN32 Res, s)
                else
                  let (Res, s) = RegSetValueEx api k Name DataType Data s
                  in (if Res \<noteq> ERROR_SUCCESS then HRESULT_FROM_WIN32 Res else S_OK, RegCloseKey api k s))"

text \<open>The status, the bytes stored in the buffer, and what is stored to \<open>ActualLen\<close>.\<close>

definition CdiagsReadSettingInSingleScope ::
    "'s registry_api \<Rightarrow> reg_store \<Rightarrow> wstring \<Rightarrow> wstring \<Rightarrow> dword \<Rightarrow> dword \<Rightarrow> nat \<Rightarrow> 's \<Rightarrow>
       (hresult \<times> bytes \<times> nat option) \<times> 's" where
  "CdiagsReadSettingInSingleScope api Store GroupName Name Scope ExpectedDataType BufferLen s =
     (let i = KEY_INDEX_FOR_SCOPE Scope
      in case StoreKey Store ! i of
           None \<Rightarrow> ((E_ACCESSDENIED, [], None), s)
         | Some Base \<Rightarrow>
             let ((Res, k), s) = RegOpenKeyEx api Base GroupName (KeyAccessMask Store ! i AND KEY_READ) s
             in if Res = ERROR_FILE_NOT_FOUND then ((CDIAG_E_SETTING_NOT_FOUND, [], None), s)
                else if Res \<noteq> ERROR_SUCCESS then ((HRESULT_FROM_WIN32 Res, [], None), s)
                else
                  let (Res, DataType, Buffer, DataRead) = RegQueryValueEx api k Name BufferLen s;
                      R = (if Res = ERROR_FILE_NOT_FOUND then (CDIAG_E_SETTING_NOT_FOUND, Buffer, None)
                           else if Res = ERROR_MORE_DATA then (CDIAG_E_BUFFER_TOO_SMALL, Buffer, Some DataRead)
                           else if Res \<noteq> ERROR_SUCCESS then (HRESULT_FROM_WIN32 Res, Buffer, None)
                           else if DataType \<noteq> ExpectedDataType then (CDIAG_E_SETTING_MISMATCH, Buffer, None)
                           else (S_OK, Buffer, Some DataRead))
                  in (R, RegCloseKey api k s))"

definition CdiagsReadSetting ::
    "'s registry_api \<Rightarrow> reg_store \<Rightarrow> wstring \<Rightarrow> wstring \<Rightarrow> dword \<Rightarrow> dword \<Rightarrow> nat \<Rightarrow> 's \<Rightarrow>
       (hresult \<times> bytes \<times> nat option) \<times> 's" where
  "CdiagsReadSetting api Store GroupName Name Scope ExpectedDataType BufferLen s =
     (let global = (\<lambda>s.
            if Scope AND CdiagGlobalScope \<noteq> 0
            then CdiagsReadSettingInSingleScope api Store GroupName Name CdiagGlobalScope
                   ExpectedDataType BufferLen s
            else ((CDIAG_E_SETTING_NOT_FOUND, [], None), s))
      in if Scope AND CdiagUserScope \<noteq> 0
         then
           let ((Hr, R), s) = CdiagsReadSettingInSingleScope api Store GroupName Name CdiagUserScope
                                ExpectedDataType BufferLen s
           in if SUCCEEDED Hr then ((S_OK, R), s)
              else if Hr = CDIAG_E_SETTING_NOT_FOUND then global s
              else ((Hr, R), s)
         else global s)"

section \<open>Methods\<close>

definition dword_bytes :: "dword \<Rightarrow> bytes" where
  "dword_bytes v = [ucast v, ucast (drop_bit 8 v), ucast (drop_bit 16 v), ucast (drop_bit 24 v)]"

definition bytes_dword :: "bytes \<Rightarrow> dword" where
  "bytes_dword bs =
     (case take 4 bs @ replicate (4 - length bs) 0 of
        [a, b, c, d] \<Rightarrow> ucast a OR push_bit 8 (ucast b) OR push_bit 16 (ucast c) OR push_bit 24 (ucast d)
      | _ \<Rightarrow> 0)"

definition wstring_bytes :: "wstring \<Rightarrow> bytes" where
  "wstring_bytes str = concat (map (\<lambda>c. [ucast c, ucast (drop_bit 8 c)]) str)"

definition valid_setting :: "wstring option \<Rightarrow> wstring option \<Rightarrow> bool" where
  "valid_setting GroupName Name \<longleftrightarrow>
     CdiagsIsValidRegistryName GroupName MAX_SETTINGGROUPNAME_CCH
     \<and> CdiagsIsValidRegistryName Name MAX_SETTINGNAME_CCH"

definition CdiagsReadDwordSetting ::
    "'s registry_api \<Rightarrow> reg_store \<Rightarrow> wstring option \<Rightarrow> wstring option \<Rightarrow> dword \<Rightarrow> 's \<Rightarrow>
       (hresult \<times> dword) \<times> 's" where
  "CdiagsReadDwordSetting api Store GroupName Name Scope s =
     (if \<not> valid_setting GroupName Name \<or> \<not> CdiagsIsValidScope Scope then ((E_INVALIDARG, 0), s)
      else
        let ((Hr, Data, _), s) = CdiagsReadSetting api Store (the GroupName) (the Name) Scope REG_DWORD 4 s
        in if Hr = CDIAG_E_BUFFER_TOO_SMALL then ((CDIAG_E_SETTING_MISMATCH, 0), s)
           else if FAILED Hr then ((Hr, 0), s)
           else ((S_OK, bytes_dword Data), s))"

definition read_string_setting ::
    "dword \<Rightarrow> 's registry_api \<Rightarrow> reg_store \<Rightarrow> wstring option \<Rightarrow> wstring option \<Rightarrow> dword \<Rightarrow> nat \<Rightarrow> 's \<Rightarrow>
       (hresult \<times> bytes \<times> nat option) \<times> 's" where
  "read_string_setting Type api Store GroupName Name Scope BufferSizeInChars s =
     (if \<not> valid_setting GroupName Name \<or> \<not> CdiagsIsValidScope Scope
         \<or> BufferSizeInChars = 0 \<or> MAX_REG_VALUE_CCH < BufferSizeInChars
      then ((E_INVALIDARG, [], None), s)
      else CdiagsReadSetting api Store (the GroupName) (the Name) Scope Type (2 * BufferSizeInChars) s)"

definition CdiagsReadStringSetting ::
    "'s registry_api \<Rightarrow> reg_store \<Rightarrow> wstring option \<Rightarrow> wstring option \<Rightarrow> dword \<Rightarrow> nat \<Rightarrow> 's \<Rightarrow>
       (hresult \<times> bytes \<times> nat option) \<times> 's" where
  "CdiagsReadStringSetting = read_string_setting REG_SZ"

definition CdiagsReadMultiStringSetting ::
    "'s registry_api \<Rightarrow> reg_store \<Rightarrow> wstring option \<Rightarrow> wstring option \<Rightarrow> dword \<Rightarrow> nat \<Rightarrow> 's \<Rightarrow>
       (hresult \<times> bytes \<times> nat option) \<times> 's" where
  "CdiagsReadMultiStringSetting = read_string_setting REG_MULTI_SZ"

definition valid_write :: "wstring option \<Rightarrow> wstring option \<Rightarrow> dword \<Rightarrow> bool" where
  "valid_write GroupName Name Scope \<longleftrightarrow> valid_setting GroupName Name
     \<and> (Scope = CdiagUserScope \<or> Scope = CdiagGlobalScope)"

definition CdiagsWriteDwordSetting ::
    "'s registry_api \<Rightarrow> reg_store \<Rightarrow> wstring option \<Rightarrow> wstring option \<Rightarrow> dword \<Rightarrow> dword \<Rightarrow> 's \<Rightarrow>
       hresult \<times> 's" where
  "CdiagsWriteDwordSetting api Store GroupName Name Scope Value s =
     (if \<not> valid_write GroupName Name Scope then (E_INVALIDARG, s)
      else CdiagsWriteSettingInSingleScope api Store (the GroupName) (the Name) Scope REG_DWORD
             (dword_bytes Value) s)"

definition CdiagsWriteStringSetting ::
    "'s registry_api \<Rightarrow> reg_store \<Rightarrow> wstring option \<Rightarrow> wstring option \<Rightarrow> dword \<Rightarrow> wstring option \<Rightarrow> 's \<Rightarrow>
       hresult \<times> 's" where
  "CdiagsWriteStringSetting api Store GroupName Name Scope Value s =
     (case Value of
        None \<Rightarrow> (E_INVALIDARG, s)
      | Some str \<Rightarrow>
          if \<not> valid_write GroupName Name Scope \<or> MAX_REG_VALUE_CCH \<le> length str then (E_INVALIDARG, s)
          else CdiagsWriteSettingInSingleScope api Store (the GroupName) (the Name) Scope REG_SZ
                 (wstring_bytes (str @ [0])) s)"

lemma length_diff_takeWhile: "takeWhile P xs \<noteq> [] \<Longrightarrow> length xs - Suc n < length xs"
  by (cases xs) auto

text \<open>
  The loop over the substrings: \<open>mem\<close> is the memory from \<open>Substr\<close> on. \<open>None\<close> is a read behind the
  end of the memory, \<open>Some None\<close> a substring that is too long, else the length including the
  terminators.
\<close>

function multi_length :: "wstring \<Rightarrow> nat option option" where
  "multi_length mem =
     (let n = length (takeWhile (\<lambda>c. c \<noteq> 0) mem)
      in if MAX_REG_VALUE_CCH \<le> n then Some None
         else if n = length mem then None
         else if n = 0 then Some (Some 1)
         else map_option (map_option (\<lambda>t. n + 1 + t)) (multi_length (drop (n + 1) mem)))"
  by pat_completeness auto
termination
  by (relation "measure length") (auto intro: length_diff_takeWhile)

declare multi_length.simps [simp del]

definition CdiagsWriteMultiStringSetting ::
    "'s registry_api \<Rightarrow> reg_store \<Rightarrow> wstring option \<Rightarrow> wstring option \<Rightarrow> dword \<Rightarrow> wstring option \<Rightarrow> 's \<Rightarrow>
       (hresult \<times> 's) option" where
  "CdiagsWriteMultiStringSetting api Store GroupName Name Scope Value s =
     (case Value of
        None \<Rightarrow> Some (E_INVALIDARG, s)
      | Some mem \<Rightarrow>
          if \<not> valid_write GroupName Name Scope then Some (E_INVALIDARG, s)
          else do {
            len \<leftarrow> multi_length mem;
            Some (case len of
                    None \<Rightarrow> (E_INVALIDARG, s)
                  | Some TotalLenCch \<Rightarrow>
                      CdiagsWriteSettingInSingleScope api Store (the GroupName) (the Name) Scope REG_MULTI_SZ
                        (wstring_bytes (take TotalLenCch mem)) s)
          })"

definition CdiagsDeleteSetting ::
    "'s registry_api \<Rightarrow> reg_store \<Rightarrow> wstring option \<Rightarrow> wstring option \<Rightarrow> dword \<Rightarrow> 's \<Rightarrow> hresult \<times> 's" where
  "CdiagsDeleteSetting api Store GroupName Name Scope s =
     (if \<not> valid_write GroupName Name Scope then (E_INVALIDARG, s)
      else CdiagsDeleteSettingInSingleScope api Store (the GroupName) (the Name) Scope s)"

section \<open>Change notification\<close>

text \<open>
  \<open>Event\<close> and \<open>Wait\<close> are the results of \<open>CreateEvent\<close> and \<open>RegisterWaitForSingleObject\<close>,
  \<open>Notify k\<close> that of \<open>RegNotifyChangeKeyValue\<close> for the key \<open>k\<close>, which watches the key when it
  succeeds, and \<open>Err\<close> the last error.
\<close>

definition CdiagsCreateNotificationEventAndRegisterCallback ::
    "nat option \<Rightarrow> nat option \<Rightarrow> dword \<Rightarrow> reg_store \<Rightarrow> hresult \<times> reg_store" where
  "CdiagsCreateNotificationEventAndRegisterCallback Event Wait Err Store =
     (let Store = Store\<lparr>NotifyEvent := Event\<rparr>;
          (Hr, Store) = (case (Event, Wait) of
              (Some _, Some w) \<Rightarrow> (S_OK, Store\<lparr>NotifyWaitHandle := Some w\<rparr>)
            | _ \<Rightarrow> (HRESULT_FROM_WIN32 Err, Store))
      in if FAILED Hr
         then (Hr, Store\<lparr>NotifyWaitHandle := None,
                 ClosedEvents := ClosedEvents Store \<union> set_option (NotifyEvent Store)\<rparr>)
         else (Hr, Store))"

definition CdiagsRegisterKeyChangeNotification ::
    "nat option \<Rightarrow> nat option \<Rightarrow> dword \<Rightarrow> (hkey \<Rightarrow> dword) \<Rightarrow> hkey \<Rightarrow> reg_store \<Rightarrow> hresult \<times> reg_store" where
  "CdiagsRegisterKeyChangeNotification Event Wait Err Notify k Store =
     (if NotifyEvent Store \<noteq> None \<and> NotifyWaitHandle Store \<noteq> None then (S_OK, Store)
      else
        let (Hr, Store) = (if NotifyEvent Store = None
              then CdiagsCreateNotificationEventAndRegisterCallback Event Wait Err Store
              else (S_OK, Store))
        in if FAILED Hr then (Hr, Store)
           else if Notify k \<noteq> ERROR_SUCCESS then (HRESULT_FROM_WIN32 (Notify k), Store)
           else (S_OK, Store\<lparr>Watched := insert k (Watched Store)\<rparr>))"

fun register_keys ::
    "nat option \<Rightarrow> nat option \<Rightarrow> dword \<Rightarrow> (hkey \<Rightarrow> dword) \<Rightarrow> hkey option list \<Rightarrow> reg_store \<Rightarrow>
       hresult \<times> reg_store" where
  "register_keys Event Wait Err Notify [] Store = (S_OK, Store)"
| "register_keys Event Wait Err Notify (None # ks) Store = register_keys Event Wait Err Notify ks Store"
| "register_keys Event Wait Err Notify (Some k # ks) Store =
     (let (Hr, Store) = CdiagsRegisterKeyChangeNotification Event Wait Err Notify k Store
      in if FAILED Hr then (Hr, Store) else register_keys Event Wait Err Notify ks Store)"

text \<open>A callback is the number of its function and context; the context must be null with the function.\<close>

definition CdiagsRegisterUpdateCallback ::
    "nat option \<Rightarrow> nat option \<Rightarrow> dword \<Rightarrow> (hkey \<Rightarrow> dword) \<Rightarrow> nat option \<Rightarrow> bool \<Rightarrow> reg_store \<Rightarrow>
       hresult \<times> reg_store" where
  "CdiagsRegisterUpdateCallback Event Wait Err Notify UpdateCallback HasContext Store =
     (if HasContext \<and> UpdateCallback = None then (E_INVALIDARG, Store)
      else case UpdateCallback of
        None \<Rightarrow> (S_OK, Store\<lparr>NotifyCallback := None\<rparr>)
      | Some f \<Rightarrow>
          let (Hr, Store) = register_keys Event Wait Err Notify (StoreKey Store) Store
          in if FAILED Hr then (Hr, Store) else (S_OK, Store\<lparr>NotifyCallback := Some f\<rparr>))"

text \<open>
  The callback of the wait: the client is called, and then every open key is watched again. The
  first result is the client that is called.
\<close>

definition CdiagsKeyChangeNotificationCallback :: "reg_store \<Rightarrow> nat option \<times> reg_store" where
  "CdiagsKeyChangeNotificationCallback Store =
     (NotifyCallback Store, Store\<lparr>Watched := Watched Store \<union> set (List.map_filter id (StoreKey Store))\<rparr>)"

section \<open>Creation and deletion\<close>

text \<open>
  \<open>Sized\<close> is whether the size field has been set. The results are the status, whether the memory
  was freed, and the key handles that were closed.
\<close>

definition CdiagsDeleteStore ::
    "bool \<Rightarrow> bool \<Rightarrow> (hkey \<Rightarrow> bool) \<Rightarrow> bool \<Rightarrow> dword \<Rightarrow> reg_store \<Rightarrow> hresult \<times> bool \<times> hkey set" where
  "CdiagsDeleteStore Sized UnregisterOk CloseOk CloseEventOk Err Store =
     (if \<not> Sized then (S_OK, True, {})
      else if NotifyWaitHandle Store \<noteq> None \<and> \<not> UnregisterOk then (HRESULT_FROM_WIN32 Err, False, {})
      else
        let ks = List.map_filter id (StoreKey Store);
            closed = takeWhile CloseOk ks
        in if closed \<noteq> ks then (HRESULT_FROM_WIN32 Err, False, set closed)
           else if NotifyEvent Store \<noteq> None \<and> \<not> CloseEventOk then (HRESULT_FROM_WIN32 Err, False, set closed)
           else (S_OK, True, set closed))"

abbreviation HKEY_CURRENT_USER :: hkey where "HKEY_CURRENT_USER \<equiv> 0x80000001"
abbreviation HKEY_LOCAL_MACHINE :: hkey where "HKEY_LOCAL_MACHINE \<equiv> 0x80000002"
abbreviation CDIAG_CFGS_ACCESS_READ_USER :: dword where "CDIAG_CFGS_ACCESS_READ_USER \<equiv> 1"
abbreviation CDIAG_CFGS_ACCESS_WRITE_USER :: dword where "CDIAG_CFGS_ACCESS_WRITE_USER \<equiv> 2"
abbreviation CDIAG_CFGS_ACCESS_READ_MACHINE :: dword where "CDIAG_CFGS_ACCESS_READ_MACHINE \<equiv> 4"
abbreviation CDIAG_CFGS_ACCESS_WRITE_MACHINE :: dword where "CDIAG_CFGS_ACCESS_WRITE_MACHINE \<equiv> 8"
abbreviation CDIAG_CFGS_ACCESS_ALL :: dword where "CDIAG_CFGS_ACCESS_ALL \<equiv> 0xF"

definition access_mask :: "dword \<Rightarrow> nat \<Rightarrow> dword" where
  "access_mask AccessMode i =
     (let (r, w) = (if i = KEY_INDEX_FOR_SCOPE CdiagUserScope
                    then (CDIAG_CFGS_ACCESS_READ_USER, CDIAG_CFGS_ACCESS_WRITE_USER)
                    else (CDIAG_CFGS_ACCESS_READ_MACHINE, CDIAG_CFGS_ACCESS_WRITE_MACHINE))
      in (if AccessMode AND r \<noteq> 0 then KEY_READ else 0)
         OR (if AccessMode AND w \<noteq> 0 then KEY_WRITE OR KEY_NOTIFY else 0))"

text \<open>The keys opened so far, in the order of their indexes, or the result that failed.\<close>

fun open_keys ::
    "'s registry_api \<Rightarrow> wstring \<Rightarrow> dword \<Rightarrow> nat list \<Rightarrow> 's \<Rightarrow>
       (dword option \<times> hkey option list) \<times> 's" where
  "open_keys api BaseKeyName AccessMode [] s = ((None, []), s)"
| "open_keys api BaseKeyName AccessMode (i # is) s =
     (if access_mask AccessMode i = 0
      then let ((Res, ks), s) = open_keys api BaseKeyName AccessMode is s in ((Res, None # ks), s)
      else
        let ((Result, k), s) = RegCreateKeyEx api
              (if i = KEY_INDEX_FOR_SCOPE CdiagUserScope then HKEY_CURRENT_USER else HKEY_LOCAL_MACHINE)
              BaseKeyName (access_mask AccessMode i) s
        in if Result \<noteq> ERROR_SUCCESS then ((Some Result, []), s)
           else let ((Res, ks), s) = open_keys api BaseKeyName AccessMode is s in ((Res, Some k # ks), s))"

text \<open>
  The status, the store, and the keys that stay open although there is no store.
\<close>

definition CdiagCreateRegistryStore ::
    "bool \<Rightarrow> 's registry_api \<Rightarrow> wstring option \<Rightarrow> dword \<Rightarrow> bool \<Rightarrow> 's \<Rightarrow>
       (hresult \<times> reg_store option \<times> hkey set) \<times> 's" where
  "CdiagCreateRegistryStore alloc api BaseKeyName AccessMode HasResult s =
     (if \<not> CdiagpIsStringValid BaseKeyName 1 MAX_REG_NAME_CCH False \<or> \<not> HasResult
         \<or> AccessMode = 0 \<or> CDIAG_CFGS_ACCESS_ALL < AccessMode
      then ((E_INVALIDARG, None, {}), s)
      else if \<not> alloc then ((E_OUTOFMEMORY, None, {}), s)
      else
        let ((Res, ks), s) = open_keys api (the BaseKeyName) AccessMode [0 ..< MAX_KEY_INDEX + 1] s;
            Store = \<lparr>StoreKey = ks, KeyAccessMask = map (access_mask AccessMode) [0 ..< MAX_KEY_INDEX + 1],
                     NotifyEvent = None, NotifyWaitHandle = None, NotifyCallback = None,
                     Watched = {}, ClosedEvents = {}\<rparr>
        in case Res of
             None \<Rightarrow> ((S_OK, Some Store, {}), s)
           | Some Result \<Rightarrow>
               let (_, _, closed) = CdiagsDeleteStore False True (\<lambda>_. True) True 0 Store
               in ((HRESULT_FROM_WIN32 Result, None, set (List.map_filter id ks) - closed), s))"

end
