(* ===== verification/RegConfigStoreInv.thy ===== *)
theory RegConfigStoreInv
  imports RegConfigStore
begin

text \<open>
  The store implements settings in two scopes, of which the user's wins; what is written is read
  back; and how changes are watched. \<open>registry_laws\<close> is what the store relies on of the
  documentation of the registry functions, stated over a view of the system: the keys that exist,
  the values they hold, the keys that handles stand for, and the access that is granted.
\<close>

section \<open>Laws of the registry functions\<close>

record 's registry_view =
  KeyExists :: "'s \<Rightarrow> hkey \<Rightarrow> wstring \<Rightarrow> bool"
  RegValue :: "'s \<Rightarrow> hkey \<Rightarrow> wstring \<Rightarrow> wstring \<Rightarrow> (dword \<times> bytes) option"
  OpenKey :: "'s \<Rightarrow> hkey \<Rightarrow> (hkey \<times> wstring \<times> dword) option"
  Granted :: "hkey \<Rightarrow> dword \<Rightarrow> bool"

definition same_values :: "'s registry_view \<Rightarrow> 's \<Rightarrow> 's \<Rightarrow> bool" where
  "same_values view s s' \<longleftrightarrow> RegValue view s' = RegValue view s \<and> KeyExists view s' = KeyExists view s"

definition put_value ::
    "hkey \<Rightarrow> wstring \<Rightarrow> wstring \<Rightarrow> (dword \<times> bytes) option \<Rightarrow>
       (hkey \<Rightarrow> wstring \<Rightarrow> wstring \<Rightarrow> (dword \<times> bytes) option) \<Rightarrow>
       hkey \<Rightarrow> wstring \<Rightarrow> wstring \<Rightarrow> (dword \<times> bytes) option" where
  "put_value b g n v f = (\<lambda>b' g' n'. if b' = b \<and> g' = g \<and> n' = n then v else f b' g' n')"

definition open_law :: "'s registry_api \<Rightarrow> 's registry_view \<Rightarrow> bool" where
  "open_law api view \<longleftrightarrow> (\<forall>b g m s Res k s'. RegOpenKeyEx api b g m s = ((Res, k), s') \<longrightarrow>
     same_values view s s'
     \<and> (if KeyExists view s b g then Granted view b m \<longrightarrow> Res = ERROR_SUCCESS else Res = ERROR_FILE_NOT_FOUND)
     \<and> (Res = ERROR_SUCCESS \<longrightarrow> OpenKey view s' k = Some (b, g, m)))"

definition create_law :: "'s registry_api \<Rightarrow> 's registry_view \<Rightarrow> bool" where
  "create_law api view \<longleftrightarrow> (\<forall>b g m s Res k s'. RegCreateKeyEx api b g m s = ((Res, k), s') \<longrightarrow>
     RegValue view s' = RegValue view s
     \<and> (Res = ERROR_SUCCESS \<longrightarrow> OpenKey view s' k = Some (b, g, m) \<and> KeyExists view s' b g))"

definition set_law :: "'s registry_api \<Rightarrow> 's registry_view \<Rightarrow> bool" where
  "set_law api view \<longleftrightarrow> (\<forall>b g m k n t d s Res s'. OpenKey view s k = Some (b, g, m) \<longrightarrow>
     RegSetValueEx api k n t d s = (Res, s') \<longrightarrow> KeyExists view s' = KeyExists view s
     \<and> RegValue view s' = (if Res = ERROR_SUCCESS then put_value b g n (Some (t, d)) (RegValue view s)
                          else RegValue view s))"

definition query_law :: "'s registry_api \<Rightarrow> 's registry_view \<Rightarrow> bool" where
  "query_law api view \<longleftrightarrow> (\<forall>b g m k n cap s Res t d len. OpenKey view s k = Some (b, g, m) \<longrightarrow>
     m AND KEY_QUERY_VALUE \<noteq> 0 \<longrightarrow> RegQueryValueEx api k n cap s = (Res, t, d, len) \<longrightarrow>
     (case RegValue view s b g n of
        None \<Rightarrow> Res = ERROR_FILE_NOT_FOUND
      | Some (t', d') \<Rightarrow>
          if length d' \<le> cap then Res = ERROR_SUCCESS \<and> t = t' \<and> d = d' \<and> len = length d'
          else Res = ERROR_MORE_DATA \<and> len = length d'))"

definition delete_law :: "'s registry_api \<Rightarrow> 's registry_view \<Rightarrow> bool" where
  "delete_law api view \<longleftrightarrow> (\<forall>b g m k n s Res s'. OpenKey view s k = Some (b, g, m) \<longrightarrow>
     RegDeleteValue api k n s = (Res, s') \<longrightarrow> KeyExists view s' = KeyExists view s
     \<and> (RegValue view s b g n = None \<longrightarrow> Res = ERROR_FILE_NOT_FOUND)
     \<and> RegValue view s' = (if Res = ERROR_SUCCESS then put_value b g n None (RegValue view s)
                          else RegValue view s))"

definition registry_laws :: "'s registry_api \<Rightarrow> 's registry_view \<Rightarrow> bool" where
  "registry_laws api view \<longleftrightarrow> open_law api view \<and> create_law api view \<and> set_law api view
     \<and> query_law api view \<and> delete_law api view
     \<and> (\<forall>k s. same_values view s (RegCloseKey api k s))
     \<and> (\<forall>s b g n. \<not> KeyExists view s b g \<longrightarrow> RegValue view s b g n = None)"

text \<open>The laws as rules.\<close>

lemma open_lawD:
  assumes "registry_laws api view" "RegOpenKeyEx api b g m s = ((Res, k), s')"
  shows "same_values view s s'" "KeyExists view s b g \<Longrightarrow> Granted view b m \<Longrightarrow> Res = ERROR_SUCCESS"
    "\<not> KeyExists view s b g \<Longrightarrow> Res = ERROR_FILE_NOT_FOUND"
    "Res = ERROR_SUCCESS \<Longrightarrow> OpenKey view s' k = Some (b, g, m)"
  using assms unfolding registry_laws_def open_law_def by (auto split: if_splits)

lemma create_lawD:
  assumes "registry_laws api view" "RegCreateKeyEx api b g m s = ((Res, k), s')"
  shows "RegValue view s' = RegValue view s" "Res = ERROR_SUCCESS \<Longrightarrow> OpenKey view s' k = Some (b, g, m)"
    "Res = ERROR_SUCCESS \<Longrightarrow> KeyExists view s' b g"
  using assms unfolding registry_laws_def create_law_def by auto

lemma set_lawD:
  assumes "registry_laws api view" "OpenKey view s k = Some (b, g, m)" "RegSetValueEx api k n t d s = (Res, s')"
  shows "KeyExists view s' = KeyExists view s"
    "RegValue view s' = (if Res = ERROR_SUCCESS then put_value b g n (Some (t, d)) (RegValue view s)
                         else RegValue view s)"
  using assms unfolding registry_laws_def set_law_def by blast+

lemma query_lawD:
  assumes "registry_laws api view" "OpenKey view s k = Some (b, g, m)" "m AND KEY_QUERY_VALUE \<noteq> 0"
    and "RegQueryValueEx api k n cap s = (Res, t, d, len)"
  shows "RegValue view s b g n = None \<Longrightarrow> Res = ERROR_FILE_NOT_FOUND"
    "RegValue view s b g n = Some (t', d') \<Longrightarrow>
       if length d' \<le> cap then Res = ERROR_SUCCESS \<and> t = t' \<and> d = d' \<and> len = length d'
       else Res = ERROR_MORE_DATA \<and> len = length d'"
  using assms unfolding registry_laws_def query_law_def by fastforce+

lemma delete_lawD:
  assumes "registry_laws api view" "OpenKey view s k = Some (b, g, m)" "RegDeleteValue api k n s = (Res, s')"
  shows "KeyExists view s' = KeyExists view s" "RegValue view s b g n = None \<Longrightarrow> Res = ERROR_FILE_NOT_FOUND"
    "RegValue view s' = (if Res = ERROR_SUCCESS then put_value b g n None (RegValue view s)
                         else RegValue view s)"
  using assms unfolding registry_laws_def delete_law_def by blast+

lemma close_lawD: "registry_laws api view \<Longrightarrow> same_values view s (RegCloseKey api k s)"
  by (simp add: registry_laws_def)

lemma absent_key: "registry_laws api view \<Longrightarrow> \<not> KeyExists view s b g \<Longrightarrow> RegValue view s b g n = None"
  by (simp add: registry_laws_def)

lemma same_values_trans: "same_values view s s' \<Longrightarrow> same_values view s' s'' \<Longrightarrow> same_values view s s''"
  by (simp add: same_values_def)

section \<open>Reading\<close>

text \<open>The key of a scope is open for reading.\<close>

definition readable :: "'s registry_view \<Rightarrow> reg_store \<Rightarrow> dword \<Rightarrow> hkey \<Rightarrow> bool" where
  "readable view Store Scope b \<longleftrightarrow> StoreKey Store ! KEY_INDEX_FOR_SCOPE Scope = Some b
     \<and> KeyAccessMask Store ! KEY_INDEX_FOR_SCOPE Scope AND KEY_READ = KEY_READ \<and> Granted view b KEY_READ"

text \<open>What reading a value into a buffer of \<open>cap\<close> bytes yields.\<close>

definition read_result :: "dword \<Rightarrow> nat \<Rightarrow> (dword \<times> bytes) option \<Rightarrow> hresult \<times> bytes \<times> nat option \<Rightarrow> bool" where
  "read_result T cap v R \<longleftrightarrow>
     (case v of
        None \<Rightarrow> fst R = CDIAG_E_SETTING_NOT_FOUND
      | Some (t, d) \<Rightarrow>
          if cap < length d then fst R = CDIAG_E_BUFFER_TOO_SMALL \<and> snd (snd R) = Some (length d)
          else if t \<noteq> T then fst R = CDIAG_E_SETTING_MISMATCH
          else R = (S_OK, d, Some (length d)))"

lemma read_single:
  assumes "registry_laws api view" "readable view Store Scope b"
    and "CdiagsReadSettingInSingleScope api Store g n Scope T cap s = (R, s')"
  shows "same_values view s s'" "read_result T cap (RegValue view s b g n) R"
proof -
  let ?i = "KEY_INDEX_FOR_SCOPE Scope"
  have k: "StoreKey Store ! ?i = Some b" "KeyAccessMask Store ! ?i AND KEY_READ = KEY_READ"
    "Granted view b KEY_READ" using assms(2) by (simp_all add: readable_def)
  obtain Res h s1 where o1: "RegOpenKeyEx api b g KEY_READ s = ((Res, h), s1)"
    by (cases "RegOpenKeyEx api b g KEY_READ s") auto
  note op = open_lawD [OF assms(1) o1]
  obtain Res2 t d len where q: "RegQueryValueEx api h n cap s1 = (Res2, t, d, len)"
    by (cases "RegQueryValueEx api h n cap s1") auto
  have "same_values view s s' \<and> read_result T cap (RegValue view s b g n) R"
  proof (cases "KeyExists view s b g")
    case False
    with op k o1 assms(3) show ?thesis
      by (auto simp: CdiagsReadSettingInSingleScope_def read_result_def absent_key [OF assms(1)])
  next
    case True
    with op k have ok: "Res = ERROR_SUCCESS" "OpenKey view s1 h = Some (b, g, KEY_READ)" by simp_all
    note Q = query_lawD [OF assms(1) ok(2) _ q]
    have v: "RegValue view s1 = RegValue view s" using op(1) by (simp add: same_values_def)
    have R: "s' = RegCloseKey api h s1" "R = (if Res2 = ERROR_FILE_NOT_FOUND then (CDIAG_E_SETTING_NOT_FOUND, d, None)
        else if Res2 = ERROR_MORE_DATA then (CDIAG_E_BUFFER_TOO_SMALL, d, Some len)
        else if Res2 \<noteq> ERROR_SUCCESS then (HRESULT_FROM_WIN32 Res2, d, None)
        else if t \<noteq> T then (CDIAG_E_SETTING_MISMATCH, d, None) else (S_OK, d, Some len))"
      using assms(3) ok k o1 q by (simp_all add: CdiagsReadSettingInSingleScope_def)
    have "read_result T cap (RegValue view s b g n) R"
      using Q R(2) v by (cases "RegValue view s b g n") (auto simp: read_result_def split: if_splits)
    moreover have "same_values view s s'"
      using same_values_trans [OF op(1) close_lawD [OF assms(1)]] R(1) by simp
    ultimately show ?thesis by simp
  qed
  then show "same_values view s s'" "read_result T cap (RegValue view s b g n) R" by blast+
qed

text \<open>The value in effect for a combination of scopes.\<close>

definition scope_value ::
    "'s registry_view \<Rightarrow> hkey \<Rightarrow> hkey \<Rightarrow> wstring \<Rightarrow> wstring \<Rightarrow> dword \<Rightarrow> 's \<Rightarrow> (dword \<times> bytes) option" where
  "scope_value view user machine g n Scope s =
     (case (if Scope AND CdiagUserScope \<noteq> 0 then RegValue view s user g n else None) of
        Some v \<Rightarrow> Some v
      | None \<Rightarrow> if Scope AND CdiagGlobalScope \<noteq> 0 then RegValue view s machine g n else None)"

lemma read_result_not_found: "read_result T cap v R \<Longrightarrow> fst R = CDIAG_E_SETTING_NOT_FOUND \<longleftrightarrow> v = None"
  by (auto simp: read_result_def split: option.splits if_splits)

lemma read_result_success: "read_result T cap v R \<Longrightarrow> SUCCEEDED (fst R) \<Longrightarrow> fst R = S_OK"
  by (auto simp: read_result_def split: option.splits if_splits)

lemma read_setting:
  assumes "registry_laws api view"
    and "Scope AND CdiagUserScope \<noteq> 0 \<Longrightarrow> readable view Store CdiagUserScope user"
    and "Scope AND CdiagGlobalScope \<noteq> 0 \<Longrightarrow> readable view Store CdiagGlobalScope machine"
    and "CdiagsReadSetting api Store g n Scope T cap s = (R, s')"
  shows "same_values view s s' \<and> read_result T cap (scope_value view user machine g n Scope s) R"
proof (cases "Scope AND CdiagUserScope \<noteq> 0")
  case True
  obtain R1 s1 where r1: "CdiagsReadSettingInSingleScope api Store g n CdiagUserScope T cap s = (R1, s1)"
    by (cases "CdiagsReadSettingInSingleScope api Store g n CdiagUserScope T cap s")
  note u = read_single [OF assms(1) assms(2) [OF True] r1]
  show ?thesis
  proof (cases "RegValue view s user g n")
    case (Some v)
    with u(2) read_result_not_found have "fst R1 \<noteq> CDIAG_E_SETTING_NOT_FOUND" by fastforce
    with True assms(4) r1 read_result_success [OF u(2)] have "R = R1" "s' = s1"
      by (cases R1; auto simp: CdiagsReadSetting_def split: if_splits)+
    with u True Some show ?thesis by (simp add: scope_value_def)
  next
    case None
    with u(2) have nf: "fst R1 = CDIAG_E_SETTING_NOT_FOUND" by (simp add: read_result_def)
    show ?thesis
    proof (cases "Scope AND CdiagGlobalScope \<noteq> 0")
      case False
      with True assms(4) r1 nf have "fst R = CDIAG_E_SETTING_NOT_FOUND" "s' = s1"
        by (cases R1; auto simp: CdiagsReadSetting_def split: if_splits)+
      with u True None False show ?thesis by (simp add: scope_value_def read_result_def)
    next
      case g: True
      with True assms(4) r1 nf have
        "CdiagsReadSettingInSingleScope api Store g n CdiagGlobalScope T cap s1 = (R, s')"
        by (cases R1) (auto simp: CdiagsReadSetting_def split: if_splits)
      from read_single [OF assms(1) assms(3) [OF g] this] u(1) True None g show ?thesis
        using same_values_trans by (auto simp: scope_value_def same_values_def)
    qed
  qed
next
  case False
  show ?thesis
  proof (cases "Scope AND CdiagGlobalScope \<noteq> 0")
    case g: True
    with False assms(4) have "CdiagsReadSettingInSingleScope api Store g n CdiagGlobalScope T cap s = (R, s')"
      by (simp add: CdiagsReadSetting_def)
    from read_single [OF assms(1) assms(3) [OF g] this] False g show ?thesis by (simp add: scope_value_def)
  next
    case g: False
    with False assms(4) show ?thesis
      by (auto simp: CdiagsReadSetting_def scope_value_def read_result_def same_values_def)
  qed
qed

section \<open>Writing\<close>

lemma write_single:
  assumes "registry_laws api view" "StoreKey Store ! KEY_INDEX_FOR_SCOPE Scope = Some b"
    and "CdiagsWriteSettingInSingleScope api Store g n Scope T d s = (Hr, s')"
  shows "RegValue view s' = (if Hr = S_OK then put_value b g n (Some (T, d)) (RegValue view s)
                              else RegValue view s)"
proof -
  let ?m = "KeyAccessMask Store ! KEY_INDEX_FOR_SCOPE Scope AND KEY_WRITE"
  obtain Res h s1 where c1: "RegCreateKeyEx api b g ?m s = ((Res, h), s1)"
    by (cases "RegCreateKeyEx api b g ?m s") auto
  note C = create_lawD [OF assms(1) c1]
  show ?thesis
  proof (cases "Res = ERROR_SUCCESS")
    case False
    with C assms c1 show ?thesis
      by (auto simp: CdiagsWriteSettingInSingleScope_def HRESULT_FROM_WIN32_0)
  next
    case True
    obtain Res2 s2 where s2: "RegSetValueEx api h n T d s1 = (Res2, s2)"
      by (cases "RegSetValueEx api h n T d s1")
    note S = set_lawD [OF assms(1) C(2) [OF True] s2]
    from True assms(2,3) c1 s2 have "Hr = (if Res2 \<noteq> ERROR_SUCCESS then HRESULT_FROM_WIN32 Res2 else S_OK)"
      "s' = RegCloseKey api h s2" by (simp_all add: CdiagsWriteSettingInSingleScope_def)
    with S(2) C(1) close_lawD [OF assms(1), of s2 h] show ?thesis
      by (auto simp: same_values_def HRESULT_FROM_WIN32_0)
  qed
qed

section \<open>Multiple strings\<close>

text \<open>The layout of several strings, which are not empty and have no terminator of their own.\<close>

definition multi_string :: "wstring list \<Rightarrow> wstring" where
  "multi_string strs = concat (map (\<lambda>str. str @ [0]) strs) @ [0]"

definition strings_ok :: "wstring list \<Rightarrow> bool" where
  "strings_ok strs \<longleftrightarrow> (\<forall>str \<in> set strs. str \<noteq> [] \<and> 0 \<notin> set str \<and> length str < MAX_REG_VALUE_CCH)"

lemma takeWhile_terminated:
  "0 \<notin> set str \<Longrightarrow> takeWhile (\<lambda>c. c \<noteq> (0 :: wchar)) (str @ 0 # rest) = str"
  by (induction str) auto

lemma multi_length_multi_string:
  "strings_ok strs \<Longrightarrow> multi_length (multi_string strs @ rest) = Some (Some (length (multi_string strs)))"
proof (induction strs)
  case Nil
  then show ?case by (simp add: multi_string_def multi_length.simps [of "0 # rest"])
next
  case (Cons str strs)
  let ?tail = "multi_string strs @ rest"
  have m: "multi_string (str # strs) @ rest = str @ 0 # ?tail" by (simp add: multi_string_def)
  have ok: "str \<noteq> []" "0 \<notin> set str" "length str < MAX_REG_VALUE_CCH" "strings_ok strs"
    using Cons.prems by (simp_all add: strings_ok_def)
  with Cons.IH show ?case
    unfolding m by (subst multi_length.simps) (simp add: takeWhile_terminated Let_def, simp add: multi_string_def)
qed

section \<open>Notification\<close>

text \<open>
  The first key that is registered sets up the event; after that the registration of the other
  key does nothing, so that changes of it are not seen until the first change of the first one.
\<close>

lemma second_key_not_watched:
  assumes "StoreKey Store = [Some k1, Some k2]" "NotifyEvent Store = None"
    and "Notify k1 = ERROR_SUCCESS"
  shows "CdiagsRegisterUpdateCallback (Some e) (Some w) Err Notify (Some f) ctx Store =
           (S_OK, Store\<lparr>NotifyEvent := Some e, NotifyWaitHandle := Some w, NotifyCallback := Some f,
                        Watched := insert k1 (Watched Store)\<rparr>)"
  using assms
  by (simp add: CdiagsRegisterUpdateCallback_def CdiagsRegisterKeyChangeNotification_def
      CdiagsCreateNotificationEventAndRegisterCallback_def Let_def)

text \<open>An event whose wait could not be registered is closed but stays in the store.\<close>

lemma closed_event_stays:
  assumes "NotifyEvent Store = None" "FAILED (HRESULT_FROM_WIN32 Err)"
  shows "let Store' = snd (CdiagsRegisterKeyChangeNotification (Some e) None Err Notify k Store)
         in NotifyEvent Store' = Some e \<and> e \<in> ClosedEvents Store'"
  using assms
  by (simp add: CdiagsRegisterKeyChangeNotification_def
      CdiagsCreateNotificationEventAndRegisterCallback_def Let_def)

section \<open>Properties\<close>

text \<open>
  Settings in two scopes. Reading a number answers the value of the user's scope if the
  scopes asked for include it and it has one, otherwise that of the machine; a value of another
  type or of more than four bytes is a mismatch, no value in either scope is not found, and the
  registry is not changed.
\<close>

lemma settings_lookup:
  assumes "registry_laws api view"
    and "readable view Store CdiagUserScope user" "readable view Store CdiagGlobalScope machine"
    and "valid_setting (Some g) (Some n)" "CdiagsIsValidScope Scope"
  shows "\<exists>s'. CdiagsReadDwordSetting api Store (Some g) (Some n) Scope s =
       ((case scope_value view user machine g n Scope s of
           None \<Rightarrow> (CDIAG_E_SETTING_NOT_FOUND, 0)
         | Some (t, d) \<Rightarrow> if t = REG_DWORD \<and> length d \<le> 4 then (S_OK, bytes_dword d)
                        else (CDIAG_E_SETTING_MISMATCH, 0)), s')
     \<and> same_values view s s'"
proof -
  obtain R s' where r: "CdiagsReadSetting api Store g n Scope REG_DWORD 4 s = (R, s')"
    by (cases "CdiagsReadSetting api Store g n Scope REG_DWORD 4 s")
  note A = read_setting [OF assms(1) assms(2) assms(3) r]
  obtain Hr d len where R: "R = (Hr, d, len)" by (cases R) auto
  show ?thesis
    using A r assms(4,5) unfolding R read_result_def CdiagsReadDwordSetting_def
    by (cases "scope_value view user machine g n Scope s") (auto split: if_splits)
qed


section \<open>Witnesses\<close>

text \<open>A registry in which every key exists and every access is granted.\<close>

record demo_registry_state =
  DemoValues :: "hkey \<Rightarrow> wstring \<Rightarrow> wstring \<Rightarrow> (dword \<times> bytes) option"
  DemoHandles :: "(hkey \<times> wstring \<times> dword) list"

definition demo_open :: "hkey \<Rightarrow> wstring \<Rightarrow> dword \<Rightarrow> demo_registry_state \<Rightarrow> (dword \<times> hkey) \<times> demo_registry_state" where
  "demo_open b g m s = ((0, length (DemoHandles s)), s\<lparr>DemoHandles := DemoHandles s @ [(b, g, m)]\<rparr>)"

definition demo_handle :: "demo_registry_state \<Rightarrow> hkey \<Rightarrow> (hkey \<times> wstring \<times> dword) option" where
  "demo_handle s k = (if k < length (DemoHandles s) then Some (DemoHandles s ! k) else None)"

definition demo_put ::
    "hkey \<Rightarrow> wstring \<Rightarrow> (dword \<times> bytes) option \<Rightarrow> demo_registry_state \<Rightarrow> dword \<times> demo_registry_state" where
  "demo_put k n v s =
     (case demo_handle s k of
        None \<Rightarrow> (6, s)
      | Some (b, g, m) \<Rightarrow>
          if v = None \<and> DemoValues s b g n = None then (ERROR_FILE_NOT_FOUND, s)
          else (0, s\<lparr>DemoValues := put_value b g n v (DemoValues s)\<rparr>))"

definition demo_query :: "hkey \<Rightarrow> wstring \<Rightarrow> nat \<Rightarrow> demo_registry_state \<Rightarrow> dword \<times> dword \<times> bytes \<times> nat" where
  "demo_query k n cap s =
     (case demo_handle s k of
        None \<Rightarrow> (6, 0, [], 0)
      | Some (b, g, m) \<Rightarrow>
          (case DemoValues s b g n of
             None \<Rightarrow> (ERROR_FILE_NOT_FOUND, 0, [], 0)
           | Some (t, d) \<Rightarrow> if length d \<le> cap then (0, t, d, length d) else (ERROR_MORE_DATA, t, [], length d)))"

definition demo_api :: "demo_registry_state registry_api" where
  "demo_api = \<lparr>RegOpenKeyEx = demo_open, RegCreateKeyEx = demo_open,
     RegSetValueEx = (\<lambda>k n t d. demo_put k n (Some (t, d))), RegQueryValueEx = demo_query,
     RegDeleteValue = (\<lambda>k n. demo_put k n None), RegCloseKey = (\<lambda>k s. s)\<rparr>"

definition demo_view :: "demo_registry_state registry_view" where
  "demo_view = \<lparr>KeyExists = (\<lambda>_ _ _. True), RegValue = DemoValues, OpenKey = demo_handle,
     Granted = (\<lambda>_ _. True)\<rparr>"

lemma demo_laws: "registry_laws demo_api demo_view"
proof -
  have "open_law demo_api demo_view" "create_law demo_api demo_view"
    by (auto simp: open_law_def create_law_def demo_api_def demo_view_def demo_open_def
        demo_handle_def same_values_def)
  moreover have "set_law demo_api demo_view" "delete_law demo_api demo_view"
    by (auto simp: set_law_def delete_law_def demo_api_def demo_view_def demo_put_def split: if_splits)
  moreover have "query_law demo_api demo_view"
    by (auto simp: query_law_def demo_api_def demo_view_def demo_query_def split: option.splits if_splits)
  ultimately show ?thesis
    by (simp add: registry_laws_def same_values_def demo_api_def demo_view_def)
qed

definition demo_store :: reg_store where
  "demo_store = \<lparr>StoreKey = [Some 1, Some 2], KeyAccessMask = [0xFFFFFFFF, 0xFFFFFFFF],
     NotifyEvent = None, NotifyWaitHandle = None, NotifyCallback = None, Watched = {}, ClosedEvents = {}\<rparr>"

definition demo_registry :: demo_registry_state where
  "demo_registry = \<lparr>DemoValues = put_value 1 (wide ''g'') (wide ''n'') (Some (REG_DWORD, [7, 0, 0, 0])) (\<lambda>_ _ _. None),
     DemoHandles = []\<rparr>"

lemma demo_readable:
  "readable demo_view demo_store CdiagUserScope 2" "readable demo_view demo_store CdiagGlobalScope 1"
  by (simp_all add: readable_def demo_view_def demo_store_def KEY_INDEX_FOR_SCOPE_def)

lemma demo_names: "valid_setting (Some (wide ''g'')) (Some (wide ''n''))"
  by (simp add: valid_setting_def CdiagsIsValidRegistryName_def CdiagpIsStringValid_def)


end
