(* ===== verification/MsgResolver.thy ===== *)
theory MsgResolver
  imports FormatStr
begin

text \<open>
  The message resolver (\<open>cdiag/cdiag/msgresolver.c\<close>): a list of registered message DLLs, and the
  lookup of a message in the system and in these DLLs.

  \<open>LoadCount\<close> is the load count the resolver has contributed for each module, and \<open>DllBlocks\<close> the
  number of its blocks for DLLs. \<open>Load\<close> is \<open>LoadLibrary\<close> or \<open>LoadLibraryEx\<close>, \<open>StripPath\<close> is
  \<open>PathStripPath\<close>, and \<open>Lookup\<close> is \<open>FormatMessage\<close>: the text, or the last error.
\<close>

section \<open>State\<close>

record registered_dll =
  DllName :: wstring
  DllModule :: nat

record resolver =
  ResolverReferenceCount :: int
  RegisteredDlls :: "registered_dll list"

record resolver_world =
  TheResolver :: "resolver option"
  LoadCount :: "nat \<Rightarrow> int"
  DllBlocks :: int

abbreviation MAX_DLLNAME :: nat where "MAX_DLLNAME \<equiv> 64"
abbreviation MAX_PATH :: nat where "MAX_PATH \<equiv> 260"
abbreviation MAX_MESSAGE_CCH :: nat where "MAX_MESSAGE_CCH \<equiv> 0xFFFF"
abbreviation STRSAFE_E_INSUFFICIENT_BUFFER :: hresult where "STRSAFE_E_INSUFFICIENT_BUFFER \<equiv> 0x8007007A"
abbreviation ERROR_INSUFFICIENT_BUFFER :: dword where "ERROR_INSUFFICIENT_BUFFER \<equiv> 122"
abbreviation ERROR_MORE_DATA' :: dword where "ERROR_MORE_DATA' \<equiv> 234"
abbreviation CDIAG_MSGRES_REGISTER_EXPLICIT_PATH :: dword where "CDIAG_MSGRES_REGISTER_EXPLICIT_PATH \<equiv> 1"
abbreviation CDIAG_MSGRES_RESOLVE_IGNORE_INSERTS :: dword where "CDIAG_MSGRES_RESOLVE_IGNORE_INSERTS \<equiv> 1"
abbreviation CDIAG_MSGRES_NO_SYSTEM :: dword where "CDIAG_MSGRES_NO_SYSTEM \<equiv> 2"
abbreviation CDIAG_MSGRES_FALLBACK_TO_DEFAULT :: dword where "CDIAG_MSGRES_FALLBACK_TO_DEFAULT \<equiv> 4"
abbreviation CDIAG_MSGRES_STRIP_NEWLINES :: dword where "CDIAG_MSGRES_STRIP_NEWLINES \<equiv> 8"
abbreviation CDIAGP_RESOLVER_ALL_FLAGS :: dword where "CDIAGP_RESOLVER_ALL_FLAGS \<equiv> 0xF"

section \<open>Registration\<close>

text \<open>The position of the first entry of the name.\<close>

fun CdiagsFindRegisteredDll :: "wstring \<Rightarrow> registered_dll list \<Rightarrow> nat option" where
  "CdiagsFindRegisteredDll Name [] = None"
| "CdiagsFindRegisteredDll Name (d # ds) =
     (if wcsicmp_eq Name (DllName d) then Some 0
      else map_option Suc (CdiagsFindRegisteredDll Name ds))"

definition drop_at :: "nat \<Rightarrow> 'a list \<Rightarrow> 'a list" where
  "drop_at i xs = take i xs @ drop (Suc i) xs"

text \<open>The library is freed, the entry taken off the list if it is on it, and the block freed.\<close>

definition CdiagsDeleteRegisteredDllEntry ::
    "nat option \<Rightarrow> nat option \<Rightarrow> resolver_world \<Rightarrow> resolver_world" where
  "CdiagsDeleteRegisteredDllEntry Module Linked w =
     w\<lparr>LoadCount := (case Module of None \<Rightarrow> LoadCount w | Some m \<Rightarrow> (LoadCount w)(m := LoadCount w m - 1)),
       TheResolver := (case Linked of
                         None \<Rightarrow> TheResolver w
                       | Some i \<Rightarrow> map_option (\<lambda>r. r\<lparr>RegisteredDlls := drop_at i (RegisteredDlls r)\<rparr>)
                                    (TheResolver w)),
       DllBlocks := DllBlocks w - 1\<rparr>"

text \<open>The name under which a DLL is registered, or the failure of copying it.\<close>

definition registered_name :: "(wstring \<Rightarrow> wstring) \<Rightarrow> dword \<Rightarrow> wstring \<Rightarrow> hresult + wstring" where
  "registered_name StripPath Flags Name =
     (if Flags AND CDIAG_MSGRES_REGISTER_EXPLICIT_PATH \<noteq> 0
      then if MAX_PATH \<le> length Name then Inl STRSAFE_E_INSUFFICIENT_BUFFER
           else if MAX_DLLNAME \<le> length (StripPath Name) then Inl STRSAFE_E_INSUFFICIENT_BUFFER
           else Inr (StripPath Name)
      else if MAX_DLLNAME \<le> length Name then Inl STRSAFE_E_INSUFFICIENT_BUFFER else Inr Name)"

definition CdiagsRegisterMessageDll ::
    "bool \<Rightarrow> (wstring \<Rightarrow> wstring) \<Rightarrow> (dword \<Rightarrow> wstring \<Rightarrow> dword + nat) \<Rightarrow> wstring option \<Rightarrow> dword \<Rightarrow> dword \<Rightarrow>
       resolver_world \<Rightarrow> hresult \<times> resolver_world" where
  "CdiagsRegisterMessageDll alloc StripPath Load Name Flags Priority w =
     (case (TheResolver w, Name) of
        (Some r, Some n) \<Rightarrow>
          if \<not> CdiagpIsStringValid Name 5 MAX_PATH False
             \<or> (Flags \<noteq> 0 \<and> Flags \<noteq> CDIAG_MSGRES_REGISTER_EXPLICIT_PATH) \<or> Priority \<noteq> 0
          then (E_INVALIDARG, w)
          else if \<not> alloc then (E_OUTOFMEMORY, w)
          else
            let w = w\<lparr>DllBlocks := DllBlocks w + 1\<rparr>
            in case registered_name StripPath Flags n of
                 Inl Hr \<Rightarrow> (Hr, CdiagsDeleteRegisteredDllEntry None None w)
               | Inr name \<Rightarrow>
                   (case Load Flags n of
                      Inl Err \<Rightarrow> (HRESULT_FROM_WIN32 Err,
                        if FAILED (HRESULT_FROM_WIN32 Err) then CdiagsDeleteRegisteredDllEntry None None w else w)
                    | Inr m \<Rightarrow>
                        let w = w\<lparr>LoadCount := (LoadCount w)(m := LoadCount w m + 1)\<rparr>
                        in if CdiagsFindRegisteredDll n (RegisteredDlls r) \<noteq> None
                           then (CDIAG_E_ALREADY_REGISTERED, CdiagsDeleteRegisteredDllEntry (Some m) None w)
                           else (S_OK, w\<lparr>TheResolver := Some (r\<lparr>RegisteredDlls :=
                                          RegisteredDlls r @ [\<lparr>DllName = name, DllModule = m\<rparr>]\<rparr>)\<rparr>))
      | _ \<Rightarrow> (E_INVALIDARG, w))"

definition CdiagsUnregisterMessageDll ::
    "wstring option \<Rightarrow> resolver_world \<Rightarrow> hresult \<times> resolver_world" where
  "CdiagsUnregisterMessageDll Name w =
     (case (TheResolver w, Name) of
        (Some r, Some n) \<Rightarrow>
          if \<not> CdiagpIsStringValid Name 5 (MAX_DLLNAME - 1) False then (E_INVALIDARG, w)
          else (case CdiagsFindRegisteredDll n (RegisteredDlls r) of
                  None \<Rightarrow> (CDIAG_E_DLL_NOT_REGISTERED, w)
                | Some i \<Rightarrow> (S_OK, CdiagsDeleteRegisteredDllEntry
                                     (Some (DllModule (RegisteredDlls r ! i))) (Some i) w))
      | _ \<Rightarrow> (E_INVALIDARG, w))"

section \<open>Resolution\<close>

text \<open>\<open>module\<close> is \<open>None\<close> for the system; the text has at least one character and fits the buffer.\<close>

type_synonym lookup_message = "nat option \<Rightarrow> dword \<Rightarrow> bool \<Rightarrow> wstring list option \<Rightarrow> nat \<Rightarrow> dword + wstring"

text \<open>The status and the text in the buffer, which is left as it was when there is no message.\<close>

definition CdiagsFormatMessage ::
    "lookup_message \<Rightarrow> nat option \<Rightarrow> dword \<Rightarrow> bool \<Rightarrow> wstring list option \<Rightarrow> nat \<Rightarrow> wstring \<Rightarrow>
       hresult \<times> wstring" where
  "CdiagsFormatMessage Lookup Module MessageId UseInsertionStrings InsertionStrings BufferSizeInChars Buffer =
     (case Lookup Module MessageId UseInsertionStrings InsertionStrings BufferSizeInChars of
        Inr str \<Rightarrow> (S_OK, str)
      | Inl Err \<Rightarrow>
          if Err = ERROR_INSUFFICIENT_BUFFER \<or> Err = ERROR_MORE_DATA' then (CDIAG_E_BUFFER_TOO_SMALL, Buffer)
          else (HRESULT_FROM_WIN32 Err, Buffer))"

definition blank_newlines :: "wstring \<Rightarrow> wstring" where
  "blank_newlines = map (\<lambda>c. if c = 0x0D \<or> c = 0x0A then 0x20 else c)"

text \<open>The loop from the end: the first blank that it meets ends the text.\<close>

fun cut_at_blank :: "nat \<Rightarrow> wstring \<Rightarrow> wstring" where
  "cut_at_blank 0 Buffer = Buffer"
| "cut_at_blank (Suc Index) Buffer =
     (if Buffer ! Index = 0x20 then take Index Buffer else cut_at_blank Index Buffer)"

definition CdiagsStripNewlines :: "wstring \<Rightarrow> wstring" where
  "CdiagsStripNewlines Buffer = (let b = blank_newlines Buffer in cut_at_blank (length b) b)"

fun resolve_in_dlls ::
    "lookup_message \<Rightarrow> dword \<Rightarrow> bool \<Rightarrow> wstring list option \<Rightarrow> nat \<Rightarrow> registered_dll list \<Rightarrow> hresult \<Rightarrow>
       wstring \<Rightarrow> bool \<times> hresult \<times> wstring" where
  "resolve_in_dlls Lookup MessageId Use InsertionStrings n [] Hr Buffer = (False, Hr, Buffer)"
| "resolve_in_dlls Lookup MessageId Use InsertionStrings n (d # ds) Hr Buffer =
     (let (Hr, Buffer) = CdiagsFormatMessage Lookup (Some (DllModule d)) MessageId Use InsertionStrings n Buffer
      in if Hr = S_OK then (True, Hr, Buffer)
         else if Hr = CDIAG_E_BUFFER_TOO_SMALL then (False, Hr, Buffer)
         else resolve_in_dlls Lookup MessageId Use InsertionStrings n ds Hr Buffer)"

definition print_hex8 :: "dword \<Rightarrow> wstring" where
  "print_hex8 v = wide ''0x'' @ pad_zero 8 (print_nat 16 (unat v))"

definition CdiagsResolveMessage ::
    "lookup_message \<Rightarrow> resolver option \<Rightarrow> dword \<Rightarrow> dword \<Rightarrow> wstring list option \<Rightarrow> nat \<Rightarrow> wstring \<Rightarrow>
       hresult \<times> wstring" where
  "CdiagsResolveMessage Lookup This MessageId Flags InsertionStrings BufferSizeInChars Buffer =
     (case This of
        None \<Rightarrow> (E_INVALIDARG, Buffer)
      | Some Resolver \<Rightarrow>
          if Flags AND NOT CDIAGP_RESOLVER_ALL_FLAGS \<noteq> 0 \<or> BufferSizeInChars = 0
             \<or> MAX_MESSAGE_CCH < BufferSizeInChars
          then (E_INVALIDARG, Buffer)
          else
            let Use = (Flags AND CDIAG_MSGRES_RESOLVE_IGNORE_INSERTS = 0);
                (Resolved, Hr, Buffer) =
                  (if Flags AND CDIAG_MSGRES_NO_SYSTEM = 0
                   then let (Hr, Buffer) = CdiagsFormatMessage Lookup None MessageId Use InsertionStrings
                                             BufferSizeInChars Buffer
                        in (Hr = S_OK, Hr, Buffer)
                   else (False, S_OK, Buffer))
            in if \<not> Resolved \<and> Hr = CDIAG_E_BUFFER_TOO_SMALL then (Hr, Buffer)
               else
                 let (Resolved, Hr, Buffer) =
                       (if Resolved then (True, Hr, Buffer)
                        else resolve_in_dlls Lookup MessageId Use InsertionStrings BufferSizeInChars
                               (RegisteredDlls Resolver) Hr Buffer)
                 in if Resolved
                    then (S_OK, if Flags AND CDIAG_MSGRES_STRIP_NEWLINES \<noteq> 0
                                then CdiagsStripNewlines Buffer else Buffer)
                    else if Hr = CDIAG_E_BUFFER_TOO_SMALL then (Hr, Buffer)
                    else if Flags AND CDIAG_MSGRES_FALLBACK_TO_DEFAULT \<noteq> 0
                    then if BufferSizeInChars \<le> length (print_hex8 MessageId)
                         then (CDIAG_E_BUFFER_TOO_SMALL, take (BufferSizeInChars - 1) (print_hex8 MessageId))
                         else (S_OK, print_hex8 MessageId)
                    else (CDIAG_E_UNKNOWN_MESSAGE, Buffer))"

section \<open>Life of the resolver\<close>

definition CdiagsDeleteResolver :: "resolver_world \<Rightarrow> hresult \<times> resolver_world" where
  "CdiagsDeleteResolver w =
     (case TheResolver w of
        None \<Rightarrow> (E_INVALIDARG, w)
      | Some r \<Rightarrow>
          (S_OK, (fold (\<lambda>d. CdiagsDeleteRegisteredDllEntry (Some (DllModule d)) (Some 0))
                    (RegisteredDlls r) w)\<lparr>TheResolver := None\<rparr>))"

definition CdiagsReferenceResolver :: "resolver_world \<Rightarrow> resolver_world" where
  "CdiagsReferenceResolver w =
     w\<lparr>TheResolver := map_option (\<lambda>r. r\<lparr>ResolverReferenceCount := ResolverReferenceCount r + 1\<rparr>) (TheResolver w)\<rparr>"

definition CdiagsDereferenceResolver :: "resolver_world \<Rightarrow> resolver_world" where
  "CdiagsDereferenceResolver w =
     (case TheResolver w of
        None \<Rightarrow> w
      | Some r \<Rightarrow>
          let n = ResolverReferenceCount r - 1;
              w = w\<lparr>TheResolver := Some (r\<lparr>ResolverReferenceCount := n\<rparr>)\<rparr>
          in if n = 0 then snd (CdiagsDeleteResolver w) else w)"

definition CdiagCreateMessageResolver :: "bool \<Rightarrow> bool \<Rightarrow> resolver_world \<Rightarrow> hresult \<times> resolver_world" where
  "CdiagCreateMessageResolver HasResult alloc w =
     (if \<not> HasResult then (E_INVALIDARG, w)
      else if \<not> alloc then (E_OUTOFMEMORY, w)
      else (S_OK, w\<lparr>TheResolver := Some \<lparr>ResolverReferenceCount = 1, RegisteredDlls = []\<rparr>\<rparr>))"

end
