(* ===== verification/MsgResolverInv.thy ===== *)
theory MsgResolverInv
  imports MsgResolver
begin

text \<open>
  The load counts of the resolver are exact in every history, and the order in which a message is
  looked up.
\<close>

section \<open>Accounts\<close>

definition registered :: "resolver_world \<Rightarrow> registered_dll list" where
  "registered w = (case TheResolver w of None \<Rightarrow> [] | Some r \<Rightarrow> RegisteredDlls r)"

definition loads_of :: "registered_dll list \<Rightarrow> nat \<Rightarrow> int" where
  "loads_of ds m = int (length (filter (\<lambda>d. DllModule d = m) ds))"

definition resolver_inv :: "resolver_world \<Rightarrow> bool" where
  "resolver_inv w \<longleftrightarrow> LoadCount w = loads_of (registered w) \<and> DllBlocks w = int (length (registered w))"

text \<open>The histories; the last error of a load that fails is not zero.\<close>

inductive resolver_reachable :: "resolver_world \<Rightarrow> bool" where
  created: "CdiagCreateMessageResolver True True
     \<lparr>TheResolver = None, LoadCount = (\<lambda>_. 0), DllBlocks = 0\<rparr> = (Hr, w) \<Longrightarrow> resolver_reachable w"
| registered: "resolver_reachable w \<Longrightarrow> (\<And>f n. Load f n \<noteq> Inl 0) \<Longrightarrow>
     CdiagsRegisterMessageDll alloc StripPath Load Name Flags Priority w = (Hr, w') \<Longrightarrow> resolver_reachable w'"
| unregistered: "resolver_reachable w \<Longrightarrow> CdiagsUnregisterMessageDll Name w = (Hr, w') \<Longrightarrow>
     resolver_reachable w'"
| referenced: "resolver_reachable w \<Longrightarrow> resolver_reachable (CdiagsReferenceResolver w)"
| dereferenced: "resolver_reachable w \<Longrightarrow> resolver_reachable (CdiagsDereferenceResolver w)"

lemma find_lt: "CdiagsFindRegisteredDll n ds = Some i \<Longrightarrow> i < length ds"
  by (induction n ds arbitrary: i rule: CdiagsFindRegisteredDll.induct) (auto split: if_splits)

lemma loads_of_simps [simp]:
  "loads_of [] = (\<lambda>_. 0)"
  "loads_of (ds @ [d]) = (loads_of ds)(DllModule d := loads_of ds (DllModule d) + 1)"
  by (auto simp: loads_of_def fun_eq_iff)

lemma drop_at_loads:
  assumes "i < length ds"
  shows "loads_of (drop_at i ds) = (loads_of ds)(DllModule (ds ! i) := loads_of ds (DllModule (ds ! i)) - 1)"
    and "int (length (drop_at i ds)) = int (length ds) - 1"
proof -
  have "ds = take i ds @ ds ! i # drop (Suc i) ds" using assms by (rule id_take_nth_drop)
  then have "loads_of ds m = loads_of (take i ds @ ds ! i # drop (Suc i) ds) m" for m by simp
  then show "loads_of (drop_at i ds) = (loads_of ds)(DllModule (ds ! i) := loads_of ds (DllModule (ds ! i)) - 1)"
    by (auto simp: drop_at_def loads_of_def fun_eq_iff)
  show "int (length (drop_at i ds)) = int (length ds) - 1" using assms by (simp add: drop_at_def)
qed

text \<open>A registration that fails leaves everything as it was.\<close>

lemma register_failed:
  assumes "\<And>f n. Load f n \<noteq> Inl 0"
    and "CdiagsRegisterMessageDll alloc StripPath Load Name Flags Priority w = (Hr, w')" "Hr \<noteq> S_OK"
  shows "w' = w"
  using assms(2,3) FAILED_HRESULT_FROM_WIN32 assms(1)
  by (auto simp: CdiagsRegisterMessageDll_def CdiagsDeleteRegisteredDllEntry_def Let_def
      HRESULT_FROM_WIN32_0 split: option.splits if_splits sum.splits)

lemma register_inv:
  assumes "resolver_inv w" "\<And>f n. Load f n \<noteq> Inl 0"
    and "CdiagsRegisterMessageDll alloc StripPath Load Name Flags Priority w = (Hr, w')"
  shows "resolver_inv w'"
proof (cases "Hr = S_OK")
  case False
  with register_failed [OF assms(2,3)] assms(1) show ?thesis by simp
next
  case True
  with assms(3) HRESULT_FROM_WIN32_0 assms(2) obtain r m name where "TheResolver w = Some r"
    "w' = w\<lparr>DllBlocks := DllBlocks w + 1, LoadCount := (LoadCount w)(m := LoadCount w m + 1),
            TheResolver := Some (r\<lparr>RegisteredDlls := RegisteredDlls r @ [\<lparr>DllName = name, DllModule = m\<rparr>]\<rparr>)\<rparr>"
    by (auto simp: CdiagsRegisterMessageDll_def registered_name_def Let_def
        split: option.splits if_splits sum.splits)
  with assms(1) show ?thesis by (auto simp: resolver_inv_def registered_def fun_eq_iff)
qed

lemma delete_entry_inv:
  assumes "resolver_inv w" "TheResolver w = Some r" "i < length (RegisteredDlls r)"
  shows "resolver_inv (CdiagsDeleteRegisteredDllEntry (Some (DllModule (RegisteredDlls r ! i))) (Some i) w)"
  using assms drop_at_loads [OF assms(3)]
  by (simp add: resolver_inv_def registered_def CdiagsDeleteRegisteredDllEntry_def)

lemma unregister_inv:
  assumes "resolver_inv w" "CdiagsUnregisterMessageDll Name w = (Hr, w')"
  shows "resolver_inv w'"
  using assms delete_entry_inv find_lt
  by (auto simp: CdiagsUnregisterMessageDll_def split: option.splits if_splits)

lemma delete_all:
  assumes "resolver_inv w" "TheResolver w = Some r" "RegisteredDlls r = ds"
  shows "resolver_inv (fold (\<lambda>d. CdiagsDeleteRegisteredDllEntry (Some (DllModule d)) (Some 0)) ds w)
       \<and> registered (fold (\<lambda>d. CdiagsDeleteRegisteredDllEntry (Some (DllModule d)) (Some 0)) ds w) = []"
  using assms
proof (induction ds arbitrary: w r)
  case Nil
  then show ?case by (simp add: registered_def)
next
  case (Cons d ds)
  let ?w = "CdiagsDeleteRegisteredDllEntry (Some (DllModule d)) (Some 0) w"
  have "resolver_inv ?w" using delete_entry_inv [OF Cons.prems(1,2), of 0] Cons.prems(3) by simp
  moreover have "TheResolver ?w = Some (r\<lparr>RegisteredDlls := ds\<rparr>)"
    using Cons.prems by (simp add: CdiagsDeleteRegisteredDllEntry_def drop_at_def)
  ultimately show ?case using Cons.IH [of ?w] by simp
qed

lemma dereference_inv:
  assumes "resolver_inv w"
  shows "resolver_inv (CdiagsDereferenceResolver w)"
proof (cases "TheResolver w")
  case None
  with assms show ?thesis by (simp add: CdiagsDereferenceResolver_def)
next
  case (Some r)
  let ?r = "r\<lparr>ResolverReferenceCount := ResolverReferenceCount r - 1\<rparr>"
  let ?w = "w\<lparr>TheResolver := Some ?r\<rparr>"
  have inv: "resolver_inv ?w" using assms Some by (simp add: resolver_inv_def registered_def)
  from delete_all [OF this, of ?r "RegisteredDlls r"] have
    "resolver_inv (snd (CdiagsDeleteResolver ?w))"
    by (simp add: CdiagsDeleteResolver_def resolver_inv_def registered_def)
  with inv Some show ?thesis
    by (cases "ResolverReferenceCount r = 1") (auto simp: CdiagsDereferenceResolver_def Let_def)
qed

lemma resolver_reachable_inv: "resolver_reachable w \<Longrightarrow> resolver_inv w"
proof (induction rule: resolver_reachable.induct)
  case (created Hr w)
  then show ?case
    by (auto simp: CdiagCreateMessageResolver_def resolver_inv_def registered_def)
next
  case (referenced w)
  then show ?case
    by (auto simp: CdiagsReferenceResolver_def resolver_inv_def registered_def split: option.splits)
qed (auto intro: register_inv unregister_inv dereference_inv)

section \<open>Order of resolution\<close>

text \<open>The places in the order in which they are asked, and the first one that settles the matter.\<close>

definition places :: "dword \<Rightarrow> registered_dll list \<Rightarrow> nat option list" where
  "places Flags ds = (if Flags AND CDIAG_MSGRES_NO_SYSTEM = 0 then [None] else []) @ map (Some \<circ> DllModule) ds"

definition too_small :: "dword \<Rightarrow> bool" where
  "too_small Err \<longleftrightarrow> Err = ERROR_INSUFFICIENT_BUFFER \<or> Err = ERROR_MORE_DATA'"

definition settles :: "dword + wstring \<Rightarrow> bool" where
  "settles a \<longleftrightarrow> (case a of Inl Err \<Rightarrow> too_small Err | Inr _ \<Rightarrow> True)"

definition settled :: "dword \<Rightarrow> dword \<Rightarrow> nat \<Rightarrow> wstring \<Rightarrow> (dword + wstring) option \<Rightarrow> hresult \<times> wstring" where
  "settled Flags MessageId n Buffer a =
     (case a of
        Some (Inr str) \<Rightarrow>
          (S_OK, if Flags AND CDIAG_MSGRES_STRIP_NEWLINES \<noteq> 0 then CdiagsStripNewlines str else str)
      | Some (Inl Err) \<Rightarrow> (CDIAG_E_BUFFER_TOO_SMALL, Buffer)
      | None \<Rightarrow>
          if Flags AND CDIAG_MSGRES_FALLBACK_TO_DEFAULT = 0 then (CDIAG_E_UNKNOWN_MESSAGE, Buffer)
          else if n \<le> 10 then (CDIAG_E_BUFFER_TOO_SMALL, take (n - 1) (print_hex8 MessageId))
          else (S_OK, print_hex8 MessageId))"

definition resolved :: "lookup_message \<Rightarrow> resolver \<Rightarrow> dword \<Rightarrow> dword \<Rightarrow> wstring list option \<Rightarrow> nat \<Rightarrow> wstring \<Rightarrow>
    hresult \<times> wstring" where
  "resolved Lookup r MessageId Flags strs n Buffer =
     settled Flags MessageId n Buffer
       (find settles (map (\<lambda>m. Lookup m MessageId (Flags AND CDIAG_MSGRES_RESOLVE_IGNORE_INSERTS = 0) strs n)
                        (places Flags (RegisteredDlls r))))"

text \<open>The last errors are error codes.\<close>

definition lookup_ok :: "lookup_message \<Rightarrow> bool" where
  "lookup_ok Lookup \<longleftrightarrow> (\<forall>m i u s n Err. Lookup m i u s n = Inl Err \<longrightarrow> 0 < sint Err)"

lemma win32_not_too_small:
  assumes "0 < sint Err"
  shows "HRESULT_FROM_WIN32 Err \<noteq> CDIAG_E_BUFFER_TOO_SMALL"
proof
  assume "HRESULT_FROM_WIN32 Err = CDIAG_E_BUFFER_TOO_SMALL"
  with assms have "(Err AND 0xFFFF) OR 0x80070000 = CDIAG_E_BUFFER_TOO_SMALL"
    by (simp add: HRESULT_FROM_WIN32_def)
  then have "bit ((Err AND 0xFFFF) OR 0x80070000) 16 \<longleftrightarrow> bit CDIAG_E_BUFFER_TOO_SMALL 16" by simp
  then show False by (simp add: bit_simps)
qed

lemma format_message:
  assumes "lookup_ok Lookup"
  shows "CdiagsFormatMessage Lookup m MessageId U strs n Buffer = (Hr, Buffer') \<Longrightarrow>
    (case Lookup m MessageId U strs n of
       Inr str \<Rightarrow> Hr = S_OK \<and> Buffer' = str
     | Inl Err \<Rightarrow> Hr \<noteq> S_OK \<and> Buffer' = Buffer \<and> (Hr = CDIAG_E_BUFFER_TOO_SMALL \<longleftrightarrow> too_small Err))"
  using assms win32_not_too_small
  by (fastforce simp: CdiagsFormatMessage_def lookup_ok_def too_small_def HRESULT_FROM_WIN32_0
      split: sum.splits if_splits)

lemma resolve_in_dlls:
  assumes "lookup_ok Lookup"
  shows "case find settles (map (\<lambda>d. Lookup (Some (DllModule d)) MessageId U strs n) ds) of
      Some (Inr str) \<Rightarrow> resolve_in_dlls Lookup MessageId U strs n ds Hr Buffer = (True, S_OK, str)
    | Some (Inl Err) \<Rightarrow> resolve_in_dlls Lookup MessageId U strs n ds Hr Buffer
                        = (False, CDIAG_E_BUFFER_TOO_SMALL, Buffer)
    | None \<Rightarrow> \<exists>Hr'. resolve_in_dlls Lookup MessageId U strs n ds Hr Buffer = (False, Hr', Buffer)
                   \<and> (Hr \<noteq> CDIAG_E_BUFFER_TOO_SMALL \<longrightarrow> Hr' \<noteq> CDIAG_E_BUFFER_TOO_SMALL)"
proof (induction ds arbitrary: Hr)
  case Nil
  then show ?case by simp
next
  case (Cons d ds)
  let ?a = "Lookup (Some (DllModule d)) MessageId U strs n"
  obtain Hr1 B1 where f: "CdiagsFormatMessage Lookup (Some (DllModule d)) MessageId U strs n Buffer = (Hr1, B1)"
    by (cases "CdiagsFormatMessage Lookup (Some (DllModule d)) MessageId U strs n Buffer")
  note F = format_message [OF assms f]
  show ?case
  proof (cases "settles ?a")
    case True
    with F f show ?thesis by (auto simp: settles_def Let_def split: sum.splits)
  next
    case False
    then obtain Err where "?a = Inl Err" "\<not> too_small Err" by (auto simp: settles_def split: sum.splits)
    with F have "Hr1 \<noteq> S_OK" "B1 = Buffer" "Hr1 \<noteq> CDIAG_E_BUFFER_TOO_SMALL" by auto
    with Cons.IH [of Hr1] f False show ?thesis by (auto split: option.splits sum.splits)
  qed
qed

lemma print_nat_length: "n < 16 ^ k \<Longrightarrow> 0 < k \<Longrightarrow> length (print_nat 16 n) \<le> k"
proof (induction k arbitrary: n)
  case (Suc k)
  show ?case
  proof (cases "n < 16")
    case True
    then show ?thesis by (simp add: print_nat.simps)
  next
    case False
    with Suc.prems have "n div 16 < 16 ^ k" "0 < k" by (auto simp: gr0_conv_Suc) (cases k; simp)+
    from Suc.IH [OF this] False show ?thesis by (simp add: print_nat.simps [of 16 n])
  qed
qed simp

lemma print_hex8_length: "length (print_hex8 v) = 10"
proof -
  have "unat v < 2 ^ LENGTH(32)" by (rule unsigned_less)
  then have "length (print_nat 16 (unat v)) \<le> 8" using print_nat_length [of "unat v" 8] by simp
  then show ?thesis by (simp add: print_hex8_def pad_zero_def)
qed

text \<open>
  Newlines become blanks, and the text ends at its last blank, wherever that is: a text that ends
  in a newline loses one blank, one that does not loses its last word.
\<close>

lemma strip_loses_word: "CdiagsStripNewlines (wide ''Access denied'') = wide ''Access''"
  by code_simp

section \<open>Properties\<close>

lemma resolve_after_system:
  assumes "lookup_ok Lookup" and "Hr \<noteq> CDIAG_E_BUFFER_TOO_SMALL"
  shows "(let (Resolved, Hr, Buffer) = resolve_in_dlls Lookup MessageId U strs n (RegisteredDlls r) Hr Buffer
       in if Resolved
          then (S_OK, if Flags AND CDIAG_MSGRES_STRIP_NEWLINES \<noteq> 0 then CdiagsStripNewlines Buffer else Buffer)
          else if Hr = CDIAG_E_BUFFER_TOO_SMALL then (Hr, Buffer)
          else if Flags AND CDIAG_MSGRES_FALLBACK_TO_DEFAULT \<noteq> 0
          then if n \<le> length (print_hex8 MessageId)
               then (CDIAG_E_BUFFER_TOO_SMALL, take (n - 1) (print_hex8 MessageId))
               else (S_OK, print_hex8 MessageId)
          else (CDIAG_E_UNKNOWN_MESSAGE, Buffer)) = settled Flags MessageId n Buffer (find settles (map (\<lambda>d. Lookup (Some (DllModule d)) MessageId U strs n) (RegisteredDlls r)))"
proof -
  let ?find = "find settles (map (\<lambda>d. Lookup (Some (DllModule d)) MessageId U strs n) (RegisteredDlls r))"
  have D: "case find settles (map (\<lambda>d. Lookup (Some (DllModule d)) MessageId U strs n) (RegisteredDlls r)) of
      Some (Inr str) \<Rightarrow> resolve_in_dlls Lookup MessageId U strs n (RegisteredDlls r) Hr Buffer = (True, S_OK, str)
    | Some (Inl Err) \<Rightarrow> resolve_in_dlls Lookup MessageId U strs n (RegisteredDlls r) Hr Buffer
                        = (False, CDIAG_E_BUFFER_TOO_SMALL, Buffer)
    | None \<Rightarrow> \<exists>Hr'. resolve_in_dlls Lookup MessageId U strs n (RegisteredDlls r) Hr Buffer = (False, Hr', Buffer)
                   \<and> (Hr \<noteq> CDIAG_E_BUFFER_TOO_SMALL \<longrightarrow> Hr' \<noteq> CDIAG_E_BUFFER_TOO_SMALL)"
    using resolve_in_dlls [OF assms(1)] .
  show ?thesis
  proof (cases ?find)
    case None
    with D assms(2) show ?thesis by (auto simp: print_hex8_length settled_def)
  next
    case (Some a)
    with D show ?thesis by (cases a) (simp_all add: settled_def)
  qed
qed

text \<open>
  C29: the order of resolution. The system is asked first, unless it is excluded, then the
  registered DLLs in the order of their registration; the first that knows the message, or knows
  it but finds the buffer too small, settles the result, and the others are not asked. Without
  an answer the fallback is the code in hexadecimal when it was asked for and fits.
\<close>

theorem message_resolution_order:
  assumes "lookup_ok Lookup" "Flags AND NOT CDIAGP_RESOLVER_ALL_FLAGS = 0" "0 < n" "n \<le> MAX_MESSAGE_CCH"
  shows "CdiagsResolveMessage Lookup (Some r) MessageId Flags strs n Buffer =
           resolved Lookup r MessageId Flags strs n Buffer"
proof -
  let ?U = "Flags AND CDIAG_MSGRES_RESOLVE_IGNORE_INSERTS = 0"
  let ?a = "Lookup None MessageId ?U strs n"
  obtain Hr1 B1 where f: "CdiagsFormatMessage Lookup None MessageId ?U strs n Buffer = (Hr1, B1)"
    by (cases "CdiagsFormatMessage Lookup None MessageId ?U strs n Buffer")
  note F = format_message [OF assms(1) f]
  have valid: "\<not> (Flags AND NOT CDIAGP_RESOLVER_ALL_FLAGS \<noteq> 0 \<or> n = 0 \<or> MAX_MESSAGE_CCH < n)"
    using assms by simp
  note R = CdiagsResolveMessage_def option.case if_not_P [OF valid]
  note tail = resolve_after_system [OF assms(1), of _ MessageId ?U strs n r _ Flags]
  show ?thesis
  proof (cases "Flags AND CDIAG_MSGRES_NO_SYSTEM = 0")
    case False
    with tail [of S_OK] show ?thesis
      unfolding R resolved_def places_def by (simp add: comp_def)
  next
    case True
    show ?thesis
    proof (cases "settles ?a")
      case settled: True
      with True F f show ?thesis
        unfolding R resolved_def places_def settled_def
        by (cases ?a) (simp_all add: settles_def)
    next
      case False
      then obtain Err where "?a = Inl Err" "\<not> too_small Err" by (auto simp: settles_def split: sum.splits)
      with F have h: "Hr1 \<noteq> S_OK" "B1 = Buffer" "Hr1 \<noteq> CDIAG_E_BUFFER_TOO_SMALL" by auto
      with tail [OF h(3)] True False f show ?thesis
        unfolding R resolved_def places_def by (simp add: comp_def)
    qed
  qed
qed

definition demo_lookup :: lookup_message where
  "demo_lookup m i u s n = (if m = Some 7 then Inr (wide ''found'') else Inl 317)"

theorem message_resolution_order_witness:
  "CdiagsResolveMessage demo_lookup
     (Some \<lparr>ResolverReferenceCount = 1, RegisteredDlls = [\<lparr>DllName = wide ''a.dll'', DllModule = 3\<rparr>,
        \<lparr>DllName = wide ''b.dll'', DllModule = 7\<rparr>]\<rparr>) 5 0 None 100 [] = (S_OK, wide ''found'')"
proof -
  have "lookup_ok demo_lookup" by (simp add: lookup_ok_def demo_lookup_def)
  from message_resolution_order [OF this, of 0 100] show ?thesis
    by (simp add: resolved_def settled_def places_def demo_lookup_def settles_def too_small_def)
qed

text \<open>
  The accounts of the resolver. In every history of registrations and unregistrations,
  failed ones included, each module is loaded as often as it is registered and there is a block
  for each entry; when the last reference is gone, all are given back.
\<close>

lemma resolver_accounts_exact:
  assumes "resolver_reachable w"
  shows "LoadCount w = loads_of (registered w) \<and> DllBlocks w = int (length (registered w))
     \<and> (TheResolver w = None \<longrightarrow> (\<forall>m. LoadCount w m = 0))"
  using resolver_reachable_inv [OF assms] by (auto simp: resolver_inv_def registered_def)

end
