(* ===== verification/FileSearch.thy ===== *)
theory FileSearch
  imports ExecIface
begin

text \<open>
  The search for test modules: \<open>cfix/cfixutil/search.c\<close> walks a directory and tells a visitor
  of every file, and \<open>cfix/cfixrun/dllsearch.c\<close> is the visitor that hands the DLLs and drivers
  among them to a callback.

  The file system is a record of the functions of the system: \<open>FileAttributes\<close> is
  \<open>GetFileAttributes\<close>, \<open>FullPathName\<close> gives the full path and the position of its file part,
  \<open>PathCombine\<close> fails for paths that do not fit into \<open>MAX_PATH\<close> characters, and \<open>FindFiles\<close> is
  what \<open>FindFirstFile\<close> and \<open>FindNextFile\<close> find for an expression. Errors of the system are on
  the left. \<open>None\<close> is a callback that does not return, or the use of a path buffer that has not
  been filled. The nesting of directories is bounded by fuel; since every directory has a longer
  path than the one it is in, \<open>MAX_PATH\<close> levels are enough (\<open>more_fuel_changes_nothing\<close>).
\<close>

abbreviation MAX_PATH :: nat where "MAX_PATH \<equiv> 260"
abbreviation E_ACCESSDENIED :: hresult where "E_ACCESSDENIED \<equiv> 0x80070005"
abbreviation ERROR_FILE_NOT_FOUND :: dword where "ERROR_FILE_NOT_FOUND \<equiv> 2"
abbreviation ERROR_ACCESS_DENIED :: dword where "ERROR_ACCESS_DENIED \<equiv> 5"
abbreviation ERROR_NO_MORE_FILES :: dword where "ERROR_NO_MORE_FILES \<equiv> 18"
abbreviation FILE_ATTRIBUTE_DIRECTORY :: dword where "FILE_ATTRIBUTE_DIRECTORY \<equiv> 0x10"
abbreviation FILE_ATTRIBUTE_REPARSE_POINT :: dword where "FILE_ATTRIBUTE_REPARSE_POINT \<equiv> 0x400"

record find_data =
  FileName :: wstring
  FileAttribs :: dword

record file_system =
  FileAttributes :: "wstring \<Rightarrow> dword option"
  FullPathName :: "wstring \<Rightarrow> dword + (wstring \<times> nat option)"
  CurrentDirectory :: "dword + wstring"
  PathCombine :: "wstring \<Rightarrow> wstring \<Rightarrow> wstring option"
  FindFiles :: "wstring \<Rightarrow> dword + find_data list"

datatype visit_type = CfixutilEnterDirectory | CfixutilLeaveDirectory | CfixutilFile

type_synonym 'w visitor = "wstring \<Rightarrow> visit_type \<Rightarrow> bool \<Rightarrow> 'w \<Rightarrow> (hresult \<times> 'w) option"

section \<open>Walking a directory\<close>

text \<open>\<open>Sub\<close> walks a directory inside this one; \<open>Hr\<close> is the result so far.\<close>

definition visit_entry ::
    "(wstring \<Rightarrow> 'w \<Rightarrow> (hresult \<times> 'w) option) \<Rightarrow> file_system \<Rightarrow> wstring \<Rightarrow> bool \<Rightarrow> 'w visitor \<Rightarrow>
       find_data \<Rightarrow> hresult \<Rightarrow> 'w \<Rightarrow> (hresult \<times> 'w) option" where
  "visit_entry Sub fs PathBuffer Recursive Routine FindData Hr w =
     (if FileName FindData = wide ''.'' \<or> FileName FindData = wide ''..'' then Some (Hr, w)
      else
        let FilePath = PathCombine fs PathBuffer (FileName FindData);
            Hr = (if FilePath = None then E_UNEXPECTED else Hr)
        in if FILE_ATTRIBUTE_REPARSE_POINT AND FileAttribs FindData \<noteq> 0 then Some (Hr, w)
           else if FILE_ATTRIBUTE_DIRECTORY AND FileAttribs FindData \<noteq> 0
           then (if \<not> Recursive then Some (Hr, w)
                 else do {
                   FilePath \<leftarrow> FilePath;
                   (Hr, w) \<leftarrow> Sub FilePath w;
                   Some (if Hr = E_ACCESSDENIED then S_OK else Hr, w)
                 })
           else do { FilePath \<leftarrow> FilePath; Routine FilePath CfixutilFile True w })"

fun visit_entries ::
    "(wstring \<Rightarrow> 'w \<Rightarrow> (hresult \<times> 'w) option) \<Rightarrow> file_system \<Rightarrow> wstring \<Rightarrow> bool \<Rightarrow> 'w visitor \<Rightarrow>
       find_data list \<Rightarrow> hresult \<Rightarrow> 'w \<Rightarrow> (hresult \<times> 'w) option" where
  "visit_entries Sub fs PathBuffer Recursive Routine [] Hr w = Some (Hr, w)"
| "visit_entries Sub fs PathBuffer Recursive Routine (f # rest) Hr w =
     do {
       (Hr, w) \<leftarrow> visit_entry Sub fs PathBuffer Recursive Routine f Hr w;
       if FAILED Hr then Some (Hr, w)
       else visit_entries Sub fs PathBuffer Recursive Routine rest Hr w
     }"

text \<open>
  The directory to walk and the expression to look for. The buffers have \<open>MAX_PATH\<close> characters;
  a longer path is only announced by the length returned, which is not looked at.
\<close>

definition path_and_filter ::
    "file_system \<Rightarrow> wstring \<Rightarrow> bool \<Rightarrow> (hresult + (wstring \<times> wstring)) option" where
  "path_and_filter fs PathExpression PathIsFilter =
     (if PathIsFilter then
        (if 0x5C \<in> set PathExpression
         then (case FullPathName fs PathExpression of
                 Inl Err \<Rightarrow> Some (Inl (HRESULT_FROM_WIN32 Err))
               | Inr (p, FilePart) \<Rightarrow>
                   (if MAX_PATH \<le> length p then None
                    else do { n \<leftarrow> FilePart; Some (Inr (take n p, PathExpression)) }))
         else (case CurrentDirectory fs of
                 Inl Err \<Rightarrow> Some (Inl (HRESULT_FROM_WIN32 Err))
               | Inr p \<Rightarrow>
                   (if MAX_PATH \<le> length p then None else Some (Inr (p, PathExpression)))))
      else (case FullPathName fs PathExpression of
              Inl Err \<Rightarrow> Some (Inl (HRESULT_FROM_WIN32 Err))
            | Inr (p, _) \<Rightarrow>
                (if MAX_PATH \<le> length p then None
                 else case PathCombine fs p (wide ''*.*'') of
                   None \<Rightarrow> Some (Inl E_UNEXPECTED)
                 | Some Filter \<Rightarrow> Some (Inr (p, Filter)))))"

definition walk_directory ::
    "(wstring \<Rightarrow> 'w \<Rightarrow> (hresult \<times> 'w) option) \<Rightarrow> file_system \<Rightarrow> wstring \<Rightarrow> wstring \<Rightarrow> bool \<Rightarrow>
       'w visitor \<Rightarrow> 'w \<Rightarrow> (hresult \<times> 'w) option" where
  "walk_directory Sub fs PathBuffer Filter Recursive Routine w =
     (case FindFiles fs Filter of
        Inl Err \<Rightarrow> Some (if Err = ERROR_NO_MORE_FILES then S_OK else HRESULT_FROM_WIN32 Err, w)
      | Inr Found \<Rightarrow>
          do {
            (Hr, w) \<leftarrow> Routine PathBuffer CfixutilEnterDirectory True w;
            if FAILED Hr then Some (Hr, w)
            else do {
              (Hr, w) \<leftarrow> visit_entries Sub fs PathBuffer Recursive Routine Found Hr w;
              (Hr2, w) \<leftarrow> Routine PathBuffer CfixutilLeaveDirectory True w;
              Some (if SUCCEEDED Hr \<and> FAILED Hr2 then Hr2 else Hr, w)
            }
          })"

fun CfixutilsTraverseDirectory ::
    "nat \<Rightarrow> file_system \<Rightarrow> wstring \<Rightarrow> bool \<Rightarrow> bool \<Rightarrow> 'w visitor \<Rightarrow> 'w \<Rightarrow> (hresult \<times> 'w) option" where
  "CfixutilsTraverseDirectory 0 fs PathExpression PathIsFilter Recursive Routine w = None"
| "CfixutilsTraverseDirectory (Suc n) fs PathExpression PathIsFilter Recursive Routine w =
     do {
       r \<leftarrow> path_and_filter fs PathExpression PathIsFilter;
       (case r of
          Inl Hr \<Rightarrow> Some (Hr, w)
        | Inr (PathBuffer, Filter) \<Rightarrow>
            walk_directory
              (\<lambda>FilePath. CfixutilsTraverseDirectory n fs FilePath False Recursive Routine)
              fs PathBuffer Filter Recursive Routine w)
     }"

definition CfixutilSearch ::
    "nat \<Rightarrow> file_system \<Rightarrow> wstring option \<Rightarrow> bool \<Rightarrow> 'w visitor option \<Rightarrow> 'w \<Rightarrow>
       (hresult \<times> 'w) option" where
  "CfixutilSearch n fs Path Recursive Routine w =
     (case (Path, Routine) of
        (Some Path, Some Routine) \<Rightarrow>
          (case FileAttributes fs Path of
             None \<Rightarrow>
               (if 0x2A \<in> set Path \<or> 0x3F \<in> set Path
                then CfixutilsTraverseDirectory n fs Path True Recursive Routine w
                else Some (HRESULT_FROM_WIN32 ERROR_FILE_NOT_FOUND, w))
           | Some Attr \<Rightarrow>
               (if FILE_ATTRIBUTE_DIRECTORY AND Attr \<noteq> 0
                then CfixutilsTraverseDirectory n fs Path False Recursive Routine w
                else Routine Path CfixutilFile False w))
      | _ \<Rightarrow> Some (E_INVALIDARG, w))"

section \<open>Modules among the files\<close>

datatype module_type = CfixrunDll | CfixrunSys

type_synonym 'w module_routine = "wstring \<Rightarrow> module_type \<Rightarrow> bool \<Rightarrow> 'w \<Rightarrow> (hresult \<times> 'w) option"

definition has_extension :: "wstring \<Rightarrow> wstring \<Rightarrow> bool" where
  "has_extension Path Ext \<longleftrightarrow> 4 < length Path \<and> wcsicmp_eq (drop (length Path - 4) Path) Ext"

definition CfixrunpIsDll :: "wstring \<Rightarrow> bool" where
  "CfixrunpIsDll Path \<longleftrightarrow> has_extension Path (wide ''.dll'')"

definition CfixrunpIsSys :: "wstring \<Rightarrow> bool" where
  "CfixrunpIsSys Path \<longleftrightarrow> has_extension Path (wide ''.sys'')"

definition CfixrunpIsExe :: "wstring \<Rightarrow> bool" where
  "CfixrunpIsExe Path \<longleftrightarrow> has_extension Path (wide ''.exe'')"

definition CfixrunsVisit :: "'w module_routine \<Rightarrow> bool \<Rightarrow> 'w visitor" where
  "CfixrunsVisit Callback IncludeDrivers Path Type SearchPerformed w =
     (if Type \<noteq> CfixutilFile then Some (S_OK, w)
      else if CfixrunpIsDll Path then Callback Path CfixrunDll SearchPerformed w
      else if IncludeDrivers \<and> CfixrunpIsSys Path then Callback Path CfixrunSys SearchPerformed w
      else Some (S_OK, w))"

definition CfixrunSearchModules ::
    "nat \<Rightarrow> file_system \<Rightarrow> wstring option \<Rightarrow> bool \<Rightarrow> bool \<Rightarrow> 'w module_routine option \<Rightarrow> 'w \<Rightarrow>
       (hresult \<times> 'w) option" where
  "CfixrunSearchModules n fs Path Recursive IncludeDrivers Routine w =
     (case (Path, Routine) of
        (Some _, Some Routine) \<Rightarrow>
          CfixutilSearch n fs Path Recursive (Some (CfixrunsVisit Routine IncludeDrivers)) w
      | _ \<Rightarrow> Some (E_INVALIDARG, w))"

end
