(* ===== verification/FileSearchInv.thy ===== *)
theory FileSearchInv
  imports FileSearch SequenceAction
begin

text \<open>
  The search against a tree: \<open>tree_at\<close> says that the file system has a given tree below a
  directory, and the property states which modules are visited, in which order. The fuel of the
  walk is shown to be irrelevant beyond \<open>MAX_PATH\<close>.
\<close>

section \<open>Fuel\<close>

text \<open>
  A file found in a directory has, after expansion to a full path, a longer path than the
  directory.
\<close>

definition is_dots :: "find_data \<Rightarrow> bool" where
  "is_dots f \<longleftrightarrow> FileName f = wide ''.'' \<or> FileName f = wide ''..''"

definition paths_grow :: "file_system \<Rightarrow> bool" where
  "paths_grow fs \<longleftrightarrow> (\<forall>e Found f d p q i. FindFiles fs e = Inr Found \<longrightarrow> f \<in> set Found \<longrightarrow>
     \<not> is_dots f \<longrightarrow> PathCombine fs d (FileName f) = Some p \<longrightarrow> FullPathName fs p = Inr (q, i) \<longrightarrow>
     length d < length q)"

lemma visit_entry_cong:
  assumes "\<And>p. \<not> is_dots f \<Longrightarrow> PathCombine fs d (FileName f) = Some p \<Longrightarrow> Sub p = Sub' p"
  shows "visit_entry Sub fs d rec R f = visit_entry Sub' fs d rec R f"
  using assms
  by (intro ext, cases "PathCombine fs d (FileName f)")
    (auto simp: visit_entry_def is_dots_def Let_def)

lemma visit_entries_cong:
  assumes "\<And>f p. f \<in> set Found \<Longrightarrow> \<not> is_dots f \<Longrightarrow> PathCombine fs d (FileName f) = Some p \<Longrightarrow>
             Sub p = Sub' p"
  shows "visit_entries Sub fs d rec R Found = visit_entries Sub' fs d rec R Found"
  using assms
proof (induction Found)
  case (Cons f Found)
  have f: "visit_entry Sub fs d rec R f = visit_entry Sub' fs d rec R f"
    by (rule visit_entry_cong) (rule Cons.prems [of f], simp_all)
  have "visit_entries Sub fs d rec R Found = visit_entries Sub' fs d rec R Found"
    by (rule Cons.IH) (rule Cons.prems, simp_all)
  with f show ?case by (intro ext) (simp cong: if_cong)
qed (simp add: fun_eq_iff)

lemma walk_cong:
  assumes "\<And>Found f p. FindFiles fs e = Inr Found \<Longrightarrow> f \<in> set Found \<Longrightarrow> \<not> is_dots f \<Longrightarrow>
             PathCombine fs d (FileName f) = Some p \<Longrightarrow> Sub p = Sub' p"
  shows "walk_directory Sub fs d e rec R w = walk_directory Sub' fs d e rec R w"
proof (cases "FindFiles fs e")
  case (Inr Found)
  with assms have "visit_entries Sub fs d rec R Found = visit_entries Sub' fs d rec R Found"
    by (intro visit_entries_cong) blast
  with Inr show ?thesis by (simp add: walk_directory_def cong: if_cong)
qed (simp add: walk_directory_def)

lemma path_and_filter_full:
  "path_and_filter fs p False = Some (Inr (d, e)) \<Longrightarrow> \<exists>i. FullPathName fs p = Inr (d, i) \<and> length d < MAX_PATH"
  by (auto simp: path_and_filter_def split: sum.splits if_splits option.splits)

lemma more_fuel_below:
  assumes "paths_grow fs"
  shows "\<forall>q i. FullPathName fs p = Inr (q, i) \<longrightarrow> MAX_PATH < n + length q \<and> MAX_PATH < m + length q \<Longrightarrow>
      0 < n \<Longrightarrow> 0 < m \<Longrightarrow>
      CfixutilsTraverseDirectory n fs p False rec R w = CfixutilsTraverseDirectory m fs p False rec R w"
proof (induction n arbitrary: m p w)
  case (Suc n)
  then obtain m' where m: "m = Suc m'" by (cases m) auto
  show ?case
  proof (cases "path_and_filter fs p False")
    case (Some r)
    show ?thesis
    proof (cases r)
      case (Inr de)
      obtain d e where de: "de = (d, e)" by (cases de)
      from path_and_filter_full [of fs p d e] Some Inr de obtain i where
        d: "FullPathName fs p = Inr (d, i)" "length d < MAX_PATH" by auto
      have "CfixutilsTraverseDirectory n fs q False rec R = CfixutilsTraverseDirectory m' fs q False rec R"
        if "FindFiles fs e = Inr Found" "f \<in> set Found" "\<not> is_dots f"
          "PathCombine fs d (FileName f) = Some q" for Found f q
      proof
        fix w
        have "length d < length q'" if "FullPathName fs q = Inr (q', i)" for q' i
          using assms that \<open>FindFiles fs e = Inr Found\<close> \<open>f \<in> set Found\<close> \<open>\<not> is_dots f\<close>
            \<open>PathCombine fs d (FileName f) = Some q\<close> unfolding paths_grow_def by blast
        then have grown: "\<forall>q' i. FullPathName fs q = Inr (q', i) \<longrightarrow>
            MAX_PATH < n + length q' \<and> MAX_PATH < m' + length q'"
          using Suc.prems(1) d m by fastforce
        have "0 < n" "0 < m'" using Suc.prems(1) d m by auto
        from Suc.IH [OF grown this] show "CfixutilsTraverseDirectory n fs q False rec R w =
            CfixutilsTraverseDirectory m' fs q False rec R w" .
      qed
      then have "walk_directory (\<lambda>q. CfixutilsTraverseDirectory n fs q False rec R) fs d e rec R w =
          walk_directory (\<lambda>q. CfixutilsTraverseDirectory m' fs q False rec R) fs d e rec R w"
        by (rule walk_cong)
      then show ?thesis using Some Inr de m by simp
    qed (use Some m in simp)
  qed (use m in simp)
qed simp

lemma more_fuel_changes_nothing:
  assumes "paths_grow fs" and "MAX_PATH + 2 \<le> n" and "MAX_PATH + 2 \<le> m"
  shows "CfixutilsTraverseDirectory n fs p flt rec R w = CfixutilsTraverseDirectory m fs p flt rec R w"
proof -
  obtain n' m' where nm: "n = Suc n'" "m = Suc m'" "MAX_PATH < n'" "MAX_PATH < m'"
    using assms(2,3) by (cases n; cases m) auto
  then have "CfixutilsTraverseDirectory n' fs q False rec R = CfixutilsTraverseDirectory m' fs q False rec R" for q
    by (intro ext, intro more_fuel_below [OF assms(1)]) auto
  with nm show ?thesis by simp
qed

section \<open>Trees\<close>

text \<open>A node has the full path under which it is found. \<open>Denied\<close> is a directory without access.\<close>

datatype node =
    Plain (node_path: wstring)
  | Link (node_path: wstring)
  | Denied (node_path: wstring)
  | Folder (node_path: wstring) "node list"

fun node_attributes :: "node \<Rightarrow> dword \<Rightarrow> bool" where
  "node_attributes (Plain _) a \<longleftrightarrow>
     FILE_ATTRIBUTE_REPARSE_POINT AND a = 0 \<and> FILE_ATTRIBUTE_DIRECTORY AND a = 0"
| "node_attributes (Link _) a \<longleftrightarrow> FILE_ATTRIBUTE_REPARSE_POINT AND a \<noteq> 0"
| "node_attributes _ a \<longleftrightarrow>
     FILE_ATTRIBUTE_REPARSE_POINT AND a = 0 \<and> FILE_ATTRIBUTE_DIRECTORY AND a \<noteq> 0"

definition entry_shows :: "file_system \<Rightarrow> wstring \<Rightarrow> find_data \<Rightarrow> node \<Rightarrow> bool" where
  "entry_shows fs d f n \<longleftrightarrow>
     PathCombine fs d (FileName f) = Some (node_path n) \<and> node_attributes n (FileAttribs f)"

definition listing :: "file_system \<Rightarrow> wstring \<Rightarrow> dword + find_data list \<Rightarrow> bool" where
  "listing fs p r \<longleftrightarrow> (\<exists>e. path_and_filter fs p False = Some (Inr (p, e)) \<and> FindFiles fs e = r)"

fun tree_at :: "file_system \<Rightarrow> node \<Rightarrow> bool" where
  "tree_at fs (Plain p) \<longleftrightarrow> True"
| "tree_at fs (Link p) \<longleftrightarrow> True"
| "tree_at fs (Denied p) \<longleftrightarrow> listing fs p (Inl ERROR_ACCESS_DENIED)"
| "tree_at fs (Folder p ns) \<longleftrightarrow>
     (\<exists>Found. listing fs p (Inr Found)
        \<and> list_all2 (entry_shows fs p) (filter (\<lambda>f. \<not> is_dots f) Found) ns)
     \<and> (\<forall>n \<in> set ns. tree_at fs n)"

fun files_of :: "node \<Rightarrow> wstring list" where
  "files_of (Plain p) = [p]"
| "files_of (Link p) = []"
| "files_of (Denied p) = []"
| "files_of (Folder p ns) = concat (map files_of ns)"

text \<open>The files that are found in a directory; without recursion only its own.\<close>

definition files_in :: "bool \<Rightarrow> node list \<Rightarrow> wstring list" where
  "files_in Recursive ns =
     concat (map files_of (if Recursive then ns else filter is_Plain ns))"

definition modules_in :: "bool \<Rightarrow> wstring list \<Rightarrow> (wstring \<times> module_type) list" where
  "modules_in IncludeDrivers ps =
     List.map_filter (\<lambda>p. if CfixrunpIsDll p then Some (p, CfixrunDll)
        else if IncludeDrivers \<and> CfixrunpIsSys p then Some (p, CfixrunSys) else None) ps"

fun visit_modules ::
    "'w module_routine \<Rightarrow> (wstring \<times> module_type) list \<Rightarrow> 'w \<Rightarrow> (hresult \<times> 'w) option" where
  "visit_modules cb [] w = Some (S_OK, w)"
| "visit_modules cb ((p, ty) # ms) w =
     do { (Hr, w) \<leftarrow> cb p ty True w; if FAILED Hr then Some (Hr, w) else visit_modules cb ms w }"

lemma visit_modules_append:
  "visit_modules cb (ms @ ms') w =
     do { (Hr, w) \<leftarrow> visit_modules cb ms w; if FAILED Hr then Some (Hr, w) else visit_modules cb ms' w }"
proof (induction ms arbitrary: w)
  case (Cons m ms)
  obtain p ty where "m = (p, ty)" by (cases m)
  with Cons show ?case by (cases "cb p ty True w") (auto split: prod.split)
qed simp

definition never_denied :: "'w module_routine \<Rightarrow> bool" where
  "never_denied cb \<longleftrightarrow> (\<forall>p ty w Hr w'. cb p ty True w = Some (Hr, w') \<longrightarrow> Hr \<noteq> E_ACCESSDENIED)"

lemma visit_modules_result:
  assumes "never_denied cb"
  shows "visit_modules cb ms w = Some (Hr, w') \<Longrightarrow> (FAILED Hr \<or> Hr = S_OK) \<and> Hr \<noteq> E_ACCESSDENIED"
proof (induction ms arbitrary: w)
  case (Cons m ms)
  obtain p ty where m: "m = (p, ty)" by (cases m)
  with Cons.prems obtain h w1 where h: "cb p ty True w = Some (h, w1)"
    and rest: "if FAILED h then (Hr, w') = (h, w1) else visit_modules cb ms w1 = Some (Hr, w')"
    by (auto simp: bind_Some_iff split: if_splits)
  from h assms have "h \<noteq> E_ACCESSDENIED" unfolding never_denied_def by blast
  with rest Cons.IH show ?case by (cases "FAILED h") auto
qed auto

lemma modules_in_simps [simp]:
  "modules_in inc [] = []"
  "modules_in inc (ps @ qs) = modules_in inc ps @ modules_in inc qs"
  by (simp_all add: modules_in_def List.map_filter_def)

lemma visit_file:
  "map_option success_ok (CfixrunsVisit cb inc p CfixutilFile True w) =
     visit_modules cb (modules_in inc [p]) w"
  by (auto simp: CfixrunsVisit_def modules_in_def List.map_filter_def success_ok_def
      split: Option.bind_splits)

text \<open>An entry of a directory is visited as the files below its node are.\<close>

lemma visit_entry_node:
  assumes "\<not> is_dots f" and "entry_shows fs d f n" and "SUCCEEDED Hr"
    and "never_denied cb"
    and "\<And>p ns w. rec \<Longrightarrow> n = Folder p ns \<Longrightarrow> map_option success_ok (Sub p w) =
           visit_modules cb (modules_in inc (files_of n)) w"
    and "\<And>p w. n = Denied p \<Longrightarrow> Sub p w = Some (E_ACCESSDENIED, w)"
  shows "map_option success_ok (visit_entry Sub fs d rec (CfixrunsVisit cb inc) f Hr w) =
         visit_modules cb (modules_in inc (files_in rec [n])) w"
proof (cases n)
  case (Plain p)
  with assms(1,2) show ?thesis
    by (simp add: visit_entry_def entry_shows_def is_dots_def files_in_def visit_file Let_def)
next
  case (Link p)
  with assms(1-3) show ?thesis
    by (simp add: visit_entry_def entry_shows_def is_dots_def files_in_def Let_def)
next
  case (Denied p)
  with assms(1-3,6) show ?thesis
    by (simp add: visit_entry_def entry_shows_def is_dots_def files_in_def Let_def)
next
  case (Folder p ns)
  show ?thesis
  proof (cases rec)
    case True
    let ?v = "visit_modules cb (modules_in inc (files_of n)) w"
    have e: "visit_entry Sub fs d rec (CfixrunsVisit cb inc) f Hr w =
        do { (Hr, w) \<leftarrow> Sub p w; Some (if Hr = E_ACCESSDENIED then S_OK else Hr, w) }"
      using assms(1,2) Folder True by (simp add: visit_entry_def entry_shows_def is_dots_def Let_def)
    note sub = assms(5) [OF True Folder, of w]
    show ?thesis
    proof (cases "Sub p w")
      case None
      with e sub True show ?thesis by (simp add: files_in_def)
    next
      case (Some r)
      obtain h w1 where r: "r = (h, w1)" by (cases r)
      with sub Some have v: "?v = Some (success_ok (h, w1))" by simp
      have "h \<noteq> E_ACCESSDENIED"
      proof
        assume "h = E_ACCESSDENIED"
        with v have "?v = Some (E_ACCESSDENIED, w1)" by simp
        with visit_modules_result [OF assms(4)] show False by blast
      qed
      with e v Some r True show ?thesis by (simp add: files_in_def)
    qed
  next
    case False
    with Folder assms(1-3) show ?thesis
      by (simp add: visit_entry_def entry_shows_def is_dots_def files_in_def Let_def)
  qed
qed

lemma files_in_Cons: "files_in rec (n # ns) = files_in rec [n] @ files_in rec ns"
  by (simp add: files_in_def)

lemma visit_entries_nodes:
  assumes "never_denied cb"
    and "\<And>n p ns' w. n \<in> set ns \<Longrightarrow> rec \<Longrightarrow> n = Folder p ns' \<Longrightarrow>
           map_option success_ok (Sub p w) = visit_modules cb (modules_in inc (files_of n)) w"
    and "\<And>p w. Denied p \<in> set ns \<Longrightarrow> Sub p w = Some (E_ACCESSDENIED, w)"
    and "list_all2 (entry_shows fs d) (filter (\<lambda>f. \<not> is_dots f) Found) ns" and "SUCCEEDED Hr"
  shows "map_option success_ok (visit_entries Sub fs d rec (CfixrunsVisit cb inc) Found Hr w) =
         visit_modules cb (modules_in inc (files_in rec ns)) w"
  using assms(2-)
proof (induction Found arbitrary: ns Hr w)
  case Nil
  then show ?case by (simp add: files_in_def)
next
  case (Cons f Found)
  show ?case
  proof (cases "is_dots f")
    case True
    then have "visit_entry Sub fs d rec (CfixrunsVisit cb inc) f Hr w = Some (Hr, w)"
      by (simp add: visit_entry_def is_dots_def)
    moreover have "map_option success_ok (visit_entries Sub fs d rec (CfixrunsVisit cb inc) Found Hr w) =
        visit_modules cb (modules_in inc (files_in rec ns)) w"
      by (rule Cons.IH) (use Cons.prems True in auto)
    ultimately show ?thesis using Cons.prems(4) by simp
  next
    case False
    with Cons.prems(3) obtain n ns' where ns: "ns = n # ns'" and f: "entry_shows fs d f n"
      and rest: "list_all2 (entry_shows fs d) (filter (\<lambda>f. \<not> is_dots f) Found) ns'"
      by (auto simp: list_all2_Cons1)
    have e: "map_option success_ok (visit_entry Sub fs d rec (CfixrunsVisit cb inc) f Hr w) =
        visit_modules cb (modules_in inc (files_in rec [n])) w"
      by (rule visit_entry_node [OF False f Cons.prems(4) assms(1)]) (use Cons.prems ns in auto)
    have go: "map_option success_ok (visit_entries Sub fs d rec (CfixrunsVisit cb inc) Found h w) =
        visit_modules cb (modules_in inc (files_in rec ns')) w" if "SUCCEEDED h" for h w
      by (rule Cons.IH [OF _ _ rest that]) (use Cons.prems(1,2) ns in auto)
    have split: "modules_in inc (files_in rec ns) =
        modules_in inc (files_in rec [n]) @ modules_in inc (files_in rec ns')"
      unfolding ns by (subst files_in_Cons) simp
    show ?thesis
    proof (cases "visit_entry Sub fs d rec (CfixrunsVisit cb inc) f Hr w")
      case None
      with e show ?thesis by (simp add: split visit_modules_append)
    next
      case (Some r)
      obtain h w1 where r: "r = (h, w1)" by (cases r)
      with Some e have "visit_modules cb (modules_in inc (files_in rec [n])) w = Some (success_ok (h, w1))"
        by simp
      with Some r go show ?thesis
        by (cases "FAILED h") (simp_all add: split visit_modules_append)
    qed
  qed
qed

lemma visit_other [simp]:
  "CfixrunsVisit cb inc p CfixutilEnterDirectory b w = Some (S_OK, w)"
  "CfixrunsVisit cb inc p CfixutilLeaveDirectory b w = Some (S_OK, w)"
  by (simp_all add: CfixrunsVisit_def)

lemma walk_found:
  assumes "FindFiles fs e = Inr Found"
  shows "walk_directory Sub fs d e rec (CfixrunsVisit cb inc) w =
         visit_entries Sub fs d rec (CfixrunsVisit cb inc) Found S_OK w"
  using assms
  by (cases "visit_entries Sub fs d rec (CfixrunsVisit cb inc) Found S_OK w")
    (auto simp: walk_directory_def)

lemma traverse_denied:
  "listing fs p (Inl ERROR_ACCESS_DENIED) \<Longrightarrow>
     CfixutilsTraverseDirectory (Suc n) fs p False rec R w = Some (E_ACCESSDENIED, w)"
  by (auto simp: listing_def walk_directory_def HRESULT_FROM_WIN32_def)

lemma size_below: "m \<in> set ns \<Longrightarrow> Suc (size m) \<le> size_list size ns"
  by (induction ns) auto

lemma traverse_folder:
  assumes "never_denied cb"
  shows "tree_at fs (Folder p ns) \<Longrightarrow> size (Folder p ns) \<le> n \<Longrightarrow>
     map_option success_ok (CfixutilsTraverseDirectory n fs p False rec (CfixrunsVisit cb inc) w) =
     visit_modules cb (modules_in inc (files_in rec ns)) w"
proof (induction n arbitrary: p ns w)
  case (Suc n)
  from Suc.prems(1) obtain e Found where l: "path_and_filter fs p False = Some (Inr (p, e))"
      "FindFiles fs e = Inr Found"
    and ns: "list_all2 (entry_shows fs p) (filter (\<lambda>f. \<not> is_dots f) Found) ns"
    and below: "\<forall>n \<in> set ns. tree_at fs n"
    by (auto simp: listing_def)
  have sz: "size m < n" if "m \<in> set ns" for m
    using Suc.prems(2) size_below [OF that] by simp
  let ?sub = "\<lambda>q. CfixutilsTraverseDirectory n fs q False rec (CfixrunsVisit cb inc)"
  have "map_option success_ok (visit_entries ?sub fs p rec (CfixrunsVisit cb inc) Found S_OK w) =
      visit_modules cb (modules_in inc (files_in rec ns)) w"
  proof (rule visit_entries_nodes [OF assms _ _ ns])
    fix m q ns' w
    assume m: "m \<in> set ns" "rec" "m = Folder q ns'"
    then have "map_option success_ok (?sub q w) = visit_modules cb (modules_in inc (files_in rec ns')) w"
      using below sz [OF m(1)] by (intro Suc.IH) auto
    with m show "map_option success_ok (?sub q w) = visit_modules cb (modules_in inc (files_of m)) w"
      by (simp add: files_in_def)
  next
    fix q w
    assume q: "Denied q \<in> set ns"
    then have "listing fs q (Inl ERROR_ACCESS_DENIED)" using below by auto
    moreover obtain n' where "n = Suc n'" using sz [OF q] by (cases n) auto
    ultimately show "?sub q w = Some (E_ACCESSDENIED, w)" by (simp only: traverse_denied)
  qed simp
  with l show ?case by (simp add: walk_found)
qed simp

text \<open>The whole search, from a directory with the tree \<open>ns\<close> below it.\<close>

lemma search_visits:
  assumes "FileAttributes fs p = Some a" and "FILE_ATTRIBUTE_DIRECTORY AND a \<noteq> 0"
    and "tree_at fs (Folder p ns)" and "paths_grow fs" and "MAX_PATH + 2 \<le> n" and "never_denied cb"
  shows "map_option success_ok (CfixrunSearchModules n fs (Some p) rec inc (Some cb) w) =
         visit_modules cb (modules_in inc (files_in rec ns)) w"
proof -
  have "CfixutilsTraverseDirectory n fs p False rec (CfixrunsVisit cb inc) w =
      CfixutilsTraverseDirectory (n + size (Folder p ns)) fs p False rec (CfixrunsVisit cb inc) w"
    using assms(5) by (intro more_fuel_changes_nothing [OF assms(4)]) auto
  then have "map_option success_ok (CfixutilsTraverseDirectory n fs p False rec (CfixrunsVisit cb inc) w) =
      visit_modules cb (modules_in inc (files_in rec ns)) w"
    using traverse_folder [OF assms(6,3), of "n + size (Folder p ns)"] by simp
  with assms(1,2) show ?thesis by (simp add: CfixrunSearchModules_def CfixutilSearch_def)
qed

end
