(* ===== verification/CmdLine.thy ===== *)
theory CmdLine
  imports FileSearch
begin

text \<open>
  The command line of the runner (\<open>cfix/cfixrun/cmdline.c\<close>). The options are a record with the
  fields of \<open>CFIXRUN_OPTIONS\<close>; a pointer to a string that may be \<open>NULL\<close> is an option. What
  is printed is collected as a list of texts, and the place \<open>Value\<close> points to is named by a
  \<open>value_slot\<close>. \<open>None\<close> is the use of a \<open>NULL\<close> pointer.
\<close>

section \<open>Options\<close>

datatype input_file_type = CfixrunInputDynamicallyLoadable | CfixrunInputRequiresSpawn

datatype console = Wprintf | PrintConsoleAndDebug

record run_options =
  InputFileType :: input_file_type
  InputFile :: "wstring option"
  RecursiveSearch :: bool
  FixtureFilter :: "wstring option"
  FixturePrefix :: "wstring option"
  AbortOnFirstFailure :: bool
  DoNotCatchUnhandledExceptions :: bool
  AlwaysBreakOnFailure :: bool
  DisplayOnly :: bool
  Summary :: bool
  PauseAtEnd :: bool
  PauseAtBeginning :: bool
  EnableKernelFeatures :: bool
  ShortCircuitFixtureOnFailure :: bool
  ShortCircuitRunOnFailure :: bool
  ShortCircuitRunOnSetupFailure :: bool
  NoLogo :: bool
  DisableStackTraces :: bool
  OmitSourceInfoInStackTrace :: bool
  EventDll :: "wstring option"
  EventDllOptions :: "wstring option"
  PrintConsole :: console

text \<open>The buffer for output to console and debugger has 256 characters.\<close>

definition CfixcmdsPrintConsoleAndDebug :: "wstring \<Rightarrow> wstring" where
  "CfixcmdsPrintConsoleAndDebug Text = take 255 Text"

definition print_text :: "run_options \<Rightarrow> wstring \<Rightarrow> wstring" where
  "print_text Options Text =
     (case PrintConsole Options of
        Wprintf \<Rightarrow> Text | PrintConsoleAndDebug \<Rightarrow> CfixcmdsPrintConsoleAndDebug Text)"

section \<open>Flags\<close>

datatype parse_state = StateExpectFlag | StateExpectValue | StateExpectAny

datatype value_slot =
  NoSlot | SlotFixture | SlotFixturePrefix | SlotEventDll | SlotEventDllOptions | SlotTrash

fun store_value :: "value_slot \<Rightarrow> wstring \<Rightarrow> run_options \<Rightarrow> run_options option" where
  "store_value NoSlot v Options = None"
| "store_value SlotFixture v Options = Some (Options\<lparr>FixtureFilter := Some v\<rparr>)"
| "store_value SlotFixturePrefix v Options = Some (Options\<lparr>FixturePrefix := Some v\<rparr>)"
| "store_value SlotEventDll v Options = Some (Options\<lparr>EventDll := Some v\<rparr>)"
| "store_value SlotEventDllOptions v Options = Some (Options\<lparr>EventDllOptions := Some v\<rparr>)"
| "store_value SlotTrash v Options = Some Options"

datatype flag_effect =
  Switch "run_options \<Rightarrow> run_options" | Takes value_slot | Removed wstring | Unknown

definition flag_effect :: "wstring \<Rightarrow> flag_effect" where
  "flag_effect FlagName =
     (if FlagName = wide ''r'' then Switch (\<lambda>opts. opts\<lparr>RecursiveSearch := True\<rparr>)
      else if FlagName = wide ''n'' then Takes SlotFixture
      else if FlagName = wide ''p'' then Takes SlotFixturePrefix
      else if FlagName = wide ''f'' then Switch (\<lambda>opts. opts\<lparr>AbortOnFirstFailure := True\<rparr>)
      else if FlagName = wide ''u'' then Switch (\<lambda>opts. opts\<lparr>DoNotCatchUnhandledExceptions := True\<rparr>)
      else if FlagName = wide ''b'' then Switch (\<lambda>opts. opts\<lparr>AlwaysBreakOnFailure := True\<rparr>)
      else if FlagName = wide ''d'' then Switch (\<lambda>opts. opts\<lparr>DisplayOnly := True\<rparr>)
      else if FlagName = wide ''z'' then Switch (\<lambda>opts. opts\<lparr>Summary := True\<rparr>)
      else if FlagName = wide ''y'' then Switch (\<lambda>opts. opts\<lparr>PauseAtEnd := True\<rparr>)
      else if FlagName = wide ''Y'' then Switch (\<lambda>opts. opts\<lparr>PauseAtBeginning := True\<rparr>)
      else if FlagName = wide ''kern'' then Switch (\<lambda>opts. opts\<lparr>EnableKernelFeatures := True\<rparr>)
      else if FlagName = wide ''exe''
      then Switch (\<lambda>opts. opts\<lparr>InputFileType := CfixrunInputRequiresSpawn\<rparr>)
      else if FlagName = wide ''fsf'' then Switch (\<lambda>opts. opts\<lparr>ShortCircuitFixtureOnFailure := True\<rparr>)
      else if FlagName = wide ''fsr'' then Switch (\<lambda>opts. opts\<lparr>ShortCircuitRunOnFailure := True\<rparr>)
      else if FlagName = wide ''fss'' then Switch (\<lambda>opts. opts\<lparr>ShortCircuitRunOnSetupFailure := True\<rparr>)
      else if FlagName = wide ''out''
      then Removed (wide ''Warning: Option -out has been removed and will be ignored.'')
      else if FlagName = wide ''log''
      then Removed (wide ''Warning: Option -log has been removed and will be ignored.'')
      else if FlagName = wide ''eventdll'' then Takes SlotEventDll
      else if FlagName = wide ''eventdlloptions'' then Takes SlotEventDllOptions
      else if FlagName = wide ''nologo'' then Switch (\<lambda>opts. opts\<lparr>NoLogo := True\<rparr>)
      else if FlagName = wide ''ts'' then Switch (\<lambda>opts. opts\<lparr>OmitSourceInfoInStackTrace := True\<rparr>)
      else if FlagName = wide ''td'' then Switch (\<lambda>opts. opts\<lparr>DisableStackTraces := True\<rparr>)
      else Unknown)"

section \<open>The parser\<close>

text \<open>
  The loop over the arguments. \<open>Prev\<close> is the argument before the current one. The result is
  \<open>Inl\<close> when the loop is left with \<open>return FALSE\<close>; in both cases it has the options and the
  output so far.
\<close>

definition complain :: "char list \<Rightarrow> wstring \<Rightarrow> run_options \<Rightarrow> wstring list \<Rightarrow>
    (run_options \<times> wstring list) + (run_options \<times> wstring list)" where
  "complain Text Arg Options Out =
     Inl (Options, Out @ [print_text Options (wide Text @ wide '' '' @ [0x27] @ Arg @ [0x27, 0x0A])])"

fun parse_args ::
    "wstring \<Rightarrow> wstring list \<Rightarrow> parse_state \<Rightarrow> value_slot \<Rightarrow> run_options \<Rightarrow> wstring list \<Rightarrow>
       ((run_options \<times> wstring list) + (run_options \<times> wstring list)) option" where
  "parse_args Prev [] State Value Options Out = Some (Inr (Options, Out))"
| "parse_args Prev (Arg # Rest) State Value Options Out =
     (if Arg = [] then parse_args Arg Rest State Value Options Out
      else if Rest = [] then
        (if State = StateExpectValue then Some (complain ''Expected value after'' Prev Options Out)
         else Some (Inr (Options\<lparr>InputFile := Some Arg\<rparr>, Out)))
      else if hd Arg = 0x2D \<or> hd Arg = 0x2F then
        (if State = StateExpectValue then Some (complain ''Expected value after'' Prev Options Out)
         else (case flag_effect (tl Arg) of
                 Switch f \<Rightarrow> parse_args Arg Rest StateExpectAny Value (f Options) Out
               | Takes slot \<Rightarrow> parse_args Arg Rest StateExpectValue slot Options Out
               | Removed Warning \<Rightarrow>
                   parse_args Arg Rest StateExpectValue SlotTrash Options
                     (Out @ [print_text Options (Warning @ [0x0A])])
               | Unknown \<Rightarrow> Some (complain ''Unknown flag'' Arg Options Out)))
      else if State \<noteq> StateExpectValue then Some (complain ''Unexpected value'' Arg Options Out)
      else do {
        Options \<leftarrow> store_value Value Arg Options;
        parse_args Arg Rest StateExpectAny Value Options Out
      })"

text \<open>The checks after the loop: the text of the first one that fails.\<close>

definition exe_conflict :: "run_options \<Rightarrow> string option option" where
  "exe_conflict Options =
     (if InputFileType Options \<noteq> CfixrunInputRequiresSpawn then Some None
      else if EnableKernelFeatures Options
      then Some (Some ''Cannot use -kern and -exe at the same time'')
      else if RecursiveSearch Options
      then Some (Some ''Cannot use -r and -exe at the same time'')
      else if PauseAtBeginning Options \<or> PauseAtEnd Options
      then Some (Some ''-y and -Y are currently not supported in conjunction with -exe'')
      else do {
        f \<leftarrow> InputFile Options;
        Some (if CfixrunpIsExe f then None else Some ''-exe is only applicable for .exe files'')
      })"

definition CfixrunParseCommandLine ::
    "bool \<Rightarrow> wstring list \<Rightarrow> run_options \<Rightarrow> (bool \<times> run_options \<times> wstring list) option" where
  "CfixrunParseCommandLine IsDebuggerPresent Argv Options =
     (let Options = Options\<lparr>PrintConsole := (if IsDebuggerPresent then PrintConsoleAndDebug else Wprintf),
                            InputFileType := CfixrunInputDynamicallyLoadable\<rparr>
      in do {
        r \<leftarrow> parse_args (hd (Argv @ [[]])) (tl Argv) StateExpectAny NoSlot Options [];
        (case r of
           Inl (Options, Out) \<Rightarrow> Some (False, Options, Out)
         | Inr (Options, Out) \<Rightarrow>
             do {
               c \<leftarrow> exe_conflict Options;
               Some (case c of
                       None \<Rightarrow> (True, Options, Out)
                     | Some Text \<Rightarrow>
                         (False, Options, Out @ [print_text Options (wide Text @ [0x0A])]))
             })
      })"

end
