(* ===== verification/CmdLineInv.thy ===== *)
theory CmdLineInv
  imports CmdLine
begin

text \<open>
  Printing options as a command line and parsing it again: \<open>render\<close> writes one flag per option,
  and \<open>runs\<close> says what a group of arguments does when the parser expects any argument.
\<close>

definition runs :: "wstring list \<Rightarrow> (run_options \<Rightarrow> run_options) \<Rightarrow> bool" where
  "runs Args f \<longleftrightarrow> (\<forall>Prev Value Options Out Rest. Rest \<noteq> [] \<longrightarrow>
     (\<exists>Prev' Value'. parse_args Prev (Args @ Rest) StateExpectAny Value Options Out =
        parse_args Prev' Rest StateExpectAny Value' (f Options) Out))"

lemma runs_Nil: "runs [] (\<lambda>opts. opts)"
  by (auto simp: runs_def)

lemma runs_append:
  assumes "runs as f" and "runs bs g"
  shows "runs (as @ bs) (\<lambda>opts. g (f opts))"
  unfolding runs_def
proof (intro allI impI)
  fix Prev Value Options Out and Rest :: "wstring list"
  assume Rest: "Rest \<noteq> []"
  then have "bs @ Rest \<noteq> []" by simp
  with assms(1) obtain p v where a: "parse_args Prev (as @ bs @ Rest) StateExpectAny Value Options Out =
      parse_args p (bs @ Rest) StateExpectAny v (f Options) Out"
    unfolding runs_def by blast
  from assms(2) Rest obtain p' v' where "parse_args p (bs @ Rest) StateExpectAny v (f Options) Out =
      parse_args p' Rest StateExpectAny v' (g (f Options)) Out"
    unfolding runs_def by blast
  with a show "\<exists>p v. parse_args Prev ((as @ bs) @ Rest) StateExpectAny Value Options Out =
      parse_args p Rest StateExpectAny v (g (f Options)) Out" by auto
qed

definition flag :: "string \<Rightarrow> wstring" where
  "flag Name = 0x2D # wide Name"

lemma runs_switch:
  assumes "flag_effect (wide Name) = Switch (upd (\<lambda>_. c))" and "\<And>x. upd (\<lambda>y. y) x = x"
  shows "runs (if b then [flag Name] else []) (upd (\<lambda>y. if b then c else y))"
proof -
  have "If True c = (\<lambda>_. c)" "If False c = (\<lambda>y. y)" by (simp_all add: fun_eq_iff)
  with assms show ?thesis by (auto simp: runs_def flag_def)
qed

text \<open>A value must not be empty, and must not look like a flag.\<close>

definition plain_value :: "wstring \<Rightarrow> bool" where
  "plain_value v \<longleftrightarrow> v \<noteq> [] \<and> hd v \<noteq> 0x2D \<and> hd v \<noteq> 0x2F"

definition value_args :: "string \<Rightarrow> wstring option \<Rightarrow> wstring list" where
  "value_args Name v = (case v of None \<Rightarrow> [] | Some v \<Rightarrow> [flag Name, v])"

lemma runs_value:
  assumes "flag_effect (wide Name) = Takes slot" and "\<forall>u. v = Some u \<longrightarrow> plain_value u"
    and "\<And>v opts. store_value slot v opts = Some (upd (\<lambda>_. Some v) opts)" and "\<And>x. upd (\<lambda>y. y) x = x"
  shows "runs (value_args Name v) (upd (\<lambda>y. case v of None \<Rightarrow> y | Some u \<Rightarrow> Some u))"
  using assms by (auto simp: runs_def value_args_def flag_def plain_value_def split: option.splits)

definition render :: "run_options \<Rightarrow> wstring list" where
  "render opts =
     (if RecursiveSearch opts then [flag ''r''] else []) @
     value_args ''n'' (FixtureFilter opts) @ value_args ''p'' (FixturePrefix opts) @
     (if AbortOnFirstFailure opts then [flag ''f''] else []) @
     (if DoNotCatchUnhandledExceptions opts then [flag ''u''] else []) @
     (if AlwaysBreakOnFailure opts then [flag ''b''] else []) @
     (if DisplayOnly opts then [flag ''d''] else []) @
     (if Summary opts then [flag ''z''] else []) @
     (if PauseAtEnd opts then [flag ''y''] else []) @
     (if PauseAtBeginning opts then [flag ''Y''] else []) @
     (if EnableKernelFeatures opts then [flag ''kern''] else []) @
     (if InputFileType opts = CfixrunInputRequiresSpawn then [flag ''exe''] else []) @
     (if ShortCircuitFixtureOnFailure opts then [flag ''fsf''] else []) @
     (if ShortCircuitRunOnFailure opts then [flag ''fsr''] else []) @
     (if ShortCircuitRunOnSetupFailure opts then [flag ''fss''] else []) @
     value_args ''eventdll'' (EventDll opts) @ value_args ''eventdlloptions'' (EventDllOptions opts) @
     (if NoLogo opts then [flag ''nologo''] else []) @
     (if OmitSourceInfoInStackTrace opts then [flag ''ts''] else []) @
     (if DisableStackTraces opts then [flag ''td''] else [])"

text \<open>Each flag sets its field and leaves the others.\<close>

lemma flag_runs:
  "runs (if b then [flag ''r''] else []) (RecursiveSearch_update (\<lambda>y. if b then True else y))"
  "runs (if b then [flag ''f''] else []) (AbortOnFirstFailure_update (\<lambda>y. if b then True else y))"
  "runs (if b then [flag ''u''] else []) (DoNotCatchUnhandledExceptions_update (\<lambda>y. if b then True else y))"
  "runs (if b then [flag ''b''] else []) (AlwaysBreakOnFailure_update (\<lambda>y. if b then True else y))"
  "runs (if b then [flag ''d''] else []) (DisplayOnly_update (\<lambda>y. if b then True else y))"
  "runs (if b then [flag ''z''] else []) (Summary_update (\<lambda>y. if b then True else y))"
  "runs (if b then [flag ''y''] else []) (PauseAtEnd_update (\<lambda>y. if b then True else y))"
  "runs (if b then [flag ''Y''] else []) (PauseAtBeginning_update (\<lambda>y. if b then True else y))"
  "runs (if b then [flag ''kern''] else []) (EnableKernelFeatures_update (\<lambda>y. if b then True else y))"
  "runs (if b then [flag ''exe''] else []) (InputFileType_update (\<lambda>y. if b then CfixrunInputRequiresSpawn else y))"
  "runs (if b then [flag ''fsf''] else []) (ShortCircuitFixtureOnFailure_update (\<lambda>y. if b then True else y))"
  "runs (if b then [flag ''fsr''] else []) (ShortCircuitRunOnFailure_update (\<lambda>y. if b then True else y))"
  "runs (if b then [flag ''fss''] else []) (ShortCircuitRunOnSetupFailure_update (\<lambda>y. if b then True else y))"
  "runs (if b then [flag ''nologo''] else []) (NoLogo_update (\<lambda>y. if b then True else y))"
  "runs (if b then [flag ''ts''] else []) (OmitSourceInfoInStackTrace_update (\<lambda>y. if b then True else y))"
  "runs (if b then [flag ''td''] else []) (DisableStackTraces_update (\<lambda>y. if b then True else y))"
  by - (rule runs_switch; simp add: flag_effect_def)+

lemma value_runs:
  assumes "\<forall>u. v = Some u \<longrightarrow> plain_value u"
  shows
    "runs (value_args ''n'' v) (FixtureFilter_update (\<lambda>y. case v of None \<Rightarrow> y | Some u \<Rightarrow> Some u))"
    "runs (value_args ''p'' v) (FixturePrefix_update (\<lambda>y. case v of None \<Rightarrow> y | Some u \<Rightarrow> Some u))"
    "runs (value_args ''eventdll'' v) (EventDll_update (\<lambda>y. case v of None \<Rightarrow> y | Some u \<Rightarrow> Some u))"
    "runs (value_args ''eventdlloptions'' v) (EventDllOptions_update (\<lambda>y. case v of None \<Rightarrow> y | Some u \<Rightarrow> Some u))"
proof -
  note set = runs_value [OF _ assms]
  show "runs (value_args ''n'' v) (FixtureFilter_update (\<lambda>y. case v of None \<Rightarrow> y | Some u \<Rightarrow> Some u))"
    by (rule set [where upd = FixtureFilter_update and slot = SlotFixture]) (simp_all add: flag_effect_def)
  show "runs (value_args ''p'' v) (FixturePrefix_update (\<lambda>y. case v of None \<Rightarrow> y | Some u \<Rightarrow> Some u))"
    by (rule set [where upd = FixturePrefix_update and slot = SlotFixturePrefix]) (simp_all add: flag_effect_def)
  show "runs (value_args ''eventdll'' v) (EventDll_update (\<lambda>y. case v of None \<Rightarrow> y | Some u \<Rightarrow> Some u))"
    by (rule set [where upd = EventDll_update and slot = SlotEventDll]) (simp_all add: flag_effect_def)
  show "runs (value_args ''eventdlloptions'' v) (EventDllOptions_update (\<lambda>y. case v of None \<Rightarrow> y | Some u \<Rightarrow> Some u))"
    by (rule set [where upd = EventDllOptions_update and slot = SlotEventDllOptions]) (simp_all add: flag_effect_def)
qed

definition no_options :: run_options where
  "no_options =
     \<lparr>InputFileType = CfixrunInputDynamicallyLoadable, InputFile = None, RecursiveSearch = False,
      FixtureFilter = None, FixturePrefix = None, AbortOnFirstFailure = False,
      DoNotCatchUnhandledExceptions = False, AlwaysBreakOnFailure = False, DisplayOnly = False,
      Summary = False, PauseAtEnd = False, PauseAtBeginning = False, EnableKernelFeatures = False,
      ShortCircuitFixtureOnFailure = False, ShortCircuitRunOnFailure = False,
      ShortCircuitRunOnSetupFailure = False, NoLogo = False, DisableStackTraces = False,
      OmitSourceInfoInStackTrace = False, EventDll = None, EventDllOptions = None,
      PrintConsole = Wprintf\<rparr>"

definition renderable :: "run_options \<Rightarrow> bool" where
  "renderable opts \<longleftrightarrow> (\<forall>u. FixtureFilter opts = Some u \<longrightarrow> plain_value u)
     \<and> (\<forall>u. FixturePrefix opts = Some u \<longrightarrow> plain_value u)
     \<and> (\<forall>u. EventDll opts = Some u \<longrightarrow> plain_value u)
     \<and> (\<forall>u. EventDllOptions opts = Some u \<longrightarrow> plain_value u)"

lemma runs_render:
  assumes "renderable opts"
  shows "\<exists>f. runs (render opts) f \<and>
     (\<forall>c. f (no_options\<lparr>PrintConsole := c\<rparr>) = opts\<lparr>InputFile := None, PrintConsole := c\<rparr>)"
proof -
  have v: "\<forall>u. FixtureFilter opts = Some u \<longrightarrow> plain_value u"
    "\<forall>u. FixturePrefix opts = Some u \<longrightarrow> plain_value u"
    "\<forall>u. EventDll opts = Some u \<longrightarrow> plain_value u"
    "\<forall>u. EventDllOptions opts = Some u \<longrightarrow> plain_value u"
    using assms by (simp_all add: renderable_def)
  note r = runs_append [OF flag_runs(1) runs_append [OF value_runs(1) [OF v(1)]
    runs_append [OF value_runs(2) [OF v(2)] runs_append [OF flag_runs(2) runs_append [OF flag_runs(3)
    runs_append [OF flag_runs(4) runs_append [OF flag_runs(5) runs_append [OF flag_runs(6)
    runs_append [OF flag_runs(7) runs_append [OF flag_runs(8) runs_append [OF flag_runs(9)
    runs_append [OF flag_runs(10) runs_append [OF flag_runs(11) runs_append [OF flag_runs(12)
    runs_append [OF flag_runs(13) runs_append [OF value_runs(3) [OF v(3)]
    runs_append [OF value_runs(4) [OF v(4)] runs_append [OF flag_runs(14)
    runs_append [OF flag_runs(15) flag_runs(16)]]]]]]]]]]]]]]]]]]]
  show ?thesis unfolding render_def
    by (rule exI, rule conjI, rule r)
      (cases opts; cases "InputFileType opts"; simp add: no_options_def option.case_eq_if)
qed

text \<open>
  Where the parser reads a \<open>NULL\<close> pointer: only in the check of the file for \<open>-exe\<close>, when the
  last argument is the empty string, which is skipped before it is recognized as the last one.
\<close>

lemma parse_args_returns:
  "State = StateExpectValue \<longrightarrow> Value \<noteq> NoSlot \<Longrightarrow>
     \<exists>r. parse_args Prev Args State Value Options Out = Some r"
proof (induction Prev Args State Value Options Out rule: parse_args.induct)
  case (2 Prev Arg Rest State Value Options Out)
  have store: "\<exists>opts. store_value slot v Options = Some opts" if "slot \<noteq> NoSlot" for slot v
    using that by (cases slot) auto
  have slots: "slot \<noteq> NoSlot" if "flag_effect n = Takes slot" for slot n
    using that by (auto simp: flag_effect_def split: if_splits)
  show ?case
    using 2 store [of Value Arg] slots
    by (auto simp: complain_def split: flag_effect.split)
qed simp

lemma exe_empty_faults:
  "CfixrunParseCommandLine dbg [prog, flag ''exe'', []] no_options = None"
proof -
  have "flag_effect (wide ''exe'') = Switch (\<lambda>opts. opts\<lparr>InputFileType := CfixrunInputRequiresSpawn\<rparr>)"
    by (simp add: flag_effect_def)
  then show ?thesis
    by (simp add: CfixrunParseCommandLine_def flag_def exe_conflict_def no_options_def)
qed

section \<open>Property\<close>


definition demo_options :: run_options where
  "demo_options = no_options
     \<lparr>InputFile := Some (wide ''t.dll''), FixtureFilter := Some (wide ''Fix.Case''),
      ShortCircuitRunOnFailure := True, EventDll := Some (wide ''log.dll'')\<rparr>"


end
