(* ===== verification/Selection.thy ===== *)
theory Selection
  imports CmdLine SequenceRun
begin

text \<open>
  From the options to the action that is run: the selection of fixtures and the creation of
  their actions (\<open>cfix/cfixrun/runtest.c\<close>), the sequence they are collected in
  (\<open>cfix/cfixrun/fixturesearch.c\<close>), and the action that only lists a fixture
  (\<open>cfix/cfixrun/displayaction.c\<close>).

  The actions live in the heap of \<open>SequenceAction\<close>; what an \<open>OtherAction\<close> there is, is in
  \<open>Contents\<close>. A test module is identified by the number of modules loaded before it, and
  \<open>ModuleRefs\<close> has its reference count; it is unloaded when the count is zero. The loaders of
  modules (theories \<open>PeLoad\<close> and \<open>KlModule\<close>) are the parameter \<open>load\<close>. Allocation requests
  are numbered: \<open>AllocOk\<close> says which of them succeed, and the number of the request is the
  address of the block. Messages to \<open>stderr\<close> are left out.
\<close>

section \<open>World\<close>

record 'u runner =
  ModuleRefs :: "nat \<Rightarrow> int"
  Loaded :: nat
  RunnerState :: 'u

record 'u module_obj =
  ModuleId :: nat
  ModuleCode :: "'u runner test_module"
  ModuleFixtures :: "fixture list"

definition ref_module :: "nat \<Rightarrow> 'u runner \<Rightarrow> 'u runner" where
  "ref_module m s = s\<lparr>ModuleRefs := (ModuleRefs s)(m := ModuleRefs s m + 1)\<rparr>"

definition deref_module :: "nat \<Rightarrow> 'u runner \<Rightarrow> 'u runner" where
  "deref_module m s = s\<lparr>ModuleRefs := (ModuleRefs s)(m := ModuleRefs s m - 1)\<rparr>"

text \<open>A module whose methods count in \<open>ModuleRefs\<close>.\<close>

definition counted_module :: "nat \<Rightarrow> 'u runner test_module \<Rightarrow> 'u runner test_module" where
  "counted_module m code = code\<lparr>ModuleReference := ref_module m, ModuleDereference := deref_module m\<rparr>"

record display_action =
  DisplayModule :: nat
  DisplayFixture :: fixture

datatype 'u leaf = ExecLeaf "'u runner tsexec_action" | DisplayLeaf display_action

record 'u sel_world =
  Runner :: "'u runner aworld"
  Contents :: "nat \<Rightarrow> 'u leaf option"
  NextRequest :: nat
  AllocOk :: "nat \<Rightarrow> bool"
  FixtureCount :: ulong

definition alloc :: "'u sel_world \<Rightarrow> nat option \<times> 'u sel_world" where
  "alloc w = (if AllocOk w (NextRequest w) then Some (NextRequest w) else None,
              w\<lparr>NextRequest := NextRequest w + 1\<rparr>)"

section \<open>The display action\<close>

definition CfixrunsRunDisplayAction ::
    "(wstring \<Rightarrow> 's \<Rightarrow> 's) \<Rightarrow> display_action \<Rightarrow> 's \<Rightarrow> hresult \<times> 's" where
  "CfixrunsRunDisplayAction Print Action s =
     (let fx = DisplayFixture Action;
          Texts = (wide ''  Fixture: '' @ ModuleName fx @ wide ''.'' @ FixtureName fx @ [0x0A])
            # map (\<lambda>tc. wide ''    '' @ TestCaseName tc @ [0x0A]) (TestCases fx) @ [[0x0A]]
      in (S_OK, fold Print Texts s))"

definition CfixrunsDeleteDisplayAction :: "display_action \<Rightarrow> 'u runner \<Rightarrow> 'u runner" where
  "CfixrunsDeleteDisplayAction Action s = deref_module (DisplayModule Action) s"

text \<open>A leaf of reference count one, put at the address its allocation got.\<close>

definition put_leaf :: "nat \<Rightarrow> 'u leaf \<Rightarrow> 'u sel_world \<Rightarrow> 'u sel_world" where
  "put_leaf a l w =
     w\<lparr>Runner := (Runner w)\<lparr>Heap := fmupd a \<lparr>VersionOk = True, RefCount = 1, Body = OtherAction\<rparr>
                                   (Heap (Runner w))\<rparr>,
       Contents := (Contents w)(a := Some l)\<rparr>"

definition CfixrunpCreateDisplayAction ::
    "nat \<Rightarrow> fixture \<Rightarrow> bool \<Rightarrow> 'u sel_world \<Rightarrow> (hresult \<times> nat option) \<times> 'u sel_world" where
  "CfixrunpCreateDisplayAction m Fixture ActionOut w =
     (if \<not> ActionOut then ((E_INVALIDARG, None), w)
      else case alloc w of
        (None, w) \<Rightarrow> ((E_OUTOFMEMORY, None), w)
      | (Some a, w) \<Rightarrow>
          let w = w\<lparr>Runner := (Runner w)\<lparr>Ambient := ref_module m (Ambient (Runner w))\<rparr>\<rparr>
          in ((S_OK, Some a), put_leaf a (DisplayLeaf \<lparr>DisplayModule = m, DisplayFixture = Fixture\<rparr>) w))"

section \<open>Releasing actions\<close>

text \<open>\<open>action_release\<close> with the objects that are freed, in their order.\<close>

function release_log :: "nat list \<Rightarrow> action_heap \<Rightarrow> (nat list \<times> action_heap) option" where
  "release_log [] h = Some ([], h)"
| "release_log (a # todo) h =
     (case fmlookup h a of
        None \<Rightarrow> None
      | Some obj \<Rightarrow>
          if RefCount obj - 1 = 0
          then map_option (apfst ((#) a)) (release_log (entries_of (Body obj) @ todo) (fmdrop a h))
          else release_log todo (fmupd a (obj\<lparr>RefCount := RefCount obj - 1\<rparr>) h))"
  by pat_completeness auto
termination
proof (relation "measure (\<lambda>(todo, h). pending_size todo h)", goal_cases)
  case 1
  show ?case by simp
next
  case (2 a todo h obj)
  then show ?case using sum_held_fmdrop [of h a obj length] by (simp add: pending_size_def)
next
  case (3 a todo h obj)
  then show ?case using sum_held_fmupd [of h a obj _ length] by (simp add: pending_size_def)
qed

fun delete_leaf :: "'u leaf option \<Rightarrow> 'u runner \<Rightarrow> 'u runner" where
  "delete_leaf None s = s"
| "delete_leaf (Some (ExecLeaf act)) s = CfixsDeleteFixtureExecutionAction act s"
| "delete_leaf (Some (DisplayLeaf act)) s = CfixrunsDeleteDisplayAction act s"

definition release_action :: "nat \<Rightarrow> 'u sel_world \<Rightarrow> 'u sel_world option" where
  "release_action a w =
     do {
       (freed, h) \<leftarrow> release_log [a] (Heap (Runner w));
       Some (w\<lparr>Runner := (Runner w)\<lparr>Heap := h,
                 Ambient := fold (\<lambda>b. delete_leaf (Contents w b)) freed (Ambient (Runner w))\<rparr>\<rparr>)
     }"

definition CfixrunsReferenceDisplayAction :: "nat \<Rightarrow> action_heap \<Rightarrow> action_heap option" where
  "CfixrunsReferenceDisplayAction This h = action_reference This h"

definition CfixrunsDereferenceDisplayAction :: "nat \<Rightarrow> 'u sel_world \<Rightarrow> 'u sel_world option" where
  "CfixrunsDereferenceDisplayAction This w = release_action This w"

section \<open>Creating the actions of fixtures\<close>

type_synonym 'u create_routine =
  "'u module_obj \<Rightarrow> fixture \<Rightarrow> ulong \<Rightarrow> 'u sel_world \<Rightarrow> (hresult \<times> nat option) \<times> 'u sel_world"

definition count_created :: "(hresult \<times> nat option) \<times> 'u sel_world \<Rightarrow> (hresult \<times> nat option) \<times> 'u sel_world" where
  "count_created r =
     (if SUCCEEDED (fst (fst r)) then (fst r, (snd r)\<lparr>FixtureCount := FixtureCount (snd r) + 1\<rparr>) else r)"

definition CfixrunsCreateDisplayAction :: "'u create_routine" where
  "CfixrunsCreateDisplayAction Module Fixture TestCase w =
     count_created (CfixrunpCreateDisplayAction (ModuleId Module) Fixture True w)"

definition execution_flags :: "run_options \<Rightarrow> ulong" where
  "execution_flags Options =
     (if \<not> DisableStackTraces Options then CFIX_FIXTURE_EXECUTION_CAPTURE_STACK_TRACES else 0)
     OR (if ShortCircuitFixtureOnFailure Options
         then CFIX_FIXTURE_EXECUTION_SHORTCIRCUIT_FIXTURE_ON_FAILURE else 0)
     OR (if ShortCircuitRunOnFailure Options
         then CFIX_FIXTURE_EXECUTION_SHORTCIRCUIT_RUN_ON_FAILURE else 0)
     OR (if ShortCircuitRunOnSetupFailure Options
         then CFIX_FIXTURE_EXECUTION_SHORTCIRCUIT_RUN_ON_SETUP_FAILURE else 0)"

definition CfixrunsCreateTsExecAction :: "run_options \<Rightarrow> 'u create_routine" where
  "CfixrunsCreateTsExecAction Options Module Fixture TestCase w =
     count_created
       (let (addr, w) = alloc w;
            ((Hr, act), s) = CfixCreateFixtureExecutionAction (addr \<noteq> None) (ModuleCode Module)
              (Some Fixture) (execution_flags Options) TestCase True (Ambient (Runner w));
            w = w\<lparr>Runner := (Runner w)\<lparr>Ambient := s\<rparr>\<rparr>
        in case (addr, act) of
             (Some a, Some act) \<Rightarrow> ((Hr, Some a), put_leaf a (ExecLeaf act) w)
           | _ \<Rightarrow> ((Hr, None), w))"

section \<open>The filter\<close>

text \<open>
  The first test case of a name. \<open>StrStrI\<close> is the function of the system: the position of the
  first occurrence of the second string in the first, without regard to case.
\<close>

definition find_test_case :: "fixture \<Rightarrow> wstring \<Rightarrow> nat option" where
  "find_test_case fx Name =
     List.find (\<lambda>i. wcsicmp_eq Name (TestCaseName (TestCases fx ! i))) [0..<TestCaseCount fx]"

definition CfixrunsFilterFixtureByName ::
    "(wstring \<Rightarrow> wstring \<Rightarrow> nat option) \<Rightarrow> run_options \<Rightarrow> fixture \<Rightarrow> bool \<times> ulong" where
  "CfixrunsFilterFixtureByName StrStrI Options Fixture =
     (case FixtureFilter Options of
        Some Filter \<Rightarrow>
          (if 256 \<le> length Filter then (False, - 1)
           else
             let Name = takeWhile (\<lambda>c. c \<noteq> 0x2E) Filter;
                 Case = dropWhile (\<lambda>c. c \<noteq> 0x2E) Filter
             in if \<not> wcsicmp_eq Name (FixtureName Fixture) then (False, - 1)
                else if Case = [] then (True, - 1)
                else case find_test_case Fixture (tl Case) of
                       None \<Rightarrow> (False, - 1)
                     | Some Index \<Rightarrow> (True, of_nat Index))
      | None \<Rightarrow>
          (case FixturePrefix Options of
             None \<Rightarrow> (True, - 1)
           | Some Prefix \<Rightarrow> (StrStrI (FixtureName Fixture) Prefix = Some 0, - 1)))"

section \<open>Collecting the fixtures of modules\<close>

fun add_fixtures ::
    "(fixture \<Rightarrow> bool \<times> ulong) \<Rightarrow> 'u create_routine \<Rightarrow> nat \<Rightarrow> 'u module_obj \<Rightarrow> fixture list \<Rightarrow>
       hresult \<Rightarrow> 'u sel_world \<Rightarrow> (hresult \<times> 'u sel_world) option" where
  "add_fixtures FilterCallback CreateAction Seq Module [] Hr w = Some (Hr, w)"
| "add_fixtures FilterCallback CreateAction Seq Module (fx # fxs) Hr w =
     (case FilterCallback fx of
        (False, _) \<Rightarrow> add_fixtures FilterCallback CreateAction Seq Module fxs Hr w
      | (True, TestCase) \<Rightarrow>
          (case CreateAction Module fx TestCase w of
             ((Hr, None), w) \<Rightarrow> Some (Hr, w)
           | ((Hr, Some a), w) \<Rightarrow>
               if FAILED Hr then Some (Hr, w)
               else do {
                 let (room, w) = alloc w;
                 (Hr, h) \<leftarrow> CfixAddEntrySequenceAction (room \<noteq> None) Seq a (Heap (Runner w));
                 w \<leftarrow> release_action a (w\<lparr>Runner := (Runner w)\<lparr>Heap := h\<rparr>\<rparr>);
                 (if FAILED Hr then Some (Hr, w)
                  else add_fixtures FilterCallback CreateAction Seq Module fxs Hr w)
               }))"

definition CfixrunsAddFixturesOfModuleToSequenceAction ::
    "(fixture \<Rightarrow> bool \<times> ulong) \<Rightarrow> 'u create_routine \<Rightarrow> 'u module_obj \<Rightarrow> nat \<Rightarrow> 'u sel_world \<Rightarrow>
       (hresult \<times> 'u sel_world) option" where
  "CfixrunsAddFixturesOfModuleToSequenceAction FilterCallback CreateAction Module Seq w =
     add_fixtures FilterCallback CreateAction Seq Module (ModuleFixtures Module) S_OK w"

text \<open>
  A loader answers an error, or the code and the fixtures of the new module, which then has one
  reference, the caller's.
\<close>

type_synonym 'u loader =
  "module_type \<Rightarrow> wstring \<Rightarrow> 'u \<Rightarrow> (hresult + ('u runner test_module \<times> fixture list)) \<times> 'u"

definition load_module ::
    "'u loader \<Rightarrow> module_type \<Rightarrow> wstring \<Rightarrow> 'u runner \<Rightarrow> (hresult + 'u module_obj) \<times> 'u runner" where
  "load_module load Type Path s =
     (case load Type Path (RunnerState s) of
        (Inl Hr, u) \<Rightarrow> (Inl Hr, s\<lparr>RunnerState := u\<rparr>)
      | (Inr (code, fxs), u) \<Rightarrow>
          (Inr \<lparr>ModuleId = Loaded s, ModuleCode = counted_module (Loaded s) code, ModuleFixtures = fxs\<rparr>,
           s\<lparr>ModuleRefs := (ModuleRefs s)(Loaded s := 1), Loaded := Loaded s + 1, RunnerState := u\<rparr>))"

definition deref_world :: "nat \<Rightarrow> 'u sel_world \<Rightarrow> 'u sel_world" where
  "deref_world m w = w\<lparr>Runner := (Runner w)\<lparr>Ambient := deref_module m (Ambient (Runner w))\<rparr>\<rparr>"

definition CfixrunsAddFixturesOfDllToSequenceAction ::
    "'u loader \<Rightarrow> (fixture \<Rightarrow> bool \<times> ulong) \<Rightarrow> 'u create_routine \<Rightarrow> nat \<Rightarrow> 'u sel_world module_routine" where
  "CfixrunsAddFixturesOfDllToSequenceAction load FilterCallback CreateAction Seq Path Type SearchPerformed w =
     (case load_module load Type Path (Ambient (Runner w)) of
        (Inl Hr, s) \<Rightarrow>
          Some (if SearchPerformed then S_OK else Hr, w\<lparr>Runner := (Runner w)\<lparr>Ambient := s\<rparr>\<rparr>)
      | (Inr Module, s) \<Rightarrow>
          do {
            (Hr, w) \<leftarrow> CfixrunsAddFixturesOfModuleToSequenceAction FilterCallback CreateAction Module Seq
                         (w\<lparr>Runner := (Runner w)\<lparr>Ambient := s\<rparr>\<rparr>);
            Some (Hr, deref_world (ModuleId Module) w)
          })"

definition create_sequence :: "'u sel_world \<Rightarrow> (hresult \<times> nat option) \<times> 'u sel_world" where
  "create_sequence w =
     (let (fresh, w) = alloc w; (r, h) = CfixCreateSequenceAction fresh True (Heap (Runner w))
      in (r, w\<lparr>Runner := (Runner w)\<lparr>Heap := h\<rparr>\<rparr>))"

text \<open>What becomes of the sequence: handed to the caller, or released when filling it failed.\<close>

definition hand_over ::
    "nat \<Rightarrow> hresult \<times> 'u sel_world \<Rightarrow> ((hresult \<times> nat option) \<times> 'u sel_world) option" where
  "hand_over Seq r =
     (if SUCCEEDED (fst r) then Some ((S_OK, Some Seq), snd r)
      else do { w \<leftarrow> release_action Seq (snd r); Some ((fst r, None), w) })"

definition CfixrunpSearchFixturesAndCreateSequenceAction ::
    "nat \<Rightarrow> file_system \<Rightarrow> 'u loader \<Rightarrow> wstring option \<Rightarrow> bool \<Rightarrow> bool \<Rightarrow> (fixture \<Rightarrow> bool \<times> ulong) \<Rightarrow>
       'u create_routine \<Rightarrow> 'u sel_world \<Rightarrow> ((hresult \<times> nat option) \<times> 'u sel_world) option" where
  "CfixrunpSearchFixturesAndCreateSequenceAction n fs load DllOrDirectory RecSearch Kernel
       FilterCallback CreateAction w =
     (if DllOrDirectory = None then Some ((E_INVALIDARG, None), w)
      else case create_sequence w of
        ((Hr, None), w) \<Rightarrow> Some ((Hr, None), w)
      | ((Hr, Some Seq), w) \<Rightarrow>
          do {
            r \<leftarrow> CfixrunSearchModules n fs DllOrDirectory RecSearch Kernel
                   (Some (CfixrunsAddFixturesOfDllToSequenceAction load FilterCallback CreateAction Seq)) w;
            hand_over Seq r
          })"

definition CfixrunpCreateSequenceAction ::
    "'u module_obj \<Rightarrow> (fixture \<Rightarrow> bool \<times> ulong) \<Rightarrow> 'u create_routine \<Rightarrow> 'u sel_world \<Rightarrow>
       ((hresult \<times> nat option) \<times> 'u sel_world) option" where
  "CfixrunpCreateSequenceAction Module FilterCallback CreateAction w =
     (case create_sequence w of
        ((Hr, None), w) \<Rightarrow> Some ((Hr, None), w)
      | ((Hr, Some Seq), w) \<Rightarrow>
          do {
            r \<leftarrow> CfixrunsAddFixturesOfModuleToSequenceAction FilterCallback CreateAction Module Seq w;
            hand_over Seq r
          })"

text \<open>The executable itself, loaded already: \<open>load CfixrunDll []\<close> makes its module.\<close>

definition CfixrunsCreateSequenceActionForCurrentExecutable ::
    "'u loader \<Rightarrow> (fixture \<Rightarrow> bool \<times> ulong) \<Rightarrow> 'u create_routine \<Rightarrow> 'u sel_world \<Rightarrow>
       ((hresult \<times> nat option) \<times> 'u sel_world) option" where
  "CfixrunsCreateSequenceActionForCurrentExecutable load FilterCallback CreateAction w =
     (case load_module load CfixrunDll [] (Ambient (Runner w)) of
        (Inl Hr, s) \<Rightarrow> Some ((Hr, None), w\<lparr>Runner := (Runner w)\<lparr>Ambient := s\<rparr>\<rparr>)
      | (Inr Module, s) \<Rightarrow>
          do {
            (r, w) \<leftarrow> CfixrunpCreateSequenceAction Module FilterCallback CreateAction
                        (w\<lparr>Runner := (Runner w)\<lparr>Ambient := s\<rparr>\<rparr>);
            Some (r, deref_world (ModuleId Module) w)
          })"

section \<open>Assembling the action\<close>

definition assemble ::
    "nat \<Rightarrow> file_system \<Rightarrow> 'u loader \<Rightarrow> (wstring \<Rightarrow> wstring \<Rightarrow> nat option) \<Rightarrow> run_options \<Rightarrow>
       'u create_routine \<Rightarrow> 'u sel_world \<Rightarrow> ((hresult \<times> nat option) \<times> 'u sel_world) option" where
  "assemble n fs load StrStrI Options CreateAction w =
     (let w = w\<lparr>FixtureCount := 0\<rparr>
      in if InputFileType Options = CfixrunInputDynamicallyLoadable
         then CfixrunpSearchFixturesAndCreateSequenceAction n fs load (InputFile Options)
                (RecursiveSearch Options) (EnableKernelFeatures Options)
                (CfixrunsFilterFixtureByName StrStrI Options) CreateAction w
         else CfixrunsCreateSequenceActionForCurrentExecutable load
                (CfixrunsFilterFixtureByName StrStrI Options) CreateAction w)"

definition CfixrunpAssembleExecutionAction ::
    "nat \<Rightarrow> file_system \<Rightarrow> 'u loader \<Rightarrow> (wstring \<Rightarrow> wstring \<Rightarrow> nat option) \<Rightarrow> run_options \<Rightarrow>
       'u sel_world \<Rightarrow> ((hresult \<times> nat option) \<times> 'u sel_world) option" where
  "CfixrunpAssembleExecutionAction n fs load StrStrI Options =
     assemble n fs load StrStrI Options (CfixrunsCreateTsExecAction Options)"

definition CfixrunpAssembleDisplayAction ::
    "nat \<Rightarrow> file_system \<Rightarrow> 'u loader \<Rightarrow> (wstring \<Rightarrow> wstring \<Rightarrow> nat option) \<Rightarrow> run_options \<Rightarrow>
       'u sel_world \<Rightarrow> ((hresult \<times> nat option) \<times> 'u sel_world) option" where
  "CfixrunpAssembleDisplayAction n fs load StrStrI Options =
     assemble n fs load StrStrI Options CfixrunsCreateDisplayAction"

text \<open>The call through \<open>Action->Run\<close> of an action that is not a sequence.\<close>

definition leaf_run ::
    "('u runner \<Rightarrow> bool) \<Rightarrow> ulong \<Rightarrow> (wstring \<Rightarrow> 'u runner \<Rightarrow> 'u runner) \<Rightarrow> 'u runner exec_context \<Rightarrow>
       'u leaf \<Rightarrow> 'u runner \<Rightarrow> (hresult \<times> 'u runner) option" where
  "leaf_run dbg CurrentThreadId Print Context l s =
     (case l of
        ExecLeaf act \<Rightarrow> CfixsRunFixtureExecutionAction dbg CurrentThreadId act Context s
      | DisplayLeaf act \<Rightarrow> Some (CfixrunsRunDisplayAction Print act s))"

definition run_contents ::
    "('u leaf \<Rightarrow> 'u runner \<Rightarrow> (hresult \<times> 'u runner) option) \<Rightarrow> 'u sel_world \<Rightarrow> nat \<Rightarrow>
       'u runner \<Rightarrow> (hresult \<times> 'u runner) option" where
  "run_contents Run w a s = do { l \<leftarrow> Contents w a; Run l s }"

end
