(* ===== verification/SelectionInv.thy ===== *)
theory SelectionInv
  imports Selection FileSearchInv
begin

text \<open>
  What is assembled is what was asked for. The contract \<open>fixture_actions\<close> says what the two
  routines that create actions share; with it, the invariant \<open>collecting\<close> is kept by every step
  of the search: the sequence holds one action per selected fixture, nobody else holds any, and
  every module has one reference for each of its actions.
\<close>

section \<open>The invariant\<close>

abbreviation single_leaf :: action_obj where
  "single_leaf \<equiv> \<lparr>VersionOk = True, RefCount = 1, Body = OtherAction\<rparr>"

abbreviation single_sequence :: "nat list \<Rightarrow> action_obj" where
  "single_sequence es \<equiv> \<lparr>VersionOk = True, RefCount = 1, Body = Sequence es\<rparr>"

text \<open>\<open>items\<close>: the modules and contents of the entries; \<open>base\<close>: other references to modules.\<close>

definition entries_at :: "nat \<Rightarrow> nat list \<Rightarrow> (nat \<times> 'u leaf) list \<Rightarrow> 'u sel_world \<Rightarrow> bool" where
  "entries_at Seq es items w \<longleftrightarrow>
     distinct (Seq # es) \<and> (\<forall>x \<in> set (Seq # es). x < NextRequest w)
     \<and> (\<forall>x. fmlookup (Heap (Runner w)) x =
          (if x = Seq then Some (single_sequence es) else if x \<in> set es then Some single_leaf else None))
     \<and> map (Contents w) es = map (Some \<circ> snd) items
     \<and> Contents w Seq = None \<and> (\<forall>x \<ge> NextRequest w. Contents w x = None)"

definition module_counts :: "(nat \<Rightarrow> int) \<Rightarrow> (nat \<times> 'u leaf) list \<Rightarrow> 'u sel_world \<Rightarrow> bool" where
  "module_counts base items w \<longleftrightarrow>
     (\<forall>(m, l) \<in> set items. delete_leaf (Some l) = deref_module m)
     \<and> ModuleRefs (Ambient (Runner w)) = (\<lambda>m. base m + int (count_list (map fst items) m))"

definition collecting :: "nat \<Rightarrow> (nat \<Rightarrow> int) \<Rightarrow> (nat \<times> 'u leaf) list \<Rightarrow> 'u sel_world \<Rightarrow> bool" where
  "collecting Seq base items w \<longleftrightarrow> (\<exists>es. entries_at Seq es items w) \<and> module_counts base items w"

text \<open>What the search leaves alone: the number of modules, the rest of the state and the allocator.\<close>

definition same_side :: "'u sel_world \<Rightarrow> 'u sel_world \<Rightarrow> bool" where
  "same_side w w' \<longleftrightarrow> Loaded (Ambient (Runner w')) = Loaded (Ambient (Runner w))
     \<and> RunnerState (Ambient (Runner w')) = RunnerState (Ambient (Runner w)) \<and> AllocOk w' = AllocOk w"

lemma same_side_refl [simp]: "same_side w w"
  by (simp add: same_side_def)

lemma same_side_trans: "same_side w w' \<Longrightarrow> same_side w' w'' \<Longrightarrow> same_side w w''"
  by (simp add: same_side_def)

lemma ref_module_simps [simp]:
  "Loaded (ref_module m s) = Loaded s" "RunnerState (ref_module m s) = RunnerState s"
  "Loaded (deref_module m s) = Loaded s" "RunnerState (deref_module m s) = RunnerState s"
  "ModuleRefs (ref_module m s) = (ModuleRefs s)(m := ModuleRefs s m + 1)"
  "ModuleRefs (deref_module m s) = (ModuleRefs s)(m := ModuleRefs s m - 1)"
  by (simp_all add: ref_module_def deref_module_def)

lemma deref_ref [simp]: "deref_module m (ref_module m s) = s"
  by (simp add: ref_module_def deref_module_def)

section \<open>Releasing\<close>

lemma release_shared:
  "fmlookup h a = Some obj \<Longrightarrow> RefCount obj = 2 \<Longrightarrow>
     release_log [a] h = Some ([], fmupd a (obj\<lparr>RefCount := 1\<rparr>) h)"
  by simp

lemma release_leaves:
  "distinct es \<Longrightarrow> \<forall>e \<in> set es. fmlookup h e = Some single_leaf \<Longrightarrow>
     release_log es h = Some (es, fold fmdrop es h)"
proof (induction es arbitrary: h)
  case (Cons e es)
  then have "release_log es (fmdrop e h) = Some (es, fold fmdrop es (fmdrop e h))"
    by (intro Cons.IH) auto
  with Cons.prems show ?case by simp
qed simp

lemma fold_fmdrop: "fmlookup (fold fmdrop es h) x = (if x \<in> set es then None else fmlookup h x)"
  by (induction es arbitrary: h) auto

lemma fold_delete:
  "\<forall>(m, l) \<in> set items. delete_leaf (Some l) = deref_module m \<Longrightarrow>
     map c es = map (Some \<circ> snd) items \<Longrightarrow>
     Loaded (fold (\<lambda>b. delete_leaf (c b)) es s) = Loaded s
     \<and> RunnerState (fold (\<lambda>b. delete_leaf (c b)) es s) = RunnerState s
     \<and> ModuleRefs (fold (\<lambda>b. delete_leaf (c b)) es s) =
         (\<lambda>m. ModuleRefs s m - int (count_list (map fst items) m))"
proof (induction es arbitrary: items s)
  case (Cons e es)
  then obtain m l items' where items: "items = (m, l) # items'" by (cases items) auto
  with Cons.prems have "c e = Some l" "delete_leaf (Some l) = deref_module m"
    "\<forall>(m, l) \<in> set items'. delete_leaf (Some l) = deref_module m" "map c es = map (Some \<circ> snd) items'"
    by auto
  with Cons.IH [of items' "deref_module m s"] items show ?case by (auto simp: fun_eq_iff)
qed simp

text \<open>Releasing the sequence releases everything.\<close>

lemma release_collected:
  assumes "collecting Seq base items w"
  shows "\<exists>w'. release_action Seq w = Some w' \<and> Heap (Runner w') = fmempty
     \<and> ModuleRefs (Ambient (Runner w')) = base \<and> same_side w w'"
proof -
  obtain es where es: "entries_at Seq es items w" using assms by (auto simp: collecting_def)
  let ?h = "Heap (Runner w)"
  have d: "distinct es" "Seq \<notin> set es" and look: "fmlookup ?h Seq = Some (single_sequence es)"
      "\<forall>e \<in> set es. fmlookup (fmdrop Seq ?h) e = Some single_leaf"
    using es by (auto simp: entries_at_def)
  have log: "release_log [Seq] ?h = Some (Seq # es, fold fmdrop es (fmdrop Seq ?h))"
    using look release_leaves [OF d(1) look(2)] by simp
  have empty: "fold fmdrop es (fmdrop Seq ?h) = fmempty"
    using es by (intro fmap_ext) (auto simp: fold_fmdrop entries_at_def)
  have mods: "\<forall>(m, l) \<in> set items. delete_leaf (Some l) = deref_module m"
    and refs: "ModuleRefs (Ambient (Runner w)) = (\<lambda>m. base m + int (count_list (map fst items) m))"
    using assms by (auto simp: collecting_def module_counts_def)
  have cont: "map (Contents w) es = map (Some \<circ> snd) items" "Contents w Seq = None"
    using es by (auto simp: entries_at_def)
  from fold_delete [OF mods cont(1), of "Ambient (Runner w)"] log empty cont(2) refs show ?thesis
    by (simp add: release_action_def same_side_def fun_eq_iff)
qed

section \<open>Creating\<close>

definition valid_case :: "fixture \<Rightarrow> ulong \<Rightarrow> bool" where
  "valid_case fx TestCase \<longleftrightarrow> TestCase = - 1 \<or> TestCase < of_nat (TestCaseCount fx)"

definition counted :: "'u module_obj \<Rightarrow> bool" where
  "counted Module \<longleftrightarrow> (\<exists>code. ModuleCode Module = counted_module (ModuleId Module) code)"

definition created :: "nat \<Rightarrow> 'u leaf \<Rightarrow> 'u sel_world \<Rightarrow> 'u sel_world" where
  "created m l w =
     put_leaf (NextRequest w) l
       (w\<lparr>NextRequest := NextRequest w + 1,
          Runner := (Runner w)\<lparr>Ambient := ref_module m (Ambient (Runner w))\<rparr>,
          FixtureCount := FixtureCount w + 1\<rparr>)"

text \<open>The three ways in which a step of the collection ends.\<close>

lemma collecting_bump:
  "collecting Seq base items w \<Longrightarrow> collecting Seq base items (w\<lparr>NextRequest := NextRequest w + 1\<rparr>)"
  by (fastforce simp: collecting_def entries_at_def module_counts_def)

lemma entries_dropped:
  assumes "entries_at Seq es items w" and "n = NextRequest w" and "NextRequest w' = n + 2"
    and "\<And>x. fmlookup (Heap (Runner w')) x = fmlookup (Heap (Runner w)) x"
    and "Contents w' = (Contents w)(n := c)"
  shows "entries_at Seq es items w'"
proof -
  from assms(1,2) have "n \<notin> set es" "n \<noteq> Seq" by (auto simp: entries_at_def)
  then have "map (Contents w') es = map (Contents w) es" using assms(5) by auto
  with assms \<open>n \<noteq> Seq\<close> show ?thesis by (auto simp: entries_at_def)
qed

lemma entries_added:
  assumes "entries_at Seq es items w" and "n = NextRequest w" and "NextRequest w' = n + 2"
    and "\<And>x. fmlookup (Heap (Runner w')) x = (if x = Seq then Some (single_sequence (es @ [n]))
           else if x = n then Some single_leaf else fmlookup (Heap (Runner w)) x)"
    and "Contents w' = (Contents w)(n := Some l)"
  shows "entries_at Seq (es @ [n]) (items @ [(m, l)]) w'"
proof -
  from assms(1,2) have "n \<notin> set es" "n \<noteq> Seq" by (auto simp: entries_at_def)
  then have "map (Contents w') es = map (Contents w) es" using assms(5) by auto
  with assms \<open>n \<notin> set es\<close> \<open>n \<noteq> Seq\<close> show ?thesis by (auto simp: entries_at_def)
qed

lemma counts_added:
  assumes "module_counts base items w" and "delete_leaf (Some l) = deref_module m"
    and "ModuleRefs (Ambient (Runner w')) = (ModuleRefs (Ambient (Runner w)))(m := ModuleRefs (Ambient (Runner w)) m + 1)"
  shows "module_counts base (items @ [(m, l)]) w'"
  using assms by (auto simp: module_counts_def fun_eq_iff)

section \<open>The plan\<close>

definition selected :: "(fixture \<Rightarrow> bool \<times> ulong) \<Rightarrow> fixture list \<Rightarrow> (fixture \<times> ulong) list" where
  "selected Filter fxs = map (\<lambda>fx. (fx, snd (Filter fx))) (filter (\<lambda>fx. fst (Filter fx)) fxs)"

definition plan_of ::
    "('u module_obj \<Rightarrow> fixture \<Rightarrow> ulong \<Rightarrow> 'u leaf) \<Rightarrow> (fixture \<Rightarrow> bool \<times> ulong) \<Rightarrow> 'u module_obj \<Rightarrow>
       fixture list \<Rightarrow> (nat \<times> 'u leaf) list" where
  "plan_of made Filter Module fxs =
     map (\<lambda>(fx, tc). (ModuleId Module, made Module fx tc)) (selected Filter fxs)"

text \<open>
  The modules in the order of the search, and the selected fixtures of those that can be loaded;
  \<open>k\<close> is the number of modules loaded before.
\<close>

fun plan ::
    "('u module_obj \<Rightarrow> fixture \<Rightarrow> ulong \<Rightarrow> 'u leaf) \<Rightarrow> 'u loader \<Rightarrow> (fixture \<Rightarrow> bool \<times> ulong) \<Rightarrow>
       (wstring \<times> module_type) list \<Rightarrow> nat \<Rightarrow> 'u \<Rightarrow> (nat \<times> 'u leaf) list" where
  "plan made load Filter [] k u = []"
| "plan made load Filter ((p, ty) # ms) k u =
     (case load ty p u of
        (Inl Hr, u) \<Rightarrow> plan made load Filter ms k u
      | (Inr (code, fxs), u) \<Rightarrow>
          plan_of made Filter \<lparr>ModuleId = k, ModuleCode = counted_module k code, ModuleFixtures = fxs\<rparr> fxs
          @ plan made load Filter ms (k + 1) u)"

definition cases_valid :: "(fixture \<Rightarrow> bool \<times> ulong) \<Rightarrow> fixture list \<Rightarrow> bool" where
  "cases_valid Filter fxs \<longleftrightarrow> (\<forall>fx \<in> set fxs. fst (Filter fx) \<longrightarrow> valid_case fx (snd (Filter fx)))"

definition loads_valid :: "'u loader \<Rightarrow> (fixture \<Rightarrow> bool \<times> ulong) \<Rightarrow> bool" where
  "loads_valid load Filter \<longleftrightarrow>
     (\<forall>ty p u code fxs u'. load ty p u = (Inr (code, fxs), u') \<longrightarrow> cases_valid Filter fxs)"

locale fixture_actions =
  fixes Create :: "'u create_routine"
    and made :: "'u module_obj \<Rightarrow> fixture \<Rightarrow> ulong \<Rightarrow> 'u leaf"
  assumes create_ok: "counted Module \<Longrightarrow> valid_case fx tc \<Longrightarrow> AllocOk w (NextRequest w) \<Longrightarrow>
      Create Module fx tc w =
        ((S_OK, Some (NextRequest w)), created (ModuleId Module) (made Module fx tc) w)"
    and create_fails: "valid_case fx tc \<Longrightarrow> \<not> AllocOk w (NextRequest w) \<Longrightarrow>
      Create Module fx tc w = ((E_OUTOFMEMORY, None), w\<lparr>NextRequest := NextRequest w + 1\<rparr>)"
    and create_codes: "Create Module fx tc w = ((Hr, a), w') \<Longrightarrow> Hr \<noteq> E_ACCESSDENIED"
    and made_deleted: "counted Module \<Longrightarrow>
      delete_leaf (Some (made Module fx tc)) = deref_module (ModuleId Module)"
begin

lemma add_one:
  assumes "collecting Seq base items w" and "counted Module" and "Filter fx = (True, tc)" and "valid_case fx tc"
  shows "(\<exists>w'. add_fixtures Filter Create Seq Module (fx # fxs) Hr w = Some (E_OUTOFMEMORY, w')
            \<and> collecting Seq base items w' \<and> same_side w w' \<and> (\<exists>i. \<not> AllocOk w i))
       \<or> (\<exists>w'. add_fixtures Filter Create Seq Module (fx # fxs) Hr w =
              add_fixtures Filter Create Seq Module fxs S_OK w'
            \<and> collecting Seq base (items @ [(ModuleId Module, made Module fx tc)]) w'
            \<and> same_side w w' \<and> FixtureCount w' = FixtureCount w + 1)"
proof -
  let ?n = "NextRequest w" and ?l = "made Module fx tc" and ?m = "ModuleId Module" and ?h = "Heap (Runner w)"
  obtain es where es: "entries_at Seq es items w" and cnt: "module_counts base items w"
    using assms(1) by (auto simp: collecting_def)
  have n: "?n \<notin> set es" "?n \<noteq> Seq" and look: "fmlookup ?h Seq = Some (single_sequence es)" "fmlookup ?h ?n = None"
    using es by (auto simp: entries_at_def)
  show ?thesis
  proof (cases "AllocOk w ?n")
    case False
    with create_fails [OF assms(4)] assms(3) collecting_bump [OF assms(1)] show ?thesis
      by (auto simp: same_side_def)
  next
    case True
    note c = create_ok [OF assms(2,4) True]
    let ?w1 = "created ?m ?l w"
    have w1: "NextRequest ?w1 = ?n + 1" "AllocOk ?w1 = AllocOk w"
        "Heap (Runner ?w1) = fmupd ?n single_leaf ?h" "Contents ?w1 = (Contents w)(?n := Some ?l)"
        "Ambient (Runner ?w1) = ref_module ?m (Ambient (Runner w))" "FixtureCount ?w1 = FixtureCount w + 1"
      by (simp_all add: created_def put_leaf_def)
    show ?thesis
    proof (cases "AllocOk w (?n + 1)")
      case False
      let ?w2 = "?w1\<lparr>NextRequest := ?n + 2, Runner := (Runner ?w1)\<lparr>Heap := fmupd ?n single_leaf ?h\<rparr>\<rparr>"
      let ?w' = "?w2\<lparr>Runner := (Runner w)\<lparr>Heap := fmdrop ?n (fmupd ?n single_leaf ?h)\<rparr>\<rparr>"
      have "CfixAddEntrySequenceAction False Seq ?n (Heap (Runner ?w1)) = Some (E_OUTOFMEMORY, Heap (Runner ?w1))"
        using n look w1(3) by (simp add: CfixAddEntrySequenceAction_def)
      moreover have "release_action ?n ?w2 = Some ?w'"
        using w1 made_deleted [OF assms(2), of fx tc] n
        by (simp add: release_action_def)
      ultimately have "add_fixtures Filter Create Seq Module (fx # fxs) Hr w = Some (E_OUTOFMEMORY, ?w')"
        using assms(3) c False w1 by (simp add: alloc_def)
      moreover have "entries_at Seq es items ?w'"
        by (rule entries_dropped [OF es refl]) (use w1 look in auto)
      moreover have "module_counts base items ?w'" using cnt by (simp add: module_counts_def)
      ultimately show ?thesis using False w1(2) by (auto simp: collecting_def same_side_def)
    next
      case True
      let ?h2 = "fmupd Seq (single_sequence (es @ [?n])) (fmupd ?n (single_leaf\<lparr>RefCount := 2\<rparr>) (fmupd ?n single_leaf ?h))"
      let ?w2 = "?w1\<lparr>NextRequest := ?n + 2, Runner := (Runner ?w1)\<lparr>Heap := ?h2\<rparr>\<rparr>"
      let ?w' = "?w2\<lparr>Runner := (Runner ?w1)\<lparr>Heap := fmupd ?n single_leaf ?h2\<rparr>\<rparr>"
      have "CfixAddEntrySequenceAction True Seq ?n (Heap (Runner ?w1)) = Some (S_OK, ?h2)"
        using n look w1(3) by (simp add: CfixAddEntrySequenceAction_def action_reference_def)
      moreover have "release_action ?n ?w2 = Some ?w'"
        using n by (simp add: release_action_def)
      ultimately have "add_fixtures Filter Create Seq Module (fx # fxs) Hr w =
          add_fixtures Filter Create Seq Module fxs S_OK ?w'"
        using assms(3) c True w1 by (simp add: alloc_def)
      moreover have "entries_at Seq (es @ [?n]) (items @ [(?m, ?l)]) ?w'"
        by (rule entries_added [OF es refl]) (use w1 n in auto)
      moreover have "module_counts base (items @ [(?m, ?l)]) ?w'"
        by (rule counts_added [OF cnt made_deleted [OF assms(2)]]) (use w1 in simp)
      ultimately show ?thesis using w1 by (auto simp: collecting_def same_side_def)
    qed
  qed
qed

lemma add_all:
  assumes "counted Module"
  shows "collecting Seq base items w \<Longrightarrow> cases_valid Filter fxs \<Longrightarrow>
    \<exists>Hr w' items'. add_fixtures Filter Create Seq Module fxs S_OK w = Some (Hr, w')
      \<and> collecting Seq base items' w' \<and> same_side w w'
      \<and> set items' \<subseteq> set items \<union> set (plan_of made Filter Module fxs)
      \<and> (Hr = E_OUTOFMEMORY \<and> (\<exists>i. \<not> AllocOk w i)
         \<or> Hr = S_OK \<and> items' = items @ plan_of made Filter Module fxs
           \<and> FixtureCount w' = FixtureCount w + of_nat (length (plan_of made Filter Module fxs)))"
proof (induction fxs arbitrary: items w)
  case Nil
  then show ?case by (auto simp: plan_of_def selected_def)
next
  case (Cons fx fxs)
  have v: "cases_valid Filter fxs" "fst (Filter fx) \<Longrightarrow> valid_case fx (snd (Filter fx))"
    using Cons.prems(2) by (auto simp: cases_valid_def)
  show ?case
  proof (cases "fst (Filter fx)")
    case False
    then have "plan_of made Filter Module (fx # fxs) = plan_of made Filter Module fxs"
      by (simp add: plan_of_def selected_def)
    with False Cons.IH [OF Cons.prems(1) v(1)] show ?thesis
      by (cases "Filter fx") auto
  next
    case True
    let ?it = "(ModuleId Module, made Module fx (snd (Filter fx)))"
    have f: "Filter fx = (True, snd (Filter fx))" using True by (cases "Filter fx") auto
    have p: "plan_of made Filter Module (fx # fxs) = ?it # plan_of made Filter Module fxs"
      using True by (simp add: plan_of_def selected_def)
    from add_one [where Filter = Filter and fx = fx and tc = "snd (Filter fx)" and fxs = fxs and Hr = S_OK,
        OF Cons.prems(1) assms f v(2) [OF True]] show ?thesis
    proof (elim disjE exE conjE)
      fix w' i
      assume "add_fixtures Filter Create Seq Module (fx # fxs) S_OK w = Some (E_OUTOFMEMORY, w')"
        "collecting Seq base items w'" "same_side w w'" "\<not> AllocOk w i"
      then show ?thesis by (intro exI [of _ E_OUTOFMEMORY] exI [of _ w'] exI [of _ items]) auto
    next
      fix w'
      assume step: "add_fixtures Filter Create Seq Module (fx # fxs) S_OK w =
          add_fixtures Filter Create Seq Module fxs S_OK w'"
        and c: "collecting Seq base (items @ [?it]) w'" and side: "same_side w w'"
        and cnt: "FixtureCount w' = FixtureCount w + 1"
      from Cons.IH [OF c v(1)] obtain Hr w'' items' where r:
        "add_fixtures Filter Create Seq Module fxs S_OK w' = Some (Hr, w'')"
        "collecting Seq base items' w''" "same_side w' w''"
        "set items' \<subseteq> set (items @ [?it]) \<union> set (plan_of made Filter Module fxs)"
        "Hr = E_OUTOFMEMORY \<and> (\<exists>i. \<not> AllocOk w' i)
         \<or> Hr = S_OK \<and> items' = (items @ [?it]) @ plan_of made Filter Module fxs
           \<and> FixtureCount w'' = FixtureCount w' + of_nat (length (plan_of made Filter Module fxs))"
        by blast
      have "AllocOk w' = AllocOk w" using side by (simp add: same_side_def)
      with r step side cnt show ?thesis
        by (intro exI [of _ Hr] exI [of _ w''] exI [of _ items'])
          (auto simp: p add.commute add.left_commute intro: same_side_trans)
    qed
  qed
qed

end

section \<open>One module of the search\<close>

definition loaded_before :: "(nat \<times> 'u leaf) list \<Rightarrow> 'u sel_world \<Rightarrow> bool" where
  "loaded_before items w \<longleftrightarrow> (\<forall>(m, l) \<in> set items. m < Loaded (Ambient (Runner w)))"

lemma module_opened:
  assumes "collecting Seq (\<lambda>_. 0) items w" and "loaded_before items w" and "k = Loaded (Ambient (Runner w))"
  shows "collecting Seq (\<lambda>m. if m = k then 1 else 0) items
     (w\<lparr>Runner := (Runner w)\<lparr>Ambient := (Ambient (Runner w))\<lparr>ModuleRefs := (ModuleRefs (Ambient (Runner w)))(k := 1),
         Loaded := l, RunnerState := u\<rparr>\<rparr>\<rparr>)"
proof -
  have "k \<notin> fst ` set items" using assms(2,3) by (auto simp: loaded_before_def)
  then have "count_list (map fst items) k = 0" by (simp add: count_list_0_iff)
  with assms(1) show ?thesis
    by (auto simp: collecting_def entries_at_def module_counts_def fun_eq_iff)
qed

lemma module_closed:
  assumes "collecting Seq (\<lambda>m. if m = k then 1 else 0) items w"
  shows "collecting Seq (\<lambda>_. 0) items (deref_world k w)"
  using assms
  by (auto simp: collecting_def entries_at_def module_counts_def deref_world_def fun_eq_iff)

lemma side_changed:
  assumes "collecting Seq base items w"
  shows "collecting Seq base items
     (w\<lparr>Runner := (Runner w)\<lparr>Ambient := (Ambient (Runner w))\<lparr>RunnerState := u\<rparr>\<rparr>\<rparr>)"
  using assms by (auto simp: collecting_def entries_at_def module_counts_def)

definition after_load :: "'u loader \<Rightarrow> wstring \<times> module_type \<Rightarrow> nat \<times> 'u \<Rightarrow> nat \<times> 'u" where
  "after_load load m s =
     (case load (snd m) (fst m) (snd s) of
        (Inl _, u) \<Rightarrow> (fst s, u) | (Inr _, u) \<Rightarrow> (fst s + 1, u))"

lemma plan_Cons:
  "plan made load Filter (m # ms) k u =
     plan made load Filter [m] k u @ (case after_load load m (k, u) of (k, u) \<Rightarrow> plan made load Filter ms k u)"
  by (cases m; cases "load (snd m) (fst m) u") (auto simp: after_load_def split: sum.split)

text \<open>The state of a collection between two modules.\<close>

definition between :: "nat \<Rightarrow> (nat \<times> 'u leaf) list \<Rightarrow> 'u sel_world \<Rightarrow> bool" where
  "between Seq items w \<longleftrightarrow> collecting Seq (\<lambda>_. 0) items w \<and> loaded_before items w"

abbreviation side :: "'u sel_world \<Rightarrow> nat \<times> 'u" where
  "side w \<equiv> (Loaded (Ambient (Runner w)), RunnerState (Ambient (Runner w)))"

context fixture_actions
begin

lemma plan_of_old:
  "set items' \<subseteq> set items \<union> set (plan_of made Filter Module fxs) \<Longrightarrow> loaded_before items w \<Longrightarrow>
   Loaded (Ambient (Runner w)) = ModuleId Module \<Longrightarrow> Loaded (Ambient (Runner w')) = ModuleId Module + 1 \<Longrightarrow>
   loaded_before items' w'"
  by (fastforce simp: loaded_before_def plan_of_def)

lemma add_dll:
  assumes "between Seq items w" and "loads_valid load Filter"
  shows "\<exists>Hr w' items'. CfixrunsAddFixturesOfDllToSequenceAction load Filter Create Seq p ty True w = Some (Hr, w')
      \<and> between Seq items' w' \<and> AllocOk w' = AllocOk w
      \<and> (Hr = E_OUTOFMEMORY \<and> (\<exists>i. \<not> AllocOk w i)
         \<or> Hr = S_OK \<and> items' = items @ plan made load Filter [(p, ty)] (fst (side w)) (snd (side w))
           \<and> side w' = after_load load (p, ty) (side w)
           \<and> FixtureCount w' = FixtureCount w
               + of_nat (length (plan made load Filter [(p, ty)] (fst (side w)) (snd (side w)))))"
proof -
  let ?s = "Ambient (Runner w)"
  obtain r u where l: "load ty p (RunnerState ?s) = (r, u)" by (cases "load ty p (RunnerState ?s)")
  have c: "collecting Seq (\<lambda>_. 0) items w" and old: "loaded_before items w"
    using assms(1) by (simp_all add: between_def)
  show ?thesis
  proof (cases r)
    case (Inl Hr)
    let ?w' = "w\<lparr>Runner := (Runner w)\<lparr>Ambient := ?s\<lparr>RunnerState := u\<rparr>\<rparr>\<rparr>"
    have "between Seq items ?w'"
      using side_changed [OF c] old by (simp add: between_def loaded_before_def)
    with Inl l show ?thesis
      by (intro exI [of _ S_OK] exI [of _ ?w'] exI [of _ items])
        (simp add: CfixrunsAddFixturesOfDllToSequenceAction_def load_module_def after_load_def)
  next
    case (Inr cf)
    obtain code fxs where cf: "cf = (code, fxs)" by (cases cf)
    define k where "k = Loaded ?s"
    define M where "M = \<lparr>ModuleId = k, ModuleCode = counted_module k code, ModuleFixtures = fxs\<rparr>"
    define w1 where "w1 = w\<lparr>Runner := (Runner w)\<lparr>Ambient := ?s\<lparr>ModuleRefs := (ModuleRefs ?s)(k := 1),
        Loaded := k + 1, RunnerState := u\<rparr>\<rparr>\<rparr>"
    have M: "counted M" "ModuleId M = k" "ModuleFixtures M = fxs" by (auto simp: counted_def M_def)
    have valid: "cases_valid Filter fxs"
      using assms(2) l Inr cf unfolding loads_valid_def by blast
    have open1: "collecting Seq (\<lambda>m. if m = k then 1 else 0) items w1"
      unfolding w1_def by (rule module_opened [OF c old k_def])
    from add_all [OF M(1) open1 valid] obtain Hr w2 items' where r:
      "add_fixtures Filter Create Seq M fxs S_OK w1 = Some (Hr, w2)"
      "collecting Seq (\<lambda>m. if m = k then 1 else 0) items' w2" "same_side w1 w2"
      "set items' \<subseteq> set items \<union> set (plan_of made Filter M fxs)"
      "Hr = E_OUTOFMEMORY \<and> (\<exists>i. \<not> AllocOk w1 i)
       \<or> Hr = S_OK \<and> items' = items @ plan_of made Filter M fxs
         \<and> FixtureCount w2 = FixtureCount w1 + of_nat (length (plan_of made Filter M fxs))"
      by blast
    let ?w' = "deref_world k w2"
    have run: "CfixrunsAddFixturesOfDllToSequenceAction load Filter Create Seq p ty True w = Some (Hr, ?w')"
      using l Inr cf r(1) M(3)
      by (simp add: CfixrunsAddFixturesOfDllToSequenceAction_def load_module_def
          CfixrunsAddFixturesOfModuleToSequenceAction_def M_def k_def w1_def)
    have s: "side ?w' = (k + 1, u)" "AllocOk ?w' = AllocOk w" "AllocOk w1 = AllocOk w"
        "FixtureCount w1 = FixtureCount w" "FixtureCount ?w' = FixtureCount w2"
      using r(3) by (simp_all add: same_side_def w1_def deref_world_def)
    have "between Seq items' ?w'"
      unfolding between_def
      using module_closed [OF r(2)] plan_of_old [OF r(4) old, of ?w'] s(1) M(2) by (simp add: k_def)
    moreover have "plan made load Filter [(p, ty)] (fst (side w)) (snd (side w)) = plan_of made Filter M fxs"
      using l Inr cf by (simp add: M_def k_def)
    moreover have "after_load load (p, ty) (side w) = (k + 1, u)"
      using l Inr by (simp add: after_load_def k_def)
    ultimately show ?thesis using run s r(5)
      by (intro exI [of _ Hr] exI [of _ ?w'] exI [of _ items']) (simp add: s(1) del: plan.simps)
  qed
qed

lemma collect_modules:
  assumes "loads_valid load Filter"
  shows "between Seq items w \<Longrightarrow>
    \<exists>Hr w' items'. visit_modules (CfixrunsAddFixturesOfDllToSequenceAction load Filter Create Seq) ms w = Some (Hr, w')
      \<and> between Seq items' w'
      \<and> (Hr = E_OUTOFMEMORY \<and> (\<exists>i. \<not> AllocOk w i)
         \<or> Hr = S_OK \<and> items' = items @ plan made load Filter ms (fst (side w)) (snd (side w))
           \<and> FixtureCount w' = FixtureCount w
               + of_nat (length (plan made load Filter ms (fst (side w)) (snd (side w)))))"
proof (induction ms arbitrary: items w)
  case Nil
  then show ?case by auto
next
  case (Cons m ms)
  obtain p ty where m: "m = (p, ty)" by (cases m)
  let ?cb = "CfixrunsAddFixturesOfDllToSequenceAction load Filter Create Seq"
  define p1 where "p1 = plan made load Filter [(p, ty)] (fst (side w)) (snd (side w))"
  from add_dll [OF Cons.prems assms, of p ty] obtain Hr w1 items1 where one:
    "?cb p ty True w = Some (Hr, w1)" "between Seq items1 w1" "AllocOk w1 = AllocOk w"
    and res: "Hr = E_OUTOFMEMORY \<and> (\<exists>i. \<not> AllocOk w i)
      \<or> Hr = S_OK \<and> items1 = items @ p1 \<and> side w1 = after_load load (p, ty) (side w)
        \<and> FixtureCount w1 = FixtureCount w + of_nat (length p1)"
    unfolding p1_def by blast
  show ?case
  proof (cases "FAILED Hr")
    case True
    with one res m show ?thesis
      by (intro exI [of _ Hr] exI [of _ w1] exI [of _ items1]) (auto simp del: plan.simps)
  next
    case False
    with res have ok: "Hr = S_OK" "items1 = items @ p1" "side w1 = after_load load (p, ty) (side w)"
        "FixtureCount w1 = FixtureCount w + of_nat (length p1)" by auto
    define p2 where "p2 = plan made load Filter ms (fst (side w1)) (snd (side w1))"
    have p: "plan made load Filter (m # ms) (fst (side w)) (snd (side w)) = p1 @ p2"
      unfolding p1_def p2_def ok(3) m
      by (subst plan_Cons) (simp only: prod.collapse case_prod_unfold)
    from Cons.IH [OF one(2)] obtain Hr' w2 items2 where
      "visit_modules ?cb ms w1 = Some (Hr', w2)" "between Seq items2 w2"
      "Hr' = E_OUTOFMEMORY \<and> (\<exists>i. \<not> AllocOk w1 i)
       \<or> Hr' = S_OK \<and> items2 = items1 @ p2 \<and> FixtureCount w2 = FixtureCount w1 + of_nat (length p2)"
      unfolding p2_def by blast
    with one ok m show ?thesis
      unfolding p by (intro exI [of _ Hr'] exI [of _ w2] exI [of _ items2]) (auto simp: add.assoc)
  qed
qed

lemma add_codes:
  "add_fixtures Filter Create Seq Module fxs Hr w = Some (Hr', w') \<Longrightarrow> Hr \<noteq> E_ACCESSDENIED \<Longrightarrow>
     Hr' \<noteq> E_ACCESSDENIED"
proof (induction fxs arbitrary: Hr w)
  case (Cons fx fxs)
  show ?case
  proof (cases "fst (Filter fx)")
    case False
    with Cons show ?thesis by (cases "Filter fx") auto
  next
    case True
    obtain hc ac w1 where c: "Create Module fx (snd (Filter fx)) w = ((hc, ac), w1)"
      by (metis prod.collapse)
    note hc = create_codes [OF c]
    show ?thesis
    proof (cases "ac = None \<or> FAILED hc")
      case fail: True
      with Cons.prems True c hc show ?thesis by (cases "Filter fx"; cases ac) auto
    next
      case False
      obtain a where a: "ac = Some a" using False by auto
      obtain room w2 where al: "alloc w1 = (room, w2)" by (cases "alloc w1")
      with a False Cons.prems(1) True c have "\<exists>ha h w3.
          CfixAddEntrySequenceAction (room \<noteq> None) Seq a (Heap (Runner w2)) = Some (ha, h)
          \<and> (Hr' = ha \<or> add_fixtures Filter Create Seq Module fxs ha w3 = Some (Hr', w'))"
        by (cases "Filter fx") (force simp: bind_Some_iff split: if_splits)
      then obtain ha h w3 where
        e: "CfixAddEntrySequenceAction (room \<noteq> None) Seq a (Heap (Runner w2)) = Some (ha, h)"
        and rest: "Hr' = ha \<or> add_fixtures Filter Create Seq Module fxs ha w3 = Some (Hr', w')"
        by blast
      have "ha \<noteq> E_ACCESSDENIED"
        using e by (auto simp: CfixAddEntrySequenceAction_def bind_Some_iff
            split: option.splits action_body.splits if_splits)
      with rest Cons.IH show ?thesis by auto
    qed
  qed
qed simp

lemma add_dll_never_denied:
  "never_denied (CfixrunsAddFixturesOfDllToSequenceAction load Filter Create Seq)"
  unfolding never_denied_def
proof (intro allI impI)
  fix p ty w Hr w'
  assume run: "CfixrunsAddFixturesOfDllToSequenceAction load Filter Create Seq p ty True w = Some (Hr, w')"
  show "Hr \<noteq> E_ACCESSDENIED"
  proof (cases "load_module load ty p (Ambient (Runner w))")
    case (Pair r s)
    with run show ?thesis
      by (cases r) (auto simp: CfixrunsAddFixturesOfDllToSequenceAction_def
          CfixrunsAddFixturesOfModuleToSequenceAction_def bind_Some_iff dest!: add_codes)
  qed
qed

end

section \<open>The whole search\<close>

definition fresh_world :: "'u sel_world \<Rightarrow> bool" where
  "fresh_world w \<longleftrightarrow> Heap (Runner w) = fmempty \<and> ModuleRefs (Ambient (Runner w)) = (\<lambda>_. 0)
     \<and> Loaded (Ambient (Runner w)) = 0 \<and> Contents w = (\<lambda>_. None)"

lemma create_sequence_cases:
  assumes "fresh_world w"
  shows "(\<not> AllocOk w (NextRequest w) \<and>
           create_sequence w = ((E_OUTOFMEMORY, None), w\<lparr>NextRequest := NextRequest w + 1\<rparr>))
       \<or> (\<exists>w'. create_sequence w = ((S_OK, Some (NextRequest w)), w') \<and> between (NextRequest w) [] w'
            \<and> side w' = side w \<and> AllocOk w' = AllocOk w \<and> FixtureCount w' = FixtureCount w)"
proof (cases "AllocOk w (NextRequest w)")
  case True
  let ?n = "NextRequest w"
  let ?w' = "w\<lparr>NextRequest := ?n + 1, Runner := (Runner w)\<lparr>Heap := fmupd ?n (single_sequence []) (Heap (Runner w))\<rparr>\<rparr>"
  have "create_sequence w = ((S_OK, Some ?n), ?w')"
    using True by (simp add: create_sequence_def alloc_def CfixCreateSequenceAction_def)
  moreover have "entries_at ?n [] [] ?w'" using assms by (simp add: entries_at_def fresh_world_def)
  moreover have "module_counts (\<lambda>_. 0) [] ?w'" using assms by (simp add: module_counts_def fresh_world_def)
  ultimately show ?thesis
    by (auto simp: between_def collecting_def loaded_before_def)
next
  case False
  then show ?thesis by (simp add: create_sequence_def alloc_def CfixCreateSequenceAction_def)
qed

text \<open>Where the search starts: a directory with the tree \<open>ns\<close> below it, and enough fuel.\<close>

definition searchable :: "file_system \<Rightarrow> wstring \<Rightarrow> node list \<Rightarrow> nat \<Rightarrow> bool" where
  "searchable fs p ns n \<longleftrightarrow>
     (\<exists>a. FileAttributes fs p = Some a \<and> FILE_ATTRIBUTE_DIRECTORY AND a \<noteq> 0)
     \<and> tree_at fs (Folder p ns) \<and> paths_grow fs \<and> MAX_PATH + 2 \<le> n"

text \<open>Nothing of an attempt is left.\<close>

definition nothing_left :: "'u sel_world \<Rightarrow> bool" where
  "nothing_left w \<longleftrightarrow> Heap (Runner w) = fmempty \<and> ModuleRefs (Ambient (Runner w)) = (\<lambda>_. 0)"

context fixture_actions
begin

lemma search_collects:
  assumes "fresh_world w" and "searchable fs p ns n" and "loads_valid load Filter"
  shows "\<exists>Hr a w'. CfixrunpSearchFixturesAndCreateSequenceAction n fs load (Some p) rec inc Filter Create w =
      Some ((Hr, a), w')
    \<and> (case a of
         None \<Rightarrow> Hr = E_OUTOFMEMORY \<and> (\<exists>i. \<not> AllocOk w i) \<and> nothing_left w'
       | Some Seq \<Rightarrow> Hr = S_OK
           \<and> collecting Seq (\<lambda>_. 0)
               (plan made load Filter (modules_in inc (files_in rec ns)) 0 (snd (side w))) w'
           \<and> FixtureCount w' = FixtureCount w + of_nat (length
               (plan made load Filter (modules_in inc (files_in rec ns)) 0 (snd (side w)))))"
  using create_sequence_cases [OF assms(1)]
proof (elim disjE exE conjE)
  assume "\<not> AllocOk w (NextRequest w)"
    "create_sequence w = ((E_OUTOFMEMORY, None), w\<lparr>NextRequest := NextRequest w + 1\<rparr>)"
  with assms(1) show ?thesis
    by (auto simp: CfixrunpSearchFixturesAndCreateSequenceAction_def fresh_world_def nothing_left_def)
next
  fix w1
  let ?n = "NextRequest w"
  let ?cb = "CfixrunsAddFixturesOfDllToSequenceAction load Filter Create ?n"
  define ms where "ms = modules_in inc (files_in rec ns)"
  define P where "P = plan made load Filter ms 0 (snd (side w))"
  assume w1: "create_sequence w = ((S_OK, Some ?n), w1)" "between ?n [] w1" "side w1 = side w"
    "AllocOk w1 = AllocOk w" "FixtureCount w1 = FixtureCount w"
  have start: "fst (side w1) = 0" "snd (side w1) = snd (side w)"
    using w1(3) assms(1) by (simp_all add: fresh_world_def)
  from collect_modules [OF assms(3) w1(2), of ms] obtain Hr w2 items where v:
    "visit_modules ?cb ms w1 = Some (Hr, w2)" "between ?n items w2"
    and res: "Hr = E_OUTOFMEMORY \<and> (\<exists>i. \<not> AllocOk w1 i)
      \<or> Hr = S_OK \<and> items = [] @ P \<and> FixtureCount w2 = FixtureCount w1 + of_nat (length P)"
    unfolding P_def start by blast
  from assms(2) have "map_option success_ok (CfixrunSearchModules n fs (Some p) rec inc (Some ?cb) w1) =
      visit_modules ?cb ms w1"
    unfolding searchable_def ms_def by (elim conjE exE) (rule search_visits [OF _ _ _ _ _ add_dll_never_denied])
  with v(1) obtain Hr' where r: "CfixrunSearchModules n fs (Some p) rec inc (Some ?cb) w1 = Some (Hr', w2)"
    and h: "FAILED Hr' = FAILED Hr" "FAILED Hr \<Longrightarrow> Hr' = Hr"
    by (auto simp: success_ok_def split: if_splits)
  have c: "collecting ?n (\<lambda>_. 0) items w2" using v(2) by (simp add: between_def)
  show ?thesis
  proof (cases "FAILED Hr")
    case True
    with res w1(4) have oom: "Hr = E_OUTOFMEMORY" "\<exists>i. \<not> AllocOk w i" by auto
    from release_collected [OF c] obtain w3 where "release_action ?n w2 = Some w3" "nothing_left w3"
      by (auto simp: nothing_left_def)
    with oom w1(1) r h True show ?thesis
      by (intro exI [of _ E_OUTOFMEMORY] exI [of _ None] exI [of _ w3])
        (simp add: CfixrunpSearchFixturesAndCreateSequenceAction_def hand_over_def)
  next
    case False
    with res have "items = P" "FixtureCount w2 = FixtureCount w1 + of_nat (length P)" by auto
    with False w1 r h c show ?thesis
      unfolding P_def ms_def
      by (intro exI [of _ S_OK] exI [of _ "Some ?n"] exI [of _ w2])
        (simp add: CfixrunpSearchFixturesAndCreateSequenceAction_def hand_over_def)
  qed
qed

end

end
