(* ===== verification/SelectionRun.thy ===== *)
theory SelectionRun
  imports SelectionInv CmdLineInv
begin

text \<open>
  The runner from the search to the run: the contract \<open>fixture_actions\<close> is discharged for both
  kinds of actions, and the assembled sequence is run through the refinement of nested sequences
  to the list of their fixtures.
\<close>

section \<open>Both kinds of actions\<close>

definition exec_leaf :: "run_options \<Rightarrow> 'u module_obj \<Rightarrow> fixture \<Rightarrow> ulong \<Rightarrow> 'u leaf" where
  "exec_leaf Options Module fx tc =
     ExecLeaf \<lparr>ActionSignatureOk = True, ActionReferenceCount = 1, ActionFixture = fx,
               ActionModule = ModuleCode Module, ActionFlags = execution_flags Options, TestCaseIndex = tc\<rparr>"

definition display_leaf :: "'u module_obj \<Rightarrow> fixture \<Rightarrow> ulong \<Rightarrow> 'u leaf" where
  "display_leaf Module fx tc = DisplayLeaf \<lparr>DisplayModule = ModuleId Module, DisplayFixture = fx\<rparr>"

lemma not_valid_case: "(tc \<noteq> - 1 \<and> of_nat (TestCaseCount fx) \<le> tc) \<longleftrightarrow> \<not> valid_case fx tc"
  by (auto simp: valid_case_def not_less)

interpretation execution: fixture_actions "CfixrunsCreateTsExecAction opts" "exec_leaf opts"
  for opts :: run_options
proof (unfold_locales, goal_cases)
  case (1 Module fx tc w)
  then show ?case
    by (auto simp: CfixrunsCreateTsExecAction_def CfixCreateFixtureExecutionAction_def not_valid_case
        alloc_def count_created_def created_def put_leaf_def exec_leaf_def counted_def counted_module_def)
next
  case (2 fx tc w Module)
  then show ?case
    by (simp add: CfixrunsCreateTsExecAction_def CfixCreateFixtureExecutionAction_def not_valid_case
        alloc_def count_created_def)
next
  case (3 Module fx tc w Hr a w')
  then show ?case
    by (auto simp: CfixrunsCreateTsExecAction_def CfixCreateFixtureExecutionAction_def
        alloc_def count_created_def Let_def split: if_splits option.splits)
next
  case (4 Module fx tc)
  then show ?case
    by (auto simp: exec_leaf_def CfixsDeleteFixtureExecutionAction_def counted_def counted_module_def fun_eq_iff)
qed

interpretation display: fixture_actions CfixrunsCreateDisplayAction display_leaf
  by unfold_locales
    (auto simp: CfixrunsCreateDisplayAction_def CfixrunpCreateDisplayAction_def alloc_def count_created_def
      created_def put_leaf_def display_leaf_def CfixrunsDeleteDisplayAction_def split: if_splits)

section \<open>Running what was collected\<close>

fun run_plan ::
    "('u leaf \<Rightarrow> 'u runner \<Rightarrow> (hresult \<times> 'u runner) option) \<Rightarrow> 'u leaf list \<Rightarrow> 'u runner \<Rightarrow>
       (hresult \<times> 'u runner) option" where
  "run_plan Run [] s = Some (S_OK, s)"
| "run_plan Run (l # ls) s =
     do { (Hr, s) \<leftarrow> Run l s; if FAILED Hr then Some (Hr, s) else run_plan Run ls s }"

lemma run_leaves_contents:
  "map (Contents w) es = map (Some \<circ> snd) items \<Longrightarrow>
     run_leaves (run_contents Run w) es s = run_plan Run (map snd items) s"
proof (induction es arbitrary: items s)
  case (Cons e es)
  then obtain it items' where "items = it # items'" by (cases items) auto
  with Cons have e: "Contents w e = Some (snd it)"
    and "run_leaves (run_contents Run w) es = run_plan Run (map snd items')"
    by (auto simp: fun_eq_iff)
  moreover from e have "run_contents Run w e = Run (snd it)" by (simp add: run_contents_def fun_eq_iff)
  ultimately show ?case using \<open>items = it # items'\<close> by (simp cong: if_cong)
qed simp

lemma collected_runs:
  assumes "collecting Seq base items w" and "2 \<le> m"
  shows "map_option success_ok (run_action m (on_ambient (run_contents Run w)) Seq (Runner w)) =
         map_option (in_world (Runner w)) (run_plan Run (map snd items) (Ambient (Runner w)))"
proof -
  let ?h = "Heap (Runner w)"
  obtain es where es: "entries_at Seq es items w" using assms(1) by (auto simp: collecting_def)
  have nested: "well_nested (\<lambda>x. if x = Seq then 1 else 0) ?h"
    using es by (auto simp: well_nested_def entries_at_def split: if_splits)
  have look: "fmlookup ?h Seq = Some (single_sequence es)"
      "\<forall>e \<in> set es. fmlookup ?h e = Some single_leaf"
    using es by (auto simp: entries_at_def)
  obtain k where m: "m = Suc (Suc k)" using le_Suc_ex [OF assms(2)] by auto
  have leaf: "map (flatten (Suc k) ?h) es = map (\<lambda>e. [e]) es" using look(2) by simp
  have "flatten (Suc (Suc k)) ?h Seq = concat (map (flatten (Suc k) ?h) es)"
    by (rule flatten_Sequence [OF look(1)]) simp
  then have flat: "flatten m ?h Seq = es" unfolding m leaf by simp
  have "map (Contents w) es = map (Some \<circ> snd) items" using es by (simp add: entries_at_def)
  then show ?thesis
    using run_action_leaves [OF nested, of Seq m "run_contents Run w"] look(1) assms(2)
    by (simp add: flat run_leaves_contents)
qed

section \<open>Valid cases\<close>

definition loads_small :: "'u loader \<Rightarrow> bool" where
  "loads_small load \<longleftrightarrow> (\<forall>ty p u code fxs u'. load ty p u = (Inr (code, fxs), u') \<longrightarrow>
     (\<forall>fx \<in> set fxs. TestCaseCount fx < 2 ^ 32))"

lemma find_test_case_less: "find_test_case fx Name = Some i \<Longrightarrow> i < TestCaseCount fx"
  by (auto simp: find_test_case_def find_Some_iff)

lemma of_nat_less_ulong: "i < j \<Longrightarrow> j < 2 ^ 32 \<Longrightarrow> (of_nat i :: ulong) < of_nat j"
  by (simp add: word_less_nat_alt unat_of_nat)

lemma filter_valid:
  "TestCaseCount fx < 2 ^ 32 \<Longrightarrow> valid_case fx (snd (CfixrunsFilterFixtureByName StrStrI Options fx))"
  by (auto simp: CfixrunsFilterFixtureByName_def valid_case_def Let_def of_nat_less_ulong find_test_case_less
      split: option.splits)

lemma loads_small_valid:
  "loads_small load \<Longrightarrow> loads_valid load (CfixrunsFilterFixtureByName StrStrI Options)"
  unfolding loads_small_def loads_valid_def cases_valid_def by (blast intro: filter_valid)

section \<open>Property\<close>

text \<open>The fixtures a run is made of.\<close>

definition fixtures_to_run ::
    "'u loader \<Rightarrow> (wstring \<Rightarrow> wstring \<Rightarrow> nat option) \<Rightarrow> run_options \<Rightarrow> node list \<Rightarrow> 'u \<Rightarrow> (nat \<times> 'u leaf) list" where
  "fixtures_to_run load StrStrI Options ns u =
     plan (exec_leaf Options) load (CfixrunsFilterFixtureByName StrStrI Options)
       (modules_in (EnableKernelFeatures Options) (files_in (RecursiveSearch Options) ns)) 0 u"

text \<open>Assembling the action collects these fixtures, or memory has run out and nothing is left.\<close>

lemma assembled_collects:
  assumes "fresh_world w" and "searchable fs p ns n" and "loads_small load"
    and "InputFileType Options = CfixrunInputDynamicallyLoadable" and "InputFile Options = Some p"
  shows "\<exists>Hr a w'. CfixrunpAssembleExecutionAction n fs load StrStrI Options w = Some ((Hr, a), w')
    \<and> (case a of
         None \<Rightarrow> Hr = E_OUTOFMEMORY \<and> (\<exists>i. \<not> AllocOk w i) \<and> nothing_left w'
       | Some Seq \<Rightarrow> Hr = S_OK
           \<and> collecting Seq (\<lambda>_. 0) (fixtures_to_run load StrStrI Options ns (snd (side w))) w'
           \<and> FixtureCount w' = of_nat (length (fixtures_to_run load StrStrI Options ns (snd (side w)))))"
proof -
  let ?w = "w\<lparr>FixtureCount := 0\<rparr>"
  have start: "fresh_world ?w" "snd (side ?w) = snd (side w)" using assms(1) by (simp_all add: fresh_world_def)
  from execution.search_collects [where rec = "RecursiveSearch Options" and inc = "EnableKernelFeatures Options"
      and opts = Options, OF start(1) assms(2) loads_small_valid [OF assms(3), of StrStrI Options]]
  obtain Hr a w' where r: "CfixrunpSearchFixturesAndCreateSequenceAction n fs load (Some p)
      (RecursiveSearch Options) (EnableKernelFeatures Options) (CfixrunsFilterFixtureByName StrStrI Options)
      (CfixrunsCreateTsExecAction Options) ?w = Some ((Hr, a), w')"
    and cases: "case a of
         None \<Rightarrow> Hr = E_OUTOFMEMORY \<and> (\<exists>i. \<not> AllocOk ?w i) \<and> nothing_left w'
       | Some Seq \<Rightarrow> Hr = S_OK
           \<and> collecting Seq (\<lambda>_. 0) (fixtures_to_run load StrStrI Options ns (snd (side w))) w'
           \<and> FixtureCount w' = FixtureCount ?w
               + of_nat (length (fixtures_to_run load StrStrI Options ns (snd (side w))))"
    unfolding fixtures_to_run_def start(2) by blast
  have "CfixrunpAssembleExecutionAction n fs load StrStrI Options w = Some ((Hr, a), w')"
    using r assms(4,5) by (simp add: CfixrunpAssembleExecutionAction_def assemble_def)
  moreover have "FixtureCount ?w = 0" "AllocOk ?w = AllocOk w" by simp_all
  ultimately show ?thesis using cases by (cases a) auto
qed

text \<open>
  What is selected is what is run. Searching a directory makes an action which, when run, runs
  exactly the fixtures that pass the filter, of the modules in the order in which the tree of the
  directory lists them, each with the flags of the options and the test case that was named,
  until one fails; the number of fixtures reported is theirs. Releasing the action afterwards
  leaves no action and no reference to any module.
\<close>

lemma selected_fixtures_are_run:
  assumes "fresh_world w" and "searchable fs p ns n" and "loads_small load"
    and "InputFileType Options = CfixrunInputDynamicallyLoadable" and "InputFile Options = Some p"
    and "CfixrunpAssembleExecutionAction n fs load StrStrI Options w = Some ((Hr, Some Seq), w')"
  defines "P \<equiv> fixtures_to_run load StrStrI Options ns (snd (side w))"
  shows "Hr = S_OK" and "FixtureCount w' = of_nat (length P)"
    and "2 \<le> m \<Longrightarrow>
      map_option success_ok
        (run_action m (on_ambient (run_contents (leaf_run dbg tid Print ctx) w')) Seq (Runner w')) =
      map_option (in_world (Runner w')) (run_plan (leaf_run dbg tid Print ctx) (map snd P) (Ambient (Runner w')))"
    and "\<exists>w''. release_action Seq w' = Some w'' \<and> nothing_left w''"
proof -
  from assembled_collects [OF assms(1-5), of StrStrI] assms(6)
  have c: "collecting Seq (\<lambda>_. 0) P w'" and "Hr = S_OK" "FixtureCount w' = of_nat (length P)"
    unfolding P_def by auto
  then show "Hr = S_OK" "FixtureCount w' = of_nat (length P)" by simp_all
  show "\<exists>w''. release_action Seq w' = Some w'' \<and> nothing_left w''"
    using release_collected [OF c] by (auto simp: nothing_left_def)
  show "map_option success_ok
        (run_action m (on_ambient (run_contents (leaf_run dbg tid Print ctx) w')) Seq (Runner w')) =
      map_option (in_world (Runner w')) (run_plan (leaf_run dbg tid Print ctx) (map snd P) (Ambient (Runner w')))"
    if "2 \<le> m"
    by (rule collected_runs [OF c that])
qed

text \<open>A directory with one DLL in it, which has one fixture.\<close>

definition demo_fs :: file_system where
  "demo_fs =
     \<lparr>FileAttributes = (\<lambda>_. Some FILE_ATTRIBUTE_DIRECTORY), FullPathName = (\<lambda>p. Inr (p, None)),
      CurrentDirectory = Inl 0,
      PathCombine = (\<lambda>d x. if length d + length x < 259 then Some (d @ 0x5C # x) else None),
      FindFiles = (\<lambda>e. if e = wide ''d'' @ 0x5C # wide ''*.*''
        then Inr [\<lparr>FileName = wide ''.'', FileAttribs = FILE_ATTRIBUTE_DIRECTORY\<rparr>,
                  \<lparr>FileName = wide ''t.dll'', FileAttribs = 0x20\<rparr>]
        else Inl ERROR_FILE_NOT_FOUND)\<rparr>"

end
