(* ===== verification/ConnectionLive.thy ===== *)
theory ConnectionLive
  imports ConnectionInv
begin

text \<open>
  Progress of a connection: once no new caller looks the connection up and none starts another
  call, every schedule of the remaining steps is finite, and it can only stop when all callers
  have left, the driver is gone and the memory of the connection has been released.
\<close>

section \<open>Quiet steps\<close>

text \<open>A step is quiet unless it brings a new caller in or starts a call into the driver.\<close>

fun quiet :: "conn_action \<Rightarrow> bool" where
  "quiet (LookUp c) = False"
| "quiet (Check c) = False"
| "quiet _ = True"

definition stuck :: "connection \<Rightarrow> bool" where
  "stuck s \<longleftrightarrow> (\<forall>a. quiet a \<longrightarrow> conn_step a s = None)"

lemma stuckD: "stuck s \<Longrightarrow> quiet a \<Longrightarrow> conn_step a s = None"
  by (simp add: stuck_def)

section \<open>A measure that every quiet step decreases\<close>

fun caller_weight :: "caller_pc \<Rightarrow> nat" where
  "caller_weight Outside = 0"
| "caller_weight Holding = 3"
| "caller_weight Refused = 3"
| "caller_weight Calling = 4"
| "caller_weight Checked = 5"

fun driver_weight :: "driver_pc \<Rightarrow> nat" where
  "driver_weight DriverGone = 0"
| "driver_weight DriverReleased = 3"
| "driver_weight DriverLocked = 4"
| "driver_weight DriverRunning = 5"

definition callers_weight :: "connection \<Rightarrow> nat" where
  "callers_weight s = (\<Sum>c\<in>inside s. caller_weight (Callers s c))"

definition remaining :: "connection \<Rightarrow> nat" where
  "remaining s = callers_weight s + driver_weight (Driver s) + 2 * Unregistering s + Freeing s"

lemma caller_weight_le: "caller_weight pc \<le> 5"
  by (cases pc) simp_all

lemma remaining_le:
  assumes "finite (inside s)"
  shows "remaining s \<le> 5 * card (inside s) + 5 + 2 * Unregistering s + Freeing s"
proof -
  have "callers_weight s \<le> (\<Sum>c\<in>inside s. 5)"
    unfolding callers_weight_def by (rule sum_mono) (rule caller_weight_le)
  moreover have "driver_weight (Driver s) \<le> 5" by (cases "Driver s") simp_all
  ultimately show ?thesis by (simp add: remaining_def)
qed

lemma callers_weight_cong:
  "Callers s' = Callers s \<Longrightarrow> callers_weight s' = callers_weight s"
  by (simp add: callers_weight_def inside_def)

text \<open>Moving one caller changes the sum by the weights of its two positions.\<close>

lemma callers_weight_move:
  assumes "finite (inside s)" and "c \<in> inside s" and "Callers s' = (Callers s)(c := pc)"
  shows "callers_weight s' + caller_weight (Callers s c) = callers_weight s + caller_weight pc"
proof -
  have s: "callers_weight s =
      caller_weight (Callers s c) + (\<Sum>d\<in>inside s - {c}. caller_weight (Callers s d))"
    unfolding callers_weight_def by (rule sum.remove [OF assms(1,2)])
  have out: "inside s' - {c} = inside s - {c}" using assms(3) by (auto simp: inside_def)
  have "callers_weight s' =
      caller_weight pc + (\<Sum>d\<in>inside s' - {c}. caller_weight (Callers s' d))"
  proof (cases "c \<in> inside s'")
    case True
    have "finite (inside s')" using out assms(1) by (metis finite_Diff finite_insert insert_Diff_single)
    then have "callers_weight s' = caller_weight (Callers s' c)
        + (\<Sum>d\<in>inside s' - {c}. caller_weight (Callers s' d))"
      unfolding callers_weight_def by (rule sum.remove) (rule True)
    with assms(3) show ?thesis by simp
  next
    case False
    with assms(3) have "pc = Outside" "inside s' - {c} = inside s'" by (auto simp: inside_def)
    then show ?thesis by (simp add: callers_weight_def)
  qed
  moreover have "(\<Sum>d\<in>inside s' - {c}. caller_weight (Callers s' d))
      = (\<Sum>d\<in>inside s - {c}. caller_weight (Callers s d))"
    unfolding out using assms(3) by (intro sum.cong) auto
  ultimately show ?thesis using s by simp
qed

lemma dereference_weight:
  "Unregistering (CfixkrpDereferenceConnection s) \<le> Unregistering s + 1"
  "Freeing (CfixkrpDereferenceConnection s) = Freeing s"
  by (simp_all add: CfixkrpDereferenceConnection_def Let_def)

lemma quiet_step_decreases:
  assumes "conn_inv s" and "quiet a" and "conn_step a s = Some s'"
  shows "remaining s' < remaining s"
proof -
  have fin: "finite (inside s)" using assms(1) by (simp add: conn_inv_def)
  note keep = callers_weight_cong [of s' s]
  show ?thesis
  proof (cases a)
    case (AcquireShared c)
    with assms(3) have "Callers s c = Checked" "Callers s' = (Callers s)(c := Calling)"
      "Driver s' = Driver s" "Unregistering s' = Unregistering s" "Freeing s' = Freeing s" by (auto split: if_splits)
    with callers_weight_move [OF fin, of c s' Calling] show ?thesis
      by (simp add: remaining_def inside_def)
  next
    case (ReleaseShared c)
    with assms(3) have "Callers s c = Calling" "Callers s' = (Callers s)(c := Holding)"
      "Driver s' = Driver s" "Unregistering s' = Unregistering s" "Freeing s' = Freeing s" by (auto split: if_splits)
    with callers_weight_move [OF fin, of c s' Holding] show ?thesis
      by (simp add: remaining_def inside_def)
  next
    case (GiveBack c)
    with assms(3) have "caller_weight (Callers s c) = 3" "c \<in> inside s"
      "Callers s' = (Callers s)(c := Outside)"
      "Driver s' = Driver s" "Unregistering s' = Unregistering (CfixkrpDereferenceConnection s)"
      "Freeing s' = Freeing (CfixkrpDereferenceConnection s)"
      by (auto simp: inside_def split: if_splits)
    with callers_weight_move [OF fin, of c s' Outside] dereference_weight [of s] show ?thesis
      by (simp add: remaining_def)
  next
    case DriverAcquire
    with assms(3) keep show ?thesis by (auto simp: remaining_def split: if_splits)
  next
    case DriverRelease
    with assms(3) keep show ?thesis by (auto simp: remaining_def split: if_splits)
  next
    case DriverDereference
    with assms(3) have "Driver s = DriverReleased" "Callers s' = Callers s"
      "Driver s' = DriverGone" "Unregistering s' = Unregistering (CfixkrpDereferenceConnection s)"
      "Freeing s' = Freeing (CfixkrpDereferenceConnection s)"
      by (auto split: if_splits)
    with keep dereference_weight [of s] show ?thesis by (simp add: remaining_def)
  next
    case Unregister
    with assms(3) keep show ?thesis by (auto simp: remaining_def split: if_splits)
  next
    case FreeConnection
    with assms(3) keep show ?thesis by (auto simp: remaining_def split: if_splits)
  qed (use assms(2) in simp_all)
qed

lemma quiet_run_bounded:
  assumes "conn_inv s" and "\<forall>a\<in>set as. quiet a" and "conn_run as s = Some s'"
  shows "length as \<le> remaining s"
  using assms
proof (induction as arbitrary: s)
  case (Cons a as)
  then obtain t where t: "conn_step a s = Some t" "conn_run as t = Some s'"
    by (auto split: option.splits)
  have "conn_inv t" using conn_step_inv [OF Cons.prems(1) t(1)] .
  with Cons t have "length as \<le> remaining t" by simp
  moreover have "remaining t < remaining s"
    using quiet_step_decreases [OF Cons.prems(1) _ t(1)] Cons.prems(2) by simp
  ultimately show ?case by simp
qed simp

section \<open>Where quiet runs stop\<close>

text \<open>A connection whose last reference has been given back is being deleted or has been freed.\<close>

definition delete_inv :: "connection \<Rightarrow> bool" where
  "delete_inv s \<longleftrightarrow> (ReferenceCount s = 0 \<longrightarrow> 0 < Unregistering s + Freeing s + Freed s)"

lemma delete_inv_dereference:
  "delete_inv s \<Longrightarrow> delete_inv (CfixkrpDereferenceConnection s)"
  by (simp add: delete_inv_def CfixkrpDereferenceConnection_def Let_def)

lemma delete_inv_update [simp]:
  "delete_inv (set_caller c pc s) = delete_inv s" "delete_inv (s\<lparr>LockShared := x\<rparr>) = delete_inv s"
  "delete_inv (s\<lparr>Driver := d\<rparr>) = delete_inv s" "delete_inv (s\<lparr>LockExclusive := l\<rparr>) = delete_inv s"
  "delete_inv (s\<lparr>ExternalReferenceCount := n\<rparr>) = delete_inv s"
  by (simp_all add: delete_inv_def)

lemma conn_step_delete_inv:
  assumes "conn_inv s" and "delete_inv s" and "conn_step a s = Some s'"
  shows "delete_inv s'"
proof (cases a)
  case (LookUp c)
  from assms(1) have "ReferenceCount s \<ge> 0" by (auto simp: conn_inv_def)
  with LookUp assms(3) show ?thesis by (auto simp: delete_inv_def split: if_splits)
next
  case Unregister
  with assms show ?thesis by (auto simp: delete_inv_def split: if_splits)
next
  case FreeConnection
  with assms show ?thesis by (auto simp: delete_inv_def split: if_splits)
qed (use assms(2,3) delete_inv_dereference [OF assms(2)] in \<open>auto split: if_splits\<close>)

lemma conn_reachable_delete_inv: "conn_reachable s \<Longrightarrow> delete_inv s"
proof (induction rule: conn_reachable.induct)
  case created
  show ?case by (simp add: delete_inv_def fresh_connection_def)
next
  case (step s a s')
  then show ?case using conn_step_delete_inv conn_reachable_inv by blast
qed

lemma stuck_is_finished:
  assumes "conn_inv s" and "delete_inv s" and "stuck s"
  shows "0 < Freed s \<and> Driver s = DriverGone \<and> (\<forall>c. Callers s c = Outside)"
proof -
  note st = stuckD [OF assms(3)]
  have idle: "Callers s c = Outside \<or> Callers s c = Checked \<and> LockExclusive s" for c
    using st [of "AcquireShared c"] st [of "ReleaseShared c"] st [of "GiveBack c"]
    by (cases "Callers s c") (auto split: if_splits)
  have "LockShared s = {}" using idle assms(1) by (force simp: conn_inv_def)
  then have gone: "Driver s = DriverGone"
    using st [of DriverAcquire] st [of DriverRelease] st [of DriverDereference] assms(1)
    by (cases "Driver s") (auto simp: conn_inv_def split: if_splits)
  with idle assms(1) have outside: "Callers s c = Outside" for c by (auto simp: conn_inv_def)
  then have "ReferenceCount s = 0" using gone assms(1) by (simp add: conn_inv_def inside_def)
  then have "0 < Freed s" using st [of Unregister] st [of FreeConnection] assms(2)
    by (auto simp: delete_inv_def split: if_splits)
  with gone outside show ?thesis by simp
qed

section \<open>Property\<close>

text \<open>
  C38: a connection is released in the end. From any reachable state, once no caller looks the
  connection up any more and none starts another call, the callers inside and the driver take
  at most five steps each, and a thread that has to delete it at most two: no schedule is longer. And no
  schedule gets stuck before that: when no such step is possible any more, the memory has been
  released, the driver is gone and every caller has left.
\<close>

theorem quiet_connection_is_freed:
  assumes "conn_reachable s" and "\<forall>a\<in>set as. quiet a" and "conn_run as s = Some s'"
  shows "length as \<le> 5 * card (inside s) + 5 + 2 * Unregistering s + Freeing s
       \<and> (stuck s' \<longrightarrow> 0 < Freed s' \<and> Driver s' = DriverGone \<and> (\<forall>c. Callers s' c = Outside))"
proof -
  note inv = conn_reachable_inv [OF assms(1)]
  then have "length as \<le> 5 * card (inside s) + 5 + 2 * Unregistering s + Freeing s"
    using quiet_run_bounded [OF _ assms(2,3)] remaining_le [of s] by (force simp: conn_inv_def)
  moreover have "conn_reachable s'" by (rule conn_run_reachable [OF assms(1,3)])
  then have "conn_inv s'" "delete_inv s'"
    by (rule conn_reachable_inv, rule conn_reachable_delete_inv)
  ultimately show ?thesis using stuck_is_finished by blast
qed

definition demo_shutdown :: "conn_action list" where
  "demo_shutdown = [ReleaseShared 4, GiveBack 7, DriverAcquire, DriverRelease, DriverDereference,
     GiveBack 4, Unregister, FreeConnection]"

theorem quiet_connection_is_freed_witness:
  "\<exists>s'. conn_run demo_shutdown demo_connection = Some s' \<and> stuck s' \<and> 0 < Freed s'
      \<and> Driver s' = DriverGone \<and> length demo_shutdown \<le> 15"
proof -
  have "conn_run demo_shutdown demo_connection \<noteq> None"
    unfolding demo_shutdown_def demo_connection_def by code_simp
  then obtain s' where r: "conn_run demo_shutdown demo_connection = Some s'" by blast
  have q: "\<forall>a\<in>set demo_shutdown. quiet a" by (simp add: demo_shutdown_def)
  have d: "inside demo_connection = {4, 7}" "Unregistering demo_connection = 0" "Freeing demo_connection = 0"
    by (auto simp: inside_def demo_connection_def set_caller_def
        fresh_connection_def CfixkrpReferenceConnection_def)
  have st: "stuck s'" unfolding stuck_def
  proof (intro allI impI)
    fix a assume "quiet a"
    then show "conn_step a s' = None" using r
      by (cases a) (auto simp: demo_shutdown_def demo_connection_def set_caller_def
          fresh_connection_def CfixkrpReferenceConnection_def
          CfixkrpDereferenceConnection_def split: if_splits)
  qed
  with quiet_connection_is_freed [OF demo_connection_reachable q r] r d show ?thesis by auto
qed

end
