(* ===== verification/DrvTestAdp.thy ===== *)
theory DrvTestAdp
  imports PeLoad KernelFilament
begin

text \<open>
  The test adapter of the reflector (\<open>cfixkern/cfixkr/drvtestadp.c\<close>): the fixtures of a loaded
  driver, found in its export directory, the lookup of a routine by the two keys of its fixture
  and entry, and the description of the module that is written into the buffer of a request
  (structures of \<open>include/cfixkrio.h\<close>).

  The pool is the heap of \<open>PeLoad\<close>. The buffer is a record: \<open>IoFixtures\<close> gives the structure at
  an offset, and the characters of all names follow from \<open>StringsAt\<close> on, with offsets and
  lengths in bytes, computed in 32 bits. The two loops that fill the buffer count in 16 bits;
  where the count does not fit, they never end, and the result is \<open>None\<close>.
\<close>

abbreviation STATUS_DRIVER_ENTRYPOINT_NOT_FOUND :: ntstatus
  where "STATUS_DRIVER_ENTRYPOINT_NOT_FOUND \<equiv> 0xC0000263"
abbreviation STATUS_INVALID_IMAGE_FORMAT :: ntstatus
  where "STATUS_INVALID_IMAGE_FORMAT \<equiv> 0xC000007B"
abbreviation STATUS_INVALID_PARAMETER :: ntstatus
  where "STATUS_INVALID_PARAMETER \<equiv> 0xC000000D"

abbreviation CFIX_MAX_ENTRY_NAME_CCH :: nat where "CFIX_MAX_ENTRY_NAME_CCH \<equiv> 64"
abbreviation CFIX_PE_API_VERSION :: ulong where "CFIX_PE_API_VERSION \<equiv> 1"

section \<open>Fixtures of a driver\<close>

record test_fixture =
  KFixtureName :: wstring
  KEntries :: "pe_entry list"

type_synonym test_adapter = "test_fixture list"

record driver_image = pe_image +
  TablesPresent :: bool

definition CfixkrsIsFixtureExport :: "bool \<Rightarrow> string \<Rightarrow> bool" where
  "CfixkrsIsFixtureExport Win64 ExportName \<longleftrightarrow>
     prefix_cch Win64 < length ExportName \<and>
     take (prefix_cch Win64) ExportName =
       (if Win64 then CFIX_FIXTURE_EXPORT_PREFIX_MANGLED64
        else CFIX_FIXTURE_EXPORT_PREFIX_MANGLED32)"

definition CfixkrsUnmangleName :: "wstring \<Rightarrow> wstring" where
  "CfixkrsUnmangleName Name = takeWhile (\<lambda>c. c \<noteq> 0x40) Name"

text \<open>
  \<open>a2u\<close> is \<open>RtlAnsiStringToUnicodeString\<close> into a buffer of the given number of characters, with the
  status on the left when it fails.
\<close>

definition CfixkrsInitializeFixture ::
    "bool \<Rightarrow> (string \<Rightarrow> nat \<Rightarrow> ntstatus + wstring) \<Rightarrow> string \<Rightarrow> pe_definition option \<Rightarrow>
       ntstatus + test_fixture" where
  "CfixkrsInitializeFixture Win64 a2u ExportName GetFixtureRoutine =
     (case a2u (drop (prefix_cch Win64) ExportName) CFIX_MAX_FIXTURE_NAME_CCH of
        Inl Status \<Rightarrow> Inl Status
      | Inr Name \<Rightarrow>
          (case GetFixtureRoutine of
             None \<Rightarrow> Inl STATUS_DRIVER_UNABLE_TO_LOAD
           | Some TestDef \<Rightarrow>
               if ApiVersion TestDef \<noteq> CFIX_PE_API_VERSION then Inl STATUS_DRIVER_UNABLE_TO_LOAD
               else Inr \<lparr>KFixtureName = CfixkrsUnmangleName Name, KEntries = Entries TestDef\<rparr>))"

text \<open>The walk; \<open>Allocated\<close> is the number of fixtures the array has room for.\<close>

fun walk_driver_exports ::
    "bool \<Rightarrow> (string \<Rightarrow> nat \<Rightarrow> ntstatus + wstring) \<Rightarrow> (dword \<Rightarrow> pe_definition option) \<Rightarrow>
       driver_image \<Rightarrow> nat list \<Rightarrow> nat \<Rightarrow> test_adapter \<Rightarrow> (ntstatus + test_adapter) option" where
  "walk_driver_exports Win64 a2u defs img [] Allocated Fixtures = Some (Inr Fixtures)"
| "walk_driver_exports Win64 a2u defs img (Index # rest) Allocated Fixtures =
     do {
       Name \<leftarrow> nth_opt (NameTable img) Index;
       FuncRva \<leftarrow> function_rva (pe_image.truncate img) Index;
       (if is_forwarder (pe_image.truncate img) FuncRva \<or> \<not> CfixkrsIsFixtureExport Win64 Name
        then walk_driver_exports Win64 a2u defs img rest Allocated Fixtures
        else if \<not> length Fixtures < Allocated then None
        else case CfixkrsInitializeFixture Win64 a2u Name (defs FuncRva) of
          Inl Status \<Rightarrow> Some (Inl Status)
        | Inr fx \<Rightarrow> walk_driver_exports Win64 a2u defs img rest Allocated (Fixtures @ [fx]))
     }"

definition CfixkrsWalkExportDirectoryAndExtractFixtures ::
    "bool \<Rightarrow> (string \<Rightarrow> nat \<Rightarrow> ntstatus + wstring) \<Rightarrow> (dword \<Rightarrow> pe_definition option) \<Rightarrow>
       driver_image \<Rightarrow> (ntstatus + test_adapter) option" where
  "CfixkrsWalkExportDirectoryAndExtractFixtures Win64 a2u defs img =
     (if \<not> TablesPresent img then Some (Inr [])
      else walk_driver_exports Win64 a2u defs img [0..<length (NameTable img)]
             (length (NameTable img)) [])"

definition CfixkrsInitializeAdapter ::
    "bool \<Rightarrow> (string \<Rightarrow> nat \<Rightarrow> ntstatus + wstring) \<Rightarrow> (dword \<Rightarrow> pe_definition option) \<Rightarrow>
       driver_image option \<Rightarrow> heap \<Rightarrow> ((ntstatus + test_adapter) \<times> heap) option" where
  "CfixkrsInitializeAdapter Win64 a2u defs LoadAddress h =
     (case LoadAddress of
        None \<Rightarrow> Some (Inl STATUS_INVALID_PARAMETER, h)
      | Some img \<Rightarrow>
          if \<not> NtSignatureOk img then Some (Inl STATUS_INVALID_IMAGE_FORMAT, h)
          else case malloc (length (NameTable img)) h of
            (False, h) \<Rightarrow> Some (Inl STATUS_NO_MEMORY, h)
          | (True, h) \<Rightarrow>
              do {
                r \<leftarrow> CfixkrsWalkExportDirectoryAndExtractFixtures Win64 a2u defs img;
                Some (case r of Inl Status \<Rightarrow> (Inl Status, free h) | Inr a \<Rightarrow> (Inr a, h))
              })"

definition CfixkrpCreateTestAdapter ::
    "bool \<Rightarrow> (string \<Rightarrow> nat \<Rightarrow> ntstatus + wstring) \<Rightarrow> (dword \<Rightarrow> pe_definition option) \<Rightarrow>
       driver_image option \<Rightarrow> heap \<Rightarrow> ((ntstatus + test_adapter) \<times> heap) option" where
  "CfixkrpCreateTestAdapter Win64 a2u defs DriverLoadAddress h =
     (case malloc 1 h of
        (False, h) \<Rightarrow> Some (Inl STATUS_NO_MEMORY, h)
      | (True, h) \<Rightarrow>
          do {
            (r, h) \<leftarrow> CfixkrsInitializeAdapter Win64 a2u defs DriverLoadAddress h;
            Some (case r of Inl Status \<Rightarrow> (Inl Status, free h) | Inr a \<Rightarrow> (Inr a, h))
          })"

definition CfixkrpDeleteTestAdapter :: "test_adapter \<Rightarrow> heap \<Rightarrow> heap" where
  "CfixkrpDeleteTestAdapter Adapter h = free (free h)"

definition CfixkrpGetRoutineTestAdapter ::
    "test_adapter \<Rightarrow> 16 word \<Rightarrow> 16 word \<Rightarrow> ntstatus + ulong_ptr" where
  "CfixkrpGetRoutineTestAdapter Adapter FixtureKey RoutineKey =
     (if length Adapter \<le> unat FixtureKey then Inl STATUS_DRIVER_ENTRYPOINT_NOT_FOUND
      else let Fixture = Adapter ! unat FixtureKey
           in if length (KEntries Fixture) \<le> unat RoutineKey
              then Inl STATUS_DRIVER_ENTRYPOINT_NOT_FOUND
              else Inr (EntryRoutine (KEntries Fixture ! unat RoutineKey)))"

section \<open>Description of a module\<close>

record io_entry =
  IoType :: entry_type
  IoKey :: "16 word"
  IoNameOffset :: ulong
  IoNameLength :: ulong

record io_fixture =
  IoFixtureKey :: "16 word"
  IoFixtureNameOffset :: ulong
  IoFixtureNameLength :: ulong
  IoEntries :: "io_entry list"

record io_module =
  FixtureOffsets :: "ulong list"
  IoFixtures :: "ulong \<Rightarrow> io_fixture option"
  StringsAt :: ulong
  StringArea :: wstring

definition module_struct_size :: "nat \<Rightarrow> ulong" where
  "module_struct_size n = 4 + 4 * of_nat n"

definition fixture_struct_size :: "nat \<Rightarrow> ulong" where
  "fixture_struct_size n = 16 + 12 * of_nat n"

text \<open>\<open>RtlStringCbLengthW\<close> with a limit of 63 characters, the terminator included.\<close>

definition name_cb :: "wstring \<Rightarrow> ntstatus + ulong" where
  "name_cb Name =
     (if length Name < CFIX_MAX_ENTRY_NAME_CCH - 1 then Inr (2 * of_nat (length Name))
      else Inl STATUS_INVALID_PARAMETER)"

fun entries_cb :: "pe_entry list \<Rightarrow> ulong \<Rightarrow> ntstatus + ulong" where
  "entries_cb [] StringsSize = Inr StringsSize"
| "entries_cb (e # es) StringsSize =
     (case name_cb (EntryName e) of
        Inl Status \<Rightarrow> Inl Status
      | Inr cb \<Rightarrow> entries_cb es (StringsSize + cb))"

fun fixtures_cb :: "test_fixture list \<Rightarrow> ulong \<Rightarrow> ulong \<Rightarrow> ntstatus + (ulong \<times> ulong)" where
  "fixtures_cb [] StructSize StringsSize = Inr (StructSize, StringsSize)"
| "fixtures_cb (f # fs) StructSize StringsSize =
     (case entries_cb (KEntries f) (StringsSize + 2 * of_nat (length (KFixtureName f))) of
        Inl Status \<Rightarrow> Inl Status
      | Inr StringsSize \<Rightarrow>
          fixtures_cb fs (StructSize + fixture_struct_size (length (KEntries f))) StringsSize)"

definition CfixkrsCalculateBufferSize :: "test_adapter \<Rightarrow> ntstatus + (ulong \<times> ulong)" where
  "CfixkrsCalculateBufferSize Adapter =
     fixtures_cb Adapter (module_struct_size (length Adapter)) 0"

text \<open>Filling the buffer: the strings written so far and the offset where the next one goes.\<close>

fun write_entries ::
    "pe_entry list \<Rightarrow> nat \<Rightarrow> ulong \<times> wstring \<Rightarrow> ntstatus + (io_entry list \<times> ulong \<times> wstring)" where
  "write_entries [] DefIndex (BufferStringsOffset, area) = Inr ([], BufferStringsOffset, area)"
| "write_entries (e # es) DefIndex (BufferStringsOffset, area) =
     (case name_cb (EntryName e) of
        Inl Status \<Rightarrow> Inl Status
      | Inr cb \<Rightarrow>
          (case write_entries es (DefIndex + 1) (BufferStringsOffset + cb, area @ EntryName e) of
             Inl Status \<Rightarrow> Inl Status
           | Inr (ios, at) \<Rightarrow>
               Inr (\<lparr>IoType = EntryType e, IoKey = of_nat DefIndex,
                     IoNameOffset = BufferStringsOffset, IoNameLength = cb\<rparr> # ios, at)))"

fun write_fixtures ::
    "test_fixture list \<Rightarrow> nat \<Rightarrow> ulong \<Rightarrow> ulong \<times> wstring \<Rightarrow>
       ntstatus + ((ulong \<times> io_fixture) list \<times> ulong \<times> wstring)" where
  "write_fixtures [] FixIndex BufferStructOffset at = Inr ([], at)"
| "write_fixtures (f # fs) FixIndex BufferStructOffset (BufferStringsOffset, area) =
     (let cb = 2 * of_nat (length (KFixtureName f))
      in case write_entries (KEntries f) 0 (BufferStringsOffset + cb, area @ KFixtureName f) of
           Inl Status \<Rightarrow> Inl Status
         | Inr (ios, at) \<Rightarrow>
             (case write_fixtures fs (FixIndex + 1)
                     (BufferStructOffset + fixture_struct_size (length (KEntries f))) at of
                Inl Status \<Rightarrow> Inl Status
              | Inr (rest, at) \<Rightarrow>
                  Inr ((BufferStructOffset,
                        \<lparr>IoFixtureKey = of_nat FixIndex, IoFixtureNameOffset = BufferStringsOffset,
                         IoFixtureNameLength = cb, IoEntries = ios\<rparr>) # rest, at)))"

text \<open>Both loops have a counter of 16 bits.\<close>

definition counts_fit :: "test_adapter \<Rightarrow> bool" where
  "counts_fit Adapter \<longleftrightarrow> length Adapter < 2 ^ 16 \<and>
     list_all (\<lambda>f. length (KEntries f) < 2 ^ 16) Adapter"

text \<open>The status, \<open>BufferSize\<close> and the buffer, when they have been set.\<close>

definition CfixkrpQueryModuleTestAdapter ::
    "test_adapter \<Rightarrow> ulong \<Rightarrow> (ntstatus \<times> ulong option \<times> io_module option) option" where
  "CfixkrpQueryModuleTestAdapter Adapter MaximumBufferSize =
     (case CfixkrsCalculateBufferSize Adapter of
        Inl Status \<Rightarrow> Some (Status, None, None)
      | Inr (StructSize, StringsSize) \<Rightarrow>
          if MaximumBufferSize < StructSize + StringsSize
          then Some (STATUS_BUFFER_OVERFLOW, Some (StructSize + StringsSize), None)
          else if \<not> counts_fit Adapter then None
          else case write_fixtures Adapter 0 (module_struct_size (length Adapter)) (StructSize, []) of
            Inl Status \<Rightarrow> Some (Status, Some (StructSize + StringsSize), None)
          | Inr (fs, _, area) \<Rightarrow>
              Some (STATUS_SUCCESS, Some (StructSize + StringsSize),
                    Some \<lparr>FixtureOffsets = map fst fs, IoFixtures = map_of fs,
                          StringsAt = StructSize, StringArea = area\<rparr>))"

text \<open>What a reader finds at an offset with a length.\<close>

definition io_string :: "io_module \<Rightarrow> ulong \<Rightarrow> ulong \<Rightarrow> wstring" where
  "io_string m Offset Length =
     take (unat Length div 2) (drop (unat (Offset - StringsAt m) div 2) (StringArea m))"

end
