(* ===== verification/KlIoctl.thy ===== *)
theory KlIoctl
  imports DrvTestAdp KernelReportInv
begin

text \<open>
  The requests that the kernel loader library sends to the reflector
  (\<open>cfixkern/cfixkl/ioctl.c\<close>): finding the driver, querying its fixtures, calling a routine and
  passing the events of the call on to the execution context.

  The device is a record of the three requests it serves, over the state of the world; each
  gives the error of \<open>DeviceIoControl\<close>, if any, the response and the bytes transferred. A call
  may not return. A thread of the library has one slot of thread local storage, which holds a
  pointer to a block with a value. Strings of events are counted; the copies that are handed to
  the context are terminated, which makes no difference to a list of characters.
\<close>

abbreviation CFIXKL_E_CFIXKR_NOT_FOUND :: hresult where "CFIXKL_E_CFIXKR_NOT_FOUND \<equiv> 0x8004A000"
abbreviation CFIXKL_E_CFIXKR_START_DENIED :: hresult
  where "CFIXKL_E_CFIXKR_START_DENIED \<equiv> 0x8004A002"
abbreviation CFIXKL_E_UNKNOWN_LOAD_ADDRESS :: hresult
  where "CFIXKL_E_UNKNOWN_LOAD_ADDRESS \<equiv> 0x8004A003"
abbreviation CFIXKL_E_INVALID_REFLECTOR_RESPONSE :: hresult
  where "CFIXKL_E_INVALID_REFLECTOR_RESPONSE \<equiv> 0x8004A004"
abbreviation STRSAFE_E_INSUFFICIENT_BUFFER :: hresult
  where "STRSAFE_E_INSUFFICIENT_BUFFER \<equiv> 0x8007007A"
abbreviation ERROR_MORE_DATA :: dword where "ERROR_MORE_DATA \<equiv> 234"
abbreviation MAX_PATH :: nat where "MAX_PATH \<equiv> 260"

section \<open>Requests and responses\<close>

record modules_response =
  ModuleCount :: ulong
  ModuleAddresses :: "ulong_ptr list"

datatype query_response = SizeRequired ulong | TestModule io_module

record call_request =
  ReqDriverBase :: ulong_ptr
  ReqFixtureKey :: "16 word"
  ReqRoutineKey :: "16 word"
  ReqFailedAssertion :: disposition
  ReqUnhandledException :: disposition
  ReqTlsValue :: ulong_ptr

record call_response =
  RespRanToCompletion :: bool
  RespAbortRun :: bool
  RespTlsValue :: ulong_ptr
  RespTruncated :: bool
  RespCount :: ulong
  RespEvents :: "kevent list"

abbreviation sizeof_get_modules :: ulong where "sizeof_get_modules \<equiv> 16"
abbreviation sizeof_query_response :: ulong where "sizeof_query_response \<equiv> 8"
abbreviation sizeof_call_response :: ulong where "sizeof_call_response \<equiv> 24"

record 'u kl_state =
  KlTls :: "ulong_ptr option"
  KlHeap :: heap
  World :: 'u

record 's reflector =
  GetTestModules :: "ulong \<Rightarrow> 's \<Rightarrow> dword option \<times> modules_response \<times> ulong"
  QueryTestModule :: "ulong_ptr \<Rightarrow> ulong \<Rightarrow> 's \<Rightarrow> (dword option \<times> query_response \<times> ulong) option"
  CallRoutine :: "call_request \<Rightarrow> ulong \<Rightarrow> 's \<Rightarrow> ((dword option \<times> call_response \<times> ulong) \<times> 's) option"

section \<open>Finding the driver\<close>

text \<open>\<open>names\<close> is \<open>GetDeviceDriverBaseName\<close>, \<open>strip\<close> is \<open>PathStripPath\<close>.\<close>

fun search_driver ::
    "(ulong_ptr \<Rightarrow> dword + wstring) \<Rightarrow> wstring \<Rightarrow> ulong_ptr list \<Rightarrow> hresult \<Rightarrow> hresult \<times> ulong_ptr" where
  "search_driver names DriverBaseName [] Hr = (Hr, 0)"
| "search_driver names DriverBaseName (a # as) Hr =
     (case names a of
        Inl err \<Rightarrow> search_driver names DriverBaseName as (HRESULT_FROM_WIN32 err)
      | Inr FileName \<Rightarrow>
          if wcsicmp_eq DriverBaseName FileName then (S_OK, a)
          else search_driver names DriverBaseName as Hr)"

text \<open>What is done with a response, and with the block it may be in.\<close>

definition use_modules ::
    "(ulong_ptr \<Rightarrow> dword + wstring) \<Rightarrow> wstring \<Rightarrow> modules_response \<Rightarrow> ulong \<Rightarrow>
       (hresult + ulong_ptr) option" where
  "use_modules names DriverBaseName Response BytesTransferred =
     (if BytesTransferred < 4 \<or> BytesTransferred < ModuleCount Response * 8
      then Some (Inl CFIXKL_E_INVALID_REFLECTOR_RESPONSE)
      else if length (ModuleAddresses Response) < unat (ModuleCount Response) then None
      else
        let (Hr, BaseAddress) = search_driver names DriverBaseName
              (take (unat (ModuleCount Response)) (ModuleAddresses Response)) S_OK
        in Some (if FAILED Hr then Inl Hr
                 else if BaseAddress \<noteq> 0 then Inr BaseAddress
                 else Inl CFIXKL_E_UNKNOWN_LOAD_ADDRESS))"

definition CfixklsFindBaseAddressDriver ::
    "'u kl_state reflector \<Rightarrow> (ulong_ptr \<Rightarrow> dword + wstring) \<Rightarrow> (wstring \<Rightarrow> wstring) \<Rightarrow> wstring \<Rightarrow>
       'u kl_state \<Rightarrow> ((hresult + ulong_ptr) \<times> 'u kl_state) option" where
  "CfixklsFindBaseAddressDriver dev names strip DriverImagePath s =
     (if MAX_PATH \<le> length DriverImagePath then Some (Inl STRSAFE_E_INSUFFICIENT_BUFFER, s)
      else let DriverBaseName = strip DriverImagePath
      in case GetTestModules dev sizeof_get_modules s of
        (None, Response, Bytes) \<Rightarrow>
          map_option (\<lambda>r. (r, s)) (use_modules names DriverBaseName Response Bytes)
      | (Some Err, Response, Bytes) \<Rightarrow>
          if Err \<noteq> ERROR_MORE_DATA then Some (Inl (HRESULT_FROM_WIN32 Err), s)
          else
            let ResponseSize = 8 + 8 * ModuleCount Response
            in case malloc (unat ResponseSize) (KlHeap s) of
                 (False, h) \<Rightarrow> Some (Inl E_OUTOFMEMORY, s\<lparr>KlHeap := h\<rparr>)
               | (True, h) \<Rightarrow>
                   let s = s\<lparr>KlHeap := h\<rparr>
                   in map_option (\<lambda>r. (r, s\<lparr>KlHeap := free (KlHeap s)\<rparr>))
                        (case GetTestModules dev ResponseSize s of
                           (Some Err, _) \<Rightarrow> Some (Inl (HRESULT_FROM_WIN32 Err))
                         | (None, Response, Bytes) \<Rightarrow>
                             use_modules names DriverBaseName Response Bytes))"

section \<open>Querying the fixtures\<close>

definition CfixklsQuerySizeForQueryModuleRequest ::
    "'u kl_state reflector \<Rightarrow> ulong_ptr \<Rightarrow> 'u kl_state \<Rightarrow> (hresult + ulong) option" where
  "CfixklsQuerySizeForQueryModuleRequest dev DriverBaseAddress s =
     do {
       (Err, Response, BytesTransferred) \<leftarrow> QueryTestModule dev DriverBaseAddress sizeof_query_response s;
       (case Err of
          None \<Rightarrow> Some (Inr 4)
        | Some err \<Rightarrow>
            if err = ERROR_MORE_DATA \<and> 4 \<le> BytesTransferred
            then (case Response of SizeRequired n \<Rightarrow> Some (Inr n) | TestModule _ \<Rightarrow> None)
            else Some (Inl (HRESULT_FROM_WIN32 err)))
     }"

text \<open>The response stays allocated when it is handed out, and also when the request fails.\<close>

definition CfixklpQueryModule ::
    "'u kl_state reflector \<Rightarrow> (ulong_ptr \<Rightarrow> dword + wstring) \<Rightarrow> (wstring \<Rightarrow> wstring) \<Rightarrow> wstring \<Rightarrow>
       'u kl_state \<Rightarrow> ((hresult + ulong_ptr \<times> io_module) \<times> 'u kl_state) option" where
  "CfixklpQueryModule dev names strip DriverPath s =
     do {
       (r, s) \<leftarrow> CfixklsFindBaseAddressDriver dev names strip DriverPath s;
       (case r of
          Inl Hr \<Rightarrow> Some (Inl Hr, s)
        | Inr BaseAddress \<Rightarrow>
            do {
              q \<leftarrow> CfixklsQuerySizeForQueryModuleRequest dev BaseAddress s;
              (case q of
                 Inl Hr \<Rightarrow> Some (Inl Hr, s)
               | Inr SizeReq \<Rightarrow>
                   (case malloc (unat SizeReq) (KlHeap s) of
                      (False, h) \<Rightarrow> Some (Inl E_OUTOFMEMORY, s\<lparr>KlHeap := h\<rparr>)
                    | (True, h) \<Rightarrow>
                        do {
                          let s = s\<lparr>KlHeap := h\<rparr>;
                          (Err, Response, _) \<leftarrow> QueryTestModule dev BaseAddress SizeReq s;
                          (case Err of
                             Some err \<Rightarrow> Some (Inl (HRESULT_FROM_WIN32 err), s)
                           | None \<Rightarrow>
                               (case Response of
                                  TestModule m \<Rightarrow> Some (Inr (BaseAddress, m), s)
                                | SizeRequired _ \<Rightarrow> None))
                        }))
            })
     }"

definition CfixklpFreeQueryModuleResponse :: "'u kl_state \<Rightarrow> 'u kl_state" where
  "CfixklpFreeQueryModuleResponse s = s\<lparr>KlHeap := free (KlHeap s)\<rparr>"

section \<open>Passing events on\<close>

text \<open>Allocating several blocks without stopping at a failure: how many were obtained, and if all.\<close>

fun malloc_all :: "nat list \<Rightarrow> heap \<Rightarrow> nat \<times> bool \<times> heap" where
  "malloc_all [] h = (0, True, h)"
| "malloc_all (n # ns) h =
     (let (ok, h) = malloc n h; (got, all_ok, h) = malloc_all ns h
      in (if ok then got + 1 else got, ok \<and> all_ok, h))"

fun buffers_of :: "kinfo \<Rightarrow> nat list" where
  "buffers_of (KFailedAssertion f r _ e) =
     [unat (StrLength f) + 2, unat (StrLength r) + 2, unat (StrLength e) + 2]"
| "buffers_of (KUncaughtException _) = []"
| "buffers_of (KMessage m) = [unat (StrLength m) + 2]"

text \<open>\<open>CfixklsCopyExceptionRecord\<close> keeps the code whatever the bitness of the record.\<close>

definition CfixklsCopyExceptionRecord :: "dword option \<Rightarrow> dword" where
  "CfixklsCopyExceptionRecord rec = (case rec of None \<Rightarrow> 0 | Some ExceptionCode \<Rightarrow> ExceptionCode)"

fun translate_info :: "kevent \<Rightarrow> kinfo \<Rightarrow> event_info" where
  "translate_info ev (KFailedAssertion f r Line e) =
     FailedAssertion (Some (read_string ev f)) (Some (read_string ev r)) Line (read_string ev e) 0"
| "translate_info ev (KUncaughtException rec) = UncaughtException (CfixklsCopyExceptionRecord rec)"
| "translate_info ev (KMessage m) =
     (if KType ev = CfixEventInconclusiveness then Inconclusiveness (read_string ev m)
      else Log (read_string ev m))"

definition translate_event :: "kevent \<Rightarrow> cfix_event" where
  "translate_event ev = \<lparr>EventInfo = translate_info ev (KInfo ev), FrameCount = KFrames ev\<rparr>"

definition CfixklsReportEventToExecutionContext ::
    "'u kl_state exec_context \<Rightarrow> kevent \<Rightarrow> 'u kl_state \<Rightarrow> hresult \<times> 'u kl_state" where
  "CfixklsReportEventToExecutionContext Context ev s =
     (case malloc (KFrames ev) (KlHeap s) of
        (False, h) \<Rightarrow> (E_OUTOFMEMORY, s\<lparr>KlHeap := h\<rparr>)
      | (True, h) \<Rightarrow>
          let (got, all_ok, h) = malloc_all (buffers_of (KInfo ev)) h;
              s = s\<lparr>KlHeap := h\<rparr>;
              (Hr, s) = (if all_ok
                         then (S_OK, snd (ReportEvent Context (KThread ev) (translate_event ev) s))
                         else (E_OUTOFMEMORY, s))
          in (Hr, s\<lparr>KlHeap := (free ^^ (got + 1)) (KlHeap s)\<rparr>))"

text \<open>The first failure ends the loop.\<close>

fun report_events ::
    "'u kl_state exec_context \<Rightarrow> kevent list \<Rightarrow> 'u kl_state \<Rightarrow> 'u kl_state" where
  "report_events Context [] s = s"
| "report_events Context (ev # evs) s =
     (let (Hr, s) = CfixklsReportEventToExecutionContext Context ev s
      in if FAILED Hr then s else report_events Context evs s)"

definition truncation_note :: cfix_event where
  "truncation_note = \<lparr>EventInfo = Log (wide ''Note: At least one event has been dropped''), FrameCount = 0\<rparr>"

section \<open>Calling a routine\<close>

text \<open>\<open>CfixklpCallRoutine\<close> gives \<open>RoutineRanToCompletion\<close>, \<open>AbortRun\<close> and the new value of the storage.\<close>

definition CfixklpCallRoutine ::
    "'u kl_state reflector \<Rightarrow> ulong \<Rightarrow> ulong_ptr \<Rightarrow> 'u kl_state exec_context \<Rightarrow> 16 word \<Rightarrow> 16 word \<Rightarrow>
       ulong_ptr \<Rightarrow> 'u kl_state \<Rightarrow> ((hresult \<times> bool \<times> bool \<times> ulong_ptr) \<times> 'u kl_state) option" where
  "CfixklpCallRoutine dev me DriverBaseAddress Context FixtureKey RoutineKey TlsVal s =
     (let (FailedAssertionDisp, s) = QueryDefaultDisposition Context CfixEventFailedAssertion s;
          (UnhandledExceptionDisp, s) = QueryDefaultDisposition Context CfixEventUncaughtException s;
          Request = \<lparr>ReqDriverBase = DriverBaseAddress, ReqFixtureKey = FixtureKey,
                     ReqRoutineKey = RoutineKey, ReqFailedAssertion = FailedAssertionDisp,
                     ReqUnhandledException = UnhandledExceptionDisp, ReqTlsValue = TlsVal\<rparr>
      in case malloc 4096 (KlHeap s) of
           (False, h) \<Rightarrow> Some ((E_OUTOFMEMORY, False, False, TlsVal), s\<lparr>KlHeap := h\<rparr>)
         | (True, h) \<Rightarrow>
             do {
               ((Err, Response, BytesTransferred), s) \<leftarrow> CallRoutine dev Request 4096 (s\<lparr>KlHeap := h\<rparr>);
               (case Err of
                  Some err \<Rightarrow>
                    Some ((HRESULT_FROM_WIN32 err, False, False, TlsVal), s\<lparr>KlHeap := free (KlHeap s)\<rparr>)
                | None \<Rightarrow>
                    if BytesTransferred < sizeof_call_response
                    then Some ((CFIXKL_E_INVALID_REFLECTOR_RESPONSE, False, False, TlsVal),
                               s\<lparr>KlHeap := free (KlHeap s)\<rparr>)
                    else if length (RespEvents Response) < unat (RespCount Response) then None
                    else
                      let s = report_events Context
                                (take (unat (RespCount Response)) (RespEvents Response)) s;
                          s = (if RespTruncated Response
                               then snd (ReportEvent Context (CfixpInitializeThreadId me me)
                                           truncation_note s)
                               else s)
                      in Some ((S_OK, RespRanToCompletion Response, RespAbortRun Response,
                                RespTlsValue Response), s\<lparr>KlHeap := free (KlHeap s)\<rparr>))
             })"

end
