(* ===== verification/KlModule.thy ===== *)
theory KlModule
  imports KlIoctl TsExec
begin

text \<open>
  The test module of a driver (\<open>cfixkern/cfixkl/module.c\<close>): its fixtures, rebuilt from the
  description that the reflector gives, and the methods by which a fixture is run, each of which
  calls a routine in the kernel by the keys of its fixture and entry.

  A routine of a fixture is its key, with a flag that tells it from no routine. The value of the
  storage of the test thread lives in a block that setup allocates and teardown frees.
\<close>

abbreviation CFIXKLP_ROUTINE_PRESENT :: ulong_ptr where "CFIXKLP_ROUTINE_PRESENT \<equiv> 0x80000000"

section \<open>Fixtures\<close>

definition add_test_case :: "wstring \<Rightarrow> 16 word \<Rightarrow> fixture \<Rightarrow> fixture" where
  "add_test_case Name RoutineKey fx =
     fx\<lparr>TestCases := TestCases fx @ [\<lparr>TestCaseName = Name, TestCaseRoutine = ucast RoutineKey\<rparr>]\<rparr>"

definition kl_walk_entry :: "io_module \<Rightarrow> io_entry \<Rightarrow> fixture \<Rightarrow> hresult + fixture" where
  "kl_walk_entry m Entry fx =
     (let tag = ucast (IoKey Entry) OR CFIXKLP_ROUTINE_PRESENT
      in case IoType Entry of
        EntryTestcase \<Rightarrow>
          Inr (add_test_case (io_string m (IoNameOffset Entry) (IoNameLength Entry)) (IoKey Entry) fx)
      | EntrySetup \<Rightarrow>
          if SetupRoutine fx AND CFIXKLP_ROUTINE_PRESENT \<noteq> 0 then Inl CFIX_E_DUP_SETUP_ROUTINE
          else Inr (fx\<lparr>SetupRoutine := tag\<rparr>)
      | EntryTeardown \<Rightarrow>
          if TeardownRoutine fx AND CFIXKLP_ROUTINE_PRESENT \<noteq> 0 then Inl CFIX_E_DUP_TEARDOWN_ROUTINE
          else Inr (fx\<lparr>TeardownRoutine := tag\<rparr>)
      | EntryBefore \<Rightarrow>
          if BeforeRoutine fx AND CFIXKLP_ROUTINE_PRESENT \<noteq> 0 then Inl CFIX_E_DUP_BEFORE_ROUTINE
          else Inr (fx\<lparr>BeforeRoutine := tag\<rparr>)
      | EntryAfter \<Rightarrow>
          if AfterRoutine fx AND CFIXKLP_ROUTINE_PRESENT \<noteq> 0 then Inl CFIX_E_DUP_AFTER_ROUTINE
          else Inr (fx\<lparr>AfterRoutine := tag\<rparr>)
      | EntryUnknown \<Rightarrow> Inl CFIXKL_E_INVALID_REFLECTOR_RESPONSE)"

fun kl_walk_entries :: "io_module \<Rightarrow> io_entry list \<Rightarrow> fixture \<Rightarrow> hresult + fixture" where
  "kl_walk_entries m [] fx = Inr fx"
| "kl_walk_entries m (e # es) fx =
     (case kl_walk_entry m e fx of Inl Hr \<Rightarrow> Inl Hr | Inr fx \<Rightarrow> kl_walk_entries m es fx)"

text \<open>The size of the block: the slots of the test cases, and behind them the strings.\<close>

definition kl_fixture_size :: "io_entry list \<Rightarrow> nat" where
  "kl_fixture_size es =
     (let cases = filter (\<lambda>e. IoType e = EntryTestcase) es
      in fixture_slots (length cases) + unat (\<Sum>e \<leftarrow> cases. IoNameLength e + 2))"

definition kl_new_fixture :: "wstring \<Rightarrow> io_module \<Rightarrow> io_fixture \<Rightarrow> fixture" where
  "kl_new_fixture Module m f =
     \<lparr>FixtureName = io_string m (IoFixtureNameOffset f) (IoFixtureNameLength f), SetupRoutine = 0,
      TeardownRoutine = 0, BeforeRoutine = 0, AfterRoutine = 0,
      FixtureReserved = ucast (IoFixtureKey f), ApiType = 1, FixtureFlags = 0,
      ModuleName = Module, TestCases = []\<rparr>"

definition CfixklsCreateFixture ::
    "wstring \<Rightarrow> io_module \<Rightarrow> io_fixture \<Rightarrow> heap \<Rightarrow> (hresult + fixture) \<times> heap" where
  "CfixklsCreateFixture Module m IoFixture h =
     (case malloc (kl_fixture_size (IoEntries IoFixture)) h of
        (False, h) \<Rightarrow> (Inl E_OUTOFMEMORY, h)
      | (True, h) \<Rightarrow>
          if 2 * of_nat CFIX_MAX_FIXTURE_NAME_CCH - 2 < IoFixtureNameLength IoFixture
          then (Inl (HRESULT_FROM_WIN32 ERROR_INSUFFICIENT_BUFFER), free h)
          else case kl_walk_entries m (IoEntries IoFixture) (kl_new_fixture Module m IoFixture) of
            Inl Hr \<Rightarrow> (Inl Hr, free h)
          | Inr fx \<Rightarrow> (Inr fx, h))"

definition CfixklsDeleteFixture :: "fixture \<Rightarrow> heap \<Rightarrow> heap" where
  "CfixklsDeleteFixture Fixture h = free h"

text \<open>
  The loop over the offsets; on failure with the fixtures made so far. No structure at an offset
  is \<open>None\<close>.
\<close>

fun create_fixtures ::
    "wstring \<Rightarrow> io_module \<Rightarrow> ulong list \<Rightarrow> fixture list \<Rightarrow> heap \<Rightarrow>
       ((hresult \<times> fixture list + fixture list) \<times> heap) option" where
  "create_fixtures Module m [] Fixtures h = Some (Inr Fixtures, h)"
| "create_fixtures Module m (off # offs) Fixtures h =
     do {
       IoFixture \<leftarrow> IoFixtures m off;
       (case CfixklsCreateFixture Module m IoFixture h of
          (Inl Hr, h) \<Rightarrow> Some (Inl (Hr, Fixtures), h)
        | (Inr fx, h) \<Rightarrow> create_fixtures Module m offs (Fixtures @ [fx]) h)
     }"

text \<open>\<open>Open\<close> is the error of opening the device, if any.\<close>

definition CfixklsInitializeModule ::
    "'u kl_state reflector \<Rightarrow> (ulong_ptr \<Rightarrow> dword + wstring) \<Rightarrow> (wstring \<Rightarrow> wstring) \<Rightarrow> dword option \<Rightarrow>
       wstring \<Rightarrow> wstring \<Rightarrow> 'u kl_state \<Rightarrow>
       ((hresult + ulong_ptr \<times> fixture list) \<times> 'u kl_state) option" where
  "CfixklsInitializeModule dev names strip Open Module DriverPath s =
     (case Open of
        Some err \<Rightarrow> Some (Inl (HRESULT_FROM_WIN32 err), s)
      | None \<Rightarrow>
          do {
            (q, s) \<leftarrow> CfixklpQueryModule dev names strip DriverPath s;
            (case q of
               Inl Hr \<Rightarrow> Some (Inl Hr, s)
             | Inr (BaseAddress, m) \<Rightarrow>
                 (case malloc (length (FixtureOffsets m)) (KlHeap s) of
                    (False, h) \<Rightarrow> Some (Inl E_OUTOFMEMORY, s\<lparr>KlHeap := free h\<rparr>)
                  | (True, h) \<Rightarrow>
                      do {
                        (r, h) \<leftarrow> create_fixtures Module m (FixtureOffsets m) [] h;
                        Some (case r of
                            Inl (Hr, Fixtures) \<Rightarrow>
                              (Inl Hr, s\<lparr>KlHeap := free (free (fold CfixklsDeleteFixture Fixtures h))\<rparr>)
                          | Inr Fixtures \<Rightarrow> (Inr (BaseAddress, Fixtures), s\<lparr>KlHeap := free h\<rparr>))
                      }))
          })"

section \<open>Running routines\<close>

record 'u kl_env =
  Device :: "'u kl_state reflector"
  DriverBaseAddress :: ulong_ptr
  TestThread :: ulong

abbreviation kl_valid_args :: "'s exec_context \<Rightarrow> bool" where
  "kl_valid_args Context \<equiv> ContextVersion Context = CFIX_TEST_CONTEXT_VERSION"

abbreviation kl_call ::
    "'u kl_env \<Rightarrow> fixture \<Rightarrow> 'u kl_state exec_context \<Rightarrow> ulong_ptr \<Rightarrow> ulong_ptr \<Rightarrow> 'u kl_state \<Rightarrow>
       ((hresult \<times> bool \<times> bool \<times> ulong_ptr) \<times> 'u kl_state) option" where
  "kl_call env Fixture Context Routine TlsVal s \<equiv>
     CfixklpCallRoutine (Device env) (TestThread env) (DriverBaseAddress env) Context
       (ucast (FixtureReserved Fixture)) (ucast (Routine AND NOT CFIXKLP_ROUTINE_PRESENT)) TlsVal s"

text \<open>What the code of a call becomes: \<open>FailureHr\<close> when the routine did not run to completion.\<close>

definition call_verdict :: "hresult \<Rightarrow> hresult \<Rightarrow> bool \<Rightarrow> bool \<Rightarrow> hresult" where
  "call_verdict FailureHr Hr RanToCompletion Abort =
     (if SUCCEEDED Hr \<and> Abort then CFIX_E_TESTRUN_ABORTED
      else if SUCCEEDED Hr \<and> \<not> RanToCompletion then FailureHr
      else Hr)"

text \<open>A block that the slot still points to is lost when setup stores a new one.\<close>

definition CfixklsRunSetupRoutine ::
    "'u kl_env \<Rightarrow> fixture \<Rightarrow> 'u kl_state exec_context \<Rightarrow> 'u kl_state \<Rightarrow> (hresult \<times> 'u kl_state) option" where
  "CfixklsRunSetupRoutine env Fixture Context s =
     (if \<not> kl_valid_args Context then Some (E_INVALIDARG, s)
      else case malloc 1 (KlHeap s) of
        (False, h) \<Rightarrow> Some (E_OUTOFMEMORY, s\<lparr>KlHeap := h\<rparr>)
      | (True, h) \<Rightarrow>
          let s = s\<lparr>KlHeap := h, KlTls := Some 0\<rparr>
          in if SetupRoutine Fixture AND SetupRoutine Fixture \<noteq> 0
             then do {
               ((Hr, Ran, Abort, _), s) \<leftarrow> kl_call env Fixture Context (SetupRoutine Fixture) 0 s;
               Some (call_verdict CFIX_E_SETUP_ROUTINE_FAILED Hr Ran Abort, s\<lparr>KlTls := Some 0\<rparr>)
             }
             else Some (S_OK, s))"

definition CfixklsRunTeardownRoutine ::
    "'u kl_env \<Rightarrow> fixture \<Rightarrow> 'u kl_state exec_context \<Rightarrow> 'u kl_state \<Rightarrow> (hresult \<times> 'u kl_state) option" where
  "CfixklsRunTeardownRoutine env Fixture Context s =
     (if \<not> kl_valid_args Context then Some (E_INVALIDARG, s)
      else do {
        TlsValueCopy \<leftarrow> KlTls s;
        let s = s\<lparr>KlHeap := free (KlHeap s), KlTls := None\<rparr>;
        (if TeardownRoutine Fixture AND CFIXKLP_ROUTINE_PRESENT \<noteq> 0
         then do {
           ((Hr, Ran, Abort, _), s) \<leftarrow>
             kl_call env Fixture Context (TeardownRoutine Fixture) TlsValueCopy s;
           Some (call_verdict CFIX_E_TEARDOWN_ROUTINE_FAILED Hr Ran Abort, s)
         }
         else Some (S_OK, s))
      })"

definition CfixklsRunBeforeOrAfterRoutine ::
    "'u kl_env \<Rightarrow> fixture \<Rightarrow> 'u kl_state exec_context \<Rightarrow> ulong_ptr \<Rightarrow> hresult \<Rightarrow> bool \<Rightarrow> 'u kl_state \<Rightarrow>
       (hresult \<times> 'u kl_state) option" where
  "CfixklsRunBeforeOrAfterRoutine env Fixture Context RoutineTag FailureHr ResetTlsAfterCall s =
     do {
       TlsVal \<leftarrow> KlTls s;
       (if RoutineTag AND CFIXKLP_ROUTINE_PRESENT \<noteq> 0
        then do {
          ((Hr, Ran, Abort, v), s) \<leftarrow> kl_call env Fixture Context RoutineTag TlsVal s;
          Some (call_verdict FailureHr Hr Ran Abort,
                s\<lparr>KlTls := Some (if ResetTlsAfterCall then 0 else v)\<rparr>)
        }
        else Some (S_OK, s))
     }"

definition CfixklsRunBeforeRoutine ::
    "'u kl_env \<Rightarrow> fixture \<Rightarrow> 'u kl_state exec_context \<Rightarrow> 'u kl_state \<Rightarrow> (hresult \<times> 'u kl_state) option" where
  "CfixklsRunBeforeRoutine env Fixture Context s =
     (if \<not> kl_valid_args Context then Some (E_INVALIDARG, s)
      else CfixklsRunBeforeOrAfterRoutine env Fixture Context (BeforeRoutine Fixture)
             CFIX_E_BEFORE_ROUTINE_FAILED False s)"

definition CfixklsRunAfterRoutine ::
    "'u kl_env \<Rightarrow> fixture \<Rightarrow> 'u kl_state exec_context \<Rightarrow> 'u kl_state \<Rightarrow> (hresult \<times> 'u kl_state) option" where
  "CfixklsRunAfterRoutine env Fixture Context s =
     (if \<not> kl_valid_args Context then Some (E_INVALIDARG, s)
      else CfixklsRunBeforeOrAfterRoutine env Fixture Context (AfterRoutine Fixture)
             CFIX_E_AFTER_ROUTINE_FAILED True s)"

text \<open>The routine of a test case is its key without the flag.\<close>

definition CfixklsRunTestCaseRoutine ::
    "'u kl_env \<Rightarrow> test_case_ptr \<Rightarrow> 'u kl_state exec_context \<Rightarrow> 'u kl_state \<Rightarrow>
       (hresult \<times> 'u kl_state) option" where
  "CfixklsRunTestCaseRoutine env tc Context s =
     (if \<not> snd tc < TestCaseCount (fst tc) \<or> \<not> kl_valid_args Context then Some (E_INVALIDARG, s)
      else do {
        TlsVal \<leftarrow> KlTls s;
        ((Hr, Ran, Abort, v), s) \<leftarrow>
          CfixklpCallRoutine (Device env) (TestThread env) (DriverBaseAddress env) Context
            (ucast (FixtureReserved (fst tc)))
            (ucast (TestCaseRoutine (TestCases (fst tc) ! snd tc))) TlsVal s;
        Some (call_verdict CFIX_E_TEST_ROUTINE_FAILED Hr Ran Abort, s\<lparr>KlTls := Some v\<rparr>)
      })"

definition kl_module :: "'u kl_env \<Rightarrow> 'u kl_state test_module" where
  "kl_module env =
     \<lparr>RunTestCase = (\<lambda>tc Context Flags. CfixklsRunTestCaseRoutine env tc Context),
      Setup = (\<lambda>fx Context Flags. CfixklsRunSetupRoutine env fx Context),
      Teardown = (\<lambda>fx Context Flags. CfixklsRunTeardownRoutine env fx Context),
      Before = (\<lambda>fx Context Flags. CfixklsRunBeforeRoutine env fx Context),
      After = (\<lambda>fx Context Flags. CfixklsRunAfterRoutine env fx Context),
      ModuleReference = id, ModuleDereference = id\<rparr>"

end
