(* ===== verification/Reflector.thy ===== *)
theory Reflector
  imports Connection KlIoctl
begin

text \<open>
  The reflector driver (\<open>cfixkern/cfixkr/main.c\<close>, with \<open>util.c\<close> and the creation of connections in
  \<open>drvconn.c\<close>): the three requests of its control device, the dispatch routine, and the query
  interface request by which a test driver announces itself.

  The state has the registry of connections and, for each connection, its test adapter and its
  filament registry. A request takes a reference on the connection and gives it back before it
  completes; what overlapping requests do to the counts is the subject of \<open>Connection\<close>. The
  buffer of a request is seen through its fields: both kinds of input begin with the address of
  the driver. Dispositions arrive as bytes.
\<close>

abbreviation STATUS_INVALID_DEVICE_REQUEST :: ntstatus
  where "STATUS_INVALID_DEVICE_REQUEST \<equiv> 0xC0000010"
abbreviation STATUS_DRIVER_INTERNAL_ERROR :: ntstatus
  where "STATUS_DRIVER_INTERNAL_ERROR \<equiv> 0xC0000183"
abbreviation STATUS_UNSUCCESSFUL :: ntstatus where "STATUS_UNSUCCESSFUL \<equiv> 0xC0000001"

abbreviation CFIXKR_IOCTL_QUERY_TEST_MODULE :: ulong where "CFIXKR_IOCTL_QUERY_TEST_MODULE \<equiv> 0x8000C004"
abbreviation CFIXKR_IOCTL_GET_TEST_MODULES :: ulong where "CFIXKR_IOCTL_GET_TEST_MODULES \<equiv> 0x8000C008"
abbreviation CFIXKR_IOCTL_CALL_ROUTINE :: ulong where "CFIXKR_IOCTL_CALL_ROUTINE \<equiv> 0x8000C014"

section \<open>State\<close>

record refl_state =
  DrvRegistry :: conn_registry
  Adapters :: "nat \<Rightarrow> test_adapter"
  FilamentRegistries :: "nat \<Rightarrow> kstate"

record io_input =
  InDriverBase :: ulong_ptr
  InFixtureKey :: "16 word"
  InRoutineKey :: "16 word"
  InFailedAssertion :: "8 word"
  InUnhandledException :: "8 word"
  InTlsValue :: ulong_ptr

datatype io_output =
    NoOutput
  | ModulesOutput modules_response
  | QueryOutput query_response
  | CallOutput call_response

definition disposition_of :: "8 word \<Rightarrow> disposition" where
  "disposition_of b = (if b = 0 then CfixContinue else if b = 1 then CfixBreak
                       else if b = 2 then CfixBreakAlways else CfixAbort)"

section \<open>Requests\<close>

definition CfixkrsQueryModuleIoctl ::
    "io_input option \<Rightarrow> ulong \<Rightarrow> ulong \<Rightarrow> refl_state \<Rightarrow> (ntstatus \<times> io_output \<times> ulong) option" where
  "CfixkrsQueryModuleIoctl Buffer InputBufferLength OutputBufferLength r =
     (case Buffer of
        None \<Rightarrow> Some (STATUS_INVALID_PARAMETER, NoOutput, 0)
      | Some Request \<Rightarrow>
          if InputBufferLength \<noteq> 8 \<or> OutputBufferLength < 4
          then Some (STATUS_INVALID_PARAMETER, NoOutput, 0)
          else case CfixkrpLookupDriverConnection (InDriverBase Request) (DrvRegistry r) of
            (Status, None) \<Rightarrow> Some (Status, NoOutput, 0)
          | (_, Some DriverConnection) \<Rightarrow>
              do {
                (Status, BufSize, m) \<leftarrow>
                  CfixkrpQueryModuleTestAdapter (Adapters r DriverConnection) OutputBufferLength;
                Some (case (BufSize, m) of
                    (Some n, Some m) \<Rightarrow> (Status, QueryOutput (TestModule m), n)
                  | (Some n, None) \<Rightarrow>
                      if Status = STATUS_BUFFER_OVERFLOW
                      then (Status, QueryOutput (SizeRequired n), 4) else (Status, NoOutput, 0)
                  | _ \<Rightarrow> (Status, NoOutput, 0))
              })"

definition CfixkrsGetModulesIoctl ::
    "io_input option \<Rightarrow> ulong \<Rightarrow> ulong \<Rightarrow> refl_state \<Rightarrow> ntstatus \<times> io_output \<times> ulong" where
  "CfixkrsGetModulesIoctl Buffer InputBufferLength OutputBufferLength r =
     (if Buffer = None \<or> InputBufferLength \<noteq> 0 \<or> OutputBufferLength < sizeof_get_modules
      then (STATUS_INVALID_PARAMETER, NoOutput, 0)
      else
        let Cap = (OutputBufferLength - 8) div 8;
            (Status, Addresses, ElementsWritten, ElementsAvailable) =
              CfixkrpGetDriverConnections Cap (DrvRegistry r)
        in if Status = STATUS_BUFFER_OVERFLOW
           then (Status, ModulesOutput \<lparr>ModuleCount = ElementsAvailable, ModuleAddresses = Addresses\<rparr>,
                 8 + 8 * ElementsWritten)
           else if NT_SUCCESS Status
           then (Status, ModulesOutput \<lparr>ModuleCount = ElementsWritten, ModuleAddresses = Addresses\<rparr>,
                 if ElementsWritten = 0 then 4 else 8 + 8 * ElementsWritten)
           else (Status, NoOutput, 0))"

definition new_channel :: "io_input \<Rightarrow> ulong \<Rightarrow> channel" where
  "new_channel Request OutputBufferLength =
     \<lparr>DispFailedAssertion = disposition_of (InFailedAssertion Request),
      DispUnhandledException = disposition_of (InUnhandledException Request),
      EventBuffer = \<lparr>BufferSize = OutputBufferLength - sizeof_call_response, BufferLength = 0,
                     EventCount = 0, BufferTruncated = False, Events = []\<rparr>,
      TlsValue = InTlsValue Request\<rparr>"

text \<open>
  \<open>Chan\<close> and \<open>Filament\<close> are the places of the channel and the filament on the stack. \<open>code\<close> runs
  the routine at an address on the channel, under the exception filter.
\<close>

definition CfixkrsCallRoutineIoctl ::
    "bool \<Rightarrow> (ulong_ptr list \<Rightarrow> ntstatus) \<Rightarrow> bool \<Rightarrow>
       (ulong_ptr \<Rightarrow> channel \<Rightarrow> kstate \<Rightarrow> ((bool \<times> bool) \<times> channel) \<times> kstate) \<Rightarrow>
       kthread \<Rightarrow> nat \<Rightarrow> nat \<Rightarrow> io_input option \<Rightarrow> ulong \<Rightarrow> ulong \<Rightarrow> refl_state \<Rightarrow>
       ((ntstatus \<times> io_output \<times> ulong) \<times> refl_state) option" where
  "CfixkrsCallRoutineIoctl pool_ok Wait Loaded code me Chan Filament
       Buffer InputBufferLength OutputBufferLength r =
     (case Buffer of
        None \<Rightarrow> Some ((STATUS_INVALID_PARAMETER, NoOutput, 0), r)
      | Some Request \<Rightarrow>
          if InputBufferLength < 24 \<or> OutputBufferLength < sizeof_call_response
             \<or> InDriverBase Request = 0
             \<or> 3 < InFailedAssertion Request \<or> 3 < InUnhandledException Request
          then Some ((STATUS_INVALID_PARAMETER, NoOutput, 0), r)
          else
            let ch = new_channel Request OutputBufferLength
            in case CfixkrpLookupDriverConnection (InDriverBase Request) (DrvRegistry r) of
                 (Status, None) \<Rightarrow> Some ((Status, NoOutput, 0), r)
               | (_, Some Conn) \<Rightarrow>
                   let Routine = CfixkrpGetRoutineTestAdapter (Adapters r Conn)
                                   (InFixtureKey Request) (InRoutineKey Request)
                   in do {
                     (Status, out, ks) \<leftarrow> CfixkrpCallRoutineDriverConnection pool_ok Wait
                       (case Routine of Inl Status \<Rightarrow> Status | Inr _ \<Rightarrow> STATUS_SUCCESS) Loaded
                       (code (case Routine of Inl _ \<Rightarrow> 0 | Inr a \<Rightarrow> a) ch)
                       me Chan Filament (FilamentRegistries r Conn);
                     let r = r\<lparr>FilamentRegistries := (FilamentRegistries r)(Conn := ks)\<rparr>;
                     Some (case out of
                         None \<Rightarrow> ((Status, NoOutput, 0), r)
                       | Some ((Ran, Abort), ch) \<Rightarrow>
                           let b = EventBuffer ch
                           in ((Status,
                                CallOutput \<lparr>RespRanToCompletion = Ran, RespAbortRun = Abort,
                                            RespTlsValue = TlsValue ch,
                                            RespTruncated = BufferTruncated b,
                                            RespCount = EventCount b, RespEvents = Events b\<rparr>,
                                sizeof_call_response + BufferLength b), r))
                   })"

definition CfixkrpDispatchDeviceControl ::
    "bool \<Rightarrow> (ulong_ptr list \<Rightarrow> ntstatus) \<Rightarrow> bool \<Rightarrow>
       (ulong_ptr \<Rightarrow> channel \<Rightarrow> kstate \<Rightarrow> ((bool \<times> bool) \<times> channel) \<times> kstate) \<Rightarrow>
       kthread \<Rightarrow> nat \<Rightarrow> nat \<Rightarrow> ulong \<Rightarrow> io_input option \<Rightarrow> ulong \<Rightarrow> ulong \<Rightarrow> refl_state \<Rightarrow>
       ((ntstatus \<times> io_output \<times> ulong) \<times> refl_state) option" where
  "CfixkrpDispatchDeviceControl pool_ok Wait Loaded code me Chan Filament
       IoControlCode Buffer InLen OutLen r =
     (if IoControlCode = CFIXKR_IOCTL_QUERY_TEST_MODULE
      then map_option (\<lambda>out. (out, r)) (CfixkrsQueryModuleIoctl Buffer InLen OutLen r)
      else if IoControlCode = CFIXKR_IOCTL_GET_TEST_MODULES
      then Some (CfixkrsGetModulesIoctl Buffer InLen OutLen r, r)
      else if IoControlCode = CFIXKR_IOCTL_CALL_ROUTINE
      then CfixkrsCallRoutineIoctl pool_ok Wait Loaded code me Chan Filament Buffer InLen OutLen r
      else Some ((STATUS_INVALID_DEVICE_REQUEST, NoOutput, 0), r))"

section \<open>Announcing a driver\<close>

text \<open>
  \<open>Query\<close> has the two statuses of \<open>AuxKlibQueryModuleInformation\<close>, and \<open>Modules\<close> its list of bases and
  sizes.
\<close>

fun find_module :: "ulong_ptr \<Rightarrow> (ulong_ptr \<times> ulong) list \<Rightarrow> ulong_ptr" where
  "find_module Addr [] = 0"
| "find_module Addr ((ImageBase, ImageSize) # ms) =
     (if ImageBase \<le> Addr \<and> Addr < ImageBase + ucast ImageSize then ImageBase
      else find_module Addr ms)"

definition CfixkrpGetModuleBaseAddress ::
    "ntstatus \<times> ntstatus \<Rightarrow> (ulong_ptr \<times> ulong) list \<Rightarrow> ulong_ptr \<Rightarrow> heap \<Rightarrow>
       (ntstatus + ulong_ptr) \<times> heap" where
  "CfixkrpGetModuleBaseAddress Query Modules AddressWithinModule h =
     (if \<not> NT_SUCCESS (fst Query) then (Inl (fst Query), h)
      else case malloc (length Modules) h of
        (False, h) \<Rightarrow> (Inl STATUS_NO_MEMORY, h)
      | (True, h) \<Rightarrow>
          let BaseAddress = (if NT_SUCCESS (snd Query) then find_module AddressWithinModule Modules
                             else 0)
          in (if BaseAddress = 0 then Inl STATUS_UNSUCCESSFUL else Inr BaseAddress, free h))"

text \<open>
  The creation of connection number \<open>Conn\<close>: one block for it, one for the table of its filament
  registry, two for the adapter and one for the registration; \<open>Locks\<close> counts the unload locks.
\<close>

definition CfixkrpCreateAndRegisterDriverConnection ::
    "bool \<Rightarrow> (string \<Rightarrow> nat \<Rightarrow> ntstatus + wstring) \<Rightarrow> (dword \<Rightarrow> pe_definition option) \<Rightarrow>
       driver_image option \<Rightarrow> ntstatus \<Rightarrow> ulong_ptr \<Rightarrow> nat \<Rightarrow> refl_state \<Rightarrow> heap \<Rightarrow> int \<Rightarrow>
       (ntstatus \<times> refl_state \<times> heap \<times> int) option" where
  "CfixkrpCreateAndRegisterDriverConnection Win64 a2u defs img InitLock DriverLoadAddress Conn
       r h Locks =
     (case malloc 1 h of
        (False, h) \<Rightarrow> Some (STATUS_NO_MEMORY, r, h, Locks)
      | (True, h) \<Rightarrow>
      let (ok, h) = malloc 31 h
      in case CfixkrpInitializeFilamentRegistry Win64 (\<lambda>_. ok) of
        (_, None) \<Rightarrow> Some (STATUS_NO_MEMORY, r, free h, Locks)
      | (_, Some ks) \<Rightarrow>
      if \<not> NT_SUCCESS InitLock then Some (InitLock, r, free (free h), Locks)
      else do {
        (a, h) \<leftarrow> CfixkrpCreateTestAdapter Win64 a2u defs img h;
        Some (case a of
            Inl Status \<Rightarrow> (Status, r, free (free h), Locks)
          | Inr Adapter \<Rightarrow>
              let (ok, h) = malloc 2 h;
                  (Status, reg) =
                    CfixkrpRegisterDriverConnection ok DriverLoadAddress Conn (DrvRegistry r)
              in if \<not> NT_SUCCESS Status
                 then (Status, r\<lparr>DrvRegistry := reg\<rparr>,
                       free (free (CfixkrpDeleteTestAdapter Adapter h)), Locks)
                 else (Status,
                       r\<lparr>DrvRegistry := reg, Adapters := (Adapters r)(Conn := Adapter),
                         FilamentRegistries := (FilamentRegistries r)(Conn := ks)\<rparr>, h, Locks + 1))
      })"

text \<open>
  \<open>IsSink\<close> tells that the interface is the report sink and that the parameters are there. The
  result has the status, whether the request was completed, and the version of the interface
  that was handed out.
\<close>

definition CfixkrpDispatchPnp ::
    "bool \<Rightarrow> (string \<Rightarrow> nat \<Rightarrow> ntstatus + wstring) \<Rightarrow> (dword \<Rightarrow> pe_definition option) \<Rightarrow>
       (ulong_ptr \<Rightarrow> driver_image option) \<Rightarrow> ntstatus \<times> ntstatus \<Rightarrow> (ulong_ptr \<times> ulong) list \<Rightarrow> ntstatus \<Rightarrow>
       bool \<Rightarrow> bool \<Rightarrow> ulong_ptr \<Rightarrow> ulong \<Rightarrow> nat \<Rightarrow> refl_state \<Rightarrow> heap \<Rightarrow> int \<Rightarrow>
       ((ntstatus \<times> bool \<times> ulong option) \<times> refl_state \<times> heap \<times> int) option" where
  "CfixkrpDispatchPnp Win64 a2u defs images Query Modules InitLock IsQueryInterface IsSink
       AddressWithinDriver Version Conn r h Locks =
     (if \<not> IsQueryInterface \<or> \<not> IsSink
      then Some ((STATUS_INVALID_DEVICE_REQUEST, True, None), r, h, Locks)
      else case CfixkrpGetModuleBaseAddress Query Modules AddressWithinDriver h of
        (Inl _, h) \<Rightarrow> Some ((STATUS_DRIVER_INTERNAL_ERROR, False, None), r, h, Locks)
      | (Inr BaseAddress, h) \<Rightarrow>
          do {
            (Status, r, h, Locks) \<leftarrow> CfixkrpCreateAndRegisterDriverConnection Win64 a2u defs
              (images BaseAddress) InitLock BaseAddress Conn r h Locks;
            Some (if \<not> NT_SUCCESS Status then ((Status, True, None), r, h, Locks)
                  else if Version = 0x1000 \<or> Version = 0x2000 \<or> Version = 0x3000
                  then ((Status, True, Some Version), r, h, Locks)
                  else ((STATUS_INVALID_DEVICE_REQUEST, True, None), r, h, Locks))
          })"

end
