(* ===== verification/KlModuleInv.thy ===== *)
theory KlModuleInv
  imports KlModule
begin

text \<open>
  What the description of a module says to its reader: the fixtures that the loader library makes
  of it are those the user mode loader would make of the definitions in the driver, with keys in
  the place of routines, and the keys lead back to the routines.
\<close>

section \<open>Strings of a description\<close>

definition str_at :: "ulong \<Rightarrow> wstring \<Rightarrow> ulong \<Rightarrow> ulong \<Rightarrow> wstring" where
  "str_at base area Offset Length =
     take (unat Length div 2) (drop (unat (Offset - base) div 2) area)"

lemma io_string_str_at: "io_string m = str_at (StringsAt m) (StringArea m)"
  by (simp add: fun_eq_iff io_string_def str_at_def)

lemma unat_double:
  assumes "2 * n < 2 ^ 32"
  shows "unat (2 * of_nat n :: ulong) = 2 * n"
proof -
  have "(2 * of_nat n :: ulong) = of_nat (2 * n)" by simp
  then show ?thesis using assms by (simp only: unat_of_nat) simp
qed

lemma str_at_append:
  assumes "2 * length (area @ name @ ext) < 2 ^ 32"
  shows "str_at base (area @ name @ ext) (base + 2 * of_nat (length area)) (2 * of_nat (length name)) = name"
  using assms unat_double [of "length area"] unat_double [of "length name"]
  by (simp add: str_at_def)

text \<open>An entry and a fixture of the description that say what the definition says.\<close>

definition entry_reads :: "ulong \<Rightarrow> wstring \<Rightarrow> nat \<Rightarrow> pe_entry \<Rightarrow> io_entry \<Rightarrow> bool" where
  "entry_reads base area k e io \<longleftrightarrow> IoType io = EntryType e \<and> IoKey io = of_nat k \<and>
     str_at base area (IoNameOffset io) (IoNameLength io) = EntryName e"

fun entries_read :: "ulong \<Rightarrow> wstring \<Rightarrow> nat \<Rightarrow> pe_entry list \<Rightarrow> io_entry list \<Rightarrow> bool" where
  "entries_read base area k [] ios = (ios = [])"
| "entries_read base area k (e # es) ios =
     (\<exists>io rest. ios = io # rest \<and> entry_reads base area k e io \<and> entries_read base area (k + 1) es rest)"

definition fixture_reads :: "ulong \<Rightarrow> wstring \<Rightarrow> nat \<Rightarrow> test_fixture \<Rightarrow> io_fixture \<Rightarrow> bool" where
  "fixture_reads base area k f io \<longleftrightarrow> IoFixtureKey io = of_nat k \<and>
     IoFixtureNameLength io = 2 * of_nat (length (KFixtureName f)) \<and>
     str_at base area (IoFixtureNameOffset io) (IoFixtureNameLength io) = KFixtureName f \<and>
     entries_read base area 0 (KEntries f) (IoEntries io)"

fun fixtures_read ::
    "ulong \<Rightarrow> wstring \<Rightarrow> nat \<Rightarrow> test_fixture list \<Rightarrow> (ulong \<times> io_fixture) list \<Rightarrow> bool" where
  "fixtures_read base area k [] ios = (ios = [])"
| "fixtures_read base area k (f # fs) ios =
     (\<exists>off io rest. ios = (off, io) # rest \<and> fixture_reads base area k f io \<and>
        fixtures_read base area (k + 1) fs rest)"

definition entry_names :: "pe_entry list \<Rightarrow> wstring" where
  "entry_names es = concat (map EntryName es)"

definition all_names :: "test_fixture list \<Rightarrow> wstring" where
  "all_names fs = concat (map (\<lambda>f. KFixtureName f @ entry_names (KEntries f)) fs)"

lemma names_simps [simp]:
  "entry_names [] = []" "entry_names (e # es) = EntryName e @ entry_names es"
  "all_names [] = []" "all_names (f # fs) = KFixtureName f @ entry_names (KEntries f) @ all_names fs"
  by (simp_all add: entry_names_def all_names_def)

definition short_names :: "pe_entry list \<Rightarrow> bool" where
  "short_names es \<longleftrightarrow> (\<forall>e \<in> set es. length (EntryName e) < 63)"

lemma name_cb_short: "length Name < 63 \<Longrightarrow> name_cb Name = Inr (2 * of_nat (length Name))"
  by (simp add: name_cb_def)

lemma write_entries_read:
  assumes "short_names es" and "2 * length (area @ entry_names es @ ext) < 2 ^ 32"
  shows "\<exists>ios. write_entries es k (base + 2 * of_nat (length area), area) =
           Inr (ios, base + 2 * of_nat (length (area @ entry_names es)), area @ entry_names es)
       \<and> entries_read base (area @ entry_names es @ ext) k es ios"
  using assms
proof (induction es arbitrary: k area)
  case (Cons e es)
  let ?n = "EntryName e"
  from Cons.prems have n: "name_cb ?n = Inr (2 * of_nat (length ?n))" "short_names es"
    by (auto simp: short_names_def intro: name_cb_short)
  have off: "base + 2 * of_nat (length area) + 2 * of_nat (length ?n)
      = base + 2 * of_nat (length (area @ ?n))" by simp
  from Cons.IH [OF n(2), of "area @ ?n" "k + 1"] Cons.prems(2) obtain ios where w:
    "write_entries es (k + 1) (base + 2 * of_nat (length (area @ ?n)), area @ ?n) =
       Inr (ios, base + 2 * of_nat (length (area @ entry_names (e # es))), area @ entry_names (e # es))"
    "entries_read base (area @ entry_names (e # es) @ ext) (k + 1) es ios"
    by auto
  have "str_at base (area @ entry_names (e # es) @ ext) (base + 2 * of_nat (length area))
      (2 * of_nat (length ?n)) = ?n"
    using str_at_append [of area ?n "entry_names es @ ext" base] Cons.prems(2) by simp
  with w n(1) show ?case unfolding write_entries.simps off by (auto simp: entry_reads_def off)
qed simp

lemma write_fixtures_read:
  assumes "\<forall>f \<in> set fs. short_names (KEntries f)" and "2 * length (area @ all_names fs) < 2 ^ 32"
  shows "\<exists>ios. write_fixtures fs k so (base + 2 * of_nat (length area), area) =
           Inr (ios, base + 2 * of_nat (length (area @ all_names fs)), area @ all_names fs)
       \<and> fixtures_read base (area @ all_names fs) k fs ios"
  using assms
proof (induction fs arbitrary: k so area)
  case (Cons f fs)
  let ?n = "KFixtureName f" and ?es = "KEntries f"
  have sh: "short_names ?es" "\<forall>f \<in> set fs. short_names (KEntries f)" using Cons.prems(1) by simp_all
  have off: "base + 2 * of_nat (length area) + 2 * of_nat (length ?n)
      = base + 2 * of_nat (length (area @ ?n))" by simp
  from write_entries_read [OF sh(1), of "area @ ?n" "all_names fs" 0 base] Cons.prems(2)
  obtain ios where w: "write_entries ?es 0 (base + 2 * of_nat (length (area @ ?n)), area @ ?n) =
      Inr (ios, base + 2 * of_nat (length (area @ ?n @ entry_names ?es)), area @ ?n @ entry_names ?es)"
    "entries_read base (area @ all_names (f # fs)) 0 ?es ios" by auto
  from Cons.IH [OF sh(2), of "area @ ?n @ entry_names ?es" "k + 1"
      "so + fixture_struct_size (length ?es)"] Cons.prems(2)
  obtain rest where r: "write_fixtures fs (k + 1) (so + fixture_struct_size (length ?es))
      (base + 2 * of_nat (length (area @ ?n @ entry_names ?es)), area @ ?n @ entry_names ?es) =
      Inr (rest, base + 2 * of_nat (length (area @ all_names (f # fs))), area @ all_names (f # fs))"
    "fixtures_read base (area @ all_names (f # fs)) (k + 1) fs rest" by auto
  have "str_at base (area @ all_names (f # fs)) (base + 2 * of_nat (length area))
      (2 * of_nat (length ?n)) = ?n"
    using str_at_append [of area ?n "entry_names ?es @ all_names fs" base] Cons.prems(2) by simp
  with w r show ?case unfolding write_fixtures.simps Let_def off w(1)
    by (simp add: fixture_reads_def)
qed simp

section \<open>Offsets\<close>

fun struct_offsets :: "ulong \<Rightarrow> test_fixture list \<Rightarrow> ulong list" where
  "struct_offsets so [] = []"
| "struct_offsets so (f # fs) =
     so # struct_offsets (so + fixture_struct_size (length (KEntries f))) fs"

definition struct_bytes :: "test_fixture list \<Rightarrow> nat" where
  "struct_bytes fs = (\<Sum>f \<leftarrow> fs. 16 + 12 * length (KEntries f))"

lemma struct_bytes_simps [simp]:
  "struct_bytes [] = 0" "struct_bytes (f # fs) = 16 + 12 * length (KEntries f) + struct_bytes fs"
  by (simp_all add: struct_bytes_def)

lemma write_fixtures_offsets:
  "write_fixtures fs k so at = Inr (ios, at') \<Longrightarrow> map fst ios = struct_offsets so fs"
proof (induction fs arbitrary: k so at ios at')
  case Nil
  then show ?case by (cases at) simp
next
  case (Cons f fs)
  obtain o1 area where at: "at = (o1, area)" by (cases at)
  from Cons.prems at obtain es at1 rest where
    "write_fixtures fs (k + 1) (so + fixture_struct_size (length (KEntries f))) at1 = Inr (rest, at')"
    "map fst ios = so # map fst rest"
    by (auto simp: Let_def split: sum.splits)
  with Cons.IH show ?case by simp
qed

lemma unat_fixture_struct_size:
  assumes "16 + 12 * n < 2 ^ 32"
  shows "unat (fixture_struct_size n) = 16 + 12 * n"
proof -
  have "fixture_struct_size n = of_nat (16 + 12 * n)" by (simp add: fixture_struct_size_def)
  with assms show ?thesis by (simp only: unat_of_nat) simp
qed

lemma struct_offsets_ge:
  assumes "unat so + struct_bytes fs < 2 ^ 32"
  shows "\<forall>x \<in> set (struct_offsets so fs). unat so \<le> unat x"
  using assms
proof (induction fs arbitrary: so)
  case (Cons f fs)
  let ?so = "so + fixture_struct_size (length (KEntries f))"
  have "unat ?so = unat so + (16 + 12 * length (KEntries f))"
    using Cons.prems unat_fixture_struct_size [of "length (KEntries f)"] by (simp add: unat_word_ariths)
  with Cons.prems Cons.IH [of ?so] show ?case by fastforce
qed simp

lemma struct_offsets_distinct:
  assumes "unat so + struct_bytes fs < 2 ^ 32"
  shows "distinct (struct_offsets so fs)"
  using assms
proof (induction fs arbitrary: so)
  case (Cons f fs)
  let ?so = "so + fixture_struct_size (length (KEntries f))"
  have so: "unat ?so = unat so + (16 + 12 * length (KEntries f))"
    using Cons.prems unat_fixture_struct_size [of "length (KEntries f)"] by (simp add: unat_word_ariths)
  with Cons.prems have lim: "unat ?so + struct_bytes fs < 2 ^ 32" by simp
  from struct_offsets_ge [OF lim] so have "so \<notin> set (struct_offsets ?so fs)" by fastforce
  with Cons.IH [OF lim] show ?case by simp
qed simp

section \<open>Fixtures with keys\<close>

definition routine_tag :: "entry_type \<Rightarrow> nat \<Rightarrow> ulong_ptr" where
  "routine_tag t k =
     (let key = ucast (of_nat k :: 16 word) in if t = EntryTestcase then key
      else key OR CFIXKLP_ROUTINE_PRESENT)"

fun keyed_from :: "nat \<Rightarrow> pe_entry list \<Rightarrow> pe_entry list" where
  "keyed_from k [] = []"
| "keyed_from k (e # es) = e\<lparr>EntryRoutine := routine_tag (EntryType e) k\<rparr> # keyed_from (k + 1) es"

definition kl_error :: "hresult \<Rightarrow> hresult" where
  "kl_error Hr = (if Hr = CFIX_E_UNKNOWN_ENTRY_TYPE then CFIXKL_E_INVALID_REFLECTOR_RESPONSE else Hr)"

definition tag_ok :: "ulong_ptr \<Rightarrow> bool" where
  "tag_ok r \<longleftrightarrow> r = 0 \<or> r AND CFIXKLP_ROUTINE_PRESENT \<noteq> 0"

definition tags_ok :: "fixture \<Rightarrow> bool" where
  "tags_ok fx \<longleftrightarrow> tag_ok (SetupRoutine fx) \<and> tag_ok (TeardownRoutine fx) \<and>
     tag_ok (BeforeRoutine fx) \<and> tag_ok (AfterRoutine fx)"

lemma present_bit: "(x :: ulong_ptr) AND CFIXKLP_ROUTINE_PRESENT \<noteq> 0 \<longleftrightarrow> bit x 31"
proof -
  have "CFIXKLP_ROUTINE_PRESENT = push_bit 31 1" by simp
  then show ?thesis by (metis and_exp_eq_0_iff_not_bit push_bit_eq_mult mult_1)
qed

lemma present_bits: "bit CFIXKLP_ROUTINE_PRESENT n \<longleftrightarrow> n = 31"
proof -
  have "CFIXKLP_ROUTINE_PRESENT = 2 ^ 31" by simp
  then show ?thesis by (simp only: bit_exp_iff) auto
qed

lemma and_not_id:
  fixes x y :: "'a::len word"
  assumes "x AND y = 0"
  shows "x AND NOT y = x"
proof (rule bit_word_eqI)
  fix n assume "n < LENGTH('a)"
  have "\<not> bit (x AND y) n" using assms by simp
  with \<open>n < LENGTH('a)\<close> show "bit (x AND NOT y) n = bit x n" by (auto simp: bit_simps)
qed

lemma tag_bits:
  "bit (ucast (k :: 16 word) OR CFIXKLP_ROUTINE_PRESENT :: ulong_ptr) 31"
  "ucast ((ucast k OR CFIXKLP_ROUTINE_PRESENT :: ulong_ptr) AND NOT CFIXKLP_ROUTINE_PRESENT) = k"
  "ucast (ucast k :: ulong_ptr) = k"
proof -
  show "bit (ucast k OR CFIXKLP_ROUTINE_PRESENT :: ulong_ptr) 31"
    using present_bit [of "CFIXKLP_ROUTINE_PRESENT"] by (simp add: bit_or_iff)
  show "ucast ((ucast k OR CFIXKLP_ROUTINE_PRESENT :: ulong_ptr) AND NOT CFIXKLP_ROUTINE_PRESENT) = k"
  proof (rule bit_word_eqI)
    fix n assume n: "n < LENGTH(16)"
    then have "\<not> bit (CFIXKLP_ROUTINE_PRESENT) n"
      by (auto simp: bit_numeral_rec less_Suc_eq numeral_eq_Suc)
    with n show "bit (ucast ((ucast k OR CFIXKLP_ROUTINE_PRESENT :: ulong_ptr)
        AND NOT CFIXKLP_ROUTINE_PRESENT) :: 16 word) n = bit k n"
      by (simp add: bit_simps)
  qed
  show "ucast (ucast k :: ulong_ptr) = k" by (rule bit_word_eqI) (simp add: bit_simps)
qed

lemma tag_present:
  assumes "tag_ok r"
  shows "r AND CFIXKLP_ROUTINE_PRESENT \<noteq> 0 \<longleftrightarrow> r \<noteq> 0"
  using assms by (auto simp: tag_ok_def)

lemma routine_tag_ok:
  "t \<noteq> EntryTestcase \<Longrightarrow> routine_tag t k = ucast (of_nat k :: 16 word) OR CFIXKLP_ROUTINE_PRESENT"
  "tag_ok (ucast (j :: 16 word) OR CFIXKLP_ROUTINE_PRESENT)"
  by (simp_all add: routine_tag_def tag_ok_def present_bit tag_bits)

lemma kl_walk_entry_spec:
  assumes "entry_reads (StringsAt m) (StringArea m) k e io" and "tags_ok fx"
  shows "kl_walk_entry m io fx =
           map_sum kl_error id (walk_entry (e\<lparr>EntryRoutine := routine_tag (EntryType e) k\<rparr>) fx)"
    and "walk_entry (e\<lparr>EntryRoutine := routine_tag (EntryType e) k\<rparr>) fx = Inr fx' \<Longrightarrow> tags_ok fx'"
proof -
  from assms(1) have io: "IoType io = EntryType e" "IoKey io = of_nat k"
    "io_string m (IoNameOffset io) (IoNameLength io) = EntryName e"
    by (simp_all add: entry_reads_def io_string_str_at)
  note tags = assms(2) [unfolded tags_ok_def] and tp = tag_present
  show "kl_walk_entry m io fx =
      map_sum kl_error id (walk_entry (e\<lparr>EntryRoutine := routine_tag (EntryType e) k\<rparr>) fx)"
    using io tags
    by (cases "EntryType e")
      (auto simp: kl_walk_entry_def walk_entry_def tp kl_error_def add_test_case_def routine_tag_ok(1)
        routine_tag_def Let_def)
  show "walk_entry (e\<lparr>EntryRoutine := routine_tag (EntryType e) k\<rparr>) fx = Inr fx' \<Longrightarrow> tags_ok fx'"
    using tags
    by (cases "EntryType e")
      (auto simp: walk_entry_def tags_ok_def routine_tag_ok split: if_splits)
qed

lemma kl_walk_entries_spec:
  assumes "entries_read (StringsAt m) (StringArea m) k es ios" and "tags_ok fx"
  shows "kl_walk_entries m ios fx = map_sum kl_error id (walk_entries (keyed_from k es) fx)"
  using assms
proof (induction es arbitrary: k ios fx)
  case (Cons e es)
  from Cons.prems(1) obtain io rest where io: "ios = io # rest"
    "entry_reads (StringsAt m) (StringArea m) k e io"
    "entries_read (StringsAt m) (StringArea m) (k + 1) es rest" by auto
  note spec = kl_walk_entry_spec [OF io(2) Cons.prems(2)]
  show ?case
  proof (cases "walk_entry (e\<lparr>EntryRoutine := routine_tag (EntryType e) k\<rparr>) fx")
    case (Inl Hr)
    with spec(1) io(1) show ?thesis by simp
  next
    case (Inr fx')
    with spec io(1) Cons.IH [OF io(3)] show ?thesis by simp
  qed
qed simp

text \<open>The fixture that the user mode loader would make of the definition with its keys.\<close>

definition blank_fixture :: "wstring \<Rightarrow> nat \<Rightarrow> test_fixture \<Rightarrow> fixture" where
  "blank_fixture Module k f =
     \<lparr>FixtureName = KFixtureName f, SetupRoutine = 0, TeardownRoutine = 0, BeforeRoutine = 0,
      AfterRoutine = 0, FixtureReserved = ucast (of_nat k :: 16 word), ApiType = 1, FixtureFlags = 0,
      ModuleName = Module, TestCases = []\<rparr>"

definition keyed_fixture :: "wstring \<Rightarrow> nat \<Rightarrow> test_fixture \<Rightarrow> hresult + fixture" where
  "keyed_fixture Module k f =
     map_sum kl_error id (walk_entries (keyed_from 0 (KEntries f)) (blank_fixture Module k f))"

fun keyed_fixtures :: "wstring \<Rightarrow> nat \<Rightarrow> test_fixture list \<Rightarrow> hresult \<times> fixture list + fixture list" where
  "keyed_fixtures Module k [] = Inr []"
| "keyed_fixtures Module k (f # fs) =
     (case keyed_fixture Module k f of
        Inl Hr \<Rightarrow> Inl (Hr, [])
      | Inr fx \<Rightarrow> map_sum (apsnd ((#) fx)) ((#) fx) (keyed_fixtures Module (k + 1) fs))"

definition always_ok :: "heap \<Rightarrow> bool" where
  "always_ok h \<longleftrightarrow> (\<forall>n sz. MallocOk h n sz)"

lemma malloc_ok:
  "always_ok h \<Longrightarrow> malloc sz h = (True, h\<lparr>Requests := Requests h + 1, Live := Live h + 1\<rparr>)"
  by (simp add: malloc_def always_ok_def)

lemma always_ok_update [simp]:
  "always_ok (h\<lparr>Live := n\<rparr>) = always_ok h" "always_ok (h\<lparr>Requests := r\<rparr>) = always_ok h"
  "always_ok (free h) = always_ok h"
  by (simp_all add: always_ok_def free_def)

lemma create_fixture_spec:
  assumes "fixture_reads (StringsAt m) (StringArea m) k f io" and "always_ok h"
    and "length (KFixtureName f) < 128"
  shows "CfixklsCreateFixture Module m io h =
           (keyed_fixture Module k f,
            case keyed_fixture Module k f of
              Inl _ \<Rightarrow> h\<lparr>Requests := Requests h + 1\<rparr>
            | Inr _ \<Rightarrow> h\<lparr>Requests := Requests h + 1, Live := Live h + 1\<rparr>)"
proof -
  have len: "unat (2 * of_nat (length (KFixtureName f)) :: ulong) = 2 * length (KFixtureName f)"
    using assms(3) by (intro unat_double) simp
  have "\<not> 2 * of_nat 128 - 2 < (2 * of_nat (length (KFixtureName f)) :: ulong)"
    using assms(3) len by (simp add: word_less_nat_alt)
  moreover have "kl_new_fixture Module m io = blank_fixture Module k f"
    using assms(1) by (auto simp: kl_new_fixture_def blank_fixture_def fixture_reads_def io_string_str_at)
  moreover have "tags_ok (blank_fixture Module k f)" by (simp add: tags_ok_def blank_fixture_def tag_ok_def)
  ultimately show ?thesis
    using assms kl_walk_entries_spec [of m 0 "KEntries f" "IoEntries io" "blank_fixture Module k f"]
    by (auto simp: CfixklsCreateFixture_def malloc_ok keyed_fixture_def fixture_reads_def free_def
        split: sum.splits)
qed

lemma create_fixtures_spec:
  assumes "fixtures_read (StringsAt m) (StringArea m) k fs ios" and "always_ok h"
    and "\<forall>f \<in> set fs. length (KFixtureName f) < 128" and "\<forall>(off, io) \<in> set ios. IoFixtures m off = Some io"
  shows "\<exists>h'. create_fixtures Module m (map fst ios) acc h =
             Some (map_sum (apsnd ((@) acc)) ((@) acc) (keyed_fixtures Module k fs), h')
           \<and> always_ok h' \<and> Live h' = Live h + int (case keyed_fixtures Module k fs of
                 Inl (_, d) \<Rightarrow> length d | Inr d \<Rightarrow> length d)"
  using assms
proof (induction fs arbitrary: k ios h acc)
  case (Cons f fs)
  from Cons.prems(1) obtain off io rest where io: "ios = (off, io) # rest"
    "fixture_reads (StringsAt m) (StringArea m) k f io"
    "fixtures_read (StringsAt m) (StringArea m) (k + 1) fs rest" by auto
  have at: "IoFixtures m off = Some io" "\<forall>(off, io) \<in> set rest. IoFixtures m off = Some io"
    using Cons.prems(4) io(1) by auto
  note c = create_fixture_spec [OF io(2) Cons.prems(2)]
  show ?case
  proof (cases "keyed_fixture Module k f")
    case (Inl Hr)
    with c Cons.prems at io(1) show ?thesis by simp
  next
    case (Inr fx)
    let ?h = "h\<lparr>Requests := Requests h + 1, Live := Live h + 1\<rparr>"
    have ok: "always_ok ?h" and names: "\<forall>f \<in> set fs. length (KFixtureName f) < 128"
      using Cons.prems(2,3) by simp_all
    from Cons.IH [OF io(3) ok names at(2), of "acc @ [fx]"] obtain h' where
      "create_fixtures Module m (map fst rest) (acc @ [fx]) ?h =
         Some (map_sum (apsnd ((@) (acc @ [fx]))) ((@) (acc @ [fx])) (keyed_fixtures Module (k + 1) fs), h')"
      "always_ok h'" "Live h' = Live ?h + int (case keyed_fixtures Module (k + 1) fs of
         Inl (_, d) \<Rightarrow> length d | Inr d \<Rightarrow> length d)" by blast
    with Inr c Cons.prems(3) at io(1) show ?thesis
      by (cases "keyed_fixtures Module (k + 1) fs") (auto simp: apsnd_def map_prod_def split_beta)
  qed
qed simp

section \<open>The description of a well formed adapter\<close>

definition adapter_bytes :: "test_adapter \<Rightarrow> nat" where
  "adapter_bytes A = 4 + 4 * length A + struct_bytes A + 2 * length (all_names A)"

definition adapter_ok :: "test_adapter \<Rightarrow> bool" where
  "adapter_ok A \<longleftrightarrow> (\<forall>f \<in> set A. short_names (KEntries f) \<and> length (KFixtureName f) < 128) \<and>
     counts_fit A \<and> adapter_bytes A < 2 ^ 32"

lemma entries_cb_short:
  "short_names es \<Longrightarrow> entries_cb es n = Inr (n + 2 * of_nat (length (entry_names es)))"
proof (induction es arbitrary: n)
  case (Cons e es)
  then have "length (EntryName e) < 63" "short_names es" by (simp_all add: short_names_def)
  with Cons.IH show ?case by (simp add: name_cb_short algebra_simps)
qed simp

lemma fixtures_cb_short:
  "\<forall>f \<in> set fs. short_names (KEntries f) \<Longrightarrow>
     fixtures_cb fs so n = Inr (so + of_nat (struct_bytes fs), n + 2 * of_nat (length (all_names fs)))"
proof (induction fs arbitrary: so n)
  case (Cons f fs)
  then have "short_names (KEntries f)" "\<forall>f \<in> set fs. short_names (KEntries f)" by simp_all
  with Cons.IH show ?case
    by (simp add: entries_cb_short fixture_struct_size_def algebra_simps)
qed simp

lemma adapter_size:
  assumes "adapter_ok A"
  shows "CfixkrsCalculateBufferSize A =
           Inr (of_nat (4 + 4 * length A + struct_bytes A), of_nat (2 * length (all_names A)))"
  using assms fixtures_cb_short [of A "module_struct_size (length A)" 0]
  by (simp add: CfixkrsCalculateBufferSize_def adapter_ok_def module_struct_size_def)

definition describes :: "test_adapter \<Rightarrow> io_module \<Rightarrow> bool" where
  "describes A m \<longleftrightarrow>
     (\<exists>ios. FixtureOffsets m = map fst ios \<and> fixtures_read (StringsAt m) (StringArea m) 0 A ios
        \<and> (\<forall>(off, io) \<in> set ios. IoFixtures m off = Some io))"

lemma query_module:
  assumes "adapter_ok A"
  shows "unat cap < adapter_bytes A \<Longrightarrow> CfixkrpQueryModuleTestAdapter A cap =
           Some (STATUS_BUFFER_OVERFLOW, Some (of_nat (adapter_bytes A)), None)"
    and "adapter_bytes A \<le> unat cap \<Longrightarrow> \<exists>m. CfixkrpQueryModuleTestAdapter A cap =
           Some (STATUS_SUCCESS, Some (of_nat (adapter_bytes A)), Some m) \<and> describes A m"
proof -
  let ?so = "of_nat (4 + 4 * length A + struct_bytes A) :: ulong"
  let ?n = "of_nat (2 * length (all_names A)) :: ulong"
  have sum: "?so + ?n = of_nat (adapter_bytes A)" by (simp add: adapter_bytes_def)
  have bytes: "unat (of_nat (adapter_bytes A) :: ulong) = adapter_bytes A"
    using assms by (simp add: unat_of_nat adapter_ok_def)
  note q = CfixkrpQueryModuleTestAdapter_def [of A cap, unfolded adapter_size [OF assms] sum.case
      prod.case sum]
  show "unat cap < adapter_bytes A \<Longrightarrow> CfixkrpQueryModuleTestAdapter A cap =
      Some (STATUS_BUFFER_OVERFLOW, Some (of_nat (adapter_bytes A)), None)"
    using q bytes by (simp add: word_less_nat_alt)
  assume room: "adapter_bytes A \<le> unat cap"
  have lim: "2 * length ([] @ all_names A) < 2 ^ 32" and sh: "\<forall>f \<in> set A. short_names (KEntries f)"
    and fit: "counts_fit A"
    using assms by (simp_all add: adapter_ok_def adapter_bytes_def)
  from write_fixtures_read [OF sh lim, of 0 "module_struct_size (length A)" ?so] obtain ios at where
    w: "write_fixtures A 0 (module_struct_size (length A)) (?so, []) = Inr (ios, at, all_names A)"
       "fixtures_read ?so (all_names A) 0 A ios" by auto
  have dist: "distinct (map fst ios)"
  proof -
    have u: "unat (module_struct_size (length A)) = 4 + 4 * length A"
    proof -
      have "module_struct_size (length A) = of_nat (4 + 4 * length A)" by (simp add: module_struct_size_def)
      then show ?thesis using assms by (simp only: unat_of_nat) (simp add: adapter_ok_def adapter_bytes_def)
    qed
    with assms have "unat (module_struct_size (length A)) + struct_bytes A < 2 ^ 32"
      by (simp add: adapter_ok_def adapter_bytes_def)
    from struct_offsets_distinct [OF this] write_fixtures_offsets [OF w(1)] show ?thesis by simp
  qed
  let ?m = "\<lparr>FixtureOffsets = map fst ios, IoFixtures = map_of ios, StringsAt = ?so,
             StringArea = all_names A\<rparr>"
  have "CfixkrpQueryModuleTestAdapter A cap =
      Some (STATUS_SUCCESS, Some (of_nat (adapter_bytes A)), Some ?m)"
    using q room bytes w(1) fit by (simp add: word_less_nat_alt del: of_nat_add)
  moreover have "describes A ?m"
    using w(2) dist by (auto simp: describes_def intro!: exI [of _ ios] map_of_is_SomeI)
  ultimately show "\<exists>m. CfixkrpQueryModuleTestAdapter A cap =
      Some (STATUS_SUCCESS, Some (of_nat (adapter_bytes A)), Some m) \<and> describes A m" by blast
qed

text \<open>The keys lead back to the routines.\<close>

lemma keys_lead_back:
  assumes "counts_fit A" and "i < length A" and "j < length (KEntries (A ! i))"
  shows "CfixkrpGetRoutineTestAdapter A (ucast (ucast (of_nat i :: 16 word) :: ulong_ptr))
           (ucast (routine_tag t j AND NOT CFIXKLP_ROUTINE_PRESENT)) =
         Inr (EntryRoutine (KEntries (A ! i) ! j))"
proof -
  from assms have "length A < 2 ^ 16" "length (KEntries (A ! i)) < 2 ^ 16"
    by (auto simp: counts_fit_def list_all_iff)
  with assms have u: "unat (of_nat i :: 16 word) = i" "unat (of_nat j :: 16 word) = j"
    by (simp_all add: unat_of_nat)
  have nobit: "(ucast (of_nat j :: 16 word) :: ulong_ptr) AND NOT CFIXKLP_ROUTINE_PRESENT
      = ucast (of_nat j :: 16 word)"
  proof (rule and_not_id)
    have "\<not> bit (ucast (of_nat j :: 16 word) :: ulong_ptr) 31" by (simp add: bit_simps)
    then show "(ucast (of_nat j :: 16 word) :: ulong_ptr) AND CFIXKLP_ROUTINE_PRESENT = 0"
      using present_bit by blast
  qed
  have "ucast (routine_tag t j AND NOT CFIXKLP_ROUTINE_PRESENT) = (of_nat j :: 16 word)"
    using tag_bits nobit by (cases "t = EntryTestcase") (simp_all add: routine_tag_def Let_def)
  with u assms tag_bits(3) show ?thesis
    by (simp add: CfixkrpGetRoutineTestAdapter_def Let_def)
qed

end
