(* ===== verification/KernelPath.thy ===== *)
theory KernelPath
  imports KlModuleInv Reflector ConnectionInv
begin

text \<open>
  The path from the loader library through the reflector and back: \<open>DeviceIoControl\<close> on the handle
  of the reflector ends in its dispatch routine. The I/O manager hands the request over in a
  buffer, fails the call exactly when the status is not a success, and translates the status to
  a Win32 error (\<open>KsToDos\<close>, of which the code relies on the translation of the overflow status).
\<close>

section \<open>The device\<close>

record 'c kworld =
  Refl :: refl_state
  Observer :: 'c

record kernel_side =
  KsToDos :: "ntstatus \<Rightarrow> dword"
  KsPoolOk :: bool
  KsWait :: "ulong_ptr list \<Rightarrow> ntstatus"
  KsLoaded :: bool
  KsCode :: "ulong_ptr \<Rightarrow> channel \<Rightarrow> kstate \<Rightarrow> ((bool \<times> bool) \<times> channel) \<times> kstate"
  KsThread :: kthread
  KsChan :: nat
  KsFilament :: nat

definition dos_error :: "kernel_side \<Rightarrow> ntstatus \<Rightarrow> dword option" where
  "dos_error k Status = (if NT_SUCCESS Status then None else Some (KsToDos k Status))"

definition device_control ::
    "kernel_side \<Rightarrow> ulong \<Rightarrow> io_input \<Rightarrow> ulong \<Rightarrow> ulong \<Rightarrow> refl_state \<Rightarrow>
       ((ntstatus \<times> io_output \<times> ulong) \<times> refl_state) option" where
  "device_control k Ctl Input InLen OutLen r =
     CfixkrpDispatchDeviceControl (KsPoolOk k) (KsWait k) (KsLoaded k) (KsCode k) (KsThread k)
       (KsChan k) (KsFilament k) Ctl (Some Input) InLen OutLen r"

definition no_input :: io_input where
  "no_input = \<lparr>InDriverBase = 0, InFixtureKey = 0, InRoutineKey = 0, InFailedAssertion = 0,
     InUnhandledException = 0, InTlsValue = 0\<rparr>"

fun disposition_code :: "disposition \<Rightarrow> 8 word" where
  "disposition_code CfixContinue = 0"
| "disposition_code CfixBreak = 1"
| "disposition_code CfixBreakAlways = 2"
| "disposition_code CfixAbort = 3"

definition request_input :: "call_request \<Rightarrow> io_input" where
  "request_input q = \<lparr>InDriverBase = ReqDriverBase q, InFixtureKey = ReqFixtureKey q,
     InRoutineKey = ReqRoutineKey q, InFailedAssertion = disposition_code (ReqFailedAssertion q),
     InUnhandledException = disposition_code (ReqUnhandledException q), InTlsValue = ReqTlsValue q\<rparr>"

definition modules_of :: "io_output \<Rightarrow> modules_response" where
  "modules_of out = (case out of ModulesOutput m \<Rightarrow> m | _ \<Rightarrow> \<lparr>ModuleCount = 0, ModuleAddresses = []\<rparr>)"

definition query_of :: "io_output \<Rightarrow> query_response" where
  "query_of out = (case out of QueryOutput q \<Rightarrow> q | _ \<Rightarrow> SizeRequired 0)"

definition call_of :: "io_output \<Rightarrow> call_response" where
  "call_of out = (case out of CallOutput c \<Rightarrow> c
     | _ \<Rightarrow> \<lparr>RespRanToCompletion = False, RespAbortRun = False, RespTlsValue = 0,
            RespTruncated = False, RespCount = 0, RespEvents = []\<rparr>)"

definition reflector_device :: "kernel_side \<Rightarrow> 'c kworld kl_state reflector" where
  "reflector_device k =
     \<lparr>GetTestModules = (\<lambda>OutLen s.
        case CfixkrsGetModulesIoctl (Some no_input) 0 OutLen (Refl (World s)) of
          (Status, out, n) \<Rightarrow> (dos_error k Status, modules_of out, n)),
      QueryTestModule = (\<lambda>Base OutLen s.
        map_option (\<lambda>((Status, out, n), _). (dos_error k Status, query_of out, n))
          (device_control k CFIXKR_IOCTL_QUERY_TEST_MODULE (no_input\<lparr>InDriverBase := Base\<rparr>) 8 OutLen
             (Refl (World s)))),
      CallRoutine = (\<lambda>q OutLen s.
        map_option (\<lambda>((Status, out, n), r).
            ((dos_error k Status, call_of out, n), s\<lparr>World := (World s)\<lparr>Refl := r\<rparr>\<rparr>))
          (device_control k CFIXKR_IOCTL_CALL_ROUTINE (request_input q) 24 OutLen (Refl (World s))))\<rparr>"

section \<open>Finding the driver\<close>

lemma search_driver_found:
  assumes "a \<in> set as" and "names a = Inr n" and "wcsicmp_eq base n"
    and "\<forall>b \<in> set as. b \<noteq> a \<longrightarrow> (\<forall>n'. names b = Inr n' \<longrightarrow> \<not> wcsicmp_eq base n')"
  shows "search_driver names base as Hr = (S_OK, a)"
  using assms(1,4)
proof (induction as arbitrary: Hr)
  case (Cons b bs)
  show ?case
  proof (cases "b = a")
    case False
    with Cons show ?thesis by (cases "names b") simp_all
  qed (use assms(2,3) in simp)
qed simp

text \<open>A registry that knows a connection for an address, and is not too large for a response.\<close>

definition driver_known :: "refl_state \<Rightarrow> ulong_ptr \<Rightarrow> nat \<Rightarrow> bool" where
  "driver_known r Base Conn \<longleftrightarrow>
     ht_inv CfixkrsHashRegistration CfixkrsEqualsRegistration (Connections (DrvRegistry r)) \<and>
     length (entries (Connections (DrvRegistry r))) < 2 ^ 28 \<and>
     CfixkrpLookupDriverConnection Base (DrvRegistry r) = (STATUS_SUCCESS, Some Conn)"

abbreviation addresses :: "refl_state \<Rightarrow> ulong_ptr list" where
  "addresses r \<equiv> map Key (entries (Connections (DrvRegistry r)))"

lemma driver_known_address:
  assumes "driver_known r Base Conn"
  shows "Base \<in> set (addresses r)"
proof -
  from assms obtain x where "JphtGetEntryHashtable CfixkrsHashRegistration CfixkrsEqualsRegistration
      Base (Connections (DrvRegistry r)) = Some x"
    by (auto simp: driver_known_def CfixkrpLookupDriverConnection_def split: option.splits)
  with registration_table.get_iff assms have "x \<in> set (entries (Connections (DrvRegistry r)))" "Key x = Base"
    by (auto simp: driver_known_def CfixkrsEqualsRegistration_def)
  then show ?thesis by auto
qed

lemma overflow_is_no_success: "\<not> NT_SUCCESS STATUS_BUFFER_OVERFLOW" "NT_SUCCESS STATUS_SUCCESS"
  by (simp_all add: NT_SUCCESS_def)

lemma unat_of_nat_less: "n < 2 ^ 28 \<Longrightarrow> unat (of_nat n :: ulong) = n"
  by (simp add: unat_of_nat)

text \<open>The request for the modules, with room for all of them or for one.\<close>

lemma modules_request:
  assumes "addresses r = as" and "length as < 2 ^ 28" and "length as \<le> n" and "0 < n" and "n < 2 ^ 28"
  shows "CfixkrsGetModulesIoctl (Some no_input) 0 (8 + 8 * of_nat n) r =
           (STATUS_SUCCESS, ModulesOutput \<lparr>ModuleCount = of_nat (length as), ModuleAddresses = as\<rparr>,
            if as = [] then 4 else 8 + 8 * of_nat (length as))"
proof -
  let ?len = "8 + 8 * of_nat n :: ulong"
  have l: "?len = of_nat (8 + 8 * n)" by simp
  have u: "unat ?len = 8 + 8 * n" using assms(5) by (simp only: l unat_of_nat) simp
  have "?len - 8 = of_nat (8 * n)" by simp
  moreover have "unat (of_nat (8 * n) :: ulong) = 8 * n"
    using assms(5) by (simp add: unat_of_nat del: of_nat_mult)
  ultimately have "unat ((?len - 8) div 8) = n" by (simp add: unat_div)
  then have cap: "(?len - 8) div 8 = of_nat n" 
    by (simp add: word_unat_eq_iff unat_of_nat_less [OF assms(5)])
  then have cap': "8 * of_nat n div 8 = (of_nat n :: ulong)" by simp
  have room: "\<not> ?len < sizeof_get_modules" using u assms(4) by (simp add: word_less_nat_alt)
  have len: "length (entries (Connections (DrvRegistry r))) = length as" using assms(1) by auto
  then have e: "length (entries (Connections (DrvRegistry r))) < 2 ^ 32" using assms(2) by simp
  have z: "of_nat (length as) = (0 :: ulong) \<longleftrightarrow> as = []"
    using unat_of_nat_less [OF assms(2)] by (auto simp: word_unat_eq_iff)
  have "CfixkrpGetDriverConnections (of_nat n) (DrvRegistry r) =
      (STATUS_SUCCESS, as, of_nat (length as), of_nat (length as))"
    using get_connections_eq [OF e, of "of_nat n"] assms(3) unat_of_nat_less [OF assms(5)]
    unfolding len assms(1) by (simp add: min_def)
  then show ?thesis using room z by (simp add: CfixkrsGetModulesIoctl_def cap' overflow_is_no_success)
qed

lemma modules_request_overflow:
  assumes "addresses r = as" and "length as < 2 ^ 28" and "1 < length as"
  shows "\<exists>ws n. CfixkrsGetModulesIoctl (Some no_input) 0 16 r =
           (STATUS_BUFFER_OVERFLOW, ModulesOutput \<lparr>ModuleCount = of_nat (length as),
              ModuleAddresses = ws\<rparr>, n)"
proof -
  have len: "length (entries (Connections (DrvRegistry r))) = length as" using assms(1) by auto
  then have e: "length (entries (Connections (DrvRegistry r))) < 2 ^ 32" using assms(2) by simp
  show ?thesis using get_connections_eq [OF e, of 1] assms(3) unfolding len
    by (simp add: CfixkrsGetModulesIoctl_def)
qed

lemma use_modules_found:
  assumes "length as < 2 ^ 28" and "Base \<in> set as" and "Base \<noteq> 0"
    and "names Base = Inr n" and "wcsicmp_eq base_name n"
    and "\<forall>b \<in> set as. b \<noteq> Base \<longrightarrow> (\<forall>n'. names b = Inr n' \<longrightarrow> \<not> wcsicmp_eq base_name n')"
  shows "use_modules names base_name \<lparr>ModuleCount = of_nat (length as), ModuleAddresses = as\<rparr>
           (if as = [] then 4 else 8 + 8 * of_nat (length as)) = Some (Inr Base)"
proof -
  let ?n = "length as"
  have ne: "as \<noteq> []" using assms(2) by auto
  have eq: "8 + 8 * of_nat ?n = (of_nat (8 + 8 * ?n) :: ulong)" "of_nat ?n * 8 = (of_nat (8 * ?n) :: ulong)"
    by simp_all
  have u: "unat (8 + 8 * of_nat ?n :: ulong) = 8 + 8 * ?n" "unat (of_nat ?n * 8 :: ulong) = 8 * ?n"
    using assms(1) by (simp_all only: eq unat_of_nat) simp_all
  show ?thesis
    using ne u search_driver_found [of Base as names n base_name S_OK] assms
      unat_of_nat_less [OF assms(1)]
    by (simp add: use_modules_def word_less_nat_alt)
qed

lemma find_base_address:
  assumes "driver_known (Refl (World s)) Base Conn" and "Base \<noteq> 0"
    and "names Base = Inr n" and "wcsicmp_eq (strip path) n"
    and "\<forall>b \<in> set (addresses (Refl (World s))). b \<noteq> Base \<longrightarrow>
           (\<forall>n'. names b = Inr n' \<longrightarrow> \<not> wcsicmp_eq (strip path) n')"
    and "KsToDos k STATUS_BUFFER_OVERFLOW = ERROR_MORE_DATA" and "always_ok (KlHeap s)"
    and "length path < 260"
  shows "\<exists>h. CfixklsFindBaseAddressDriver (reflector_device k) names strip path s =
             Some (Inr Base, s\<lparr>KlHeap := h\<rparr>) \<and> always_ok h \<and> Live h = Live (KlHeap s)"
proof -
  let ?r = "Refl (World s)"
  obtain as where as: "addresses ?r = as" by simp
  have "length (addresses ?r) < 2 ^ 28" using assms(1) by (simp add: driver_known_def)
  then have lim: "length as < 2 ^ 28" by (simp only: as)
  have mem: "Base \<in> set as" using driver_known_address [OF assms(1)] by (simp only: as)
  note use = use_modules_found [OF lim mem assms(2-5) [unfolded as]]
  show ?thesis
  proof (cases "length as \<le> 1")
    case True
    from modules_request [OF as lim True] use assms(8) show ?thesis
      by (intro exI [of _ "KlHeap s"])
        (simp add: CfixklsFindBaseAddressDriver_def reflector_device_def dos_error_def
          overflow_is_no_success modules_of_def assms(7) split del: if_split)
  next
    case False
    then have gt: "1 < length as" by simp
    from modules_request_overflow [OF as lim gt] obtain ws m where o:
      "CfixkrsGetModulesIoctl (Some no_input) 0 16 ?r =
         (STATUS_BUFFER_OVERFLOW, ModulesOutput \<lparr>ModuleCount = of_nat (length as), ModuleAddresses = ws\<rparr>, m)"
      by blast
    have again: "CfixkrsGetModulesIoctl (Some no_input) 0 (8 + 8 * of_nat (length as)) ?r =
        (STATUS_SUCCESS, ModulesOutput \<lparr>ModuleCount = of_nat (length as), ModuleAddresses = as\<rparr>,
         if as = [] then 4 else 8 + 8 * of_nat (length as))"
      by (rule modules_request [OF as lim order_refl _ lim]) (use gt in auto)
    let ?h = "(KlHeap s)\<lparr>Requests := Requests (KlHeap s) + 1, Live := Live (KlHeap s) + 1\<rparr>"
    from o again use assms(6,8) malloc_ok [OF assms(7)] show ?thesis
      by (intro exI [of _ "free ?h"])
        (simp add: CfixklsFindBaseAddressDriver_def reflector_device_def dos_error_def
          overflow_is_no_success modules_of_def Let_def assms(7) free_def split del: if_split)
  qed
qed

section \<open>Querying the driver\<close>

lemma query_request:
  assumes "driver_known (Refl (World s)) Base Conn" and "Adapters (Refl (World s)) Conn = A"
    and "adapter_ok A" and "4 \<le> unat cap"
  shows "unat cap < adapter_bytes A \<Longrightarrow>
           QueryTestModule (reflector_device k) Base cap s =
             Some (Some (KsToDos k STATUS_BUFFER_OVERFLOW), SizeRequired (of_nat (adapter_bytes A)), 4)"
    and "adapter_bytes A \<le> unat cap \<Longrightarrow>
           \<exists>m. QueryTestModule (reflector_device k) Base cap s =
             Some (None, TestModule m, of_nat (adapter_bytes A)) \<and> describes A m"
proof -
  have look: "CfixkrpLookupDriverConnection Base (DrvRegistry (Refl (World s))) = (STATUS_SUCCESS, Some Conn)"
    using assms(1) by (simp add: driver_known_def)
  have cap: "\<not> cap < 4" using assms(4) by (simp add: word_less_nat_alt)
  note unf = reflector_device_def device_control_def CfixkrpDispatchDeviceControl_def
    CfixkrsQueryModuleIoctl_def
  show "unat cap < adapter_bytes A \<Longrightarrow> QueryTestModule (reflector_device k) Base cap s =
      Some (Some (KsToDos k STATUS_BUFFER_OVERFLOW), SizeRequired (of_nat (adapter_bytes A)), 4)"
    using query_module(1) [OF assms(3)] look assms(2) cap
    by (simp add: unf query_of_def dos_error_def overflow_is_no_success)
  assume "adapter_bytes A \<le> unat cap"
  from query_module(2) [OF assms(3) this] obtain m where
    "CfixkrpQueryModuleTestAdapter A cap = Some (STATUS_SUCCESS, Some (of_nat (adapter_bytes A)), Some m)"
    "describes A m" by blast
  with look assms(2) cap show "\<exists>m. QueryTestModule (reflector_device k) Base cap s =
      Some (None, TestModule m, of_nat (adapter_bytes A)) \<and> describes A m"
    by (simp add: unf query_of_def dos_error_def overflow_is_no_success)
qed

lemma unat_adapter_bytes: "adapter_ok A \<Longrightarrow> unat (of_nat (adapter_bytes A) :: ulong) = adapter_bytes A"
  by (simp add: unat_of_nat adapter_ok_def)

lemma adapter_bytes_ge: "4 \<le> adapter_bytes A" "A \<noteq> [] \<Longrightarrow> 8 < adapter_bytes A"
  "A = [] \<Longrightarrow> adapter_bytes A = 4"
  by (cases A; simp add: adapter_bytes_def)+

text \<open>The first query finds the size, whether it succeeds or not.\<close>

lemma query_size:
  assumes "driver_known (Refl (World s)) Base Conn" and "Adapters (Refl (World s)) Conn = A"
    and "adapter_ok A" and "KsToDos k STATUS_BUFFER_OVERFLOW = ERROR_MORE_DATA"
  shows "CfixklsQuerySizeForQueryModuleRequest (reflector_device k) Base s =
           Some (Inr (of_nat (adapter_bytes A)))"
proof (cases "A = []")
  case True
  have "adapter_bytes A \<le> unat sizeof_query_response" using True adapter_bytes_ge(3) by simp
  from query_request(2) [OF assms(1-3) _ this] obtain m where
    "QueryTestModule (reflector_device k) Base sizeof_query_response s =
       Some (None, TestModule m, of_nat (adapter_bytes A))" by auto
  with True adapter_bytes_ge(3) show ?thesis by (simp add: CfixklsQuerySizeForQueryModuleRequest_def)
next
  case False
  have "unat sizeof_query_response < adapter_bytes A" using False adapter_bytes_ge(2) by simp
  from query_request(1) [OF assms(1-3) _ this, of k] assms(4) show ?thesis
    by (simp add: CfixklsQuerySizeForQueryModuleRequest_def)
qed

lemma query_driver:
  assumes "driver_known (Refl (World s)) Base Conn" and "Adapters (Refl (World s)) Conn = A"
    and "adapter_ok A" and "Base \<noteq> 0" and "names Base = Inr n" and "wcsicmp_eq (strip path) n"
    and "\<forall>b \<in> set (addresses (Refl (World s))). b \<noteq> Base \<longrightarrow>
           (\<forall>n'. names b = Inr n' \<longrightarrow> \<not> wcsicmp_eq (strip path) n')"
    and "KsToDos k STATUS_BUFFER_OVERFLOW = ERROR_MORE_DATA" and "always_ok (KlHeap s)"
    and "length path < 260"
  shows "\<exists>m h. CfixklpQueryModule (reflector_device k) names strip path s =
             Some (Inr (Base, m), s\<lparr>KlHeap := h\<rparr>)
           \<and> describes A m \<and> always_ok h \<and> Live h = Live (KlHeap s) + 1"
proof -
  from find_base_address [where strip = strip, OF assms(1,4-10)] obtain h where f:
    "CfixklsFindBaseAddressDriver (reflector_device k) names strip path s = Some (Inr Base, s\<lparr>KlHeap := h\<rparr>)"
    "always_ok h" "Live h = Live (KlHeap s)" by blast
  let ?s1 = "s\<lparr>KlHeap := h\<rparr>"
  let ?h2 = "h\<lparr>Requests := Requests h + 1, Live := Live h + 1\<rparr>"
  let ?s2 = "s\<lparr>KlHeap := ?h2\<rparr>"
  have w: "Refl (World ?s1) = Refl (World s)" "Refl (World ?s2) = Refl (World s)" by simp_all
  have sz: "CfixklsQuerySizeForQueryModuleRequest (reflector_device k) Base ?s1 =
      Some (Inr (of_nat (adapter_bytes A)))"
    by (rule query_size) (use assms in simp_all)
  have "adapter_bytes A \<le> unat (of_nat (adapter_bytes A) :: ulong)"
    using unat_adapter_bytes [OF assms(3)] by simp
  moreover have "4 \<le> unat (of_nat (adapter_bytes A) :: ulong)"
    using unat_adapter_bytes [OF assms(3)] adapter_bytes_ge(1) by simp
  ultimately obtain m where q: "QueryTestModule (reflector_device k) Base (of_nat (adapter_bytes A)) ?s2 =
      Some (None, TestModule m, of_nat (adapter_bytes A))" "describes A m"
    using query_request(2) [of ?s2 Base Conn A "of_nat (adapter_bytes A)" k] assms(1-3) w(2) by auto
  have "CfixklpQueryModule (reflector_device k) names strip path s = Some (Inr (Base, m), ?s2)"
    using f(1) sz q(1) malloc_ok [OF f(2)] by (simp add: CfixklpQueryModule_def)
  with q(2) f show ?thesis by (intro exI [of _ m] exI [of _ ?h2]) simp
qed

section \<open>Loading a driver\<close>

lemma fold_free: "Live (fold CfixklsDeleteFixture fxs h) = Live h - int (length fxs)"
  by (induction fxs arbitrary: h) (simp_all add: CfixklsDeleteFixture_def free_def)

lemma initialize_module_described:
  assumes "CfixklpQueryModule dev names strip path s = Some (Inr (Base, m), s\<lparr>KlHeap := h\<rparr>)"
    and "describes A m" and "always_ok h" and "\<forall>f \<in> set A. length (KFixtureName f) < 128"
  shows "\<exists>h'. CfixklsInitializeModule dev names strip None Module path s =
             Some (case keyed_fixtures Module 0 A of
                     Inl (Hr, _) \<Rightarrow> Inl Hr | Inr fxs \<Rightarrow> Inr (Base, fxs), s\<lparr>KlHeap := h'\<rparr>)
           \<and> Live h' = Live h + (case keyed_fixtures Module 0 A of
                     Inl _ \<Rightarrow> - 1 | Inr fxs \<Rightarrow> int (length fxs))"
proof -
  from assms(2) obtain ios where ios: "FixtureOffsets m = map fst ios"
    "fixtures_read (StringsAt m) (StringArea m) 0 A ios"
    "\<forall>(off, io) \<in> set ios. IoFixtures m off = Some io" by (auto simp: describes_def)
  let ?h = "h\<lparr>Requests := Requests h + 1, Live := Live h + 1\<rparr>"
  have ok: "always_ok ?h" using assms(3) by simp
  from create_fixtures_spec [OF ios(2) ok assms(4) ios(3), of Module "[]"] obtain h' where
    c: "create_fixtures Module m (map fst ios) [] ?h =
      Some (map_sum (apsnd ((@) [])) ((@) []) (keyed_fixtures Module 0 A), h')"
    "Live h' = Live ?h + int (case keyed_fixtures Module 0 A of Inl (_, d) \<Rightarrow> length d | Inr d \<Rightarrow> length d)"
    by blast
  show ?thesis
  proof (cases "keyed_fixtures Module 0 A")
    case (Inl p)
    obtain Hr d where p: "p = (Hr, d)" by (cases p)
    with Inl c assms(1) ios(1) malloc_ok [OF assms(3)] show ?thesis
      by (intro exI [of _ "free (free (fold CfixklsDeleteFixture d h'))"])
        (simp add: CfixklsInitializeModule_def fold_free [unfolded free_def] free_def)
  next
    case (Inr fxs)
    with c assms(1) ios(1) malloc_ok [OF assms(3)] show ?thesis
      by (intro exI [of _ "free h'"]) (simp add: CfixklsInitializeModule_def free_def)
  qed
qed

text \<open>Reading a driver, apart from what becomes of its keys.\<close>

lemma driver_module_read:
  assumes "driver_known (Refl (World s)) Base Conn" and "Adapters (Refl (World s)) Conn = A"
    and "adapter_ok A" and "Base \<noteq> 0" and "names Base = Inr n" and "wcsicmp_eq (strip path) n"
    and "\<forall>b \<in> set (addresses (Refl (World s))). b \<noteq> Base \<longrightarrow>
           (\<forall>n'. names b = Inr n' \<longrightarrow> \<not> wcsicmp_eq (strip path) n')"
    and "KsToDos k STATUS_BUFFER_OVERFLOW = ERROR_MORE_DATA" and "always_ok (KlHeap s)"
    and "length path < 260"
  shows "\<exists>h. CfixklsInitializeModule (reflector_device k) names strip None Module path s =
      Some (case keyed_fixtures Module 0 A of
              Inl (Hr, _) \<Rightarrow> Inl Hr | Inr fxs \<Rightarrow> Inr (Base, fxs), s\<lparr>KlHeap := h\<rparr>)
    \<and> Live h = Live (KlHeap s) + (case keyed_fixtures Module 0 A of
              Inl _ \<Rightarrow> 0 | Inr fxs \<Rightarrow> 1 + int (length fxs))"
proof -
  from query_driver [where strip = strip, OF assms] obtain m h where q:
    "CfixklpQueryModule (reflector_device k) names strip path s = Some (Inr (Base, m), s\<lparr>KlHeap := h\<rparr>)"
    "describes A m" "always_ok h" "Live h = Live (KlHeap s) + 1" by blast
  have "\<forall>f \<in> set A. length (KFixtureName f) < 128" using assms(3) by (simp add: adapter_ok_def)
  from initialize_module_described [OF q(1-3) this, of Module] q(4) show ?thesis
    by (auto split: sum.splits)
qed

text \<open>
  C23: loading a driver. For a driver that the reflector knows, the loader library gets, through
  the two queries for the addresses and the two for the description, exactly the fixtures that
  the user mode loader would make of the definitions in the driver, with keys in the place of
  the routines; the first malformed definition is refused with the same code, but for an unknown
  entry type. No block is lost either way. And the keys lead back: the reflector finds for each
  of them the routine of the entry it stands for.
\<close>

theorem driver_module_roundtrip:
  assumes "driver_known (Refl (World s)) Base Conn" and "Adapters (Refl (World s)) Conn = A"
    and "adapter_ok A" and "Base \<noteq> 0" and "names Base = Inr n" and "wcsicmp_eq (strip path) n"
    and "\<forall>b \<in> set (addresses (Refl (World s))). b \<noteq> Base \<longrightarrow>
           (\<forall>n'. names b = Inr n' \<longrightarrow> \<not> wcsicmp_eq (strip path) n')"
    and "KsToDos k STATUS_BUFFER_OVERFLOW = ERROR_MORE_DATA" and "always_ok (KlHeap s)"
    and "length path < 260"
  shows "(\<exists>h. CfixklsInitializeModule (reflector_device k) names strip None Module path s =
             Some (case keyed_fixtures Module 0 A of
                     Inl (Hr, _) \<Rightarrow> Inl Hr | Inr fxs \<Rightarrow> Inr (Base, fxs), s\<lparr>KlHeap := h\<rparr>)
           \<and> Live h = Live (KlHeap s) + (case keyed_fixtures Module 0 A of
                     Inl _ \<Rightarrow> 0 | Inr fxs \<Rightarrow> 1 + int (length fxs)))
       \<and> (\<forall>i < length A. \<forall>j < length (KEntries (A ! i)). \<forall>t.
            CfixkrpGetRoutineTestAdapter A (ucast (ucast (of_nat i :: 16 word) :: ulong_ptr))
              (ucast (routine_tag t j AND NOT CFIXKLP_ROUTINE_PRESENT)) =
            Inr (EntryRoutine (KEntries (A ! i) ! j)))"
proof
  from driver_module_read [where strip = strip, OF assms]
  show "\<exists>h. CfixklsInitializeModule (reflector_device k) names strip None Module path s =
      Some (case keyed_fixtures Module 0 A of
              Inl (Hr, _) \<Rightarrow> Inl Hr | Inr fxs \<Rightarrow> Inr (Base, fxs), s\<lparr>KlHeap := h\<rparr>)
    \<and> Live h = Live (KlHeap s) + (case keyed_fixtures Module 0 A of
              Inl _ \<Rightarrow> 0 | Inr fxs \<Rightarrow> 1 + int (length fxs))" .
  show "\<forall>i < length A. \<forall>j < length (KEntries (A ! i)). \<forall>t.
      CfixkrpGetRoutineTestAdapter A (ucast (ucast (of_nat i :: 16 word) :: ulong_ptr))
        (ucast (routine_tag t j AND NOT CFIXKLP_ROUTINE_PRESENT)) =
      Inr (EntryRoutine (KEntries (A ! i) ! j))"
    using keys_lead_back assms(3) by (simp add: adapter_ok_def)
qed

definition demo_adapter :: test_adapter where
  "demo_adapter = [\<lparr>KFixtureName = wide ''Fix'', KEntries =
     [\<lparr>EntryType = EntrySetup, EntryName = wide ''Up'', EntryRoutine = 0x500\<rparr>,
      \<lparr>EntryType = EntryTestcase, EntryName = wide ''One'', EntryRoutine = 0x600\<rparr>]\<rparr>]"

definition demo_refl :: refl_state where
  "demo_refl = \<lparr>DrvRegistry = demo_conn_registry, Adapters = (\<lambda>_. demo_adapter),
     FilamentRegistries = (\<lambda>_. the (snd (CfixkrpInitializeFilamentRegistry True (\<lambda>_. True))))\<rparr>"

definition demo_kl_state :: "(thread_id \<times> cfix_event) list kworld kl_state" where
  "demo_kl_state = \<lparr>KlTls = None, KlHeap = \<lparr>Live = 0, Requests = 0, MallocOk = (\<lambda>_ _. True)\<rparr>,
     World = \<lparr>Refl = demo_refl, Observer = []\<rparr>\<rparr>"

definition demo_side :: kernel_side where
  "demo_side = \<lparr>KsToDos = (\<lambda>_. ERROR_MORE_DATA), KsPoolOk = True, KsWait = (\<lambda>_. 0), KsLoaded = True,
     KsCode = (\<lambda>_ ch ks. (((True, False), ch), ks)),
     KsThread = \<lparr>ThreadObject = 0x80, KThreadId = 4\<rparr>, KsChan = 0, KsFilament = 0\<rparr>"

definition demo_names :: "ulong_ptr \<Rightarrow> dword + wstring" where
  "demo_names b = Inr (if b = 0xA000 then wide ''t.sys'' else wide ''x.sys'')"

lemma register_keeps_table:
  "ht_inv CfixkrsHashRegistration CfixkrsEqualsRegistration (Connections r) \<Longrightarrow>
   ht_inv CfixkrsHashRegistration CfixkrsEqualsRegistration
     (Connections (snd (CfixkrpRegisterDriverConnection ok a c r)))"
  by (simp add: CfixkrpRegisterDriverConnection_def registration_table.put_inv)

lemma initialized_table:
  "ht_inv CfixkrsHashRegistration CfixkrsEqualsRegistration
     (Connections (the (snd (CfixkrpInitializeDriverConnectionRegistry Win64 0 (\<lambda>_. True)))))"
  using registration_table.empty_inv [of 31]
  by (simp add: CfixkrpInitializeDriverConnectionRegistry_def JphtInitializeHashtable_def NT_SUCCESS_def)

lemma demo_driver_known: "driver_known demo_refl 0xA000 2"
  unfolding driver_known_def
proof (intro conjI)
  show "ht_inv CfixkrsHashRegistration CfixkrsEqualsRegistration (Connections (DrvRegistry demo_refl))"
    unfolding demo_refl_def demo_conn_registry_def refl_state.simps
    by (intro register_keeps_table initialized_table)
  have "length (entries (Connections (DrvRegistry demo_refl))) = 2" by code_simp
  then show "length (entries (Connections (DrvRegistry demo_refl))) < 2 ^ 28" by simp
  show "CfixkrpLookupDriverConnection 0xA000 (DrvRegistry demo_refl) = (STATUS_SUCCESS, Some 2)" by code_simp
qed

theorem driver_module_roundtrip_witness:
  "\<exists>h fx. CfixklsInitializeModule (reflector_device demo_side) demo_names id None (wide ''t'')
       (wide ''T.sys'') demo_kl_state = Some (Inr (0xA000, [fx]), demo_kl_state\<lparr>KlHeap := h\<rparr>)
     \<and> Live h = 2 \<and> FixtureName fx = wide ''Fix'' \<and> SetupRoutine fx = 0x80000000
     \<and> map TestCaseRoutine (TestCases fx) = [1]"
proof -
  have "\<exists>fx. keyed_fixtures (wide ''t'') 0 demo_adapter = Inr [fx] \<and> FixtureName fx = wide ''Fix''
      \<and> SetupRoutine fx = 0x80000000 \<and> map TestCaseRoutine (TestCases fx) = [1]"
    by (simp add: demo_adapter_def keyed_fixture_def blank_fixture_def routine_tag_def walk_entry_def)
  then obtain fx where fx: "keyed_fixtures (wide ''t'') 0 demo_adapter = Inr [fx]"
    "FixtureName fx = wide ''Fix''" "SetupRoutine fx = 0x80000000"
    "map TestCaseRoutine (TestCases fx) = [1]" by (elim exE conjE) (rule that)
  have ok: "adapter_ok demo_adapter"
    by (simp add: adapter_ok_def adapter_bytes_def counts_fit_def demo_adapter_def short_names_def
        struct_bytes_def all_names_def entry_names_def wide_def)
  have name: "demo_names 0xA000 = Inr (wide ''t.sys'')" by (simp add: demo_names_def)
  have eq: "wcsicmp_eq (id (wide ''T.sys'')) (wide ''t.sys'')" by code_simp
  have "\<not> wcsicmp_eq (id (wide ''T.sys'')) (wide ''x.sys'')" by code_simp
  then have addr: "\<forall>b \<in> set (addresses demo_refl). b \<noteq> 0xA000 \<longrightarrow>
      (\<forall>n'. demo_names b = Inr n' \<longrightarrow> \<not> wcsicmp_eq (id (wide ''T.sys'')) n')"
    by (simp add: demo_names_def)
  have parts: "driver_known (Refl (World demo_kl_state)) 0xA000 2"
    "Adapters (Refl (World demo_kl_state)) 2 = demo_adapter" "Refl (World demo_kl_state) = demo_refl"
    "always_ok (KlHeap demo_kl_state)" "Live (KlHeap demo_kl_state) = 0"
    using demo_driver_known by (simp_all add: demo_kl_state_def demo_refl_def always_ok_def)
  have side: "KsToDos demo_side STATUS_BUFFER_OVERFLOW = ERROR_MORE_DATA" by (simp add: demo_side_def)
  have len: "length (wide ''T.sys'') < 260" by (simp add: wide_def)
  note r = driver_module_roundtrip [where strip = id and Module = "wide ''t''" and names = demo_names,
      OF parts(1,2) ok _ name eq _ side parts(4) len]
  have "\<exists>h. CfixklsInitializeModule (reflector_device demo_side) demo_names id None (wide ''t'')
       (wide ''T.sys'') demo_kl_state = Some (Inr (0xA000, [fx]), demo_kl_state\<lparr>KlHeap := h\<rparr>) \<and> Live h = 2"
    using r addr unfolding parts(3,5) fx(1) by simp
  with fx(2-4) show ?thesis by (elim exE conjE) (intro exI conjI)
qed

end
