(* ===== verification/KernelEvents.thy ===== *)
theory KernelEvents
  imports KernelPath "HOL-Library.Sublist"
begin

text \<open>
  The events of a routine on their way from the driver to the execution context: what the report
  stubs queue on the channel is what the loader library reports, in the same order, and the loss
  of an event for lack of space is always noted.
\<close>

section \<open>Reports\<close>

record kreport =
  RpType :: event_type
  RpThread :: thread_id
  RpFrames :: nat
  RpException :: "dword option"
  RpFile :: "wstring option"
  RpRoutine :: "wstring option"
  RpLine :: ulong
  RpExpression :: "wstring option"
  RpMessage :: "wstring option"

definition queue_report :: "nat \<Rightarrow> kreport \<Rightarrow> event_buffer \<Rightarrow> event_buffer" where
  "queue_report FO rp =
     CfixkrsQueueEvent FO (RpFrames rp) (RpThread rp) (RpType rp) (RpException rp) (RpFile rp)
       (RpRoutine rp) (RpLine rp) (RpExpression rp) (RpMessage rp)"

text \<open>The event that a report is about; a missing string has become an empty one.\<close>

definition reported :: "kreport \<Rightarrow> cfix_event" where
  "reported rp =
     \<lparr>EventInfo = (case RpType rp of
          CfixEventFailedAssertion \<Rightarrow>
            FailedAssertion (Some (text_of (RpFile rp))) (Some (text_of (RpRoutine rp))) (RpLine rp)
              (text_of (RpExpression rp)) 0
        | CfixEventUncaughtException \<Rightarrow> UncaughtException (CfixklsCopyExceptionRecord (RpException rp))
        | CfixEventInconclusiveness \<Rightarrow> Inconclusiveness (text_of (RpMessage rp))
        | CfixEventLog \<Rightarrow> Log (text_of (RpMessage rp))),
      FrameCount = RpFrames rp\<rparr>"

text \<open>A report that is not too long for the format of an event.\<close>

definition fits :: "nat \<Rightarrow> kreport \<Rightarrow> bool" where
  "fits FO rp \<longleftrightarrow>
     (\<forall>p \<in> {RpFile rp, RpRoutine rp, RpMessage rp, RpExpression rp}. length (text_of p) < 32767) \<and>
     total_size (structure_base_size FO (RpFrames rp))
       (texts_cb [RpExpression rp, RpFile rp, RpMessage rp, RpRoutine rp]) \<le> MAX_USHORT"

definition carries :: "kreport \<Rightarrow> kevent \<Rightarrow> bool" where
  "carries rp e \<longleftrightarrow> translate_event e = reported rp \<and> KThread e = RpThread rp"

lemma write_message_shape:
  "(case put_string Message (Base, []) of (m, at) \<Rightarrow> (KMessage m, snd at)) = (Info, area) \<Longrightarrow>
     \<exists>m. Info = KMessage m"
  by (auto split: prod.splits)

lemma queued_carries:
  assumes "\<exists>Base. write_info Base (RpType rp) (RpException rp) (RpFile rp) (RpRoutine rp) (RpLine rp)
             (RpExpression rp) (RpMessage rp) = (KInfo e, KStrings e)"
    and "map (read_string e) (info_refs (KInfo e)) =
           info_texts (RpType rp) (RpFile rp) (RpRoutine rp) (RpExpression rp) (RpMessage rp)"
    and "KType e = RpType rp" and "KThread e = RpThread rp" and "KFrames e = RpFrames rp"
  shows "carries rp e"
proof -
  from assms(1) obtain Base where w: "write_info Base (RpType rp) (RpException rp) (RpFile rp)
      (RpRoutine rp) (RpLine rp) (RpExpression rp) (RpMessage rp) = (KInfo e, KStrings e)" by blast
  show ?thesis
  proof (cases "RpType rp")
    case CfixEventFailedAssertion
    with w have "\<exists>f r x. KFailedAssertion f r (RpLine rp) x = KInfo e"
      by (auto simp: write_info_def Let_def split: prod.splits)
    then obtain f r x where "KInfo e = KFailedAssertion f r (RpLine rp) x" by metis
    with assms(2-5) CfixEventFailedAssertion show ?thesis
      by (simp add: carries_def translate_event_def reported_def)
  next
    case CfixEventUncaughtException
    with w have "KInfo e = KUncaughtException (RpException rp)" by (simp add: write_info_def)
    with assms(3-5) CfixEventUncaughtException show ?thesis
      by (simp add: carries_def translate_event_def reported_def)
  next
    case CfixEventInconclusiveness
    with w obtain m where "KInfo e = KMessage m" using write_message_shape
      by (fastforce simp: write_info_def)
    with assms(2-5) CfixEventInconclusiveness show ?thesis
      by (simp add: carries_def translate_event_def reported_def)
  next
    case CfixEventLog
    with w obtain m where "KInfo e = KMessage m" using write_message_shape
      by (fastforce simp: write_info_def)
    with assms(2-5) CfixEventLog show ?thesis
      by (simp add: carries_def translate_event_def reported_def)
  qed
qed

lemma queue_report_cases:
  assumes "b' = queue_report FO rp b"
  obtains (truncated) "b' = b\<lparr>BufferTruncated := True\<rparr>"
    | (dropped) "b' = b" "\<not> fits FO rp"
    | (queued) e where "b' = b\<lparr>Events := Events b @ [e],
          BufferLength := BufferLength b + of_nat (unat (KSize e)), EventCount := EventCount b + 1\<rparr>"
        "unat (KSize e) \<le> unat (BufferSize b - BufferLength b)" "event_ok e" "8 \<le> unat (KSize e)"
        "carries rp e"
  using assms unfolding queue_report_def
proof (cases rule: queue_cases)
  case truncated
  then show ?thesis by (rule that(1))
next
  case dropped
  then have "\<not> fits FO rp" by (auto simp: fits_def not_less)
  with dropped(1) show ?thesis by (rule that(2))
next
  case (queued e)
  have c: "carries rp e" by (rule queued_carries) (use queued in simp_all)
  show ?thesis by (rule that(3) [OF queued(1-3) _ c]) (use queued in simp)
qed

section \<open>The buffer after a routine\<close>

text \<open>Events have at least eight bytes, so that their count does not overflow.\<close>

definition channel_ok :: "event_buffer \<Rightarrow> bool" where
  "channel_ok b \<longleftrightarrow> buffer_ok b \<and> (\<forall>e \<in> set (Events b). 8 \<le> unat (KSize e))"

lemma channel_count:
  assumes "channel_ok b"
  shows "unat (EventCount b) = length (Events b)"
proof -
  have "8 * length es \<le> (\<Sum>e \<leftarrow> es. unat (KSize e))" if "\<forall>e \<in> set es. 8 \<le> unat (KSize e)" for es
    using that by (induction es) simp_all
  from this [of "Events b"] assms have "8 * length (Events b) \<le> unat (BufferLength b)"
    by (simp add: channel_ok_def buffer_ok_def)
  moreover have "unat (BufferLength b) < 2 ^ LENGTH(32)" by (rule unsigned_less)
  ultimately show ?thesis using assms by (simp add: channel_ok_def buffer_ok_def unat_of_nat)
qed

lemma queue_reports:
  assumes "channel_ok b" and "b' = fold (queue_report FO) rps b"
  shows "\<exists>kept es. channel_ok b' \<and> BufferSize b' = BufferSize b \<and> Events b' = Events b @ es
           \<and> list_all2 carries kept es \<and> subseq kept rps
           \<and> ((\<forall>rp \<in> set rps. fits FO rp) \<longrightarrow> BufferTruncated b' \<or> kept = rps)
           \<and> (BufferTruncated b \<longrightarrow> BufferTruncated b')"
  using assms
proof (induction rps arbitrary: b)
  case (Cons rp rps)
  let ?b = "queue_report FO rp b"
  have b': "b' = fold (queue_report FO) rps ?b" using Cons.prems(2) by simp
  have q: "?b = queue_report FO rp b" by (rule refl)
  from q show ?case
  proof (cases rule: queue_report_cases)
    case truncated
    then have "channel_ok ?b" using Cons.prems(1) by (simp add: channel_ok_def buffer_ok_def)
    from Cons.IH [OF this b'] obtain kept es where *:
      "channel_ok b'" "BufferSize b' = BufferSize ?b" "Events b' = Events ?b @ es"
      "list_all2 carries kept es" "subseq kept rps" "BufferTruncated ?b \<longrightarrow> BufferTruncated b'" by blast
    with truncated show ?thesis by (intro exI [of _ kept] exI [of _ es]) (auto intro: list_emb_Cons)
  next
    case dropped
    then have "channel_ok ?b" using Cons.prems(1) by simp
    from Cons.IH [OF this b'] obtain kept es where *:
      "channel_ok b'" "BufferSize b' = BufferSize ?b" "Events b' = Events ?b @ es"
      "list_all2 carries kept es" "subseq kept rps" "BufferTruncated ?b \<longrightarrow> BufferTruncated b'" by blast
    with dropped show ?thesis by (intro exI [of _ kept] exI [of _ es]) (auto intro: list_emb_Cons)
  next
    case (queued e)
    have "buffer_ok ?b" unfolding queued(1)
      by (rule buffer_ok_append) (use Cons.prems(1) queued in \<open>simp_all add: channel_ok_def\<close>)
    moreover have "\<forall>e \<in> set (Events ?b). 8 \<le> unat (KSize e)"
      using Cons.prems(1) queued(1,4) by (simp add: channel_ok_def)
    ultimately have "channel_ok ?b" by (simp add: channel_ok_def)
    from Cons.IH [OF this b'] obtain kept es where *:
      "channel_ok b'" "BufferSize b' = BufferSize ?b" "Events b' = Events ?b @ es"
      "list_all2 carries kept es" "subseq kept rps"
      "(\<forall>rp \<in> set rps. fits FO rp) \<longrightarrow> BufferTruncated b' \<or> kept = rps"
      "BufferTruncated ?b \<longrightarrow> BufferTruncated b'" by blast
    with queued show ?thesis
      by (intro exI [of _ "rp # kept"] exI [of _ "e # es"]) auto
  qed
qed simp

section \<open>Delivery\<close>

text \<open>A context that only knows its own state, as one over the state of the loader library.\<close>

definition lift_report ::
    "(thread_id \<Rightarrow> cfix_event \<Rightarrow> 'c \<Rightarrow> disposition \<times> 'c) \<Rightarrow>
       thread_id \<Rightarrow> cfix_event \<Rightarrow> 'c kworld kl_state \<Rightarrow> disposition \<times> 'c kworld kl_state" where
  "lift_report f t ev s =
     apsnd (\<lambda>u. s\<lparr>World := (World s)\<lparr>Observer := u\<rparr>\<rparr>) (f t ev (Observer (World s)))"

definition observes :: "'c kworld kl_state exec_context \<Rightarrow> 'c exec_context \<Rightarrow> bool" where
  "observes ctx c \<longleftrightarrow> ReportEvent ctx = lift_report (ReportEvent c) \<and>
     QueryDefaultDisposition ctx = (\<lambda>t s. apsnd (\<lambda>u. s\<lparr>World := (World s)\<lparr>Observer := u\<rparr>\<rparr>)
       (QueryDefaultDisposition c t (Observer (World s))))"

definition report_to :: "'c exec_context \<Rightarrow> kreport \<Rightarrow> 'c \<Rightarrow> 'c" where
  "report_to c rp u = snd (ReportEvent c (RpThread rp) (reported rp) u)"

definition dispositions_asked :: "'c exec_context \<Rightarrow> 'c \<Rightarrow> 'c" where
  "dispositions_asked c u =
     snd (QueryDefaultDisposition c CfixEventUncaughtException
       (snd (QueryDefaultDisposition c CfixEventFailedAssertion u)))"

lemma malloc_all_ok:
  "always_ok h \<Longrightarrow> malloc_all ns h =
     (length ns, True, h\<lparr>Requests := Requests h + length ns, Live := Live h + int (length ns)\<rparr>)"
proof (induction ns arbitrary: h)
  case (Cons n ns)
  then have "always_ok (h\<lparr>Requests := Requests h + 1, Live := Live h + 1\<rparr>)" by simp
  from Cons.IH [OF this] malloc_ok [OF Cons.prems] show ?case by simp
qed simp

lemma free_times: "(free ^^ n) h = h\<lparr>Live := Live h - int n\<rparr>"
  by (induction n) (simp_all add: free_def)

lemma report_event_delivers:
  assumes "always_ok (KlHeap s)" and "observes ctx c" and "carries rp e"
  shows "\<exists>h. CfixklsReportEventToExecutionContext ctx e s =
             (S_OK, s\<lparr>KlHeap := h, World := (World s)\<lparr>Observer := report_to c rp (Observer (World s))\<rparr>\<rparr>)
           \<and> always_ok h \<and> Live h = Live (KlHeap s)"
proof -
  let ?bs = "buffers_of (KInfo e)"
  let ?h1 = "(KlHeap s)\<lparr>Requests := Requests (KlHeap s) + 1, Live := Live (KlHeap s) + 1\<rparr>"
  let ?h2 = "?h1\<lparr>Requests := Requests ?h1 + length ?bs, Live := Live ?h1 + int (length ?bs)\<rparr>"
  let ?h3 = "?h2\<lparr>Live := Live ?h2 - int (length ?bs + 1)\<rparr>"
  have ok: "always_ok ?h1" using assms(1) by simp
  have "CfixklsReportEventToExecutionContext ctx e s =
      (S_OK, s\<lparr>KlHeap := ?h3, World := (World s)\<lparr>Observer := report_to c rp (Observer (World s))\<rparr>\<rparr>)"
    unfolding CfixklsReportEventToExecutionContext_def malloc_ok [OF assms(1)] prod.case bool.case
      malloc_all_ok [OF ok] Let_def if_True free_times
    using assms(2,3)
    by (simp add: observes_def lift_report_def carries_def report_to_def apsnd_def map_prod_def split_beta)
  with ok show ?thesis by (intro exI [of _ ?h3]) simp
qed

lemma report_events_deliver:
  assumes "always_ok (KlHeap s)" and "observes ctx c" and "list_all2 carries rps es"
  shows "\<exists>h. report_events ctx es s =
             s\<lparr>KlHeap := h, World := (World s)\<lparr>Observer := fold (report_to c) rps (Observer (World s))\<rparr>\<rparr>
           \<and> always_ok h \<and> Live h = Live (KlHeap s)"
  using assms(3,1)
proof (induction rps es arbitrary: s rule: list_all2_induct)
  case Nil
  then show ?case by (intro exI [of _ "KlHeap s"]) simp
next
  case (Cons rp rps e es)
  from report_event_delivers [OF Cons.prems assms(2) Cons.hyps(1)] obtain h where h:
    "CfixklsReportEventToExecutionContext ctx e s =
       (S_OK, s\<lparr>KlHeap := h, World := (World s)\<lparr>Observer := report_to c rp (Observer (World s))\<rparr>\<rparr>)"
    "always_ok h" "Live h = Live (KlHeap s)" by blast
  let ?s = "s\<lparr>KlHeap := h, World := (World s)\<lparr>Observer := report_to c rp (Observer (World s))\<rparr>\<rparr>"
  have "always_ok (KlHeap ?s)" using h(2) by simp
  from Cons.IH [OF this] h show ?case by auto
qed

section \<open>The answer of the reflector\<close>

lemma driver_call_outcome:
  assumes "CfixkrpCallRoutineDriverConnection pool_ok Wait GetRoutine Loaded run me Chan Filament ks =
             Some (Status, out, ks')"
  shows "(out = None \<longrightarrow> \<not> NT_SUCCESS Status) \<and> (\<forall>x. out = Some x \<longrightarrow> Status = STATUS_SUCCESS \<and> (\<exists>ks. x = fst (run ks)))"
proof (cases "NT_SUCCESS GetRoutine")
  case True
  with assms show ?thesis
    by (auto simp: CfixkrpCallRoutineDriverConnection_def Let_def bind_Some_iff NT_SUCCESS_def
        split: if_splits prod.splits) (metis fst_conv)+
next
  case False
  with assms show ?thesis by (auto simp: CfixkrpCallRoutineDriverConnection_def)
qed

lemma dos_error_None: "dos_error k Status = None \<longleftrightarrow> NT_SUCCESS Status"
  by (simp add: dos_error_def)

definition empty_buffer :: event_buffer where
  "empty_buffer = \<lparr>BufferSize = 4072, BufferLength = 0, EventCount = 0, BufferTruncated = False,
     Events = []\<rparr>"

lemma call_answer:
  assumes "driver_known (Refl (World s)) (ReqDriverBase q) Conn"
    and "CfixkrpGetRoutineTestAdapter (Adapters (Refl (World s)) Conn) (ReqFixtureKey q)
           (ReqRoutineKey q) = Inr a"
    and "\<forall>ch ks. EventBuffer (snd (fst (KsCode k a ch ks))) =
           fold (queue_report FO) rps (EventBuffer ch)"
    and "CallRoutine (reflector_device k) q 4096 s = Some ((None, resp, n), s')"
  shows "\<exists>r. s' = s\<lparr>World := (World s)\<lparr>Refl := r\<rparr>\<rparr>
       \<and> (let b = fold (queue_report FO) rps empty_buffer
          in RespTruncated resp = BufferTruncated b \<and> RespCount resp = EventCount b
             \<and> RespEvents resp = Events b \<and> n = 24 + BufferLength b)"
proof -
  let ?in = "request_input q" and ?r = "Refl (World s)"
  let ?b = "fold (queue_report FO) rps empty_buffer"
  from assms(4) obtain Status out r where d:
    "CfixkrsCallRoutineIoctl (KsPoolOk k) (KsWait k) (KsLoaded k) (KsCode k) (KsThread k) (KsChan k)
       (KsFilament k) (Some ?in) 24 4096 ?r = Some ((Status, out, n), r)"
    "NT_SUCCESS Status" "resp = call_of out" "s' = s\<lparr>World := (World s)\<lparr>Refl := r\<rparr>\<rparr>"
    by (auto simp: reflector_device_def device_control_def CfixkrpDispatchDeviceControl_def dos_error_None)
  have buf: "EventBuffer (new_channel ?in 4096) = empty_buffer"
    by (simp add: new_channel_def empty_buffer_def)
  have look: "CfixkrpLookupDriverConnection (InDriverBase ?in) (DrvRegistry ?r) = (STATUS_SUCCESS, Some Conn)"
    "CfixkrpGetRoutineTestAdapter (Adapters ?r Conn) (InFixtureKey ?in) (InRoutineKey ?in) = Inr a"
    using assms(1,2) by (simp_all add: driver_known_def request_input_def)
  have inv: "\<not> NT_SUCCESS STATUS_INVALID_PARAMETER" by (simp add: NT_SUCCESS_def)
  let ?call = "CfixkrpCallRoutineDriverConnection (KsPoolOk k) (KsWait k) STATUS_SUCCESS (KsLoaded k)
      (KsCode k a (new_channel ?in 4096)) (KsThread k) (KsChan k) (KsFilament k)
      (FilamentRegistries ?r Conn)"
  from d(1,2) look inv obtain St o' ks where c: "?call = Some (St, o', ks)"
    by (auto simp: CfixkrsCallRoutineIoctl_def Let_def bind_Some_iff split: if_splits)
  note oc = driver_call_outcome [OF c]
  show ?thesis
  proof (cases o')
    case None
    with d(1,2) look inv c oc show ?thesis
      by (auto simp: CfixkrsCallRoutineIoctl_def Let_def split: if_splits)
  next
    case (Some x)
    obtain Ran Abort ch where x: "x = ((Ran, Abort), ch)" by (metis surj_pair)
    with oc Some obtain ks0 where "((Ran, Abort), ch) = fst (KsCode k a (new_channel ?in 4096) ks0)" by blast
    then have eb: "EventBuffer ch = ?b" using assms(3) buf by (metis snd_conv)
    from d(1,2) look inv c Some x have "n = 24 + BufferLength (EventBuffer ch)"
      "resp = \<lparr>RespRanToCompletion = Ran, RespAbortRun = Abort, RespTlsValue = TlsValue ch,
         RespTruncated = BufferTruncated (EventBuffer ch), RespCount = EventCount (EventBuffer ch),
         RespEvents = Events (EventBuffer ch)\<rparr>"
      by (auto simp: CfixkrsCallRoutineIoctl_def Let_def call_of_def d(3) split: if_splits)
    with d(4) eb show ?thesis by (intro exI [of _ r]) (simp add: Let_def)
  qed
qed

lemma empty_channel_ok: "channel_ok empty_buffer"
  by (simp add: channel_ok_def buffer_ok_def empty_buffer_def)

lemma room_left: "n \<le> (4072 :: ulong) \<Longrightarrow> \<not> 24 + n < sizeof_call_response"
  by (simp add: word_less_nat_alt word_le_nat_alt unat_word_ariths)

section \<open>Property\<close>

text \<open>
  What a call that succeeds has done: it has asked the context for its two dispositions, taken a
  buffer, let the driver run, reported what is in the buffer of the reflector, and given its own back.
\<close>

lemma successful_call:
  assumes "driver_known (Refl (World s)) Base Conn"
    and "CfixkrpGetRoutineTestAdapter (Adapters (Refl (World s)) Conn) FixtureKey RoutineKey = Inr a"
    and "\<forall>ch ks. EventBuffer (snd (fst (KsCode k a ch ks))) =
           fold (queue_report FO) rps (EventBuffer ch)"
    and "\<forall>st. \<not> NT_SUCCESS st \<longrightarrow> KsToDos k st \<noteq> 0"
    and "observes ctx c" and "always_ok (KlHeap s)"
    and "CfixklpCallRoutine (reflector_device k) me Base ctx FixtureKey RoutineKey v s =
           Some ((Hr, Ran, Abort, v'), s')" and "SUCCEEDED Hr"
  obtains rf s1 s2 s3 where
    "s1 = s\<lparr>World := (World s)\<lparr>Refl := rf, Observer := dispositions_asked c (Observer (World s))\<rparr>,
            KlHeap := (KlHeap s)\<lparr>Requests := Requests (KlHeap s) + 1, Live := Live (KlHeap s) + 1\<rparr>\<rparr>"
    and "s2 = report_events ctx (Events (fold (queue_report FO) rps empty_buffer)) s1"
    and "s3 = (if BufferTruncated (fold (queue_report FO) rps empty_buffer)
               then snd (ReportEvent ctx (CfixpInitializeThreadId me me) truncation_note s2) else s2)"
    and "s' = s3\<lparr>KlHeap := free (KlHeap s3)\<rparr>"
proof -
  let ?b = "fold (queue_report FO) rps empty_buffer"
  let ?u = "dispositions_asked c (Observer (World s))"
  obtain d1 u1 where d1: "QueryDefaultDisposition c CfixEventFailedAssertion (Observer (World s)) = (d1, u1)"
    by fastforce
  obtain d2 u2 where d2: "QueryDefaultDisposition c CfixEventUncaughtException u1 = (d2, u2)" by fastforce
  have u2: "u2 = ?u" using d1 d2 by (simp add: dispositions_asked_def)
  let ?q = "\<lparr>ReqDriverBase = Base, ReqFixtureKey = FixtureKey, ReqRoutineKey = RoutineKey,
     ReqFailedAssertion = d1, ReqUnhandledException = d2, ReqTlsValue = v\<rparr>"
  let ?h = "(KlHeap s)\<lparr>Requests := Requests (KlHeap s) + 1, Live := Live (KlHeap s) + 1\<rparr>"
  let ?s = "s\<lparr>World := (World s)\<lparr>Observer := ?u\<rparr>, KlHeap := ?h\<rparr>"
  have q: "QueryDefaultDisposition ctx CfixEventFailedAssertion s =
      (d1, s\<lparr>World := (World s)\<lparr>Observer := u1\<rparr>\<rparr>)"
    "QueryDefaultDisposition ctx CfixEventUncaughtException (s\<lparr>World := (World s)\<lparr>Observer := u1\<rparr>\<rparr>) =
      (d2, s\<lparr>World := (World s)\<lparr>Observer := ?u\<rparr>\<rparr>)"
    using assms(5) d1 d2 u2 by (simp_all add: observes_def)
  note call = assms(7) [unfolded CfixklpCallRoutine_def q Let_def prod.case]
  have m: "malloc 4096 (KlHeap (s\<lparr>World := (World s)\<lparr>Observer := ?u\<rparr>\<rparr>)) = (True, ?h)"
    using malloc_ok [OF assms(6)] by simp
  from call m obtain Err resp n s1 where r: "CallRoutine (reflector_device k) ?q 4096 ?s =
      Some ((Err, resp, n), s1)" by (auto simp: bind_Some_iff)
  have none: "Err = None"
  proof (rule ccontr)
    assume "Err \<noteq> None"
    then obtain err where e: "Err = Some err" by blast
    with r assms(4) have "err \<noteq> 0" by (auto simp: reflector_device_def dos_error_def split: if_splits)
    moreover have "Hr = HRESULT_FROM_WIN32 err" using call m r e by simp
    ultimately show False using assms(8) FAILED_HRESULT_FROM_WIN32 by simp
  qed
  have "driver_known (Refl (World ?s)) (ReqDriverBase ?q) Conn"
    "CfixkrpGetRoutineTestAdapter (Adapters (Refl (World ?s)) Conn) (ReqFixtureKey ?q) (ReqRoutineKey ?q) = Inr a"
    using assms(1,2) by simp_all
  from call_answer [OF this assms(3) r [unfolded none]] obtain rf where a:
    "s1 = ?s\<lparr>World := (World ?s)\<lparr>Refl := rf\<rparr>\<rparr>" "RespTruncated resp = BufferTruncated ?b"
    "RespCount resp = EventCount ?b" "RespEvents resp = Events ?b" "n = 24 + BufferLength ?b"
    by (auto simp: Let_def)
  have b: "channel_ok ?b" "BufferSize ?b = BufferSize empty_buffer"
    using queue_reports [OF empty_channel_ok, of ?b FO rps] by blast+
  then have "BufferLength ?b \<le> 4072" by (simp add: channel_ok_def buffer_ok_def empty_buffer_def)
  then have n: "\<not> n < sizeof_call_response" using room_left a(5) by simp
  have cnt: "unat (RespCount resp) = length (RespEvents resp)" using channel_count [OF b(1)] a(3,4) by simp
  let ?s2 = "report_events ctx (Events ?b) s1"
  let ?s3 = "if BufferTruncated ?b
             then snd (ReportEvent ctx (CfixpInitializeThreadId me me) truncation_note ?s2) else ?s2"
  have "s' = ?s3\<lparr>KlHeap := free (KlHeap ?s3)\<rparr>"
    using call m r none n a(2,4) by (auto simp: cnt split del: if_split)
  with a(1) show ?thesis by (intro that [of s1 rf ?s2 ?s3]) simp_all
qed


definition on_observer :: "('c \<Rightarrow> 'c) \<Rightarrow> 'c kworld kl_state \<Rightarrow> 'c kworld kl_state" where
  "on_observer f s = s\<lparr>World := (World s)\<lparr>Observer := f (Observer (World s))\<rparr>\<rparr>"

definition ask_observer ::
    "('c \<Rightarrow> 'r \<times> 'c) \<Rightarrow> 'c kworld kl_state \<Rightarrow> 'r \<times> 'c kworld kl_state" where
  "ask_observer f s = apsnd (\<lambda>u. s\<lparr>World := (World s)\<lparr>Observer := u\<rparr>\<rparr>) (f (Observer (World s)))"

definition lift_kernel_context :: "'c exec_context \<Rightarrow> 'c kworld kl_state exec_context" where
  "lift_kernel_context c =
     \<lparr>ContextVersion = ContextVersion c, ContextRoutinesPresent = ContextRoutinesPresent c,
      ReportEvent = (\<lambda>t ev. ask_observer (ReportEvent c t ev)),
      QueryDefaultDisposition = (\<lambda>t. ask_observer (QueryDefaultDisposition c t)),
      BeforeFixtureStart = (\<lambda>t fx. ask_observer (BeforeFixtureStart c t fx)),
      AfterFixtureFinish = (\<lambda>t fx b. on_observer (AfterFixtureFinish c t fx b)),
      BeforeTestCaseStart = (\<lambda>t tc. ask_observer (BeforeTestCaseStart c t tc)),
      AfterTestCaseFinish = (\<lambda>t tc b. on_observer (AfterTestCaseFinish c t tc b)),
      CreateChildThread = (\<lambda>t. ask_observer (CreateChildThread c t)),
      BeforeChildThreadStart = (\<lambda>t p. on_observer (BeforeChildThreadStart c t p)),
      AfterChildThreadFinish = (\<lambda>t p. on_observer (AfterChildThreadFinish c t p)),
      OnUnhandledException = (\<lambda>t e. on_observer (OnUnhandledException c t e)),
      ContextReference = on_observer (ContextReference c),
      ContextDereference = on_observer (ContextDereference c)\<rparr>"

lemma lift_observes: "observes (lift_kernel_context c) c"
  by (simp add: observes_def lift_kernel_context_def lift_report_def ask_observer_def fun_eq_iff)

definition log_context :: "(thread_id \<times> cfix_event) list exec_context" where
  "log_context =
     \<lparr>ContextVersion = CFIX_TEST_CONTEXT_VERSION, ContextRoutinesPresent = True,
      ReportEvent = (\<lambda>t ev u. (CfixContinue, u @ [(t, ev)])),
      QueryDefaultDisposition = (\<lambda>_ u. (CfixContinue, u)),
      BeforeFixtureStart = (\<lambda>_ _ u. (S_OK, u)), AfterFixtureFinish = (\<lambda>_ _ _ u. u),
      BeforeTestCaseStart = (\<lambda>_ _ u. (S_OK, u)), AfterTestCaseFinish = (\<lambda>_ _ _ u. u),
      CreateChildThread = (\<lambda>_ u. ((S_OK, 0), u)), BeforeChildThreadStart = (\<lambda>_ _ u. u),
      AfterChildThreadFinish = (\<lambda>_ _ u. u), OnUnhandledException = (\<lambda>_ _ u. u),
      ContextReference = id, ContextDereference = id\<rparr>"

definition demo_report :: kreport where
  "demo_report = \<lparr>RpType = CfixEventLog, RpThread = \<lparr>ThreadId = 4, MainThreadId = 4\<rparr>, RpFrames = 0,
     RpException = None, RpFile = None, RpRoutine = None, RpLine = 0, RpExpression = None,
     RpMessage = Some (wide ''hi'')\<rparr>"

definition reporting_side :: kernel_side where
  "reporting_side = demo_side\<lparr>KsCode := (\<lambda>_ ch ks.
     (((True, False), ch\<lparr>EventBuffer := queue_report 200 demo_report (EventBuffer ch)\<rparr>), ks)),
     KsThread := demo_thread\<rparr>"

lemma demo_call_returns:
  "\<exists>v s'. CfixklpCallRoutine (reflector_device reporting_side) 1 0xA000 (lift_kernel_context log_context)
       0 1 0 demo_kl_state = Some ((S_OK, True, False, v), s')"
proof -
  let ?q = "request_input \<lparr>ReqDriverBase = 0xA000, ReqFixtureKey = 0, ReqRoutineKey = 1,
     ReqFailedAssertion = CfixContinue, ReqUnhandledException = CfixContinue, ReqTlsValue = 0\<rparr>"
  let ?code = "KsCode reporting_side 0x600 (new_channel ?q 4096)"
  have look: "CfixkrpLookupDriverConnection 0xA000 (DrvRegistry demo_refl) = (STATUS_SUCCESS, Some 2)"
    using demo_driver_known by (simp add: driver_known_def)
  have rt: "CfixkrpGetRoutineTestAdapter (Adapters demo_refl 2) 0 1 = Inr 0x600"
    by (simp add: CfixkrpGetRoutineTestAdapter_def demo_refl_def demo_adapter_def)
  have code: "?code ks = (((True, False), (new_channel ?q 4096)\<lparr>EventBuffer :=
      queue_report 200 demo_report (EventBuffer (new_channel ?q 4096))\<rparr>), ks)" for ks
    by (simp add: reporting_side_def)
  have fr: "FilamentRegistries demo_refl 2 = demo_registry" by (simp add: demo_refl_def demo_registry_def)
  have "CfixkrpGetCurrentFilament (ThreadObject demo_thread) demo_registry = None" by code_simp
  from call_routine_cases [OF demo_registry_reachable this, of 0 ?code True "\<lambda>_. 0" STATUS_SUCCESS True 0] code
  obtain st ks out where c: "CfixkrpCallRoutineDriverConnection True (\<lambda>_. 0) STATUS_SUCCESS True ?code
      demo_thread 0 0 demo_registry = Some (st, Some out, ks)"
    by (auto simp: NT_SUCCESS_def)
  from driver_call_outcome [OF c] code have out: "st = STATUS_SUCCESS"
    "out = ((True, False), (new_channel ?q 4096)\<lparr>EventBuffer :=
      queue_report 200 demo_report (EventBuffer (new_channel ?q 4096))\<rparr>)" by auto
  let ?b = "queue_report 200 demo_report empty_buffer"
  have b: "unat (EventCount ?b) \<le> length (Events ?b)" "\<not> 24 + BufferLength ?b < sizeof_call_response"
    by (simp_all add: queue_report_def demo_report_def empty_buffer_def CfixkrsQueueEvent_def cb_length_def
        structure_base_size_def total_size_def write_info_def put_string_def wide_def)
  have side: "KsPoolOk reporting_side" "KsWait reporting_side = (\<lambda>_. 0)" "KsLoaded reporting_side"
    "KsThread reporting_side = demo_thread" "KsChan reporting_side = 0" "KsFilament reporting_side = 0"
    "dos_error reporting_side STATUS_SUCCESS = None"
    by (simp_all add: reporting_side_def demo_side_def dos_error_def NT_SUCCESS_def)
  have buf: "EventBuffer (new_channel ?q 4096) = empty_buffer"
    by (simp add: new_channel_def empty_buffer_def)
  show ?thesis
    using look rt fr c [unfolded out] b buf
    by (simp add: CfixklpCallRoutine_def malloc_def demo_kl_state_def lift_kernel_context_def
        ask_observer_def log_context_def reflector_device_def device_control_def side call_of_def
        CfixkrpDispatchDeviceControl_def CfixkrsCallRoutineIoctl_def request_input_def Let_def)
qed


end
