(* ===== verification/KlModuleRun.thy ===== *)
theory KlModuleRun
  imports KernelEvents
begin

text \<open>
  Runs of the fixtures of a driver: the blocks that the loader library allocates for a run. The
  methods of the module are clients of two interfaces, the device and the execution context,
  neither of which knows the memory of the library.
\<close>

section \<open>Interfaces that leave the library alone\<close>

definition untouched :: "'u kl_state \<Rightarrow> 'u kl_state \<Rightarrow> bool" where
  "untouched s s' \<longleftrightarrow> KlTls s' = KlTls s \<and> KlHeap s' = KlHeap s"

text \<open>What a method of the module leaves behind: the balance of blocks and an allocator that works.\<close>

definition balanced :: "'u kl_state \<Rightarrow> 'u kl_state \<Rightarrow> bool" where
  "balanced s s' \<longleftrightarrow> Live (KlHeap s') = Live (KlHeap s) \<and> always_ok (KlHeap s')"

lemma untouched_balanced: "untouched s s' \<Longrightarrow> always_ok (KlHeap s) \<Longrightarrow> balanced s s' \<and> KlTls s' = KlTls s"
  by (simp add: untouched_def balanced_def)

lemma balanced_trans: "balanced s s' \<Longrightarrow> balanced s' s'' \<Longrightarrow> balanced s s''"
  by (simp add: balanced_def)

text \<open>The library holds the one block of the storage value, and \<open>L\<close> blocks in all.\<close>

definition holding :: "int \<Rightarrow> 'u kl_state \<Rightarrow> bool" where
  "holding L s \<longleftrightarrow> KlTls s \<noteq> None \<and> Live (KlHeap s) = L \<and> always_ok (KlHeap s)"

definition idle :: "int \<Rightarrow> 'u kl_state \<Rightarrow> bool" where
  "idle L s \<longleftrightarrow> KlTls s = None \<and> Live (KlHeap s) = L \<and> always_ok (KlHeap s)"

lemma phase_untouched:
  "untouched s s' \<Longrightarrow> holding L s' = holding L s" "untouched s s' \<Longrightarrow> idle L s' = idle L s"
  by (simp_all add: untouched_def holding_def idle_def)

text \<open>Whether the setup routine of a run was called and failed.\<close>

definition setup_failed ::
    "'u kl_env \<Rightarrow> 'u kl_state exec_context \<Rightarrow> ulong \<Rightarrow> fixture \<Rightarrow> 'u kl_state \<Rightarrow> bool" where
  "setup_failed env ctx tid fx s =
     (let (hb, s1) = BeforeFixtureStart ctx (CfixpInitializeThreadId tid tid) fx s
      in SUCCEEDED hb \<and> (case CfixklsRunSetupRoutine env fx ctx s1 of
           None \<Rightarrow> False | Some (hs, _) \<Rightarrow> FAILED hs))"

locale private_calls =
  fixes dev :: "'u kl_state reflector" and ctx :: "'u kl_state exec_context"
  assumes call_private: "CallRoutine dev q n s = Some (x, s') \<Longrightarrow> untouched s s'"
    and report_private: "untouched s (snd (ReportEvent ctx t ev s))"
    and query_private: "untouched s (snd (QueryDefaultDisposition ctx et s))"
    and before_fixture_private: "untouched s (snd (BeforeFixtureStart ctx t fx s))"
    and after_fixture_private: "untouched s (AfterFixtureFinish ctx t fx b s)"
    and before_case_private: "untouched s (snd (BeforeTestCaseStart ctx t tc s))"
    and after_case_private: "untouched s (AfterTestCaseFinish ctx t tc b s)"
begin

lemma report_balanced:
  assumes "always_ok (KlHeap s)"
  shows "balanced s (snd (CfixklsReportEventToExecutionContext ctx e s))
       \<and> KlTls (snd (CfixklsReportEventToExecutionContext ctx e s)) = KlTls s"
proof -
  let ?bs = "buffers_of (KInfo e)"
  let ?h1 = "(KlHeap s)\<lparr>Requests := Requests (KlHeap s) + 1, Live := Live (KlHeap s) + 1\<rparr>"
  let ?h2 = "?h1\<lparr>Requests := Requests ?h1 + length ?bs, Live := Live ?h1 + int (length ?bs)\<rparr>"
  let ?s = "snd (ReportEvent ctx (KThread e) (translate_event e) (s\<lparr>KlHeap := ?h2\<rparr>))"
  have ok: "always_ok ?h1" using assms by simp
  have "CfixklsReportEventToExecutionContext ctx e s =
      (S_OK, ?s\<lparr>KlHeap := (free ^^ (length ?bs + 1)) (KlHeap ?s)\<rparr>)"
    unfolding CfixklsReportEventToExecutionContext_def malloc_ok [OF assms] prod.case bool.case
      malloc_all_ok [OF ok] Let_def if_True by simp
  moreover have "untouched (s\<lparr>KlHeap := ?h2\<rparr>) ?s" by (rule report_private)
  ultimately show ?thesis using assms by (simp add: untouched_def balanced_def free_times free_def)
qed

lemma reports_balanced:
  "always_ok (KlHeap s) \<Longrightarrow> balanced s (report_events ctx es s) \<and> KlTls (report_events ctx es s) = KlTls s"
proof (induction es arbitrary: s)
  case Nil
  then show ?case by (simp add: balanced_def)
next
  case (Cons e es)
  obtain hr s1 where r: "CfixklsReportEventToExecutionContext ctx e s = (hr, s1)"
    by (cases "CfixklsReportEventToExecutionContext ctx e s")
  from report_balanced [OF Cons.prems, of e] r have b: "balanced s s1" "KlTls s1 = KlTls s" by simp_all
  then have "always_ok (KlHeap s1)" by (simp add: balanced_def)
  from Cons.IH [OF this] b r show ?case by (auto intro: balanced_trans)
qed

lemma call_balanced:
  assumes "always_ok (KlHeap s)" and "CfixklpCallRoutine dev me base ctx fk rk v s = Some (x, s')"
  shows "balanced s s' \<and> KlTls s' = KlTls s"
proof -
  obtain d1 s1 where q1: "QueryDefaultDisposition ctx CfixEventFailedAssertion s = (d1, s1)"
    by (cases "QueryDefaultDisposition ctx CfixEventFailedAssertion s")
  obtain d2 s2 where q2: "QueryDefaultDisposition ctx CfixEventUncaughtException s1 = (d2, s2)"
    by (cases "QueryDefaultDisposition ctx CfixEventUncaughtException s1")
  have u: "untouched s s1" "untouched s1 s2"
    using query_private [of s CfixEventFailedAssertion] query_private [of s1 CfixEventUncaughtException] q1 q2
    by simp_all
  then have h2: "KlHeap s2 = KlHeap s" "KlTls s2 = KlTls s" by (simp_all add: untouched_def)
  let ?h = "(KlHeap s)\<lparr>Requests := Requests (KlHeap s) + 1, Live := Live (KlHeap s) + 1\<rparr>"
  let ?q = "\<lparr>ReqDriverBase = base, ReqFixtureKey = fk, ReqRoutineKey = rk, ReqFailedAssertion = d1,
     ReqUnhandledException = d2, ReqTlsValue = v\<rparr>"
  note call = assms(2) [unfolded CfixklpCallRoutine_def q1 q2 Let_def prod.case h2 malloc_ok [OF assms(1)]]
  from call obtain Err resp n s3 where r: "CallRoutine dev ?q 4096 (s2\<lparr>KlHeap := ?h\<rparr>) = Some ((Err, resp, n), s3)"
    by (auto simp: bind_Some_iff)
  from call_private [OF r] have s3: "KlHeap s3 = ?h" "KlTls s3 = KlTls s"
    by (simp_all add: untouched_def h2)
  then have ok3: "always_ok (KlHeap s3)" using assms(1) by simp
  let ?s4 = "report_events ctx (take (unat (RespCount resp)) (RespEvents resp)) s3"
  let ?s5 = "if RespTruncated resp
             then snd (ReportEvent ctx (CfixpInitializeThreadId me me) truncation_note ?s4) else ?s4"
  note b4 = reports_balanced [OF ok3, of "take (unat (RespCount resp)) (RespEvents resp)"]
  have b5: "balanced s3 ?s5" "KlTls ?s5 = KlTls s3"
    using b4 report_private [of ?s4] by (simp_all add: untouched_def balanced_def)
  have "s' = s3\<lparr>KlHeap := free (KlHeap s3)\<rparr> \<or> s' = ?s5\<lparr>KlHeap := free (KlHeap ?s5)\<rparr>"
    using call r by (cases Err) (auto split: if_splits)
  then show ?thesis using s3 b5 ok3 by (auto simp: balanced_def free_def)
qed

lemma setup_holds:
  assumes "idle L s" and "ContextVersion ctx = CFIX_TEST_CONTEXT_VERSION" and "Device env = dev"
    and "CfixklsRunSetupRoutine env fx ctx s = Some (hr, s')"
  shows "holding (L + 1) s'"
proof -
  let ?h = "(KlHeap s)\<lparr>Requests := Requests (KlHeap s) + 1, Live := Live (KlHeap s) + 1\<rparr>"
  let ?s = "s\<lparr>KlHeap := ?h, KlTls := Some 0\<rparr>"
  have ok: "always_ok (KlHeap s)" "always_ok (KlHeap ?s)" using assms(1) by (simp_all add: idle_def)
  have start: "holding (L + 1) ?s" using assms(1) by (simp add: idle_def holding_def)
  show ?thesis
  proof (cases "SetupRoutine fx AND SetupRoutine fx \<noteq> 0")
    case False
    with assms(2,4) start malloc_ok [OF ok(1)] show ?thesis
      by (simp add: CfixklsRunSetupRoutine_def)
  next
    case True
    with assms(2-4) malloc_ok [OF ok(1)] obtain x s1 where
      c: "CfixklpCallRoutine dev (TestThread env) (DriverBaseAddress env) ctx (ucast (FixtureReserved fx))
            (ucast (SetupRoutine fx AND NOT CFIXKLP_ROUTINE_PRESENT)) 0 ?s = Some (x, s1)"
      and "s' = s1\<lparr>KlTls := Some 0\<rparr>"
      by (auto simp: CfixklsRunSetupRoutine_def bind_Some_iff)
    with call_balanced [OF ok(2) c] start show ?thesis by (simp add: holding_def balanced_def)
  qed
qed

lemma before_after_holds:
  assumes "holding L s" and "Device env = dev"
    and "CfixklsRunBeforeOrAfterRoutine env fx ctx tag failure reset s = Some (hr, s')"
  shows "holding L s'"
proof (cases "tag AND CFIXKLP_ROUTINE_PRESENT = 0")
  case True
  with assms show ?thesis by (auto simp: CfixklsRunBeforeOrAfterRoutine_def bind_Some_iff)
next
  case False
  with assms(2,3) obtain tls x s1 w where
    c: "CfixklpCallRoutine dev (TestThread env) (DriverBaseAddress env) ctx (ucast (FixtureReserved fx))
          (ucast (tag AND NOT CFIXKLP_ROUTINE_PRESENT)) tls s = Some (x, s1)"
    and "s' = s1\<lparr>KlTls := Some w\<rparr>"
    by (auto simp: CfixklsRunBeforeOrAfterRoutine_def bind_Some_iff)
  moreover have "always_ok (KlHeap s)" using assms(1) by (simp add: holding_def)
  ultimately show ?thesis using call_balanced [OF _ c] assms(1) by (simp add: holding_def balanced_def)
qed

lemma test_case_holds:
  assumes "holding L s" and "Device env = dev" and "CfixklsRunTestCaseRoutine env tc ctx s = Some (hr, s')"
  shows "holding L s'"
proof (cases "\<not> snd tc < TestCaseCount (fst tc) \<or> \<not> kl_valid_args ctx")
  case True
  with assms show ?thesis by (auto simp: CfixklsRunTestCaseRoutine_def)
next
  case False
  with assms(2,3) obtain tls x s1 w where
    c: "CfixklpCallRoutine dev (TestThread env) (DriverBaseAddress env) ctx
          (ucast (FixtureReserved (fst tc))) (ucast (TestCaseRoutine (TestCases (fst tc) ! snd tc))) tls s
        = Some (x, s1)"
    and "s' = s1\<lparr>KlTls := Some w\<rparr>"
    by (auto simp: CfixklsRunTestCaseRoutine_def bind_Some_iff)
  moreover have "always_ok (KlHeap s)" using assms(1) by (simp add: holding_def)
  ultimately show ?thesis using call_balanced [OF _ c] assms(1) by (simp add: holding_def balanced_def)
qed

lemma teardown_releases:
  assumes "holding L s" and "ContextVersion ctx = CFIX_TEST_CONTEXT_VERSION" and "Device env = dev"
    and "CfixklsRunTeardownRoutine env fx ctx s = Some (hr, s')"
  shows "idle (L - 1) s'"
proof -
  from assms(1) obtain v where v: "KlTls s = Some v" by (auto simp: holding_def)
  let ?s = "s\<lparr>KlHeap := free (KlHeap s), KlTls := None\<rparr>"
  have ok: "always_ok (KlHeap ?s)" using assms(1) by (simp add: holding_def)
  have start: "idle (L - 1) ?s" using assms(1) by (simp add: holding_def idle_def free_def always_ok_def)
  show ?thesis
  proof (cases "TeardownRoutine fx AND CFIXKLP_ROUTINE_PRESENT = 0")
    case True
    with assms(2,4) v start show ?thesis by (simp add: CfixklsRunTeardownRoutine_def)
  next
    case False
    with assms(2-4) v obtain x where
      c: "CfixklpCallRoutine dev (TestThread env) (DriverBaseAddress env) ctx (ucast (FixtureReserved fx))
            (ucast (TeardownRoutine fx AND NOT CFIXKLP_ROUTINE_PRESENT)) v ?s = Some (x, s')"
      by (auto simp: CfixklsRunTeardownRoutine_def bind_Some_iff)
    with call_balanced [OF ok c] start show ?thesis by (simp add: idle_def balanced_def)
  qed
qed

lemma cases_keep_block:
  assumes "Device env = dev"
  shows "keeps_cases (holding L) (kl_module env) ctx"
proof -
  have "holding L (snd (BeforeTestCaseStart ctx t tc s)) = holding L s"
    "holding L (AfterTestCaseFinish ctx t tc b s) = holding L s" for t tc b s
    by (rule phase_untouched(1), rule before_case_private)
      (rule phase_untouched(1), rule after_case_private)
  moreover have "pred_option (\<lambda>r. holding L (snd r)) (RunTestCase (kl_module env) tc ctx fl s)"
    if "holding L s" for tc fl s
    using test_case_holds [OF that assms, of tc] by (auto simp: kl_module_def pred_option_def)
  moreover have "pred_option (\<lambda>r. holding L (snd r)) (Before (kl_module env) fx ctx fl s)"
    "pred_option (\<lambda>r. holding L (snd r)) (After (kl_module env) fx ctx fl s)"
    if "holding L s" for fx fl s
    using before_after_holds [OF that assms] that
    by (auto simp: kl_module_def pred_option_def CfixklsRunBeforeRoutine_def CfixklsRunAfterRoutine_def
        split: if_splits)
  ultimately show ?thesis by (simp add: keeps_cases_def)
qed

text \<open>
  The run of a fixture: a block stays behind exactly when setup was run and teardown was not.
\<close>

lemma fixture_run_blocks:
  assumes "ActionModule act = kl_module env" and "Device env = dev" and "CfixIsValidContext ctx"
    and "ActionSignatureOk act" and "idle L s"
    and "CfixsRunFixtureExecutionAction dbg tid act ctx s = Some (hr, s')"
  shows "idle L s' \<and> \<not> setup_failed env ctx tid (ActionFixture act) s
       \<or> holding (L + 1) s' \<and> (FAILED hr \<or> setup_failed env ctx tid (ActionFixture act) s)"
proof -
  let ?t = "CfixpInitializeThreadId tid tid" and ?fx = "ActionFixture act"
  have ver: "ContextVersion ctx = CFIX_TEST_CONTEXT_VERSION"
    using assms(3) by (simp add: CfixIsValidContext_def)
  obtain hb s1 where b: "BeforeFixtureStart ctx ?t ?fx s = (hb, s1)"
    by (cases "BeforeFixtureStart ctx ?t ?fx s")
  have s1: "idle L s1" using phase_untouched(2) [OF before_fixture_private [of s ?t ?fx]] b assms(5) by simp
  note run = assms(6) [unfolded CfixsRunFixtureExecutionAction_def Let_def b prod.case]
  show ?thesis
  proof (cases "FAILED hb")
    case True
    with run assms(3,4) s1 b show ?thesis by (simp add: setup_failed_def)
  next
    case False
    with run assms(1,3,4) obtain hs s2 where su: "CfixklsRunSetupRoutine env ?fx ctx s1 = Some (hs, s2)"
      by (auto simp: kl_module_def bind_Some_iff)
    note s2 = setup_holds [OF s1 ver assms(2) su]
    have after: "holding (L + 1) (AfterFixtureFinish ctx ?t ?fx c s2) = holding (L + 1) s2" for c
      by (rule phase_untouched(1), rule after_fixture_private)
    show ?thesis
    proof (cases "FAILED hs")
      case True
      with run assms(1,3,4) False su s2 after b show ?thesis
        by (auto simp: kl_module_def setup_failed_def split: if_splits)
    next
      case good: False
      then have plain: "hs \<noteq> CFIX_E_SETUP_ROUTINE_FAILED" "hs \<noteq> CFIX_E_TESTRUN_ABORTED" by auto
      with run assms(1,3,4) False su good obtain r s3 where
        l: "run_test_cases dbg act ctx ?t [0..<TestCaseCount ?fx] hs s2 = Some (r, s3)"
        by (auto simp: kl_module_def bind_Some_iff)
      have s3: "holding (L + 1) s3"
        by (rule run_test_cases_keeps [where I = "holding (L + 1)", OF _ s2 l]) (use cases_keep_block [OF assms(2)] assms(1) in simp)
      show ?thesis
      proof (cases r)
        case (Inl h)
        with run assms(1,3,4) False su good plain l have e: "hr = h" "s' = s3"
          by (simp_all add: kl_module_def)
        have "FAILED h" using run_test_cases_fatal [OF l [unfolded Inl]] .
        with e s3 show ?thesis by simp
      next
        case (Inr p)
        obtain h stop where p: "p = (h, stop)" by (cases p)
        with Inr run assms(1,3,4) False su good plain l obtain hd s4 c where
          td: "CfixklsRunTeardownRoutine env ?fx ctx s3 = Some (hd, s4)"
          and s': "s' = AfterFixtureFinish ctx ?t ?fx c s4"
          by (auto simp: kl_module_def bind_Some_iff split: if_splits)
        have "idle (L + 1 - 1) s4" by (rule teardown_releases [OF s3 ver assms(2) td])
        then have "idle L s'" using phase_untouched(2) [OF after_fixture_private] s' by simp
        with su good b show ?thesis by (simp add: setup_failed_def)
      qed
    qed
  qed
qed

end

section \<open>The reflector and its contexts\<close>

interpretation reflector: private_calls "reflector_device k" "lift_kernel_context c"
  for k :: kernel_side and c :: "'c exec_context"
  by unfold_locales
    (auto simp: reflector_device_def untouched_def lift_kernel_context_def ask_observer_def
      on_observer_def apsnd_def map_prod_def split_beta)

section \<open>Property\<close>


definition quiet_action :: "(thread_id \<times> cfix_event) list kworld kl_state tsexec_action" where
  "quiet_action =
     \<lparr>ActionSignatureOk = True, ActionReferenceCount = 1,
      ActionFixture = blank_fixture (wide ''t'') 0 (hd demo_adapter),
      ActionModule = kl_module \<lparr>Device = reflector_device demo_side, DriverBaseAddress = 0xA000,
                                TestThread = 1\<rparr>,
      ActionFlags = 0, TestCaseIndex = -1\<rparr>"


end
