(* ===== verification/KlLoad.thy ===== *)
theory KlLoad
  imports KlModule
begin

text \<open>
  Loading a driver (\<open>cfixkern/cfixkl/load.c\<close>, creation and deletion of a module in
  \<open>cfixkern/cfixkl/module.c\<close>): the driver is registered as a service and started, the reflector
  is started before it, and the module that is made of the driver stops it when it is deleted.

  The service control manager is a record of functions over the world, each with its Win32
  error, if any. A handle of a service is the name of the service; \<open>ScHandles\<close> and \<open>DevHandles\<close>
  count the handles of services and of the reflector that are open, and \<open>ScLog\<close> lists the
  requests that were granted. A full path that does not fit into its buffer leaves the buffer
  unfilled, and the code reads it: \<open>None\<close>, as is starting a service without a handle. Closing
  no handle has no effect.
\<close>

abbreviation E_ACCESSDENIED :: hresult where "E_ACCESSDENIED \<equiv> 0x80070005"
abbreviation ERROR_FILE_NOT_FOUND :: dword where "ERROR_FILE_NOT_FOUND \<equiv> 2"
abbreviation ERROR_MOD_NOT_FOUND :: dword where "ERROR_MOD_NOT_FOUND \<equiv> 126"
abbreviation ERROR_SERVICE_ALREADY_RUNNING :: dword where "ERROR_SERVICE_ALREADY_RUNNING \<equiv> 1056"
abbreviation ERROR_SERVICE_NOT_ACTIVE :: dword where "ERROR_SERVICE_NOT_ACTIVE \<equiv> 1062"
abbreviation ERROR_SERVICE_EXISTS :: dword where "ERROR_SERVICE_EXISTS \<equiv> 1073"
abbreviation PROCESSOR_ARCHITECTURE_INTEL :: "16 word" where "PROCESSOR_ARCHITECTURE_INTEL \<equiv> 0"
abbreviation PROCESSOR_ARCHITECTURE_AMD64 :: "16 word" where "PROCESSOR_ARCHITECTURE_AMD64 \<equiv> 9"

section \<open>The system\<close>

datatype sc_event = ScCreated wstring | ScStarted wstring | ScStopped wstring | ScDeleted wstring

record 'u load_state =
  Kl :: "'u kl_state"
  ScHandles :: int
  DevHandles :: int
  ScLog :: "sc_event list"

record 'u sc_system =
  FullPathName :: "wstring \<Rightarrow> dword + wstring"
  FileExists :: "wstring \<Rightarrow> bool"
  OwnModulePath :: "dword + wstring"
  RemoveFileSpec :: "wstring \<Rightarrow> wstring option"
  PathCombine :: "wstring \<Rightarrow> wstring \<Rightarrow> wstring option"
  PathStripPath :: "wstring \<Rightarrow> wstring"
  PathRemoveExtension :: "wstring \<Rightarrow> wstring"
  NativeSystemInfo :: "(16 word) option"
  SystemInfo :: "16 word"
  OpenScm :: "'u \<Rightarrow> dword option \<times> 'u"
  CreateService :: "wstring \<Rightarrow> wstring \<Rightarrow> wstring \<Rightarrow> 'u \<Rightarrow> dword option \<times> 'u"
  OpenService :: "wstring \<Rightarrow> 'u \<Rightarrow> dword option \<times> 'u"
  StartService :: "wstring \<Rightarrow> 'u \<Rightarrow> dword option \<times> 'u"
  StopService :: "wstring \<Rightarrow> 'u \<Rightarrow> dword option \<times> 'u"
  DeleteService :: "wstring \<Rightarrow> 'u \<Rightarrow> dword option \<times> 'u"
  OpenReflector :: "'u \<Rightarrow> dword option \<times> 'u"
  ReflectorDevice :: "'u kl_state reflector"
  DriverNames :: "ulong_ptr \<Rightarrow> dword + wstring"

definition ask :: "('u \<Rightarrow> dword option \<times> 'u) \<Rightarrow> 'u load_state \<Rightarrow> dword option \<times> 'u load_state" where
  "ask f s = (case f (World (Kl s)) of (e, u) \<Rightarrow> (e, s\<lparr>Kl := (Kl s)\<lparr>World := u\<rparr>\<rparr>))"

definition new_handle :: "'u load_state \<Rightarrow> 'u load_state" where
  "new_handle s = s\<lparr>ScHandles := ScHandles s + 1\<rparr>"

definition CloseServiceHandle :: "'u load_state \<Rightarrow> 'u load_state" where
  "CloseServiceHandle s = s\<lparr>ScHandles := ScHandles s - 1\<rparr>"

definition log_event :: "sc_event \<Rightarrow> 'u load_state \<Rightarrow> 'u load_state" where
  "log_event e s = s\<lparr>ScLog := ScLog s @ [e]\<rparr>"

text \<open>Without \<open>GetNativeSystemInfo\<close> (Windows 2000) the information of the process is native.\<close>

definition CfixklGetNativeSystemInfo :: "'u sc_system \<Rightarrow> 16 word" where
  "CfixklGetNativeSystemInfo sys =
     (case NativeSystemInfo sys of Some a \<Rightarrow> a | None \<Rightarrow> SystemInfo sys)"

text \<open>\<open>IsWow64Process\<close>, where the system has it: the result and the answer.\<close>

definition CfixklIsWow64Process :: "(bool \<times> bool) option \<Rightarrow> bool \<times> bool" where
  "CfixklIsWow64Process Routine = (case Routine of Some r \<Rightarrow> r | None \<Rightarrow> (True, False))"

section \<open>Drivers\<close>

text \<open>The code, whether the service was installed, and the handle.\<close>

definition open_service ::
    "'u sc_system \<Rightarrow> wstring \<Rightarrow> wstring \<Rightarrow> wstring \<Rightarrow> 'u load_state \<Rightarrow>
       (hresult \<times> bool \<times> wstring option) \<times> 'u load_state" where
  "open_service sys FullPath DriverName DisplyName s =
     (case ask (CreateService sys DriverName DisplyName FullPath) s of
        (None, s) \<Rightarrow>
          ((S_OK, True, Some DriverName), log_event (ScCreated DriverName) (new_handle s))
      | (Some Err, s) \<Rightarrow>
          if Err = ERROR_SERVICE_EXISTS then
            (case ask (OpenService sys DriverName) s of
               (None, s) \<Rightarrow> ((S_OK, False, Some DriverName), new_handle s)
             | (Some Err, s) \<Rightarrow> ((HRESULT_FROM_WIN32 Err, False, None), s))
          else ((HRESULT_FROM_WIN32 Err, False, None), s))"

definition CfixklsOpenDriver ::
    "'u sc_system \<Rightarrow> wstring \<Rightarrow> wstring \<Rightarrow> wstring \<Rightarrow> 'u load_state \<Rightarrow>
       ((hresult \<times> bool \<times> wstring option) \<times> 'u load_state) option" where
  "CfixklsOpenDriver sys DriverPath DriverName DisplyName s =
     (case FullPathName sys DriverPath of
        Inl Err \<Rightarrow> Some ((HRESULT_FROM_WIN32 Err, False, None), s)
      | Inr FullPath \<Rightarrow>
          if \<not> length FullPath < MAX_PATH then None
          else if \<not> FileExists sys FullPath
          then Some ((HRESULT_FROM_WIN32 ERROR_MOD_NOT_FOUND, False, None), s)
          else case ask (OpenScm sys) s of
            (Some Err, s) \<Rightarrow> Some ((HRESULT_FROM_WIN32 Err, False, None), s)
          | (None, s) \<Rightarrow>
              (case open_service sys FullPath DriverName DisplyName (new_handle s) of
                 (r, s) \<Rightarrow> Some (r, CloseServiceHandle s)))"

definition copy_path :: "nat \<Rightarrow> wstring \<Rightarrow> hresult + wstring" where
  "copy_path PathCch Path =
     (if length Path < PathCch then Inr Path else Inl STRSAFE_E_INSUFFICIENT_BUFFER)"

definition CfixklsFindReflectorImage :: "'u sc_system \<Rightarrow> nat \<Rightarrow> hresult + wstring" where
  "CfixklsFindReflectorImage sys PathCch =
     (case OwnModulePath sys of
        Inl Err \<Rightarrow> Inl (HRESULT_FROM_WIN32 Err)
      | Inr Own \<Rightarrow>
          (case RemoveFileSpec sys Own of
             None \<Rightarrow> Inl CFIXKL_E_CFIXKR_NOT_FOUND
           | Some Dir \<Rightarrow>
               let arch = CfixklGetNativeSystemInfo sys
               in if arch \<noteq> PROCESSOR_ARCHITECTURE_AMD64 \<and> arch \<noteq> PROCESSOR_ARCHITECTURE_INTEL
                  then Inl E_UNEXPECTED
                  else
                    let Image = (if arch = PROCESSOR_ARCHITECTURE_AMD64 then wide ''cfixkr64.sys''
                                 else wide ''cfixkr32.sys'');
                        Other = (if arch = PROCESSOR_ARCHITECTURE_AMD64
                                 then wide ''..'' @ [0x5C] @ wide ''amd64'' @ [0x5C] @ wide ''cfixkr64.sys''
                                 else wide ''..'' @ [0x5C] @ wide ''i386'' @ [0x5C] @ wide ''cfixkr32.sys'')
                    in case PathCombine sys Dir Image of
                         None \<Rightarrow> Inl CFIXKL_E_CFIXKR_NOT_FOUND
                       | Some p \<Rightarrow>
                           if FileExists sys p then copy_path PathCch p
                           else case PathCombine sys Dir Other of
                             None \<Rightarrow> Inl CFIXKL_E_CFIXKR_NOT_FOUND
                           | Some p \<Rightarrow>
                               if FileExists sys p then copy_path PathCch p
                               else Inl CFIXKL_E_CFIXKR_NOT_FOUND))"

text \<open>The code, whether the driver was installed and loaded, and the handle.\<close>

definition CfixklpStartDriver ::
    "'u sc_system \<Rightarrow> wstring \<Rightarrow> wstring \<Rightarrow> wstring \<Rightarrow> 'u load_state \<Rightarrow>
       ((hresult \<times> bool \<times> bool \<times> wstring option) \<times> 'u load_state) option" where
  "CfixklpStartDriver sys DriverPath DriverName DisplyName s =
     do {
       ((Hr, Installed, DriverHandle), s) \<leftarrow> CfixklsOpenDriver sys DriverPath DriverName DisplyName s;
       (if FAILED Hr then Some ((Hr, Installed, False, DriverHandle), s)
        else do {
          Name \<leftarrow> DriverHandle;
          (case ask (StartService sys Name) s of
             (None, s) \<Rightarrow> Some ((S_OK, Installed, True, DriverHandle), log_event (ScStarted Name) s)
           | (Some Err, s) \<Rightarrow>
               if Err = ERROR_SERVICE_ALREADY_RUNNING \<or> Err = ERROR_FILE_NOT_FOUND
               then Some ((S_OK, Installed, False, DriverHandle), s)
               else
                 let Hr = (if Err = ERROR_MORE_DATA then CFIX_E_FIXTURE_NAME_TOO_LONG
                           else HRESULT_FROM_WIN32 Err)
                 in Some ((Hr, Installed, False, None), CloseServiceHandle s))
        })
     }"

definition CfixklpStopDriverAndCloseHandle ::
    "'u sc_system \<Rightarrow> wstring \<Rightarrow> bool \<Rightarrow> 'u load_state \<Rightarrow> hresult \<times> 'u load_state" where
  "CfixklpStopDriverAndCloseHandle sys DriverHandle Uninstall s =
     (let (Hr, s) = (case ask (StopService sys DriverHandle) s of
                       (None, s) \<Rightarrow> (S_OK, log_event (ScStopped DriverHandle) s)
                     | (Some Error, s) \<Rightarrow>
                         (if Error = ERROR_SERVICE_NOT_ACTIVE then S_OK else HRESULT_FROM_WIN32 Error, s));
          (Hr, s) = (if SUCCEEDED Hr \<and> Uninstall
                     then case ask (DeleteService sys DriverHandle) s of
                       (None, s) \<Rightarrow> (Hr, log_event (ScDeleted DriverHandle) s)
                     | (Some Error, s) \<Rightarrow> (HRESULT_FROM_WIN32 Error, s)
                     else (Hr, s))
      in (Hr, CloseServiceHandle s))"

definition CfixklpStartCfixKernelReflector ::
    "'u sc_system \<Rightarrow> 'u load_state \<Rightarrow> (hresult \<times> 'u load_state) option" where
  "CfixklpStartCfixKernelReflector sys s =
     (case CfixklsFindReflectorImage sys MAX_PATH of
        Inl Hr \<Rightarrow> Some (Hr, s)
      | Inr CfixkrModulePath \<Rightarrow>
          do {
            ((Hr, _, _, DriverHandle), s) \<leftarrow>
              CfixklpStartDriver sys CfixkrModulePath (wide ''cfixkr'') (wide ''Cfix Kernel Reflector'') s;
            Some (if SUCCEEDED Hr
                  then (Hr, if DriverHandle = None then s else CloseServiceHandle s)
                  else if Hr = E_ACCESSDENIED then (CFIXKL_E_CFIXKR_START_DENIED, s)
                  else (Hr, s))
          })"

section \<open>Modules\<close>

definition CfixklsGetDriverNameFromPath :: "'u sc_system \<Rightarrow> wstring \<Rightarrow> nat \<Rightarrow> hresult + wstring" where
  "CfixklsGetDriverNameFromPath sys DriverPath NameSizeInChars =
     (if \<not> length DriverPath < MAX_PATH then Inl STRSAFE_E_INSUFFICIENT_BUFFER
      else copy_path NameSizeInChars
             (wide ''cfixkr_'' @ PathRemoveExtension sys (PathStripPath sys DriverPath)))"

text \<open>
  \<open>LoadedFixtures\<close> is the array of fixtures, if there is one; \<open>LoadedDriver\<close> is the handle of
  the service.
\<close>

record loaded_module =
  LoadedName :: wstring
  LoadedFixtures :: "fixture list option"
  LoadedBaseAddress :: ulong_ptr
  ReflectorOpen :: bool
  LoadedDriver :: "wstring option"
  DriverInstalled :: bool
  DriverLoaded :: bool
  LoadedReferences :: int

definition release :: "'u load_state \<Rightarrow> 'u load_state" where
  "release s = s\<lparr>Kl := (Kl s)\<lparr>KlHeap := free (KlHeap (Kl s))\<rparr>\<rparr>"

definition CfixklsDeleteModule ::
    "'u sc_system \<Rightarrow> loaded_module \<Rightarrow> 'u load_state \<Rightarrow> 'u load_state" where
  "CfixklsDeleteModule sys Module s =
     (let s = (case LoadedFixtures Module of
                 None \<Rightarrow> s
               | Some Fixtures \<Rightarrow>
                   release (s\<lparr>Kl := (Kl s)\<lparr>KlHeap := fold CfixklsDeleteFixture Fixtures (KlHeap (Kl s))\<rparr>\<rparr>));
          s = (if ReflectorOpen Module then s\<lparr>DevHandles := DevHandles s - 1\<rparr> else s);
          s = (case LoadedDriver Module of
                 None \<Rightarrow> s
               | Some Handle \<Rightarrow>
                   if DriverLoaded Module
                   then snd (CfixklpStopDriverAndCloseHandle sys Handle (DriverInstalled Module) s)
                   else CloseServiceHandle s)
      in release s)"

definition CfixklsReferenceModule :: "loaded_module \<Rightarrow> loaded_module" where
  "CfixklsReferenceModule Module = Module\<lparr>LoadedReferences := LoadedReferences Module + 1\<rparr>"

definition CfixklsDereferenceModule ::
    "'u sc_system \<Rightarrow> loaded_module \<Rightarrow> 'u load_state \<Rightarrow> loaded_module option \<times> 'u load_state" where
  "CfixklsDereferenceModule sys Module s =
     (let Module = Module\<lparr>LoadedReferences := LoadedReferences Module - 1\<rparr>
      in if LoadedReferences Module = 0 then (None, CfixklsDeleteModule sys Module s)
         else (Some Module, s))"

text \<open>Opening the reflector and reading the fixtures of the driver; the handle stays in the module.\<close>

definition contact_driver ::
    "'u sc_system \<Rightarrow> wstring \<Rightarrow> loaded_module \<Rightarrow> 'u load_state \<Rightarrow>
       ((hresult \<times> loaded_module) \<times> 'u load_state) option" where
  "contact_driver sys DriverPath Module s =
     (case ask (OpenReflector sys) s of
        (Open, s) \<Rightarrow>
          do {
            let Module = Module\<lparr>ReflectorOpen := Open = None\<rparr>;
            let s = (if Open = None then s\<lparr>DevHandles := DevHandles s + 1\<rparr> else s);
            (r, kl) \<leftarrow> CfixklsInitializeModule (ReflectorDevice sys) (DriverNames sys)
                         (PathStripPath sys) Open (LoadedName Module) DriverPath (Kl s);
            (let s = s\<lparr>Kl := kl\<rparr>
             in case r of
                  Inl Hr \<Rightarrow> Some ((Hr, Module), s)
                | Inr (Base, Fixtures) \<Rightarrow>
                    Some ((S_OK, Module\<lparr>LoadedBaseAddress := Base, LoadedFixtures := Some Fixtures\<rparr>), s))
          })"

definition new_module :: loaded_module where
  "new_module = \<lparr>LoadedName = [], LoadedFixtures = None, LoadedBaseAddress = 0, ReflectorOpen = False,
     LoadedDriver = None, DriverInstalled = False, DriverLoaded = False, LoadedReferences = 0\<rparr>"

definition load_module ::
    "'u sc_system \<Rightarrow> wstring \<Rightarrow> loaded_module \<Rightarrow> 'u load_state \<Rightarrow>
       ((hresult \<times> loaded_module) \<times> 'u load_state) option" where
  "load_module sys DriverPath Module s =
     (case CfixklsGetDriverNameFromPath sys DriverPath 100 of
        Inl Hr \<Rightarrow> Some ((Hr, Module), s)
      | Inr Name \<Rightarrow>
          do {
            let Module = Module\<lparr>LoadedName := Name\<rparr>;
            (Hr, s) \<leftarrow> CfixklpStartCfixKernelReflector sys s;
            (if Hr \<noteq> HRESULT_FROM_WIN32 ERROR_SERVICE_ALREADY_RUNNING \<and> FAILED Hr
             then Some ((Hr, Module), s)
             else do {
               ((Hr, Installed, Loaded, Handle), s) \<leftarrow> CfixklpStartDriver sys DriverPath Name Name s;
               let Module = Module\<lparr>DriverInstalled := Installed, DriverLoaded := Loaded,
                                   LoadedDriver := Handle\<rparr>;
               (if FAILED Hr then Some ((Hr, Module), s) else contact_driver sys DriverPath Module s)
             })
          })"

text \<open>The base name of the module begins behind the prefix of the service.\<close>

definition CfixklCreateTestModuleFromDriver ::
    "'u sc_system \<Rightarrow> wstring option \<Rightarrow> bool \<Rightarrow> 'u load_state \<Rightarrow>
       ((hresult + loaded_module) \<times> 'u load_state) option" where
  "CfixklCreateTestModuleFromDriver sys DriverPath Out s =
     (case DriverPath of
        None \<Rightarrow> Some (Inl E_INVALIDARG, s)
      | Some Path \<Rightarrow>
          if \<not> Out then Some (Inl E_INVALIDARG, s)
          else case malloc 1 (KlHeap (Kl s)) of
            (False, h) \<Rightarrow> Some (Inl E_OUTOFMEMORY, s\<lparr>Kl := (Kl s)\<lparr>KlHeap := h\<rparr>\<rparr>)
          | (True, h) \<Rightarrow>
              do {
                ((Hr, Module), s) \<leftarrow> load_module sys Path new_module (s\<lparr>Kl := (Kl s)\<lparr>KlHeap := h\<rparr>\<rparr>);
                (if FAILED Hr then Some (Inl Hr, CfixklsDeleteModule sys Module s)
                 else Some (Inr (Module\<lparr>LoadedReferences := 1\<rparr>), s))
              })"

definition module_base_name :: "loaded_module \<Rightarrow> wstring" where
  "module_base_name Module = drop 7 (LoadedName Module)"

end
