(* ===== verification/KlLoadInv.thy ===== *)
theory KlLoadInv
  imports KlLoad KernelPath
begin

text \<open>
  What loading a driver leaves behind: the handles, the services and drivers, and the blocks that
  the creation of a module and its deletion account for.
\<close>

section \<open>Handles and requests\<close>

lemma ask_cases:
  assumes "ask f s = (e, s')"
  shows "ScHandles s' = ScHandles s" "DevHandles s' = DevHandles s" "ScLog s' = ScLog s"
    "KlHeap (Kl s') = KlHeap (Kl s)"
  using assms by (auto simp: ask_def split: prod.splits)

text \<open>\<open>moved\<close>: what a step adds to handles and log; nothing else that is counted changes.\<close>

definition moved :: "'u load_state \<Rightarrow> int \<Rightarrow> sc_event list \<Rightarrow> 'u load_state \<Rightarrow> bool" where
  "moved s n L s' \<longleftrightarrow> ScHandles s' = ScHandles s + n \<and> ScLog s' = ScLog s @ L
     \<and> DevHandles s' = DevHandles s \<and> KlHeap (Kl s') = KlHeap (Kl s)"

lemma moved_refl: "moved s 0 [] s"
  by (simp add: moved_def)

lemma moved_ask: "ask f s = (e, s') \<Longrightarrow> moved s 0 [] s'"
  by (simp add: moved_def ask_cases)

lemma moved_trans:
  "moved s n L s' \<Longrightarrow> moved s' m M s'' \<Longrightarrow> n + m = k \<Longrightarrow> L @ M = K \<Longrightarrow> moved s k K s''"
  by (auto simp: moved_def)

lemma moved_steps:
  "moved s 1 [] (new_handle s)" "moved s (- 1) [] (CloseServiceHandle s)"
  "moved s 0 [e] (log_event e s)"
  by (simp_all add: moved_def new_handle_def CloseServiceHandle_def log_event_def)

definition created :: "bool \<Rightarrow> wstring \<Rightarrow> sc_event list" where
  "created Installed Name = (if Installed then [ScCreated Name] else [])"

definition one_if :: "'a option \<Rightarrow> int" where
  "one_if h = (if h = None then 0 else 1)"

lemma open_service_moves:
  assumes "open_service sys Full Name Disp s = ((Hr, Installed, h), s')"
  shows "moved s (one_if h) (created Installed Name) s' \<and> (h = None \<or> h = Some Name)
    \<and> (if h = None then \<not> Installed else Hr = S_OK)"
proof (cases "ask (CreateService sys Name Disp Full) s")
  case (Pair e t)
  note m = moved_ask [OF Pair]
  show ?thesis
  proof (cases e)
    case None
    with assms Pair have "s' = log_event (ScCreated Name) (new_handle t)" "h = Some Name" "Installed" "Hr = S_OK"
      by (auto simp: open_service_def)
    with m show ?thesis
      by (auto simp: moved_def new_handle_def log_event_def created_def one_if_def)
  next
    case (Some err)
    obtain e' t' where p: "ask (OpenService sys Name) t = (e', t')" by fastforce
    note m' = moved_ask [OF p]
    from assms Pair Some p m m' show ?thesis
      by (cases e') (auto simp: open_service_def moved_def new_handle_def created_def one_if_def
          split: if_splits)
  qed
qed

lemma open_driver_moves:
  assumes "CfixklsOpenDriver sys Path Name Disp s = Some ((Hr, Installed, h), s')"
  shows "moved s (one_if h) (created Installed Name) s' \<and> (h = None \<or> h = Some Name)
    \<and> (if h = None then \<not> Installed else Hr = S_OK)"
proof (cases "FullPathName sys Path")
  case (Inl e)
  with assms show ?thesis
    by (auto simp: CfixklsOpenDriver_def moved_refl one_if_def created_def)
next
  case (Inr Full)
  obtain e t where p: "ask (OpenScm sys) s = (e, t)" by fastforce
  note m = moved_ask [OF p]
  show ?thesis
  proof (cases "FileExists sys Full \<and> e = None")
    case False
    with assms Inr p m show ?thesis
      by (auto simp: CfixklsOpenDriver_def moved_refl one_if_def created_def split: if_splits option.splits)
  next
    case True
    obtain r u where o: "open_service sys Full Name Disp (new_handle t) = (r, u)" by fastforce
    from True assms Inr p o have "r = (Hr, Installed, h)" "s' = CloseServiceHandle u"
      by (auto simp: CfixklsOpenDriver_def split: if_splits)
    with open_service_moves [of sys Full Name Disp "new_handle t"] o m show ?thesis
      by (auto simp: moved_def new_handle_def CloseServiceHandle_def)
  qed
qed

definition start_log :: "bool \<Rightarrow> bool \<Rightarrow> wstring \<Rightarrow> sc_event list" where
  "start_log Installed Loaded Name =
     created Installed Name @ (if Loaded then [ScStarted Name] else [])"

lemma start_driver_moves:
  assumes "CfixklpStartDriver sys Path Name Disp s = Some ((Hr, Installed, Loaded, h), s')"
  shows "moved s (one_if h) (start_log Installed Loaded Name) s' \<and> (h = None \<or> h = Some Name)
    \<and> (if h = None then \<not> Loaded else Hr = S_OK)"
proof (cases "CfixklsOpenDriver sys Path Name Disp s")
  case None
  with assms show ?thesis by (simp add: CfixklpStartDriver_def)
next
  case (Some r)
  obtain Hr1 i h1 t where r: "r = ((Hr1, i, h1), t)" by (cases r) auto
  note m = open_driver_moves [OF Some [unfolded r]]
  show ?thesis
  proof (cases h1)
    case None
    with assms Some r m show ?thesis
      by (auto simp: CfixklpStartDriver_def start_log_def created_def one_if_def split: if_splits)
  next
    case (Some n)
    with m have h1: "h1 = Some Name" "Hr1 = S_OK" by auto
    obtain e u where p: "ask (StartService sys Name) t = (e, u)" by fastforce
    from assms \<open>CfixklsOpenDriver _ _ _ _ _ = _\<close> h1 p r m moved_ask [OF p] show ?thesis
      by (cases e) (auto simp: CfixklpStartDriver_def moved_def log_event_def CloseServiceHandle_def
          start_log_def one_if_def Let_def split: if_splits)
  qed
qed

lemma start_reflector_moves:
  assumes "CfixklpStartCfixKernelReflector sys s = Some (Hr, s')"
  shows "\<exists>i l. moved s 0 (start_log i l (wide ''cfixkr'')) s'"
proof (cases "CfixklsFindReflectorImage sys MAX_PATH")
  case (Inl e)
  with assms have "s' = s" by (simp add: CfixklpStartCfixKernelReflector_def)
  then have "moved s 0 (start_log False False (wide ''cfixkr'')) s'"
    by (simp add: start_log_def created_def moved_refl)
  then show ?thesis by blast
next
  case (Inr p)
  show ?thesis
  proof (cases "CfixklpStartDriver sys p (wide ''cfixkr'') (wide ''Cfix Kernel Reflector'') s")
    case None
    with assms Inr show ?thesis by (simp add: CfixklpStartCfixKernelReflector_def)
  next
    case (Some r)
    obtain Hr1 i l h t where r: "r = ((Hr1, i, l, h), t)" by (cases r) auto
    note m = start_driver_moves [OF Some [unfolded r]]
    have "s' = (if h = None then t else CloseServiceHandle t)"
      using assms Inr Some r m by (auto simp: CfixklpStartCfixKernelReflector_def split: if_splits)
    with m have "moved s 0 (start_log i l (wide ''cfixkr'')) s'"
      by (auto simp: moved_def one_if_def CloseServiceHandle_def)
    then show ?thesis by blast
  qed
qed

section \<open>Blocks\<close>

lemma find_base_address_blocks:
  assumes "CfixklsFindBaseAddressDriver dev names strip path s = Some (r, s')"
  shows "Live (KlHeap s') = Live (KlHeap s)"
proof (cases "GetTestModules dev sizeof_get_modules s")
  case (fields e m b)
  obtain ok h where mal: "malloc (unat (8 + 8 * ModuleCount m)) (KlHeap s) = (ok, h)" by fastforce
  with assms fields show ?thesis
    by (cases e; cases ok)
      (auto simp: CfixklsFindBaseAddressDriver_def Let_def malloc_def free_def split: if_splits)
qed

lemma query_module_blocks:
  assumes "CfixklpQueryModule dev names strip path s = Some (r, s')"
  shows "Live (KlHeap s') = Live (KlHeap s) + 1 \<or> Live (KlHeap s') = Live (KlHeap s) \<and> (\<exists>Hr. r = Inl Hr)"
proof (cases "CfixklsFindBaseAddressDriver dev names strip path s")
  case None
  with assms show ?thesis by (simp add: CfixklpQueryModule_def)
next
  case (Some p)
  obtain f t where p: "p = (f, t)" by (cases p)
  note same = find_base_address_blocks [OF Some [unfolded p]]
  show ?thesis
  proof (cases f)
    case (Inl Hr)
    with assms Some p same show ?thesis by (auto simp: CfixklpQueryModule_def)
  next
    case (Inr Base)
    show ?thesis
    proof (cases "CfixklsQuerySizeForQueryModuleRequest dev Base t")
      case None
      with assms Some p Inr show ?thesis by (simp add: CfixklpQueryModule_def)
    next
      case q: (Some q)
      show ?thesis
      proof (cases q)
        case (Inl Hr)
        with assms Some p \<open>f = Inr Base\<close> q same show ?thesis by (auto simp: CfixklpQueryModule_def)
      next
        case (Inr n)
        obtain ok h where mal: "malloc (unat n) (KlHeap t) = (ok, h)" by fastforce
        show ?thesis
        proof (cases ok)
          case False
          with assms Some p \<open>f = Inr Base\<close> q Inr same mal show ?thesis
            by (auto simp: CfixklpQueryModule_def malloc_def split: if_splits)
        next
          case True
          then have h: "Live h = Live (KlHeap s) + 1"
            using mal same by (auto simp: malloc_def split: if_splits)
          from True assms Some p \<open>f = Inr Base\<close> q Inr mal have "s' = t\<lparr>KlHeap := h\<rparr>"
            by (auto simp: CfixklpQueryModule_def bind_Some_iff Let_def
                split: option.splits query_response.splits)
          with h show ?thesis by simp
        qed
      qed
    qed
  qed
qed

lemma create_fixture_blocks:
  assumes "CfixklsCreateFixture Module m io h = (r, h')"
  shows "Live h' = Live h + (case r of Inl _ \<Rightarrow> 0 | Inr _ \<Rightarrow> 1)"
proof -
  obtain ok g where "malloc (kl_fixture_size (IoEntries io)) h = (ok, g)" by fastforce
  with assms show ?thesis
    by (cases ok) (auto simp: CfixklsCreateFixture_def malloc_def free_def split: if_splits sum.splits)
qed

lemma create_fixtures_blocks:
  assumes "create_fixtures Module m offs fxs h = Some (r, h')"
  shows "Live h' - int (case r of Inl (_, d) \<Rightarrow> length d | Inr d \<Rightarrow> length d) = Live h - int (length fxs)"
  using assms
proof (induction offs arbitrary: fxs h)
  case (Cons off offs)
  then obtain io where io: "IoFixtures m off = Some io" by (auto simp: bind_Some_iff)
  obtain q g where q: "CfixklsCreateFixture Module m io h = (q, g)" by fastforce
  show ?case
  proof (cases q)
    case (Inl Hr)
    with Cons.prems io q create_fixture_blocks [OF q] show ?thesis by auto
  next
    case (Inr fx)
    with Cons.prems io q have "create_fixtures Module m offs (fxs @ [fx]) g = Some (r, h')" by simp
    from Cons.IH [OF this] create_fixture_blocks [OF q] Inr show ?thesis by simp
  qed
qed auto

lemma initialize_module_blocks:
  assumes "CfixklsInitializeModule dev names strip Open Module path s = Some (r, s')"
  shows "case r of
      Inl _ \<Rightarrow> Live (KlHeap s') = Live (KlHeap s) \<or> Live (KlHeap s') = Live (KlHeap s) + 1
    | Inr (_, fxs) \<Rightarrow> Live (KlHeap s') = Live (KlHeap s) + 1 + int (length fxs)"
proof (cases Open)
  case (Some e)
  with assms show ?thesis by (auto simp: CfixklsInitializeModule_def)
next
  case open_ok: None
  show ?thesis
  proof (cases "CfixklpQueryModule dev names strip path s")
    case None
    with assms open_ok show ?thesis by (simp add: CfixklsInitializeModule_def)
  next
    case (Some p)
    obtain q t where p: "p = (q, t)" by (cases p)
    note blocks = query_module_blocks [OF Some [unfolded p]]
    show ?thesis
    proof (cases q)
      case (Inl Hr)
      with assms open_ok Some p blocks show ?thesis by (auto simp: CfixklsInitializeModule_def)
    next
      case (Inr bm)
      obtain Base m where bm: "bm = (Base, m)" by (cases bm)
      obtain ok h where mal: "malloc (length (FixtureOffsets m)) (KlHeap t) = (ok, h)" by fastforce
      show ?thesis
      proof (cases ok)
        case False
        with assms open_ok Some p Inr bm mal blocks show ?thesis
          by (auto simp: CfixklsInitializeModule_def malloc_def free_def split: if_splits)
      next
        case True
        then have h: "Live h = Live (KlHeap t) + 1" using mal by (auto simp: malloc_def split: if_splits)
        show ?thesis
        proof (cases "create_fixtures Module m (FixtureOffsets m) [] h")
          case None
          with assms open_ok Some p Inr bm mal True show ?thesis by (simp add: CfixklsInitializeModule_def)
        next
          case c: (Some frg)
          obtain fr g where frg: "frg = (fr, g)" by (cases frg)
          from assms open_ok Some p Inr bm mal True c frg create_fixtures_blocks [OF c [unfolded frg]] h blocks
          show ?thesis
            by (cases fr) (auto simp: CfixklsInitializeModule_def free_def fold_free [unfolded free_def])
        qed
      qed
    qed
  qed
qed

section \<open>Modules\<close>

definition module_blocks :: "loaded_module \<Rightarrow> int" where
  "module_blocks m = (case LoadedFixtures m of None \<Rightarrow> 0 | Some fxs \<Rightarrow> 1 + int (length fxs))"

text \<open>The service control manager stops and deletes what it is asked to.\<close>

definition obedient :: "'u sc_system \<Rightarrow> bool" where
  "obedient sys \<longleftrightarrow> (\<forall>n u. fst (StopService sys n u) = None \<and> fst (DeleteService sys n u) = None)"

definition stop_log :: "loaded_module \<Rightarrow> sc_event list" where
  "stop_log m = (case LoadedDriver m of
       None \<Rightarrow> []
     | Some n \<Rightarrow> if DriverLoaded m
         then ScStopped n # (if DriverInstalled m then [ScDeleted n] else []) else [])"

lemma stop_driver_moves:
  assumes "obedient sys"
  shows "moved s (- 1) (ScStopped n # (if Uninstall then [ScDeleted n] else []))
           (snd (CfixklpStopDriverAndCloseHandle sys n Uninstall s))"
proof -
  obtain e t where p: "ask (StopService sys n) s = (e, t)" by fastforce
  obtain e' t' where q: "ask (DeleteService sys n) (log_event (ScStopped n) t) = (e', t')" by fastforce
  have e: "e = None" "e' = None" using p q assms
    by (auto simp: ask_def obedient_def split: prod.splits) (metis fst_conv)+
  from p q moved_ask [OF p] moved_ask [OF q] show ?thesis unfolding e
    by (auto simp: CfixklpStopDriverAndCloseHandle_def moved_def log_event_def CloseServiceHandle_def)
qed

lemma delete_module_effect:
  fixes s :: "'u load_state" and m :: loaded_module
  assumes "obedient sys"
  defines "s' \<equiv> CfixklsDeleteModule sys m s"
  shows "Live (KlHeap (Kl s')) = Live (KlHeap (Kl s)) - 1 - module_blocks m"
    and "DevHandles s' = DevHandles s - (if ReflectorOpen m then 1 else 0)"
    and "ScHandles s' = ScHandles s - one_if (LoadedDriver m)"
    and "ScLog s' = ScLog s @ stop_log m"
proof -
  note stop = stop_driver_moves [OF assms(1), unfolded moved_def]
  show "Live (KlHeap (Kl s')) = Live (KlHeap (Kl s)) - 1 - module_blocks m"
    by (simp add: s'_def CfixklsDeleteModule_def Let_def release_def module_blocks_def free_def
        CloseServiceHandle_def stop fold_free [unfolded free_def] split: option.split)
  show "DevHandles s' = DevHandles s - (if ReflectorOpen m then 1 else 0)"
    by (simp add: s'_def CfixklsDeleteModule_def Let_def release_def CloseServiceHandle_def stop
        split: option.split)
  show "ScHandles s' = ScHandles s - one_if (LoadedDriver m)"
    by (simp add: s'_def CfixklsDeleteModule_def Let_def release_def CloseServiceHandle_def stop
        one_if_def split: option.split)
  show "ScLog s' = ScLog s @ stop_log m"
    by (simp add: s'_def CfixklsDeleteModule_def Let_def release_def CloseServiceHandle_def stop
        stop_log_def split: option.split)
qed

text \<open>What a module under construction accounts for, against the state before.\<close>

definition accounts ::
    "'u load_state \<Rightarrow> wstring \<Rightarrow> loaded_module \<Rightarrow> 'u load_state \<Rightarrow> bool" where
  "accounts s Name m s' \<longleftrightarrow>
     ScHandles s' = ScHandles s + one_if (LoadedDriver m) \<and>
     DevHandles s' = DevHandles s + (if ReflectorOpen m then 1 else 0) \<and>
     (LoadedDriver m = None \<or> LoadedDriver m = Some Name) \<and>
     (LoadedDriver m = None \<longrightarrow> \<not> DriverLoaded m) \<and>
     (\<exists>i l. ScLog s' = ScLog s @ start_log i l (wide ''cfixkr'')
              @ start_log (DriverInstalled m) (DriverLoaded m) Name) \<and>
     (\<exists>lost \<in> {0, 1}. Live (KlHeap (Kl s')) = Live (KlHeap (Kl s)) + module_blocks m + lost
        \<and> (lost = 1 \<longrightarrow> LoadedFixtures m = None))"

lemma contact_driver_accounts:
  assumes "contact_driver sys Path m s = Some ((Hr, m'), s')" and "accounts s0 Name m s"
    and "LoadedFixtures m = None" and "\<not> ReflectorOpen m"
    and "Live (KlHeap (Kl s)) = Live (KlHeap (Kl s0))"
  shows "accounts s0 Name m' s' \<and> (LoadedFixtures m' = None \<or> Hr = S_OK)"
proof -
  obtain e t where p: "ask (OpenReflector sys) s = (e, t)" by fastforce
  let ?t = "if e = None then t\<lparr>DevHandles := DevHandles t + 1\<rparr> else t"
  show ?thesis
  proof (cases "CfixklsInitializeModule (ReflectorDevice sys) (DriverNames sys) (PathStripPath sys) e
      (LoadedName m) Path (Kl ?t)")
    case None
    with assms(1) p show ?thesis by (simp add: contact_driver_def Let_def)
  next
    case (Some q)
    obtain r kl where q: "q = (r, kl)" by (cases q)
    note blocks = initialize_module_blocks [OF Some [unfolded q]]
    have kl: "KlHeap (Kl ?t) = KlHeap (Kl s)" using ask_cases [OF p] by simp
    show ?thesis
    proof (cases r)
      case (Inl err)
      with assms p Some q have eq: "m' = m\<lparr>ReflectorOpen := e = None\<rparr>" "s' = ?t\<lparr>Kl := kl\<rparr>"
        by (auto simp: contact_driver_def Let_def split: if_splits)
      show ?thesis using assms(2-) Inl blocks ask_cases [OF p] unfolding kl eq
        by (auto simp: accounts_def module_blocks_def)
    next
      case (Inr bf)
      obtain Base fxs where bf: "bf = (Base, fxs)" by (cases bf)
      with Inr assms p Some q have eq: "Hr = S_OK" "s' = ?t\<lparr>Kl := kl\<rparr>"
        "m' = m\<lparr>ReflectorOpen := e = None, LoadedBaseAddress := Base, LoadedFixtures := Some fxs\<rparr>"
        by (auto simp: contact_driver_def Let_def split: if_splits)
      show ?thesis using assms(2-) Inr bf blocks ask_cases [OF p] unfolding kl eq
        by (auto simp: accounts_def module_blocks_def)
    qed
  qed
qed

lemma load_module_accounts:
  assumes "load_module sys Path new_module s = Some ((Hr, m), s')"
    and "CfixklsGetDriverNameFromPath sys Path 100 = Inr Name"
  shows "accounts s Name m s' \<and> (LoadedFixtures m = None \<or> Hr = S_OK)"
proof (cases "CfixklpStartCfixKernelReflector sys s")
  case None
  with assms show ?thesis by (simp add: load_module_def)
next
  case (Some p)
  obtain Hr1 t where p: "p = (Hr1, t)" by (cases p)
  let ?m = "new_module\<lparr>LoadedName := Name\<rparr>"
  from start_reflector_moves [OF Some [unfolded p]] obtain i l where
    refl: "moved s 0 (start_log i l (wide ''cfixkr'')) t" by blast
  show ?thesis
  proof (cases "Hr1 \<noteq> HRESULT_FROM_WIN32 ERROR_SERVICE_ALREADY_RUNNING \<and> FAILED Hr1")
    case True
    with assms Some p have "m = ?m" "s' = t" by (auto simp: load_module_def Let_def)
    with refl show ?thesis
      by (auto simp: accounts_def moved_def new_module_def one_if_def module_blocks_def start_log_def
          created_def)
  next
    case go: False
    show ?thesis
    proof (cases "CfixklpStartDriver sys Path Name Name t")
      case None
      with assms Some p go show ?thesis by (auto simp: load_module_def Let_def)
    next
      case (Some d)
      obtain Hr2 inst loaded h u where d: "d = ((Hr2, inst, loaded, h), u)" by (cases d) auto
      let ?m2 = "?m\<lparr>DriverInstalled := inst, DriverLoaded := loaded, LoadedDriver := h\<rparr>"
      note drv = start_driver_moves [OF Some [unfolded d]]
      have acc: "accounts s Name ?m2 u" "Live (KlHeap (Kl u)) = Live (KlHeap (Kl s))"
        using refl drv by (auto simp: accounts_def moved_def new_module_def module_blocks_def split: if_splits)
      have rest: "(if FAILED Hr2 then Some ((Hr2, ?m2), u) else contact_driver sys Path ?m2 u) =
          Some ((Hr, m), s')"
        using assms go Some \<open>CfixklpStartCfixKernelReflector sys s = _\<close> p d
        by (auto simp: load_module_def Let_def)
      show ?thesis
      proof (cases "FAILED Hr2")
        case True
        with rest acc show ?thesis by (auto simp: new_module_def)
      next
        case False
        with rest contact_driver_accounts [of sys Path ?m2 u Hr m s' s Name] acc show ?thesis
          by (auto simp: new_module_def)
      qed
    qed
  qed
qed

lemma driver_name_prefix:
  assumes "CfixklsGetDriverNameFromPath sys Path n = Inr Name"
  shows "\<exists>base. Name = wide ''cfixkr_'' @ base" and "Name \<noteq> wide ''cfixkr''"
  using assms by (auto simp: CfixklsGetDriverNameFromPath_def copy_path_def split: if_splits)

fun sc_name :: "sc_event \<Rightarrow> wstring" where
  "sc_name (ScCreated n) = n"
| "sc_name (ScStarted n) = n"
| "sc_name (ScStopped n) = n"
| "sc_name (ScDeleted n) = n"

definition of_service :: "wstring \<Rightarrow> sc_event list \<Rightarrow> sc_event list" where
  "of_service n L = filter (\<lambda>e. sc_name e = n) L"

lemma of_service_simps [simp]:
  "of_service n [] = []"
  "of_service n (e # L) = (if sc_name e = n then e # of_service n L else of_service n L)"
  "of_service n (L @ M) = of_service n L @ of_service n M"
  by (simp_all add: of_service_def)

text \<open>All that a creation and, if it succeeded, the release of the module did to the services.\<close>

definition service_histories :: "wstring \<Rightarrow> sc_event list set" where
  "service_histories n = {[], [ScCreated n], [ScStarted n, ScStopped n],
     [ScCreated n, ScStarted n, ScStopped n, ScDeleted n]}"

text \<open>The reflector stays.\<close>

definition reflector_histories :: "wstring \<Rightarrow> sc_event list set" where
  "reflector_histories n = {[], [ScCreated n], [ScStarted n], [ScCreated n, ScStarted n]}"

lemma histories_are_closed:
  fixes i l :: bool
  assumes "Name \<noteq> k" and "LoadedDriver m = None \<or> LoadedDriver m = Some Name"
    and "LoadedDriver m = None \<longrightarrow> \<not> DriverLoaded m"
  defines "L \<equiv> start_log i l k @ start_log (DriverInstalled m) (DriverLoaded m) Name @ stop_log m"
  shows "of_service Name L \<in> service_histories Name"
    and "of_service k L \<in> reflector_histories k"
    and "n \<noteq> Name \<Longrightarrow> n \<noteq> k \<Longrightarrow> of_service n L = []"
proof -
  note defs = L_def start_log_def created_def stop_log_def service_histories_def reflector_histories_def
  show "of_service Name L \<in> service_histories Name"
    using assms(1-3) by (cases "LoadedDriver m"; cases "DriverLoaded m"; cases "DriverInstalled m")
      (simp_all add: defs)
  show "of_service k L \<in> reflector_histories k"
    using assms(1-3) by (cases "LoadedDriver m"; cases "DriverLoaded m"; cases i; cases l)
      (simp_all add: defs)
  show "n \<noteq> Name \<Longrightarrow> n \<noteq> k \<Longrightarrow> of_service n L = []"
    using assms(1-3) by (cases "LoadedDriver m"; cases "DriverLoaded m") (simp_all add: defs)
qed

lemma account_is_settled:
  assumes "accounts s Name m t" and "obedient sys" and "Name \<noteq> wide ''cfixkr''"
  defines "s' \<equiv> CfixklsDeleteModule sys m t"
  shows "ScHandles s' = ScHandles s" and "DevHandles s' = DevHandles s"
    and "\<exists>L. ScLog s' = ScLog s @ L \<and> of_service Name L \<in> service_histories Name
           \<and> of_service (wide ''cfixkr'') L \<in> reflector_histories (wide ''cfixkr'')
           \<and> (\<forall>n. n \<noteq> Name \<longrightarrow> n \<noteq> wide ''cfixkr'' \<longrightarrow> of_service n L = [])"
    and "\<exists>lost \<in> {0, 1}. Live (KlHeap (Kl s')) = Live (KlHeap (Kl s)) - 1 + lost
           \<and> (lost = 1 \<longrightarrow> LoadedFixtures m = None)"
proof -
  note e = delete_module_effect [OF assms(2), of m t, folded s'_def]
  show "ScHandles s' = ScHandles s" "DevHandles s' = DevHandles s"
    using e assms(1) by (auto simp: accounts_def)
  show "\<exists>lost \<in> {0, 1}. Live (KlHeap (Kl s')) = Live (KlHeap (Kl s)) - 1 + lost
      \<and> (lost = 1 \<longrightarrow> LoadedFixtures m = None)"
    using e(1) assms(1) by (auto simp: accounts_def)
  from assms(1) obtain i l where log: "ScLog t = ScLog s @ start_log i l (wide ''cfixkr'')
      @ start_log (DriverInstalled m) (DriverLoaded m) Name" by (auto simp: accounts_def)
  have d: "LoadedDriver m = None \<or> LoadedDriver m = Some Name"
    "LoadedDriver m = None \<longrightarrow> \<not> DriverLoaded m" using assms(1) by (auto simp: accounts_def)
  define L where "L = start_log i l (wide ''cfixkr'')
      @ start_log (DriverInstalled m) (DriverLoaded m) Name @ stop_log m"
  note c = histories_are_closed [OF assms(3) d, where i = i and l = l, folded L_def]
  show "\<exists>L. ScLog s' = ScLog s @ L \<and> of_service Name L \<in> service_histories Name
      \<and> of_service (wide ''cfixkr'') L \<in> reflector_histories (wide ''cfixkr'')
      \<and> (\<forall>n. n \<noteq> Name \<longrightarrow> n \<noteq> wide ''cfixkr'' \<longrightarrow> of_service n L = [])"
  proof (intro exI [of _ L] conjI)
    show "ScLog s' = ScLog s @ L" using e(4) log by (simp add: L_def)
  qed (use c in blast)+
qed

text \<open>Creating a module and releasing it, if there is one.\<close>

definition load_and_release ::
    "'u sc_system \<Rightarrow> wstring \<Rightarrow> 'u load_state \<Rightarrow> ((hresult + loaded_module) \<times> 'u load_state) option" where
  "load_and_release sys Path s =
     map_option (\<lambda>(r, s). (r, case r of Inl _ \<Rightarrow> s | Inr m \<Rightarrow> snd (CfixklsDereferenceModule sys m s)))
       (CfixklCreateTestModuleFromDriver sys (Some Path) True s)"

lemma load_and_release_deletes:
  assumes "load_and_release sys Path s = Some (r, s')" and "malloc 1 (KlHeap (Kl s)) = (True, h)"
  shows "\<exists>Hr m t. load_module sys Path new_module (s\<lparr>Kl := (Kl s)\<lparr>KlHeap := h\<rparr>\<rparr>) = Some ((Hr, m), t)
     \<and> (if FAILED Hr then r = Inl Hr \<and> s' = CfixklsDeleteModule sys m t
        else r = Inr (m\<lparr>LoadedReferences := 1\<rparr>)
           \<and> s' = CfixklsDeleteModule sys (m\<lparr>LoadedReferences := 0\<rparr>) t)"
  using assms
  by (auto simp: load_and_release_def CfixklCreateTestModuleFromDriver_def CfixklsDereferenceModule_def
      bind_Some_iff Let_def split: if_splits)

lemma delete_ignores_references:
  "CfixklsDeleteModule sys (m\<lparr>LoadedReferences := n\<rparr>) t = CfixklsDeleteModule sys m t"
  by (simp add: CfixklsDeleteModule_def Let_def cong: if_cong option.case_cong)

text \<open>
  C7: loading a driver leaves nothing behind. Whatever step of the creation of a module fails, and
  when none does and the module is then released, every handle of a service or of the reflector
  is closed. A driver that was started is stopped, a service that was registered for it is
  deleted when the driver had been started; if it was not, because it was refused or ran already,
  the service stays registered. The reflector stays as well, and no other service is touched. No
  block stays allocated, but for the response of the reflector when reading the fixtures failed.
\<close>

theorem driver_load_gives_back:
  assumes "load_and_release sys Path s = Some (r, s')"
    and "CfixklsGetDriverNameFromPath sys Path 100 = Inr Name" and "obedient sys"
  shows "ScHandles s' = ScHandles s \<and> DevHandles s' = DevHandles s
    \<and> (\<exists>L. ScLog s' = ScLog s @ L \<and> of_service Name L \<in> service_histories Name
         \<and> of_service (wide ''cfixkr'') L \<in> reflector_histories (wide ''cfixkr'')
         \<and> (\<forall>n. n \<noteq> Name \<longrightarrow> n \<noteq> wide ''cfixkr'' \<longrightarrow> of_service n L = []))
    \<and> (Live (KlHeap (Kl s')) = Live (KlHeap (Kl s))
       \<or> Live (KlHeap (Kl s')) = Live (KlHeap (Kl s)) + 1 \<and> (\<forall>m. r = Inr m \<longrightarrow> LoadedFixtures m = None))"
proof (cases "malloc 1 (KlHeap (Kl s))")
  case (Pair ok h)
  show ?thesis
  proof (cases ok)
    case False
    with Pair assms(1) have "s' = s\<lparr>Kl := (Kl s)\<lparr>KlHeap := h\<rparr>\<rparr>" "Live h = Live (KlHeap (Kl s))"
      by (auto simp: load_and_release_def CfixklCreateTestModuleFromDriver_def malloc_def split: if_splits)
    then show ?thesis
      by (auto simp: of_service_def service_histories_def reflector_histories_def)
  next
    case True
    let ?s = "s\<lparr>Kl := (Kl s)\<lparr>KlHeap := h\<rparr>\<rparr>"
    from Pair True have live: "Live h = Live (KlHeap (Kl s)) + 1" by (auto simp: malloc_def split: if_splits)
    from load_and_release_deletes [OF assms(1)] Pair True obtain Hr m t where
      load: "load_module sys Path new_module ?s = Some ((Hr, m), t)"
      and s': "s' = CfixklsDeleteModule sys m t"
      and r: "\<forall>m'. r = Inr m' \<longrightarrow> LoadedFixtures m' = LoadedFixtures m"
      by (auto simp: delete_ignores_references split: if_splits)
    from load_module_accounts [OF load assms(2)] have acc: "accounts ?s Name m t" by blast
    note settled = account_is_settled [OF acc assms(3) driver_name_prefix(2) [OF assms(2)], folded s']
    have "ScHandles s' = ScHandles s" "DevHandles s' = DevHandles s" using settled(1,2) by simp_all
    moreover from settled(3) obtain L where "ScLog s' = ScLog s @ L"
      "of_service Name L \<in> service_histories Name"
      "of_service (wide ''cfixkr'') L \<in> reflector_histories (wide ''cfixkr'')"
      "\<forall>n. n \<noteq> Name \<longrightarrow> n \<noteq> wide ''cfixkr'' \<longrightarrow> of_service n L = []" by auto
    moreover from settled(4) r live have "Live (KlHeap (Kl s')) = Live (KlHeap (Kl s))
       \<or> Live (KlHeap (Kl s')) = Live (KlHeap (Kl s)) + 1 \<and> (\<forall>m. r = Inr m \<longrightarrow> LoadedFixtures m = None)"
      by auto
    ultimately show ?thesis by blast
  qed
qed

text \<open>
  A service that was just registered and cannot be started stays registered, with its handle
  closed and forgotten: the module that is then deleted does not know it.
\<close>

lemma refused_service_stays_registered:
  assumes "FullPathName sys Path = Inr Full" and "length Full < MAX_PATH" and "FileExists sys Full"
    and "OpenScm sys = Pair None" and "CreateService sys Name Disp Full = Pair None"
    and "StartService sys Name = Pair (Some err)"
    and "err \<noteq> ERROR_SERVICE_ALREADY_RUNNING" and "err \<noteq> ERROR_FILE_NOT_FOUND"
  shows "\<exists>Hr s'. CfixklpStartDriver sys Path Name Disp s = Some ((Hr, True, False, None), s')
     \<and> ScLog s' = ScLog s @ [ScCreated Name] \<and> ScHandles s' = ScHandles s"
  using assms by (simp add: CfixklpStartDriver_def CfixklsOpenDriver_def open_service_def ask_def
      new_handle_def CloseServiceHandle_def log_event_def Let_def)

section \<open>A driver that is loaded\<close>

definition demo_system :: "(thread_id \<times> cfix_event) list kworld sc_system" where
  "demo_system = \<lparr>FullPathName = Inr, FileExists = (\<lambda>_. True), OwnModulePath = Inr (wide ''cfixkl.dll''),
     RemoveFileSpec = (\<lambda>_. Some []), PathCombine = (\<lambda>_ f. Some f), PathStripPath = id,
     PathRemoveExtension = takeWhile (\<lambda>c. c \<noteq> 0x2E), NativeSystemInfo = Some 9, SystemInfo = 0,
     OpenScm = Pair None, CreateService = (\<lambda>_ _ _. Pair None), OpenService = (\<lambda>_. Pair None),
     StartService = (\<lambda>_. Pair None), StopService = (\<lambda>_. Pair None), DeleteService = (\<lambda>_. Pair None),
     OpenReflector = Pair None, ReflectorDevice = reflector_device demo_side, DriverNames = demo_names\<rparr>"

definition demo_load_state :: "(thread_id \<times> cfix_event) list kworld load_state" where
  "demo_load_state = \<lparr>Kl = demo_kl_state, ScHandles = 0, DevHandles = 0, ScLog = []\<rparr>"

lemma demo_driver_reads:
  assumes "KlHeap s = \<lparr>Live = 1, Requests = n, MallocOk = (\<lambda>_ _. True)\<rparr>" and "Refl (World s) = demo_refl"
  shows "\<exists>fxs kl. CfixklsInitializeModule (reflector_device demo_side) demo_names id None Module
           (wide ''t.sys'') s = Some (Inr (0xA000, fxs), kl)"
proof -
  have "\<exists>fxs. keyed_fixtures Module 0 demo_adapter = Inr fxs"
    by (simp add: demo_adapter_def keyed_fixture_def blank_fixture_def routine_tag_def walk_entry_def)
  then obtain fxs where fxs: "keyed_fixtures Module 0 demo_adapter = Inr fxs" by blast
  have ok: "adapter_ok demo_adapter"
    by (simp add: adapter_ok_def adapter_bytes_def counts_fit_def demo_adapter_def short_names_def
        struct_bytes_def all_names_def entry_names_def wide_def)
  have other: "\<not> wcsicmp_eq (wide ''t.sys'') (wide ''x.sys'')" by code_simp
  have "driver_known (Refl (World s)) 0xA000 2" "Adapters (Refl (World s)) 2 = demo_adapter"
    using assms(2) demo_driver_known by (simp_all add: demo_refl_def)
  from driver_module_read [where strip = id and names = demo_names and k = demo_side
      and path = "wide ''t.sys''" and n = "wide ''t.sys''" and Module = Module, OF this ok] fxs assms(1) other
  show ?thesis by (fastforce simp: demo_names_def demo_side_def always_ok_def wide_def)
qed

lemma demo_driver_loads:
  "\<exists>m s'. load_and_release demo_system (wide ''t.sys'') demo_load_state = Some (Inr m, s')
     \<and> module_base_name m = wide ''t''"
proof -
  let ?kl = "demo_kl_state\<lparr>KlHeap := \<lparr>Live = 1, Requests = 1, MallocOk = (\<lambda>_ _. True)\<rparr>\<rparr>"
  let ?name = "wide ''cfixkr_t''"
  have "Refl (World ?kl) = demo_refl" by (simp add: demo_kl_state_def)
  from demo_driver_reads [OF _ this, of 1 ?name] obtain fxs kl where r:
    "CfixklsInitializeModule (reflector_device demo_side) demo_names id None ?name (wide ''t.sys'') ?kl =
       Some (Inr (0xA000, fxs), kl)" by auto
  have mal: "malloc 1 (KlHeap (Kl demo_load_state)) = (True, KlHeap ?kl)"
    by (simp add: malloc_def demo_load_state_def demo_kl_state_def)
  have name: "CfixklsGetDriverNameFromPath demo_system (wide ''t.sys'') 100 = Inr ?name"
    by (simp add: CfixklsGetDriverNameFromPath_def copy_path_def demo_system_def)
  have start: "\<exists>t. CfixklpStartDriver demo_system p n d s = Some ((S_OK, True, True, Some n), t) \<and> Kl t = Kl s"
    if "length p < 260" for p n d s
    using that by (simp add: CfixklpStartDriver_def CfixklsOpenDriver_def open_service_def demo_system_def
        ask_def new_handle_def CloseServiceHandle_def log_event_def)
  have image: "CfixklsFindReflectorImage demo_system 260 = Inr (wide ''cfixkr64.sys'')"
    by (simp add: CfixklsFindReflectorImage_def CfixklGetNativeSystemInfo_def copy_path_def demo_system_def)
  let ?s = "demo_load_state\<lparr>Kl := ?kl\<rparr>"
  from start [of "wide ''cfixkr64.sys''" "wide ''cfixkr''" "wide ''Cfix Kernel Reflector''" ?s]
  obtain t where t: "CfixklpStartCfixKernelReflector demo_system ?s = Some (S_OK, t)" "Kl t = ?kl"
    by (auto simp: CfixklpStartCfixKernelReflector_def image CloseServiceHandle_def)
  from start [of "wide ''t.sys''" ?name ?name t] t(2) obtain u where
    u: "CfixklpStartDriver demo_system (wide ''t.sys'') ?name ?name t = Some ((S_OK, True, True, Some ?name), u)"
    "Kl u = ?kl" by auto
  have dev: "ReflectorDevice demo_system = reflector_device demo_side" "DriverNames demo_system = demo_names"
    "PathStripPath demo_system = id" "OpenReflector demo_system = Pair None"
    by (simp_all add: demo_system_def)
  have c: "\<exists>m' v. contact_driver demo_system (wide ''t.sys'') m u = Some ((S_OK, m'), v)
     \<and> LoadedName m' = ?name" if "LoadedName m = ?name" for m
    using r that u(2) by (simp add: contact_driver_def dev ask_def Let_def)
  let ?m = "new_module\<lparr>LoadedName := ?name, DriverInstalled := True, DriverLoaded := True,
      LoadedDriver := Some ?name\<rparr>"
  from c [of ?m] obtain m v where
    m: "contact_driver demo_system (wide ''t.sys'') ?m u = Some ((S_OK, m), v)" "LoadedName m = ?name" by auto
  have "Kl demo_load_state = demo_kl_state" by (simp add: demo_load_state_def)
  with mal have "CfixklCreateTestModuleFromDriver demo_system (Some (wide ''t.sys'')) True demo_load_state =
      Some (Inr (m\<lparr>LoadedReferences := 1\<rparr>), v)"
    using t(1) u(1) m(1)
    by (simp add: CfixklCreateTestModuleFromDriver_def load_module_def name Let_def del: wide_Cons)
  with m(2) show ?thesis by (simp add: load_and_release_def module_base_name_def)
qed

theorem driver_load_gives_back_witness:
  "\<exists>m s'. load_and_release demo_system (wide ''t.sys'') demo_load_state = Some (Inr m, s')
     \<and> ScHandles s' = 0 \<and> DevHandles s' = 0
     \<and> (\<exists>L. ScLog s' = L \<and> of_service (wide ''cfixkr_t'') L \<in> service_histories (wide ''cfixkr_t''))"
proof -
  from demo_driver_loads obtain m s' where
    l: "load_and_release demo_system (wide ''t.sys'') demo_load_state = Some (Inr m, s')" by blast
  have "obedient demo_system" by (simp add: obedient_def demo_system_def)
  moreover have "CfixklsGetDriverNameFromPath demo_system (wide ''t.sys'') 100 = Inr (wide ''cfixkr_t'')"
    by (simp add: CfixklsGetDriverNameFromPath_def copy_path_def demo_system_def)
  ultimately show ?thesis
    using driver_load_gives_back [OF l] l by (auto simp: demo_load_state_def simp del: wide_Cons)
qed

end
