(* ===== verification/PeQuery.thy ===== *)
theory PeQuery
  imports PeLoad
begin

text \<open>
  Looking into an image without loading it (\<open>cfix/cfix/pequery.c\<close>): architecture, subsystem, kind
  of module, and whether it exports fixtures.

  The view of the file is the list of its bytes, and a pointer into it an offset. Reading behind
  the end of the view is \<open>None\<close>. The headers are read field by field at the offsets that the PE
  format gives them. Addresses are computed in 32 bits.
\<close>

section \<open>Bytes\<close>

type_synonym view = "8 word list"

definition read_word :: "view \<Rightarrow> nat \<Rightarrow> 16 word option" where
  "read_word v off =
     do {
       a \<leftarrow> nth_opt v off;
       b \<leftarrow> nth_opt v (off + 1);
       Some (ucast a + 0x100 * ucast b)
     }"

definition read_dword :: "view \<Rightarrow> nat \<Rightarrow> dword option" where
  "read_dword v off =
     do {
       a \<leftarrow> read_word v off;
       b \<leftarrow> read_word v (off + 2);
       Some (ucast a + 0x10000 * ucast b)
     }"

definition read_cstr :: "view \<Rightarrow> nat \<Rightarrow> string option" where
  "read_cstr v off =
     (if 0 \<in> set (drop off v)
      then Some (map (\<lambda>b. char_of (unat b)) (takeWhile (\<lambda>b. b \<noteq> 0) (drop off v)))
      else None)"

section \<open>Headers\<close>

abbreviation IMAGE_DOS_SIGNATURE :: "16 word" where "IMAGE_DOS_SIGNATURE \<equiv> 0x5A4D"
abbreviation IMAGE_NT_SIGNATURE :: dword where "IMAGE_NT_SIGNATURE \<equiv> 0x4550"
abbreviation IMAGE_NT_OPTIONAL_HDR32_MAGIC :: "16 word" where "IMAGE_NT_OPTIONAL_HDR32_MAGIC \<equiv> 0x10B"
abbreviation IMAGE_NT_OPTIONAL_HDR64_MAGIC :: "16 word" where "IMAGE_NT_OPTIONAL_HDR64_MAGIC \<equiv> 0x20B"
abbreviation IMAGE_FILE_DLL :: "16 word" where "IMAGE_FILE_DLL \<equiv> 0x2000"
abbreviation IMAGE_SUBSYSTEM_NATIVE :: "16 word" where "IMAGE_SUBSYSTEM_NATIVE \<equiv> 1"
abbreviation ERROR_BAD_EXE_FORMAT :: dword where "ERROR_BAD_EXE_FORMAT \<equiv> 193"

datatype image_type = CfixModuleDll | CfixModuleExe | CfixModuleDriver

record module_info =
  MachineType :: "16 word"
  Subsystem :: "16 word"
  FixtureExportsPresent :: bool
  ModuleType :: image_type

text \<open>
  Offsets within the headers: of the section table behind the optional header, and in the entries
  of 40 bytes that the table has.
\<close>

definition IMAGE_FIRST_SECTION :: "view \<Rightarrow> nat \<Rightarrow> nat option" where
  "IMAGE_FIRST_SECTION v NtHeader =
     map_option (\<lambda>SizeOfOptionalHeader. NtHeader + 24 + unat SizeOfOptionalHeader)
       (read_word v (NtHeader + 20))"

fun find_section :: "view \<Rightarrow> dword \<Rightarrow> nat \<Rightarrow> nat \<Rightarrow> dword option option" where
  "find_section v Va SectionHeader 0 = Some None"
| "find_section v Va SectionHeader (Suc n) =
     do {
       VirtualAddress \<leftarrow> read_dword v (SectionHeader + 12);
       VirtualSize \<leftarrow> read_dword v (SectionHeader + 8);
       (if VirtualAddress \<le> Va \<and> Va < VirtualAddress + VirtualSize
        then do {
          PointerToRawData \<leftarrow> read_dword v (SectionHeader + 20);
          Some (Some (PointerToRawData + (Va - VirtualAddress)))
        }
        else find_section v Va (SectionHeader + 40) n)
     }"

definition CfixPtrFromVaNonRelocated :: "view \<Rightarrow> nat \<Rightarrow> dword \<Rightarrow> dword option option" where
  "CfixPtrFromVaNonRelocated v NtHeader Va =
     do {
       SectionHeader \<leftarrow> IMAGE_FIRST_SECTION v NtHeader;
       SectionCount \<leftarrow> read_word v (NtHeader + 6);
       find_section v Va SectionHeader (unat SectionCount)
     }"

text \<open>Subsystem, bitness and the offset of the data directory of the exports.\<close>

definition CfixsQueryOptionalHeader :: "view \<Rightarrow> nat \<Rightarrow> (16 word \<times> bool \<times> nat) option option" where
  "CfixsQueryOptionalHeader v NtHeader =
     do {
       Magic \<leftarrow> read_word v (NtHeader + 24);
       (if Magic = IMAGE_NT_OPTIONAL_HDR32_MAGIC
        then map_option (\<lambda>Sub. Some (Sub, False, NtHeader + 24 + 96)) (read_word v (NtHeader + 24 + 68))
        else if Magic = IMAGE_NT_OPTIONAL_HDR64_MAGIC
        then map_option (\<lambda>Sub. Some (Sub, True, NtHeader + 24 + 112)) (read_word v (NtHeader + 24 + 68))
        else Some None)
     }"

section \<open>Exports\<close>

text \<open>The loop over the names, which stops at the first that is the export of a fixture.\<close>

fun scan_names :: "view \<Rightarrow> nat \<Rightarrow> bool \<Rightarrow> nat \<Rightarrow> nat \<Rightarrow> bool option" where
  "scan_names v NtHeader Win64 NamesRva 0 = Some False"
| "scan_names v NtHeader Win64 NamesRva (Suc n) =
     do {
       Rva \<leftarrow> read_dword v NamesRva;
       p \<leftarrow> CfixPtrFromVaNonRelocated v NtHeader Rva;
       found \<leftarrow> (case p of
           None \<Rightarrow> Some False
         | Some q \<Rightarrow>
             map_option (\<lambda>Name. Win64 \<and> CfixpIsFixtureExport64 Name \<or> \<not> Win64 \<and> CfixpIsFixtureExport32 Name)
               (read_cstr v (unat q)));
       (if found then Some True else scan_names v NtHeader Win64 (NamesRva + 4) n)
     }"

definition query_exports :: "view \<Rightarrow> nat \<Rightarrow> bool \<Rightarrow> nat \<Rightarrow> bool option" where
  "query_exports v NtHeader Win64 ExportDir =
     do {
       AddressOfNames \<leftarrow> read_dword v (ExportDir + 32);
       Names \<leftarrow> CfixPtrFromVaNonRelocated v NtHeader AddressOfNames;
       AddressOfFunctions \<leftarrow> read_dword v (ExportDir + 28);
       Functions \<leftarrow> CfixPtrFromVaNonRelocated v NtHeader AddressOfFunctions;
       (case (Names, Functions) of
          (Some NamesRvaArray, Some _) \<Rightarrow>
            do {
              NumberOfFunctions \<leftarrow> read_dword v (ExportDir + 20);
              (if NumberOfFunctions = 0 then Some False
               else do {
                 NumberOfNames \<leftarrow> read_dword v (ExportDir + 24);
                 scan_names v NtHeader Win64 (unat NamesRvaArray) (unat NumberOfNames)
               })
            }
        | _ \<Rightarrow> Some False)
     }"

definition classify :: "16 word \<Rightarrow> 16 word \<Rightarrow> image_type" where
  "classify Characteristics Sub =
     (if Characteristics AND IMAGE_FILE_DLL \<noteq> 0 then CfixModuleDll
      else if Sub = IMAGE_SUBSYSTEM_NATIVE then CfixModuleDriver
      else CfixModuleExe)"

definition CfixsQueryPeImage ::
    "view \<Rightarrow> nat \<Rightarrow> (hresult + 16 word \<times> bool \<times> image_type) option" where
  "CfixsQueryPeImage v NtHeader =
     do {
       opt \<leftarrow> CfixsQueryOptionalHeader v NtHeader;
       (case opt of
          None \<Rightarrow> Some (Inl (HRESULT_FROM_WIN32 ERROR_BAD_EXE_FORMAT))
        | Some (Sub, Win64, ExportDataDir) \<Rightarrow>
            do {
              Characteristics \<leftarrow> read_word v (NtHeader + 22);
              Va \<leftarrow> read_dword v ExportDataDir;
              dir \<leftarrow> CfixPtrFromVaNonRelocated v NtHeader Va;
              found \<leftarrow> (case dir of
                  None \<Rightarrow> Some False
                | Some ExportDir \<Rightarrow> query_exports v NtHeader Win64 (unat ExportDir));
              Some (Inr (Sub, found, classify Characteristics Sub))
            })
     }"

section \<open>Files\<close>

text \<open>
  The file functions with their Win32 errors, if any; \<open>FileHandles\<close> counts the handles of files
  and mappings that are open, \<open>FileViews\<close> the views.
\<close>

record file_calls =
  CreateFile :: "wstring \<Rightarrow> dword option"
  CreateFileMapping :: "wstring \<Rightarrow> dword option"
  MapViewOfFile :: "wstring \<Rightarrow> dword + view"

record file_use =
  FileHandles :: int
  FileViews :: int

text \<open>A view that begins with the headers, or the code for what it is instead.\<close>

definition query_view :: "view \<Rightarrow> (hresult + module_info) option" where
  "query_view v =
     do {
       e_magic \<leftarrow> read_word v 0;
       (if e_magic \<noteq> IMAGE_DOS_SIGNATURE then Some (Inl (HRESULT_FROM_WIN32 ERROR_BAD_EXE_FORMAT))
        else do {
          e_lfanew \<leftarrow> read_dword v 60;
          (if sint e_lfanew < 0 then None
           else do {
             let NtHeader = unat e_lfanew;
             Signature \<leftarrow> read_dword v NtHeader;
             (if Signature \<noteq> IMAGE_NT_SIGNATURE
              then Some (Inl (HRESULT_FROM_WIN32 ERROR_BAD_EXE_FORMAT))
              else do {
                Machine \<leftarrow> read_word v (NtHeader + 4);
                q \<leftarrow> CfixsQueryPeImage v NtHeader;
                Some (map_sum id (\<lambda>(Sub, Present, Type).
                  \<lparr>MachineType = Machine, Subsystem = Sub, FixtureExportsPresent = Present,
                   ModuleType = Type\<rparr>) q)
              })
           })
        })
     }"

abbreviation sizeof_module_info :: ulong where "sizeof_module_info \<equiv> 16"

definition use_handles :: "int \<Rightarrow> file_use \<Rightarrow> file_use" where
  "use_handles n u = u\<lparr>FileHandles := FileHandles u + n\<rparr>"

definition use_views :: "int \<Rightarrow> file_use \<Rightarrow> file_use" where
  "use_views n u = u\<lparr>FileViews := FileViews u + n\<rparr>"

text \<open>\<open>Info\<close> is the size given in the structure of the caller.\<close>

definition CfixQueryPeImage ::
    "file_calls \<Rightarrow> wstring option \<Rightarrow> ulong option \<Rightarrow> file_use \<Rightarrow>
       ((hresult + module_info) \<times> file_use) option" where
  "CfixQueryPeImage fs Path Info u =
     (case (Path, Info) of
        (Some File, Some SizeOfStruct) \<Rightarrow>
          if SizeOfStruct \<noteq> sizeof_module_info then Some (Inl E_INVALIDARG, u)
          else case CreateFile fs File of
            Some err \<Rightarrow> Some (Inl (HRESULT_FROM_WIN32 err), u)
          | None \<Rightarrow>
              (case CreateFileMapping fs File of
                 Some err \<Rightarrow> Some (Inl (HRESULT_FROM_WIN32 err), use_handles (- 1) (use_handles 1 u))
               | None \<Rightarrow>
                   (let u = use_handles 1 (use_handles 1 u)
                    in case MapViewOfFile fs File of
                      Inl err \<Rightarrow> Some (Inl (HRESULT_FROM_WIN32 err), use_handles (- 2) u)
                    | Inr v \<Rightarrow>
                        map_option (\<lambda>r. (r, use_handles (- 2) (use_views (- 1) (use_views 1 u))))
                          (query_view v)))
      | _ \<Rightarrow> Some (Inl E_INVALIDARG, u))"

end
