(* ===== verification/PeQueryInv.thy ===== *)
theory PeQueryInv
  imports PeQuery PeLoadProps
begin

text \<open>
  What the query of an image says: the scan of the names agrees with reading all of them, the
  answer agrees with what the loader would find, and the file is closed on every path.
\<close>

section \<open>Reading all names\<close>

definition name_at :: "view \<Rightarrow> nat \<Rightarrow> nat \<Rightarrow> string option option" where
  "name_at v NtHeader NameRva =
     do {
       Rva \<leftarrow> read_dword v NameRva;
       p \<leftarrow> CfixPtrFromVaNonRelocated v NtHeader Rva;
       (case p of None \<Rightarrow> Some None | Some q \<Rightarrow> map_option Some (read_cstr v (unat q)))
     }"

fun names_at :: "view \<Rightarrow> nat \<Rightarrow> nat \<Rightarrow> nat \<Rightarrow> string option list option" where
  "names_at v NtHeader NamesRva 0 = Some []"
| "names_at v NtHeader NamesRva (Suc n) =
     do {
       N \<leftarrow> name_at v NtHeader NamesRva;
       Ns \<leftarrow> names_at v NtHeader (NamesRva + 4) n;
       Some (N # Ns)
     }"

text \<open>The names of an export directory, none when it lacks a table or has no function.\<close>

definition dir_names :: "view \<Rightarrow> nat \<Rightarrow> nat \<Rightarrow> string option list option" where
  "dir_names v NtHeader d =
     do {
       AddressOfNames \<leftarrow> read_dword v (d + 32);
       Names \<leftarrow> CfixPtrFromVaNonRelocated v NtHeader AddressOfNames;
       AddressOfFunctions \<leftarrow> read_dword v (d + 28);
       Functions \<leftarrow> CfixPtrFromVaNonRelocated v NtHeader AddressOfFunctions;
       NumberOfFunctions \<leftarrow> read_dword v (d + 20);
       NumberOfNames \<leftarrow> read_dword v (d + 24);
       (if Names = None \<or> Functions = None \<or> NumberOfFunctions = 0 then Some []
        else names_at v NtHeader (unat (the Names)) (unat NumberOfNames))
     }"

text \<open>Bitness and names of the exports of an image.\<close>

definition exported_names :: "view \<Rightarrow> (bool \<times> string option list) option" where
  "exported_names v =
     do {
       e_lfanew \<leftarrow> read_dword v 60;
       opt \<leftarrow> CfixsQueryOptionalHeader v (unat e_lfanew);
       (_, Win64, ExportDataDir) \<leftarrow> opt;
       Va \<leftarrow> read_dword v ExportDataDir;
       dir \<leftarrow> CfixPtrFromVaNonRelocated v (unat e_lfanew) Va;
       Names \<leftarrow> (case dir of None \<Rightarrow> Some [] | Some d \<Rightarrow> dir_names v (unat e_lfanew) (unat d));
       Some (Win64, Names)
     }"

definition has_fixture :: "bool \<Rightarrow> string option list \<Rightarrow> bool" where
  "has_fixture Win64 Names \<longleftrightarrow> (\<exists>N. Some N \<in> set Names \<and> CfixpIsFixtureExport Win64 N)"

lemma has_fixture_simps [simp]:
  "\<not> has_fixture Win64 []"
  "has_fixture Win64 (None # Ns) = has_fixture Win64 Ns"
  "has_fixture Win64 (Some N # Ns) \<longleftrightarrow> CfixpIsFixtureExport Win64 N \<or> has_fixture Win64 Ns"
  by (auto simp: has_fixture_def)

lemma fixture_export_of_bitness:
  "(Win64 \<and> CfixpIsFixtureExport64 N \<or> \<not> Win64 \<and> CfixpIsFixtureExport32 N) = CfixpIsFixtureExport Win64 N"
  by (simp add: CfixpIsFixtureExport_def)

lemma scan_names_iff:
  assumes "names_at v nt off n = Some Ns"
  shows "scan_names v nt Win64 off n = Some (has_fixture Win64 Ns)"
  using assms
proof (induction n arbitrary: off Ns)
  case (Suc n)
  then obtain N Ms where N: "name_at v nt off = Some N" "names_at v nt (off + 4) n = Some Ms" "Ns = N # Ms"
    by (auto simp: bind_Some_iff)
  from N(1) obtain rva p where p: "read_dword v off = Some rva" "CfixPtrFromVaNonRelocated v nt rva = Some p"
    "(case p of None \<Rightarrow> Some None | Some q \<Rightarrow> map_option Some (read_cstr v (unat q))) = Some N"
    by (auto simp: name_at_def bind_Some_iff)
  show ?case using p Suc.IH [OF N(2)] N(3)
    by (cases p) (auto simp: fixture_export_of_bitness)
qed simp

lemma query_exports_iff:
  assumes "dir_names v nt d = Some Ns"
  shows "query_exports v nt Win64 d = Some (has_fixture Win64 Ns)"
proof -
  from assms obtain a names b funs nf nn where y:
    "read_dword v (d + 32) = Some a" "CfixPtrFromVaNonRelocated v nt a = Some names"
    "read_dword v (d + 28) = Some b" "CfixPtrFromVaNonRelocated v nt b = Some funs"
    "read_dword v (d + 20) = Some nf" "read_dword v (d + 24) = Some nn"
    and n: "(if names = None \<or> funs = None \<or> nf = 0 then Some []
      else names_at v nt (unat (the names)) (unat nn)) = Some Ns"
    unfolding dir_names_def bind_Some_iff by blast
  from y n show ?thesis
    by (cases names; cases funs; cases "nf = 0") (auto simp: query_exports_def scan_names_iff)
qed

lemma map_sum_Inr_iff: "map_sum f g x = Inr y \<longleftrightarrow> (\<exists>z. x = Inr z \<and> y = g z)"
  by (cases x) auto

lemma query_view_iff:
  assumes "exported_names v = Some (Win64, Ns)" and "query_view v = Some (Inr info)"
  shows "FixtureExportsPresent info = has_fixture Win64 Ns"
proof -
  from assms(1) obtain e sub edd va dir where x: "read_dword v 60 = Some e"
    "CfixsQueryOptionalHeader v (unat e) = Some (Some (sub, Win64, edd))" "read_dword v edd = Some va"
    "CfixPtrFromVaNonRelocated v (unat e) va = Some dir"
    and n: "(case dir of None \<Rightarrow> Some [] | Some d \<Rightarrow> dir_names v (unat e) (unat d)) = Some Ns"
    by (auto simp: exported_names_def bind_Some_iff)
  from assms(2) x(1) obtain q where q: "CfixsQueryPeImage v (unat e) = Some (Inr q)"
    "FixtureExportsPresent info = fst (snd q)"
    by (auto simp: query_view_def bind_Some_iff Let_def map_sum_Inr_iff split: if_splits)
  have "(case dir of None \<Rightarrow> Some False | Some d \<Rightarrow> query_exports v (unat e) Win64 (unat d)) =
      Some (has_fixture Win64 Ns)"
    using n by (cases dir) (auto simp: query_exports_iff)
  with x q show ?thesis by (auto simp: CfixsQueryPeImage_def bind_Some_iff)
qed

section \<open>The loader\<close>

definition fixture_exports :: "bool \<Rightarrow> pe_image \<Rightarrow> nat list \<Rightarrow> nat list" where
  "fixture_exports Win64 img is =
     filter (\<lambda>i. CfixpIsFixtureExport Win64 (NameTable img ! i)
        \<and> \<not> (\<exists>rva. function_rva img i = Some rva \<and> is_forwarder img rva)) is"

lemma walk_exports_count:
  assumes "walk_exports Win64 mb2wc defs Module img is fxs n h = Some (Inr fxs', h')"
  shows "length fxs' = length fxs + length (fixture_exports Win64 img is)"
  using assms
proof (induction "is" arbitrary: fxs n h)
  case (Cons i "is")
  from Cons.prems obtain rva where i: "i < length (NameTable img)" "function_rva img i = Some rva"
    by (auto simp: bind_Some_iff nth_opt_def split: if_splits)
  show ?case
  proof (cases "is_forwarder img rva \<or> \<not> CfixpIsFixtureExport Win64 (NameTable img ! i)")
    case True
    with Cons i show ?thesis by (auto simp: nth_opt_def fixture_exports_def)
  next
    case False
    with Cons.prems i obtain m g fx h2 where "walk_exports Win64 mb2wc defs Module img is (fxs @ [fx]) m h2
        = Some (Inr fxs', h')"
      by (auto simp: nth_opt_def Let_def split: if_splits prod.splits sum.splits)
    from Cons.IH [OF this] False i show ?thesis by (simp add: fixture_exports_def)
  qed
qed (simp add: fixture_exports_def)

lemma load_fixtures_count:
  assumes "CfixsLoadFixturesFromPeImage Win64 mb2wc defs Module img h = Some (Inr fxs, h')"
    and "NumberOfFunctions img = 0 \<longrightarrow> NameTable img = []"
  shows "length fxs = length (fixture_exports Win64 img [0..<length (NameTable img)])"
proof -
  obtain ok g where mal: "malloc 16 h = (ok, g)" by fastforce
  show ?thesis
  proof (cases "NumberOfFunctions img = 0")
    case True
    with assms mal show ?thesis
      by (cases ok) (auto simp: CfixsLoadFixturesFromPeImage_def fixture_exports_def split: if_splits)
  next
    case False
    obtain w where w: "walk_exports Win64 mb2wc defs Module img [0..<length (NameTable img)] [] 16 g = w" by simp
    from False assms(1) mal w obtain k where "w = Some (Inr fxs, k)"
      by (cases ok; cases w) (auto simp: CfixsLoadFixturesFromPeImage_def split: if_splits sum.splits)
    from walk_exports_count [OF w [unfolded this]] show ?thesis by simp
  qed
qed

section \<open>The file\<close>

text \<open>The offset of the headers is not checked against the size of the file.\<close>

lemma wild_header_offset_faults:
  assumes "read_word v 0 = Some IMAGE_DOS_SIGNATURE" and "read_dword v 60 = Some e_lfanew"
    and "length v \<le> unat e_lfanew"
  shows "query_view v = None"
  using assms by (simp add: query_view_def read_dword_def [of v "unat e_lfanew"] read_word_def
      [of v "unat e_lfanew"] nth_opt_def Let_def)

lemma query_returns_handles:
  assumes "CfixQueryPeImage fs Path Info u = Some (r, u')"
  shows "u' = u"
  using assms
  by (auto simp: CfixQueryPeImage_def Let_def use_handles_def use_views_def
      split: option.splits if_splits sum.splits)

lemma query_reads_view:
  assumes "CfixQueryPeImage fs (Some File) (Some sizeof_module_info) u = Some (Inr info, u')"
    and "MapViewOfFile fs File = Inr v"
  shows "query_view v = Some (Inr info)"
  using assms by (auto simp: CfixQueryPeImage_def Let_def split: option.splits)


definition demo_view :: view where
  "demo_view =
     [0x4D, 0x5A] @ replicate 58 0 @ [64, 0, 0, 0]
     @ [0x50, 0x45, 0, 0, 0x4C, 1, 1, 0] @ replicate 12 0 @ [104, 0, 0, 0x20]
     @ [0x0B, 1] @ replicate 66 0 @ [3, 0] @ replicate 26 0 @ [0, 0x10, 0, 0, 40, 0, 0, 0]
     @ replicate 8 0 @ [0, 1, 0, 0, 0, 0x10, 0, 0, 0, 1, 0, 0, 232, 0, 0, 0] @ replicate 16 0
     @ replicate 20 0 @ [1, 0, 0, 0, 1, 0, 0, 0, 40, 0x10, 0, 0, 44, 0x10, 0, 0, 0, 0, 0, 0]
     @ [0, 0, 0, 0, 48, 0x10, 0, 0]
     @ map (\<lambda>c. of_nat (of_char c)) ''___CfixFixturePeX'' @ [0]"

definition demo_files :: file_calls where
  "demo_files = \<lparr>CreateFile = (\<lambda>_. None), CreateFileMapping = (\<lambda>_. None), MapViewOfFile = (\<lambda>_. Inr demo_view)\<rparr>"

definition demo_export_image :: pe_image where
  "demo_export_image = \<lparr>NtSignatureOk = True, ExportDirVa = 0x1000, ExportDirSize = 40,
     NumberOfFunctions = 1, OrdinalBase = 0, NameTable = [''___CfixFixturePeX''], OrdinalTable = [0],
     FunctionTable = [0x2000]\<rparr>"

lemma demo_view_names: "exported_names demo_view = Some (False, [Some ''___CfixFixturePeX''])"
  by code_simp

lemma demo_view_query: "query_view demo_view = Some (Inr \<lparr>MachineType = 332, Subsystem = 3,
     FixtureExportsPresent = True, ModuleType = CfixModuleDll\<rparr>)"
  by code_simp


end
