(* ===== verification/EventSink.thy ===== *)
theory EventSink
  imports EventEmitter MsgResolver
begin

text \<open>
  The event sink of the console (\<open>cfix/cfixcons/eventsink.c\<close>) and its loading from a DLL
  (\<open>cfix/cfixutil/eventdllload.c\<close>): events and the verdict of test cases are written to the
  standard output.

  \<open>Printed\<close> lists the texts that were written, one for each call of \<open>wprintf\<close>. What a stack frame
  resolves to and the address of an exception are not part of the events of this development;
  they are given by functions of the environment, as is the lookup of messages. The sink and its
  message resolver are reference counted; \<open>SinkBlocks\<close> counts the blocks of sinks.
\<close>

abbreviation CFIX_EVENT_SINK_VERSION :: ulong where "CFIX_EVENT_SINK_VERSION \<equiv> 1"
abbreviation CFIX_EVENT_SINK_FLAG_SHOW_STACKTRACE_SOURCE_INFORMATION :: ulong
  where "CFIX_EVENT_SINK_FLAG_SHOW_STACKTRACE_SOURCE_INFORMATION \<equiv> 1"
abbreviation CFIX_E_UNSUPPORTED_EVENT_SINK_VERSION :: hresult
  where "CFIX_E_UNSUPPORTED_EVENT_SINK_VERSION \<equiv> 0x8004801A"
abbreviation CFIX_E_MISSING_EVENT_SINK_EXPORT :: hresult
  where "CFIX_E_MISSING_EVENT_SINK_EXPORT \<equiv> 0x8004801B"
abbreviation CFIX_E_LOADING_EVENTDLL_FAILED :: hresult
  where "CFIX_E_LOADING_EVENTDLL_FAILED \<equiv> 0x8004801C"

section \<open>State\<close>

record console_sink =
  SinkReferenceCount :: int
  SinkFlags :: ulong
  SinkFailureCount :: ulong
  SinkInconclusiveCount :: ulong

record console =
  TheSink :: "console_sink option"
  SinkResolver :: resolver_world
  SinkBlocks :: int
  Printed :: "wstring list"

record stack_frame =
  FrameModule :: wstring
  FrameFunction :: wstring
  FrameDisplacement :: ulong
  FrameSourceFile :: wstring
  FrameSourceLine :: ulong

text \<open>\<open>ResolveFrames\<close> is \<open>None\<close> when the event cannot resolve its frames.\<close>

record console_env =
  ResolveFrames :: "cfix_event \<Rightarrow> stack_frame option list option"
  ExceptionAddress :: "cfix_event \<Rightarrow> ulong_ptr"
  MessageLookup :: lookup_message

section \<open>Texts\<close>

abbreviation newline :: wchar where "newline \<equiv> 0x0A"

definition print_int :: "dword \<Rightarrow> wstring" where
  "print_int v = (if sint v < 0 then 0x2D # print_nat 10 (nat (- sint v)) else print_nat 10 (unat v))"

definition print_hex :: "dword \<Rightarrow> wstring" where
  "print_hex v = map towlower (print_nat 16 (unat v))"

definition print_str :: "wstring option \<Rightarrow> wstring" where
  "print_str s = (case s of None \<Rightarrow> wide ''(null)'' | Some t \<Rightarrow> t)"

definition margin :: wstring where
  "margin = replicate 17 0x20"

definition full_name :: "wstring \<Rightarrow> wstring \<Rightarrow> wstring \<Rightarrow> wstring" where
  "full_name ModuleBaseName Fixture TestCase = ModuleBaseName @ [0x2E] @ Fixture @ [0x2E] @ TestCase"

definition frame_text :: "bool \<Rightarrow> stack_frame \<Rightarrow> wstring" where
  "frame_text ShowSourceInformation f =
     margin @ FrameModule f @ [0x21] @ FrameFunction f @ wide '' +0x'' @ print_hex (FrameDisplacement f)
     @ (if FrameSourceLine f \<noteq> 0 \<and> ShowSourceInformation
        then wide '' ('' @ FrameSourceFile f @ [0x3A] @ print_int (FrameSourceLine f) @ wide '')'' else [])
     @ [newline]"

text \<open>
  A frame that cannot be resolved is skipped; one that does not fit into the buffer of a frame
  ends the trace, and so does the first that does not fit into the rest of the buffer, which takes
  what fits of it.
\<close>

fun CfixconssFormatStackTrace :: "bool \<Rightarrow> nat \<Rightarrow> stack_frame option list \<Rightarrow> wstring \<Rightarrow> wstring" where
  "CfixconssFormatStackTrace Show BufferSizeInChars [] Buffer = Buffer"
| "CfixconssFormatStackTrace Show BufferSizeInChars (None # fs) Buffer =
     CfixconssFormatStackTrace Show BufferSizeInChars fs Buffer"
| "CfixconssFormatStackTrace Show BufferSizeInChars (Some f # fs) Buffer =
     (if \<not> length (frame_text Show f) < 200 then Buffer
      else if \<not> length (Buffer @ frame_text Show f) < BufferSizeInChars
      then take (BufferSizeInChars - 1) (Buffer @ frame_text Show f)
      else CfixconssFormatStackTrace Show BufferSizeInChars fs (Buffer @ frame_text Show f))"

definition CfixconssResolveErrorMessage ::
    "lookup_message \<Rightarrow> resolver option \<Rightarrow> dword \<Rightarrow> nat \<Rightarrow> wstring \<Rightarrow> wstring" where
  "CfixconssResolveErrorMessage Lookup Resolver MessageCode BufferSizeInChars Buffer =
     (case CdiagsResolveMessage Lookup Resolver MessageCode
             (CDIAG_MSGRES_RESOLVE_IGNORE_INSERTS OR CDIAG_MSGRES_STRIP_NEWLINES) None
             BufferSizeInChars Buffer of
        (Hr, text) \<Rightarrow>
          if Hr = CDIAG_E_UNKNOWN_MESSAGE then take (BufferSizeInChars - 1) (wide ''Unknown error'')
          else if FAILED Hr then [] else text)"

section \<open>Methods\<close>

definition print_text :: "wstring \<Rightarrow> console \<Rightarrow> console" where
  "print_text t k = k\<lparr>Printed := Printed k @ [t]\<rparr>"

definition CfixconssReference :: "console \<Rightarrow> console" where
  "CfixconssReference k =
     k\<lparr>TheSink := map_option (\<lambda>s. s\<lparr>SinkReferenceCount := SinkReferenceCount s + 1\<rparr>) (TheSink k)\<rparr>"

definition CfixconssDereference :: "console \<Rightarrow> console" where
  "CfixconssDereference k =
     (case TheSink k of
        None \<Rightarrow> k
      | Some s \<Rightarrow>
          let n = SinkReferenceCount s - 1
          in if n = 0
             then k\<lparr>TheSink := None, SinkResolver := CdiagsDereferenceResolver (SinkResolver k),
                    SinkBlocks := SinkBlocks k - 1\<rparr>
             else k\<lparr>TheSink := Some (s\<lparr>SinkReferenceCount := n\<rparr>)\<rparr>)"

definition trace_of :: "console_env \<Rightarrow> console_sink \<Rightarrow> cfix_event \<Rightarrow> wstring" where
  "trace_of env This Event =
     (case ResolveFrames env Event of
        None \<Rightarrow> []
      | Some frames \<Rightarrow>
          if 0 < FrameCount Event
          then CfixconssFormatStackTrace
                 (CfixpFlagOn (SinkFlags This) CFIX_EVENT_SINK_FLAG_SHOW_STACKTRACE_SOURCE_INFORMATION)
                 2048 (take (FrameCount Event) frames) []
          else [])"

definition event_text ::
    "console_env \<Rightarrow> resolver option \<Rightarrow> wstring \<Rightarrow> wstring \<Rightarrow> cfix_event \<Rightarrow> wstring" where
  "event_text env Resolver Name Trace Event =
     (let end_of = [newline, newline] @ Trace @ [newline, newline]
      in case EventInfo Event of
        FailedAssertion File Routine Line Expression LastError \<Rightarrow>
          wide ''[Failure]      '' @ Name @ [0x20, newline]
          @ (if Line \<noteq> 0
             then margin @ print_str File @ [0x28] @ print_int Line @ wide ''): '' @ print_str Routine
                  @ [newline, newline]
             else [])
          @ margin @ wide ''Expression: '' @ Expression @ [newline]
          @ margin @ wide ''Last Error: '' @ print_int LastError @ wide '' (''
          @ CfixconssResolveErrorMessage (MessageLookup env) Resolver LastError 260 [] @ wide '')'' @ end_of
      | UncaughtException Code \<Rightarrow>
          wide ''[Failure]      '' @ Name @ [0x20, newline]
          @ margin @ take 259 (wide ''Unhandled Exception 0x'' @ pad_zero 8 (print_nat 16 (unat Code))
                      @ wide '' at '' @ pad_zero 16 (print_nat 16 (unat (ExceptionAddress env Event))))
          @ end_of
      | Inconclusiveness Message \<Rightarrow>
          wide ''[Inconclusive] '' @ Name @ [0x20, newline] @ margin @ Message @ end_of
      | Log Message \<Rightarrow>
          wide ''[Log]          '' @ Name @ [0x20, newline] @ margin @ Message @ [newline, newline])"

definition CfixconssReportEvent ::
    "console_env \<Rightarrow> wstring \<Rightarrow> wstring \<Rightarrow> wstring \<Rightarrow> cfix_event \<Rightarrow> console \<Rightarrow> console" where
  "CfixconssReportEvent env ModuleBaseName Fixture TestCase Event k =
     (case TheSink k of
        None \<Rightarrow> k
      | Some This \<Rightarrow>
          print_text (event_text env (TheResolver (SinkResolver k)) (full_name ModuleBaseName Fixture TestCase)
            (trace_of env This Event) Event) k)"

definition CfixconssBeforeFixtureStart :: "console \<Rightarrow> console" where
  "CfixconssBeforeFixtureStart k = k"

definition CfixconssAfterFixtureFinish :: "console \<Rightarrow> console" where
  "CfixconssAfterFixtureFinish k = k"

definition CfixconssBeforeTestCaseStart :: "console \<Rightarrow> console" where
  "CfixconssBeforeTestCaseStart k =
     k\<lparr>TheSink := map_option (\<lambda>s. s\<lparr>SinkFailureCount := 0, SinkInconclusiveCount := 0\<rparr>) (TheSink k)\<rparr>"

definition success_text :: "wstring \<Rightarrow> wstring" where
  "success_text Name = wide ''[Success]      '' @ Name @ [newline]"

definition CfixconssAfterTestCaseFinish :: "wstring \<Rightarrow> wstring \<Rightarrow> wstring \<Rightarrow> console \<Rightarrow> console" where
  "CfixconssAfterTestCaseFinish ModuleBaseName Fixture TestCase k =
     (case TheSink k of
        None \<Rightarrow> k
      | Some This \<Rightarrow>
          if SinkFailureCount This = 0 \<and> SinkInconclusiveCount This = 0
          then print_text (success_text (full_name ModuleBaseName Fixture TestCase)) k
          else k)"

definition console_event_sink :: "console_env \<Rightarrow> console event_sink" where
  "console_event_sink env =
     \<lparr>SinkReportEvent = (\<lambda>_. CfixconssReportEvent env),
      SinkBeforeFixtureStart = (\<lambda>_ _ _. CfixconssBeforeFixtureStart),
      SinkAfterFixtureFinish = (\<lambda>_ _ _ _. CfixconssAfterFixtureFinish),
      SinkBeforeTestCaseStart = (\<lambda>_ _ _ _. CfixconssBeforeTestCaseStart),
      SinkAfterTestCaseFinish = (\<lambda>_ m f t _. CfixconssAfterTestCaseFinish m f t),
      SinkReference = CfixconssReference, SinkDereference = CfixconssDereference\<rparr>"

section \<open>Creation\<close>

text \<open>\<open>alloc\<close> and \<open>resolver_alloc\<close> tell whether the two blocks can be allocated.\<close>

definition CreateEventSink ::
    "bool \<Rightarrow> bool \<Rightarrow> ulong \<Rightarrow> ulong \<Rightarrow> wstring option \<Rightarrow> bool \<Rightarrow> console \<Rightarrow> hresult \<times> console" where
  "CreateEventSink alloc resolver_alloc Version Flags Options Out k =
     (if Version \<noteq> CFIX_EVENT_SINK_VERSION then (CFIX_E_UNSUPPORTED_EVENT_SINK_VERSION, k)
      else if \<not> Out then (E_INVALIDARG, k)
      else if Options \<noteq> None then (E_INVALIDARG, k)
      else if \<not> alloc then (E_OUTOFMEMORY, k)
      else
        let k = k\<lparr>SinkBlocks := SinkBlocks k + 1\<rparr>;
            (Hr, r) = CdiagCreateMessageResolver True resolver_alloc (SinkResolver k);
            k = k\<lparr>SinkResolver := r\<rparr>
        in if FAILED Hr then (Hr, k\<lparr>SinkBlocks := SinkBlocks k - 1\<rparr>)
           else (S_OK, k\<lparr>TheSink := Some \<lparr>SinkReferenceCount = 1, SinkFlags = Flags,
                              SinkFailureCount = 0, SinkInconclusiveCount = 0\<rparr>\<rparr>))"

text \<open>
  \<open>Load\<close> is \<open>LoadLibrary\<close> with the routine that the DLL exports under the name of the creation, if
  any; the number of loaded DLLs is kept with the state of the sink.
\<close>

definition CfixutilLoadEventSinkFromDll ::
    "(wstring \<Rightarrow> (ulong \<Rightarrow> ulong \<Rightarrow> wstring option \<Rightarrow> 'k \<Rightarrow> hresult \<times> 'k) option option) \<Rightarrow>
       wstring option \<Rightarrow> ulong \<Rightarrow> wstring option \<Rightarrow> bool \<Rightarrow> int \<times> 'k \<Rightarrow> hresult \<times> int \<times> 'k" where
  "CfixutilLoadEventSinkFromDll Load DllPath Flags Options Out s =
     (case s of (Modules, k) \<Rightarrow>
        (case DllPath of
           None \<Rightarrow> (E_INVALIDARG, s)
         | Some Path \<Rightarrow>
             if \<not> Out then (E_INVALIDARG, s)
             else case Load Path of
               None \<Rightarrow> (CFIX_E_LOADING_EVENTDLL_FAILED, s)
             | Some None \<Rightarrow> (CFIX_E_MISSING_EVENT_SINK_EXPORT, (Modules + 1, k))
             | Some (Some Routine) \<Rightarrow>
                 (case Routine CFIX_EVENT_SINK_VERSION Flags Options k of
                    (Hr, k) \<Rightarrow> (Hr, (Modules + 1, k)))))"

end
