(* ===== verification/EventSinkInv.thy ===== *)
theory EventSinkInv
  imports EventSink
begin

text \<open>
  What the console shows: the trace of a stack never overruns its buffer, and every finished test
  case is reported as a success, whatever was reported of it.
\<close>

section \<open>Stack traces\<close>

text \<open>The frames whose lines make up the trace: those that resolve, before the first that is too long.\<close>

definition shown_lines :: "bool \<Rightarrow> stack_frame option list \<Rightarrow> wstring list" where
  "shown_lines Show fs =
     takeWhile (\<lambda>l. length l < 200) (map (frame_text Show) (List.map_filter id fs))"

lemma stack_trace_text:
  assumes "length Buffer < n"
  shows "CfixconssFormatStackTrace Show n fs Buffer = take (n - 1) (Buffer @ concat (shown_lines Show fs))"
  using assms
proof (induction Show n fs Buffer rule: CfixconssFormatStackTrace.induct)
  case (3 Show n f fs Buffer)
  show ?case
  proof (cases "length (frame_text Show f) < 200 \<and> length (Buffer @ frame_text Show f) < n")
    case True
    then have "length Buffer \<le> n - Suc 0" "length (frame_text Show f) \<le> n - Suc (length Buffer)"
      by auto
    with True 3 show ?thesis by (simp add: shown_lines_def List.map_filter_simps)
  next
    case False
    with 3(2) show ?thesis
      by (auto simp: shown_lines_def List.map_filter_simps take_all_iff)
  qed
qed (auto simp: shown_lines_def List.map_filter_simps)

corollary stack_trace_fits:
  "length Buffer < n \<Longrightarrow> length (CfixconssFormatStackTrace Show n fs Buffer) < n"
  by (auto simp: stack_trace_text)

section \<open>Verdicts\<close>

definition no_counts :: "console \<Rightarrow> bool" where
  "no_counts k \<longleftrightarrow> (\<exists>s. TheSink k = Some s \<and> SinkFailureCount s = 0 \<and> SinkInconclusiveCount s = 0)"

definition says_success :: "wstring \<Rightarrow> bool" where
  "says_success t \<longleftrightarrow> take 9 t = wide ''[Success]''"

lemma event_is_no_success: "\<not> says_success (event_text env R Name Trace Event)"
  by (simp add: says_success_def event_text_def Let_def split: event_info.split)

lemma success_is_success [simp]: "says_success (success_text Name)"
  by (simp add: says_success_def success_text_def)

fun finished_case :: "ctx_call \<Rightarrow> wstring list" where
  "finished_case (Call_AfterCase t tc b) =
     [success_text (full_name (ModuleName (fst tc)) (FixtureName (fst tc)) (case_name tc))]"
| "finished_case _ = []"

lemma console_step:
  fixes s :: "('t, console) proxy_state" and ctx :: "'t exec_context" and env :: console_env and x :: ctx_call
  assumes "no_counts (Sink s)"
  defines "s' \<equiv> snd (ctx_step (proxy_context ctx (console_event_sink env)) x s)"
  shows "no_counts (Sink s')"
    and "filter says_success (Printed (Sink s')) = filter says_success (Printed (Sink s)) @ finished_case x"
proof -
  from assms(1) obtain c where c: "TheSink (Sink s) = Some c" "SinkFailureCount c = 0" "SinkInconclusiveCount c = 0"
    by (auto simp: no_counts_def)
  note defs = s'_def proxy_context_def console_event_sink_def Let_def split_beta no_counts_def c
    CfixsEventEmittingProxyReportEvent_def CfixsEventEmittingProxyBeforeFixtureStart_def
    CfixsEventEmittingProxyAfterFixtureFinish_def CfixsEventEmittingProxyBeforeTestCaseStart_def
    CfixsEventEmittingProxyAfterTestCaseFinish_def CfixsEventEmittingProxyCreateChildThread_def
    CfixsEventEmittingProxyBeforeChildThreadStart_def CfixsEventEmittingProxyAfterChildThreadFinish_def
    CfixsEventEmittingProxyOnUnhandledException_def CfixconssReportEvent_def
    CfixconssBeforeFixtureStart_def CfixconssAfterFixtureFinish_def CfixconssBeforeTestCaseStart_def
    CfixconssAfterTestCaseFinish_def print_text_def event_is_no_success
  show "no_counts (Sink s')" by (cases x) (simp_all add: defs)
  show "filter says_success (Printed (Sink s')) = filter says_success (Printed (Sink s)) @ finished_case x"
    by (cases x) (simp_all add: defs)
qed

text \<open>
  C39: the console reports every test case as a success. Over every history of calls to a context
  that emits its events to the console, from any threads and with any failed assertions, uncaught
  exceptions and inconclusive reports among them, the texts that announce a success are one for
  each test case that was finished, in order: the counts that would prevent it are reset and
  read, but never incremented.
\<close>

theorem console_reports_success:
  assumes "CreateEventSink alloc resolver_alloc Version Flags Options Out k = (S_OK, Sink s)"
    and "k' = Sink (snd (ctx_run (proxy_context ctx (console_event_sink env)) history s))"
  shows "filter says_success (Printed k') =
           filter says_success (Printed (Sink s)) @ concat (map finished_case history)"
proof -
  have "\<exists>c. TheSink (Sink s) = Some c \<and> SinkFailureCount c = 0 \<and> SinkInconclusiveCount c = 0"
    using assms(1) by (auto simp: CreateEventSink_def Let_def split: if_splits prod.splits dest!: sym [of _ "Sink s"])
  then have "no_counts (Sink s)" by (simp add: no_counts_def)
  then have "filter says_success
      (Printed (Sink (snd (ctx_run (proxy_context ctx (console_event_sink env)) history s)))) =
      filter says_success (Printed (Sink s)) @ concat (map finished_case history)"
  proof (induction history arbitrary: s)
    case (Cons x xs)
    from Cons.IH [OF console_step(1) [OF Cons.prems]] console_step(2) [OF Cons.prems] show ?case
      by (simp add: split_beta)
  qed simp
  then show ?thesis by (simp add: assms(2))
qed

definition demo_console_env :: console_env where
  "demo_console_env = \<lparr>ResolveFrames = (\<lambda>_. None), ExceptionAddress = (\<lambda>_. 0),
     MessageLookup = (\<lambda>_ _ _ _ _. Inl 317)\<rparr>"

definition demo_console :: console where
  "demo_console = snd (CreateEventSink True True CFIX_EVENT_SINK_VERSION 0 None True
     \<lparr>TheSink = None, SinkResolver = \<lparr>TheResolver = None, LoadCount = (\<lambda>_. 0), DllBlocks = 0\<rparr>,
      SinkBlocks = 0, Printed = []\<rparr>)"

theorem console_reports_success_witness:
  "\<exists>s k'. k' = Sink (snd (ctx_run (proxy_context (rc_context demo_opts (\<lambda>_. 16))
           (console_event_sink demo_console_env)) (failing_history demo_fx) s))
     \<and> filter says_success (Printed k') = [wide ''[Success]      m.f.t'' @ [newline]]"
proof -
  define s :: "(rc_state, console) proxy_state" where
    "s = \<lparr>Target = the (snd (CfixrunpCreateExecutionContext True True True)), Sink = demo_console,
       FirstTestCaseBegun = False, CurrentTestCase = None, CurrentFixture = None, ProxyReferenceCount = 1\<rparr>"
  define k' where "k' = Sink (snd (ctx_run (proxy_context (rc_context demo_opts (\<lambda>_. 16))
      (console_event_sink demo_console_env)) (failing_history demo_fx) s))"
  let ?k = "\<lparr>TheSink = None, SinkResolver = \<lparr>TheResolver = None, LoadCount = (\<lambda>_. 0), DllBlocks = 0\<rparr>,
      SinkBlocks = 0, Printed = []\<rparr>"
  have "CreateEventSink True True CFIX_EVENT_SINK_VERSION 0 None True ?k = (S_OK, Sink s)"
    by (simp add: s_def demo_console_def CreateEventSink_def CdiagCreateMessageResolver_def)
  from console_reports_success [OF this k'_def]
  have "filter says_success (Printed k') = [wide ''[Success]      m.f.t'' @ [newline]]"
    by (simp add: s_def demo_console_def CreateEventSink_def CdiagCreateMessageResolver_def
        failing_history_def Let_def success_text_def full_name_def demo_fx_def case_name_def)
  with k'_def show ?thesis by blast
qed

section \<open>Life of the sink\<close>

text \<open>As many dereferences as references, and one for the creation, free the sink and its resolver.\<close>

lemma sink_lives_as_referenced:
  assumes "TheSink k = Some s" and "SinkReferenceCount s = 1"
    and "TheResolver (SinkResolver k) = Some r" and "ResolverReferenceCount r = 1"
  shows "TheSink ((CfixconssDereference ^^ n) ((CfixconssReference ^^ n) k)) = Some s"
    and "TheSink ((CfixconssDereference ^^ Suc n) ((CfixconssReference ^^ n) k)) = None"
    and "TheResolver (SinkResolver ((CfixconssDereference ^^ Suc n) ((CfixconssReference ^^ n) k))) = None"
    and "SinkBlocks ((CfixconssDereference ^^ Suc n) ((CfixconssReference ^^ n) k)) = SinkBlocks k - 1"
proof -
  have r: "(CfixconssReference ^^ n) k = k\<lparr>TheSink := Some (s\<lparr>SinkReferenceCount := 1 + int n\<rparr>)\<rparr>" for n
    using assms(1,2) by (induction n) (simp_all add: CfixconssReference_def)
  have d: "(CfixconssDereference ^^ m) (k\<lparr>TheSink := Some (s\<lparr>SinkReferenceCount := 1 + int m\<rparr>)\<rparr>) = k" for m
  proof (induction m)
    case (Suc m)
    have "CfixconssDereference (k\<lparr>TheSink := Some (s\<lparr>SinkReferenceCount := 1 + int (Suc m)\<rparr>)\<rparr>) =
        k\<lparr>TheSink := Some (s\<lparr>SinkReferenceCount := 1 + int m\<rparr>)\<rparr>"
      by (simp add: CfixconssDereference_def)
    with Suc show ?case unfolding funpow_Suc_right by (simp only: o_apply)
  qed (use assms(1,2) in simp)
  have same: "(CfixconssDereference ^^ n) ((CfixconssReference ^^ n) k) = k" by (simp add: r d)
  then have final: "(CfixconssDereference ^^ Suc n) ((CfixconssReference ^^ n) k) = CfixconssDereference k"
    by simp
  show "TheSink ((CfixconssDereference ^^ n) ((CfixconssReference ^^ n) k)) = Some s"
    using same assms(1) by simp
  show "TheSink ((CfixconssDereference ^^ Suc n) ((CfixconssReference ^^ n) k)) = None"
    "TheResolver (SinkResolver ((CfixconssDereference ^^ Suc n) ((CfixconssReference ^^ n) k))) = None"
    "SinkBlocks ((CfixconssDereference ^^ Suc n) ((CfixconssReference ^^ n) k)) = SinkBlocks k - 1"
    unfolding final using assms
    by (simp_all add: CfixconssDereference_def CdiagsDereferenceResolver_def CdiagsDeleteResolver_def)
qed

text \<open>A DLL without the routine stays loaded.\<close>

lemma useless_dll_stays_loaded:
  assumes "Load Path = Some None"
  shows "CfixutilLoadEventSinkFromDll Load (Some Path) Flags Options True (n, k) =
           (CFIX_E_MISSING_EVENT_SINK_EXPORT, n + 1, k)"
  by (simp add: CfixutilLoadEventSinkFromDll_def assms)

end
