(* ===== verification/Threads.thy ===== *)
theory Threads
  imports RptStubs
begin

text \<open>
  Child threads of test cases (\<open>cfix/cfix/thread.c\<close>): a thread that is created through cfix inherits
  the filament of its creator, and the execution context is told of its start and its end.

  The creator waits until the new thread has registered itself, so that creation and the first
  part of the thread, \<open>child_begin\<close>, form one step; the rest of the thread, \<open>child_finish\<close>, may run
  at any time later. A thread that ends itself gets the notification for detaching threads of
  \<open>cfix/cfix/main.c\<close>. \<open>None\<close> is for what never returns: waiting for a thread that is created
  suspended, and an exception that nobody handles.
\<close>

abbreviation CFIX_THREAD_FLAG_CRT :: ulong where "CFIX_THREAD_FLAG_CRT \<equiv> 1"
abbreviation CREATE_SUSPENDED :: dword where "CREATE_SUSPENDED \<equiv> 4"
abbreviation ERROR_INVALID_PARAMETER :: dword where "ERROR_INVALID_PARAMETER \<equiv> 87"

record 'u thread_world =
  Rt :: "'u runtime"
  EventHandles :: int
  ThreadHandles :: int
  LastError :: dword

record child_thread =
  ChildId :: ulong
  StartAddress :: ulong_ptr
  ParentContext :: ulong_ptr
  ChildFilament :: nat

definition child_context :: "'u env \<Rightarrow> nat \<Rightarrow> 'u runtime \<Rightarrow> ('u exec_context \<times> ulong) option" where
  "child_context env f s =
     map_option (\<lambda>fil. (Contexts env (ExecutionContext fil), FilMainThreadId fil)) (Filaments (Fil s) f)"

text \<open>The thread up to the event it sets, with the result of its initialization.\<close>

definition child_begin :: "'u env \<Rightarrow> child_thread \<Rightarrow> 'u runtime \<Rightarrow> (hresult \<times> 'u runtime) option" where
  "child_begin env t s =
     do {
       ((Hr, _), fs) \<leftarrow>
         CfixpSetCurrentFilament (DupHandle env (Fil s)) (ChildId t) (Some (ChildFilament t)) (Fil s);
       (let s = s\<lparr>Fil := fs\<rparr>
        in if FAILED Hr then Some (Hr, s)
           else do {
             (ctx, main) \<leftarrow> child_context env (ChildFilament t) s;
             Some (Hr, s\<lparr>Obs := BeforeChildThreadStart ctx (CfixpInitializeThreadId main (ChildId t))
                              (ParentContext t) (Obs s)\<rparr>)
           })
     }"

text \<open>
  The routine of the thread inside the filter: whether it ended the thread itself, and the exit
  code, \<open>None\<close> for the value that the routine returned.
\<close>

definition child_routine ::
    "'u env \<Rightarrow> child_thread \<Rightarrow> 'u runtime \<Rightarrow> (bool \<times> dword option \<times> 'u runtime) option" where
  "child_routine env t s =
     do {
       (r, s) \<leftarrow> Code env (StartAddress t) (ChildId t) s;
       (case r of
          Returned _ \<Rightarrow> Some (False, None, s)
        | ExitThread Exit \<Rightarrow> Some (True, Some Exit, s)
        | RaiseException ExcpCode \<Rightarrow>
            do {
              f \<leftarrow> Filaments (Fil s) (ChildFilament t);
              (case CfixpExceptionFilter env (ChildId t) ExcpCode f False s of
                 ((ExecuteHandler, _), s) \<Rightarrow>
                   if ExecuteHandler then Some (False, Some CFIX_EXIT_THREAD_ABORTED, s) else None)
            })
     }"

definition child_finish :: "'u env \<Rightarrow> child_thread \<Rightarrow> 'u runtime \<Rightarrow> (dword option \<times> 'u runtime) option" where
  "child_finish env t s =
     do {
       (Ended, ExitCode, s) \<leftarrow> child_routine env t s;
       (if Ended
        then do {
          fs \<leftarrow> CfixpCleanupLeakedFilamentForDetachingThread (DupHandle env (Fil s)) (ChildId t) (Fil s);
          Some (ExitCode, s\<lparr>Fil := fs\<rparr>)
        }
        else do {
          (ctx, main) \<leftarrow> child_context env (ChildFilament t) s;
          let s = s\<lparr>Obs := AfterChildThreadFinish ctx (CfixpInitializeThreadId main (ChildId t))
                          (ParentContext t) (Obs s)\<rparr>;
          (_, fs) \<leftarrow> CfixpSetCurrentFilament (DupHandle env (Fil s)) (ChildId t) None (Fil s);
          Some (ExitCode, s\<lparr>Fil := fs\<rparr>)
        })
     }"

definition CfixsThreadStart :: "'u env \<Rightarrow> child_thread \<Rightarrow> 'u runtime \<Rightarrow> (dword option \<times> 'u runtime) option" where
  "CfixsThreadStart env t s =
     do {
       (Hr, s) \<leftarrow> child_begin env t s;
       (if FAILED Hr then Some (Some 0, s) else child_finish env t s)
     }"

section \<open>Creation\<close>

text \<open>
  \<open>create_event\<close> is the error of \<open>CreateEvent\<close>, if any; \<open>spawn\<close> is \<open>_beginthreadex\<close> or \<open>CreateThread\<close>,
  with the id of the thread. The result is the new thread, to whose handle the caller is entitled.
\<close>

definition CfixCreateThread2 ::
    "'u env \<Rightarrow> ulong \<Rightarrow> dword option \<Rightarrow> (bool \<Rightarrow> dword + ulong) \<Rightarrow> ulong_ptr \<Rightarrow> dword \<Rightarrow> ulong \<Rightarrow>
       'u thread_world \<Rightarrow> (child_thread option \<times> 'u thread_world) option" where
  "CfixCreateThread2 env me create_event spawn Start CreationFlags Flags w =
     (if CFIX_THREAD_FLAG_CRT < Flags then Some (None, w\<lparr>LastError := ERROR_INVALID_PARAMETER\<rparr>)
      else do {
        ((Hr, f, _), s) \<leftarrow> current_filament env me (Rt w);
        let w = w\<lparr>Rt := s\<rparr>;
        (if FAILED Hr then Some (None, w\<lparr>LastError := Hr\<rparr>)
         else do {
           Filament \<leftarrow> f;
           (ctx, main) \<leftarrow> child_context env Filament s;
           (case create_event of
              Some err \<Rightarrow> Some (None, w\<lparr>LastError := err\<rparr>)
            | None \<Rightarrow>
                let ((Hr, p), u) = CreateChildThread ctx (CfixpInitializeThreadId main me) (Obs s);
                    w = w\<lparr>Rt := s\<lparr>Obs := u\<rparr>, EventHandles := EventHandles w + 1\<rparr>
                in if FAILED Hr then Some (None, w\<lparr>LastError := Hr\<rparr>)
                   else case spawn (CfixpFlagOn Flags CFIX_THREAD_FLAG_CRT) of
                     Inl err \<Rightarrow> Some (None, w\<lparr>LastError := err\<rparr>)
                   | Inr child \<Rightarrow>
                       if CfixpFlagOn CreationFlags CREATE_SUSPENDED then None
                       else do {
                         let t = \<lparr>ChildId = child, StartAddress = Start, ParentContext = p,
                                  ChildFilament = Filament\<rparr>;
                         (Hr, s) \<leftarrow> child_begin env t (Rt w);
                         let w = w\<lparr>Rt := s, EventHandles := EventHandles w - 1\<rparr>;
                         (if FAILED Hr then Some (None, w\<lparr>LastError := Hr\<rparr>)
                          else Some (Some t, w\<lparr>ThreadHandles := ThreadHandles w + 1\<rparr>))
                       })
         })
      })"

definition CfixCreateThread ::
    "'u env \<Rightarrow> ulong \<Rightarrow> dword option \<Rightarrow> (bool \<Rightarrow> dword + ulong) \<Rightarrow> ulong_ptr \<Rightarrow> dword \<Rightarrow>
       'u thread_world \<Rightarrow> (child_thread option \<times> 'u thread_world) option" where
  "CfixCreateThread env me create_event spawn Start CreationFlags =
     CfixCreateThread2 env me create_event spawn Start CreationFlags 0"

end
