(* ===== verification/ThreadsInv.thy ===== *)
theory ThreadsInv
  imports Threads FilamentInv
begin

text \<open>
  What a child thread does to its filament and to the execution context, and what creation leaves
  when it fails.
\<close>

section \<open>Life of a child thread\<close>

text \<open>
  \<open>may_adopt\<close>: the thread has no filament yet, and its filament is alive, has room for another
  thread, and is the default filament or there is none.
\<close>

definition may_adopt :: "fil_state \<Rightarrow> ulong \<Rightarrow> nat \<Rightarrow> filament \<Rightarrow> bool" where
  "may_adopt s t f fil \<longleftrightarrow> Filaments s f = Some fil \<and> TlsFilament s t = None
     \<and> t \<noteq> FilMainThreadId fil \<and> length (ChildThreads fil) < CFIX_MAX_THREADS
     \<and> (CfixpFlagOn (FilFlags fil) CFIXP_FILAMENT_FLAG_DEFAULT_FILAMENT
        \<or> DefaultFilament s = None \<and> DefaultLock s = None)"

definition adopted :: "fil_state \<Rightarrow> ulong \<Rightarrow> nat \<Rightarrow> filament \<Rightarrow> nat \<Rightarrow> fil_state" where
  "adopted s t f fil h = s\<lparr>OpenHandles := insert h (OpenHandles s),
     Filaments := (Filaments s)(f \<mapsto> fil\<lparr>ChildThreads := ChildThreads fil @ [h]\<rparr>),
     CtxRefs := (CtxRefs s)(ExecutionContext fil := CtxRefs s (ExecutionContext fil) + 1),
     TlsFilament := (TlsFilament s)(t \<mapsto> (f, False))\<rparr>"

lemma set_current_adopts:
  assumes "may_adopt s t f fil"
  shows "CfixpSetCurrentFilament (Inr h) t (Some f) s = Some ((S_OK, None), adopted s t f fil h)"
proof (cases "CfixpFlagOn (FilFlags fil) CFIXP_FILAMENT_FLAG_DEFAULT_FILAMENT")
  case True
  with assms show ?thesis by (simp add: may_adopt_def fil_eval adopted_def)
next
  case False
  with assms show ?thesis by (cases s) (simp add: may_adopt_def fil_eval adopted_def Let_def)
qed

lemma child_begin_adopts:
  assumes "may_adopt (Fil s) (ChildId t) (ChildFilament t) fil" and "DupHandle env (Fil s) = Inr h"
  shows "child_begin env t s = Some (S_OK, s\<lparr>Fil := adopted (Fil s) (ChildId t) (ChildFilament t) fil h,
           Obs := BeforeChildThreadStart (Contexts env (ExecutionContext fil))
             \<lparr>ThreadId = ChildId t, MainThreadId = FilMainThreadId fil\<rparr> (ParentContext t) (Obs s)\<rparr>)"
  by (simp add: child_begin_def assms(2) set_current_adopts [OF assms(1)] child_context_def
      adopted_def CfixpInitializeThreadId_def)

text \<open>\<open>kept\<close>: what the code of the thread must leave as it is for the thread to be able to leave.\<close>

definition kept :: "child_thread \<Rightarrow> filament \<Rightarrow> fil_state \<Rightarrow> bool" where
  "kept t fil s \<longleftrightarrow> TlsFilament s (ChildId t) = Some (ChildFilament t, False)
     \<and> ChildId t \<noteq> FilMainThreadId fil
     \<and> (\<exists>fil'. Filaments s (ChildFilament t) = Some fil' \<and> ExecutionContext fil' = ExecutionContext fil
          \<and> FilMainThreadId fil' = FilMainThreadId fil)"

definition left :: "fil_state \<Rightarrow> ulong \<Rightarrow> nat \<Rightarrow> fil_state" where
  "left s t c = s\<lparr>CtxRefs := (CtxRefs s)(c := CtxRefs s c - 1), TlsFilament := (TlsFilament s)(t := None)\<rparr>"

lemma set_none_leaves:
  assumes "kept t fil s"
  shows "CfixpSetCurrentFilament dup (ChildId t) None s =
    Some ((S_OK, Some (ChildFilament t)), left s (ChildId t) (ExecutionContext fil))"
  using assms by (auto simp: kept_def fil_eval left_def)

lemma detach_leaves:
  assumes "kept t fil s"
  shows "CfixpCleanupLeakedFilamentForDetachingThread dup (ChildId t) s =
    Some (left s (ChildId t) (ExecutionContext fil))"
  using assms by (auto simp: kept_def fil_eval left_def CfixpCleanupLeakedFilamentForDetachingThread_def
      CfixsGetCurrentFilament_def)

text \<open>What the routine of the thread amounts to for the context, once it has ended.\<close>

definition ends :: "'u env \<Rightarrow> child_thread \<Rightarrow> 'u runtime \<Rightarrow> bool \<Rightarrow> 'u runtime \<Rightarrow> bool" where
  "ends env t s by_itself s' \<longleftrightarrow> (\<exists>Exit. child_routine env t s = Some (by_itself, Exit, s'))"

lemma child_finish_leaves:
  assumes "ends env t s by_itself s'" and "kept t fil (Fil s')"
  shows "\<exists>Exit. child_finish env t s = Some (Exit, s'\<lparr>Fil := left (Fil s') (ChildId t) (ExecutionContext fil),
           Obs := (if by_itself then Obs s'
                   else AfterChildThreadFinish (Contexts env (ExecutionContext fil))
                     \<lparr>ThreadId = ChildId t, MainThreadId = FilMainThreadId fil\<rparr> (ParentContext t) (Obs s'))\<rparr>)"
proof -
  from assms(1) obtain Exit where r: "child_routine env t s = Some (by_itself, Exit, s')"
    by (auto simp: ends_def)
  from assms(2) have c: "child_context env (ChildFilament t) s' =
      Some (Contexts env (ExecutionContext fil), FilMainThreadId fil)"
    by (auto simp: kept_def child_context_def)
  show ?thesis
    by (cases by_itself) (simp_all add: child_finish_def r c set_none_leaves [OF assms(2)]
        detach_leaves [OF assms(2)] CfixpInitializeThreadId_def)
qed

section \<open>Creation\<close>

text \<open>The parts of creation before the thread is spawned, when the creator has a filament of its own.\<close>

lemma create_thread_eq:
  fixes Start :: ulong_ptr
  assumes "TlsFilament (Fil (Rt w)) me = Some (f, d)" and "Filaments (Fil (Rt w)) f = Some fil"
    and "CreateChildThread (Contexts env (ExecutionContext fil))
           \<lparr>ThreadId = me, MainThreadId = FilMainThreadId fil\<rparr> (Obs (Rt w)) = ((S_OK, p), u)"
    and "spawn (CfixpFlagOn Flags CFIX_THREAD_FLAG_CRT) = Inr child" and "Flags \<le> CFIX_THREAD_FLAG_CRT"
    and "\<not> CfixpFlagOn CreationFlags CREATE_SUSPENDED"
  defines "t \<equiv> \<lparr>ChildId = child, StartAddress = Start, ParentContext = p, ChildFilament = f\<rparr>"
  shows "CfixCreateThread2 env me None spawn Start CreationFlags Flags w =
    map_option (\<lambda>(Hr, s).
        if FAILED Hr then (None, w\<lparr>Rt := s, LastError := Hr\<rparr>)
        else (Some t, w\<lparr>Rt := s, ThreadHandles := ThreadHandles w + 1\<rparr>))
      (child_begin env t (Rt w\<lparr>Obs := u\<rparr>))"
proof -
  have cur: "current_filament env me (Rt w) = Some ((S_OK, Some f, d), Rt w)"
    using assms(1) by (simp add: current_filament_def CfixpGetCurrentFilament_def
        CfixsGetCurrentFilament_def CfixsGetTlsFilament_def)
  show ?thesis
    using assms(2-6)
    by (cases "child_begin env t (Rt w\<lparr>Obs := u\<rparr>)")
      (auto simp: CfixCreateThread2_def cur child_context_def CfixpInitializeThreadId_def t_def not_less)
qed

text \<open>A filament that is full refuses the thread: the context hears of no start, and nothing is kept.\<close>

lemma child_begin_full:
  assumes "Filaments (Fil s) (ChildFilament t) = Some fil" and "TlsFilament (Fil s) (ChildId t) = None"
    and "ChildId t \<noteq> FilMainThreadId fil" and "length (ChildThreads fil) = CFIX_MAX_THREADS"
    and "DupHandle env (Fil s) = Inr h" and "h \<notin> OpenHandles (Fil s)"
  shows "child_begin env t s = Some (CFIX_E_TOO_MANY_CHILD_THREADS, s)"
proof -
  obtain fs o' where s: "s = \<lparr>Fil = fs, Obs = o'\<rparr>" by (cases s)
  have "(TlsFilament fs)(ChildId t := None) = TlsFilament fs" using assms(2) s by auto
  with assms show ?thesis
    by (cases fs) (auto simp: s child_begin_def fil_eval)
qed

lemma full_filament_refuses_thread:
  assumes "TlsFilament (Fil (Rt w)) me = Some (f, d)" and "Filaments (Fil (Rt w)) f = Some fil"
    and "CreateChildThread (Contexts env (ExecutionContext fil))
           \<lparr>ThreadId = me, MainThreadId = FilMainThreadId fil\<rparr> (Obs (Rt w)) = ((S_OK, p), u)"
    and "spawn (CfixpFlagOn Flags CFIX_THREAD_FLAG_CRT) = Inr child" and "Flags \<le> CFIX_THREAD_FLAG_CRT"
    and "\<not> CfixpFlagOn CreationFlags CREATE_SUSPENDED"
    and "TlsFilament (Fil (Rt w)) child = None" and "child \<noteq> FilMainThreadId fil"
    and "length (ChildThreads fil) = CFIX_MAX_THREADS"
    and "DupHandle env (Fil (Rt w)) = Inr h" and "h \<notin> OpenHandles (Fil (Rt w))"
  shows "CfixCreateThread2 env me None spawn Start CreationFlags Flags w =
    Some (None, w\<lparr>Rt := Rt w\<lparr>Obs := u\<rparr>, LastError := CFIX_E_TOO_MANY_CHILD_THREADS\<rparr>)"
  using create_thread_eq [where Start = Start and env = env and spawn = spawn and Flags = Flags, OF assms(1-6)]
    child_begin_full [of "Rt w\<lparr>Obs := u\<rparr>" "\<lparr>ChildId = child, StartAddress = Start, ParentContext = p,
      ChildFilament = f\<rparr>" fil env h] assms
  by simp

text \<open>
  When the context refuses the thread, or it cannot be spawned, the event stays open.
\<close>

lemma refused_thread_leaks_event:
  assumes "TlsFilament (Fil (Rt w)) me = Some (f, d)" and "Filaments (Fil (Rt w)) f = Some fil"
    and "CreateChildThread (Contexts env (ExecutionContext fil))
           \<lparr>ThreadId = me, MainThreadId = FilMainThreadId fil\<rparr> (Obs (Rt w)) = ((Hr, p), u)"
    and "FAILED Hr \<or> spawn (CfixpFlagOn Flags CFIX_THREAD_FLAG_CRT) = Inl err" and "Flags \<le> CFIX_THREAD_FLAG_CRT"
  shows "\<exists>w'. CfixCreateThread2 env me None spawn Start CreationFlags Flags w = Some (None, w')
    \<and> EventHandles w' = EventHandles w + 1"
proof -
  have cur: "current_filament env me (Rt w) = Some ((S_OK, Some f, d), Rt w)"
    using assms(1) by (simp add: current_filament_def CfixpGetCurrentFilament_def
        CfixsGetCurrentFilament_def CfixsGetTlsFilament_def)
  moreover have "(CFIX_THREAD_FLAG_CRT < Flags) = False" using assms(5) by simp
  ultimately show ?thesis using assms(2-4)
    by (cases "FAILED Hr") (simp_all only: CfixCreateThread2_def if_False, simp_all add: CfixCreateThread2_def child_context_def
        CfixpInitializeThreadId_def)
qed


text \<open>A context that logs the values that it gave for threads, and a routine that returns at once.\<close>

definition logging_context :: "ulong_ptr list exec_context" where
  "logging_context = \<lparr>ContextVersion = CFIX_TEST_CONTEXT_VERSION, ContextRoutinesPresent = True,
     ReportEvent = (\<lambda>_ _ u. (CfixContinue, u)), QueryDefaultDisposition = (\<lambda>_ u. (CfixContinue, u)),
     BeforeFixtureStart = (\<lambda>_ _ u. (S_OK, u)), AfterFixtureFinish = (\<lambda>_ _ _ u. u),
     BeforeTestCaseStart = (\<lambda>_ _ u. (S_OK, u)), AfterTestCaseFinish = (\<lambda>_ _ _ u. u),
     CreateChildThread = (\<lambda>_ u. ((S_OK, 0x77), u)), BeforeChildThreadStart = (\<lambda>_ p u. u @ [p]),
     AfterChildThreadFinish = (\<lambda>_ p u. u @ [p + 1]), OnUnhandledException = (\<lambda>_ _ u. u),
     ContextReference = id, ContextDereference = id\<rparr>"

definition thread_env :: "ulong_ptr list env" where
  "thread_env = \<lparr>Contexts = (\<lambda>_. logging_context), DebuggerPresent = False,
     CaptureStackTrace = (\<lambda>_. None), DupHandle = (\<lambda>_. Inr 5), WaitThreads = (\<lambda>_ _ _. Some False),
     StackAddress = (\<lambda>_. 9), Code = (\<lambda>_ _ s. Some (Returned (), s))\<rparr>"

definition demo_thread_world :: "ulong_ptr list thread_world" where
  "demo_thread_world = \<lparr>Rt = \<lparr>Fil = demo_fil, Obs = []\<rparr>, EventHandles = 0, ThreadHandles = 0, LastError = 0\<rparr>"


end
