(* ===== verification/DiagHandlers.thy ===== *)
theory DiagHandlers
  imports Session
begin

text \<open>
  The handlers of cdiag that write events out: to a routine of the client
  (\<open>cdiag/cdiag/outputhandler.c\<close>) and to a text file (\<open>cdiag/cdiag/textfilehandler.c\<close>).

  A handler takes its formatter from a session and holds a reference to it. \<open>Format\<close> is the method
  of the formatter, with the size of the buffer in characters. The state has the objects of the
  session, the texts given to output routines, the bytes of each file, and the number of blocks,
  critical sections and files that are in use. The critical section of a file makes each append
  one step.
\<close>

section \<open>State\<close>

type_synonym format_method = "objref \<Rightarrow> event_packet \<Rightarrow> nat \<Rightarrow> hresult \<times> wstring"

record handler_world =
  Objects :: world
  HandlerBlocks :: int
  FileLocks :: int
  FilesOpen :: int
  FileBytes :: "nat \<Rightarrow> 8 word list"
  OutputTexts :: "wstring list"

record out_handler =
  OutReferenceCount :: int
  OutFormatter :: "objref option"

datatype file_encoding = CdiagEncodingUtf16 | CdiagEncodingUtf8

record file_handler =
  FileReferenceCount :: int
  FileFormatter :: "objref option"
  FileEncoding :: file_encoding
  FileHandle :: nat

abbreviation CdiagSessionFormatter :: dword where "CdiagSessionFormatter \<equiv> 4"

definition in_objects :: "(world \<Rightarrow> world option) \<Rightarrow> handler_world \<Rightarrow> handler_world option" where
  "in_objects f hw = map_option (\<lambda>w. hw\<lparr>Objects := w\<rparr>) (f (Objects hw))"

definition free_block :: "handler_world \<Rightarrow> handler_world" where
  "free_block hw = hw\<lparr>HandlerBlocks := HandlerBlocks hw - 1\<rparr>"

text \<open>The formatter of the session, with a reference.\<close>

definition obtain_formatter ::
    "bool \<Rightarrow> handler_world \<Rightarrow> ((hresult \<times> objref option) \<times> handler_world) option" where
  "obtain_formatter valid hw =
     do {
       (Hr, v, w) \<leftarrow> CdiagQueryInformationSession True valid CdiagSessionFormatter 0 (Objects hw);
       Some ((Hr, object_value v), hw\<lparr>Objects := w\<rparr>)
     }"

section \<open>Output handler\<close>

definition CdiagsOutHandle ::
    "format_method \<Rightarrow> bool \<Rightarrow> out_handler \<Rightarrow> event_packet \<Rightarrow> handler_world \<Rightarrow>
       (hresult \<times> handler_world) option" where
  "CdiagsOutHandle Format valid Oh Packet hw =
     (if \<not> valid then Some (E_INVALIDARG, hw)
      else do {
        Fmt \<leftarrow> OutFormatter Oh;
        (case Format Fmt Packet 3072 of
           (Hr, Buffer) \<Rightarrow>
             Some (if FAILED Hr then (Hr, hw)
                   else (S_OK, hw\<lparr>OutputTexts := OutputTexts hw @ [Buffer]\<rparr>)))
      })"

definition CdiagsOutDeleteHandler :: "out_handler \<Rightarrow> handler_world \<Rightarrow> handler_world option" where
  "CdiagsOutDeleteHandler Oh hw =
     map_option free_block (in_objects (Dereference_opt (OutFormatter Oh)) hw)"

definition CdiagsOutSetNextHandler :: hresult where
  "CdiagsOutSetNextHandler = CDIAG_E_CHAINING_NOT_SUPPORTED"

definition CdiagsOutGetNextHandler :: hresult where
  "CdiagsOutGetNextHandler = CDIAG_E_CHAINING_NOT_SUPPORTED"

definition CdiagsOutReferenceHandler :: "out_handler \<Rightarrow> out_handler" where
  "CdiagsOutReferenceHandler Oh = Oh\<lparr>OutReferenceCount := OutReferenceCount Oh + 1\<rparr>"

definition CdiagsOutDereferenceHandler ::
    "out_handler \<Rightarrow> handler_world \<Rightarrow> (out_handler option \<times> handler_world) option" where
  "CdiagsOutDereferenceHandler Oh hw =
     (let Oh = Oh\<lparr>OutReferenceCount := OutReferenceCount Oh - 1\<rparr>
      in if OutReferenceCount Oh = 0 then map_option (Pair None) (CdiagsOutDeleteHandler Oh hw)
         else Some (Some Oh, hw))"

text \<open>\<open>args\<close>: session, routine and result are given; \<open>valid\<close>: the session is one.\<close>

definition CdiagCreateOutputHandler ::
    "bool \<Rightarrow> bool \<Rightarrow> bool \<Rightarrow> handler_world \<Rightarrow> ((hresult + out_handler) \<times> handler_world) option" where
  "CdiagCreateOutputHandler args valid alloc hw =
     (if \<not> args then Some (Inl E_INVALIDARG, hw)
      else if \<not> alloc then Some (Inl E_OUTOFMEMORY, hw)
      else do {
        let hw = hw\<lparr>HandlerBlocks := HandlerBlocks hw + 1\<rparr>;
        ((Hr, f), hw) \<leftarrow> obtain_formatter valid hw;
        (let Oh = \<lparr>OutReferenceCount = 1, OutFormatter = f\<rparr>
         in if FAILED Hr then map_option (Pair (Inl Hr)) (CdiagsOutDeleteHandler Oh hw)
            else Some (Inr Oh, hw))
      })"

section \<open>Text file handler\<close>

text \<open>
  \<open>write\<close> is the error of \<open>WriteFile\<close>, if any; \<open>utf8\<close> is \<open>WideCharToMultiByte\<close> into a buffer of the
  given number of bytes, without the terminator.
\<close>

definition CdiagsAppendToFile ::
    "(nat \<Rightarrow> 8 word list \<Rightarrow> dword option) \<Rightarrow> nat \<Rightarrow> 8 word list \<Rightarrow> handler_world \<Rightarrow>
       hresult \<times> handler_world" where
  "CdiagsAppendToFile write File Buffer hw =
     (case write File Buffer of
        None \<Rightarrow> (S_OK, hw\<lparr>FileBytes := (FileBytes hw)(File := FileBytes hw File @ Buffer)\<rparr>)
      | Some err \<Rightarrow> (HRESULT_FROM_WIN32 err, hw))"

definition CdiagsConvertToUtf8AndAppendToFile ::
    "(nat \<Rightarrow> 8 word list \<Rightarrow> dword option) \<Rightarrow> (wstring \<Rightarrow> nat \<Rightarrow> dword + 8 word list) \<Rightarrow> nat \<Rightarrow> wstring \<Rightarrow>
       handler_world \<Rightarrow> hresult \<times> handler_world" where
  "CdiagsConvertToUtf8AndAppendToFile write utf8 File Utf16Buffer hw =
     (case utf8 Utf16Buffer 2048 of
        Inl err \<Rightarrow> (HRESULT_FROM_WIN32 err, hw)
      | Inr Utf8Buffer \<Rightarrow> CdiagsAppendToFile write File Utf8Buffer hw)"

text \<open>The characters in memory, low byte first.\<close>

definition utf16_bytes :: "wstring \<Rightarrow> 8 word list" where
  "utf16_bytes str = concat (map (\<lambda>c. [ucast c, ucast (drop_bit 8 c)]) str)"

definition CdiagsTextFileHandle ::
    "format_method \<Rightarrow> (nat \<Rightarrow> 8 word list \<Rightarrow> dword option) \<Rightarrow> (wstring \<Rightarrow> nat \<Rightarrow> dword + 8 word list) \<Rightarrow>
       bool \<Rightarrow> file_handler \<Rightarrow> event_packet \<Rightarrow> handler_world \<Rightarrow> (hresult \<times> handler_world) option" where
  "CdiagsTextFileHandle Format write utf8 valid FileHandler Packet hw =
     (if \<not> valid then Some (E_INVALIDARG, hw)
      else do {
        Fmt \<leftarrow> FileFormatter FileHandler;
        (case Format Fmt Packet 2046 of
           (Hr, Buffer) \<Rightarrow>
             Some (if FAILED Hr then (Hr, hw)
                   else case FileEncoding FileHandler of
                     CdiagEncodingUtf8 \<Rightarrow>
                       CdiagsConvertToUtf8AndAppendToFile write utf8 (FileHandle FileHandler) Buffer hw
                   | CdiagEncodingUtf16 \<Rightarrow>
                       CdiagsAppendToFile write (FileHandle FileHandler) (utf16_bytes Buffer) hw))
      })"

text \<open>The file is not closed.\<close>

definition CdiagsTextFileDeleteHandler :: "file_handler \<Rightarrow> handler_world \<Rightarrow> handler_world option" where
  "CdiagsTextFileDeleteHandler FileHandler hw =
     map_option (\<lambda>hw. free_block (hw\<lparr>FileLocks := FileLocks hw - 1\<rparr>))
       (in_objects (Dereference_opt (FileFormatter FileHandler)) hw)"

definition CdiagsTextFileSetNextHandler :: hresult where
  "CdiagsTextFileSetNextHandler = CDIAG_E_CHAINING_NOT_SUPPORTED"

definition CdiagsTextFileGetNextHandler :: hresult where
  "CdiagsTextFileGetNextHandler = CDIAG_E_CHAINING_NOT_SUPPORTED"

definition CdiagsTextFileReferenceHandler :: "file_handler \<Rightarrow> file_handler" where
  "CdiagsTextFileReferenceHandler FileHandler =
     FileHandler\<lparr>FileReferenceCount := FileReferenceCount FileHandler + 1\<rparr>"

definition CdiagsTextFileDereferenceHandler ::
    "file_handler \<Rightarrow> handler_world \<Rightarrow> (file_handler option \<times> handler_world) option" where
  "CdiagsTextFileDereferenceHandler FileHandler hw =
     (let FileHandler = FileHandler\<lparr>FileReferenceCount := FileReferenceCount FileHandler - 1\<rparr>
      in if FileReferenceCount FileHandler = 0
         then map_option (Pair None) (CdiagsTextFileDeleteHandler FileHandler hw)
         else Some (Some FileHandler, hw))"

text \<open>
  \<open>create\<close> is \<open>CreateFile\<close>, with the handle or the error, \<open>seek\<close> the error of \<open>SetFilePointerEx\<close>;
  \<open>Encoding\<close> is \<open>None\<close> for a value that is not of the enumeration.
\<close>

definition CdiagCreateTextFileHandler ::
    "bool \<Rightarrow> bool \<Rightarrow> bool \<Rightarrow> (wstring \<Rightarrow> dword + nat) \<Rightarrow> (nat \<Rightarrow> dword option) \<Rightarrow> wstring option \<Rightarrow>
       file_encoding option \<Rightarrow> handler_world \<Rightarrow> ((hresult + file_handler) \<times> handler_world) option" where
  "CdiagCreateTextFileHandler args valid alloc create seek FilePath Encoding hw =
     (case (FilePath, Encoding) of
        (Some Path, Some Enc) \<Rightarrow>
          if \<not> args then Some (Inl E_INVALIDARG, hw)
          else case create Path of
            Inl err \<Rightarrow> Some (Inl (HRESULT_FROM_WIN32 err), hw)
          | Inr File \<Rightarrow>
              let hw = hw\<lparr>FilesOpen := FilesOpen hw + 1\<rparr>
              in case seek File of
                Some err \<Rightarrow> Some (Inl (HRESULT_FROM_WIN32 err), hw)
              | None \<Rightarrow>
                  if \<not> alloc then Some (Inl E_OUTOFMEMORY, hw)
                  else do {
                    let hw = hw\<lparr>HandlerBlocks := HandlerBlocks hw + 1, FileLocks := FileLocks hw + 1\<rparr>;
                    ((Hr, f), hw) \<leftarrow> obtain_formatter valid hw;
                    (let FileHandler = \<lparr>FileReferenceCount = 1, FileFormatter = f, FileEncoding = Enc,
                                        FileHandle = File\<rparr>
                     in if FAILED Hr
                        then map_option (Pair (Inl Hr)) (CdiagsTextFileDeleteHandler FileHandler hw)
                        else Some (Inr FileHandler, hw))
                  }
      | _ \<Rightarrow> Some (Inl E_INVALIDARG, hw))"

end
