(* ===== verification/DiagHandlersInv.thy ===== *)
theory DiagHandlersInv
  imports DiagHandlers SessionProps
begin

text \<open>
  What the handlers guarantee: the text file can be read back, a handler gives back what it took,
  and the file that stays open.
\<close>

section \<open>The contents of the file\<close>

fun read_utf16 :: "8 word list \<Rightarrow> wstring" where
  "read_utf16 (a # b # bs) = (ucast a OR push_bit 8 (ucast b)) # read_utf16 bs"
| "read_utf16 bs = []"

lemma character_bytes: "ucast (ucast (c :: wchar) :: 8 word) OR push_bit 8 (ucast (ucast (drop_bit 8 c) :: 8 word)) = c"
proof (rule bit_word_eqI)
  fix n assume "n < LENGTH(16)"
  then show "bit (ucast (ucast c :: 8 word) OR push_bit 8 (ucast (ucast (drop_bit 8 c) :: 8 word)) :: wchar) n = bit c n"
    by (cases "n < 8") (auto simp: bit_simps)
qed

lemma utf16_bytes_simps [simp]:
  "utf16_bytes [] = []"
  "utf16_bytes (c # t) = ucast c # ucast (drop_bit 8 c) # utf16_bytes t"
  "utf16_bytes (s @ t) = utf16_bytes s @ utf16_bytes t"
  by (simp_all add: utf16_bytes_def)

lemma read_utf16_bytes: "read_utf16 (utf16_bytes t) = t"
  by (induction t) (simp_all add: character_bytes)

lemma concat_utf16_bytes: "concat (map utf16_bytes ts) = utf16_bytes (concat ts)"
  by (induction ts) simp_all

text \<open>A sequence of events; the codes that were returned.\<close>

fun handle_all ::
    "(event_packet \<Rightarrow> handler_world \<Rightarrow> (hresult \<times> handler_world) option) \<Rightarrow> event_packet list \<Rightarrow>
       handler_world \<Rightarrow> (hresult list \<times> handler_world) option" where
  "handle_all f [] hw = Some ([], hw)"
| "handle_all f (p # ps) hw =
     do {
       (Hr, hw) \<leftarrow> f p hw;
       (Hrs, hw) \<leftarrow> handle_all f ps hw;
       Some (Hr # Hrs, hw)
     }"

text \<open>The texts that reach the file: those of the events that can be formatted, when it can be written.\<close>

definition logged :: "format_method \<Rightarrow> objref \<Rightarrow> (8 word list \<Rightarrow> dword option) \<Rightarrow> event_packet list \<Rightarrow> wstring list" where
  "logged Format Fmt write ps =
     map snd (filter (\<lambda>(Hr, t). \<not> FAILED Hr \<and> write (utf16_bytes t) = None)
       (map (\<lambda>p. Format Fmt p 2046) ps))"

lemma text_file_reads_back:
  assumes "FileFormatter fh = Some Fmt" and "FileEncoding fh = CdiagEncodingUtf16"
  shows "\<exists>Hrs hw'. handle_all (CdiagsTextFileHandle Format write utf8 True fh) ps hw = Some (Hrs, hw')
    \<and> FileBytes hw' (FileHandle fh) = FileBytes hw (FileHandle fh)
        @ utf16_bytes (concat (logged Format Fmt (write (FileHandle fh)) ps))
    \<and> Objects hw' = Objects hw \<and> (\<forall>f. f \<noteq> FileHandle fh \<longrightarrow> FileBytes hw' f = FileBytes hw f)"
proof (induction ps arbitrary: hw)
  case (Cons p ps)
  obtain Hr t where f: "Format Fmt p 2046 = (Hr, t)" by fastforce
  show ?case
  proof (cases "\<not> FAILED Hr \<and> write (FileHandle fh) (utf16_bytes t) = None")
    case True
    let ?hw = "hw\<lparr>FileBytes := (FileBytes hw)(FileHandle fh := FileBytes hw (FileHandle fh) @ utf16_bytes t)\<rparr>"
    have "CdiagsTextFileHandle Format write utf8 True fh p hw = Some (S_OK, ?hw)"
      using True f assms by (simp add: CdiagsTextFileHandle_def CdiagsAppendToFile_def)
    with Cons.IH [of ?hw] True f show ?thesis by (auto simp: logged_def)
  next
    case False
    then obtain e where "CdiagsTextFileHandle Format write utf8 True fh p hw = Some (e, hw)"
      using f assms by (cases "FAILED Hr") (auto simp: CdiagsTextFileHandle_def CdiagsAppendToFile_def)
    with Cons.IH [of hw] False f show ?thesis by (auto simp: logged_def)
  qed
qed (simp add: logged_def)

section \<open>Accounts\<close>

text \<open>A handler holds one reference to the formatter, and gives it back.\<close>

lemma obtain_formatter_counts:
  assumes "Sess (Objects hw) = Some s" and "ObjRefs (Objects hw) (Formatter s) = Some n"
  shows "obtain_formatter True hw = Some ((S_OK, Some (Formatter s)),
    hw\<lparr>Objects := (Objects hw)\<lparr>ObjRefs := (ObjRefs (Objects hw))(Formatter s \<mapsto> n + 1)\<rparr>\<rparr>)"
  using assms by (simp add: obtain_formatter_def CdiagQueryInformationSession_def Reference_def
      object_value_def)

lemma output_handler_gives_back:
  assumes "Sess (Objects hw) = Some s" and "ObjRefs (Objects hw) (Formatter s) = Some n" and "0 < n"
  shows "\<exists>Oh hw1. CdiagCreateOutputHandler True True True hw = Some (Inr Oh, hw1)
    \<and> ObjRefs (Objects hw1) (Formatter s) = Some (n + 1)
    \<and> CdiagsOutDereferenceHandler Oh hw1 = Some (None, hw)"
proof -
  have w: "(Objects hw)\<lparr>ObjRefs := (ObjRefs (Objects hw))(Formatter s \<mapsto> n)\<rparr> = Objects hw"
    using assms(2) by (cases "Objects hw") (auto simp: fun_upd_idem)
  show ?thesis
    using assms obtain_formatter_counts [of "hw\<lparr>HandlerBlocks := HandlerBlocks hw + 1\<rparr>" s n] w
    by (simp add: CdiagCreateOutputHandler_def CdiagsOutDereferenceHandler_def
        CdiagsOutDeleteHandler_def in_objects_def Dereference_opt_def Dereference_def free_block_def)
qed

lemma text_file_stays_open:
  assumes "Sess (Objects hw) = Some s" and "ObjRefs (Objects hw) (Formatter s) = Some n" and "0 < n"
    and "create Path = Inr File" and "seek File = None"
  shows "\<exists>fh hw1. CdiagCreateTextFileHandler True True True create seek (Some Path) (Some Enc) hw = Some (Inr fh, hw1)
    \<and> CdiagsTextFileDereferenceHandler fh hw1 = Some (None, hw\<lparr>FilesOpen := FilesOpen hw + 1\<rparr>)"
proof -
  have w: "(Objects hw)\<lparr>ObjRefs := (ObjRefs (Objects hw))(Formatter s \<mapsto> n)\<rparr> = Objects hw"
    using assms(2) by (cases "Objects hw") (auto simp: fun_upd_idem)
  show ?thesis
    using assms w obtain_formatter_counts [of "hw\<lparr>FilesOpen := FilesOpen hw + 1,
        HandlerBlocks := HandlerBlocks hw + 1, FileLocks := FileLocks hw + 1\<rparr>" s n]
    by (simp add: CdiagCreateTextFileHandler_def CdiagsTextFileDereferenceHandler_def Let_def
        CdiagsTextFileDeleteHandler_def in_objects_def Dereference_opt_def Dereference_def free_block_def)
qed

lemma failed_creation_keeps_file_open:
  assumes "create Path = Inr File" and "seek File = Some err \<or> seek File = None \<and> \<not> alloc"
  shows "\<exists>Hr. CdiagCreateTextFileHandler True valid alloc create seek (Some Path) (Some Enc) hw =
    Some (Inl Hr, hw\<lparr>FilesOpen := FilesOpen hw + 1\<rparr>)"
  using assms by (auto simp: CdiagCreateTextFileHandler_def Let_def)

end
