(* ===== verification/StackTrace.thy ===== *)
theory StackTrace
  imports EventSink KernelReport
begin

text \<open>
  Capturing stack traces and resolving their frames (\<open>cfix/cfix/stacktrace.c\<close>), and capturing in
  kernel mode (\<open>cfixkern/cfixkr/stacktrace.c\<close>).

  The library dbghelp, the loader and the walk over the stack are functions of the system, given by
  \<open>dbghelp\<close>. The state has the critical section that serializes their use, as its owner and how
  often it has entered, and the module of dbghelp; \<open>DbgLoads\<close> counts the references to it that
  \<open>LoadLibrary\<close> gave and \<open>FreeLibrary\<close> did not take back. To enter a critical section that
  another thread owns does not return (\<open>None\<close>).
\<close>

abbreviation CFIX_E_DBGHELP_MISSING :: hresult where "CFIX_E_DBGHELP_MISSING \<equiv> 0x80048013"
abbreviation CFIX_E_LOADING_DBGHELP_FAILED :: hresult where "CFIX_E_LOADING_DBGHELP_FAILED \<equiv> 0x80048014"
abbreviation STATUS_NOT_IMPLEMENTED :: ntstatus where "STATUS_NOT_IMPLEMENTED \<equiv> 0xC0000002"

section \<open>The system\<close>

datatype machine = I386 | AMD64

text \<open>The registers that are read: \<open>Pc\<close> is Eip or Rip, \<open>Fp\<close> Ebp or Rbp, \<open>Sp\<close> Esp or Rsp.\<close>

record cpu_context =
  Pc :: "64 word"
  Fp :: "64 word"
  Sp :: "64 word"

record walk_frame =
  AddrPC :: "64 word"
  AddrFrame :: "64 word"
  AddrStack :: "64 word"

text \<open>
  Functions answer an error on the left. \<open>ModuleFileName\<close> is the result of \<open>GetModuleFileName\<close> and
  of the path of dbghelp made from it, \<open>LoadLibraryAt\<close> answers zero on failure, \<open>ProcAddress\<close> tells
  which names the module exports. \<open>StackWalk64\<close> may advance the context it is given.
\<close>

record dbghelp =
  ModuleFileName :: "dword + wstring"
  DllPresent :: "wstring \<Rightarrow> bool"
  LoadLibraryAt :: "wstring \<Rightarrow> ulong_ptr"
  ProcAddress :: "string \<Rightarrow> bool"
  SymInitialize :: "dword option"
  StackWalk64 :: "walk_frame \<Rightarrow> cpu_context option \<Rightarrow> (walk_frame \<times> cpu_context option) option"
  SymGetModuleInfo64 :: "64 word \<Rightarrow> dword + wstring"
  SymFromAddr :: "64 word \<Rightarrow> dword + 64 word \<times> wstring"
  UnDecorateSymbolName :: "wstring \<Rightarrow> ulong \<Rightarrow> dword + wstring"
  SymGetLineFromAddr64 :: "64 word \<Rightarrow> (ulong \<times> wstring) option"

section \<open>State\<close>

record dbg_state =
  DbgHelpLock :: "(ulong \<times> nat) option"
  DbgSymInitialized :: bool
  DbgModule :: ulong_ptr
  DbgLoads :: int

definition CfixpSetupStackTraceCapturing :: "dbg_state \<Rightarrow> dbg_state" where
  "CfixpSetupStackTraceCapturing s = s\<lparr>DbgHelpLock := None\<rparr>"

definition CfixpTeardownStackTraceCapturing :: "dbg_state \<Rightarrow> dbg_state" where
  "CfixpTeardownStackTraceCapturing s =
     (if DbgModule s \<noteq> 0 then s\<lparr>DbgLoads := DbgLoads s - 1\<rparr> else s)"

definition enter_dbghelp :: "ulong \<Rightarrow> dbg_state \<Rightarrow> dbg_state option" where
  "enter_dbghelp me s =
     (case DbgHelpLock s of
        None \<Rightarrow> Some (s\<lparr>DbgHelpLock := Some (me, 1)\<rparr>)
      | Some (owner, n) \<Rightarrow> if owner = me then Some (s\<lparr>DbgHelpLock := Some (me, n + 1)\<rparr>) else None)"

definition leave_dbghelp :: "dbg_state \<Rightarrow> dbg_state" where
  "leave_dbghelp s =
     s\<lparr>DbgHelpLock := (case DbgHelpLock s of
        None \<Rightarrow> None
      | Some (owner, n) \<Rightarrow> if n \<le> 1 then None else Some (owner, n - 1))\<rparr>"

section \<open>Linking dbghelp\<close>

definition dbghelp_exports :: "string list" where
  "dbghelp_exports =
     [''SymInitializeW'', ''SymFunctionTableAccess64'', ''SymGetModuleBase64'', ''StackWalk64'',
      ''SymGetLineFromAddrW64'', ''UnDecorateSymbolNameW'', ''SymFromAddrW'', ''SymGetModuleInfoW64'']"

definition CfixsLinkDbghelp :: "dbghelp \<Rightarrow> dbg_state \<Rightarrow> hresult \<times> dbg_state" where
  "CfixsLinkDbghelp env s =
     (case ModuleFileName env of
        Inl err \<Rightarrow> (HRESULT_FROM_WIN32 err, s)
      | Inr ModulePath \<Rightarrow>
          if \<not> DllPresent env ModulePath then (CFIX_E_DBGHELP_MISSING, s)
          else
            let Module = LoadLibraryAt env ModulePath;
                s = s\<lparr>DbgModule := Module\<rparr>
            in if Module = 0 then (CFIX_E_LOADING_DBGHELP_FAILED, s)
               else
                 let s = s\<lparr>DbgLoads := DbgLoads s + 1\<rparr>
                 in (if list_all (ProcAddress env) dbghelp_exports then S_OK
                     else CFIX_E_LOADING_DBGHELP_FAILED, s))"

definition CfixsLazyInitializeDbgHelp :: "dbghelp \<Rightarrow> dbg_state \<Rightarrow> hresult \<times> dbg_state" where
  "CfixsLazyInitializeDbgHelp env s =
     (if DbgSymInitialized s then (S_OK, s)
      else case CfixsLinkDbghelp env s of
        (Hr, s) \<Rightarrow>
          if FAILED Hr then (Hr, s)
          else case SymInitialize env of
                 None \<Rightarrow> (S_OK, s\<lparr>DbgSymInitialized := True\<rparr>)
               | Some err \<Rightarrow> (HRESULT_FROM_WIN32 err, s))"

section \<open>Capturing\<close>

definition first_frame :: "machine \<Rightarrow> cpu_context \<Rightarrow> walk_frame" where
  "first_frame m Context =
     \<lparr>AddrPC = Pc Context, AddrFrame = (if m = I386 then Fp Context else Sp Context),
      AddrStack = Sp Context\<rparr>"

text \<open>The loop, for as many frames as there is room left; the base of the stack has no address.\<close>

fun walk_stack :: "dbghelp \<Rightarrow> nat \<Rightarrow> walk_frame \<Rightarrow> cpu_context option \<Rightarrow> 64 word list" where
  "walk_stack env 0 f Context = []"
| "walk_stack env (Suc room) f Context =
     (case StackWalk64 env f Context of
        None \<Rightarrow> []
      | Some (f, Context) \<Rightarrow>
          if AddrPC f \<noteq> 0 then AddrPC f # walk_stack env room f Context else [])"

text \<open>\<open>Current\<close> is the context that the routine captures when it is not given one.\<close>

definition CfixpCaptureStackTrace ::
    "dbghelp \<Rightarrow> machine \<Rightarrow> ulong \<Rightarrow> cpu_context \<Rightarrow> cpu_context option \<Rightarrow> nat \<Rightarrow> dbg_state \<Rightarrow>
       ((hresult \<times> 64 word list) \<times> dbg_state) option" where
  "CfixpCaptureStackTrace env m me Current InitialContext MaxFrames s =
     (let Context = (case InitialContext of None \<Rightarrow> Current | Some c \<Rightarrow> c)
      in do {
        s \<leftarrow> enter_dbghelp me s;
        let (Hr, s) = CfixsLazyInitializeDbgHelp env s;
        Some ((Hr, if SUCCEEDED Hr
                   then walk_stack env MaxFrames (first_frame m Context)
                          (if m = I386 then None else Some Context)
                   else []), leave_dbghelp s)
      })"

section \<open>Resolving frames\<close>

text \<open>What has been written to the variables of the caller.\<close>

record frame_info =
  InfoModule :: "wstring option"
  InfoFunction :: "wstring option"
  InfoDisplacement :: "ulong option"
  InfoSourceFile :: "wstring option"
  InfoSourceLine :: "ulong option"

definition no_info :: frame_info where
  "no_info = \<lparr>InfoModule = None, InfoFunction = None, InfoDisplacement = None,
              InfoSourceFile = None, InfoSourceLine = None\<rparr>"

definition copy_text :: "nat \<Rightarrow> wstring \<Rightarrow> hresult \<times> wstring" where
  "copy_text Cch t = (if length t < Cch then (S_OK, t) else (0x8007007A, take (Cch - 1) t))"

definition source_of :: "dbghelp \<Rightarrow> 64 word \<Rightarrow> nat \<Rightarrow> frame_info \<Rightarrow> hresult \<times> frame_info" where
  "source_of env Frame SourceFileCch i =
     (case SymGetLineFromAddr64 env Frame of
        Some (LineNumber, FileName) \<Rightarrow>
          (case copy_text SourceFileCch FileName of
             (Hr, t) \<Rightarrow> (if FAILED Hr then Hr else S_OK,
                         i\<lparr>InfoSourceLine := Some LineNumber, InfoSourceFile := Some t\<rparr>))
      | None \<Rightarrow> (S_OK, i\<lparr>InfoSourceLine := Some 0, InfoSourceFile := Some []\<rparr>))"

definition function_of ::
    "dbghelp \<Rightarrow> 64 word \<Rightarrow> nat \<Rightarrow> nat \<Rightarrow> frame_info \<Rightarrow> hresult \<times> frame_info" where
  "function_of env Frame FunctionNameCch SourceFileCch i =
     (case SymFromAddr env Frame of
        Inl err \<Rightarrow> (HRESULT_FROM_WIN32 err, i)
      | Inr (Displacement64, Name) \<Rightarrow>
          let i = i\<lparr>InfoDisplacement := Some (ucast Displacement64)\<rparr>
          in case UnDecorateSymbolName env Name (of_nat FunctionNameCch) of
               Inl err \<Rightarrow> (HRESULT_FROM_WIN32 err, i)
             | Inr t \<Rightarrow> source_of env Frame SourceFileCch (i\<lparr>InfoFunction := Some t\<rparr>))"

definition frame_information ::
    "dbghelp \<Rightarrow> 64 word \<Rightarrow> nat \<Rightarrow> nat \<Rightarrow> nat \<Rightarrow> hresult \<times> frame_info" where
  "frame_information env Frame ModuleNameCch FunctionNameCch SourceFileCch =
     (case SymGetModuleInfo64 env Frame of
        Inl err \<Rightarrow> (HRESULT_FROM_WIN32 err, no_info)
      | Inr Name \<Rightarrow>
          case copy_text ModuleNameCch Name of
            (Hr, t) \<Rightarrow>
              let i = no_info\<lparr>InfoModule := Some t\<rparr>
              in if FAILED Hr then (Hr, i)
                 else function_of env Frame FunctionNameCch SourceFileCch i)"

text \<open>\<open>args_ok\<close> tells that no pointer is NULL. A failed initialization returns inside the lock.\<close>

definition CfixpGetInformationStackframe ::
    "dbghelp \<Rightarrow> ulong \<Rightarrow> bool \<Rightarrow> 64 word \<Rightarrow> nat \<Rightarrow> nat \<Rightarrow> nat \<Rightarrow> dbg_state \<Rightarrow>
       ((hresult \<times> frame_info) \<times> dbg_state) option" where
  "CfixpGetInformationStackframe env me args_ok Frame ModuleNameCch FunctionNameCch SourceFileCch s =
     (if Frame = 0 \<or> ModuleNameCch = 0 \<or> FunctionNameCch = 0 \<or> SourceFileCch = 0 \<or> \<not> args_ok
      then Some ((E_INVALIDARG, no_info), s)
      else do {
        s \<leftarrow> enter_dbghelp me s;
        let (Hr, s) = CfixsLazyInitializeDbgHelp env s;
        (if FAILED Hr then Some ((Hr, no_info), s)
         else Some (frame_information env Frame ModuleNameCch FunctionNameCch SourceFileCch,
                    leave_dbghelp s))
      })"

text \<open>The frames of an event as the console asks for them, with the sizes of its buffers.\<close>

fun resolve_trace ::
    "dbghelp \<Rightarrow> ulong \<Rightarrow> 64 word list \<Rightarrow> dbg_state \<Rightarrow> (stack_frame option list \<times> dbg_state) option" where
  "resolve_trace env me [] s = Some ([], s)"
| "resolve_trace env me (f # fs) s =
     do {
       ((Hr, i), s) \<leftarrow> CfixpGetInformationStackframe env me True f 64 100 100 s;
       (rest, s) \<leftarrow> resolve_trace env me fs s;
       Some ((if FAILED Hr then None
              else Some \<lparr>FrameModule = the (InfoModule i), FrameFunction = the (InfoFunction i),
                         FrameDisplacement = the (InfoDisplacement i),
                         FrameSourceFile = the (InfoSourceFile i),
                         FrameSourceLine = the (InfoSourceLine i)\<rparr>) # rest, s)
     }"

section \<open>Kernel mode\<close>

text \<open>
  \<open>Walk\<close> is \<open>RtlWalkFrameChain\<close> for a buffer of the given length. A given context cannot be walked.
\<close>

definition CfixkrpCaptureStackTrace ::
    "(nat \<Rightarrow> ulong_ptr list) \<Rightarrow> bool \<Rightarrow> nat \<Rightarrow> ntstatus \<times> 64 word list option" where
  "CfixkrpCaptureStackTrace Walk HasContext MaxFrames =
     (if HasContext then (STATUS_NOT_IMPLEMENTED, None)
      else (STATUS_SUCCESS, Some (map ucast (Walk (min MaxFrames 64)))))"

end
