(* ===== verification/StackTraceInv.thy ===== *)
theory StackTraceInv
  imports StackTrace
begin

text \<open>
  Stack traces can always be captured, and the frames of captured traces resolved; a frame that was
  not captured can leave the lock entered.
\<close>

section \<open>Initialization\<close>

text \<open>A function of the system that fails has set an error.\<close>

definition errors_set :: "dbghelp \<Rightarrow> bool" where
  "errors_set env \<longleftrightarrow> ModuleFileName env \<noteq> Inl 0 \<and> SymInitialize env \<noteq> Some 0"

lemma link_cases:
  assumes "CfixsLinkDbghelp env s = (Hr, s')"
  shows "DbgHelpLock s' = DbgHelpLock s" "DbgSymInitialized s' = DbgSymInitialized s"
  using assms by (auto simp: CfixsLinkDbghelp_def Let_def split: sum.splits if_splits)

lemma lazy_cases:
  assumes "CfixsLazyInitializeDbgHelp env s = (Hr, s')"
  shows "DbgHelpLock s' = DbgHelpLock s" "errors_set env \<Longrightarrow> SUCCEEDED Hr \<Longrightarrow> DbgSymInitialized s'"
    "DbgSymInitialized s \<Longrightarrow> Hr = S_OK \<and> s' = s"
  using assms link_cases [of env s]
  by (auto simp: CfixsLazyInitializeDbgHelp_def errors_set_def FAILED_HRESULT_FROM_WIN32 split: if_splits option.splits prod.splits)

lemma enter_free: "DbgHelpLock s = None \<Longrightarrow> enter_dbghelp me s = Some (s\<lparr>DbgHelpLock := Some (me, 1)\<rparr>)"
  by (simp add: enter_dbghelp_def)

lemma leave_entered: "DbgHelpLock s = Some (me, 1) \<Longrightarrow> leave_dbghelp s = s\<lparr>DbgHelpLock := None\<rparr>"
  by (simp add: leave_dbghelp_def)

lemma enter_blocked: "DbgHelpLock s = Some (other, n) \<Longrightarrow> other \<noteq> me \<Longrightarrow> enter_dbghelp me s = None"
  by (simp add: enter_dbghelp_def)

section \<open>Capturing\<close>

lemma walk_stack_bound: "length (walk_stack env room f c) \<le> room"
  by (induction env room f c rule: walk_stack.induct) (auto split: option.splits)

lemma walk_stack_nonzero: "0 \<notin> set (walk_stack env room f c)"
  by (induction env room f c rule: walk_stack.induct) (auto split: option.splits)

lemma capture_free:
  assumes "DbgHelpLock s = None"
  obtains Hr fs s' where
    "CfixpCaptureStackTrace env m me Current InitialContext MaxFrames s = Some ((Hr, fs), s')"
    "DbgHelpLock s' = None" "length fs \<le> MaxFrames" "0 \<notin> set fs"
    "errors_set env \<Longrightarrow> fs \<noteq> [] \<Longrightarrow> DbgSymInitialized s'" "DbgSymInitialized s \<Longrightarrow> s' = s"
proof -
  let ?e = "s\<lparr>DbgHelpLock := Some (me, 1)\<rparr>"
  obtain Hr s1 where l: "CfixsLazyInitializeDbgHelp env ?e = (Hr, s1)" by fastforce
  note lz = lazy_cases [OF l]
  have lock: "DbgHelpLock s1 = Some (me, 1)" using lz(1) by simp
  let ?c = "case InitialContext of None \<Rightarrow> Current | Some c \<Rightarrow> c"
  let ?fs = "if SUCCEEDED Hr then walk_stack env MaxFrames (first_frame m ?c)
               (if m = I386 then None else Some ?c) else []"
  have "CfixpCaptureStackTrace env m me Current InitialContext MaxFrames s =
      Some ((Hr, ?fs), s1\<lparr>DbgHelpLock := None\<rparr>)"
    by (simp only: CfixpCaptureStackTrace_def Let_def enter_free [OF assms] l leave_entered [OF lock]
        Option.bind.simps prod.case)
  moreover have "length ?fs \<le> MaxFrames" "0 \<notin> set ?fs"
    using walk_stack_bound walk_stack_nonzero by simp_all
  moreover have "errors_set env \<Longrightarrow> ?fs \<noteq> [] \<Longrightarrow> DbgSymInitialized (s1\<lparr>DbgHelpLock := None\<rparr>)"
    using lz(2) by (simp split: if_splits)
  moreover have "DbgSymInitialized s \<Longrightarrow> s1\<lparr>DbgHelpLock := None\<rparr> = s"
    using lz(3) assms by simp
  ultimately show ?thesis using that by fastforce
qed

section \<open>Resolving\<close>

lemma lookup_initialized:
  assumes "DbgHelpLock s = None" "DbgSymInitialized s"
  obtains Hr i where
    "CfixpGetInformationStackframe env me ok f mc fc sc s = Some ((Hr, i), s)"
proof (cases "f = 0 \<or> mc = 0 \<or> fc = 0 \<or> sc = 0 \<or> \<not> ok")
  case True
  then have "CfixpGetInformationStackframe env me ok f mc fc sc s = Some ((E_INVALIDARG, no_info), s)"
    by (simp add: CfixpGetInformationStackframe_def)
  then show ?thesis by (rule that)
next
  case False
  let ?e = "s\<lparr>DbgHelpLock := Some (me, 1)\<rparr>"
  have "CfixsLazyInitializeDbgHelp env ?e = (S_OK, ?e)"
    using assms(2) by (simp add: CfixsLazyInitializeDbgHelp_def)
  moreover have "leave_dbghelp ?e = s" using assms(1) by (simp add: leave_dbghelp_def)
  ultimately have "CfixpGetInformationStackframe env me ok f mc fc sc s =
      Some (frame_information env f mc fc sc, s)"
    using False by (simp add: CfixpGetInformationStackframe_def enter_free [OF assms(1)])
  then show ?thesis using that by (cases "frame_information env f mc fc sc") simp
qed

lemma trace_resolves:
  assumes "DbgHelpLock s = None" "DbgSymInitialized s"
  obtains rs where "resolve_trace env me fs s = Some (rs, s)" "length rs = length fs"
proof (induction fs arbitrary: thesis)
  case (Cons f fs)
  from Cons.IH obtain rs where "resolve_trace env me fs s = Some (rs, s)" "length rs = length fs" by blast
  moreover obtain Hr i where "CfixpGetInformationStackframe env me True f 64 100 100 s = Some ((Hr, i), s)"
    using lookup_initialized [OF assms] by blast
  ultimately show ?case by (intro Cons.prems) (simp_all, simp)
qed simp

text \<open>A frame that is found is described completely, within the buffers of the caller.\<close>

lemma copy_text_length: "0 < n \<Longrightarrow> length (snd (copy_text n t)) < n"
  by (simp add: copy_text_def)

lemma found_frame_complete:
  assumes "frame_information env f mc fc sc = (Hr, i)" "SUCCEEDED Hr" "0 < mc" "0 < sc"
    and "SymGetModuleInfo64 env f \<noteq> Inl 0" "SymFromAddr env f \<noteq> Inl 0"
      "\<And>n k. UnDecorateSymbolName env n k \<noteq> Inl 0"
  shows "\<exists>m fn d sf l. i = \<lparr>InfoModule = Some m, InfoFunction = Some fn, InfoDisplacement = Some d,
      InfoSourceFile = Some sf, InfoSourceLine = Some l\<rparr> \<and> length m < mc \<and> length sf < sc"
proof -
  from assms(1,2,5) obtain n where "SymGetModuleInfo64 env f = Inr n" and n: "length n < mc"
    by (auto simp: frame_information_def copy_text_def FAILED_HRESULT_FROM_WIN32 Let_def
        split: sum.splits if_splits)
  moreover obtain d fn where "SymFromAddr env f = Inr (d, fn)"
    using assms(1,2,6) calculation
    by (auto simp: frame_information_def function_of_def copy_text_def FAILED_HRESULT_FROM_WIN32 Let_def
        split: sum.splits if_splits)
  moreover obtain t where "UnDecorateSymbolName env fn (of_nat fc) = Inr t"
    using assms(1,2) assms(7) [of fn "of_nat fc"] calculation
    by (auto simp: frame_information_def function_of_def copy_text_def FAILED_HRESULT_FROM_WIN32 Let_def
        split: sum.splits if_splits)
  ultimately show ?thesis using assms(1-4)
    by (auto simp: frame_information_def function_of_def source_of_def copy_text_def no_info_def Let_def
        split: option.splits if_splits)
qed

section \<open>Histories\<close>

text \<open>
  The states that any threads reach by capturing traces, while the system changes as it likes, and
  by resolving frames of traces that were captured; the set has these frames.
\<close>

inductive dbg_reach :: "dbg_state \<Rightarrow> 64 word set \<Rightarrow> bool" where
  dbg_start: "DbgSymInitialized s = False \<Longrightarrow> dbg_reach (CfixpSetupStackTraceCapturing s) {}"
| dbg_capture: "dbg_reach s F \<Longrightarrow> errors_set env \<Longrightarrow>
    CfixpCaptureStackTrace env m me Current InitialContext MaxFrames s = Some ((Hr, fs), s') \<Longrightarrow>
    dbg_reach s' (F \<union> set fs)"
| dbg_lookup: "dbg_reach s F \<Longrightarrow> f \<in> F \<Longrightarrow>
    CfixpGetInformationStackframe env me ok f mc fc sc s = Some (r, s') \<Longrightarrow> dbg_reach s' F"

lemma dbg_reach_inv: "dbg_reach s F \<Longrightarrow> DbgHelpLock s = None \<and> (F \<noteq> {} \<longrightarrow> DbgSymInitialized s)"
proof (induction rule: dbg_reach.induct)
  case (dbg_capture s F env m me Current InitialContext MaxFrames Hr fs s')
  then have lock: "DbgHelpLock s = None" by simp
  from capture_free [OF lock, of env m me Current InitialContext MaxFrames] dbg_capture.hyps(2,3)
  have "DbgHelpLock s' = None" "fs \<noteq> [] \<Longrightarrow> DbgSymInitialized s'" "DbgSymInitialized s \<Longrightarrow> s' = s"
    by (metis option.inject prod.inject)+
  then show ?case using dbg_capture.IH by auto
next
  case (dbg_lookup s F f env me ok mc fc sc r s')
  then have "DbgHelpLock s = None" "DbgSymInitialized s" by auto
  from lookup_initialized [OF this, of env me ok f mc fc sc] dbg_lookup.hyps(3) have "s' = s"
    by (metis option.inject prod.inject)
  then show ?case using dbg_lookup.IH by simp
qed (simp add: CfixpSetupStackTraceCapturing_def)

text \<open>
  In every history of captures and of lookups of captured frames, the next capture returns with at
  most as many frames as asked for, none of them null, and the frames of a trace that was captured
  can be resolved, each of them, by any thread.
\<close>

lemma stack_traces_stay_available:
  assumes "dbg_reach s F"
  shows "\<exists>Hr fs s'. CfixpCaptureStackTrace env m me Current InitialContext MaxFrames s = Some ((Hr, fs), s')
      \<and> length fs \<le> MaxFrames \<and> 0 \<notin> set fs"
    and "set fs \<subseteq> F \<Longrightarrow> \<exists>rs. resolve_trace env me fs s = Some (rs, s) \<and> length rs = length fs"
proof -
  note inv = dbg_reach_inv [OF assms]
  then have lock: "DbgHelpLock s = None" by simp
  show "\<exists>Hr fs s'. CfixpCaptureStackTrace env m me Current InitialContext MaxFrames s = Some ((Hr, fs), s')
      \<and> length fs \<le> MaxFrames \<and> 0 \<notin> set fs"
    by (rule capture_free [OF lock, of env m me Current InitialContext MaxFrames]) blast
  show "\<exists>rs. resolve_trace env me fs s = Some (rs, s) \<and> length rs = length fs" if "set fs \<subseteq> F"
  proof (cases "fs = []")
    case False
    then have "DbgSymInitialized s" using inv that by auto
    from trace_resolves [OF lock this, of env me fs] show ?thesis by blast
  qed simp
qed

text \<open>
  To resolve any other frame while dbghelp cannot be initialized returns with the lock entered:
  the trace of another thread is never captured again.
\<close>

lemma failed_lookup_keeps_lock:
  assumes "DbgHelpLock s = None" "\<not> DbgSymInitialized s" "f \<noteq> 0" "mc \<noteq> 0" "fc \<noteq> 0" "sc \<noteq> 0"
    and "FAILED (fst (CfixsLazyInitializeDbgHelp env (s\<lparr>DbgHelpLock := Some (me, 1)\<rparr>)))"
  shows "\<exists>Hr s'. CfixpGetInformationStackframe env me True f mc fc sc s = Some ((Hr, no_info), s')
      \<and> (\<forall>other env' m Current c n. other \<noteq> me \<longrightarrow>
           CfixpCaptureStackTrace env' m other Current c n s' = None)"
proof -
  obtain Hr s' where l: "CfixsLazyInitializeDbgHelp env (s\<lparr>DbgHelpLock := Some (me, 1)\<rparr>) = (Hr, s')"
    by fastforce
  have lock: "DbgHelpLock s' = Some (me, 1)" using lazy_cases(1) [OF l] by simp
  have "CfixpGetInformationStackframe env me True f mc fc sc s = Some ((Hr, no_info), s')"
    using assms l by (simp add: CfixpGetInformationStackframe_def enter_free)
  moreover have "CfixpCaptureStackTrace env' m other Current c n s' = None" if "other \<noteq> me"
      for other env' m Current c n
    using enter_blocked [OF lock, of other] that by (simp add: CfixpCaptureStackTrace_def Let_def)
  ultimately show ?thesis by blast
qed

text \<open>
  While the symbols cannot be initialized, every capture loads dbghelp once more; the end of the
  process gives back only one of these references.
\<close>

lemma failed_captures_load_again:
  assumes "DbgHelpLock s = None" "\<not> DbgSymInitialized s"
    and "ModuleFileName env = Inr p" "DllPresent env p" "LoadLibraryAt env p \<noteq> 0"
    and "SymInitialize env = Some err" "FAILED (HRESULT_FROM_WIN32 err)"
  shows "\<exists>Hr s'. CfixpCaptureStackTrace env m me Current c n s = Some ((Hr, []), s') \<and> FAILED Hr
      \<and> DbgHelpLock s' = None \<and> \<not> DbgSymInitialized s' \<and> DbgLoads s' = DbgLoads s + 1
      \<and> DbgLoads (CfixpTeardownStackTraceCapturing s') = DbgLoads s"
  using assms
  by (simp add: CfixpCaptureStackTrace_def CfixsLazyInitializeDbgHelp_def CfixsLinkDbghelp_def Let_def
      enter_dbghelp_def leave_dbghelp_def CfixpTeardownStackTraceCapturing_def FAILED_def)

section \<open>Kernel mode\<close>

lemma kernel_trace_bound:
  assumes "\<And>k. length (Walk k) \<le> k"
    and "CfixkrpCaptureStackTrace Walk HasContext MaxFrames = (st, Some fs)"
  shows "NT_SUCCESS st" "length fs \<le> MaxFrames" "length fs \<le> 64"
proof -
  have "fs = map ucast (Walk (min MaxFrames 64))" "st = STATUS_SUCCESS"
    using assms(2) by (auto simp: CfixkrpCaptureStackTrace_def split: if_splits)
  moreover have "length (Walk (min MaxFrames 64)) \<le> min MaxFrames 64" by (rule assms(1))
  ultimately show "NT_SUCCESS st" "length fs \<le> MaxFrames" "length fs \<le> 64"
    by (simp_all add: NT_SUCCESS_def)
qed

end
