(* ===== verification/RunnerMain.thy ===== *)
theory RunnerMain
  imports SelectionRun EventSink
begin

text \<open>
  The main routine of the runner (\<open>cfix/cfixrun/main.c\<close>): the message resolver, the execution
  context with its event sink, the selection of fixtures, their run, and the exit code.

  The program is composed of the parts modelled elsewhere: its state is the world of \<open>Selection\<close>,
  and inside it the proxy of \<open>EventEmitter\<close> over the context of \<open>ExecCtx\<close> and a sink, the resolver
  of \<open>MsgResolver\<close>, and the texts that were printed. Test code is in the loader of modules and may
  change all of it. A run that never returns is \<open>None\<close>. Reading a key is left out.
\<close>

section \<open>State\<close>

record ('k, 'v) run_state =
  Observer :: "(rc_state, 'k) proxy_state"
  EventDlls :: int
  RunResolver :: resolver_world
  Texts :: "wstring list"
  TestState :: 'v

text \<open>
  What the system and the other DLLs provide. \<open>SearchFuel\<close> and \<open>Depth\<close> bound the walk over
  directories and the nesting of sequences.
\<close>

record ('k, 'v) run_env =
  FileSystem :: file_system
  SearchFuel :: nat
  Depth :: nat
  Loader :: "('k, 'v) run_state loader"
  StrStr :: "wstring \<Rightarrow> wstring \<Rightarrow> nat option"
  ContextResources :: "bool \<times> bool \<times> bool"
  ThreadStateAlloc :: "rc_state \<Rightarrow> ulong_ptr"
  SinkMethods :: "'k event_sink"
  LoadEventDll :: "wstring \<Rightarrow> (ulong \<Rightarrow> ulong \<Rightarrow> wstring option \<Rightarrow> 'k \<Rightarrow> hresult \<times> 'k) option option"
  DebuggerPresent :: "('k, 'v) run_state runner \<Rightarrow> bool"
  RunnerThread :: ulong
  ResolverAlloc :: bool
  DllAlloc :: "wstring \<Rightarrow> bool"
  StripPath :: "wstring \<Rightarrow> wstring"
  LoadMessageDll :: "dword \<Rightarrow> wstring \<Rightarrow> dword + nat"
  Lookup :: lookup_message

type_synonym ('k, 'v) run_world = "('k, 'v) run_state sel_world"

definition state_of :: "('k, 'v) run_world \<Rightarrow> ('k, 'v) run_state" where
  "state_of w = RunnerState (Ambient (Runner w))"

definition on_state ::
    "(('k, 'v) run_state \<Rightarrow> ('k, 'v) run_state) \<Rightarrow> ('k, 'v) run_world \<Rightarrow> ('k, 'v) run_world" where
  "on_state f w = w\<lparr>Runner := (Runner w)\<lparr>Ambient := (Ambient (Runner w))\<lparr>RunnerState := f (state_of w)\<rparr>\<rparr>\<rparr>"

text \<open>\<open>PrintConsole\<close> on texts.\<close>

definition say_state :: "run_options \<Rightarrow> wstring list \<Rightarrow> ('k, 'v) run_state \<Rightarrow> ('k, 'v) run_state" where
  "say_state Options ts s = s\<lparr>Texts := Texts s @ map (CmdLine.print_text Options) ts\<rparr>"

abbreviation say :: "run_options \<Rightarrow> wstring list \<Rightarrow> ('k, 'v) run_world \<Rightarrow> ('k, 'v) run_world" where
  "say Options ts \<equiv> on_state (say_state Options ts)"

section \<open>The context as seen by actions\<close>

text \<open>An execution context whose object is a part of a larger state.\<close>

definition lift_context :: "('s \<Rightarrow> 'p) \<Rightarrow> ('p \<Rightarrow> 's \<Rightarrow> 's) \<Rightarrow> 'p exec_context \<Rightarrow> 's exec_context" where
  "lift_context get put c =
     \<lparr>ContextVersion = ContextVersion c, ContextRoutinesPresent = ContextRoutinesPresent c,
      ReportEvent = (\<lambda>t e s. apsnd (\<lambda>p. put p s) (ReportEvent c t e (get s))),
      QueryDefaultDisposition = (\<lambda>ty s. apsnd (\<lambda>p. put p s) (QueryDefaultDisposition c ty (get s))),
      BeforeFixtureStart = (\<lambda>t f s. apsnd (\<lambda>p. put p s) (BeforeFixtureStart c t f (get s))),
      AfterFixtureFinish = (\<lambda>t f b s. put (AfterFixtureFinish c t f b (get s)) s),
      BeforeTestCaseStart = (\<lambda>t tc s. apsnd (\<lambda>p. put p s) (BeforeTestCaseStart c t tc (get s))),
      AfterTestCaseFinish = (\<lambda>t tc b s. put (AfterTestCaseFinish c t tc b (get s)) s),
      CreateChildThread = (\<lambda>t s. apsnd (\<lambda>p. put p s) (CreateChildThread c t (get s))),
      BeforeChildThreadStart = (\<lambda>t a s. put (BeforeChildThreadStart c t a (get s)) s),
      AfterChildThreadFinish = (\<lambda>t a s. put (AfterChildThreadFinish c t a (get s)) s),
      OnUnhandledException = (\<lambda>t x s. put (OnUnhandledException c t x (get s)) s),
      ContextReference = (\<lambda>s. put (ContextReference c (get s)) s),
      ContextDereference = (\<lambda>s. put (ContextDereference c (get s)) s)\<rparr>"

definition put_observer ::
    "(rc_state, 'k) proxy_state \<Rightarrow> ('k, 'v) run_state runner \<Rightarrow> ('k, 'v) run_state runner" where
  "put_observer p s = s\<lparr>RunnerState := (RunnerState s)\<lparr>Observer := p\<rparr>\<rparr>"

definition context_options :: "run_options \<Rightarrow> rc_options" where
  "context_options Options =
     rc_options.make (CmdLine.AbortOnFirstFailure Options) (CmdLine.AlwaysBreakOnFailure Options)
       (CmdLine.DoNotCatchUnhandledExceptions Options)"

abbreviation inner_context :: "('k, 'v) run_env \<Rightarrow> run_options \<Rightarrow> rc_state exec_context" where
  "inner_context env Options \<equiv> rc_context (context_options Options) (ThreadStateAlloc env)"

definition run_context ::
    "('k, 'v) run_env \<Rightarrow> run_options \<Rightarrow> ('k, 'v) run_state runner exec_context" where
  "run_context env Options =
     lift_context (\<lambda>s. Observer (RunnerState s)) put_observer
       (proxy_context (inner_context env Options) (SinkMethods env))"

definition run_leaf ::
    "('k, 'v) run_env \<Rightarrow> run_options \<Rightarrow> ('k, 'v) run_state leaf \<Rightarrow> ('k, 'v) run_state runner \<Rightarrow>
       (hresult \<times> ('k, 'v) run_state runner) option" where
  "run_leaf env Options =
     leaf_run (DebuggerPresent env) (RunnerThread env)
       (\<lambda>t s. s\<lparr>RunnerState := say_state Options [t] (RunnerState s)\<rparr>) (run_context env Options)"

section \<open>Creating the context and the sink\<close>

definition default_event_dll :: wstring where
  "default_event_dll = wide ''cfixcons.dll''"

text \<open>Both objects are released in the end; the proxy keeps its own references to them.\<close>

definition CfixrunsCreateExecutionContextAndEventSink ::
    "('k, 'v) run_env \<Rightarrow> run_options \<Rightarrow> ulong \<Rightarrow> ('k, 'v) run_state \<Rightarrow> hresult \<times> ('k, 'v) run_state" where
  "CfixrunsCreateExecutionContextAndEventSink env Options Flags s =
     (case ContextResources env of (tls_ok, malloc_ok, proxy_ok) \<Rightarrow>
      case CfixrunpCreateExecutionContext True tls_ok malloc_ok of
        (Hr, None) \<Rightarrow> (Hr, s)
      | (_, Some t) \<Rightarrow>
          (case CfixutilLoadEventSinkFromDll (LoadEventDll env)
                  (Some (case EventDll Options of None \<Rightarrow> default_event_dll | Some d \<Rightarrow> d)) Flags
                  (if EventDll Options = None then None else EventDllOptions Options) True
                  (EventDlls s, Sink (Observer s)) of
             (Hr, n, k) \<Rightarrow>
               let s = s\<lparr>EventDlls := n\<rparr>
               in if FAILED Hr
                  then (Hr, s\<lparr>Observer := (Observer s)\<lparr>Target := CfixrunsExecCtxDereference t, Sink := k\<rparr>\<rparr>)
                  else case CfixCreateEventEmittingExecutionContextProxy True proxy_ok
                              (inner_context env Options) (SinkMethods env) t k of
                    (Hr, None) \<Rightarrow>
                      (Hr, s\<lparr>Observer := (Observer s)\<lparr>Target := CfixrunsExecCtxDereference t,
                                                        Sink := SinkDereference (SinkMethods env) k\<rparr>\<rparr>)
                  | (Hr, Some p) \<Rightarrow>
                      (Hr, s\<lparr>Observer := p\<lparr>Target := CfixrunsExecCtxDereference (Target p),
                                            Sink := SinkDereference (SinkMethods env) (Sink p)\<rparr>\<rparr>)))"

section \<open>The worker\<close>

text \<open>The negation binds to the type, whose values are zero and one, and not to the comparison.\<close>

definition nothing_found :: "run_options \<Rightarrow> wstring list" where
  "nothing_found Options =
     (wide ''No matching test modules/fixtures found'' @ [newline])
     # (if \<not> EnableKernelFeatures Options
           \<or> (if InputFileType Options = CfixrunInputDynamicallyLoadable then 1 else 0) \<noteq> (1 :: int)
        then [wide ''Note: Kernel mode and/or exe-based tests were not included in the search.'' @ [newline]
              @ wide ''      Use the -exe switch to search for exe-based tests'' @ [newline]
              @ wide ''      Use the -kern switch to search for kernel mode tests'' @ [newline]]
        else [])"

definition print_int8 :: "dword \<Rightarrow> wstring" where
  "print_int8 v = replicate (8 - length (print_int v)) 0x20 @ print_int v"

definition summary_text :: "statistics \<Rightarrow> wstring" where
  "summary_text st =
     [newline, newline] @ print_int8 (StatFixtures st) @ wide '' Fixtures'' @ [newline]
     @ print_int8 (StatTestCases st) @ wide '' Test cases'' @ [newline]
     @ wide ''    '' @ print_int8 (StatSucceededTestCases st) @ wide '' succeeded'' @ [newline]
     @ wide ''    '' @ print_int8 (StatFailedTestCases st) @ wide '' failed'' @ [newline]
     @ wide ''    '' @ print_int8 (StatInconclusiveTestCases st) @ wide '' inconclusive'' @ [newline, newline]"

definition exit_code :: "statistics \<Rightarrow> dword" where
  "exit_code st =
     (if StatTestCases st = 0 then CFIXRUN_EXIT_NONE_EXECUTED
      else if StatFailedTestCases st = 0 then CFIXRUN_EXIT_ALL_SUCCEEDED else CFIXRUN_EXIT_SOME_FAILED)"

definition sink_flags :: "run_options \<Rightarrow> ulong" where
  "sink_flags Options =
     (if OmitSourceInfoInStackTrace Options then 0
      else CFIX_EVENT_SINK_FLAG_SHOW_STACKTRACE_SOURCE_INFORMATION)"

definition deref_observer :: "('k, 'v) run_env \<Rightarrow> run_options \<Rightarrow> ('k, 'v) run_state \<Rightarrow> ('k, 'v) run_state" where
  "deref_observer env Options s =
     s\<lparr>Observer := CfixsEventEmittingProxyDereference (inner_context env Options) (SinkMethods env) (Observer s)\<rparr>"

text \<open>After the run: the statistics are read, the summary is printed and the proxy released.\<close>

definition after_run ::
    "('k, 'v) run_env \<Rightarrow> run_options \<Rightarrow> ('k, 'v) run_state \<Rightarrow> dword \<times> ('k, 'v) run_state" where
  "after_run env Options s =
     (let st = Statistics (Target (Observer s));
          s = (if Summary Options then say_state Options [summary_text st] s else s)
      in (exit_code st, deref_observer env Options s))"

definition run_selected ::
    "('k, 'v) run_env \<Rightarrow> run_options \<Rightarrow> nat \<Rightarrow> ('k, 'v) run_world \<Rightarrow>
       ((hresult \<times> dword option) \<times> ('k, 'v) run_world) option" where
  "run_selected env Options Action w =
     (case CfixrunsCreateExecutionContextAndEventSink env Options (sink_flags Options) (state_of w) of
        (Hr, s) \<Rightarrow>
          let w = on_state (\<lambda>_. s) w
          in if FAILED Hr then do { w \<leftarrow> release_action Action w; Some ((Hr, None), w) }
             else do {
               (Hr, r) \<leftarrow> run_action (Depth env) (on_ambient (run_contents (run_leaf env Options) w)) Action
                           (Runner w);
               let w = w\<lparr>Runner := r\<rparr>;
               let (ExitCode, s) = after_run env Options (state_of w);
               w \<leftarrow> release_action Action (on_state (\<lambda>_. s) w);
               Some ((Hr, Some ExitCode), w)
             })"

text \<open>\<open>None\<close> for the exit code: it is not written. An action without fixtures is not released.\<close>

definition run_worker ::
    "('k, 'v) run_env \<Rightarrow> run_options \<Rightarrow> ('k, 'v) run_world \<Rightarrow>
       ((hresult \<times> dword option) \<times> ('k, 'v) run_world) option" where
  "run_worker env Options w =
     (if InputFile Options = None \<or> InputFile Options = Some []
      then Some ((HRESULT_FROM_WIN32 2, Some CFIXRUN_EXIT_USAGE_FAILURE), w)
      else do {
        ((Hr, Action), w) \<leftarrow>
          (if DisplayOnly Options
           then CfixrunpAssembleDisplayAction (SearchFuel env) (FileSystem env) (Loader env) (StrStr env) Options w
           else CfixrunpAssembleExecutionAction (SearchFuel env) (FileSystem env) (Loader env) (StrStr env) Options w);
        (if FAILED Hr then Some ((Hr, Some CFIXRUN_EXIT_FAILURE), w)
         else if FixtureCount w = 0
         then Some ((Hr, Some CFIXRUN_EXIT_NONE_EXECUTED), say Options (nothing_found Options) w)
         else do { a \<leftarrow> Action; run_selected env Options a w })
      })"

section \<open>The main routine\<close>

definition register_dll :: "('k, 'v) run_env \<Rightarrow> wstring \<Rightarrow> ('k, 'v) run_state \<Rightarrow> ('k, 'v) run_state" where
  "register_dll env Name s =
     s\<lparr>RunResolver := snd (CdiagsRegisterMessageDll (DllAlloc env Name) (StripPath env) (LoadMessageDll env)
                             (Some Name) 0 0 (RunResolver s))\<rparr>"

definition message_dlls :: "wstring list" where
  "message_dlls = [wide ''cdiag.dll'', wide ''cfix.dll'', wide ''cfixkl.dll'']"

definition error_text :: "('k, 'v) run_env \<Rightarrow> hresult \<Rightarrow> ('k, 'v) run_state \<Rightarrow> wstring" where
  "error_text env Hr s =
     (case CdiagsResolveMessage (Lookup env) (TheResolver (RunResolver s)) Hr
             (CDIAG_MSGRES_FALLBACK_TO_DEFAULT OR CDIAG_MSGRES_RESOLVE_IGNORE_INSERTS) None 256 [] of
        (st, t) \<Rightarrow> (if FAILED st then wide ''Error '' @ print_hex8 Hr else t) @ [newline])"

definition pause_at_end :: "run_options \<Rightarrow> ('k, 'v) run_world \<Rightarrow> ('k, 'v) run_world" where
  "pause_at_end Options w =
     (if PauseAtEnd Options
      then say Options [wide ''Finished. Press any key to continue...'' @ [newline]] w else w)"

definition deref_resolver :: "('k, 'v) run_state \<Rightarrow> ('k, 'v) run_state" where
  "deref_resolver s = s\<lparr>RunResolver := CdiagsDereferenceResolver (RunResolver s)\<rparr>"

text \<open>The results of the three registrations are discarded.\<close>

definition CfixrunMain ::
    "('k, 'v) run_env \<Rightarrow> run_options \<Rightarrow> ('k, 'v) run_world \<Rightarrow> (dword \<times> ('k, 'v) run_world) option" where
  "CfixrunMain env Options w =
     (case CdiagCreateMessageResolver True (ResolverAlloc env) (RunResolver (state_of w)) of
        (Hr, rw) \<Rightarrow>
          let w = on_state (\<lambda>s. s\<lparr>RunResolver := rw\<rparr>) w
          in if FAILED Hr then Some (CFIXRUN_EXIT_FAILURE, pause_at_end Options w)
             else
               let w = on_state (fold (register_dll env) message_dlls) w;
                   w = (if PauseAtBeginning Options
                        then say Options [wide ''Press any key to start testrun...'' @ [newline]] w else w)
               in do {
                 ((Hr, ExitCode), w) \<leftarrow> run_worker env Options w;
                 let w = (if FAILED Hr then say Options [error_text env Hr (state_of w)] w else w);
                 Some (case ExitCode of None \<Rightarrow> CFIXRUN_EXIT_FAILURE | Some c \<Rightarrow> c,
                       pause_at_end Options (on_state deref_resolver w))
               })"

end
