(* ===== verification/RunnerMainInv.thy ===== *)
theory RunnerMainInv
  imports RunnerMain
begin

text \<open>
  The whole run: what the main routine selects, runs, answers and gives back.
\<close>

section \<open>The state inside the world\<close>

lemma on_state_simps [simp]:
  "state_of (on_state f w) = f (state_of w)" "Heap (Runner (on_state f w)) = Heap (Runner w)"
  "Contents (on_state f w) = Contents w" "FixtureCount (on_state f w) = FixtureCount w"
  "AllocOk (on_state f w) = AllocOk w" "NextRequest (on_state f w) = NextRequest w"
  "ModuleRefs (Ambient (Runner (on_state f w))) = ModuleRefs (Ambient (Runner w))"
  "Loaded (Ambient (Runner (on_state f w))) = Loaded (Ambient (Runner w))"
  by (simp_all add: on_state_def state_of_def)

lemma on_state_on_state [simp]: "on_state f (on_state g w) = on_state (\<lambda>s. f (g s)) w"
  by (simp add: on_state_def state_of_def)

lemma side_state [simp]: "RunnerState (Ambient (Runner w)) = state_of w"
  by (simp add: state_of_def)

lemma fresh_on_state [simp]: "fresh_world (on_state f w) = fresh_world w"
  by (simp add: fresh_world_def)

lemma collecting_on_state [simp]: "collecting Seq base items (on_state f w) = collecting Seq base items w"
  by (simp add: collecting_def entries_at_def module_counts_def)

lemma nothing_left_on_state [simp]: "nothing_left (on_state f w) = nothing_left w"
  by (simp add: nothing_left_def)

section \<open>The context and the sink\<close>

definition sink_loads :: "('k, 'v) run_env \<Rightarrow> run_options \<Rightarrow> bool" where
  "sink_loads env Options \<longleftrightarrow>
     (\<exists>R. LoadEventDll env (case EventDll Options of None \<Rightarrow> default_event_dll | Some d \<Rightarrow> d) = Some (Some R)
        \<and> (\<forall>k. SUCCEEDED (fst (R CFIX_EVENT_SINK_VERSION (sink_flags Options)
                 (if EventDll Options = None then None else EventDllOptions Options) k))))"

definition zero_statistics :: statistics where
  "zero_statistics = \<lparr>StatFixtures = 0, StatTestCases = 0, StatSucceededTestCases = 0,
                      StatFailedTestCases = 0, StatInconclusiveTestCases = 0\<rparr>"

definition fresh_observer :: "(rc_state, 'k) proxy_state \<Rightarrow> bool" where
  "fresh_observer p \<longleftrightarrow> ProxyReferenceCount p = 1 \<and> CurrentFixture p = None \<and> CurrentTestCase p = None
     \<and> RcReferenceCount (Target p) = 1 \<and> Statistics (Target p) = zero_statistics
     \<and> TlsState (Target p) = (\<lambda>_. 0)"

text \<open>What is created has one owner: the proxy by the runner, the context by the proxy.\<close>

lemma context_created:
  assumes "ContextResources env = (True, True, True)" and "sink_loads env Options"
  obtains Hr s' where
    "CfixrunsCreateExecutionContextAndEventSink env Options (sink_flags Options) s = (Hr, s')"
    "SUCCEEDED Hr" "fresh_observer (Observer s')" "EventDlls s' = EventDlls s + 1"
    "RunResolver s' = RunResolver s" "TestState s' = TestState s" "Texts s' = Texts s"
proof -
  let ?o = "if EventDll Options = None then None else EventDllOptions Options"
  let ?d = "case EventDll Options of None \<Rightarrow> default_event_dll | Some d \<Rightarrow> d"
  from assms(2) obtain R where load: "LoadEventDll env ?d = Some (Some R)"
    and ok: "SUCCEEDED (fst (R CFIX_EVENT_SINK_VERSION (sink_flags Options) ?o (Sink (Observer s))))"
    unfolding sink_loads_def by blast
  obtain Hr k where R: "R CFIX_EVENT_SINK_VERSION (sink_flags Options) ?o (Sink (Observer s)) = (Hr, k)"
    by fastforce
  have dll: "CfixutilLoadEventSinkFromDll (LoadEventDll env) (Some ?d) (sink_flags Options) ?o True
      (EventDlls s, Sink (Observer s)) = (Hr, EventDlls s + 1, k)"
    by (simp only: CfixutilLoadEventSinkFromDll_def prod.case option.case load R simp_thms if_False)
  from ok R have good: "SUCCEEDED Hr" by simp
  let ?t = "\<lparr>ThreadStates = (\<lambda>_. None), TlsState = (\<lambda>_. 0), RcReferenceCount = 1, Statistics = zero_statistics\<rparr>"
  let ?p = "\<lparr>Target = ?t, Sink = SinkDereference (SinkMethods env) (SinkReference (SinkMethods env) k),
      FirstTestCaseBegun = False, CurrentTestCase = None, CurrentFixture = None, ProxyReferenceCount = 1\<rparr>"
  have "CfixrunsCreateExecutionContextAndEventSink env Options (sink_flags Options) s =
      (S_OK, s\<lparr>EventDlls := EventDlls s + 1, Observer := ?p\<rparr>)"
    using good by (simp add: CfixrunsCreateExecutionContextAndEventSink_def assms(1) dll zero_statistics_def
        CfixrunpCreateExecutionContext_def CfixCreateEventEmittingExecutionContextProxy_def
        CfixrunsExecCtxReference_def CfixrunsExecCtxDereference_def rc_context_def)
  then show ?thesis by (rule that) (simp_all add: fresh_observer_def)
qed

section \<open>Running and releasing\<close>

lemma entries_at_ambient [simp]:
  "entries_at Seq es items (w\<lparr>Runner := (Runner w)\<lparr>Ambient := a\<rparr>\<rparr>) = entries_at Seq es items w"
  by (simp add: entries_at_def)

lemma release_entries:
  assumes "entries_at Seq es items w"
  shows "\<exists>w'. release_action Seq w = Some w' \<and> Heap (Runner w') = fmempty"
proof -
  let ?h = "Heap (Runner w)"
  have d: "distinct es" "Seq \<notin> set es" and look: "fmlookup ?h Seq = Some (single_sequence es)"
      "\<forall>e \<in> set es. fmlookup (fmdrop Seq ?h) e = Some single_leaf"
    using assms by (auto simp: entries_at_def)
  have "release_log [Seq] ?h = Some (Seq # es, fold fmdrop es (fmdrop Seq ?h))"
    using look release_leaves [OF d(1) look(2)] by simp
  moreover have "fold fmdrop es (fmdrop Seq ?h) = fmempty"
    using assms by (intro fmap_ext) (auto simp: fold_fmdrop entries_at_def)
  ultimately show ?thesis by (simp add: release_action_def)
qed

text \<open>Whatever the run did to the ambient state, the actions are released, and the modules if it left them alone.\<close>

lemma release_after_run:
  assumes "collecting Seq (\<lambda>_. 0) items w"
  shows "\<exists>w'. release_action Seq (on_state f (w\<lparr>Runner := (Runner w)\<lparr>Ambient := e\<rparr>\<rparr>)) = Some w'
      \<and> Heap (Runner w') = fmempty
      \<and> (ModuleRefs e = ModuleRefs (Ambient (Runner w)) \<longrightarrow> nothing_left w')"
proof -
  let ?w = "on_state f (w\<lparr>Runner := (Runner w)\<lparr>Ambient := e\<rparr>\<rparr>)"
  from assms obtain es where "entries_at Seq es items w" by (auto simp: collecting_def)
  then have es: "entries_at Seq es items ?w" by (simp add: on_state_def)
  from release_entries [OF es] obtain w' where w': "release_action Seq ?w = Some w'" "Heap (Runner w') = fmempty"
    by blast
  have "nothing_left w'" if "ModuleRefs e = ModuleRefs (Ambient (Runner w))"
  proof -
    from assms that es have "collecting Seq (\<lambda>_. 0) items ?w"
      unfolding collecting_def module_counts_def by simp blast
    from release_collected [OF this] w' show ?thesis by (auto simp: nothing_left_def)
  qed
  with w' show ?thesis by blast
qed

text \<open>Where a run leads: the context is new when it starts.\<close>

definition run_outcome ::
    "('k, 'v) run_env \<Rightarrow> run_options \<Rightarrow> (nat \<times> ('k, 'v) run_state leaf) list \<Rightarrow> ('k, 'v) run_state runner \<Rightarrow>
       (dword \<times> ('k, 'v) run_world) option \<Rightarrow> bool" where
  "run_outcome env Options items start r \<longleftrightarrow>
     fresh_observer (Observer (RunnerState start))
     \<and> (case run_plan (run_leaf env Options) (map snd items) start of
          None \<Rightarrow> r = None
        | Some (_, e) \<Rightarrow>
            (\<exists>w'. r = Some (exit_code (Statistics (Target (Observer (RunnerState e)))), w')
               \<and> Heap (Runner w') = fmempty \<and> (ModuleRefs e = ModuleRefs start \<longrightarrow> nothing_left w')))"

lemma run_selected_runs:
  assumes "collecting Seq (\<lambda>_. 0) items w" and "2 \<le> Depth env"
    and "ContextResources env = (True, True, True)" and "sink_loads env Options"
  shows "\<exists>start. run_outcome env Options items start
      (map_option (\<lambda>((Hr, c), w). (the c, on_state (g Hr) w)) (run_selected env Options Seq w))
    \<and> (\<forall>Hr c w'. run_selected env Options Seq w = Some ((Hr, c), w') \<longrightarrow> c \<noteq> None)"
proof -
  obtain Hr s' where cr: "CfixrunsCreateExecutionContextAndEventSink env Options (sink_flags Options) (state_of w)
      = (Hr, s')" "SUCCEEDED Hr" "fresh_observer (Observer s')"
    by (rule context_created [OF assms(3,4), of "state_of w"])
  define w1 where "w1 = on_state (\<lambda>_. s') w"
  define start where "start = Ambient (Runner w1)"
  have c1: "collecting Seq (\<lambda>_. 0) items w1" using assms(1) by (simp add: w1_def)
  have fresh: "fresh_observer (Observer (RunnerState start))"
    using cr(3) by (simp add: start_def w1_def)
  note runs = collected_runs [OF c1 assms(2), of "run_leaf env Options", folded start_def]
  have sel: "run_selected env Options Seq w = do {
      (Hr, r) \<leftarrow> run_action (Depth env) (on_ambient (run_contents (run_leaf env Options) w1)) Seq (Runner w1);
      let (ExitCode, s) = after_run env Options (state_of (w1\<lparr>Runner := r\<rparr>));
      w \<leftarrow> release_action Seq (on_state (\<lambda>_. s) (w1\<lparr>Runner := r\<rparr>));
      Some ((Hr, Some ExitCode), w) }"
    using cr(2) by (simp add: run_selected_def cr(1) w1_def [symmetric] Let_def)
  show ?thesis
  proof (cases "run_plan (run_leaf env Options) (map snd items) start")
    case None
    with runs have "run_action (Depth env) (on_ambient (run_contents (run_leaf env Options) w1)) Seq (Runner w1) = None"
      by simp
    then have "run_selected env Options Seq w = None" by (simp add: sel)
    with None fresh show ?thesis by (intro exI [of _ start]) (simp add: run_outcome_def)
  next
    case (Some re)
    obtain hr e where re: "re = (hr, e)" by (cases re)
    from runs Some re obtain h r where run: "run_action (Depth env)
        (on_ambient (run_contents (run_leaf env Options) w1)) Seq (Runner w1) = Some (h, r)"
      and "success_ok (h, r) = in_world (Runner w1) (hr, e)"
      by (cases "run_action (Depth env) (on_ambient (run_contents (run_leaf env Options) w1)) Seq (Runner w1)") auto
    then have r: "r = (Runner w1)\<lparr>Ambient := e\<rparr>"
      by (auto simp: success_ok_def in_world_def split: if_splits)
    obtain s where s: "after_run env Options (state_of (w1\<lparr>Runner := r\<rparr>)) =
        (exit_code (Statistics (Target (Observer (RunnerState e)))), s)"
      by (simp add: after_run_def Let_def r state_of_def)
    from release_after_run [OF c1, of "\<lambda>_. s" e] obtain w' where w':
      "release_action Seq (on_state (\<lambda>_. s) (w1\<lparr>Runner := r\<rparr>)) = Some w'" "Heap (Runner w') = fmempty"
      "ModuleRefs e = ModuleRefs start \<longrightarrow> nothing_left w'"
      unfolding r start_def by blast
    have "run_selected env Options Seq w =
        Some ((h, Some (exit_code (Statistics (Target (Observer (RunnerState e)))))), w')"
      by (simp add: sel run s w'(1))
    with Some re fresh w'(2,3) show ?thesis
      by (intro exI [of _ start]) (simp add: run_outcome_def)
  qed
qed

text \<open>Without a context or a sink nothing is run, and what was selected is released.\<close>

lemma no_context_releases:
  assumes "collecting Seq (\<lambda>_. 0) items w"
    and "CfixrunsCreateExecutionContextAndEventSink env Options (sink_flags Options) (state_of w) = (Hr, s)"
    and "FAILED Hr"
  shows "\<exists>w'. run_selected env Options Seq w = Some ((Hr, None), w') \<and> nothing_left w'"
proof -
  have "collecting Seq (\<lambda>_. 0) items (on_state (\<lambda>_. s) w)" using assms(1) by simp
  from release_collected [OF this] obtain w' where
    "release_action Seq (on_state (\<lambda>_. s) w) = Some w'" "nothing_left w'" by (auto simp: nothing_left_def)
  then show ?thesis using assms(2,3) by (simp add: run_selected_def)
qed

text \<open>The action that holds no fixture is kept.\<close>

lemma empty_selection_keeps_action:
  assumes "CfixrunpAssembleExecutionAction (SearchFuel env) (FileSystem env) (Loader env) (StrStr env) Options w
      = Some ((S_OK, Some Seq), w1)"
    and "collecting Seq base items w1" and "FixtureCount w1 = 0"
    and "\<not> DisplayOnly Options" "InputFile Options = Some p" "p \<noteq> []"
  shows "\<exists>w'. run_worker env Options w = Some ((S_OK, Some CFIXRUN_EXIT_NONE_EXECUTED), w')
      \<and> fmlookup (Heap (Runner w')) Seq \<noteq> None"
  using assms by (auto simp: run_worker_def collecting_def entries_at_def)

section \<open>Property\<close>

text \<open>The state when the worker starts, and the fixtures that it is to run.\<close>

definition prepared :: "('k, 'v) run_env \<Rightarrow> run_options \<Rightarrow> ('k, 'v) run_state \<Rightarrow> ('k, 'v) run_state" where
  "prepared env Options s =
     (let s = fold (register_dll env) message_dlls
                (s\<lparr>RunResolver := snd (CdiagCreateMessageResolver True True (RunResolver s))\<rparr>)
      in if PauseAtBeginning Options
         then say_state Options [wide ''Press any key to start testrun...'' @ [newline]] s else s)"

definition chosen ::
    "('k, 'v) run_env \<Rightarrow> run_options \<Rightarrow> node list \<Rightarrow> ('k, 'v) run_world \<Rightarrow> (nat \<times> ('k, 'v) run_state leaf) list" where
  "chosen env Options ns w =
     fixtures_to_run (Loader env) (StrStr env) Options ns (prepared env Options (state_of w))"

text \<open>What the main routine does after its worker.\<close>

definition main_finish ::
    "('k, 'v) run_env \<Rightarrow> run_options \<Rightarrow> hresult \<Rightarrow> ('k, 'v) run_world \<Rightarrow> ('k, 'v) run_world" where
  "main_finish env Options Hr w =
     pause_at_end Options (on_state deref_resolver
       (if FAILED Hr then say Options [error_text env Hr (state_of w)] w else w))"

lemma on_state_cong: "f (state_of w) = g (state_of w) \<Longrightarrow> on_state f w = on_state g w"
  by (simp add: on_state_def)

lemma main_finish_state: "\<exists>g. main_finish env Options Hr = on_state g"
proof (rule exI, rule ext)
  fix w
  show "main_finish env Options Hr w = on_state (\<lambda>s. (if PauseAtEnd Options
        then say_state Options [wide ''Finished. Press any key to continue...'' @ [newline]] else (\<lambda>s. s))
        (deref_resolver (if FAILED Hr then say_state Options [error_text env Hr s] s else s))) w"
    unfolding main_finish_def pause_at_end_def
    by (cases "PauseAtEnd Options"; cases "FAILED Hr") (auto intro!: on_state_cong)
qed

lemma main_worker:
  assumes "ResolverAlloc env"
  shows "CfixrunMain env Options w =
     map_option (\<lambda>((Hr, c), w). (case c of None \<Rightarrow> CFIXRUN_EXIT_FAILURE | Some c \<Rightarrow> c, main_finish env Options Hr w))
       (run_worker env Options (on_state (prepared env Options) w))"
proof -
  let ?rw = "snd (CdiagCreateMessageResolver True True (RunResolver (state_of w)))"
  let ?w = "on_state (fold (register_dll env) message_dlls) (on_state (\<lambda>s. s\<lparr>RunResolver := ?rw\<rparr>) w)"
  have start: "on_state (prepared env Options) w =
      (if PauseAtBeginning Options
       then say Options [wide ''Press any key to start testrun...'' @ [newline]] ?w else ?w)"
    by (auto intro!: on_state_cong simp: prepared_def)
  have new: "CdiagCreateMessageResolver True (ResolverAlloc env) (RunResolver (state_of w)) = (S_OK, ?rw)"
    using assms by (simp add: CdiagCreateMessageResolver_def)
  have "CfixrunMain env Options w = do {
      ((Hr, ExitCode), w) \<leftarrow> run_worker env Options (on_state (prepared env Options) w);
      Some (case ExitCode of None \<Rightarrow> CFIXRUN_EXIT_FAILURE | Some c \<Rightarrow> c, main_finish env Options Hr w) }"
    unfolding CfixrunMain_def new prod.case Let_def start main_finish_def by simp
  then show ?thesis
    by (cases "run_worker env Options (on_state (prepared env Options) w)") auto
qed


text \<open>The directory of \<open>demo_fs\<close>, and a sink that keeps nothing.\<close>

definition quiet_code :: "(unit, unit) run_state runner test_module" where
  "quiet_code =
     \<lparr>RunTestCase = (\<lambda>_ _ _ s. Some (S_OK, s)), Setup = (\<lambda>_ _ _ s. Some (S_OK, s)),
      Teardown = (\<lambda>_ _ _ s. Some (S_OK, s)), Before = (\<lambda>_ _ _ s. Some (S_OK, s)),
      After = (\<lambda>_ _ _ s. Some (S_OK, s)), ModuleReference = id, ModuleDereference = id\<rparr>"

definition quiet_sink :: "unit event_sink" where
  "quiet_sink =
     \<lparr>SinkReportEvent = (\<lambda>_ _ _ _ _ k. k), SinkBeforeFixtureStart = (\<lambda>_ _ _ k. k),
      SinkAfterFixtureFinish = (\<lambda>_ _ _ _ k. k), SinkBeforeTestCaseStart = (\<lambda>_ _ _ _ k. k),
      SinkAfterTestCaseFinish = (\<lambda>_ _ _ _ _ k. k), SinkReference = id, SinkDereference = id\<rparr>"

definition demo_env :: "(unit, unit) run_env" where
  "demo_env =
     \<lparr>FileSystem = demo_fs, SearchFuel = 262, Depth = 2,
      Loader = (\<lambda>_ _ u. (Inr (quiet_code, [demo_fixture]), u)), StrStr = (\<lambda>_ _. None),
      ContextResources = (True, True, True), ThreadStateAlloc = (\<lambda>_. 16), SinkMethods = quiet_sink,
      LoadEventDll = (\<lambda>_. Some (Some (\<lambda>_ _ _ k. (S_OK, k)))), DebuggerPresent = (\<lambda>_. False),
      RunnerThread = 1, ResolverAlloc = True, DllAlloc = (\<lambda>_. True), StripPath = id,
      LoadMessageDll = (\<lambda>_ _. Inl 126), Lookup = (\<lambda>_ _ _ _ _. Inl 317)\<rparr>"

definition demo_run_state :: "(unit, unit) run_state" where
  "demo_run_state =
     \<lparr>Observer = \<lparr>Target = \<lparr>ThreadStates = (\<lambda>_. None), TlsState = (\<lambda>_. 0), RcReferenceCount = 0,
                             Statistics = zero_statistics\<rparr>, Sink = (), FirstTestCaseBegun = False,
                  CurrentTestCase = None, CurrentFixture = None, ProxyReferenceCount = 0\<rparr>,
      EventDlls = 0, RunResolver = \<lparr>TheResolver = None, LoadCount = (\<lambda>_. 0), DllBlocks = 0\<rparr>,
      Texts = [], TestState = ()\<rparr>"

definition demo_run_world :: "(unit, unit) run_world" where
  "demo_run_world =
     \<lparr>Runner = \<lparr>Heap = fmempty,
                Ambient = \<lparr>ModuleRefs = (\<lambda>_. 0), Loaded = 0, RunnerState = demo_run_state\<rparr>\<rparr>,
      Contents = (\<lambda>_. None), NextRequest = 0, AllocOk = (\<lambda>_. True), FixtureCount = 0\<rparr>"


end
