(* ===== verification/CfixCmd.thy ===== *)
theory CfixCmd
  imports RunnerMain PeLoad
begin

text \<open>
  The command line program (\<open>cfix/cfixcmd/main.c\<close>), the version of a module that its banner shows
  (\<open>cdiag/cdiag/version.c\<close>), and how tests inside an executable are run: the program spawns it with
  two environment variables, the initializer of the executable (\<open>include/cfixpe.h\<close>) finds the
  routine that the first one names, and that routine (\<open>cfix/cfixemb/embmain.c\<close>) runs the tests with
  the command line of the second one.

  The state of a process has its open handles, its environment variables, what it wrote to the
  standard output, and the texts it printed. A child process is a function of the file and the
  environment; one that never ends is \<open>None\<close>.
\<close>

abbreviation CFIX_S_EXIT_PROCESS :: hresult where "CFIX_S_EXIT_PROCESS \<equiv> 0x4AFF0"
abbreviation CDIAG_E_NO_VERSION_INFO :: hresult where "CDIAG_E_NO_VERSION_INFO \<equiv> 0x80048107"
abbreviation ERROR_RESOURCE_TYPE_NOT_FOUND :: dword where "ERROR_RESOURCE_TYPE_NOT_FOUND \<equiv> 1813"

definition CFIX_EMB_INIT_ENVVAR_NAME :: wstring where
  "CFIX_EMB_INIT_ENVVAR_NAME = wide ''CFIX_INIT_ROUTINE''"

definition CFIXRUN_EMB_CMDLINE_ENVVAR_NAME :: wstring where
  "CFIXRUN_EMB_CMDLINE_ENVVAR_NAME = wide ''CFIX_INIT_CMDLINE''"

section \<open>Version of a module\<close>

record module_version =
  Major :: "16 word"
  Minor :: "16 word"
  Revision :: "16 word"
  Build :: "16 word"

text \<open>
  \<open>InfoSize\<close> is the size of the version information or the error of asking for it; \<open>Info\<close> the error of
  reading it, or the two words of its fixed part, if it has one.
\<close>

definition CdiagGetModuleVersion ::
    "(wstring \<Rightarrow> bool) \<Rightarrow> (wstring \<Rightarrow> dword + nat) \<Rightarrow> (wstring \<Rightarrow> dword + (dword \<times> dword) option) \<Rightarrow>
       wstring option \<Rightarrow> bool \<Rightarrow> heap \<Rightarrow> (hresult \<times> module_version option) \<times> heap" where
  "CdiagGetModuleVersion Exists InfoSize Info ModulePath HasVersion h =
     (case ModulePath of
        None \<Rightarrow> ((E_INVALIDARG, None), h)
      | Some p \<Rightarrow>
          if \<not> HasVersion then ((E_INVALIDARG, None), h)
          else if \<not> Exists p then ((HRESULT_FROM_WIN32 2, None), h)
          else case InfoSize p of
            Inl Err \<Rightarrow>
              ((if Err = ERROR_RESOURCE_TYPE_NOT_FOUND then CDIAG_E_NO_VERSION_INFO
                else HRESULT_FROM_WIN32 Err, None), h)
          | Inr InfoLen \<Rightarrow>
              (case malloc InfoLen h of
                 (False, h) \<Rightarrow> ((E_OUTOFMEMORY, None), h)
               | (True, h) \<Rightarrow>
                   (case Info p of
                      Inl Err \<Rightarrow> ((HRESULT_FROM_WIN32 Err, None), free h)
                    | Inr None \<Rightarrow> ((CDIAG_E_NO_VERSION_INFO, None), free h)
                    | Inr (Some (MS, LS)) \<Rightarrow>
                        ((S_OK, Some \<lparr>Major = ucast (drop_bit 16 MS), Minor = ucast MS,
                                      Revision = ucast (drop_bit 16 LS), Build = ucast LS\<rparr>), free h))))"

section \<open>Processes\<close>

record process =
  OpenHandles :: "nat set"
  Environment :: "wstring \<Rightarrow> wstring option"
  StdoutOpen :: bool
  Stdout :: "8 word list"
  Printed :: "wstring list"

text \<open>The life of a child: the handles the parent gets, what arrives at its end of the pipe, the exit code.\<close>

record child =
  ChildProcess :: nat
  ChildThread :: nat
  ChildOutput :: "8 word list list"
  ChildExitCode :: dword

text \<open>
  Paths: \<open>ModulePath\<close> is the path of the program, \<open>RemoveFileSpec\<close> and \<open>AppendPath\<close> the routines of the
  system, \<open>None\<close> when they answer false. \<open>Pipe\<close> has the handles of a new pipe, \<open>Duplicate\<close> the
  duplicate of its end for reading. \<open>PipeError\<close> is the error of a pipe that cannot be made, and
  \<open>InputFileAddress\<close> the low half of the address of the file name, which one message prints.
\<close>

record cmd_env =
  ModulePath :: "wstring option"
  ModuleVersion :: "module_version option"
  BuildEnvironment :: wstring
  FileThere :: "wstring \<Rightarrow> bool"
  RemoveFileSpec :: "wstring \<Rightarrow> wstring option"
  AppendPath :: "wstring \<Rightarrow> wstring \<Rightarrow> wstring option"
  Pipe :: "(nat \<times> nat) option"
  Duplicate :: "nat option"
  CommandLineText :: wstring
  PipeError :: dword
  HasStdout :: bool
  InputFileAddress :: dword
  WriteOk :: "8 word list \<Rightarrow> bool"
  CreateProcess :: "wstring \<Rightarrow> (wstring \<Rightarrow> wstring option) \<Rightarrow> (dword + child) option"

definition print_line :: "run_options \<Rightarrow> wstring \<Rightarrow> process \<Rightarrow> process" where
  "print_line Options t p = p\<lparr>Printed := Printed p @ [CmdLine.print_text Options t]\<rparr>"

definition close_handle :: "nat \<Rightarrow> process \<Rightarrow> process" where
  "close_handle x p = p\<lparr>OpenHandles := OpenHandles p - {x}\<rparr>"

definition open_handle :: "nat \<Rightarrow> process \<Rightarrow> process" where
  "open_handle x p = p\<lparr>OpenHandles := insert x (OpenHandles p)\<rparr>"

section \<open>Banner and usage\<close>

definition word_text :: "16 word \<Rightarrow> wstring" where
  "word_text v = print_nat 10 (unat v)"

definition CfixcmdsPrintBanner :: "cmd_env \<Rightarrow> process \<Rightarrow> process" where
  "CfixcmdsPrintBanner env p =
     (case (ModulePath env, ModuleVersion env) of
        (Some _, Some v) \<Rightarrow>
          p\<lparr>Printed := Printed p @
              [wide ''cfix version '' @ word_text (Major v) @ [0x2E] @ word_text (Minor v) @ [0x2E]
               @ word_text (Revision v) @ [0x2E] @ word_text (Build v) @ wide '' ('' @ BuildEnvironment env
               @ wide '')'' @ [newline]
               @ wide ''(C) 2008-2010 - Johannes Passing - http://www.cfix-testing.org/'' @ [newline]]\<rparr>
      | _ \<Rightarrow> p)"

definition usage_lines :: "wstring \<Rightarrow> wstring list" where
  "usage_lines BinName =
     [[],
      wide ''Usage:'',
      wide ''  '' @ BinName @ wide '' <options> <dll or directory>'',
      [],
      wide ''  Test Fixture Selection Options:'',
      wide ''    -r               Recurse into directories to search for test DLLs'',
      wide ''    -n <fixture>     Run <fixture>'',
      wide ''                      <fixture> may in the format fixture.test, in which case only the specific '',
      wide ''                      test is run'',
      wide ''    -p <prefix>      Run fixtures whose name starts with <prefix>'',
      [],
      wide ''  Execution Options:'',
      wide ''    -f               Abort immediately on first failure - no breakpoint will be triggered'',
      wide ''    -fsf             Short-circuit fixture - when a test case fails, skip remaining test cases of'',
      wide ''                     enclosing fixture'',
      wide ''                     (Default: Report failure, but continue fixture)'',
      wide ''    -fss             Short-circuit testrun on failing setup - when a setup routine fails,'',
      wide ''                     abort testrun'',
      wide ''                     (Default: Shortcut fixture, but continue testrun)'',
      wide ''    -fsr             Short-circuit testrun - when a test case fails, abort testrun - '',
      wide ''                     implies -fsf and -fss'',
      wide ''                     (Default: Continue testrun)'',
      wide ''    -u               Do not catch unhandled exceptions'',
      wide ''                     (Recommended for debugging)'',
      wide ''    -b               Always break on failure, even if not run in user-mode debugger'',
      wide ''                     (Allows JIT debugging/using the kernel debugger after a '',
      wide ''                     failure has occured - ignored when -f is used)'',
      wide ''    -d               Display tests only, do not run'',
      wide ''    -z               Display summary at end of testrun'',
      wide ''    -Y               Pause at beginning of testrun'',
      wide ''    -y               Pause at end of testrun'',
      wide ''    -kern            Enable kernel mode features'',
      wide ''    -exe             Enable support for EXE modules'',
      wide ''                     When this switch is used, the exact path to the module must be specified;'',
      wide ''                     wilcards and the -r option are not supported'',
      [],
      wide ''  Output Options:'',
      wide ''    -nologo          Do not display logo'',
      wide ''    -td              Disable stack trace capturing'',
      wide ''    -ts              Omit source information in stack traces'',
      wide ''    -eventdll        Event DLL to use. Default is cfixcons.dll (Console output)'',
      wide ''    -eventdlloptions Event DLL-specific options.'',
      [],
      wide ''  Exit codes:'',
      wide ''    '' @ print_int CFIXRUN_EXIT_ALL_SUCCEEDED @ wide ''  All tests succeeded'',
      wide ''    '' @ print_int CFIXRUN_EXIT_NONE_EXECUTED @ wide ''  No tests executed'',
      wide ''    '' @ print_int CFIXRUN_EXIT_SOME_FAILED @ wide ''  At least one test failed'',
      wide ''    '' @ print_int CFIXRUN_EXIT_USAGE_FAILURE @ wide ''  Usage failure'',
      wide ''    '' @ print_int CFIXRUN_EXIT_FAILURE @ wide ''  Other failures'',
      [],
      wide ''  Report bugs to <passing@users.sourceforge.net>'',
      []]"

definition CfixcmdsPrintUsage :: "cmd_env \<Rightarrow> wstring \<Rightarrow> process \<Rightarrow> process" where
  "CfixcmdsPrintUsage env BinName p =
     (let p = CfixcmdsPrintBanner env p
      in p\<lparr>Printed := Printed p @ [concat (map (\<lambda>l. l @ [newline]) (usage_lines BinName))]\<rparr>)"

section \<open>Spawning\<close>

definition CfixcmdsGetCfixEmbPath :: "cmd_env \<Rightarrow> wstring option" where
  "CfixcmdsGetCfixEmbPath env =
     do { p \<leftarrow> ModulePath env; d \<leftarrow> RemoveFileSpec env p; AppendPath env d (wide ''cfixemb.dll'') }"

text \<open>The end for reading is replaced by a duplicate that children do not inherit.\<close>

definition CfixcmdsCreatePipe :: "cmd_env \<Rightarrow> process \<Rightarrow> (nat \<times> nat) option \<times> process" where
  "CfixcmdsCreatePipe env p =
     (case Pipe env of
        None \<Rightarrow> (None, p)
      | Some (ReadEndTemp, WriteEnd) \<Rightarrow>
          let p = open_handle WriteEnd (open_handle ReadEndTemp p)
          in case Duplicate env of
               Some ReadEnd \<Rightarrow> (Some (ReadEnd, WriteEnd), close_handle ReadEndTemp (open_handle ReadEnd p))
             | None \<Rightarrow> (None, close_handle WriteEnd (close_handle ReadEndTemp p)))"

fun relay :: "cmd_env \<Rightarrow> 8 word list list \<Rightarrow> process \<Rightarrow> process" where
  "relay env [] p = p"
| "relay env (Buffer # rest) p =
     (if WriteOk env Buffer then relay env rest (p\<lparr>Stdout := Stdout p @ Buffer\<rparr>) else p)"

text \<open>The standard output is closed afterwards.\<close>

definition CfixcmdsRelayOutput :: "cmd_env \<Rightarrow> 8 word list list \<Rightarrow> process \<Rightarrow> bool \<times> process" where
  "CfixcmdsRelayOutput env Buffers p =
     (if \<not> HasStdout env then (False, p) else (True, (relay env Buffers p)\<lparr>StdoutOpen := False\<rparr>))"

definition set_variables :: "cmd_env \<Rightarrow> wstring \<Rightarrow> process \<Rightarrow> process" where
  "set_variables env EmbPath p =
     p\<lparr>Environment := (Environment p)(CFIX_EMB_INIT_ENVVAR_NAME \<mapsto> EmbPath @ wide ''!CfixEmbMain'',
                                      CFIXRUN_EMB_CMDLINE_ENVVAR_NAME \<mapsto> CommandLineText env)\<rparr>"

text \<open>
  From the creation of the process on. Without a process both waiting for it and asking for its
  exit code fail, and nothing arrives at the pipe.
\<close>

definition run_child ::
    "cmd_env \<Rightarrow> run_options \<Rightarrow> wstring \<Rightarrow> nat \<Rightarrow> nat \<Rightarrow> process \<Rightarrow> (dword \<times> process) option" where
  "run_child env Options File PipeRead PipeWrite p =
     do {
       r \<leftarrow> CreateProcess env File (Environment p);
       let p = (case r of
           Inl Err \<Rightarrow> print_line Options (wide ''The file '' @ File @ wide '' could not launched: Win32 error ''
                                         @ print_int Err @ [newline]) p
         | Inr c \<Rightarrow> open_handle (ChildThread c) (open_handle (ChildProcess c) p));
       let p = close_handle PipeWrite p;
       let (Relayed, p) = CfixcmdsRelayOutput env (case r of Inl _ \<Rightarrow> [] | Inr c \<Rightarrow> ChildOutput c) p;
       let p = (if Relayed then p
                else print_line Options (wide ''Failed to relay I/O: Win32 error ''
                                         @ print_int (InputFileAddress env) @ [newline]) p);
       Some (case r of
               Inl _ \<Rightarrow> (CFIXRUN_EXIT_USAGE_FAILURE, close_handle PipeRead p)
             | Inr c \<Rightarrow> (ChildExitCode c,
                 close_handle PipeRead (close_handle (ChildProcess c) (close_handle (ChildThread c) p))))
     }"

definition CfixcmdsSpawnAndRun :: "cmd_env \<Rightarrow> run_options \<Rightarrow> process \<Rightarrow> (dword \<times> process) option" where
  "CfixcmdsSpawnAndRun env Options p =
     (case InputFile Options of
        None \<Rightarrow> None
      | Some File \<Rightarrow>
          if \<not> FileThere env File
          then Some (CFIXRUN_EXIT_USAGE_FAILURE,
                     print_line Options (wide ''The file '' @ File @ wide '' could not be found'' @ [newline]) p)
          else case CfixcmdsGetCfixEmbPath env of
            None \<Rightarrow> Some (CFIXRUN_EXIT_USAGE_FAILURE,
                     print_line Options (wide ''Failed to construct path to helper DLL'' @ [newline]) p)
          | Some EmbPath \<Rightarrow>
              (case CfixcmdsCreatePipe env (set_variables env EmbPath p) of
                 (None, p) \<Rightarrow> Some (CFIXRUN_EXIT_USAGE_FAILURE,
                     print_line Options (wide ''Failed to create I/O pipes: Win32 error ''
                                         @ print_int (PipeError env) @ [newline]) p)
               | (Some (PipeRead, PipeWrite), p) \<Rightarrow> run_child env Options File PipeRead PipeWrite p))"

text \<open>\<open>RunMain\<close> is the main routine of the runner in this process.\<close>

definition wmain ::
    "cmd_env \<Rightarrow> bool \<Rightarrow> (run_options \<Rightarrow> process \<Rightarrow> (dword \<times> process) option) \<Rightarrow> run_options \<Rightarrow>
       wstring list \<Rightarrow> process \<Rightarrow> (dword \<times> process) option" where
  "wmain env IsDebuggerPresent RunMain Zero Argv p =
     (case Argv of
        [] \<Rightarrow> Some (CFIXRUN_EXIT_USAGE_FAILURE, p)
      | [BinName] \<Rightarrow> Some (CFIXRUN_EXIT_USAGE_FAILURE, CfixcmdsPrintUsage env BinName p)
      | _ \<Rightarrow>
          do {
            (ok, Options, Out) \<leftarrow> CfixrunParseCommandLine IsDebuggerPresent Argv Zero;
            let p = p\<lparr>Printed := Printed p @ Out\<rparr>;
            (if \<not> ok then Some (CFIXRUN_EXIT_USAGE_FAILURE, p)
             else
               let p = (if NoLogo Options then p else CfixcmdsPrintBanner env p)
               in if InputFileType Options = CfixrunInputRequiresSpawn
                  then CfixcmdsSpawnAndRun env Options p
                  else RunMain Options p)
          })"

section \<open>Inside the executable\<close>

text \<open>
  A variable read into a buffer of the given size: one that is empty counts as missing, and one
  that does not fit leaves the buffer with what was in it.
\<close>

definition read_variable ::
    "wstring \<Rightarrow> nat \<Rightarrow> (wstring \<Rightarrow> wstring option) \<Rightarrow> wstring \<Rightarrow> wstring option" where
  "read_variable junk Size vars Name =
     (case vars Name of
        None \<Rightarrow> None
      | Some v \<Rightarrow> if v = [] then None else Some (if length v < Size then v else junk))"

text \<open>
  The routine is called at most once; it returns a code or ends the process. \<open>LoadLib\<close> gives the
  exports of a module. The result is the exit code, or that the program goes on with its own main
  routine.
\<close>

datatype 'w ending = Continues 'w | Exits dword 'w

definition CfixpCrtInitEmbedding ::
    "wstring \<Rightarrow> bool \<Rightarrow> bool \<Rightarrow> (wstring \<Rightarrow> (wstring \<Rightarrow> ('w \<Rightarrow> ((hresult + dword) \<times> 'w) option) option) option) \<Rightarrow>
       (wstring \<Rightarrow> wstring option) \<Rightarrow> 'w \<Rightarrow> ('w ending) option" where
  "CfixpCrtInitEmbedding junk Initialized IsExe LoadLib vars w =
     (if Initialized \<or> \<not> IsExe then Some (Continues w)
      else case read_variable junk 100 vars CFIX_EMB_INIT_ENVVAR_NAME of
        None \<Rightarrow> Some (Continues w)
      | Some Buffer \<Rightarrow>
          if 0x21 \<notin> set Buffer then Some (Continues w)
          else
            let Module = takeWhile (\<lambda>c. c \<noteq> 0x21) Buffer;
                Routine = tl (dropWhile (\<lambda>c. c \<noteq> 0x21) Buffer)
            in case LoadLib Module of
                 None \<Rightarrow> Some (Continues w)
               | Some Exports \<Rightarrow>
                   (case Exports Routine of
                      None \<Rightarrow> Some (Continues w)
                    | Some f \<Rightarrow>
                        do {
                          (r, w) \<leftarrow> f w;
                          Some (case r of
                                  Inr Code \<Rightarrow> Exits Code w
                                | Inl Hr \<Rightarrow> if Hr = CFIX_S_EXIT_PROCESS then Exits 0 w
                                            else if FAILED Hr then Exits Hr w else Continues w)
                        }))"

text \<open>
  \<open>Split\<close> is \<open>CommandLineToArgvW\<close>, with its error. The routine always ends the process.
\<close>

definition CfixEmbMain ::
    "(wstring \<Rightarrow> dword + wstring list) \<Rightarrow> wstring \<Rightarrow> bool \<Rightarrow> (run_options \<Rightarrow> 'w \<Rightarrow> (dword \<times> 'w) option) \<Rightarrow>
       run_options \<Rightarrow> (wstring \<Rightarrow> wstring option) \<Rightarrow> 'w \<Rightarrow> ((hresult + dword) \<times> 'w) option" where
  "CfixEmbMain Split junk IsDebuggerPresent RunMain Zero vars w =
     (case read_variable junk 512 vars CFIXRUN_EMB_CMDLINE_ENVVAR_NAME of
        None \<Rightarrow> Some (Inr E_INVALIDARG, w)
      | Some CommandLine \<Rightarrow>
          (case Split CommandLine of
             Inl Err \<Rightarrow> Some (Inr Err, w)
           | Inr [] \<Rightarrow> Some (Inr CFIXRUN_EXIT_USAGE_FAILURE, w)
           | Inr Argv \<Rightarrow>
               do {
                 (ok, Options, Out) \<leftarrow> CfixrunParseCommandLine IsDebuggerPresent Argv Zero;
                 (if \<not> ok then Some (Inr CFIXRUN_EXIT_USAGE_FAILURE, w)
                  else do { (ExitCode, w) \<leftarrow> RunMain Options w; Some (Inr ExitCode, w) })
               }))"

end
