(* ===== verification/CfixCmdInv.thy ===== *)
theory CfixCmdInv
  imports CfixCmd RunnerMainInv
begin

text \<open>
  Running the tests of an executable: the command reaches the main routine inside the process it
  spawned, if the path of the helper library is short enough; and no handle is left open.
\<close>

section \<open>Version of a module\<close>

lemma version_gives_back:
  assumes "CdiagGetModuleVersion Exists InfoSize Info p out h = (r, h')"
  shows "Live h' = Live h"
  using assms by (auto simp: CdiagGetModuleVersion_def malloc_def free_def Let_def
      split: option.splits if_splits sum.splits prod.splits)

section \<open>Handles\<close>

lemma handles_simps [simp]:
  "OpenHandles (close_handle x p) = OpenHandles p - {x}"
  "OpenHandles (open_handle x p) = insert x (OpenHandles p)"
  "OpenHandles (print_line Options t p) = OpenHandles p"
  "OpenHandles (set_variables env e p) = OpenHandles p"
  "OpenHandles (relay env bs p) = OpenHandles p"
  "OpenHandles (snd (CfixcmdsRelayOutput env bs p)) = OpenHandles p"
  "Environment (close_handle x p) = Environment p" "Environment (open_handle x p) = Environment p"
proof -
  show r: "OpenHandles (relay env bs p) = OpenHandles p" for p
    by (induction env bs p rule: relay.induct) simp_all
  show "OpenHandles (snd (CfixcmdsRelayOutput env bs p)) = OpenHandles p"
    by (simp add: CfixcmdsRelayOutput_def r)
qed (simp_all add: close_handle_def open_handle_def print_line_def set_variables_def)

lemma banner_handles: "OpenHandles (CfixcmdsPrintBanner env p) = OpenHandles p"
  by (cases "ModulePath env"; cases "ModuleVersion env") (simp_all add: CfixcmdsPrintBanner_def)

text \<open>The system gives handles that are not in use.\<close>

definition fresh_handles :: "cmd_env \<Rightarrow> process \<Rightarrow> bool" where
  "fresh_handles env p \<longleftrightarrow>
     (\<forall>r w. Pipe env = Some (r, w) \<longrightarrow> r \<noteq> w \<and> r \<notin> OpenHandles p \<and> w \<notin> OpenHandles p
        \<and> (\<forall>d. Duplicate env = Some d \<longrightarrow> d \<noteq> r \<and> d \<noteq> w \<and> d \<notin> OpenHandles p
             \<and> (\<forall>f v c. CreateProcess env f v = Some (Inr c) \<longrightarrow>
                  ChildProcess c \<noteq> ChildThread c
                  \<and> {ChildProcess c, ChildThread c} \<inter> (insert d (insert w (OpenHandles p))) = {})))"

lemma run_child_handles:
  assumes "run_child env Options File r w p = Some (c, p')"
    and "\<And>f v ch. CreateProcess env f v = Some (Inr ch) \<Longrightarrow> {ChildProcess ch, ChildThread ch} \<inter> OpenHandles p = {}"
  shows "OpenHandles p' = OpenHandles p - {r, w}"
proof -
  obtain pr where pr: "CreateProcess env File (Environment p) = Some pr"
    using assms(1) by (cases "CreateProcess env File (Environment p)") (auto simp: run_child_def)
  show ?thesis
  proof (cases pr)
    case (Inl err)
    from assms(1) have "OpenHandles p' = OpenHandles p - {w} - {r}"
      unfolding run_child_def pr Inl Option.bind.simps Let_def sum.case case_prod_unfold
      by (clarsimp simp only: option.inject prod.inject handles_simps if_distrib [of OpenHandles] if_cancel)
    then show ?thesis by auto
  next
    case (Inr ch)
    have "{ChildProcess ch, ChildThread ch} \<inter> OpenHandles p = {}" using assms(2) pr Inr by blast
    moreover from assms(1) have "OpenHandles p' =
        insert (ChildThread ch) (insert (ChildProcess ch) (OpenHandles p)) - {w}
          - {ChildThread ch} - {ChildProcess ch} - {r}"
      unfolding run_child_def pr Inr Option.bind.simps Let_def sum.case case_prod_unfold
      by (clarsimp simp only: option.inject prod.inject handles_simps if_distrib [of OpenHandles] if_cancel)
    ultimately show ?thesis by auto
  qed
qed

text \<open>Whatever goes wrong, every handle that was opened is closed.\<close>

lemma spawn_gives_back_handles:
  assumes "fresh_handles env p" and "CfixcmdsSpawnAndRun env Options p = Some (c, p')"
  shows "OpenHandles p' = OpenHandles p"
proof -
  obtain File where inp: "InputFile Options = Some File"
    using assms(2) by (cases "InputFile Options") (auto simp: CfixcmdsSpawnAndRun_def)
  show ?thesis
  proof (cases "FileThere env File \<and> CfixcmdsGetCfixEmbPath env \<noteq> None")
    case False
    with assms(2) inp show ?thesis by (auto simp: CfixcmdsSpawnAndRun_def split: if_splits option.splits)
  next
    case True
    then obtain e where e: "CfixcmdsGetCfixEmbPath env = Some e" by blast
    let ?p = "set_variables env e p"
    show ?thesis
    proof (cases "Pipe env")
      case None
      with assms(2) inp True e show ?thesis by (auto simp: CfixcmdsSpawnAndRun_def CfixcmdsCreatePipe_def)
    next
      case (Some rw)
      obtain r w where rw: "rw = (r, w)" by (cases rw)
      have f: "r \<noteq> w" "r \<notin> OpenHandles p" "w \<notin> OpenHandles p"
        using assms(1) Some rw by (auto simp: fresh_handles_def)
      show ?thesis
      proof (cases "Duplicate env")
        case None
        with assms(2) inp True e Some rw f show ?thesis
          by (auto simp: CfixcmdsSpawnAndRun_def CfixcmdsCreatePipe_def Let_def)
      next
        case (Some d)
        let ?q = "close_handle r (open_handle d (open_handle w (open_handle r ?p)))"
        have run: "run_child env Options File d w ?q = Some (c, p')"
          using assms(2) inp True e \<open>Pipe env = Some rw\<close> rw Some
          by (simp add: CfixcmdsSpawnAndRun_def CfixcmdsCreatePipe_def Let_def)
        have d: "d \<noteq> r" "d \<notin> OpenHandles p"
          using assms(1) \<open>Pipe env = Some rw\<close> rw Some by (auto simp: fresh_handles_def)
        have open_set: "OpenHandles ?q = insert d (insert w (OpenHandles p))" using f d by auto
        have "{ChildProcess ch, ChildThread ch} \<inter> OpenHandles ?q = {}"
          if "CreateProcess env f' v = Some (Inr ch)" for f' v ch
          using assms(1) \<open>Pipe env = Some rw\<close> rw Some that unfolding open_set fresh_handles_def by blast
        from run_child_handles [OF run this] show ?thesis unfolding open_set using f d by auto
      qed
    qed
  qed
qed

section \<open>Into the executable\<close>

text \<open>
  An executable with tests: the stack of its initializer, the libraries it can load, its own main
  routine, and its state when it starts.
\<close>

record 'w executable =
  StackContents :: wstring
  Libraries :: "(wstring \<Rightarrow> wstring option) \<Rightarrow> wstring \<Rightarrow>
                  (wstring \<Rightarrow> ('w \<Rightarrow> ((hresult + dword) \<times> 'w) option) option) option"
  OwnMain :: "'w \<Rightarrow> (dword \<times> 'w) option"
  AtStart :: 'w

definition run_executable ::
    "'w executable \<Rightarrow> (wstring \<Rightarrow> wstring option) \<Rightarrow> (dword \<times> 'w) option" where
  "run_executable exe vars =
     (case CfixpCrtInitEmbedding (StackContents exe) False True (Libraries exe vars) vars (AtStart exe) of
        None \<Rightarrow> None
      | Some (Exits c w) \<Rightarrow> Some (c, w)
      | Some (Continues w) \<Rightarrow> OwnMain exe w)"

text \<open>\<open>env\<close> spawns \<open>exe\<close>; \<open>ps\<close> has the handles of the process and what it writes.\<close>

definition spawns :: "cmd_env \<Rightarrow> wstring \<Rightarrow> 'w executable \<Rightarrow> nat \<times> nat \<times> 8 word list list \<Rightarrow> bool" where
  "spawns env File exe ps \<longleftrightarrow>
     (\<forall>vars. CreateProcess env File vars =
        map_option (\<lambda>(c, _). Inr \<lparr>ChildProcess = fst ps, ChildThread = fst (snd ps),
                                    ChildOutput = snd (snd ps), ChildExitCode = c\<rparr>)
          (run_executable exe vars))"

text \<open>The variables that the child finds.\<close>

lemma variable_names [simp]: "CFIX_EMB_INIT_ENVVAR_NAME \<noteq> CFIXRUN_EMB_CMDLINE_ENVVAR_NAME"
  by (simp add: CFIX_EMB_INIT_ENVVAR_NAME_def CFIXRUN_EMB_CMDLINE_ENVVAR_NAME_def)

definition routine_name :: wstring where
  "routine_name = wide ''CfixEmbMain''"

lemma helper_name: "wide ''!CfixEmbMain'' = 0x21 # routine_name" "length routine_name = 11"
  by (simp_all add: routine_name_def)

lemma child_variables:
  assumes "vars = Environment (set_variables env e p)"
  shows "vars CFIX_EMB_INIT_ENVVAR_NAME = Some (e @ 0x21 # routine_name)"
    and "vars CFIXRUN_EMB_CMDLINE_ENVVAR_NAME = Some (CommandLineText env)"
  using assms by (simp_all add: set_variables_def helper_name(1) del: wide_Cons)

lemma split_at_bang:
  "0x21 \<notin> set e \<Longrightarrow> takeWhile (\<lambda>c. c \<noteq> 0x21) (e @ 0x21 # r) = e"
  "0x21 \<notin> set e \<Longrightarrow> tl (dropWhile (\<lambda>c. c \<noteq> 0x21) (e @ 0x21 # r)) = r"
  by (auto simp: takeWhile_append dropWhile_append)

lemma spawned:
  assumes "InputFile Options = Some File" "FileThere env File" "CfixcmdsGetCfixEmbPath env = Some e"
    and "Pipe env = Some (r, w)" "Duplicate env = Some d" "spawns env File exe ps"
  obtains vars q where "vars = Environment (set_variables env e p)"
    "map_option fst (CfixcmdsSpawnAndRun env Options p) = map_option fst (run_executable exe vars)"
proof -
  define vars where "vars = Environment (set_variables env e p)"
  let ?q = "close_handle r (open_handle d (open_handle w (open_handle r (set_variables env e p))))"
  have q: "Environment ?q = vars" by (simp add: vars_def)
  have "CfixcmdsSpawnAndRun env Options p = run_child env Options File d w ?q"
    using assms by (simp add: CfixcmdsSpawnAndRun_def CfixcmdsCreatePipe_def Let_def)
  moreover have "map_option fst (run_child env Options File d w ?q) = map_option fst (run_executable exe vars)"
    using assms(6) unfolding run_child_def q spawns_def
    by (cases "run_executable exe vars") (auto simp: Let_def case_prod_unfold)
  ultimately show ?thesis using that [OF vars_def] by simp
qed

lemma embedding_short:
  assumes "vars CFIX_EMB_INIT_ENVVAR_NAME = Some (e @ 0x21 # routine_name)"
    and "0x21 \<notin> set e" "length e < 88"
    and "LoadLib e = Some X" "X routine_name = Some f"
  shows "CfixpCrtInitEmbedding junk False True LoadLib vars w =
     map_option (\<lambda>(r, w). case r of Inr c \<Rightarrow> Exits c w
        | Inl Hr \<Rightarrow> if Hr = CFIX_S_EXIT_PROCESS then Exits 0 w
                    else if FAILED Hr then Exits Hr w else Continues w) (f w)"
proof -
  have "length (e @ 0x21 # routine_name) < 100" using assms(3) by (simp add: helper_name(2))
  then have "read_variable junk 100 vars CFIX_EMB_INIT_ENVVAR_NAME = Some (e @ 0x21 # routine_name)"
    using assms(1) by (simp add: read_variable_def del: length_append)
  then show ?thesis using assms(4,5)
    unfolding CfixpCrtInitEmbedding_def
    by (cases "f w") (auto simp: Let_def split_at_bang [OF assms(2)])
qed

text \<open>A path that does not fit leaves the buffer alone: nothing is run in place of the program.\<close>

lemma embedding_long:
  assumes "vars CFIX_EMB_INIT_ENVVAR_NAME = Some (e @ 0x21 # routine_name)"
    and "88 \<le> length e" "0x21 \<notin> set junk"
  shows "CfixpCrtInitEmbedding junk False True LoadLib vars w = Some (Continues w)"
proof -
  have "\<not> length (e @ 0x21 # routine_name) < 100" using assms(2) by (simp add: helper_name(2))
  then have "read_variable junk 100 vars CFIX_EMB_INIT_ENVVAR_NAME = Some junk"
    using assms(1) by (simp add: read_variable_def del: length_append)
  then show ?thesis using assms(3) by (simp add: CfixpCrtInitEmbedding_def)
qed

section \<open>Property\<close>


text \<open>An executable whose own main routine never returns.\<close>

definition demo_argv :: "wstring list" where
  "demo_argv = [wide ''cfix'', wide ''-exe'', wide ''t.exe'']"

definition demo_exe :: "(unit, unit) run_world executable" where
  "demo_exe =
     \<lparr>StackContents = [],
      Libraries = (\<lambda>vars _. Some (\<lambda>_. Some (CfixEmbMain (\<lambda>_. Inr demo_argv) [] False (CfixrunMain demo_env)
                                       no_options vars))),
      OwnMain = (\<lambda>_. None), AtStart = demo_run_world\<rparr>"

definition demo_cmd :: cmd_env where
  "demo_cmd =
     \<lparr>ModulePath = Some (wide ''c''), ModuleVersion = None, BuildEnvironment = [], FileThere = (\<lambda>_. True),
      RemoveFileSpec = Some, AppendPath = (\<lambda>d x. Some (d @ 0x5C # x)), Pipe = Some (1, 2), Duplicate = Some 3,
      CommandLineText = wide ''x'', PipeError = 0, HasStdout = True, InputFileAddress = 0, WriteOk = (\<lambda>_. True),
      CreateProcess = (\<lambda>_ vars. map_option (\<lambda>(c, _). Inr \<lparr>ChildProcess = 4, ChildThread = 5,
                                  ChildOutput = [], ChildExitCode = c\<rparr>) (run_executable demo_exe vars))\<rparr>"

definition demo_process :: process where
  "demo_process = \<lparr>OpenHandles = {}, Environment = (\<lambda>_. None), StdoutOpen = True, Stdout = [], Printed = []\<rparr>"

lemma demo_parse:
  "CfixrunParseCommandLine False demo_argv no_options =
     Some (True, no_options\<lparr>InputFileType := CfixrunInputRequiresSpawn, InputFile := Some (wide ''t.exe'')\<rparr>, [])"
proof -
  have "flag_effect (wide ''exe'') = Switch (\<lambda>opts. opts\<lparr>InputFileType := CfixrunInputRequiresSpawn\<rparr>)"
    by (simp add: flag_effect_def)
  moreover have "CfixrunpIsExe (wide ''t.exe'')"
    by (simp add: CfixrunpIsExe_def has_extension_def wcsicmp_eq_def)
  ultimately show ?thesis
    by (simp add: CfixrunParseCommandLine_def demo_argv_def exe_conflict_def no_options_def)
qed


text \<open>With a longer path the program itself is run, and its exit code is the answer of the command.\<close>

lemma long_path_runs_no_test:
  assumes "InputFile Options = Some File" "FileThere env File" "CfixcmdsGetCfixEmbPath env = Some e"
    and "Pipe env = Some (r, w)" "Duplicate env = Some d" "spawns env File exe ps"
    and "88 \<le> length e" "0x21 \<notin> set (StackContents exe)"
  shows "map_option fst (CfixcmdsSpawnAndRun env Options p) = map_option fst (OwnMain exe (AtStart exe))"
proof -
  obtain vars where vars: "vars = Environment (set_variables env e p)"
    and child: "map_option fst (CfixcmdsSpawnAndRun env Options p) = map_option fst (run_executable exe vars)"
    by (rule spawned [OF assms(1-6)])
  show ?thesis
    using embedding_long [where vars = vars and e = e and junk = "StackContents exe" and LoadLib = "Libraries exe vars" and w = "AtStart exe",
        OF child_variables(1) [OF vars] assms(7,8)]
    by (simp add: child run_executable_def)
qed

end
