(* ===== verification/DriverLife.thy ===== *)
theory DriverLife
  imports Reflector KernelThread KernelReport
begin

text \<open>
  Drivers coming and going: entry and unload of the reflector (\<open>cfixkern/cfixkr/main.c\<close>), the
  interface it hands out (\<open>drvconn.c\<close>, the tables of \<open>rptstubs.c\<close>), and the code that is embedded
  into each test driver (\<open>cfixkern/cfixkdrv/drvmain.c\<close>), which announces the driver to the reflector,
  forwards its reports through the interface, and gives the interface back.

  The interface is memory, a sequence of cells of the size of a pointer; the reports of the test
  driver are calls through cells. The objects of the I/O manager are seen through their reference
  counts.
\<close>

section \<open>The driver object of the reflector\<close>

datatype irp_major =
    IRP_MJ_CREATE | IRP_MJ_CLEANUP | IRP_MJ_CLOSE | IRP_MJ_PNP | IRP_MJ_DEVICE_CONTROL

datatype dispatch_routine =
    DispatchCreate | DispatchCleanup | DispatchClose | DispatchPnp | DispatchDeviceControl

text \<open>\<open>DeviceObject\<close> is the device the I/O manager keeps for the driver, \<open>DosLink\<close> its symbolic link.\<close>

record driver_object =
  DeviceObject :: "nat option"
  DosLink :: bool
  MajorFunction :: "irp_major \<Rightarrow> dispatch_routine option"
  DriverUnload :: bool
  ConnRegistry :: "conn_registry option"

text \<open>
  What the kernel answers during the entry. \<open>StaleDevice\<close> is what the variable for the device holds
  before it is written: the routine does not initialise it.
\<close>

record entry_env =
  AuxStatus :: ntstatus
  RegistryLock :: ntstatus
  TableAlloc :: "nat \<Rightarrow> bool"
  CreateDevice :: "ntstatus + nat"
  StaleDevice :: "nat option"
  LinkStatus :: ntstatus

text \<open>Deleting a device that is not there leaves defined behaviour.\<close>

definition IoDeleteDevice :: "nat \<Rightarrow> driver_object \<Rightarrow> driver_object option" where
  "IoDeleteDevice dev d =
     (if DeviceObject d = Some dev then Some (d\<lparr>DeviceObject := None\<rparr>) else None)"

definition delete_device :: "nat option \<Rightarrow> driver_object \<Rightarrow> driver_object option" where
  "delete_device p d = (case p of None \<Rightarrow> Some d | Some dev \<Rightarrow> IoDeleteDevice dev d)"

fun reflector_dispatch :: "irp_major \<Rightarrow> dispatch_routine" where
  "reflector_dispatch IRP_MJ_CREATE = DispatchCreate"
| "reflector_dispatch IRP_MJ_CLEANUP = DispatchCleanup"
| "reflector_dispatch IRP_MJ_CLOSE = DispatchClose"
| "reflector_dispatch IRP_MJ_PNP = DispatchPnp"
| "reflector_dispatch IRP_MJ_DEVICE_CONTROL = DispatchDeviceControl"

definition DriverEntry ::
    "bool \<Rightarrow> entry_env \<Rightarrow> driver_object \<Rightarrow> (ntstatus \<times> driver_object) option" where
  "DriverEntry Win64 env d =
     (if \<not> NT_SUCCESS (AuxStatus env) then Some (AuxStatus env, d)
      else case CfixkrpInitializeDriverConnectionRegistry Win64 (RegistryLock env) (TableAlloc env) of
        (Status, None) \<Rightarrow> Some (Status, d)
      | (_, Some reg) \<Rightarrow>
          let (Status, Device, d) =
                (case CreateDevice env of
                   Inl Status \<Rightarrow> (Status, StaleDevice env, d)
                 | Inr dev \<Rightarrow> (STATUS_SUCCESS, Some dev, d\<lparr>DeviceObject := Some dev\<rparr>));
              (Status, d) =
                (if \<not> NT_SUCCESS Status then (Status, d)
                 else if \<not> NT_SUCCESS (LinkStatus env) then (LinkStatus env, d)
                 else (LinkStatus env,
                       d\<lparr>DosLink := True, MajorFunction := (\<lambda>i. Some (reflector_dispatch i)),
                         DriverUnload := True\<rparr>))
          in if NT_SUCCESS Status then Some (Status, d\<lparr>ConnRegistry := Some reg\<rparr>)
             else do {
               d \<leftarrow> delete_device Device d;
               Some (Status, d\<lparr>ConnRegistry := Some (CfixkrpTeardownDriverConnectionRegistry reg)\<rparr>)
             })"

definition CfixkrpUnload :: "driver_object \<Rightarrow> driver_object option" where
  "CfixkrpUnload d =
     (let Device = DeviceObject d; d = d\<lparr>DosLink := False\<rparr>
      in do {
        d \<leftarrow> delete_device Device d;
        Some (d\<lparr>ConnRegistry := map_option CfixkrpTeardownDriverConnectionRegistry (ConnRegistry d)\<rparr>)
      })"

section \<open>Requests without parameters\<close>

record irp =
  IoStatus :: ntstatus
  Information :: ulong_ptr
  Completions :: nat

definition CfixkrpCompleteRequest :: "irp \<Rightarrow> ntstatus \<Rightarrow> ulong_ptr \<Rightarrow> ntstatus \<times> irp" where
  "CfixkrpCompleteRequest Irp Status Info =
     (Status, Irp\<lparr>IoStatus := Status, Information := Info, Completions := Completions Irp + 1\<rparr>)"

definition CfixkrpDispatchCreate :: "irp \<Rightarrow> ntstatus \<times> irp" where
  "CfixkrpDispatchCreate Irp = CfixkrpCompleteRequest Irp STATUS_SUCCESS 0"

definition CfixkrpDispatchCleanup :: "irp \<Rightarrow> ntstatus \<times> irp" where
  "CfixkrpDispatchCleanup Irp = CfixkrpCompleteRequest Irp STATUS_SUCCESS 0"

definition CfixkrpDispatchClose :: "irp \<Rightarrow> ntstatus \<times> irp" where
  "CfixkrpDispatchClose Irp = CfixkrpCompleteRequest Irp STATUS_SUCCESS 0"

section \<open>The report sink interface\<close>

datatype sink_routine =
    SinkReference | SinkDereference
  | SinkReportFailedAssertion | SinkAssertEqualsUlong | SinkReportInconclusiveness | SinkReportLog
  | SinkReportFailedAssertionFormat | SinkFail | SinkGetValue | SinkSetValue | SinkCreateSystemThread

datatype sink_cell =
    ZeroCell | HeaderCell "16 word" "16 word" | ContextCell nat | RoutineCell sink_routine

type_synonym sink = "nat \<Rightarrow> sink_cell"

text \<open>
  The base of an interface has four cells: size and version, the context, and the two routines for
  its references. The methods follow; the versions have four, eight and nine of them.
\<close>

definition sink_cells :: "ulong \<Rightarrow> nat" where
  "sink_cells Version =
     (if Version = 0x1000 then 4 + 4
      else if Version = 0x2000 then 4 + 8
      else if Version = 0x3000 then 4 + 9 else 0)"

definition sizeof_sink :: "nat \<Rightarrow> ulong \<Rightarrow> nat" where
  "sizeof_sink PointerSize Version = PointerSize * sink_cells Version"

definition CfixkrpGetReportSinkStubs :: "sink \<Rightarrow> sink" where
  "CfixkrpGetReportSinkStubs I =
     I(4 := RoutineCell SinkReportFailedAssertion, 5 := RoutineCell SinkAssertEqualsUlong,
       6 := RoutineCell SinkReportInconclusiveness, 7 := RoutineCell SinkReportLog)"

definition CfixkrpGetReportSinkStubs2 :: "sink \<Rightarrow> sink" where
  "CfixkrpGetReportSinkStubs2 I =
     I(4 := RoutineCell SinkReportFailedAssertion, 5 := RoutineCell SinkAssertEqualsUlong,
       6 := RoutineCell SinkReportInconclusiveness, 7 := RoutineCell SinkReportLog,
       8 := RoutineCell SinkReportFailedAssertionFormat, 9 := RoutineCell SinkFail,
       10 := RoutineCell SinkGetValue, 11 := RoutineCell SinkSetValue)"

definition CfixkrpGetReportSinkStubs3 :: "sink \<Rightarrow> sink" where
  "CfixkrpGetReportSinkStubs3 I =
     I(4 := RoutineCell SinkReportFailedAssertion, 5 := RoutineCell SinkAssertEqualsUlong,
       6 := RoutineCell SinkReportInconclusiveness, 7 := RoutineCell SinkReportLog,
       8 := RoutineCell SinkReportFailedAssertionFormat, 9 := RoutineCell SinkFail,
       10 := RoutineCell SinkGetValue, 11 := RoutineCell SinkSetValue,
       12 := RoutineCell SinkCreateSystemThread)"

definition CfixkrpQuerySinkInterfaceDriverConnection :: "nat \<Rightarrow> nat \<Rightarrow> sink \<Rightarrow> sink" where
  "CfixkrpQuerySinkInterfaceDriverConnection P Connection I =
     CfixkrpGetReportSinkStubs
       (I(0 := HeaderCell (of_nat (sizeof_sink P 0x1000)) 0x1000, 1 := ContextCell Connection,
          2 := RoutineCell SinkReference, 3 := RoutineCell SinkDereference))"

definition CfixkrpQuerySinkInterfaceDriverConnection2 :: "nat \<Rightarrow> nat \<Rightarrow> sink \<Rightarrow> sink" where
  "CfixkrpQuerySinkInterfaceDriverConnection2 P Connection I =
     CfixkrpGetReportSinkStubs2
       (I(0 := HeaderCell (of_nat (sizeof_sink P 0x2000)) 0x2000, 1 := ContextCell Connection,
          2 := RoutineCell SinkReference, 3 := RoutineCell SinkDereference))"

definition CfixkrpQuerySinkInterfaceDriverConnection3 :: "nat \<Rightarrow> nat \<Rightarrow> sink \<Rightarrow> sink" where
  "CfixkrpQuerySinkInterfaceDriverConnection3 P Connection I =
     CfixkrpGetReportSinkStubs3
       (I(0 := HeaderCell (of_nat (sizeof_sink P 0x3000)) 0x3000, 1 := ContextCell Connection,
          2 := RoutineCell SinkReference, 3 := RoutineCell SinkDereference))"

text \<open>The test of the parameters, and the switch on the version, of a query for the interface.\<close>

definition is_sink_query :: "nat \<Rightarrow> bool \<Rightarrow> nat \<Rightarrow> bool \<Rightarrow> ulong_ptr \<Rightarrow> bool" where
  "is_sink_query P IsReportSink Size HasInterface SpecificData \<longleftrightarrow>
     IsReportSink \<and> sizeof_sink P 0x1000 \<le> Size \<and> HasInterface \<and> SpecificData \<noteq> 0"

definition hand_out :: "nat \<Rightarrow> nat \<Rightarrow> ulong option \<Rightarrow> sink \<Rightarrow> sink" where
  "hand_out P Connection Version I =
     (if Version = Some 0x1000 then CfixkrpQuerySinkInterfaceDriverConnection P Connection I
      else if Version = Some 0x2000 then CfixkrpQuerySinkInterfaceDriverConnection2 P Connection I
      else if Version = Some 0x3000 then CfixkrpQuerySinkInterfaceDriverConnection3 P Connection I
      else I)"

section \<open>Giving a connection back\<close>

text \<open>
  What the reflector keeps, together: \<open>Life\<close> has the reference counts of each connection and
  \<open>LoadAddress\<close> its load address. \<open>UnloadLocks\<close> counts initialised locks.
\<close>

record kernel_world =
  ReflState :: refl_state
  PoolHeap :: heap
  UnloadLocks :: int
  Life :: "nat \<Rightarrow> connection"
  LoadAddress :: "nat \<Rightarrow> ulong_ptr"

text \<open>
  The end of a connection after the last reference: the filament registry, the registration if
  it is still there, the adapter, the lock and the connection itself.
\<close>

definition delete_connection :: "nat \<Rightarrow> kernel_world \<Rightarrow> kernel_world" where
  "delete_connection Conn w =
     (let r = ReflState w; Base = LoadAddress w Conn;
          h = free (PoolHeap w);
          Found = (\<not> TornDown (DrvRegistry r)
                   \<and> snd (CfixkrpLookupDriverConnection Base (DrvRegistry r)) \<noteq> None);
          (_, reg) = CfixkrpUnregisterDriverConnection Base (DrvRegistry r);
          h = (if Found then free h else h);
          h = CfixkrpDeleteTestAdapter (Adapters r Conn) h
      in w\<lparr>ReflState := r\<lparr>DrvRegistry := reg\<rparr>, PoolHeap := free h, UnloadLocks := UnloadLocks w - 1\<rparr>)"

text \<open>
  The routine that a test driver calls through its interface. It waits for the calls into the
  driver to finish; \<open>None\<close> when that does not happen.
\<close>

definition CfixkrsExternalDereferenceConnection :: "nat \<Rightarrow> kernel_world \<Rightarrow> kernel_world option" where
  "CfixkrsExternalDereferenceConnection Conn w =
     do {
       s \<leftarrow> conn_run [DriverAcquire, DriverRelease, DriverDereference] (Life w Conn);
       (if Unregistering s = Unregistering (Life w Conn)
        then Some (w\<lparr>Life := (Life w)(Conn := s)\<rparr>)
        else do {
          s \<leftarrow> conn_run [Unregister, FreeConnection] s;
          Some (delete_connection Conn (w\<lparr>Life := (Life w)(Conn := s)\<rparr>))
        })
     }"

section \<open>The embedded code of a test driver\<close>

text \<open>
  \<open>Announcements\<close> is the part of the kernel a query for the interface meets, as in
  \<open>CfixkrpDispatchPnp\<close>; \<open>FileRefs\<close>, \<open>DeviceRefs\<close> and \<open>PendingIrps\<close> are the references to the file and
  to the device of the reflector, and the requests that were sent and never completed.
\<close>

record announcements =
  PnpWin64 :: bool
  PnpNames :: "string \<Rightarrow> nat \<Rightarrow> ntstatus + wstring"
  PnpDefinitions :: "dword \<Rightarrow> pe_definition option"
  PnpImages :: "ulong_ptr \<Rightarrow> driver_image option"
  PnpQuery :: "ntstatus \<times> ntstatus"
  PnpModules :: "(ulong_ptr \<times> ulong) list"
  PnpLock :: ntstatus

record test_driver =
  CfixkrDevice :: "nat option"
  ReportSink :: sink
  FileRefs :: int
  DeviceRefs :: int
  PendingIrps :: nat

abbreviation STATUS_INSUFFICIENT_RESOURCES :: ntstatus
  where "STATUS_INSUFFICIENT_RESOURCES \<equiv> 0xC000009A"

definition pointer_size :: "announcements \<Rightarrow> nat" where
  "pointer_size k = (if PnpWin64 k then 8 else 4)"

text \<open>
  Sending the query to the reflector: \<open>Size\<close> and \<open>Version\<close> describe the interface \<open>I\<close> that is to be
  filled in. \<open>Conn\<close> is the place of a new connection. Result: status, whether the request was
  completed, the interface.
\<close>

definition query_sink ::
    "announcements \<Rightarrow> nat \<Rightarrow> nat \<Rightarrow> ulong \<Rightarrow> ulong_ptr \<Rightarrow> sink \<Rightarrow> kernel_world \<Rightarrow>
       ((ntstatus \<times> bool \<times> sink) \<times> kernel_world) option" where
  "query_sink k Conn Size Version Address I w =
     do {
       ((Status, Completed, Given), r, h, Locks) \<leftarrow>
         CfixkrpDispatchPnp (PnpWin64 k) (PnpNames k) (PnpDefinitions k) (PnpImages k) (PnpQuery k)
           (PnpModules k) (PnpLock k) True (is_sink_query (pointer_size k) True Size True Address)
           Address Version Conn (ReflState w) (PoolHeap w) (UnloadLocks w);
       Some ((Status, Completed, hand_out (pointer_size k) Conn Given I),
             (if Locks = UnloadLocks w then w\<lparr>ReflState := r, PoolHeap := h\<rparr>
              else w\<lparr>ReflState := r, PoolHeap := h, UnloadLocks := Locks,
                     Life := (Life w)(Conn := fresh_connection),
                     LoadAddress := (LoadAddress w)(Conn := find_module Address (PnpModules k))\<rparr>))
     }"

definition CfixkDrvQueryReporter ::
    "announcements \<Rightarrow> bool \<Rightarrow> nat \<Rightarrow> ulong_ptr \<Rightarrow> test_driver \<Rightarrow> kernel_world \<Rightarrow>
       (ntstatus \<times> test_driver \<times> kernel_world) option" where
  "CfixkDrvQueryReporter k irp_ok Conn AddressWithinCurrentModule d w =
     (if \<not> irp_ok then Some (STATUS_INSUFFICIENT_RESOURCES, d, w)
      else do {
        ((Status, Completed, I), w) \<leftarrow> query_sink k Conn (sizeof_sink (pointer_size k) 0x3000) 0x3000
          AddressWithinCurrentModule (ReportSink d) w;
        Some (Status, d\<lparr>ReportSink := I,
                        PendingIrps := PendingIrps d + (if Completed then 0 else 1)\<rparr>, w)
      })"

text \<open>\<open>Pointer\<close> is the answer of \<open>IoGetDeviceObjectPointer\<close>; its success references the file.\<close>

definition DriverEntry_test ::
    "announcements \<Rightarrow> ntstatus + nat \<Rightarrow> bool \<Rightarrow> nat \<Rightarrow> ulong_ptr \<Rightarrow> test_driver \<Rightarrow> kernel_world \<Rightarrow>
       (ntstatus \<times> test_driver \<times> kernel_world) option" where
  "DriverEntry_test k Pointer irp_ok Conn Address d w =
     (case Pointer of
        Inl Status \<Rightarrow> Some (Status, d, w)
      | Inr CfixkrObject \<Rightarrow>
          do {
            (Status, d, w) \<leftarrow>
              CfixkDrvQueryReporter k irp_ok Conn Address (d\<lparr>FileRefs := FileRefs d + 1\<rparr>) w;
            let d = (if NT_SUCCESS Status
                     then d\<lparr>DeviceRefs := DeviceRefs d + 1, CfixkrDevice := Some CfixkrObject\<rparr>
                     else d);
            Some (Status, d\<lparr>FileRefs := FileRefs d - 1\<rparr>, w)
          })"

text \<open>
  The unload routine clears the interface with the size of its first version. A call through a cell
  that is not the expected routine leaves defined behaviour.
\<close>

definition CfixkDrvUnload :: "test_driver \<Rightarrow> kernel_world \<Rightarrow> (test_driver \<times> kernel_world) option" where
  "CfixkDrvUnload d w =
     (case CfixkrDevice d of
        None \<Rightarrow> Some (d, w)
      | Some _ \<Rightarrow>
          (case (ReportSink d 3, ReportSink d 1) of
             (RoutineCell SinkDereference, ContextCell Conn) \<Rightarrow>
               do {
                 w \<leftarrow> CfixkrsExternalDereferenceConnection Conn w;
                 Some (d\<lparr>ReportSink := (\<lambda>i. if i < sink_cells 0x1000 then ZeroCell else ReportSink d i),
                         DeviceRefs := DeviceRefs d - 1\<rparr>, w)
               }
           | _ \<Rightarrow> None))"

section \<open>The report routines of a test driver\<close>

text \<open>
  Each routine goes through its cell of the interface with the context in the second one. The
  states of the connections are functions of the connection. Without a context nothing is
  reported; in a release build the assertion before that test is absent.
\<close>

definition sink_context :: "sink \<Rightarrow> nat option" where
  "sink_context I = (case I 1 of ContextCell Conn \<Rightarrow> Some Conn | _ \<Rightarrow> None)"

text \<open>Calling the routine in cell \<open>i\<close>, which the caller takes for \<open>f\<close>.\<close>

definition through :: "sink \<Rightarrow> nat \<Rightarrow> sink_routine \<Rightarrow> 'a \<Rightarrow> 'a option" where
  "through I i f x = (if I i = RoutineCell f then Some x else None)"

definition on_connection :: "nat \<Rightarrow> ('s \<Rightarrow> 'a \<times> 's) \<Rightarrow> (nat \<Rightarrow> 's) \<Rightarrow> 'a \<times> (nat \<Rightarrow> 's)" where
  "on_connection Conn f S = (let (a, s) = f (S Conn) in (a, S(Conn := s)))"

type_synonym reports = "nat \<Rightarrow> report_state"

definition CfixPeFail_test ::
    "sink \<Rightarrow> kernel_env \<Rightarrow> kthread \<Rightarrow> reports \<Rightarrow> (unit outcome \<times> reports) option" where
  "CfixPeFail_test I env me S =
     (case sink_context I of
        None \<Rightarrow> Some (Returned (), S)
      | Some Conn \<Rightarrow> through I 9 SinkFail (on_connection Conn (CfixkrsFailStub env me) S))"

definition CfixPeReportFailedAssertion_test ::
    "sink \<Rightarrow> kernel_env \<Rightarrow> kthread \<Rightarrow> wstring option \<Rightarrow> wstring option \<Rightarrow> ulong \<Rightarrow> wstring option \<Rightarrow>
       reports \<Rightarrow> (disposition outcome \<times> reports) option" where
  "CfixPeReportFailedAssertion_test I env me File Routine Line Expression S =
     (case sink_context I of
        None \<Rightarrow> Some (Returned CfixAbort, S)
      | Some Conn \<Rightarrow> through I 4 SinkReportFailedAssertion (on_connection Conn
          (CfixkrsReportFailedAssertionStub env me File Routine Line Expression) S))"

definition CfixPeReportFailedAssertionFormatW_test ::
    "sink \<Rightarrow> kernel_env \<Rightarrow> kthread \<Rightarrow> wstring option \<Rightarrow> wstring option \<Rightarrow> ulong \<Rightarrow> wstring option \<Rightarrow>
       (wstring \<Rightarrow> nat \<Rightarrow> wstring) \<Rightarrow> reports \<Rightarrow> (disposition outcome \<times> reports) option" where
  "CfixPeReportFailedAssertionFormatW_test I env me File Routine Line Format format S =
     (case sink_context I of
        None \<Rightarrow> Some (Returned CfixAbort, S)
      | Some Conn \<Rightarrow> through I 8 SinkReportFailedAssertionFormat (on_connection Conn
          (CfixkrsReportFailedAssertionFormatStub env me File Routine Line Format format) S))"

definition CfixPeAssertEqualsUlong_test ::
    "sink \<Rightarrow> kernel_env \<Rightarrow> kthread \<Rightarrow> ulong \<Rightarrow> ulong \<Rightarrow> wstring option \<Rightarrow> wstring option \<Rightarrow> ulong \<Rightarrow>
       wstring option \<Rightarrow> (nat \<Rightarrow> wstring) \<Rightarrow> reports \<Rightarrow> (disposition outcome \<times> reports) option" where
  "CfixPeAssertEqualsUlong_test I env me Expected Actual File Routine Line Expression format S =
     (case sink_context I of
        None \<Rightarrow> Some (Returned CfixAbort, S)
      | Some Conn \<Rightarrow> through I 5 SinkAssertEqualsUlong (on_connection Conn
          (CfixkrsAssertEqualsUlongStub env me Expected Actual File Routine Line Expression format) S))"

definition CfixPeReportInconclusiveness_test ::
    "sink \<Rightarrow> kernel_env \<Rightarrow> kthread \<Rightarrow> wstring option \<Rightarrow> reports \<Rightarrow>
       (unit outcome \<times> reports) option" where
  "CfixPeReportInconclusiveness_test I env me Message S =
     (case sink_context I of
        None \<Rightarrow> Some (Returned (), S)
      | Some Conn \<Rightarrow> through I 6 SinkReportInconclusiveness (on_connection Conn
          (CfixkrsReportInconclusivenessStub env me Message) S))"

definition CfixPeReportLog_test ::
    "sink \<Rightarrow> kernel_env \<Rightarrow> kthread \<Rightarrow> wstring option \<Rightarrow> (wstring \<Rightarrow> nat \<Rightarrow> wstring) \<Rightarrow> reports \<Rightarrow>
       (unit outcome \<times> reports) option" where
  "CfixPeReportLog_test I env me Format format S =
     (case sink_context I of
        None \<Rightarrow> Some (Returned (), S)
      | Some Conn \<Rightarrow> through I 7 SinkReportLog (on_connection Conn
          (CfixkrsReportLogStub env me Format format) S))"

definition CfixPeGetValue_test :: "sink \<Rightarrow> kthread \<Rightarrow> ulong \<Rightarrow> reports \<Rightarrow> ulong_ptr option" where
  "CfixPeGetValue_test I me Tag S =
     (case sink_context I of
        None \<Rightarrow> Some 0
      | Some Conn \<Rightarrow> through I 10 SinkGetValue (CfixkrsGetValueStub me Tag (S Conn)))"

definition CfixPeSetValue_test ::
    "sink \<Rightarrow> kthread \<Rightarrow> ulong \<Rightarrow> ulong_ptr \<Rightarrow> reports \<Rightarrow> reports option" where
  "CfixPeSetValue_test I me Tag Value S =
     (case sink_context I of
        None \<Rightarrow> Some S
      | Some Conn \<Rightarrow> through I 11 SinkSetValue
          (S(Conn := CfixkrsSetValueStub me Tag Value (S Conn))))"

text \<open>The reflector's end of the creation of a thread, and the test driver's.\<close>

definition CfixkrsCreateSystemThread ::
    "nat \<Rightarrow> ps_create \<Rightarrow> nat \<times> nat \<Rightarrow> bool \<Rightarrow> kthread \<Rightarrow> ulong \<Rightarrow> (nat \<Rightarrow> kthread_world) \<Rightarrow>
       (creation_result \<times> (nat \<Rightarrow> kthread_world)) option" where
  "CfixkrsCreateSystemThread Conn PsCreate OsVersion pool_ok me Flags W =
     map_option (\<lambda>(r, w). (r, W(Conn := w)))
       (CfixkrpCreateSystemThread PsCreate OsVersion pool_ok me Flags (W Conn))"

definition CfixCreateSystemThread_test ::
    "sink \<Rightarrow> ps_create \<Rightarrow> nat \<times> nat \<Rightarrow> bool \<Rightarrow> kthread \<Rightarrow> ulong \<Rightarrow> (nat \<Rightarrow> kthread_world) \<Rightarrow>
       (creation_result \<times> (nat \<Rightarrow> kthread_world)) option" where
  "CfixCreateSystemThread_test I PsCreate OsVersion pool_ok me Flags W =
     (case sink_context I of
        None \<Rightarrow> Some (no_thread STATUS_UNSUCCESSFUL, W)
      | Some Conn \<Rightarrow>
          do {
            call \<leftarrow> through I 12 SinkCreateSystemThread
              (CfixkrsCreateSystemThread Conn PsCreate OsVersion pool_ok me Flags W);
            call
          })"

end
