(* ===== verification/DriverLifeInv.thy ===== *)
theory DriverLifeInv
  imports DriverLife PeLoadProps HashtableProps ConnectionInv
begin

text \<open>
  What holds of drivers coming and going: a failed entry of the reflector leaves neither device
  nor link behind, provided that the variable of the device was empty; the versions of the
  interface are prefixes of each other; a test driver that was announced is found, its reports are
  those of the reflector on its connection, and its unload takes back all that its entry took.
\<close>

section \<open>The reflector\<close>

text \<open>
  Entry with an empty device variable: it returns; on failure device, link and routines are as
  before; on success all are there and unload takes device and link away again.
\<close>

lemma reflector_entry_cleans_up:
  assumes "StaleDevice env = None" and "DeviceObject d = None" and "\<not> DosLink d"
    and "\<And>st. CreateDevice env = Inl st \<Longrightarrow> \<not> NT_SUCCESS st"
  shows "\<exists>Status d'. DriverEntry Win64 env d = Some (Status, d')
       \<and> (if NT_SUCCESS Status
          then DosLink d' \<and> DriverUnload d' \<and> DeviceObject d' \<noteq> None
               \<and> (\<forall>i. MajorFunction d' i = Some (reflector_dispatch i))
               \<and> (\<exists>reg. ConnRegistry d' = Some reg \<and> \<not> TornDown reg)
               \<and> (\<exists>d''. CfixkrpUnload d' = Some d'' \<and> DeviceObject d'' = None \<and> \<not> DosLink d''
                    \<and> (\<exists>reg. ConnRegistry d'' = Some reg \<and> TornDown reg))
          else DeviceObject d' = None \<and> \<not> DosLink d' \<and> MajorFunction d' = MajorFunction d
               \<and> (ConnRegistry d' = ConnRegistry d
                  \<or> (\<exists>reg. ConnRegistry d' = Some reg \<and> TornDown reg)))"
proof (cases "NT_SUCCESS (AuxStatus env)")
  case True
  obtain st reg where init: "CfixkrpInitializeDriverConnectionRegistry Win64 (RegistryLock env)
      (TableAlloc env) = (st, reg)" by fastforce
  show ?thesis
  proof (cases reg)
    case None
    then have "\<not> NT_SUCCESS st" using init
      by (auto simp: CfixkrpInitializeDriverConnectionRegistry_def NT_SUCCESS_def
          split: if_splits option.splits)
    with True init None assms show ?thesis by (auto simp: DriverEntry_def)
  next
    case (Some reg)
    then have live: "\<not> TornDown reg" using init
      by (auto simp: CfixkrpInitializeDriverConnectionRegistry_def split: if_splits option.splits)
    have "TornDown (CfixkrpTeardownDriverConnectionRegistry reg)"
      by (simp add: CfixkrpTeardownDriverConnectionRegistry_def split: prod.split)
    then show ?thesis using True init Some assms live
      by (cases "CreateDevice env")
        (auto simp: DriverEntry_def CfixkrpUnload_def delete_device_def IoDeleteDevice_def NT_SUCCESS_def)
  qed
qed (use assms in \<open>simp add: DriverEntry_def\<close>)

text \<open>When the variable is not empty, a device that could not be created is deleted.\<close>

lemma reflector_entry_deletes_stale:
  assumes "StaleDevice env = Some p" and "DeviceObject d = None" and "CreateDevice env = Inl Status"
    and "NT_SUCCESS (AuxStatus env)" and "NT_SUCCESS (RegistryLock env)" and "\<And>n. TableAlloc env n"
    and "\<not> NT_SUCCESS Status"
  shows "DriverEntry Win64 env d = None"
  using assms
  by (simp add: DriverEntry_def CfixkrpInitializeDriverConnectionRegistry_def JphtInitializeHashtable_def
      delete_device_def IoDeleteDevice_def)

text \<open>The requests without parameters succeed and are completed once.\<close>

lemma create_cleanup_close_complete:
  assumes "f \<in> {CfixkrpDispatchCreate, CfixkrpDispatchCleanup, CfixkrpDispatchClose}"
  shows "f Irp = (STATUS_SUCCESS, Irp\<lparr>IoStatus := STATUS_SUCCESS, Information := 0,
                    Completions := Completions Irp + 1\<rparr>)"
  using assms by (auto simp: CfixkrpDispatchCreate_def CfixkrpDispatchCleanup_def
      CfixkrpDispatchClose_def CfixkrpCompleteRequest_def)

section \<open>The interface\<close>

lemmas hand_out_defs =
  hand_out_def CfixkrpQuerySinkInterfaceDriverConnection_def
  CfixkrpQuerySinkInterfaceDriverConnection2_def CfixkrpQuerySinkInterfaceDriverConnection3_def
  CfixkrpGetReportSinkStubs_def CfixkrpGetReportSinkStubs2_def CfixkrpGetReportSinkStubs3_def

definition sink_versions :: "ulong set" where
  "sink_versions = {0x1000, 0x2000, 0x3000}"

text \<open>
  Nothing is written behind the structure of the version; and what a version has in common with
  an older one is where the older one has it.
\<close>

lemma hand_out_stays_inside:
  "v \<in> sink_versions \<Longrightarrow> sink_cells v \<le> i \<Longrightarrow> hand_out P Conn (Some v) I i = I i"
  by (auto simp: sink_versions_def sink_cells_def hand_out_defs)

lemma hand_out_versions_agree:
  assumes "v \<in> sink_versions" and "v' \<in> sink_versions" and "0 < i" and "i < sink_cells v" and "i < sink_cells v'"
  shows "hand_out P Conn (Some v) I i = hand_out P Conn (Some v') J i"
proof -
  have "i < 13" using assms(1,4) by (auto simp: sink_versions_def sink_cells_def)
  then have "i \<in> {1, 2, 3, 4, 5, 6, 7, 8, 9, 10, 11, 12}" using assms(3) by simp presburger
  then show ?thesis using assms by (auto simp: sink_versions_def sink_cells_def hand_out_defs)
qed

text \<open>
  But the size that the caller names is only compared with that of the first version: a request of
  that size for the third is granted, and five cells behind the structure are written.
\<close>

lemma sink_size_unchecked:
  "is_sink_query P True (sizeof_sink P 0x1000) True 0x5000
   \<and> (\<forall>i \<in> {8, 9, 10, 11, 12}. hand_out P Conn (Some 0x3000) (\<lambda>_. ZeroCell) i \<noteq> ZeroCell)"
  by (auto simp: is_sink_query_def hand_out_defs)

section \<open>Announcing a test driver\<close>

lemma init_adapter_effect:
  assumes "CfixkrsInitializeAdapter Win64 a2u defs img h = Some (a, h')"
  shows "Live h' = Live h + (case a of Inl _ \<Rightarrow> 0 | Inr _ \<Rightarrow> 1)"
    and "a = Inl st \<Longrightarrow> (\<And>n k st. a2u n k = Inl st \<Longrightarrow> \<not> NT_SUCCESS st) \<Longrightarrow> \<not> NT_SUCCESS st"
proof -
  have fx: "\<not> NT_SUCCESS st" if "CfixkrsInitializeFixture Win64 a2u n df = Inl st"
      and "\<And>n k st. a2u n k = Inl st \<Longrightarrow> \<not> NT_SUCCESS st" for n df st
    using that by (auto simp: CfixkrsInitializeFixture_def NT_SUCCESS_def
        split: sum.splits option.splits if_splits)
  have walk: "\<not> NT_SUCCESS st" if "walk_driver_exports Win64 a2u defs i xs alloc fxs = Some (Inl st)"
      and "\<And>n k st. a2u n k = Inl st \<Longrightarrow> \<not> NT_SUCCESS st" for i xs alloc fxs st
    using that by (induction xs arbitrary: fxs)
      (auto simp: bind_Some_iff split: if_splits sum.splits dest: fx)
  have "Live h' = Live h + (case a of Inl _ \<Rightarrow> 0 | Inr _ \<Rightarrow> 1)
      \<and> (a = Inl st \<longrightarrow> (\<forall>n k st. a2u n k = Inl st \<longrightarrow> \<not> NT_SUCCESS st) \<longrightarrow> \<not> NT_SUCCESS st)"
  proof (cases img)
    case None
    with assms show ?thesis by (auto simp: CfixkrsInitializeAdapter_def NT_SUCCESS_def)
  next
    case (Some i)
    obtain ok h1 where m: "malloc (length (NameTable i)) h = (ok, h1)" by fastforce
    show ?thesis
    proof (cases "NtSignatureOk i \<and> ok")
      case False
      with assms Some m malloc_live [OF m] show ?thesis
        by (auto simp: CfixkrsInitializeAdapter_def NT_SUCCESS_def split: if_splits)
    next
      case True
      with assms Some m obtain r where
        r: "CfixkrsWalkExportDirectoryAndExtractFixtures Win64 a2u defs i = Some r"
        by (auto simp: CfixkrsInitializeAdapter_def bind_Some_iff)
      have "\<not> NT_SUCCESS st" if "r = Inl st" "\<And>n k st. a2u n k = Inl st \<Longrightarrow> \<not> NT_SUCCESS st" for st
        using r that(1) walk [OF _ that(2)]
        by (auto simp: CfixkrsWalkExportDirectoryAndExtractFixtures_def split: if_splits)
      with assms Some m True r malloc_live [OF m] show ?thesis
        by (cases r) (auto simp: CfixkrsInitializeAdapter_def)
    qed
  qed
  then show "Live h' = Live h + (case a of Inl _ \<Rightarrow> 0 | Inr _ \<Rightarrow> 1)"
    and "a = Inl st \<Longrightarrow> (\<And>n k st. a2u n k = Inl st \<Longrightarrow> \<not> NT_SUCCESS st) \<Longrightarrow> \<not> NT_SUCCESS st" by blast+
qed

lemma adapter_effect:
  assumes "CfixkrpCreateTestAdapter Win64 a2u defs img h = Some (a, h')"
  shows "Live h' = Live h + (case a of Inl _ \<Rightarrow> 0 | Inr _ \<Rightarrow> 2)"
    and "a = Inl st \<Longrightarrow> (\<And>n k st. a2u n k = Inl st \<Longrightarrow> \<not> NT_SUCCESS st) \<Longrightarrow> \<not> NT_SUCCESS st"
proof -
  obtain ok h1 where m: "malloc 1 h = (ok, h1)" by fastforce
  have "Live h' = Live h + (case a of Inl _ \<Rightarrow> 0 | Inr _ \<Rightarrow> 2)
      \<and> (a = Inl st \<longrightarrow> (\<forall>n k st. a2u n k = Inl st \<longrightarrow> \<not> NT_SUCCESS st) \<longrightarrow> \<not> NT_SUCCESS st)"
  proof (cases ok)
    case False
    with assms m malloc_live [OF m] show ?thesis
      by (auto simp: CfixkrpCreateTestAdapter_def NT_SUCCESS_def)
  next
    case True
    with assms m obtain r h2 where r: "CfixkrsInitializeAdapter Win64 a2u defs img h1 = Some (r, h2)"
      by (auto simp: CfixkrpCreateTestAdapter_def bind_Some_iff)
    from True assms m r malloc_live [OF m] init_adapter_effect(1) [OF r] init_adapter_effect(2) [OF r]
    show ?thesis by (cases r) (auto simp: CfixkrpCreateTestAdapter_def)
  qed
  then show "Live h' = Live h + (case a of Inl _ \<Rightarrow> 0 | Inr _ \<Rightarrow> 2)"
    and "a = Inl st \<Longrightarrow> (\<And>n k st. a2u n k = Inl st \<Longrightarrow> \<not> NT_SUCCESS st) \<Longrightarrow> \<not> NT_SUCCESS st" by blast+
qed

text \<open>A connection takes five blocks and a lock; when it cannot be made, nothing is left.\<close>

lemma create_connection_effect:
  assumes "CfixkrpCreateAndRegisterDriverConnection Win64 a2u defs img Lock Base Conn r h Locks =
             Some (Status, r', h', Locks')"
    and "\<And>n k st. a2u n k = Inl st \<Longrightarrow> \<not> NT_SUCCESS st"
  shows "if NT_SUCCESS Status
         then Locks' = Locks + 1 \<and> Live h' = Live h + 5
              \<and> DrvRegistry r' = snd (CfixkrpRegisterDriverConnection True Base Conn (DrvRegistry r))
         else r' = r \<and> Live h' = Live h \<and> Locks' = Locks"
proof -
  obtain ok1 h1 where m1: "malloc 1 h = (ok1, h1)" by fastforce
  obtain ok2 h2 where m2: "malloc 31 h1 = (ok2, h2)" by fastforce
  note live = malloc_live [OF m1] malloc_live [OF m2]
  have reg: "CfixkrpInitializeFilamentRegistry Win64 (\<lambda>_. ok2) =
      (if ok2 then (STATUS_SUCCESS, snd (CfixkrpInitializeFilamentRegistry Win64 (\<lambda>_. True)))
       else (STATUS_NO_MEMORY, None))"
    and made: "snd (CfixkrpInitializeFilamentRegistry Win64 (\<lambda>_. True)) \<noteq> None"
    by (simp_all add: CfixkrpInitializeFilamentRegistry_def JphtInitializeHashtable_def)
  show ?thesis
  proof (cases "ok1 \<and> ok2 \<and> NT_SUCCESS Lock")
    case False
    with assms(1) m1 m2 reg made live show ?thesis
      by (auto simp: CfixkrpCreateAndRegisterDriverConnection_def NT_SUCCESS_def split: if_splits)
  next
    case True
    obtain ks where ks: "snd (CfixkrpInitializeFilamentRegistry Win64 (\<lambda>_. True)) = Some ks"
      using made by blast
    from assms(1) True m1 m2 reg ks obtain a h3 where
      a: "CfixkrpCreateTestAdapter Win64 a2u defs img h2 = Some (a, h3)"
      by (auto simp: CfixkrpCreateAndRegisterDriverConnection_def bind_Some_iff)
    note live = live adapter_effect(1) [OF a]
    show ?thesis
    proof (cases a)
      case (Inl st)
      with assms(1) True m1 m2 reg ks a live adapter_effect(2) [OF a Inl assms(2)] show ?thesis
        by (auto simp: CfixkrpCreateAndRegisterDriverConnection_def)
    next
      case (Inr A)
      obtain ok4 h4 where m4: "malloc 2 h3 = (ok4, h4)" by fastforce
      from assms(1) True m1 m2 reg ks a Inr live m4 malloc_live [OF m4] show ?thesis
        by (cases ok4) (auto simp: CfixkrpCreateAndRegisterDriverConnection_def
            CfixkrpRegisterDriverConnection_def CfixkrpDeleteTestAdapter_def NT_SUCCESS_def)
    qed
  qed
qed

lemma module_base_effect:
  assumes "CfixkrpGetModuleBaseAddress Query Modules Address h = (b, h')"
  shows "Live h' = Live h" and "b = Inr Base \<Longrightarrow> Base = find_module Address Modules \<and> Base \<noteq> 0"
proof -
  obtain ok h1 where m: "malloc (length Modules) h = (ok, h1)" by fastforce
  from assms m malloc_live [OF m] show "Live h' = Live h"
    and "b = Inr Base \<Longrightarrow> Base = find_module Address Modules \<and> Base \<noteq> 0"
    by (auto simp: CfixkrpGetModuleBaseAddress_def Let_def split: if_splits bool.splits)
qed

text \<open>
  What a query for the third version with the size of the third version does: it leaves all as it
  was, or creates the connection and hands the interface out.
\<close>

definition sink3 :: "announcements \<Rightarrow> nat \<Rightarrow> sink \<Rightarrow> sink" where
  "sink3 k Conn = CfixkrpQuerySinkInterfaceDriverConnection3 (pointer_size k) Conn"

definition base_of :: "announcements \<Rightarrow> ulong_ptr \<Rightarrow> ulong_ptr" where
  "base_of k Address = find_module Address (PnpModules k)"

definition names_fail :: "announcements \<Rightarrow> bool" where
  "names_fail k \<longleftrightarrow> (\<forall>n l st. PnpNames k n l = Inl st \<longrightarrow> \<not> NT_SUCCESS st)"

lemma query_sink_effect:
  assumes "query_sink k Conn (sizeof_sink (pointer_size k) 0x3000) 0x3000 Address I w =
             Some ((Status, Completed, I'), w')"
    and "names_fail k"
  shows "Live (PoolHeap w') = Live (PoolHeap w) + (if NT_SUCCESS Status then 5 else 0)"
    and "UnloadLocks w' = UnloadLocks w + (if NT_SUCCESS Status then 1 else 0)"
    and "NT_SUCCESS Status \<Longrightarrow> Completed \<and> I' = sink3 k Conn I
           \<and> Life w' = (Life w)(Conn := fresh_connection)
           \<and> LoadAddress w' = (LoadAddress w)(Conn := base_of k Address)
           \<and> DrvRegistry (ReflState w') = snd (CfixkrpRegisterDriverConnection True
               (base_of k Address) Conn (DrvRegistry (ReflState w)))"
    and "\<not> NT_SUCCESS Status \<Longrightarrow> I' = I \<and> Life w' = Life w \<and> ReflState w' = ReflState w"
proof -
  let ?goal = "Live (PoolHeap w') = Live (PoolHeap w) + (if NT_SUCCESS Status then 5 else 0)
    \<and> UnloadLocks w' = UnloadLocks w + (if NT_SUCCESS Status then 1 else 0)
    \<and> (if NT_SUCCESS Status then Completed \<and> I' = sink3 k Conn I
           \<and> Life w' = (Life w)(Conn := fresh_connection)
           \<and> LoadAddress w' = (LoadAddress w)(Conn := base_of k Address)
           \<and> DrvRegistry (ReflState w') = snd (CfixkrpRegisterDriverConnection True
               (base_of k Address) Conn (DrvRegistry (ReflState w)))
       else I' = I \<and> Life w' = Life w \<and> ReflState w' = ReflState w)"
  obtain b h1 where b: "CfixkrpGetModuleBaseAddress (PnpQuery k) (PnpModules k) Address (PoolHeap w) =
      (b, h1)" by fastforce
  note live = module_base_effect(1) [OF b]
  note none = hand_out_def
  have ?goal
  proof (cases "is_sink_query (pointer_size k) True (sizeof_sink (pointer_size k) 0x3000) True Address")
    case False
    with assms(1) show ?thesis
      by (auto simp: query_sink_def CfixkrpDispatchPnp_def NT_SUCCESS_def none)
  next
    case sink: True
    show ?thesis
    proof (cases b)
      case (Inl st)
      with assms(1) sink b live show ?thesis
        by (auto simp: query_sink_def CfixkrpDispatchPnp_def NT_SUCCESS_def none)
    next
      case (Inr Base)
      with assms(1) sink b obtain st r h Locks where c:
        "CfixkrpCreateAndRegisterDriverConnection (PnpWin64 k) (PnpNames k) (PnpDefinitions k)
           (PnpImages k Base) (PnpLock k) Base Conn (ReflState w) h1 (UnloadLocks w) = Some (st, r, h, Locks)"
        by (auto simp: query_sink_def CfixkrpDispatchPnp_def bind_Some_iff)
      have "\<And>n l st. PnpNames k n l = Inl st \<Longrightarrow> \<not> NT_SUCCESS st"
        using assms(2) by (auto simp: names_fail_def)
      from create_connection_effect [OF c this] module_base_effect(2) [OF b Inr]
        assms(1) sink b Inr c live
      show ?thesis
        by (cases "NT_SUCCESS st")
          (auto simp: query_sink_def CfixkrpDispatchPnp_def none sink3_def base_of_def)
    qed
  qed
  then show "Live (PoolHeap w') = Live (PoolHeap w) + (if NT_SUCCESS Status then 5 else 0)"
    and "UnloadLocks w' = UnloadLocks w + (if NT_SUCCESS Status then 1 else 0)"
    and "NT_SUCCESS Status \<Longrightarrow> Completed \<and> I' = sink3 k Conn I
           \<and> Life w' = (Life w)(Conn := fresh_connection)
           \<and> LoadAddress w' = (LoadAddress w)(Conn := base_of k Address)
           \<and> DrvRegistry (ReflState w') = snd (CfixkrpRegisterDriverConnection True
               (base_of k Address) Conn (DrvRegistry (ReflState w)))"
    and "\<not> NT_SUCCESS Status \<Longrightarrow> I' = I \<and> Life w' = Life w \<and> ReflState w' = ReflState w"
    by (simp_all split: if_splits)
qed

section \<open>Giving the connection back\<close>

abbreviation found_at :: "ulong_ptr \<Rightarrow> kernel_world \<Rightarrow> ntstatus \<times> nat option" where
  "found_at b w \<equiv> CfixkrpLookupDriverConnection b (DrvRegistry (ReflState w))"

definition registry_known :: "kernel_world \<Rightarrow> bool" where
  "registry_known w \<longleftrightarrow> \<not> TornDown (DrvRegistry (ReflState w))
     \<and> ht_inv CfixkrsHashRegistration CfixkrsEqualsRegistration (Connections (DrvRegistry (ReflState w)))"

lemma lookup_registered:
  assumes "ht_inv CfixkrsHashRegistration CfixkrsEqualsRegistration (Connections r)"
  shows "CfixkrpLookupDriverConnection b (snd (CfixkrpRegisterDriverConnection True a Conn r)) =
           (if b = a then (STATUS_SUCCESS, Some Conn) else CfixkrpLookupDriverConnection b r)"
  using registration_table.put_lookup [OF assms, of b "\<lparr>Key = a, Payload = Conn\<rparr>"]
  by (simp add: CfixkrpRegisterDriverConnection_def CfixkrpLookupDriverConnection_def
      CfixkrsEqualsRegistration_def)

lemma lookup_unregistered:
  assumes "ht_inv CfixkrsHashRegistration CfixkrsEqualsRegistration (Connections r)" and "\<not> TornDown r"
  shows "CfixkrpLookupDriverConnection b (snd (CfixkrpUnregisterDriverConnection a r)) =
           (if b = a then (STATUS_NOT_FOUND, None) else CfixkrpLookupDriverConnection b r)"
  using registration_table.remove_lookup [OF assms(1), of b a] assms(2)
  by (cases "JphtRemoveEntryHashtable CfixkrsHashRegistration CfixkrsEqualsRegistration a (Connections r)")
    (auto simp: CfixkrpUnregisterDriverConnection_def CfixkrpLookupDriverConnection_def
      CfixkrsEqualsRegistration_def)

text \<open>Until the driver gives its reference up, the connection is registered and nobody deletes it.\<close>

lemma connection_kept_for_driver:
  assumes "conn_reachable s"
  shows "Driver s \<noteq> DriverGone \<longrightarrow> Unregistering s = 0 \<and> Freeing s = 0 \<and> Freed s = 0 \<and> Registered s"
  using assms
proof (induction rule: conn_reachable.induct)
  case created
  show ?case by (simp add: fresh_connection_def)
next
  case (step s a s')
  have "2 \<le> ReferenceCount s" if "Callers s c \<noteq> Outside" "Driver s \<noteq> DriverGone" for c
  proof -
    have "finite (inside s)" "c \<in> inside s"
      using conn_reachable_inv [OF step.hyps(1)] that(1) by (auto simp: conn_inv_def inside_def)
    then have "0 < card (inside s)" by (auto simp: card_gt_0_iff)
    with conn_reachable_inv [OF step.hyps(1)] that(2) show ?thesis by (simp add: conn_inv_def)
  qed
  then have one: "Callers s c = Outside" if "ReferenceCount s = 1" "Driver s \<noteq> DriverGone" for c
    using that by fastforce
  show ?case
  proof (cases a)
    case (GiveBack c)
    with step.IH step.hyps(2) one [of c] show ?thesis
      by (auto simp: CfixkrpDereferenceConnection_def Let_def split: if_splits)
  qed (use step.IH step.hyps(2) in \<open>auto simp: CfixkrpReferenceConnection_def
      CfixkrpDereferenceConnection_def Let_def split: if_splits\<close>)
qed

text \<open>
  However callers came and went, once the last has left the driver's release finds the lock free,
  and the connection is gone with its blocks, its lock and its registration.
\<close>

lemma release_frees:
  assumes "conn_reachable (Life w Conn)" and "\<And>c. Callers (Life w Conn) c = Outside"
    and "Driver (Life w Conn) = DriverRunning" and "registry_known w"
    and "found_at (LoadAddress w Conn) w = (STATUS_SUCCESS, Some n)"
  shows "\<exists>w'. CfixkrsExternalDereferenceConnection Conn w = Some w'
       \<and> Live (PoolHeap w') = Live (PoolHeap w) - 5 \<and> UnloadLocks w' = UnloadLocks w - 1
       \<and> Freed (Life w' Conn) = 1
       \<and> (\<forall>b. found_at b w' = (if b = LoadAddress w Conn then (STATUS_NOT_FOUND, None) else found_at b w))"
proof -
  let ?s = "Life w Conn"
  have inv: "conn_inv ?s" by (rule conn_reachable_inv [OF assms(1)])
  have none: "inside ?s = {}" using assms(2) by (auto simp: inside_def)
  have free_lock: "\<not> LockExclusive ?s" "LockShared ?s = {}" "ReferenceCount ?s = 1"
    using inv assms(2,3) none by (auto simp: conn_inv_def)
  note kept = connection_kept_for_driver [OF assms(1)]
  obtain s where s: "conn_run [DriverAcquire, DriverRelease, DriverDereference] ?s = Some s"
      "Unregistering s = 1" "Freeing s = 0" "Freed s = 0"
    using kept assms(3) free_lock by (simp add: CfixkrpDereferenceConnection_def Let_def)
  obtain s' where s': "conn_run [Unregister, FreeConnection] s = Some s'" "Freed s' = 1"
    using s(2-4) by simp
  have run: "CfixkrsExternalDereferenceConnection Conn w =
      Some (delete_connection Conn (w\<lparr>Life := (Life w)(Conn := s')\<rparr>))"
    unfolding CfixkrsExternalDereferenceConnection_def using s(1,2) s'(1) kept assms(3) by simp
  have tabs: "ht_inv CfixkrsHashRegistration CfixkrsEqualsRegistration
      (Connections (DrvRegistry (ReflState w)))" "\<not> TornDown (DrvRegistry (ReflState w))"
    using assms(4) by (simp_all add: registry_known_def)
  obtain st reg where reg: "CfixkrpUnregisterDriverConnection (LoadAddress w Conn)
      (DrvRegistry (ReflState w)) = (st, reg)" by fastforce
  have "CfixkrpLookupDriverConnection b reg =
      (if b = LoadAddress w Conn then (STATUS_NOT_FOUND, None) else found_at b w)" for b
    using lookup_unregistered [OF tabs, of b "LoadAddress w Conn"] reg by simp
  then show ?thesis
    unfolding run using assms(5) tabs(2) s'(2) reg
    by (simp add: delete_connection_def CfixkrpDeleteTestAdapter_def Let_def)
qed

section \<open>Entry and unload of a test driver\<close>

lemma sink3_cells:
  "sink_context (sink3 k Conn I) = Some Conn"
  "sink3 k Conn I 3 = RoutineCell SinkDereference"
  "sink3 k Conn I 4 = RoutineCell SinkReportFailedAssertion"
  "sink3 k Conn I 5 = RoutineCell SinkAssertEqualsUlong"
  "sink3 k Conn I 6 = RoutineCell SinkReportInconclusiveness"
  "sink3 k Conn I 7 = RoutineCell SinkReportLog"
  "sink3 k Conn I 8 = RoutineCell SinkReportFailedAssertionFormat"
  "sink3 k Conn I 9 = RoutineCell SinkFail"
  "sink3 k Conn I 10 = RoutineCell SinkGetValue"
  "sink3 k Conn I 11 = RoutineCell SinkSetValue"
  "sink3 k Conn I 12 = RoutineCell SinkCreateSystemThread"
  by (simp_all add: sink3_def hand_out_defs sink_context_def)

lemma sink3_context_cell: "sink3 k Conn I (Suc 0) = ContextCell Conn"
  by (simp add: sink3_def hand_out_defs)

lemma entry_effect:
  assumes "DriverEntry_test k Pointer irp_ok Conn Address d w = Some (Status, d', w')"
    and "names_fail k" and "\<And>st. Pointer = Inl st \<Longrightarrow> \<not> NT_SUCCESS st"
  shows "Live (PoolHeap w') = Live (PoolHeap w) + (if NT_SUCCESS Status then 5 else 0)"
    and "UnloadLocks w' = UnloadLocks w + (if NT_SUCCESS Status then 1 else 0)"
    and "FileRefs d' = FileRefs d"
    and "DeviceRefs d' = DeviceRefs d + (if NT_SUCCESS Status then 1 else 0)"
    and "NT_SUCCESS Status \<Longrightarrow> ReportSink d' = sink3 k Conn (ReportSink d) \<and> CfixkrDevice d' \<noteq> None
           \<and> PendingIrps d' = PendingIrps d
           \<and> Life w' = (Life w)(Conn := fresh_connection)
           \<and> LoadAddress w' = (LoadAddress w)(Conn := base_of k Address)
           \<and> DrvRegistry (ReflState w') = snd (CfixkrpRegisterDriverConnection True
               (base_of k Address) Conn (DrvRegistry (ReflState w)))"
    and "\<not> NT_SUCCESS Status \<Longrightarrow> ReportSink d' = ReportSink d \<and> CfixkrDevice d' = CfixkrDevice d
           \<and> Life w' = Life w \<and> ReflState w' = ReflState w"
proof -
  let ?goal = "Live (PoolHeap w') = Live (PoolHeap w) + (if NT_SUCCESS Status then 5 else 0)
    \<and> UnloadLocks w' = UnloadLocks w + (if NT_SUCCESS Status then 1 else 0)
    \<and> FileRefs d' = FileRefs d \<and> DeviceRefs d' = DeviceRefs d + (if NT_SUCCESS Status then 1 else 0)
    \<and> (if NT_SUCCESS Status then ReportSink d' = sink3 k Conn (ReportSink d) \<and> CfixkrDevice d' \<noteq> None
           \<and> PendingIrps d' = PendingIrps d
           \<and> Life w' = (Life w)(Conn := fresh_connection)
           \<and> LoadAddress w' = (LoadAddress w)(Conn := base_of k Address)
           \<and> DrvRegistry (ReflState w') = snd (CfixkrpRegisterDriverConnection True
               (base_of k Address) Conn (DrvRegistry (ReflState w)))
       else ReportSink d' = ReportSink d \<and> CfixkrDevice d' = CfixkrDevice d
           \<and> Life w' = Life w \<and> ReflState w' = ReflState w)"
  have ?goal
  proof (cases "\<exists>dev. Pointer = Inr dev \<and> irp_ok")
    case False
    with assms(1,3) show ?thesis
      by (cases Pointer) (auto simp: DriverEntry_test_def CfixkDrvQueryReporter_def NT_SUCCESS_def)
  next
    case True
    then obtain dev where P: "Pointer = Inr dev" and ok: "irp_ok" by blast
    from assms(1) P ok obtain st comp I w1 where
      q: "query_sink k Conn (sizeof_sink (pointer_size k) 0x3000) 0x3000 Address (ReportSink d) w =
        Some ((st, comp, I), w1)"
      by (auto simp: DriverEntry_test_def CfixkDrvQueryReporter_def bind_Some_iff)
    from query_sink_effect [OF q assms(2)] assms(1) P ok q show ?thesis
      by (cases "NT_SUCCESS st") (auto simp: DriverEntry_test_def CfixkDrvQueryReporter_def)
  qed
  then show "Live (PoolHeap w') = Live (PoolHeap w) + (if NT_SUCCESS Status then 5 else 0)"
    and "UnloadLocks w' = UnloadLocks w + (if NT_SUCCESS Status then 1 else 0)"
    and "FileRefs d' = FileRefs d"
    and "DeviceRefs d' = DeviceRefs d + (if NT_SUCCESS Status then 1 else 0)"
    and "NT_SUCCESS Status \<Longrightarrow> ReportSink d' = sink3 k Conn (ReportSink d) \<and> CfixkrDevice d' \<noteq> None
           \<and> PendingIrps d' = PendingIrps d
           \<and> Life w' = (Life w)(Conn := fresh_connection)
           \<and> LoadAddress w' = (LoadAddress w)(Conn := base_of k Address)
           \<and> DrvRegistry (ReflState w') = snd (CfixkrpRegisterDriverConnection True
               (base_of k Address) Conn (DrvRegistry (ReflState w)))"
    and "\<not> NT_SUCCESS Status \<Longrightarrow> ReportSink d' = ReportSink d \<and> CfixkrDevice d' = CfixkrDevice d
           \<and> Life w' = Life w \<and> ReflState w' = ReflState w"
    by (simp_all split: if_splits)
qed

text \<open>
  The reports of an announced driver are those of the reflector, on the state of its connection.
\<close>

lemma reports_reach_reflector:
  assumes "ReportSink d = sink3 k Conn I"
  shows "CfixPeFail_test (ReportSink d) env me S = Some (on_connection Conn (CfixkrsFailStub env me) S)"
    and "CfixPeReportFailedAssertion_test (ReportSink d) env me F R L E S =
           Some (on_connection Conn (CfixkrsReportFailedAssertionStub env me F R L E) S)"
    and "CfixPeReportFailedAssertionFormatW_test (ReportSink d) env me F R L E fmt S =
           Some (on_connection Conn (CfixkrsReportFailedAssertionFormatStub env me F R L E fmt) S)"
    and "CfixPeAssertEqualsUlong_test (ReportSink d) env me x y F R L E fmt' S =
           Some (on_connection Conn (CfixkrsAssertEqualsUlongStub env me x y F R L E fmt') S)"
    and "CfixPeReportInconclusiveness_test (ReportSink d) env me M S =
           Some (on_connection Conn (CfixkrsReportInconclusivenessStub env me M) S)"
    and "CfixPeReportLog_test (ReportSink d) env me E fmt S =
           Some (on_connection Conn (CfixkrsReportLogStub env me E fmt) S)"
    and "CfixPeGetValue_test (ReportSink d) me Tag S = Some (CfixkrsGetValueStub me Tag (S Conn))"
    and "CfixPeSetValue_test (ReportSink d) me Tag v S =
           Some (S(Conn := CfixkrsSetValueStub me Tag v (S Conn)))"
    and "CfixCreateSystemThread_test (ReportSink d) Ps Os ok me Flags W =
           CfixkrsCreateSystemThread Conn Ps Os ok me Flags W"
  using assms
  by (simp_all add: CfixPeFail_test_def CfixPeReportFailedAssertion_test_def
      CfixPeReportFailedAssertionFormatW_test_def CfixPeAssertEqualsUlong_test_def
      CfixPeReportInconclusiveness_test_def CfixPeReportLog_test_def CfixPeGetValue_test_def
      CfixPeSetValue_test_def CfixCreateSystemThread_test_def through_def sink3_cells)

text \<open>Without an interface, assertions ask for an abort and the other reports do nothing.\<close>

lemma reports_without_interface:
  assumes "sink_context I = None"
  shows "CfixPeFail_test I env me S = Some (Returned (), S)"
    and "CfixPeReportFailedAssertion_test I env me F R L E S = Some (Returned CfixAbort, S)"
    and "CfixPeAssertEqualsUlong_test I env me x y F R L E fmt' S = Some (Returned CfixAbort, S)"
    and "CfixCreateSystemThread_test I Ps Os ok me Flags W = Some (no_thread STATUS_UNSUCCESSFUL, W)"
  using assms by (simp_all add: CfixPeFail_test_def CfixPeReportFailedAssertion_test_def
      CfixPeAssertEqualsUlong_test_def CfixCreateSystemThread_test_def)

text \<open>
  The unload of an announced driver, after any calls that have come to their end.
\<close>

lemma unload_effect:
  assumes "CfixkrDevice d \<noteq> None" and "ReportSink d = sink3 k Conn I"
    and "Life w Conn = s" and "conn_reachable s" and "\<And>c. Callers s c = Outside"
    and "Driver s = DriverRunning" and "registry_known w"
    and "found_at (LoadAddress w Conn) w = (STATUS_SUCCESS, Some n)"
  shows "\<exists>d' w'. CfixkDrvUnload d w = Some (d', w')
       \<and> FileRefs d' = FileRefs d \<and> DeviceRefs d' = DeviceRefs d - 1
       \<and> Live (PoolHeap w') = Live (PoolHeap w) - 5 \<and> UnloadLocks w' = UnloadLocks w - 1
       \<and> Freed (Life w' Conn) = 1 \<and> sink_context (ReportSink d') = None
       \<and> (\<forall>b. found_at b w' = (if b = LoadAddress w Conn then (STATUS_NOT_FOUND, None) else found_at b w))"
proof -
  have "\<exists>w'. CfixkrsExternalDereferenceConnection Conn w = Some w'
       \<and> Live (PoolHeap w') = Live (PoolHeap w) - 5 \<and> UnloadLocks w' = UnloadLocks w - 1
       \<and> Freed (Life w' Conn) = 1
       \<and> (\<forall>b. found_at b w' = (if b = LoadAddress w Conn then (STATUS_NOT_FOUND, None) else found_at b w))"
    by (rule release_frees) (use assms in simp_all)
  then show ?thesis using assms(1,2)
    by (auto simp: CfixkDrvUnload_def sink3_context_cell sink3_cells(2) sink_context_def sink_cells_def)
qed

lemma registered_known:
  assumes "registry_known w"
    and "DrvRegistry (ReflState w') = snd (CfixkrpRegisterDriverConnection True a Conn (DrvRegistry (ReflState w)))"
  shows "registry_known w'" and "found_at b w' = (if b = a then (STATUS_SUCCESS, Some Conn) else found_at b w)"
  using assms lookup_registered [of "DrvRegistry (ReflState w)" b a Conn]
  by (simp_all add: registry_known_def CfixkrpRegisterDriverConnection_def registration_table.put_inv)

definition released ::
    "ulong_ptr \<Rightarrow> nat \<Rightarrow> test_driver \<Rightarrow> kernel_world \<Rightarrow> test_driver \<Rightarrow> kernel_world \<Rightarrow> bool" where
  "released Base Conn d w d' w' \<longleftrightarrow>
     Freed (Life w' Conn) = 1
   \<and> (\<forall>b. found_at b w' = (if b = Base then (STATUS_NOT_FOUND, None) else found_at b w))
   \<and> Live (PoolHeap w') = Live (PoolHeap w) \<and> UnloadLocks w' = UnloadLocks w
   \<and> FileRefs d' = FileRefs d \<and> DeviceRefs d' = DeviceRefs d \<and> sink_context (ReportSink d') = None"

lemma announced_unloads:
  assumes "DriverEntry_test k Pointer irp_ok Conn Address d w = Some (Status, d', w')"
    and "names_fail k" and "\<And>st. Pointer = Inl st \<Longrightarrow> \<not> NT_SUCCESS st"
    and "registry_known w" and "NT_SUCCESS Status"
    and "conn_run calls fresh_connection = Some s" "\<forall>c. Callers s c = Outside" "Driver s = DriverRunning"
  shows "\<exists>d'' w''. CfixkDrvUnload d' (w'\<lparr>Life := (Life w')(Conn := s)\<rparr>) = Some (d'', w'')
           \<and> released (base_of k Address) Conn d w d'' w''"
proof -
  note e = entry_effect(1-4) [OF assms(1-3)]
  note t = entry_effect(5) [OF assms(1-3,5)]
  then have reg: "DrvRegistry (ReflState w') = snd (CfixkrpRegisterDriverConnection True
      (base_of k Address) Conn (DrvRegistry (ReflState w)))" by blast
  note known = registered_known [OF assms(4) reg]
  let ?w = "w'\<lparr>Life := (Life w')(Conn := s)\<rparr>"
  have at: "LoadAddress ?w Conn = base_of k Address" using t by simp
  have "\<exists>d'' w''. CfixkDrvUnload d' ?w = Some (d'', w'')
     \<and> FileRefs d'' = FileRefs d' \<and> DeviceRefs d'' = DeviceRefs d' - 1
     \<and> Live (PoolHeap w'') = Live (PoolHeap ?w) - 5 \<and> UnloadLocks w'' = UnloadLocks ?w - 1
     \<and> Freed (Life w'' Conn) = 1 \<and> sink_context (ReportSink d'') = None
     \<and> (\<forall>b. found_at b w'' = (if b = LoadAddress ?w Conn then (STATUS_NOT_FOUND, None) else found_at b ?w))"
    by (rule unload_effect [where s = s and k = k and I = "ReportSink d" and n = Conn])
      (use t assms(6-8) known(1) known(2) [of "base_of k Address"]
          conn_run_reachable [OF conn_reachable.created assms(6)]
        in \<open>simp_all add: registry_known_def\<close>)
  with e assms(5) known(2) at show ?thesis by (auto simp: released_def)
qed


text \<open>
  A driver without fixtures, loaded at \<open>0x5000\<close>, while another one is connected.
\<close>

definition demo_announcements :: announcements where
  "demo_announcements = \<lparr>PnpWin64 = True, PnpNames = (\<lambda>_ _. Inl STATUS_NO_MEMORY),
     PnpDefinitions = (\<lambda>_. None),
     PnpImages = (\<lambda>_. Some \<lparr>NtSignatureOk = True, ExportDirVa = 0, ExportDirSize = 0,
        NumberOfFunctions = 0, OrdinalBase = 0, NameTable = [], OrdinalTable = [], FunctionTable = [],
        TablesPresent = False\<rparr>),
     PnpQuery = (0, 0), PnpModules = [(0x4000, 0x1000), (0x5000, 0x2000)], PnpLock = 0\<rparr>"

definition demo_driver :: test_driver where
  "demo_driver = \<lparr>CfixkrDevice = None, ReportSink = (\<lambda>_. ZeroCell), FileRefs = 0, DeviceRefs = 0,
     PendingIrps = 0\<rparr>"

definition demo_kworld :: kernel_world where
  "demo_kworld = \<lparr>ReflState = \<lparr>DrvRegistry = snd (CfixkrpRegisterDriverConnection True 0x4000 1
        (the (snd (CfixkrpInitializeDriverConnectionRegistry True 0 (\<lambda>_. True))))),
        Adapters = (\<lambda>_. []),
        FilamentRegistries = (\<lambda>_. the (snd (CfixkrpInitializeFilamentRegistry True (\<lambda>_. True))))\<rparr>,
     PoolHeap = \<lparr>Live = 5, Requests = 0, MallocOk = (\<lambda>_ _. True)\<rparr>, UnloadLocks = 1,
     Life = (\<lambda>_. fresh_connection), LoadAddress = (\<lambda>_. 0x4000)\<rparr>"

definition demo_entry :: "ntstatus \<times> test_driver \<times> kernel_world" where
  "demo_entry = the (DriverEntry_test demo_announcements (Inr 3) True 2 0x5100 demo_driver demo_kworld)"

lemma demo_entry_succeeds:
  "DriverEntry_test demo_announcements (Inr 3) True 2 0x5100 demo_driver demo_kworld \<noteq> None"
  "NT_SUCCESS (fst demo_entry)" "base_of demo_announcements 0x5100 = 0x5000"
  by code_simp+

lemma demo_kworld_known: "registry_known demo_kworld"
proof -
  let ?r = "the (snd (CfixkrpInitializeDriverConnectionRegistry True 0 (\<lambda>_. True)))"
  have "ht_inv CfixkrsHashRegistration CfixkrsEqualsRegistration (Connections ?r)" "\<not> TornDown ?r"
    using registration_table.empty_inv [of 31]
    by (simp_all add: CfixkrpInitializeDriverConnectionRegistry_def JphtInitializeHashtable_def NT_SUCCESS_def)
  then show ?thesis
    by (simp add: registry_known_def demo_kworld_def CfixkrpRegisterDriverConnection_def
        registration_table.put_inv)
qed

definition demo_calls :: "conn_action list" where
  "demo_calls = [LookUp 0, Check 0, AcquireShared 0, ReleaseShared 0, GiveBack 0]"


end
