(* ===== verification/LinkedList.thy ===== *)
theory LinkedList
  imports Hashtable "HOL-Library.While_Combinator"
begin

text \<open>
  Doubly linked lists (\<open>list.h\<close>, one copy each in \<open>cfix\<close>, \<open>cdiag\<close> and \<open>jpht\<close>) and the hash table on
  top of them (\<open>jpht/hashtable.c\<close>), over a store of list entries: an address has a forward and a
  backward link. A list is a cycle through its head. The loops over the entries of a bucket follow
  the forward links, also that of an entry that has just been removed.
\<close>

section \<open>Operations on lists\<close>

record store =
  Flink :: "nat \<Rightarrow> nat"
  Blink :: "nat \<Rightarrow> nat"

definition set_flink :: "nat \<Rightarrow> nat \<Rightarrow> store \<Rightarrow> store" where
  "set_flink p q s = s\<lparr>Flink := (Flink s)(p := q)\<rparr>"

definition set_blink :: "nat \<Rightarrow> nat \<Rightarrow> store \<Rightarrow> store" where
  "set_blink p q s = s\<lparr>Blink := (Blink s)(p := q)\<rparr>"

definition InitializeListHead :: "nat \<Rightarrow> store \<Rightarrow> store" where
  "InitializeListHead ListHead s = set_flink ListHead ListHead (set_blink ListHead ListHead s)"

definition InsertHeadList :: "nat \<Rightarrow> nat \<Rightarrow> store \<Rightarrow> store" where
  "InsertHeadList ListHead Entry s =
     (let OldFlink = Flink s ListHead;
          s = set_flink Entry OldFlink s;
          s = set_blink Entry ListHead s;
          s = set_blink OldFlink Entry s
      in set_flink ListHead Entry s)"

definition InsertTailList :: "nat \<Rightarrow> nat \<Rightarrow> store \<Rightarrow> store" where
  "InsertTailList ListHead Entry s =
     (let OldBlink = Blink s ListHead;
          s = set_flink Entry ListHead s;
          s = set_blink Entry OldBlink s;
          s = set_flink OldBlink Entry s
      in set_blink ListHead Entry s)"

definition IsListEmpty :: "nat \<Rightarrow> store \<Rightarrow> bool" where
  "IsListEmpty ListHead s \<longleftrightarrow> Flink s ListHead = ListHead"

definition RemoveEntryList :: "nat \<Rightarrow> store \<Rightarrow> bool \<times> store" where
  "RemoveEntryList Entry s =
     (let OldFlink = Flink s Entry; OldBlink = Blink s Entry;
          s = set_blink OldFlink OldBlink s;
          s = set_flink OldBlink OldFlink s
      in (OldFlink = OldBlink, s))"

definition RemoveHeadList :: "nat \<Rightarrow> store \<Rightarrow> nat \<times> store" where
  "RemoveHeadList ListHead s =
     (let Entry = Flink s ListHead; Next = Flink s Entry;
          s = set_flink ListHead Next s
      in (Entry, set_blink Next ListHead s))"

definition RemoveTailList :: "nat \<Rightarrow> store \<Rightarrow> nat \<times> store" where
  "RemoveTailList ListHead s =
     (let Entry = Blink s ListHead; Prev = Blink s Entry;
          s = set_blink ListHead Prev s
      in (Entry, set_flink Prev ListHead s))"

section \<open>The hash table over the store\<close>

text \<open>
  \<open>Heads\<close> are the list heads of the buckets, \<open>TableBlocks\<close> counts the blocks of such heads; \<open>KeyOf\<close> is
  the key of the entry around a list entry.
\<close>

record ptr_table =
  Store :: store
  Heads :: "nat list"
  PtrBuckets :: ulong
  PtrCount :: ulong
  TableBlocks :: int

definition JphtInitialize_ptr ::
    "bool \<Rightarrow> (nat \<Rightarrow> bool) \<Rightarrow> ulong \<Rightarrow> nat list \<Rightarrow> ptr_table \<Rightarrow> bool \<times> ptr_table" where
  "JphtInitialize_ptr Win64 alloc InitialBucketCount Block t =
     (if \<not> alloc (table_size Win64 InitialBucketCount) then (False, t)
      else (True, t\<lparr>Store := fold InitializeListHead Block (Store t), Heads := Block,
                    PtrBuckets := InitialBucketCount, PtrCount := 0, TableBlocks := TableBlocks t + 1\<rparr>))"

definition JphtDeleteHashtable :: "ptr_table \<Rightarrow> ptr_table" where
  "JphtDeleteHashtable t = t\<lparr>TableBlocks := TableBlocks t - 1\<rparr>"

definition ptr_bucket :: "hash_routine \<Rightarrow> ulong_ptr \<Rightarrow> ptr_table \<Rightarrow> nat" where
  "ptr_bucket Hash k t = Heads t ! unat (Hash k mod PtrBuckets t)"

type_synonym put_loop_state = "nat \<times> nat option \<times> ulong \<times> store"

definition put_step :: "equals_routine \<Rightarrow> (nat \<Rightarrow> ulong_ptr) \<Rightarrow> ulong_ptr \<Rightarrow> put_loop_state \<Rightarrow> put_loop_state" where
  "put_step Equals KeyOf k =
     (\<lambda>(p, old, n, s).
        let (old, n, s) = (if Equals k (KeyOf p) then (Some p, n - 1, snd (RemoveEntryList p s))
                           else (old, n, s))
        in (Flink s p, old, n, s))"

text \<open>The result is \<open>None\<close> when the loop does not end.\<close>

definition JphtPutEntry_ptr ::
    "hash_routine \<Rightarrow> equals_routine \<Rightarrow> (nat \<Rightarrow> ulong_ptr) \<Rightarrow> nat \<Rightarrow> ptr_table \<Rightarrow>
       (nat option \<times> ptr_table) option" where
  "JphtPutEntry_ptr Hash Equals KeyOf Entry t =
     (let h = ptr_bucket Hash (KeyOf Entry) t
      in map_option
           (\<lambda>(_, old, n, s). (old, t\<lparr>Store := InsertHeadList h Entry s, PtrCount := n + 1\<rparr>))
           (while_option (\<lambda>(p, _). p \<noteq> h) (put_step Equals KeyOf (KeyOf Entry))
              (Flink (Store t) h, None, PtrCount t, Store t)))"

text \<open>The search of the lookup and of the removal: the entry, or the head when there is none.\<close>

definition search_ptr ::
    "equals_routine \<Rightarrow> (nat \<Rightarrow> ulong_ptr) \<Rightarrow> ulong_ptr \<Rightarrow> nat \<Rightarrow> store \<Rightarrow> nat option" where
  "search_ptr Equals KeyOf k h s =
     while_option (\<lambda>p. p \<noteq> h \<and> \<not> Equals (KeyOf p) k) (Flink s) (Flink s h)"

definition JphtGetEntry_ptr ::
    "hash_routine \<Rightarrow> equals_routine \<Rightarrow> (nat \<Rightarrow> ulong_ptr) \<Rightarrow> ulong_ptr \<Rightarrow> ptr_table \<Rightarrow> nat option option" where
  "JphtGetEntry_ptr Hash Equals KeyOf k t =
     (let h = ptr_bucket Hash k t
      in map_option (\<lambda>p. if p = h then None else Some p) (search_ptr Equals KeyOf k h (Store t)))"

definition JphtRemoveEntry_ptr ::
    "hash_routine \<Rightarrow> equals_routine \<Rightarrow> (nat \<Rightarrow> ulong_ptr) \<Rightarrow> ulong_ptr \<Rightarrow> ptr_table \<Rightarrow>
       (nat option \<times> ptr_table) option" where
  "JphtRemoveEntry_ptr Hash Equals KeyOf k t =
     (let h = ptr_bucket Hash k t
      in map_option
           (\<lambda>p. if p = h then (None, t)
                 else (Some p, t\<lparr>Store := snd (RemoveEntryList p (Store t)), PtrCount := PtrCount t - 1\<rparr>))
           (search_ptr Equals KeyOf k h (Store t)))"

section \<open>Lists as cycles\<close>

fun linked :: "store \<Rightarrow> nat \<Rightarrow> nat list \<Rightarrow> nat \<Rightarrow> bool" where
  "linked s a [] b \<longleftrightarrow> Flink s a = b \<and> Blink s b = a"
| "linked s a (x # xs) b \<longleftrightarrow> Flink s a = x \<and> Blink s x = a \<and> linked s x xs b"

definition is_list :: "store \<Rightarrow> nat \<Rightarrow> nat list \<Rightarrow> bool" where
  "is_list s h xs \<longleftrightarrow> distinct (h # xs) \<and> linked s h xs h"

lemma store_sel [simp]:
  "Flink (set_flink p q s) = (Flink s)(p := q)" "Blink (set_flink p q s) = Blink s"
  "Flink (set_blink p q s) = Flink s" "Blink (set_blink p q s) = (Blink s)(p := q)"
  by (simp_all add: set_flink_def set_blink_def)

lemma linked_append: "linked s a (xs @ x # ys) b \<longleftrightarrow> linked s a xs x \<and> linked s x ys b"
  by (induction xs arbitrary: a) simp_all

lemma linked_upd [simp]:
  "p \<noteq> a \<Longrightarrow> p \<notin> set xs \<Longrightarrow> linked (set_flink p q s) a xs b = linked s a xs b"
  "p \<noteq> b \<Longrightarrow> p \<notin> set xs \<Longrightarrow> linked (set_blink p q s) a xs b = linked s a xs b"
  by (induction xs arbitrary: a) auto

lemma linked_ends:
  assumes "linked s a xs b"
  shows "Flink s a = hd (xs @ [b])" and "Blink s b = last (a # xs)"
  using assms by (induction xs arbitrary: a) simp_all

lemma list_initialized: "is_list (InitializeListHead h s) h []"
  by (simp add: is_list_def InitializeListHead_def)

lemma list_empty: "is_list s h xs \<Longrightarrow> IsListEmpty h s \<longleftrightarrow> xs = []"
  using linked_ends(1) [of s h xs h] by (cases xs) (auto simp: is_list_def IsListEmpty_def)

lemma list_insert_head:
  assumes "is_list s h xs" and "e \<noteq> h" and "e \<notin> set xs"
  shows "is_list (InsertHeadList h e s) h (e # xs)"
  using assms by (cases xs) (auto simp: is_list_def InsertHeadList_def Let_def)

lemma list_insert_tail:
  assumes "is_list s h xs" and "e \<noteq> h" and "e \<notin> set xs"
  shows "is_list (InsertTailList h e s) h (xs @ [e])"
  using assms by (cases xs rule: rev_cases) (auto simp: is_list_def InsertTailList_def Let_def linked_append)

lemma list_remove:
  assumes "is_list s h (xs @ e # ys)"
  shows "is_list (snd (RemoveEntryList e s)) h (xs @ ys)"
    and "fst (RemoveEntryList e s) \<longleftrightarrow> xs @ ys = []"
    and "Flink (snd (RemoveEntryList e s)) e = Flink s e"
  using assms
  by (cases xs rule: rev_cases; cases ys;
      auto simp: is_list_def RemoveEntryList_def Let_def linked_append)+

lemma list_remove_head:
  assumes "is_list s h (x # xs)"
  shows "fst (RemoveHeadList h s) = x" and "is_list (snd (RemoveHeadList h s)) h xs"
  using assms by (cases xs; auto simp: is_list_def RemoveHeadList_def Let_def)+

lemma list_remove_tail:
  assumes "is_list s h (xs @ [x])"
  shows "fst (RemoveTailList h s) = x" and "is_list (snd (RemoveTailList h s)) h xs"
  using assms by (cases xs rule: rev_cases; auto simp: is_list_def RemoveTailList_def Let_def linked_append)+

text \<open>What is not part of the list keeps its links.\<close>

lemma list_frame:
  assumes "is_list s h xs" and "p \<noteq> h" and "p \<notin> set xs"
  shows "e \<noteq> p \<Longrightarrow> Flink (InsertHeadList h e s) p = Flink s p \<and> Blink (InsertHeadList h e s) p = Blink s p"
    and "e \<noteq> p \<Longrightarrow> Flink (InsertTailList h e s) p = Flink s p \<and> Blink (InsertTailList h e s) p = Blink s p"
    and "e \<in> set xs \<Longrightarrow> Flink (snd (RemoveEntryList e s)) p = Flink s p
           \<and> Blink (snd (RemoveEntryList e s)) p = Blink s p"
proof -
  have ends: "Flink s h = hd (xs @ [h])" "Blink s h = last (h # xs)"
    using assms(1) linked_ends by (auto simp: is_list_def)
  with assms(2,3) have away: "Flink s h \<noteq> p" "Blink s h \<noteq> p"
    using hd_in_set [of "xs @ [h]"] last_in_set [of "h # xs"] by auto
  then show "e \<noteq> p \<Longrightarrow> Flink (InsertHeadList h e s) p = Flink s p \<and> Blink (InsertHeadList h e s) p = Blink s p"
    and "e \<noteq> p \<Longrightarrow> Flink (InsertTailList h e s) p = Flink s p \<and> Blink (InsertTailList h e s) p = Blink s p"
    using assms(2) by (auto simp: InsertHeadList_def InsertTailList_def Let_def)
  assume "e \<in> set xs"
  then obtain ys zs where xs: "xs = ys @ e # zs" by (auto simp: in_set_conv_decomp)
  with assms(1) have "linked s h ys e" "linked s e zs h" by (auto simp: is_list_def linked_append)
  then have "Flink s e = hd (zs @ [h])" "Blink s e = last (h # ys)" using linked_ends by blast+
  then have "Flink s e \<noteq> p" "Blink s e \<noteq> p" using assms(2,3) xs
    using hd_in_set [of "zs @ [h]"] last_in_set [of "h # ys"] by auto
  then show "Flink (snd (RemoveEntryList e s)) p = Flink s p \<and> Blink (snd (RemoveEntryList e s)) p = Blink s p"
    by (simp add: RemoveEntryList_def Let_def)
qed

end
