(* ===== verification/LinkedListInv.thy ===== *)
theory LinkedListInv
  imports LinkedList HashtableMap
begin

text \<open>
  The loops of the hash table over its linked lists end, and the table over the store behaves as
  the table of lists in \<open>Hashtable\<close>, which behaves as a map.
\<close>

section \<open>The loops over a bucket\<close>

definition entry_at :: "(nat \<Rightarrow> ulong_ptr) \<Rightarrow> nat \<Rightarrow> nat ht_entry" where
  "entry_at KeyOf p = \<lparr>Key = KeyOf p, Payload = p\<rparr>"

lemma entry_at_sel [simp]: "Key (entry_at KeyOf p) = KeyOf p" "Payload (entry_at KeyOf p) = p"
  by (simp_all add: entry_at_def)

lemma next_entry:
  assumes "is_list s h (xs @ e # ys)"
  shows "Flink s e = hd (ys @ [h])"
  using assms linked_ends(1) [of s e ys h] by (simp add: is_list_def linked_append)

lemma first_entry: "is_list s h xs \<Longrightarrow> Flink s h = hd (xs @ [h])"
  using linked_ends(1) by (auto simp: is_list_def)

lemma list_cong:
  assumes "\<And>q. q \<in> insert h (set xs) \<Longrightarrow> Flink s' q = Flink s q \<and> Blink s' q = Blink s q"
  shows "is_list s' h xs = is_list s h xs"
proof -
  have "linked s' a ys h = linked s a ys h" if "insert a (set ys) \<subseteq> insert h (set xs)" for a ys
    using that assms by (induction ys arbitrary: a) auto
  then show ?thesis by (auto simp: is_list_def)
qed

lemma search_ends:
  assumes "is_list s h (pre @ rest)"
  shows "while_option (\<lambda>p. p \<noteq> h \<and> \<not> Equals (KeyOf p) k) (Flink s) (hd (rest @ [h])) =
     Some (case find_entry Equals k (map (entry_at KeyOf) rest) of None \<Rightarrow> h | Some e \<Rightarrow> Payload e)"
  using assms
proof (induction rest arbitrary: pre)
  case Nil
  then show ?case by (subst while_option_unfold) simp
next
  case (Cons x rest)
  from Cons.prems have "x \<noteq> h" by (auto simp: is_list_def)
  moreover have "Flink s x = hd (rest @ [h])" by (rule next_entry [OF Cons.prems])
  moreover note Cons.IH [of "pre @ [x]"] Cons.prems
  ultimately show ?case by (subst while_option_unfold) simp
qed

text \<open>
  The loop of the put operation, begun in the middle of a bucket: it goes through the rest,
  although it removes entries on the way, and does what the recursion over the list does.
\<close>

lemma put_loop_ends:
  assumes "is_list s h (pre @ rest)"
    and "remove_equal Equals k (map (entry_at KeyOf) rest) = (stay, found, m)"
  shows "\<exists>s' rest'. while_option (\<lambda>(p, _). p \<noteq> h) (put_step Equals KeyOf k) (hd (rest @ [h]), old, n, s) =
            Some (h, (case found of None \<Rightarrow> old | Some e \<Rightarrow> Some (Payload e)), n - m, s')
       \<and> stay = map (entry_at KeyOf) rest' \<and> set rest' \<subseteq> set rest \<and> is_list s' h (pre @ rest')
       \<and> (\<forall>q. q \<noteq> h \<and> q \<notin> set (pre @ rest) \<longrightarrow> Flink s' q = Flink s q \<and> Blink s' q = Blink s q)"
  using assms
proof (induction rest arbitrary: pre s old n stay found m)
  case Nil
  then show ?case by (subst while_option_unfold) auto
next
  case (Cons x rest)
  obtain stay' found' m' where r: "remove_equal Equals k (map (entry_at KeyOf) rest) = (stay', found', m')"
    by (metis prod_cases3)
  have x: "x \<noteq> h" using Cons.prems(1) by (auto simp: is_list_def)
  note nxt = next_entry [OF Cons.prems(1)]
  show ?case
  proof (cases "Equals k (KeyOf x)")
    case True
    let ?s = "snd (RemoveEntryList x s)"
    note rem = list_remove(1,3) [OF Cons.prems(1)]
    have step: "put_step Equals KeyOf k (x, old, n, s) = (hd (rest @ [h]), Some x, n - 1, ?s)"
      using True rem(2) nxt by (simp add: put_step_def)
    from Cons.prems(2) True r have res: "stay = stay'" "m = m' + 1"
      "found = (if found' = None then Some (entry_at KeyOf x) else found')" by auto
    from Cons.IH [OF rem(1) r, of "Some x" "n - 1"] obtain s' rest' where i:
      "while_option (\<lambda>(p, _). p \<noteq> h) (put_step Equals KeyOf k) (hd (rest @ [h]), Some x, n - 1, ?s) =
         Some (h, (case found' of None \<Rightarrow> Some x | Some e \<Rightarrow> Some (Payload e)), n - 1 - m', s')"
      "stay' = map (entry_at KeyOf) rest'" "set rest' \<subseteq> set rest" "is_list s' h (pre @ rest')"
      "\<forall>q. q \<noteq> h \<and> q \<notin> set (pre @ rest) \<longrightarrow> Flink s' q = Flink ?s q \<and> Blink s' q = Blink ?s q"
      by blast
    have "while_option (\<lambda>(p, _). p \<noteq> h) (put_step Equals KeyOf k) (hd ((x # rest) @ [h]), old, n, s) =
        Some (h, (case found of None \<Rightarrow> old | Some e \<Rightarrow> Some (Payload e)), n - m, s')"
      using x step i(1) res(2,3) by (subst while_option_unfold) (auto split: option.splits)
    moreover have "\<forall>q. q \<noteq> h \<and> q \<notin> set (pre @ x # rest) \<longrightarrow> Flink s' q = Flink s q \<and> Blink s' q = Blink s q"
      using i(5) list_frame(3) [OF Cons.prems(1), of _ x] by auto
    ultimately show ?thesis using i(2-4) res(1) by (intro exI [of _ s'] exI [of _ rest']) auto
  next
    case False
    have step: "put_step Equals KeyOf k (x, old, n, s) = (hd (rest @ [h]), old, n, s)"
      using False nxt by (simp add: put_step_def)
    from Cons.prems(2) False r have res: "stay = entry_at KeyOf x # stay'" "m = m'" "found = found'" by auto
    have "is_list s h ((pre @ [x]) @ rest)" using Cons.prems(1) by simp
    from Cons.IH [OF this r, of old n] obtain s' rest' where i:
      "while_option (\<lambda>(p, _). p \<noteq> h) (put_step Equals KeyOf k) (hd (rest @ [h]), old, n, s) =
         Some (h, (case found' of None \<Rightarrow> old | Some e \<Rightarrow> Some (Payload e)), n - m', s')"
      "stay' = map (entry_at KeyOf) rest'" "set rest' \<subseteq> set rest" "is_list s' h (pre @ x # rest')"
      "\<forall>q. q \<noteq> h \<and> q \<notin> set (pre @ x # rest) \<longrightarrow> Flink s' q = Flink s q \<and> Blink s' q = Blink s q"
      by auto
    have "while_option (\<lambda>(p, _). p \<noteq> h) (put_step Equals KeyOf k) (hd ((x # rest) @ [h]), old, n, s) =
        Some (h, (case found of None \<Rightarrow> old | Some e \<Rightarrow> Some (Payload e)), n - m, s')"
      using x step i(1) res(2,3) by (subst while_option_unfold) auto
    with i(2-5) res(1) show ?thesis by (intro exI [of _ s'] exI [of _ "x # rest'"]) auto
  qed
qed

section \<open>The table\<close>

definition bucket_rel :: "(nat \<Rightarrow> ulong_ptr) \<Rightarrow> store \<Rightarrow> nat \<Rightarrow> nat ht_entry list \<Rightarrow> bool" where
  "bucket_rel KeyOf s h b \<longleftrightarrow> is_list s h (map Payload b) \<and> map (entry_at KeyOf \<circ> Payload) b = b"

definition cells :: "nat \<Rightarrow> nat ht_entry list \<Rightarrow> nat set" where
  "cells h b = insert h (Payload ` set b)"

definition table_rel ::
    "hash_routine \<Rightarrow> equals_routine \<Rightarrow> (nat \<Rightarrow> ulong_ptr) \<Rightarrow> ptr_table \<Rightarrow> nat hashtable \<Rightarrow> bool" where
  "table_rel Hash Equals KeyOf t ht \<longleftrightarrow>
     ht_inv Hash Equals ht \<and> PtrBuckets t = BucketCount ht \<and> PtrCount t = EntryCount ht
   \<and> length (Heads t) = length (Buckets ht)
   \<and> (\<forall>i < length (Heads t). bucket_rel KeyOf (Store t) (Heads t ! i) (Buckets ht ! i))
   \<and> (\<forall>i < length (Heads t). \<forall>j < length (Heads t). i \<noteq> j \<longrightarrow>
        cells (Heads t ! i) (Buckets ht ! i) \<inter> cells (Heads t ! j) (Buckets ht ! j) = {})"

lemma bucket_rel_frame:
  "(\<And>q. q \<in> cells h b \<Longrightarrow> Flink s' q = Flink s q \<and> Blink s' q = Blink s q) \<Longrightarrow>
   bucket_rel KeyOf s' h b = bucket_rel KeyOf s h b"
  using list_cong [of h "map Payload b" s' s] by (auto simp: bucket_rel_def cells_def)

text \<open>A change of one bucket that stays within its cells and some unused ones keeps the relation.\<close>

lemma table_rel_update:
  assumes "table_rel Hash Equals KeyOf t ht" and "i < length (Heads t)"
    and "bucket_rel KeyOf s' (Heads t ! i) b" and "cells (Heads t ! i) b \<subseteq> cells (Heads t ! i) (Buckets ht ! i) \<union> E"
    and "\<And>q. q \<notin> cells (Heads t ! i) (Buckets ht ! i) \<Longrightarrow> q \<notin> E \<Longrightarrow>
           Flink s' q = Flink (Store t) q \<and> Blink s' q = Blink (Store t) q"
    and "\<And>j. j < length (Heads t) \<Longrightarrow> E \<inter> cells (Heads t ! j) (Buckets ht ! j) = {}"
    and "ht_inv Hash Equals (ht\<lparr>Buckets := (Buckets ht)[i := b], EntryCount := n\<rparr>)"
  shows "table_rel Hash Equals KeyOf (t\<lparr>Store := s', PtrCount := n\<rparr>)
           (ht\<lparr>Buckets := (Buckets ht)[i := b], EntryCount := n\<rparr>)"
proof -
  have apart: "cells (Heads t ! i) (Buckets ht ! i) \<inter> cells (Heads t ! j) (Buckets ht ! j) = {}"
    if "j < length (Heads t)" "j \<noteq> i" for j
    using assms(1,2) that by (auto simp: table_rel_def)
  have other: "bucket_rel KeyOf s' (Heads t ! j) (Buckets ht ! j)" if "j < length (Heads t)" "j \<noteq> i" for j
  proof -
    have "bucket_rel KeyOf s' (Heads t ! j) (Buckets ht ! j) =
        bucket_rel KeyOf (Store t) (Heads t ! j) (Buckets ht ! j)"
      using apart [OF that] assms(6) [OF that(1)] by (intro bucket_rel_frame assms(5)) auto
    with assms(1) that show ?thesis by (simp add: table_rel_def)
  qed
  have new: "cells (Heads t ! i) b \<inter> cells (Heads t ! j) (Buckets ht ! j) = {}"
    if "j < length (Heads t)" "j \<noteq> i" for j
    using apart [OF that] assms(6) [OF that(1)] assms(4) by blast
  show ?thesis
    using assms(1,2,3,7) other new
    by (auto simp: table_rel_def nth_list_update Int_commute)
qed

lemma removed_cells:
  "remove_first Equals k b = (stay, Some e) \<Longrightarrow> \<exists>xs ys. b = xs @ e # ys \<and> stay = xs @ ys"
proof (induction b arbitrary: stay)
  case (Cons x b)
  show ?case
  proof (cases "Equals (Key x) k")
    case True
    with Cons.prems show ?thesis by (intro exI [of _ "[]"] exI [of _ b]) simp
  next
    case False
    with Cons.prems obtain st where "remove_first Equals k b = (st, Some e)" "stay = x # st"
      by (auto split: prod.splits)
    with Cons.IH obtain xs ys where "b = xs @ e # ys" "stay = x # xs @ ys" by blast
    then show ?thesis by (intro exI [of _ "x # xs"] exI [of _ ys]) simp
  qed
qed simp

lemma remove_first_found:
  "snd (remove_first Equals k b) = find_entry Equals k b"
  by (induction b) (auto split: prod.splits)

lemma remove_first_payload:
  "snd (remove_first Equals k b) = Some e \<Longrightarrow> e \<in> set b"
  by (induction b) (auto split: prod.splits if_splits)

context hash_routines begin

lemma ptr_bucket_head:
  assumes "table_rel Hash Equals KeyOf t ht"
  shows "ptr_bucket Hash k t = Heads t ! bucket_index Hash ht k"
    and "bucket_index Hash ht k < length (Heads t)"
  using assms bucket_index_less [of Hash Equals ht k]
  by (simp_all add: table_rel_def ptr_bucket_def bucket_index_def)

lemma bucket_of:
  assumes "table_rel Hash Equals KeyOf t ht"
  shows "is_list (Store t) (ptr_bucket Hash k t) (map Payload (Buckets ht ! bucket_index Hash ht k))"
    and "map (entry_at KeyOf) (map Payload (Buckets ht ! bucket_index Hash ht k)) =
           Buckets ht ! bucket_index Hash ht k"
  using assms ptr_bucket_head [OF assms, of k] by (auto simp: table_rel_def bucket_rel_def)

lemma search_found:
  assumes "table_rel Hash Equals KeyOf t ht"
  shows "search_ptr Equals KeyOf k (ptr_bucket Hash k t) (Store t) =
     Some (case JphtGetEntryHashtable Hash Equals k ht of None \<Rightarrow> ptr_bucket Hash k t | Some e \<Rightarrow> Payload e)"
  using search_ends [where pre = "[]" and k = k and Equals = Equals and KeyOf = KeyOf, simplified,
      OF bucket_of(1) [OF assms, of k]]
    first_entry [OF bucket_of(1) [OF assms], of k] bucket_of(2) [OF assms, of k]
  by (simp add: search_ptr_def JphtGetEntryHashtable_def)

lemma found_is_no_head:
  assumes "table_rel Hash Equals KeyOf t ht" and "JphtGetEntryHashtable Hash Equals k ht = Some e"
  shows "Payload e \<noteq> ptr_bucket Hash k t" and "Payload e \<in> set (map Payload (Buckets ht ! bucket_index Hash ht k))"
proof -
  have "e \<in> set (Buckets ht ! bucket_index Hash ht k)"
    using assms(2) remove_first_payload [of Equals k _ e] by (simp add: JphtGetEntryHashtable_def remove_first_found)
  then show "Payload e \<in> set (map Payload (Buckets ht ! bucket_index Hash ht k))" by simp
  with bucket_of(1) [OF assms(1), of k] show "Payload e \<noteq> ptr_bucket Hash k t"
    by (auto simp: is_list_def)
qed

lemma get_refines:
  assumes "table_rel Hash Equals KeyOf t ht"
  shows "JphtGetEntry_ptr Hash Equals KeyOf k t =
           Some (map_option Payload (JphtGetEntryHashtable Hash Equals k ht))"
  using search_found [OF assms, of k] found_is_no_head(1) [OF assms, of k]
  by (cases "JphtGetEntryHashtable Hash Equals k ht") (auto simp: JphtGetEntry_ptr_def Let_def)

lemma remove_refines:
  assumes "table_rel Hash Equals KeyOf t ht"
  shows "\<exists>t'. JphtRemoveEntry_ptr Hash Equals KeyOf k t =
            Some (map_option Payload (fst (JphtRemoveEntryHashtable Hash Equals k ht)), t')
       \<and> table_rel Hash Equals KeyOf t' (snd (JphtRemoveEntryHashtable Hash Equals k ht))"
proof -
  let ?i = "bucket_index Hash ht k"
  let ?h = "ptr_bucket Hash k t"
  obtain stay old where r: "remove_first Equals k (Buckets ht ! ?i) = (stay, old)" by fastforce
  then have got: "JphtGetEntryHashtable Hash Equals k ht = old"
    using remove_first_found [of Equals k "Buckets ht ! ?i"] by (simp add: JphtGetEntryHashtable_def)
  show ?thesis
  proof (cases old)
    case None
    with search_found [OF assms, of k] got r assms show ?thesis
      by (simp add: JphtRemoveEntry_ptr_def JphtRemoveEntryHashtable_def)
  next
    case (Some e)
    let ?p = "Payload e"
    note nohead = found_is_no_head [OF assms got [unfolded Some]]
    from removed_cells r Some obtain xs ys where b: "Buckets ht ! ?i = xs @ e # ys" "stay = xs @ ys" by blast
    have lst: "is_list (Store t) ?h (map Payload xs @ ?p # map Payload ys)"
      using bucket_of(1) [OF assms, of k] b(1) by simp
    let ?s = "snd (RemoveEntryList ?p (Store t))"
    have h: "Heads t ! ?i = ?h" "?i < length (Heads t)" using ptr_bucket_head [OF assms, of k] by simp_all
    have abs: "snd (JphtRemoveEntryHashtable Hash Equals k ht) =
        ht\<lparr>Buckets := (Buckets ht)[?i := stay], EntryCount := EntryCount ht - 1\<rparr>"
      using r Some by (simp add: JphtRemoveEntryHashtable_def)
    have "ht_inv Hash Equals ht" using assms by (simp add: table_rel_def)
    note inv = remove_inv [OF this, of k, unfolded abs]
    have "table_rel Hash Equals KeyOf (t\<lparr>Store := ?s, PtrCount := EntryCount ht - 1\<rparr>)
        (ht\<lparr>Buckets := (Buckets ht)[?i := stay], EntryCount := EntryCount ht - 1\<rparr>)"
    proof (rule table_rel_update [OF assms h(2) _ _ _ _ inv, where E = "{}"])
      show "bucket_rel KeyOf ?s (Heads t ! ?i) stay"
        using list_remove(1) [OF lst] bucket_of(2) [OF assms, of k] b h(1)
        by (auto simp: bucket_rel_def)
      show "cells (Heads t ! ?i) stay \<subseteq> cells (Heads t ! ?i) (Buckets ht ! ?i) \<union> {}"
        by (auto simp: cells_def b)
    next
      fix q assume "q \<notin> cells (Heads t ! ?i) (Buckets ht ! ?i)"
      then show "Flink ?s q = Flink (Store t) q \<and> Blink ?s q = Blink (Store t) q"
        by (intro list_frame(3) [OF lst]) (auto simp: cells_def b h(1))
    qed simp
    moreover have "PtrCount t = EntryCount ht" using assms by (simp add: table_rel_def)
    moreover have "JphtRemoveEntry_ptr Hash Equals KeyOf k t =
        Some (Some ?p, t\<lparr>Store := ?s, PtrCount := PtrCount t - 1\<rparr>)"
      using search_found [OF assms, of k] got Some nohead(1) by (simp add: JphtRemoveEntry_ptr_def)
    ultimately show ?thesis using r Some by (simp add: JphtRemoveEntryHashtable_def)
  qed
qed

lemma put_refines:
  assumes "table_rel Hash Equals KeyOf t ht"
    and "\<And>j. j < length (Heads t) \<Longrightarrow> e \<notin> cells (Heads t ! j) (Buckets ht ! j)"
  shows "\<exists>t'. JphtPutEntry_ptr Hash Equals KeyOf e t =
            Some (map_option Payload (fst (JphtPutEntryHashtable Hash Equals (entry_at KeyOf e) ht)), t')
       \<and> Heads t' = Heads t
       \<and> table_rel Hash Equals KeyOf t' (snd (JphtPutEntryHashtable Hash Equals (entry_at KeyOf e) ht))"
proof -
  let ?k = "KeyOf e"
  let ?i = "bucket_index Hash ht ?k"
  let ?h = "ptr_bucket Hash ?k t"
  let ?b = "Buckets ht ! ?i"
  have h: "Heads t ! ?i = ?h" "?i < length (Heads t)" using ptr_bucket_head [OF assms(1), of ?k] by simp_all
  have fresh: "e \<noteq> ?h" "e \<notin> Payload ` set ?b" using assms(2) [OF h(2)] h(1) by (auto simp: cells_def)
  obtain stay found m where r: "remove_equal Equals ?k ?b = (stay, found, m)" by (metis prod_cases3)
  have lst: "is_list (Store t) ?h ([] @ map Payload ?b)" using bucket_of(1) [OF assms(1), of ?k] by simp
  have "remove_equal Equals ?k (map (entry_at KeyOf) (map Payload ?b)) = (stay, found, m)"
    unfolding bucket_of(2) [OF assms(1)] by (rule r)
  from put_loop_ends [OF lst this, of None "PtrCount t"] obtain s rest' where l:
    "while_option (\<lambda>(p, _). p \<noteq> ?h) (put_step Equals KeyOf ?k) (hd (map Payload ?b @ [?h]), None, PtrCount t, Store t) =
       Some (?h, map_option Payload found, PtrCount t - m, s)"
    "stay = map (entry_at KeyOf) rest'" "set rest' \<subseteq> Payload ` set ?b" "is_list s ?h rest'"
    "\<forall>q. q \<noteq> ?h \<and> q \<notin> Payload ` set ?b \<longrightarrow> Flink s q = Flink (Store t) q \<and> Blink s q = Blink (Store t) q"
    by (auto simp: map_option_case)
  let ?s = "InsertHeadList ?h e s"
  have abs: "snd (JphtPutEntryHashtable Hash Equals (entry_at KeyOf e) ht) =
      ht\<lparr>Buckets := (Buckets ht)[?i := entry_at KeyOf e # stay], EntryCount := EntryCount ht - m + 1\<rparr>"
    and res: "fst (JphtPutEntryHashtable Hash Equals (entry_at KeyOf e) ht) = found"
    using r by (simp_all add: JphtPutEntryHashtable_def)
  have "ht_inv Hash Equals ht" using assms(1) by (simp add: table_rel_def)
  note inv = put_inv [OF this, of "entry_at KeyOf e", unfolded abs]
  have e: "e \<notin> set rest'" using fresh(2) l(3) by blast
  have "table_rel Hash Equals KeyOf (t\<lparr>Store := ?s, PtrCount := EntryCount ht - m + 1\<rparr>)
      (ht\<lparr>Buckets := (Buckets ht)[?i := entry_at KeyOf e # stay], EntryCount := EntryCount ht - m + 1\<rparr>)"
  proof (rule table_rel_update [OF assms(1) h(2) _ _ _ _ inv, where E = "{e}"])
    show "bucket_rel KeyOf ?s (Heads t ! ?i) (entry_at KeyOf e # stay)"
      using list_insert_head [OF l(4) fresh(1) e] l(2) h(1) by (simp add: bucket_rel_def comp_def)
    show "cells (Heads t ! ?i) (entry_at KeyOf e # stay) \<subseteq> cells (Heads t ! ?i) ?b \<union> {e}"
      using l(2,3) by (auto simp: cells_def)
  next
    fix q assume q: "q \<notin> cells (Heads t ! ?i) ?b" "q \<notin> {e}"
    then have "q \<noteq> ?h" "q \<notin> Payload ` set ?b" "e \<noteq> q" by (auto simp: cells_def h(1))
    moreover from this l(3) have "q \<notin> set rest'" by blast
    ultimately show "Flink ?s q = Flink (Store t) q \<and> Blink ?s q = Blink (Store t) q"
      using list_frame(1) [OF l(4)] l(5) by simp
  next
    fix j assume "j < length (Heads t)"
    then show "{e} \<inter> cells (Heads t ! j) (Buckets ht ! j) = {}" using assms(2) by simp
  qed
  moreover have "PtrCount t = EntryCount ht" using assms(1) by (simp add: table_rel_def)
  moreover have "Flink (Store t) ?h = hd (map Payload ?b @ [?h])"
    using first_entry [OF bucket_of(1) [OF assms(1)], of ?k] .
  ultimately show ?thesis using l(1) res abs by (simp add: JphtPutEntry_ptr_def)
qed

end

section \<open>The tables a client can reach\<close>

text \<open>
  A table over the store together with the table of lists it stands for: a new one, and what puts
  of entries that are not in the table and removals make of it.
\<close>

inductive table_pair ::
    "hash_routine \<Rightarrow> equals_routine \<Rightarrow> (nat \<Rightarrow> ulong_ptr) \<Rightarrow> ptr_table \<Rightarrow> nat hashtable \<Rightarrow> bool"
  for Hash Equals KeyOf where
  initial: "JphtInitialize_ptr Win64 alloc n Block t = (True, t') \<Longrightarrow> distinct Block \<Longrightarrow>
     length Block = unat n \<Longrightarrow> 0 < n \<Longrightarrow> JphtInitializeHashtable Win64 alloc n = Some ht \<Longrightarrow>
     table_pair Hash Equals KeyOf t' ht"
| put: "table_pair Hash Equals KeyOf t ht \<Longrightarrow> e \<notin> set (Heads t) \<Longrightarrow> e \<notin> Payload ` set (entries ht) \<Longrightarrow>
     JphtPutEntry_ptr Hash Equals KeyOf e t = Some (old, t') \<Longrightarrow>
     table_pair Hash Equals KeyOf t' (snd (JphtPutEntryHashtable Hash Equals (entry_at KeyOf e) ht))"
| remove: "table_pair Hash Equals KeyOf t ht \<Longrightarrow> JphtRemoveEntry_ptr Hash Equals KeyOf k t = Some (old, t') \<Longrightarrow>
     table_pair Hash Equals KeyOf t' (snd (JphtRemoveEntryHashtable Hash Equals k ht))"

lemma init_lists:
  "distinct Block \<Longrightarrow> h \<in> set Block \<Longrightarrow> is_list (fold InitializeListHead Block s) h []"
proof (induction Block arbitrary: s)
  case (Cons b bs)
  have keep: "h \<notin> set bs \<Longrightarrow> is_list s h [] \<Longrightarrow> is_list (fold InitializeListHead bs s) h []" for bs s
    by (induction bs arbitrary: s) (simp_all add: InitializeListHead_def is_list_def)
  from Cons show ?case using keep [of bs "InitializeListHead b s"] list_initialized by auto
qed simp

lemma fresh_cells:
  assumes "length (Heads t) = length (Buckets ht)" and "e \<notin> set (Heads t)"
    and "e \<notin> Payload ` set (entries ht)" and "j < length (Heads t)"
  shows "e \<notin> cells (Heads t ! j) (Buckets ht ! j)"
proof -
  have "Heads t ! j \<in> set (Heads t)" using assms(4) by simp
  moreover have "set (Buckets ht ! j) \<subseteq> set (entries ht)"
    using assms(1,4) by (auto intro!: bexI [of _ "Buckets ht ! j"])
  ultimately show ?thesis using assms(2,3) unfolding cells_def by blast
qed

lemma table_pair_rel:
  assumes "hash_routines Hash Equals" and "table_pair Hash Equals KeyOf t ht"
  shows "table_rel Hash Equals KeyOf t ht"
  using assms(2)
proof (induction rule: table_pair.induct)
  case (initial Win64 alloc n Block t t' ht)
  then have t': "t' = t\<lparr>Store := fold InitializeListHead Block (Store t), Heads := Block, PtrBuckets := n,
      PtrCount := 0, TableBlocks := TableBlocks t + 1\<rparr>"
    and ht: "ht = \<lparr>EntryCount = 0, BucketCount = n, Buckets = replicate (unat n) []\<rparr>"
    by (auto simp: JphtInitialize_ptr_def JphtInitializeHashtable_def split: if_splits)
  have "ht_inv Hash Equals ht" using initial(4) by (simp add: ht ht_inv_def)
  then show ?case using initial(2,3) init_lists [OF initial(2)]
    by (auto simp: table_rel_def t' ht bucket_rel_def cells_def nth_eq_iff_index_eq)
next
  case (put t ht e old t')
  have "length (Heads t) = length (Buckets ht)" using put.IH by (simp add: table_rel_def)
  from hash_routines.put_refines [OF assms(1) put.IH fresh_cells [OF this put.hyps(2,3)]] put.hyps(4)
  show ?case by auto
next
  case (remove t ht k old t')
  from hash_routines.remove_refines [OF assms(1) remove.IH, of k] remove.hyps(2) show ?case by auto
qed

text \<open>
  C10: the hash table in memory is a map. Over buckets of doubly linked lists, in every table that
  puts and removals make of a new one, the loops of lookup, removal and put end; lookup finds what
  the table of lists has; a removal answers what was there and takes it away; and putting an entry
  that is not in the table answers the entry it replaces and is then found under all equal keys,
  while other keys keep their entries. The count is that of the entries.
\<close>

theorem pointer_table_is_map:
  assumes "equivp Equals" and "\<forall>k k'. Equals k k' \<longrightarrow> Hash k = Hash k'"
    and "table_pair Hash Equals KeyOf t ht"
  shows "JphtGetEntry_ptr Hash Equals KeyOf k t =
           Some (map_option Payload (JphtGetEntryHashtable Hash Equals k ht))
       \<and> (\<exists>t' old. JphtRemoveEntry_ptr Hash Equals KeyOf k t = Some (old, t')
            \<and> JphtGetEntry_ptr Hash Equals KeyOf k t = Some old
            \<and> (\<forall>k'. JphtGetEntry_ptr Hash Equals KeyOf k' t' =
                 (if Equals k k' then Some None else JphtGetEntry_ptr Hash Equals KeyOf k' t)))
       \<and> (e \<notin> set (Heads t) \<and> e \<notin> Payload ` set (entries ht) \<longrightarrow>
            (\<exists>t' old. JphtPutEntry_ptr Hash Equals KeyOf e t = Some (old, t')
               \<and> JphtGetEntry_ptr Hash Equals KeyOf (KeyOf e) t = Some old
               \<and> (\<forall>k'. JphtGetEntry_ptr Hash Equals KeyOf k' t' =
                    (if Equals (KeyOf e) k' then Some (Some e) else JphtGetEntry_ptr Hash Equals KeyOf k' t))))
       \<and> PtrCount t = of_nat (length (entries ht))"
proof -
  from assms(1,2) have h: "hash_routines Hash Equals" by unfold_locales auto
  note rel = table_pair_rel [OF h assms(3)]
  have inv: "ht_inv Hash Equals ht" and len: "length (Heads t) = length (Buckets ht)"
    and count: "PtrCount t = of_nat (length (entries ht))"
    using rel by (auto simp: table_rel_def ht_inv_def)
  note get = hash_routines.get_refines [OF h]
  have remove: "\<exists>t' old. JphtRemoveEntry_ptr Hash Equals KeyOf k t = Some (old, t')
      \<and> JphtGetEntry_ptr Hash Equals KeyOf k t = Some old
      \<and> (\<forall>k'. JphtGetEntry_ptr Hash Equals KeyOf k' t' =
           (if Equals k k' then Some None else JphtGetEntry_ptr Hash Equals KeyOf k' t))"
    using hash_routines.remove_refines [OF h rel, of k] hash_routines.remove_old [OF h inv, of k]
      hash_routines.remove_lookup [OF h inv] by (auto simp: get [OF rel] get)
  have put: "\<exists>t' old. JphtPutEntry_ptr Hash Equals KeyOf e t = Some (old, t')
      \<and> JphtGetEntry_ptr Hash Equals KeyOf (KeyOf e) t = Some old
      \<and> (\<forall>k'. JphtGetEntry_ptr Hash Equals KeyOf k' t' =
           (if Equals (KeyOf e) k' then Some (Some e) else JphtGetEntry_ptr Hash Equals KeyOf k' t))"
    if "e \<notin> set (Heads t)" "e \<notin> Payload ` set (entries ht)"
    using hash_routines.put_refines [OF h rel fresh_cells [OF len that]]
      hash_routines.put_old [OF h inv, of "entry_at KeyOf e"]
      hash_routines.put_lookup [OF h inv, of _ "entry_at KeyOf e"] by (auto simp: get [OF rel] get)
  show ?thesis using get [OF rel, of k] remove put count by blast
qed

definition demo_memory :: ptr_table where
  "demo_memory = \<lparr>Store = \<lparr>Flink = (\<lambda>_. 0), Blink = (\<lambda>_. 0)\<rparr>, Heads = [], PtrBuckets = 0, PtrCount = 0,
     TableBlocks = 0\<rparr>"

definition demo_ptr :: ptr_table where
  "demo_ptr = snd (JphtInitialize_ptr True (\<lambda>_. True) 2 [100, 116] demo_memory)"

definition demo_keys :: "nat \<Rightarrow> ulong_ptr" where
  "demo_keys p = (if p = 8 then 3 else if p = 24 then 5 else 3)"

definition demo_lists :: "nat hashtable" where
  "demo_lists = \<lparr>EntryCount = 0, BucketCount = 2, Buckets = [[], []]\<rparr>"

lemma demo_pair: "table_pair (\<lambda>k. ucast k) (=) demo_keys demo_ptr demo_lists"
proof (rule table_pair.initial)
  show "JphtInitialize_ptr True (\<lambda>_. True) 2 [100, 116] demo_memory = (True, demo_ptr)"
    by (simp add: demo_ptr_def JphtInitialize_ptr_def)
  show "JphtInitializeHashtable True (\<lambda>_. True) 2 = Some demo_lists"
    by (simp add: JphtInitializeHashtable_def demo_lists_def) (simp add: numeral_2_eq_2)
qed simp_all

theorem pointer_table_is_map_witness:
  "\<exists>t. JphtPutEntry_ptr (\<lambda>k. ucast k) (=) demo_keys 8 demo_ptr = Some (None, t)
     \<and> JphtGetEntry_ptr (\<lambda>k. ucast k) (=) demo_keys 3 t = Some (Some 8)
     \<and> JphtGetEntry_ptr (\<lambda>k. ucast k) (=) demo_keys 5 t = Some None"
proof -
  have eq: "equivp ((=) :: ulong_ptr \<Rightarrow> ulong_ptr \<Rightarrow> bool)" by (rule identity_equivp)
  have empty: "JphtGetEntryHashtable (\<lambda>k. ucast k) (=) k demo_lists = None" for k
  proof -
    have "unat ((ucast k :: ulong) mod 2) < 2" by (simp add: unat_mod)
    then have "unat ((ucast k :: ulong) mod 2) = 0 \<or> unat ((ucast k :: ulong) mod 2) = 1" by linarith
    then show ?thesis by (auto simp: JphtGetEntryHashtable_def bucket_index_def demo_lists_def)
  qed
  have fresh: "8 \<notin> set (Heads demo_ptr)" "8 \<notin> Payload ` set (entries demo_lists)"
    by (simp_all add: demo_ptr_def JphtInitialize_ptr_def demo_lists_def)
  note m = pointer_table_is_map [OF eq _ demo_pair]
  have get: "JphtGetEntry_ptr (\<lambda>k. ucast k) (=) demo_keys k demo_ptr = Some None" for k
    using m [of k] empty [of k] by auto
  from m [of 3 8] fresh obtain t old where
    "JphtPutEntry_ptr (\<lambda>k. ucast k) (=) demo_keys 8 demo_ptr = Some (old, t)"
    "JphtGetEntry_ptr (\<lambda>k. ucast k) (=) demo_keys (demo_keys 8) demo_ptr = Some old"
    "\<forall>k'. JphtGetEntry_ptr (\<lambda>k. ucast k) (=) demo_keys k' t = (if demo_keys 8 = k' then Some (Some 8)
       else JphtGetEntry_ptr (\<lambda>k. ucast k) (=) demo_keys k' demo_ptr)" by auto
  then show ?thesis by (auto simp: get demo_keys_def)
qed

end
