(* ===== verification/DllEntry.thy ===== *)
theory DllEntry
  imports FilamentInv StackTrace Formatter
begin

text \<open>
  The entry points of the libraries: what the loader calls when \<open>cfix\<close> (\<open>cfix/main.c\<close>, with the
  creation of its slots in \<open>filament.c\<close> and of its lock in \<open>stacktrace.c\<close>), \<open>cfixkl\<close>
  (\<open>cfixkl/main.c\<close>, \<open>module.c\<close>) and \<open>cdiag\<close> (\<open>cdiag/main.c\<close>) are attached to a process, a thread ends,
  or the library is detached.

  The slots of thread local storage are a resource of the system: free ones are handed out in order.
  A critical section exists or does not; deleting one that does not exist leaves defined behaviour,
  and the result is \<open>None\<close>. As documented, the loader calls a library that refuses to be attached once
  more to detach it.
\<close>

datatype dll_reason = DLL_PROCESS_ATTACH | DLL_PROCESS_DETACH | DLL_THREAD_ATTACH | DLL_THREAD_DETACH

abbreviation TLS_OUT_OF_INDEXES :: ulong where "TLS_OUT_OF_INDEXES \<equiv> 0xFFFFFFFF"

record slots =
  FreeSlots :: "ulong list"
  UsedSlots :: "ulong set"

definition TlsAlloc :: "slots \<Rightarrow> ulong \<times> slots" where
  "TlsAlloc s =
     (case FreeSlots s of
        [] \<Rightarrow> (TLS_OUT_OF_INDEXES, s)
      | i # is \<Rightarrow> (i, s\<lparr>FreeSlots := is, UsedSlots := insert i (UsedSlots s)\<rparr>))"

definition TlsFree :: "ulong \<Rightarrow> slots \<Rightarrow> bool \<times> slots" where
  "TlsFree i s =
     (if i \<in> UsedSlots s
      then (True, s\<lparr>FreeSlots := i # FreeSlots s, UsedSlots := UsedSlots s - {i}\<rparr>) else (False, s))"

text \<open>A slot index that stands for a successful allocation, as the system has them.\<close>

definition slots_ok :: "slots \<Rightarrow> bool" where
  "slots_ok s \<longleftrightarrow> distinct (FreeSlots s) \<and> set (FreeSlots s) \<inter> UsedSlots s = {}
     \<and> TLS_OUT_OF_INDEXES \<notin> set (FreeSlots s) \<union> UsedSlots s"

section \<open>cfix\<close>

record cfix_dll =
  CfixpModule :: ulong_ptr
  DbgLockExists :: bool
  DefaultLockExists :: bool
  SlotForFilament :: ulong
  SlotForStorage :: ulong
  SlotForCc :: ulong
  Sys :: slots
  Fil :: fil_state
  Dbg :: dbg_state

definition setup_stack_traces :: "cfix_dll \<Rightarrow> bool \<times> cfix_dll" where
  "setup_stack_traces s = (True, s\<lparr>DbgLockExists := True, Dbg := CfixpSetupStackTraceCapturing (Dbg s)\<rparr>)"

definition teardown_stack_traces :: "cfix_dll \<Rightarrow> cfix_dll option" where
  "teardown_stack_traces s =
     (if \<not> DbgLockExists s then None
      else Some (s\<lparr>DbgLockExists := False, Dbg := CfixpTeardownStackTraceCapturing (Dbg s)\<rparr>))"

definition setup_filament_tls :: "cfix_dll \<Rightarrow> bool \<times> cfix_dll" where
  "setup_filament_tls s =
     (let (a, sys) = TlsAlloc (Sys s); (b, sys) = TlsAlloc sys; (c, sys) = TlsAlloc sys
      in (a \<noteq> TLS_OUT_OF_INDEXES \<and> b \<noteq> TLS_OUT_OF_INDEXES \<and> c \<noteq> TLS_OUT_OF_INDEXES,
          s\<lparr>DefaultLockExists := True, SlotForFilament := a, SlotForStorage := b, SlotForCc := c,
            Sys := sys, Fil := CfixpSetupFilamentTls (Fil s)\<rparr>))"

text \<open>A slot that cannot be freed ends the sequence.\<close>

definition CfixpTeardownFilamentTls :: "cfix_dll \<Rightarrow> (bool \<times> cfix_dll) option" where
  "CfixpTeardownFilamentTls s =
     (if \<not> DefaultLockExists s then None
      else
        let (ok, sys) = TlsFree (SlotForFilament s) (Sys s);
            (ok, sys) = (if ok then TlsFree (SlotForStorage s) sys else (False, sys));
            (ok, sys) = (if ok then TlsFree (SlotForCc s) sys else (False, sys))
        in Some (ok, s\<lparr>DefaultLockExists := False, Sys := sys\<rparr>))"

definition DllMain_cfix ::
    "ulong_ptr \<Rightarrow> thread_handle \<Rightarrow> ulong \<Rightarrow> dll_reason \<Rightarrow> cfix_dll \<Rightarrow> (bool \<times> cfix_dll) option" where
  "DllMain_cfix Module dup me Reason s =
     (case Reason of
        DLL_PROCESS_ATTACH \<Rightarrow>
          let s = s\<lparr>CfixpModule := Module\<rparr>; (ok, s) = setup_stack_traces s
          in if \<not> ok then Some (False, s)
             else (case setup_filament_tls s of
               (True, s) \<Rightarrow> Some (True, s)
             | (False, s) \<Rightarrow> map_option (Pair False) (teardown_stack_traces s))
      | DLL_PROCESS_DETACH \<Rightarrow>
          do { s \<leftarrow> teardown_stack_traces s; CfixpTeardownFilamentTls s }
      | DLL_THREAD_DETACH \<Rightarrow>
          do {
            f \<leftarrow> CfixpCleanupLeakedFilamentForDetachingThread dup me (Fil s);
            Some (True, s\<lparr>Fil := f\<rparr>)
          }
      | DLL_THREAD_ATTACH \<Rightarrow> Some (True, s))"

section \<open>cfixkl and cdiag\<close>

record cfixkl_dll =
  KlSlot :: ulong
  KlSys :: slots

definition CfixklpSetupTestTls :: "cfixkl_dll \<Rightarrow> bool \<times> cfixkl_dll" where
  "CfixklpSetupTestTls s =
     (let (i, sys) = TlsAlloc (KlSys s)
      in (i \<noteq> TLS_OUT_OF_INDEXES, s\<lparr>KlSlot := i, KlSys := sys\<rparr>))"

definition CfixklpTeardownTestTls :: "cfixkl_dll \<Rightarrow> cfixkl_dll" where
  "CfixklpTeardownTestTls s =
     (if KlSlot s \<noteq> TLS_OUT_OF_INDEXES then s\<lparr>KlSys := snd (TlsFree (KlSlot s) (KlSys s))\<rparr> else s)"

definition DllMain_cfixkl :: "dll_reason \<Rightarrow> cfixkl_dll \<Rightarrow> (bool \<times> cfixkl_dll) option" where
  "DllMain_cfixkl Reason s =
     (case Reason of
        DLL_PROCESS_ATTACH \<Rightarrow> Some (CfixklpSetupTestTls s)
      | DLL_PROCESS_DETACH \<Rightarrow> Some (True, CfixklpTeardownTestTls s)
      | _ \<Rightarrow> Some (True, s))"

record cdiag_dll =
  CdiagpModule :: ulong_ptr
  Captions :: "captions option"

definition DllMain_cdiag ::
    "(nat \<Rightarrow> wstring option) \<Rightarrow> ulong_ptr \<Rightarrow> dll_reason \<Rightarrow> cdiag_dll \<Rightarrow> (bool \<times> cdiag_dll) option" where
  "DllMain_cdiag LoadString Module Reason s =
     (if Reason = DLL_PROCESS_ATTACH
      then Some (True, s\<lparr>CdiagpModule := Module, Captions := Some (CdiagpInitializeFormatter LoadString)\<rparr>)
      else Some (True, s))"

section \<open>The loader\<close>

definition load_dll :: "(dll_reason \<Rightarrow> 's \<Rightarrow> (bool \<times> 's) option) \<Rightarrow> 's \<Rightarrow> (bool \<times> 's) option" where
  "load_dll Main s =
     do {
       (ok, s) \<leftarrow> Main DLL_PROCESS_ATTACH s;
       (if ok then Some (True, s) else map_option (\<lambda>(_, s). (False, s)) (Main DLL_PROCESS_DETACH s))
     }"

section \<open>Properties\<close>

lemma slots_ok_cases:
  assumes "slots_ok s"
  obtains "FreeSlots s = []" | a where "FreeSlots s = [a]" "a \<noteq> TLS_OUT_OF_INDEXES" "a \<notin> UsedSlots s"
  | a b where "FreeSlots s = [a, b]" "a \<noteq> TLS_OUT_OF_INDEXES" "b \<noteq> TLS_OUT_OF_INDEXES"
      "a \<noteq> b" "a \<notin> UsedSlots s" "b \<notin> UsedSlots s"
  | a b c cs where "FreeSlots s = a # b # c # cs" "a \<noteq> TLS_OUT_OF_INDEXES" "b \<noteq> TLS_OUT_OF_INDEXES"
      "c \<noteq> TLS_OUT_OF_INDEXES" "distinct [a, b, c]" "a \<notin> UsedSlots s" "b \<notin> UsedSlots s" "c \<notin> UsedSlots s"
  using assms unfolding slots_ok_def
  by (cases "FreeSlots s"; cases "tl (FreeSlots s)"; cases "tl (tl (FreeSlots s))") auto

text \<open>
  With three slots to be had, cfix is loaded, with three slots of its own and both locks; and
  being detached it gives them back.
\<close>

lemma cfix_loads_and_unloads:
  assumes "slots_ok (Sys s)" and "3 \<le> length (FreeSlots (Sys s))"
  shows "\<exists>s'. load_dll (DllMain_cfix Module dup me) s = Some (True, s')
       \<and> CfixpModule s' = Module \<and> DbgLockExists s' \<and> DefaultLockExists s'
       \<and> distinct [SlotForFilament s', SlotForStorage s', SlotForCc s']
       \<and> UsedSlots (Sys s') = {SlotForFilament s', SlotForStorage s', SlotForCc s'} \<union> UsedSlots (Sys s)
       \<and> (\<exists>s''. DllMain_cfix Module dup me DLL_PROCESS_DETACH s' = Some (True, s'')
            \<and> UsedSlots (Sys s'') = UsedSlots (Sys s) \<and> set (FreeSlots (Sys s'')) = set (FreeSlots (Sys s))
            \<and> \<not> DbgLockExists s'' \<and> \<not> DefaultLockExists s'')"
  using assms(1)
proof (cases rule: slots_ok_cases)
  case (4 a b c cs)
  then show ?thesis
    by (auto simp: load_dll_def DllMain_cfix_def setup_stack_traces_def setup_filament_tls_def TlsAlloc_def
        teardown_stack_traces_def CfixpTeardownFilamentTls_def TlsFree_def)
qed (use assms(2) in auto)

text \<open>
  With fewer, attaching fails with the slots that were there taken and the lock of the default
  filament in place; and the call to detach the library, which the loader makes then, deletes the
  lock of stack traces a second time.
\<close>

lemma cfix_load_fails_badly:
  assumes "slots_ok (Sys s)" and "length (FreeSlots (Sys s)) < 3"
  shows "\<exists>s'. DllMain_cfix Module dup me DLL_PROCESS_ATTACH s = Some (False, s')
       \<and> FreeSlots (Sys s') = [] \<and> UsedSlots (Sys s') = set (FreeSlots (Sys s)) \<union> UsedSlots (Sys s)
       \<and> DefaultLockExists s' \<and> \<not> DbgLockExists s'"
    and "load_dll (DllMain_cfix Module dup me) s = None"
proof -
  have "(\<exists>s'. DllMain_cfix Module dup me DLL_PROCESS_ATTACH s = Some (False, s')
       \<and> FreeSlots (Sys s') = [] \<and> UsedSlots (Sys s') = set (FreeSlots (Sys s)) \<union> UsedSlots (Sys s)
       \<and> DefaultLockExists s' \<and> \<not> DbgLockExists s')
     \<and> load_dll (DllMain_cfix Module dup me) s = None"
    using assms(1)
  proof (cases rule: slots_ok_cases)
    case (4 a b c cs)
    with assms(2) show ?thesis by simp
  qed (auto simp: load_dll_def DllMain_cfix_def setup_stack_traces_def setup_filament_tls_def TlsAlloc_def
      teardown_stack_traces_def)
  then show "\<exists>s'. DllMain_cfix Module dup me DLL_PROCESS_ATTACH s = Some (False, s')
       \<and> FreeSlots (Sys s') = [] \<and> UsedSlots (Sys s') = set (FreeSlots (Sys s)) \<union> UsedSlots (Sys s)
       \<and> DefaultLockExists s' \<and> \<not> DbgLockExists s'"
    and "load_dll (DllMain_cfix Module dup me) s = None" by blast+
qed

text \<open>The loader library of kernel mode takes one slot or none, and either way leaves none behind.\<close>

lemma cfixkl_loads_and_unloads:
  assumes "slots_ok (KlSys s)"
  shows "\<exists>ok s' s''. load_dll DllMain_cfixkl s = Some (ok, s') \<and> (ok \<longleftrightarrow> FreeSlots (KlSys s) \<noteq> [])
       \<and> (\<not> ok \<longrightarrow> KlSys s' = KlSys s)
       \<and> DllMain_cfixkl DLL_PROCESS_DETACH s' = Some (True, s'') \<and> UsedSlots (KlSys s'') = UsedSlots (KlSys s)"
  using assms
  by (cases rule: slots_ok_cases)
    (auto simp: load_dll_def DllMain_cfixkl_def CfixklpSetupTestTls_def CfixklpTeardownTestTls_def TlsAlloc_def
      TlsFree_def)

end
