(* ===== verification/Spec2Isabelle.thy ===== *)
theory Spec2Isabelle
  imports Prelude ExecIface TsExec TsTrace SequenceAction SequenceRun Filament FilamentInv
    RptStubs PeRun PeRunInv ExecCtx EventEmitter PeLoad PeLoadProps
    Hashtable HashtableMap HashtableProps Session SessionProps
    KernelFilament KernelFilamentInv KernelThread Connection ConnectionInv KernelReport KernelReportInv
    FormatStr FormatStrInv Formatter FormatterInv RegConfigStore RegConfigStoreInv
    MsgResolver MsgResolverInv
    FileSearch FileSearchInv CmdLine CmdLineInv Selection SelectionInv SelectionRun
    ConnectionLive DrvTestAdp KlIoctl KlModule Reflector KlModuleInv KernelPath KernelEvents KlModuleRun
    KlLoad KlLoadInv PeQuery PeQueryInv EventSink EventSinkInv
    Threads ThreadsInv DiagHandlers DiagHandlersInv
    StackTrace StackTraceInv RunnerMain RunnerMainInv CfixCmd CfixCmdInv DriverLife DriverLifeInv
    LinkedList LinkedListInv DllEntry
begin

text \<open>
  A model of cfix, a framework for unit tests in C and C++ on Windows, in user and in kernel mode.

  \<^bold>\<open>The program.\<close> A test DLL exports fixtures; a fixture has test cases and optional setup, teardown,
  before and after routines. The runner (\<open>cfix/cfixrun\<close>) parses its command line, searches a directory
  for modules, loads them (\<open>cfix/cfix/pe.c\<close>), selects fixtures and collects an execution action for each
  in a sequence action (\<open>tsexecaction.c\<close>, \<open>sequenceaction.c\<close>). Running an action calls the routines of
  the module and tells an execution context of every step; inside a routine, assertions find their
  context through the filament of their thread (\<open>filament.c\<close>, \<open>rptstubs.c\<close>). The context of the runner
  (\<open>execctx.c\<close>) decides what a failure leads to, and a proxy (\<open>eventemitter.c\<close>) copies every event to a
  sink. Kernel mode fixtures live in a driver; the loader library (\<open>cfixkern/cfixkl\<close>) makes modules of
  them and calls their routines through requests to the reflector driver (\<open>cfixkern/cfixkr\<close>), which keeps a
  connection for each test driver and brings the reports of its routines back in a buffer of events. The
  library cdiag formats messages, stores settings in the registry and dispatches diagnostic events; jpht
  is the hash table that several of them use.

  \<^bold>\<open>Conventions\<close> (\<open>Prelude\<close>). Status codes, flags, counts and pointers are words of their width. State is
  passed explicitly; objects with function pointers are records of functions over a state (\<open>ExecIface\<close>).
  A result in \<open>option\<close> is \<open>None\<close> where the code does not return or leaves defined behaviour (a call that
  never returns, an access outside an object); errors are values. Functions of Windows, of the C runtime
  and of the boot environment are arguments, and what is assumed of them is a hypothesis of the theorems
  that need it. Assertions are absent, as in a release build.

  \<^bold>\<open>User mode.\<close>
  \<^item> \<open>TsExec\<close>, \<open>TsTrace\<close>: the run of one fixture (\<open>tsexecaction.c\<close>). The callback protocol, which cases are
    run and in which order, what an abort or a failure with short-circuit flags ends.
  \<^item> \<open>SequenceAction\<close>, \<open>SequenceRun\<close>: actions as reference counted objects in a heap
    (\<open>sequenceaction.c\<close>); the contract of an action is the locale \<open>cfix_action\<close>, interpreted for fixture
    actions and for nested sequences. The dispatch has fuel; the nesting depth of the sequence is enough,
    and two sequences that contain each other are shown never to return.
  \<^item> \<open>Filament\<close>, \<open>FilamentInv\<close>: thread local filaments, child threads, the default filament and storage
    (\<open>filament.c\<close>, \<open>tls.c\<close>); an invariant on reference counts over all reachable states.
  \<^item> \<open>Threads\<close>, \<open>ThreadsInv\<close>: child threads (\<open>thread.c\<close>), their filament and what the context hears of them.
  \<^item> \<open>RptStubs\<close>, \<open>PeRun\<close>, \<open>PeRunInv\<close>: reports and the exception filter (\<open>rptstubs.c\<close>), and the routines of
    a DLL module (\<open>pe.c\<close>): verdicts of assertions and exceptions, result codes, filaments restored.
  \<^item> \<open>PeLoad\<close>, \<open>PeLoadProps\<close>: the walk over the exports of an image and the construction of fixtures
    (\<open>pe.c\<close>); what is refused with which code, and that no block is lost.
  \<^item> \<open>PeQuery\<close>, \<open>PeQueryInv\<close>: looking into an image without loading it (\<open>pequery.c\<close>), over the bytes of
    the file; what is announced agrees with what the loader finds.
  \<^item> \<open>ExecCtx\<close>, \<open>EventEmitter\<close>: context, statistics and exit code of the runner (\<open>execctx.c\<close>, \<open>main.c\<close>), and
    the proxy (\<open>eventemitter.c\<close>): transparency, naming of events, what the exit code cannot say.
  \<^item> \<open>EventSink\<close>, \<open>EventSinkInv\<close>: the sink that prints to the console (\<open>cfixcons/eventsink.c\<close>) and its
    loading; what it announces, joined with the proxy, and that a stack trace fits its buffer.
  \<^item> \<open>CmdLine\<close>, \<open>CmdLineInv\<close>: the options and their parser (\<open>cmdline.c\<close>), and their round trip.
  \<^item> \<open>FileSearch\<close>, \<open>FileSearchInv\<close>: the walk over directories (\<open>cfixutil/search.c\<close>, \<open>dllsearch.c\<close>) against
    a tree of files. Its fuel is the depth of directories; since full paths grow and are shorter than
    \<open>MAX_PATH\<close>, 262 levels are enough.
  \<^item> \<open>Selection\<close>, \<open>SelectionInv\<close>, \<open>SelectionRun\<close>: filter, creation and collection of actions (\<open>runtest.c\<close>,
    \<open>fixturesearch.c\<close>, \<open>displayaction.c\<close>); the locale \<open>fixture_actions\<close> is what the two kinds of actions
    share. Composed with the search and with the refinement of sequences: what is selected is run.
  \<^item> \<open>StackTrace\<close>, \<open>StackTraceInv\<close>: capturing stack traces and resolving their frames (\<open>stacktrace.c\<close> of
    \<open>cfix\<close> and of \<open>cfixkr\<close>); over all histories of captured frames the lock is free again, and where it is not.
  \<^item> \<open>RunnerMain\<close>, \<open>RunnerMainInv\<close>: the main routine (\<open>cfixrun/main.c\<close>), composed of the parts above in one
    state: from the options to the exit code, and what is released.
  \<^item> \<open>CfixCmd\<close>, \<open>CfixCmdInv\<close>: the program \<open>cfix\<close> (\<open>cfixcmd/main.c\<close>), the version in its banner
    (\<open>cdiag/version.c\<close>), and the way into an executable with tests (\<open>cfixpe.h\<close>, \<open>embmain.c\<close>): the
    command reaches the main routine in the process it spawned.
  \<^item> \<open>DllEntry\<close>: the entry points of \<open>cfix\<close>, \<open>cfixkl\<close> and \<open>cdiag\<close> (\<open>main.c\<close> of each): what attaching takes,
    detaching gives back, and what is left when a slot of thread local storage is missing.

  \<^bold>\<open>Kernel mode.\<close>
  \<^item> \<open>KernelFilament\<close>, \<open>KernelFilamentInv\<close>: the registry of filaments and the call of a routine
    (\<open>cfixkr/filament.c\<close>, \<open>thread.c\<close>, \<open>drvconn.c\<close>); an invariant over all reachable registries.
  \<^item> \<open>KernelThread\<close>: the creation of system threads (\<open>cfixkr/thread.c\<close>), in the context of the caller or of
    the system.
  \<^item> \<open>Connection\<close>, \<open>ConnectionInv\<close>, \<open>ConnectionLive\<close>: the registry of connections (\<open>drvconnreg.c\<close>) and
    the life of one connection as a step relation between any number of callers and the driver
    (\<open>drvconn.c\<close>): exact counts, the windows that are left open, and that a quiet connection is freed.
  \<^item> \<open>KernelReport\<close>, \<open>KernelReportInv\<close>: the event buffer and the reports (\<open>cfixkr/rptstubs.c\<close>).
  \<^item> \<open>DrvTestAdp\<close>, \<open>Reflector\<close>: the description of a driver's fixtures (\<open>drvtestadp.c\<close>) and the requests of
    the device (\<open>cfixkr/main.c\<close>, \<open>util.c\<close>, creation in \<open>drvconn.c\<close>).
  \<^item> \<open>DriverLife\<close>, \<open>DriverLifeInv\<close>: entry and unload of the reflector (\<open>cfixkr/main.c\<close>), the interface it hands
    out, and the code embedded into test drivers (\<open>cfixkdrv/drvmain.c\<close>): what a driver takes when it is
    announced it gives back, and its reports are those of the reflector.
  \<^item> \<open>KlIoctl\<close>, \<open>KlModule\<close>, \<open>KlModuleInv\<close>: the other end (\<open>cfixkl/ioctl.c\<close>, \<open>module.c\<close>).
  \<^item> \<open>KlLoad\<close>, \<open>KlLoadInv\<close>: registering, starting and stopping drivers (\<open>cfixkl/load.c\<close>) and the creation
    and deletion of modules; the service control manager is a parameter, and a log of what it granted
    shows what is left behind.
  \<^item> \<open>KernelPath\<close>, \<open>KernelEvents\<close>, \<open>KlModuleRun\<close>: both ends joined. The description arrives unchanged, the
    reports arrive in order, and what the run of a fixture leaves allocated; the locale \<open>private_calls\<close>
    is interpreted on the device that the reflector implements.

  \<^bold>\<open>Diagnostics and containers.\<close>
  \<^item> \<open>Hashtable\<close>, \<open>HashtableMap\<close>, \<open>HashtableProps\<close>: the hash table (\<open>jpht/hashtable.c\<close>) as a map; the locale
    of keys is interpreted for the clients' keys.
  \<^item> \<open>LinkedList\<close>, \<open>LinkedListInv\<close>: doubly linked lists (\<open>list.h\<close>) over a store of links, and the table on
    top of them: the loops over a bucket end, and what is in memory refines the table of lists. Sequences
    and the message resolver use the same operations on lists that are abstract in their theories.
  \<^item> \<open>Session\<close>, \<open>SessionProps\<close>: sessions, their handlers and the dispatch of events (\<open>session.c\<close>).
  \<^item> \<open>DiagHandlers\<close>, \<open>DiagHandlersInv\<close>: handlers for an output routine and for a text file
    (\<open>outputhandler.c\<close>, \<open>textfilehandler.c\<close>); what is logged can be read back.
  \<^item> \<open>FormatStr\<close>, \<open>FormatStrInv\<close>, \<open>Formatter\<close>, \<open>FormatterInv\<close>: templates (\<open>formatstr.c\<close>) and the table of
    bindings over the bytes of a packet (\<open>formatter.c\<close>); an expansion never overruns its buffer.
  \<^item> \<open>RegConfigStore\<close>, \<open>RegConfigStoreInv\<close>: settings in the registry (\<open>regconfigstore.c\<close>), under the
    documented laws of the registry functions.
  \<^item> \<open>MsgResolver\<close>, \<open>MsgResolverInv\<close>: message DLLs and the order in which they are asked
    (\<open>msgresolver.c\<close>).

  \<^bold>\<open>Not modelled.\<close> The allocation helpers of cdiag, the C++ layer in headers
  (\<open>cfixcc.h\<close>, the WinUnit compatibility), since they have no logic beyond calls of the system or are
  macros of another language; installer, documentation, samples and the test suites of the program, which
  are not part of it.
\<close>

end
